(* ===== verification/Prelude.thy ===== *)
theory Prelude
  imports Complex_Main "HOL-Library.List_Lexorder" "HOL-Library.Char_ord"
begin

text \<open>
  Shared vocabulary of the development: JSON values as Python sees them after
  \<^verbatim>\<open>json.loads\<close>, dictionaries as association lists in insertion order, Python
  string primitives on UTF-8 bytes, and the collections of lemmas that carry the component proofs.

  Strings are lists of bytes: a Python \<^verbatim>\<open>str\<close> is represented by its UTF-8 encoding, so that
  \<^verbatim>\<open>encode()\<close> is the identity, code-point order is byte order, and \<^verbatim>\<open>len\<close> counts
  the bytes that are not continuation bytes. Case folding and white space are those of ASCII.
\<close>

named_theorems trace_intros \<open>introduction rules for facts about the events a program emits\<close>
named_theorems run_simps \<open>equations that run a program on an environment and a trace\<close>

section \<open>JSON values\<close>

text \<open>
  \<open>JFloat r\<close> is a float given by its Python \<^verbatim>\<open>repr\<close>; every other constructor is the
  Python value itself. A dictionary is an association list in insertion order; \<open>jwf\<close> says that
  keys are distinct at every level, as in any Python dictionary.
\<close>

datatype json =
    JNull
  | JBool bool
  | JInt int
  | JFloat string
  | JStr string
  | JArr "json list"
  | JObj "(string \<times> json) list"

type_synonym obj = "(string \<times> json) list"

lemma json_size_obj [termination_simp]:
  "(k, v) \<in> set kvs \<Longrightarrow> size v < Suc (size_list (size_prod (\<lambda>_. 0) size) kvs)"
  by (induction kvs) auto

lemma json_size_arr [termination_simp]:
  "v \<in> set vs \<Longrightarrow> size v < Suc (size_list size vs)"
  by (induction vs) auto

fun jwf :: "json \<Rightarrow> bool" where
  "jwf (JObj kvs) = (distinct (map fst kvs) \<and> (\<forall>(k, v) \<in> set kvs. jwf v))"
| "jwf (JArr vs) = (\<forall>v \<in> set vs. jwf v)"
| "jwf _ = True"

definition is_obj :: "json \<Rightarrow> bool" where
  "is_obj v = (case v of JObj _ \<Rightarrow> True | _ \<Rightarrow> False)"

definition is_arr :: "json \<Rightarrow> bool" where
  "is_arr v = (case v of JArr _ \<Rightarrow> True | _ \<Rightarrow> False)"

definition is_str :: "json \<Rightarrow> bool" where
  "is_str v = (case v of JStr _ \<Rightarrow> True | _ \<Rightarrow> False)"

lemma is_obj_simps [simp]:
  "is_obj (JObj kvs)" "\<not> is_obj JNull" "\<not> is_obj (JBool b)" "\<not> is_obj (JInt i)"
  "\<not> is_obj (JFloat s)" "\<not> is_obj (JStr s)" "\<not> is_obj (JArr vs)"
  by (simp_all add: is_obj_def)

lemma is_arr_simps [simp]:
  "is_arr (JArr vs)" "\<not> is_arr JNull" "\<not> is_arr (JBool b)" "\<not> is_arr (JInt i)"
  "\<not> is_arr (JFloat s)" "\<not> is_arr (JStr s)" "\<not> is_arr (JObj kvs)"
  by (simp_all add: is_arr_def)

lemma is_str_simps [simp]:
  "is_str (JStr s)" "\<not> is_str JNull" "\<not> is_str (JBool b)" "\<not> is_str (JInt i)"
  "\<not> is_str (JFloat s)" "\<not> is_str (JArr vs)" "\<not> is_str (JObj kvs)"
  by (simp_all add: is_str_def)

lemma is_objE [elim!]: "is_obj v \<Longrightarrow> (\<And>kvs. v = JObj kvs \<Longrightarrow> P) \<Longrightarrow> P"
  by (cases v) auto

text \<open>\<open>dget\<close> is \<^verbatim>\<open>d.get(k)\<close> on a value known to be a dictionary; on other values it
  is never consulted by the code without an \<^verbatim>\<open>isinstance\<close> guard.\<close>

definition dget :: "json \<Rightarrow> string \<Rightarrow> json option" where
  "dget v k = (case v of JObj kvs \<Rightarrow> map_of kvs k | _ \<Rightarrow> None)"

definition dget_or :: "json \<Rightarrow> string \<Rightarrow> json \<Rightarrow> json" where
  "dget_or v k d = (case dget v k of None \<Rightarrow> d | Some x \<Rightarrow> x)"

lemma dget_obj [simp]: "dget (JObj kvs) k = map_of kvs k"
  by (simp add: dget_def)

definition dkeys :: "json \<Rightarrow> string list" where
  "dkeys v = (case v of JObj kvs \<Rightarrow> map fst kvs | _ \<Rightarrow> [])"

text \<open>\<open>dput\<close> is \<^verbatim>\<open>d[k] = v\<close>: an existing key keeps its place, a new one is appended.\<close>

fun dput :: "obj \<Rightarrow> string \<Rightarrow> json \<Rightarrow> obj" where
  "dput [] k v = [(k, v)]"
| "dput ((k', v') # kvs) k v = (if k' = k then (k, v) # kvs else (k', v') # dput kvs k v)"

fun dputs :: "obj \<Rightarrow> obj \<Rightarrow> obj" where
  "dputs d [] = d"
| "dputs d ((k, v) # kvs) = dputs (dput d k v) kvs"

definition ddel :: "obj \<Rightarrow> string \<Rightarrow> obj" where
  "ddel d k = filter (\<lambda>(k', _). k' \<noteq> k) d"

lemma map_of_dput [simp]: "map_of (dput d k v) k' = (if k' = k then Some v else map_of d k')"
  by (induction d k v rule: dput.induct) auto

lemma map_of_ddel [simp]: "map_of (ddel d k) k' = (if k' = k then None else map_of d k')"
  by (induction d) (auto simp: ddel_def)

lemma fst_set_dput [simp]: "fst ` set (dput d k v) = insert k (fst ` set d)"
  by (induction d k v rule: dput.induct) auto

lemma distinct_dput [simp]: "distinct (map fst (dput d k v)) = distinct (map fst d)"
  by (induction d k v rule: dput.induct) auto

lemma distinct_ddel: "distinct (map fst d) \<Longrightarrow> distinct (map fst (ddel d k))"
  by (induction d) (auto simp: ddel_def)

lemma jwf_dput: "jwf (JObj d) \<Longrightarrow> jwf v \<Longrightarrow> jwf (JObj (dput d k v))"
  by (induction d k v rule: dput.induct) auto

text \<open>Truth value of an object, as in \<^verbatim>\<open>if value:\<close>.\<close>

fun truthy :: "json \<Rightarrow> bool" where
  "truthy JNull = False"
| "truthy (JBool b) = b"
| "truthy (JInt i) = (i \<noteq> 0)"
| "truthy (JFloat r) = (r \<noteq> ''0.0'' \<and> r \<noteq> ''-0.0'')"
| "truthy (JStr s) = (s \<noteq> [])"
| "truthy (JArr vs) = (vs \<noteq> [])"
| "truthy (JObj kvs) = (kvs \<noteq> [])"

definition truthy_opt :: "json option \<Rightarrow> bool" where
  "truthy_opt v = (case v of None \<Rightarrow> False | Some x \<Rightarrow> truthy x)"

lemma truthy_opt_simps [simp]: "\<not> truthy_opt None" "truthy_opt (Some x) = truthy x"
  by (simp_all add: truthy_opt_def)

section \<open>Bytes and text\<close>

definition code :: "char \<Rightarrow> nat" where
  "code c = (of_char c :: nat)"

definition chr :: "nat \<Rightarrow> char" where
  "chr n = char_of n"

definition in_range :: "char \<Rightarrow> char \<Rightarrow> char \<Rightarrow> bool" where
  "in_range lo hi c = (code lo \<le> code c \<and> code c \<le> code hi)"

definition is_digit :: "char \<Rightarrow> bool" where
  "is_digit c = in_range (CHR ''0'') (CHR ''9'') c"

definition is_hex_lower :: "char \<Rightarrow> bool" where
  "is_hex_lower c = (is_digit c \<or> in_range (CHR ''a'') (CHR ''f'') c)"

definition is_upper :: "char \<Rightarrow> bool" where
  "is_upper c = in_range (CHR ''A'') (CHR ''Z'') c"

definition is_alpha :: "char \<Rightarrow> bool" where
  "is_alpha c = (is_upper c \<or> in_range (CHR ''a'') (CHR ''z'') c)"

definition is_alnum :: "char \<Rightarrow> bool" where
  "is_alnum c = (is_alpha c \<or> is_digit c)"

definition is_hex :: "char \<Rightarrow> bool" where
  "is_hex c = (is_hex_lower c \<or> in_range (CHR ''A'') (CHR ''F'') c)"

definition is_space :: "char \<Rightarrow> bool" where
  "is_space c = (let n = code c in 9 \<le> n \<and> n \<le> 13 \<or> 28 \<le> n \<and> n \<le> 32)"

definition lower_char :: "char \<Rightarrow> char" where
  "lower_char c = (if is_upper c then chr (code c + 32) else c)"

definition lower :: "string \<Rightarrow> string" where
  "lower s = map lower_char s"

definition upper_char :: "char \<Rightarrow> char" where
  "upper_char c = (if in_range (CHR ''a'') (CHR ''z'') c then chr (code c - 32) else c)"

definition upper :: "string \<Rightarrow> string" where
  "upper s = map upper_char s"

definition py_len :: "string \<Rightarrow> nat" where
  "py_len s = length (filter (\<lambda>c. code c div 64 \<noteq> 2) s)"

definition lstrip :: "string \<Rightarrow> string" where
  "lstrip s = dropWhile is_space s"

definition strip :: "string \<Rightarrow> string" where
  "strip s = rev (dropWhile is_space (rev (dropWhile is_space s)))"

definition nonempty_all :: "(char \<Rightarrow> bool) \<Rightarrow> string \<Rightarrow> bool" where
  "nonempty_all p s = (s \<noteq> [] \<and> list_all p s)"

text \<open>\<^verbatim>\<open>s.isdigit()\<close> on ASCII text.\<close>

definition isdigit :: "string \<Rightarrow> bool" where
  "isdigit s = nonempty_all is_digit s"

fun split_on :: "char \<Rightarrow> string \<Rightarrow> string list" where
  "split_on c [] = [[]]"
| "split_on c (x # xs) =
     (if x = c then [] # split_on c xs
      else (case split_on c xs of [] \<Rightarrow> [[x]] | p # ps \<Rightarrow> (x # p) # ps))"

fun join :: "string \<Rightarrow> string list \<Rightarrow> string" where
  "join sep [] = []"
| "join sep [s] = s"
| "join sep (s # t # ss) = s @ sep @ join sep (t # ss)"

definition replace_char :: "char \<Rightarrow> char \<Rightarrow> string \<Rightarrow> string" where
  "replace_char a b s = map (\<lambda>c. if c = a then b else c) s"

fun starts_with :: "string \<Rightarrow> string \<Rightarrow> bool" where
  "starts_with [] s = True"
| "starts_with (p # ps) [] = False"
| "starts_with (p # ps) (c # cs) = (p = c \<and> starts_with ps cs)"

fun infix_of :: "string \<Rightarrow> string \<Rightarrow> bool" where
  "infix_of p [] = (p = [])"
| "infix_of p (c # cs) = (starts_with p (c # cs) \<or> infix_of p cs)"

lemma split_on_nonempty [simp]: "split_on c s \<noteq> []"
  by (induction c s rule: split_on.induct) (auto split: list.splits)

lemma split_on_absent: "c \<notin> set s \<Longrightarrow> split_on c s = [s]"
  by (induction s) auto

lemma split_on_append: "c \<notin> set s \<Longrightarrow> split_on c (s @ c # t) = s # split_on c t"
  by (induction s) auto

lemma join_split_on: "join [c] (split_on c s) = s"
proof (induction c s rule: split_on.induct)
  case (2 c x xs)
  obtain p ps where s: "split_on c xs = p # ps"
    by (cases "split_on c xs") auto
  with 2 show ?case
    by (cases ps) (auto simp: s)
qed simp

lemma length_lower [simp]: "length (lower s) = length s"
  by (simp add: lower_def)

lemma code_chr [simp]: "n < 256 \<Longrightarrow> code (chr n) = n"
  by (simp add: code_def chr_def)

lemma chr_code [simp]: "chr (code c) = c"
  by (simp add: code_def chr_def)

lemma code_char_of [simp]: "code (char_of (n :: int)) = nat (n mod 256)"
proof -
  have "int (code (char_of n)) = (of_char (char_of n :: char) :: int)"
    unfolding code_def by (rule of_nat_of_char)
  also have "\<dots> = n mod 256" by (rule of_char_of)
  finally show ?thesis by linarith
qed

lemma code_less [simp]: "code c < 256"
  by (simp add: code_def)

lemma code_eq_iff: "code a = code b \<longleftrightarrow> a = b"
  by (metis chr_code)

lemma lower_char_not_upper [simp]: "\<not> is_upper (lower_char c)"
proof (cases "is_upper c")
  case True
  then have "65 \<le> code c" "code c \<le> 90"
    by (simp_all add: is_upper_def in_range_def code_def)
  then have "code (chr (code c + 32)) = code c + 32" by simp
  moreover have "code (CHR ''Z'') = 90" by (simp add: code_def)
  ultimately show ?thesis
    using True \<open>65 \<le> code c\<close> by (simp add: lower_char_def is_upper_def in_range_def)
next
  case False
  then show ?thesis by (simp add: lower_char_def)
qed

lemma lower_char_idem [simp]: "lower_char (lower_char c) = lower_char c"
  by (subst lower_char_def) simp

lemma lower_idem [simp]: "lower (lower s) = lower s"
  by (simp add: lower_def comp_def)

end
