(* ===== verification/Effects.thy ===== *)
theory Effects
  imports Prelude
begin

text \<open>
  What a program does to the outside: HTTP requests to a firewall, lines appended to the audit log,
  waiting. A program maps an environment and the trace of events so far to a result (a Python
  exception or a value) and the extended trace. The environment answers each event from the whole
  history, so it stands for any firewall, any concurrent actor and any disk.
  \<open>runs m Q\<close> says that in every environment the result of \<open>m\<close> and the events it adds satisfy \<open>Q\<close>.
\<close>

section \<open>Data\<close>

text \<open>\<^verbatim>\<open>OPNsenseHost\<close> of \<^verbatim>\<open>src/client/opnsense_client.py\<close>.\<close>

record host =
  h_name :: string
  h_url :: string
  h_api_key :: string
  h_api_secret :: string
  h_verify_tls :: bool
  h_ca_bundle_path :: "string option"
  h_connect_timeout :: rat
  h_read_timeout :: rat

text \<open>\<^verbatim>\<open>AuditEntry\<close> of \<^verbatim>\<open>src/writers/audit.py\<close>.\<close>

record audit_entry =
  ae_ts :: string
  ae_user :: string
  ae_action :: string
  ae_target :: string
  ae_host :: string
  ae_result :: string
  ae_duration_ms :: int
  ae_detail :: string
  ae_payload_sha256 :: string

datatype meth = GET | POST

text \<open>
  What one \<^verbatim>\<open>session.request\<close> gives: a \<^verbatim>\<open>RequestException\<close> with its text, or a response
  with its status, its text, and the value of \<^verbatim>\<open>resp.json()\<close> unless that raises.
\<close>

datatype outcome =
    RequestException string
  | Response int string "json option"

datatype event =
    HttpEv host meth string obj "json option" outcome
  | AuditEv audit_entry "string option"
  | SleepEv rat

type_synonym trace = "event list"

text \<open>
  \<open>e_audit\<close> answers an append with the text of the \<^verbatim>\<open>OSError\<close> it raises, if any;
  \<open>e_ms\<close> is the monotonic clock in milliseconds, \<open>e_utc\<close> the UTC time as text,
  and \<open>e_instant\<close> the same time in milliseconds from the start of the calendar.
\<close>

record env =
  e_http :: "trace \<Rightarrow> host \<Rightarrow> meth \<Rightarrow> string \<Rightarrow> obj \<Rightarrow> json option \<Rightarrow> outcome"
  e_audit :: "trace \<Rightarrow> audit_entry \<Rightarrow> string option"
  e_ms :: "trace \<Rightarrow> int"
  e_utc :: "trace \<Rightarrow> string"
  e_instant :: "trace \<Rightarrow> int"

text \<open>
  \<^verbatim>\<open>ManagementError\<close> of \<^verbatim>\<open>src/management/engine.py\<close>; the human-readable text it carries is not
  modelled, every field the program branches on or returns to the client otherwise is.
\<close>

record mgmt_error =
  me_error :: string
  me_status :: int
  me_partial :: bool
  me_stage :: "string option"
  me_audit_failure :: bool
  me_validations :: "(string \<times> string) list"
  me_uuid :: "string option"

datatype exn =
    OPNErr string
  | AuthErr string
  | TimeoutErr string
  | Rejected string "json option"
  | Conflict string
  | UnsafeSync string
  | MgmtErr mgmt_error
  | ValueErr string
  | TypeErr string
  | KeyErr string
  | AttrErr string
  | OSErr string
  | ArithErr string

text \<open>\<^verbatim>\<open>except OPNsenseError\<close> catches the class and its five subclasses.\<close>

fun is_opn :: "exn \<Rightarrow> bool" where
  "is_opn (OPNErr _) = True"
| "is_opn (AuthErr _) = True"
| "is_opn (TimeoutErr _) = True"
| "is_opn (Rejected _ _) = True"
| "is_opn (Conflict _) = True"
| "is_opn (UnsafeSync _) = True"
| "is_opn _ = False"

fun is_os :: "exn \<Rightarrow> bool" where
  "is_os (OSErr _) = True"
| "is_os _ = False"

fun exn_str :: "exn \<Rightarrow> string" where
  "exn_str (OPNErr s) = s"
| "exn_str (AuthErr s) = s"
| "exn_str (TimeoutErr s) = s"
| "exn_str (Rejected s _) = s"
| "exn_str (Conflict s) = s"
| "exn_str (UnsafeSync s) = s"
| "exn_str (MgmtErr e) = me_error e"
| "exn_str (ValueErr s) = s"
| "exn_str (TypeErr s) = s"
| "exn_str (KeyErr s) = s"
| "exn_str (AttrErr s) = s"
| "exn_str (OSErr s) = s"
| "exn_str (ArithErr s) = s"

section \<open>Programs\<close>

type_synonym 'a res = "exn + 'a"
type_synonym 'a io = "env \<Rightarrow> trace \<Rightarrow> 'a res \<times> trace"

definition ret :: "'a \<Rightarrow> 'a io" where
  "ret x = (\<lambda>E tr. (Inr x, tr))"

definition raise :: "exn \<Rightarrow> 'a io" where
  "raise e = (\<lambda>E tr. (Inl e, tr))"

definition bnd :: "'a io \<Rightarrow> ('a \<Rightarrow> 'b io) \<Rightarrow> 'b io" where
  "bnd m f = (\<lambda>E tr. case m E tr of (Inl e, tr') \<Rightarrow> (Inl e, tr') | (Inr x, tr') \<Rightarrow> f x E tr')"

text \<open>\<^verbatim>\<open>try: x = m; except p as e: h(e); else: f(x)\<close>; an exception outside \<open>p\<close> passes.\<close>

definition try_else :: "'a io \<Rightarrow> (exn \<Rightarrow> bool) \<Rightarrow> (exn \<Rightarrow> 'b io) \<Rightarrow> ('a \<Rightarrow> 'b io) \<Rightarrow> 'b io" where
  "try_else m p h f = (\<lambda>E tr. case m E tr of
      (Inl e, tr') \<Rightarrow> if p e then h e E tr' else (Inl e, tr')
    | (Inr x, tr') \<Rightarrow> f x E tr')"

definition try_catch :: "'a io \<Rightarrow> (exn \<Rightarrow> bool) \<Rightarrow> (exn \<Rightarrow> 'a io) \<Rightarrow> 'a io" where
  "try_catch m p h = try_else m p h ret"

definition of_res :: "'a res \<Rightarrow> 'a io" where
  "of_res r = (\<lambda>E tr. (r, tr))"

definition rbnd :: "'a res \<Rightarrow> ('a \<Rightarrow> 'b res) \<Rightarrow> 'b res" where
  "rbnd r f = (case r of Inl e \<Rightarrow> Inl e | Inr x \<Rightarrow> f x)"

definition http :: "host \<Rightarrow> meth \<Rightarrow> string \<Rightarrow> obj \<Rightarrow> json option \<Rightarrow> outcome io" where
  "http h m p ps b = (\<lambda>E tr. let o' = e_http E tr h m p ps b in (Inr o', tr @ [HttpEv h m p ps b o']))"

definition sleep :: "rat \<Rightarrow> unit io" where
  "sleep d = (\<lambda>E tr. (Inr (), tr @ [SleepEv d]))"

definition audit_append :: "audit_entry \<Rightarrow> unit io" where
  "audit_append a = (\<lambda>E tr. let r = e_audit E tr a
     in ((case r of None \<Rightarrow> Inr () | Some msg \<Rightarrow> Inl (OSErr msg)), tr @ [AuditEv a r]))"

definition now_ms :: "int io" where
  "now_ms = (\<lambda>E tr. (Inr (e_ms E tr), tr))"

definition utc_now :: "string io" where
  "utc_now = (\<lambda>E tr. (Inr (e_utc E tr), tr))"

definition instant_now :: "int io" where
  "instant_now = (\<lambda>E tr. (Inr (e_instant E tr), tr))"

section \<open>What a program may do: results and events\<close>

definition runs :: "'a io \<Rightarrow> ('a res \<Rightarrow> trace \<Rightarrow> bool) \<Rightarrow> bool" where
  "runs m Q = (\<forall>E tr. \<exists>r es. m E tr = (r, tr @ es) \<and> Q r es)"

lemma runsI: "(\<And>E tr. \<exists>r es. m E tr = (r, tr @ es) \<and> Q r es) \<Longrightarrow> runs m Q"
  by (simp add: runs_def)

lemma runsD: "runs m Q \<Longrightarrow> \<exists>r es. m E tr = (r, tr @ es) \<and> Q r es"
  by (simp add: runs_def)

lemma runsE:
  assumes "runs m Q" and "m E tr = (r, tr')"
  obtains es where "tr' = tr @ es" and "Q r es"
  using runsD [OF assms(1), of E tr] assms(2) that by auto

lemma runs_conseq: "runs m R \<Longrightarrow> (\<And>r es. R r es \<Longrightarrow> Q r es) \<Longrightarrow> runs m Q"
  unfolding runs_def by metis

lemma runs_conj: "runs m R \<Longrightarrow> runs m Q \<Longrightarrow> runs m (\<lambda>r es. R r es \<and> Q r es)"
  unfolding runs_def by (metis Pair_inject same_append_eq)

lemma runs_ret [simp]: "runs (ret x) Q = Q (Inr x) []"
  by (simp add: runs_def ret_def)

lemma runs_raise [simp]: "runs (raise e) Q = Q (Inl e) []"
  by (simp add: runs_def raise_def)

lemma runs_of_res [simp]: "runs (of_res r) Q = Q r []"
  by (simp add: runs_def of_res_def)

lemma runs_bnd:
  assumes m: "runs m R"
    and err: "\<And>e es. R (Inl e) es \<Longrightarrow> Q (Inl e) es"
    and ok: "\<And>x es. R (Inr x) es \<Longrightarrow> runs (f x) (\<lambda>r es'. Q r (es @ es'))"
  shows "runs (bnd m f) Q"
proof (rule runsI)
  fix E tr
  obtain r es where r: "m E tr = (r, tr @ es)" "R r es"
    using runsD [OF m, of E tr] by blast
  show "\<exists>r es. bnd m f E tr = (r, tr @ es) \<and> Q r es"
  proof (cases r)
    case (Inl e)
    with r err show ?thesis by (auto simp: bnd_def)
  next
    case (Inr x)
    with r have "runs (f x) (\<lambda>r es'. Q r (es @ es'))" by (simp add: ok)
    from runsD [OF this, of E "tr @ es"] Inr r show ?thesis by (auto simp: bnd_def)
  qed
qed

lemma runs_try_else:
  assumes m: "runs m R"
    and pass: "\<And>e es. R (Inl e) es \<Longrightarrow> \<not> p e \<Longrightarrow> Q (Inl e) es"
    and err: "\<And>e es. R (Inl e) es \<Longrightarrow> p e \<Longrightarrow> runs (h e) (\<lambda>r es'. Q r (es @ es'))"
    and ok: "\<And>x es. R (Inr x) es \<Longrightarrow> runs (f x) (\<lambda>r es'. Q r (es @ es'))"
  shows "runs (try_else m p h f) Q"
proof (rule runsI)
  fix E tr
  obtain r es where r: "m E tr = (r, tr @ es)" "R r es"
    using runsD [OF m, of E tr] by blast
  show "\<exists>r es. try_else m p h f E tr = (r, tr @ es) \<and> Q r es"
  proof (cases r)
    case (Inl e)
    show ?thesis
    proof (cases "p e")
      case False
      with Inl r pass show ?thesis by (auto simp: try_else_def)
    next
      case True
      with Inl r err have "runs (h e) (\<lambda>r es'. Q r (es @ es'))" by simp
      from runsD [OF this, of E "tr @ es"] True Inl r show ?thesis by (auto simp: try_else_def)
    qed
  next
    case (Inr x)
    with r have "runs (f x) (\<lambda>r es'. Q r (es @ es'))" by (simp add: ok)
    from runsD [OF this, of E "tr @ es"] Inr r show ?thesis by (auto simp: try_else_def)
  qed
qed

lemma runs_try_catch:
  assumes "runs m R"
    and "\<And>e es. R (Inl e) es \<Longrightarrow> \<not> p e \<Longrightarrow> Q (Inl e) es"
    and "\<And>e es. R (Inl e) es \<Longrightarrow> p e \<Longrightarrow> runs (h e) (\<lambda>r es'. Q r (es @ es'))"
    and "\<And>x es. R (Inr x) es \<Longrightarrow> Q (Inr x) es"
  shows "runs (try_catch m p h) Q"
  unfolding try_catch_def by (rule runs_try_else [OF assms(1)]) (use assms in auto)

lemma runs_http: "(\<And>o'. Q (Inr o') [HttpEv h m p ps b o']) \<Longrightarrow> runs (http h m p ps b) Q"
  by (simp add: runs_def http_def Let_def)

lemma runs_sleep [simp]: "runs (sleep d) Q = Q (Inr ()) [SleepEv d]"
  by (simp add: runs_def sleep_def)

lemma runs_audit_append:
  "Q (Inr ()) [AuditEv a None] \<Longrightarrow> (\<And>msg. Q (Inl (OSErr msg)) [AuditEv a (Some msg)]) \<Longrightarrow>
   runs (audit_append a) Q"
  by (auto simp: runs_def audit_append_def Let_def split: option.splits)

lemma runs_now_ms: "(\<And>t. Q (Inr t) []) \<Longrightarrow> runs now_ms Q"
  by (simp add: runs_def now_ms_def)

lemma runs_utc_now: "(\<And>t. Q (Inr t) []) \<Longrightarrow> runs utc_now Q"
  by (simp add: runs_def utc_now_def)

lemma runs_if: "(c \<Longrightarrow> runs m Q) \<Longrightarrow> (\<not> c \<Longrightarrow> runs m' Q) \<Longrightarrow> runs (if c then m else m') Q"
  by simp

lemma bnd_of_res [simp]: "bnd (of_res (Inr x)) f = f x" "bnd (of_res (Inl e)) f = of_res (Inl e)"
  by (simp_all add: bnd_def of_res_def)

section \<open>Kinds of events\<close>

fun is_post :: "event \<Rightarrow> bool" where
  "is_post (HttpEv _ POST _ _ _ _) = True"
| "is_post _ = False"

fun is_http :: "event \<Rightarrow> bool" where
  "is_http (HttpEv _ _ _ _ _ _) = True"
| "is_http _ = False"

text \<open>A line that reached the audit log.\<close>

fun is_logged :: "event \<Rightarrow> bool" where
  "is_logged (AuditEv _ None) = True"
| "is_logged _ = False"

definition posts :: "trace \<Rightarrow> trace" where
  "posts es = filter is_post es"

definition audit_lines :: "trace \<Rightarrow> audit_entry list" where
  "audit_lines es = concat (map (\<lambda>e. case e of AuditEv a None \<Rightarrow> [a] | _ \<Rightarrow> []) es)"

definition silent :: "trace \<Rightarrow> bool" where
  "silent es = (posts es = [])"

lemma posts_append [simp]: "posts (es @ es') = posts es @ posts es'"
  by (simp add: posts_def)

lemma posts_simps [simp]:
  "posts [] = []" "posts (SleepEv d # es) = posts es" "posts (AuditEv a r # es) = posts es"
  "posts (HttpEv h GET p ps b o' # es) = posts es"
  "posts (HttpEv h POST p ps b o' # es) = HttpEv h POST p ps b o' # posts es"
  by (simp_all add: posts_def)

lemma silent_simps [simp]: "silent []" "silent (es @ es') = (silent es \<and> silent es')"
  by (auto simp: silent_def)

lemma silent_Cons: "silent (e # es) = (\<not> is_post e \<and> silent es)"
  by (auto simp: silent_def posts_def)

lemma audit_lines_append [simp]: "audit_lines (es @ es') = audit_lines es @ audit_lines es'"
  by (simp add: audit_lines_def)

lemma audit_lines_simps [simp]:
  "audit_lines [] = []" "audit_lines (SleepEv d # es) = audit_lines es"
  "audit_lines (HttpEv h m p ps b o' # es) = audit_lines es"
  "audit_lines (AuditEv a None # es) = a # audit_lines es"
  "audit_lines (AuditEv a (Some msg) # es) = audit_lines es"
  by (simp_all add: audit_lines_def)

text \<open>Every POST comes after a line of the audit log that satisfies \<open>P\<close>.\<close>

fun logged :: "(audit_entry \<Rightarrow> bool) \<Rightarrow> event \<Rightarrow> bool" where
  "logged P (AuditEv a None) = P a"
| "logged P _ = False"

fun audited :: "(audit_entry \<Rightarrow> bool) \<Rightarrow> trace \<Rightarrow> bool" where
  "audited P [] = True"
| "audited P (e # es) = (logged P e \<or> \<not> is_post e \<and> audited P es)"

lemma logged_not_post: "logged P e \<Longrightarrow> \<not> is_post e"
  by (cases e) auto

lemma audited_iff: "audited P es \<longleftrightarrow>
  (\<forall>xs e ys. es = xs @ e # ys \<and> is_post e \<longrightarrow> (\<exists>a \<in> set xs. logged P a))"
proof (induction es)
  case (Cons e es)
  show ?case
  proof
    assume a: "audited P (e # es)"
    show "\<forall>xs f ys. e # es = xs @ f # ys \<and> is_post f \<longrightarrow> (\<exists>a \<in> set xs. logged P a)"
      using a Cons logged_not_post by (auto simp: Cons_eq_append_conv)
  next
    assume all: "\<forall>xs f ys. e # es = xs @ f # ys \<and> is_post f \<longrightarrow> (\<exists>a \<in> set xs. logged P a)"
    show "audited P (e # es)"
    proof (cases "logged P e")
      case False
      have "\<not> is_post e" using all [THEN spec [of _ "[]"]] by auto
      moreover have "audited P es"
        unfolding Cons
      proof (intro allI impI)
        fix xs f ys assume f: "es = xs @ f # ys \<and> is_post f"
        then have "e # es = (e # xs) @ f # ys \<and> is_post f" by simp
        then have "\<exists>a \<in> set (e # xs). logged P a" using all by blast
        with False show "\<exists>a \<in> set xs. logged P a" by auto
      qed
      ultimately show ?thesis by simp
    qed simp
  qed
qed simp

lemma audited_silent: "silent es \<Longrightarrow> audited P es"
  by (induction es) (auto simp: silent_Cons)

lemma audited_append:
  "audited P (es @ es') = (audited P es \<and> ((\<exists>e \<in> set es. logged P e) \<or> audited P es'))"
  by (induction es) (auto dest: logged_not_post)

text \<open>The requests that may change something, as the node and path they went to.\<close>

definition target_of :: "event \<Rightarrow> (host \<times> string) list" where
  "target_of e = (case e of HttpEv h POST p _ _ _ \<Rightarrow> [(h, p)] | _ \<Rightarrow> [])"

definition targets :: "trace \<Rightarrow> (host \<times> string) list" where
  "targets es = concat (map target_of es)"

lemma targets_append [simp]: "targets (es @ es') = targets es @ targets es'"
  by (simp add: targets_def)

lemma targets_simps [simp]:
  "targets [] = []" "targets (SleepEv d # es) = targets es" "targets (AuditEv a r # es) = targets es"
  "targets (HttpEv h GET p ps b o' # es) = targets es"
  "targets (HttpEv h POST p ps b o' # es) = (h, p) # targets es"
  by (simp_all add: targets_def target_of_def)

lemma silent_targets: "silent es = (targets es = [])"
proof (induction es)
  case (Cons e es)
  then show ?case
    by (cases e rule: is_post.cases)
      (auto simp: silent_Cons targets_def target_of_def split: meth.splits)
qed simp

end
