(* ===== verification/Pylib.thy ===== *)
theory Pylib
  imports Prelude "HOL-Library.Multiset"
begin

text \<open>
  The pieces of the Python standard library the program leans on: \<^verbatim>\<open>int(..)\<close> and
  \<^verbatim>\<open>str(..)\<close> of JSON values, equality of values, \<^verbatim>\<open>json.dumps\<close> in the canonical form the
  audit hash uses, \<^verbatim>\<open>uuid.UUID\<close> as far as the code observes it.
\<close>

section \<open>Decimal text\<close>

function dec_str :: "int \<Rightarrow> string" where
  "dec_str n = (if n < 10 then [char_of (48 + n)] else dec_str (n div 10) @ [char_of (48 + n mod 10)])"
  by pat_completeness auto
termination
  by (relation "measure nat") auto

declare dec_str.simps [simp del]

definition int_str :: "int \<Rightarrow> string" where
  "int_str i = (if i < 0 then ''-'' @ dec_str (- i) else dec_str i)"

definition digit_val :: "char \<Rightarrow> int" where
  "digit_val c = of_char c - 48"

fun dec_val :: "int \<Rightarrow> string \<Rightarrow> int" where
  "dec_val acc [] = acc"
| "dec_val acc (c # cs) = dec_val (10 * acc + digit_val c) cs"

text \<open>Digits with single underscores between them, as \<^verbatim>\<open>int()\<close> accepts.\<close>

fun digits_us :: "string \<Rightarrow> bool" where
  "digits_us [] = False"
| "digits_us [c] = is_digit c"
| "digits_us (c # d # cs) =
     (is_digit c \<and> (if d = CHR ''_'' then digits_us cs else digits_us (d # cs)))"

definition unsigned_val :: "string \<Rightarrow> int option" where
  "unsigned_val s = (if digits_us s then Some (dec_val 0 (filter (\<lambda>c. c \<noteq> CHR ''_'') s)) else None)"

text \<open>\<^verbatim>\<open>int(s)\<close> on a string: surrounding white space, an optional sign, decimal digits.\<close>

definition py_int :: "string \<Rightarrow> int option" where
  "py_int s = (case strip s of
      [] \<Rightarrow> None
    | c # cs \<Rightarrow>
        if c = CHR ''-'' then map_option uminus (unsigned_val cs)
        else if c = CHR ''+'' then unsigned_val cs
        else unsigned_val (c # cs))"

text \<open>\<^verbatim>\<open>int(s)\<close>, if it does not raise \<^verbatim>\<open>ValueError\<close>: more than 4300 digits do.\<close>

definition int_of_text :: "string \<Rightarrow> int option" where
  "int_of_text s = (if length (filter is_digit s) > 4300 then None else py_int s)"

lemma code_digit [simp]: "0 \<le> d \<Longrightarrow> d < 10 \<Longrightarrow> code (char_of (48 + d :: int)) = nat (48 + d)"
  by simp

lemma of_char_digit [simp]: "0 \<le> d \<Longrightarrow> d < 10 \<Longrightarrow> digit_val (char_of (48 + d)) = d"
  by (simp add: digit_val_def)

lemma is_digit_char_of [simp]: "0 \<le> d \<Longrightarrow> d < 10 \<Longrightarrow> is_digit (char_of (48 + d :: int))"
proof -
  assume d: "0 \<le> d" "d < 10"
  have "code (CHR ''0'') = 48" "code (CHR ''9'') = 57" by (simp_all add: code_def)
  with d show ?thesis by (auto simp: is_digit_def in_range_def le_nat_iff nat_le_iff)
qed

lemma dec_val_append: "dec_val acc (s @ t) = dec_val (dec_val acc s) t"
  by (induction acc s rule: dec_val.induct) auto

lemma dec_str_digits: "0 \<le> n \<Longrightarrow> dec_str n \<noteq> [] \<and> list_all is_digit (dec_str n)"
proof (induction n rule: dec_str.induct)
  case (1 n)
  then show ?case by (cases "n < 10") (auto simp: dec_str.simps [of n])
qed

lemma dec_val_dec_str: "0 \<le> n \<Longrightarrow> dec_val 0 (dec_str n) = n"
proof (induction n rule: dec_str.induct)
  case (1 n)
  show ?case
  proof (cases "n < 10")
    case True
    with 1 show ?thesis by (simp add: dec_str.simps [of n])
  next
    case False
    with 1 have "dec_val 0 (dec_str (n div 10)) = n div 10" by simp
    with False 1 show ?thesis
      by (simp add: dec_str.simps [of n] dec_val_append)
  qed
qed

lemma not_digit_us [simp]: "\<not> is_digit (CHR ''_'')" "\<not> is_digit (CHR ''-'')" "\<not> is_digit (CHR ''+'')"
  by (simp_all add: is_digit_def in_range_def code_def)

lemma digits_us_digits: "s \<noteq> [] \<Longrightarrow> list_all is_digit s \<Longrightarrow> digits_us s"
  by (induction s rule: digits_us.induct) auto

lemma unsigned_dec_str: "0 \<le> n \<Longrightarrow> unsigned_val (dec_str n) = Some n"
proof -
  assume n: "0 \<le> n"
  then have "filter (\<lambda>c. c \<noteq> CHR ''_'') (dec_str n) = dec_str n"
    using dec_str_digits [OF n] by (auto simp: list_all_iff intro!: filter_True)
  with n show ?thesis
    by (simp add: unsigned_val_def digits_us_digits dec_str_digits dec_val_dec_str)
qed

lemma digit_not_space: "is_digit c \<Longrightarrow> \<not> is_space c"
  by (auto simp: is_digit_def in_range_def is_space_def code_def)

lemma strip_no_space:
  assumes "s \<noteq> []" "\<not> is_space (hd s)" "\<not> is_space (last s)"
  shows "strip s = s"
proof -
  have "dropWhile is_space s = s" using assms by (cases s) auto
  moreover have "dropWhile is_space (rev s) = rev s"
    using assms by (cases s rule: rev_cases) auto
  ultimately show ?thesis by (simp add: strip_def)
qed

text \<open>Printing an integer and reading it back gives the integer.\<close>

lemma py_int_int_str: "py_int (int_str i) = Some i"
proof -
  have strip: "strip (p @ dec_str n) = p @ dec_str n" if "0 \<le> n" "p = [] \<or> p = ''-''" for n p
  proof (rule strip_no_space)
    note d = dec_str_digits [OF \<open>0 \<le> n\<close>]
    show "p @ dec_str n \<noteq> []" using d by simp
    show "\<not> is_space (last (p @ dec_str n))"
      using d by (auto simp: list_all_iff digit_not_space)
    have "\<not> is_space (CHR ''-'')" by (simp add: is_space_def code_def)
    then show "\<not> is_space (hd (p @ dec_str n))"
      using d that(2) by (auto simp: list_all_iff digit_not_space)
  qed
  show ?thesis
  proof (cases "i < 0")
    case True
    then show ?thesis
      using strip [of "- i" "''-''"] by (simp add: py_int_def int_str_def unsigned_dec_str)
  next
    case False
    then obtain c cs where c: "dec_str i = c # cs" "is_digit c"
      using dec_str_digits [of i] by (cases "dec_str i") auto
    then have "c \<noteq> CHR ''-''" "c \<noteq> CHR ''+''" by auto
    with False c strip [of i "[]"] unsigned_dec_str [of i] show ?thesis
      by (simp add: py_int_def int_str_def)
  qed
qed

section \<open>Text of JSON values\<close>

definition hex2 :: "char \<Rightarrow> string" where
  "hex2 c = (let n = code c; h = (\<lambda>d. if d < 10 then chr (48 + d) else chr (87 + d))
             in [h (n div 16), h (n mod 16)])"

text \<open>The escapes of \<^verbatim>\<open>json.dumps(.., ensure_ascii=False)\<close>.\<close>

definition esc_json :: "char \<Rightarrow> string" where
  "esc_json c =
     (if c = CHR 0x22 then [CHR 0x5C, CHR 0x22] else if c = CHR 0x5C then [CHR 0x5C, CHR 0x5C]
      else if c = CHR 0x0A then CHR 0x5C # ''n'' else if c = CHR 0x0D then CHR 0x5C # ''r''
      else if c = CHR 0x09 then CHR 0x5C # ''t'' else if c = CHR 0x0C then CHR 0x5C # ''f''
      else if c = CHR 0x08 then CHR 0x5C # ''b''
      else if code c < 32 then CHR 0x5C # ''u00'' @ hex2 c
      else [c])"

definition quote_json :: "string \<Rightarrow> string" where
  "quote_json s = CHR 0x22 # concat (map esc_json s) @ [CHR 0x22]"

definition float_json :: "string \<Rightarrow> string" where
  "float_json r = (if r = ''nan'' then ''NaN'' else if r = ''inf'' then ''Infinity''
                   else if r = ''-inf'' then ''-Infinity'' else r)"

text \<open>
  \<open>dumps isep ksep\<close> is \<^verbatim>\<open>json.dumps(v, sort_keys=True, ensure_ascii=False)\<close> with the item
  separator \<open>isep\<close> and the key separator \<open>ksep\<close>.
\<close>

fun dumps :: "string \<Rightarrow> string \<Rightarrow> json \<Rightarrow> string" where
  "dumps isep ksep JNull = ''null''"
| "dumps isep ksep (JBool b) = (if b then ''true'' else ''false'')"
| "dumps isep ksep (JInt i) = int_str i"
| "dumps isep ksep (JFloat r) = float_json r"
| "dumps isep ksep (JStr s) = quote_json s"
| "dumps isep ksep (JArr vs) = ''['' @ join isep (map (dumps isep ksep) vs) @ '']''"
| "dumps isep ksep (JObj kvs) =
     ''{'' @ join isep (map (\<lambda>(k, t). quote_json k @ ksep @ t)
       (sort_key fst (map (\<lambda>(k, v). (k, dumps isep ksep v)) kvs))) @ ''}''"

text \<open>The same value with the keys of every dictionary sorted.\<close>

fun canon :: "json \<Rightarrow> json" where
  "canon (JArr vs) = JArr (map canon vs)"
| "canon (JObj kvs) = JObj (sort_key fst (map (\<lambda>(k, v). (k, canon v)) kvs))"
| "canon v = v"

lemma sort_key_map_snd:
  "sort_key fst (map (\<lambda>(k, v). (k, f v)) kvs) = map (\<lambda>(k, v). (k, f v)) (sort_key fst kvs)"
proof -
  have ins: "insort_key fst (k, f v) (map (\<lambda>(k, v). (k, f v)) ys) =
      map (\<lambda>(k, v). (k, f v)) (insort_key fst (k, v) ys)"
    for k v ys
    by (induction ys) auto
  show ?thesis
    by (induction kvs) (auto simp: ins sort_key_def)
qed

lemma sort_key_sorted_again: "sort_key f (sort_key f xs) = sort_key f xs"
  by (rule sort_key_id_if_sorted) (rule sorted_sort_key)

text \<open>Canonical text depends on the sorted value only.\<close>

lemma dumps_canon: "dumps isep ksep (canon v) = dumps isep ksep v"
proof (induction v rule: canon.induct)
  case (1 vs)
  then have "map (dumps isep ksep) (map canon vs) = map (dumps isep ksep) vs" by simp
  then show ?case by (simp only: canon.simps dumps.simps)
next
  case (2 kvs)
  have eq: "map (\<lambda>(k, v). (k, dumps isep ksep v)) (map (\<lambda>(k, v). (k, canon v)) kvs) =
      map (\<lambda>(k, v). (k, dumps isep ksep v)) kvs"
    using 2 by auto
  show ?case
    unfolding canon.simps dumps.simps sort_key_map_snd [of "dumps isep ksep"] sort_key_sorted_again
    unfolding sort_key_map_snd [of "dumps isep ksep", symmetric] eq ..
qed auto

lemma dumps_perm:
  assumes "mset kvs = mset kvs'" and "distinct (map fst kvs)"
  shows "dumps isep ksep (JObj kvs) = dumps isep ksep (JObj kvs')"
proof -
  let ?g = "\<lambda>(k, v). (k, dumps isep ksep v)"
  have inj: "inj_on fst (set (map ?g kvs'))"
  proof -
    have "distinct (map fst kvs')"
      using assms mset_eq_imp_distinct_iff [of "map fst kvs" "map fst kvs'"] by simp
    then have "distinct (map fst (map ?g kvs'))" by (simp add: comp_def case_prod_beta)
    then show ?thesis by (simp only: distinct_map)
  qed
  have "sort_key fst (map ?g kvs') = sort_key fst (map ?g kvs)"
    by (rule sort_key_inj_key_eq [OF _ inj sorted_sort_key]) (use assms(1) in simp)
  then show ?thesis by simp
qed

text \<open>\<^verbatim>\<open>str(v)\<close> and \<^verbatim>\<open>repr(v)\<close>.\<close>

definition repr_str :: "string \<Rightarrow> string" where
  "repr_str s =
     (let q = (if CHR 0x27 \<in> set s \<and> CHR 0x22 \<notin> set s then CHR 0x22 else CHR 0x27);
          esc = (\<lambda>c. if c = q \<or> c = CHR 0x5C then [CHR 0x5C, c]
                     else if c = CHR 0x0A then CHR 0x5C # ''n'' else if c = CHR 0x0D then CHR 0x5C # ''r''
                     else if c = CHR 0x09 then CHR 0x5C # ''t''
                     else if code c < 32 \<or> code c = 127 then CHR 0x5C # ''x'' @ hex2 c
                     else [c])
      in q # concat (map esc s) @ [q])"

fun py_repr :: "json \<Rightarrow> string" where
  "py_repr JNull = ''None''"
| "py_repr (JBool b) = (if b then ''True'' else ''False'')"
| "py_repr (JInt i) = int_str i"
| "py_repr (JFloat r) = r"
| "py_repr (JStr s) = repr_str s"
| "py_repr (JArr vs) = ''['' @ join '', '' (map py_repr vs) @ '']''"
| "py_repr (JObj kvs) =
     ''{'' @ join '', '' (map (\<lambda>(k, v). repr_str k @ '': '' @ py_repr v) kvs) @ ''}''"

definition py_str :: "json \<Rightarrow> string" where
  "py_str v = (case v of JStr s \<Rightarrow> s | _ \<Rightarrow> py_repr v)"

lemma py_str_simps [simp]:
  "py_str (JStr s) = s" "py_str JNull = ''None''" "py_str (JInt i) = int_str i"
  "py_str (JBool b) = (if b then ''True'' else ''False'')" "py_str (JFloat r) = r"
  by (simp_all add: py_str_def)

section \<open>UUIDs\<close>

text \<open>
  \<^verbatim>\<open>str(UUID(value)) == value.lower()\<close> holds exactly when the lower-cased text is a UUID in
  its canonical form: five groups of 8, 4, 4, 4 and 12 hexadecimal digits.
\<close>

definition canonical_uuid :: "string \<Rightarrow> bool" where
  "canonical_uuid s =
     (map length (split_on (CHR ''-'') s) = [8, 4, 4, 4, 12] \<and>
      list_all (list_all is_hex_lower) (split_on (CHR ''-'') s))"

end
