(* ===== verification/Client.thy ===== *)
theory Client
  imports Effects Pylib
begin

text \<open>
  The HTTP client, \<^verbatim>\<open>src/client/opnsense_client.py\<close>: a GET is retried on connection errors and on
  the transient statuses with exponential backoff, a POST is sent once. \<open>client_get\<close> and
  \<open>client_post\<close> are what every other component calls; the lemmas say what they may send and what
  their results mean.
\<close>

section \<open>The client\<close>

record retry_policy =
  rp_attempts :: nat
  rp_base_delay :: rat
  rp_max_delay :: rat
  rp_retry_status :: "int list"

definition default_retry :: retry_policy where
  "default_retry = \<lparr>rp_attempts = 3, rp_base_delay = 1 / 2, rp_max_delay = 4,
     rp_retry_status = [502, 503, 504]\<rparr>"

text \<open>\<^verbatim>\<open>OPNsenseClient.__init__\<close> refuses anything but HTTPS; the client is the host with a policy.\<close>

record client =
  c_host :: host
  c_retry :: retry_policy

definition mk_client :: "host \<Rightarrow> client res" where
  "mk_client h = (if \<not> starts_with ''https://'' (h_url h)
     then Inl (ValueErr ''OPNsense API requires HTTPS'')
     else Inr \<lparr>c_host = h, c_retry = default_retry\<rparr>)"

definition url_path :: "string \<Rightarrow> string" where
  "url_path p = (if starts_with ''/'' p then p else ''/'' @ p)"

definition meth_str :: "meth \<Rightarrow> string" where
  "meth_str m = (case m of GET \<Rightarrow> ''GET'' | POST \<Rightarrow> ''POST'')"

text \<open>The arrow of the messages, U+2192 in UTF-8.\<close>

definition arrow :: string where
  "arrow = [CHR 0xE2, CHR 0x86, CHR 0x92]"

text \<open>\<^verbatim>\<open>s[:n]\<close> counts code points; continuation bytes belong to the one before.\<close>

fun py_take :: "nat \<Rightarrow> string \<Rightarrow> string" where
  "py_take n [] = []"
| "py_take n (c # cs) =
     (if code c div 64 = 2 then c # py_take n cs
      else case n of 0 \<Rightarrow> [] | Suc k \<Rightarrow> c # py_take k cs)"

text \<open>\<^verbatim>\<open>resp.ok\<close> of \<^verbatim>\<open>requests\<close>: not a client or server error.\<close>

definition resp_ok :: "int \<Rightarrow> bool" where
  "resp_ok status = (\<not> (400 \<le> status \<and> status < 600))"

definition sleep_backoff :: "retry_policy \<Rightarrow> nat \<Rightarrow> unit io" where
  "sleep_backoff rp i = sleep (min (rp_base_delay rp * 2 ^ i) (rp_max_delay rp))"

text \<open>What a response that is not retried becomes.\<close>

definition client_response :: "client \<Rightarrow> meth \<Rightarrow> string \<Rightarrow> int \<Rightarrow> string \<Rightarrow> json option \<Rightarrow> json res" where
  "client_response c m path status text body =
     (let what = meth_str m @ '' '' @ path @ '' '' @ arrow @ '' '' in
      if status = 401 \<or> status = 403 then
        Inl (AuthErr (what @ int_str status @ '' (check api_key/api_secret + user privileges on host '' @
                      h_name (c_host c) @ '')''))
      else if \<not> resp_ok status then
        Inl (OPNErr (what @ ''HTTP '' @ int_str status @ '': '' @ py_take 200 text))
      else case body of
          None \<Rightarrow> Inl (OPNErr (what @ ''non-JSON response: '' @ py_take 200 text))
        | Some v \<Rightarrow> Inr v)"

text \<open>
  The loop of \<^verbatim>\<open>_request\<close>: \<open>attempts\<close> tries in all, \<open>left\<close> of them still to come, so the index
  of the current one is \<open>attempts - left\<close>.
\<close>

fun request_loop ::
  "client \<Rightarrow> meth \<Rightarrow> string \<Rightarrow> obj \<Rightarrow> json option \<Rightarrow> bool \<Rightarrow> nat \<Rightarrow> nat \<Rightarrow> json io" where
  "request_loop c m path ps body retry attempts 0 =
     raise (OPNErr (meth_str m @ '' '' @ path @ '' exhausted retries: None''))"
| "request_loop c m path ps body retry attempts (Suc left) =
     (let i = attempts - Suc left in
      bnd (http (c_host c) m (url_path path) ps body) (\<lambda>out.
      case out of
        RequestException e \<Rightarrow>
          if left = 0 then
            raise (TimeoutErr (meth_str m @ '' '' @ path @ '' failed after '' @ int_str (int attempts) @
                               '' attempt(s): '' @ e))
          else bnd (sleep_backoff (c_retry c) i) (\<lambda>_. request_loop c m path ps body retry attempts left)
      | Response status text v \<Rightarrow>
          if status = 401 \<or> status = 403 then of_res (client_response c m path status text v)
          else if status \<in> set (rp_retry_status (c_retry c)) \<and> retry \<and> left \<noteq> 0 then
            bnd (sleep_backoff (c_retry c) i) (\<lambda>_. request_loop c m path ps body retry attempts left)
          else of_res (client_response c m path status text v)))"

definition request :: "client \<Rightarrow> meth \<Rightarrow> string \<Rightarrow> obj \<Rightarrow> json option \<Rightarrow> bool \<Rightarrow> json io" where
  "request c m path ps body retry =
     (let attempts = (if retry then rp_attempts (c_retry c) else 1)
      in request_loop c m path ps body retry attempts attempts)"

definition client_get :: "client \<Rightarrow> string \<Rightarrow> obj \<Rightarrow> json io" where
  "client_get c path ps = request c GET path ps None True"

text \<open>\<^verbatim>\<open>payload or {}\<close>: an empty payload is sent as an empty object.\<close>

definition client_post :: "client \<Rightarrow> string \<Rightarrow> obj \<Rightarrow> json io" where
  "client_post c path payload = request c POST path [] (Some (JObj payload)) False"

section \<open>What the client sends and returns\<close>

text \<open>One POST, and its result is a function of what came back.\<close>

definition post_result :: "client \<Rightarrow> string \<Rightarrow> outcome \<Rightarrow> json res" where
  "post_result c path out = (case out of
      RequestException e \<Rightarrow> Inl (TimeoutErr (''POST '' @ path @ '' failed after 1 attempt(s): '' @ e))
    | Response status text v \<Rightarrow> client_response c POST path status text v)"

lemma int_str_1 [simp]: "int_str 1 = ''1''"
  by code_simp

lemma client_post_eq:
  "client_post c path d =
     bnd (http (c_host c) POST (url_path path) [] (Some (JObj d))) (\<lambda>out. of_res (post_result c path out))"
proof -
  have raise: "raise e = of_res (Inl e)" for e :: exn
    by (simp add: raise_def of_res_def)
  show ?thesis
    unfolding client_post_def request_def Let_def
    by (auto simp: post_result_def raise meth_str_def intro!: arg_cong [where f = "bnd _"]
        split: outcome.split)
qed

definition posted :: "client \<Rightarrow> string \<Rightarrow> obj \<Rightarrow> outcome \<Rightarrow> event" where
  "posted c path d out = HttpEv (c_host c) POST (url_path path) [] (Some (JObj d)) out"

lemma runs_client_post [trace_intros]:
  "(\<And>out. Q (post_result c path out) [posted c path d out]) \<Longrightarrow> runs (client_post c path d) Q"
  unfolding client_post_eq posted_def by (rule runs_bnd [OF runs_http [where Q = "\<lambda>r es. \<exists>out. r = Inr out \<and>
     es = [HttpEv (c_host c) POST (url_path path) [] (Some (JObj d)) out]"]]) auto

lemma post_result_opn: "post_result c path out = Inl e \<Longrightarrow> is_opn e"
  by (auto simp: post_result_def client_response_def Let_def split: outcome.splits if_splits option.splits)

text \<open>The events of one GET call: requests of that path on that host, and waits between them.\<close>

definition get_event :: "client \<Rightarrow> string \<Rightarrow> obj \<Rightarrow> event \<Rightarrow> bool" where
  "get_event c path ps e = (case e of
      HttpEv h m p ps' b _ \<Rightarrow> h = c_host c \<and> m = GET \<and> p = url_path path \<and> ps' = ps \<and> b = None
    | SleepEv d \<Rightarrow> d \<le> rp_max_delay (c_retry c)
    | AuditEv _ _ \<Rightarrow> False)"

lemma get_event_simps [simp]:
  "get_event c path ps (HttpEv h m p ps' b out) =
     (h = c_host c \<and> m = GET \<and> p = url_path path \<and> ps' = ps \<and> b = None)"
  "get_event c path ps (SleepEv d) = (d \<le> rp_max_delay (c_retry c))"
  "\<not> get_event c path ps (AuditEv a r)"
  by (simp_all add: get_event_def)

text \<open>A value that a GET returned is the body of the last response of the trace.\<close>

definition got :: "client \<Rightarrow> string \<Rightarrow> obj \<Rightarrow> json \<Rightarrow> trace \<Rightarrow> bool" where
  "got c path ps v es =
     (es \<noteq> [] \<and> (\<exists>status text. last es = HttpEv (c_host c) GET (url_path path) ps None
        (Response status text (Some v)) \<and> resp_ok status))"

lemma client_response_Inr: "client_response c m path status text body = Inr v \<Longrightarrow> body = Some v \<and> resp_ok status"
  by (auto simp: client_response_def Let_def split: if_splits option.splits)

lemma client_response_Inl: "client_response c m path status text body = Inl e \<Longrightarrow> is_opn e"
  by (auto simp: client_response_def Let_def split: if_splits option.splits)

lemma runs_get_loop:
  "runs (request_loop c GET path ps None True n left)
     (\<lambda>r es. list_all (get_event c path ps) es \<and> length (filter is_http es) \<le> left \<and>
        (case r of Inl e \<Rightarrow> is_opn e | Inr v \<Rightarrow> got c path ps v es))"
proof (induction left)
  case 0
  then show ?case by simp
next
  case (Suc left)
  let ?ev = "\<lambda>out. HttpEv (c_host c) GET (url_path path) ps None out"
  let ?Q = "\<lambda>r es. list_all (get_event c path ps) es \<and> length (filter is_http es) \<le> Suc left \<and>
        (case r of Inl e \<Rightarrow> is_opn e | Inr v \<Rightarrow> got c path ps v es)"
  have ev: "get_event c path ps (?ev out)" for out by simp
  have more: "runs (bnd (sleep_backoff (c_retry c) i) (\<lambda>_. request_loop c GET path ps None True n left))
      (\<lambda>r es'. ?Q r ([?ev out] @ es'))" for out i
  proof (rule runs_bnd [where R = "\<lambda>r es. r = Inr () \<and> (\<exists>d. es = [SleepEv d] \<and> d \<le> rp_max_delay (c_retry c))"])
    show "runs (sleep_backoff (c_retry c) i)
      (\<lambda>r es. r = Inr () \<and> (\<exists>d. es = [SleepEv d] \<and> d \<le> rp_max_delay (c_retry c)))"
      by (simp add: sleep_backoff_def)
  next
    fix x es assume "Inr x = Inr () \<and> (\<exists>d. es = [SleepEv d] \<and> d \<le> rp_max_delay (c_retry c))"
    then obtain d where es: "es = [SleepEv d]" "d \<le> rp_max_delay (c_retry c)" by blast
    show "runs (request_loop c GET path ps None True n left) (\<lambda>r es'. ?Q r ([?ev out] @ es @ es'))"
      by (rule runs_conseq [OF Suc])
        (use es ev in \<open>auto simp: got_def split: sum.splits\<close>)
  qed simp
  show ?case
    unfolding request_loop.simps Let_def
  proof (rule runs_bnd [OF runs_http [where Q = "\<lambda>r es. \<exists>out. r = Inr out \<and> es = [?ev out]"]])
    fix out es assume "\<exists>out'. Inr out = Inr out' \<and> es = [?ev out']"
    then have es: "es = [?ev out]" by auto
    show "runs (case out of
        RequestException e \<Rightarrow>
          if left = 0 then raise (TimeoutErr (meth_str GET @ '' '' @ path @ '' failed after '' @ int_str (int n) @
                               '' attempt(s): '' @ e))
          else bnd (sleep_backoff (c_retry c) (n - Suc left)) (\<lambda>_. request_loop c GET path ps None True n left)
      | Response status text v \<Rightarrow>
          if status = 401 \<or> status = 403 then of_res (client_response c GET path status text v)
          else if status \<in> set (rp_retry_status (c_retry c)) \<and> True \<and> left \<noteq> 0 then
            bnd (sleep_backoff (c_retry c) (n - Suc left)) (\<lambda>_. request_loop c GET path ps None True n left)
          else of_res (client_response c GET path status text v)) (\<lambda>r es'. ?Q r (es @ es'))"
      unfolding es using more [of "n - Suc left" out] ev
      by (auto simp: got_def split: outcome.splits sum.splits dest: client_response_Inr client_response_Inl)
  qed auto
qed

lemma runs_client_get [trace_intros]:
  assumes "\<And>r es. list_all (get_event c path ps) es \<Longrightarrow>
      (case r of Inl e \<Rightarrow> is_opn e | Inr v \<Rightarrow> got c path ps v es) \<Longrightarrow> Q r es"
  shows "runs (client_get c path ps) Q"
  unfolding client_get_def request_def Let_def
  by (rule runs_conseq [OF runs_get_loop]) (use assms in auto)

lemma get_events_silent: "list_all (get_event c path ps) es \<Longrightarrow> silent es"
  by (induction es) (auto simp: silent_Cons get_event_def split: event.splits meth.splits)

lemma get_events_no_audit: "list_all (get_event c path ps) es \<Longrightarrow> audit_lines es = []"
  by (induction es) (auto simp: audit_lines_def get_event_def split: event.splits option.splits)

text \<open>The bound on requests: at most the policy's attempts for a GET, exactly one for a POST.\<close>

lemma runs_get_requests:
  "runs (client_get c path ps) (\<lambda>r es. length (filter is_http es) \<le> rp_attempts (c_retry c))"
  unfolding client_get_def request_def Let_def
  by (rule runs_conseq [OF runs_get_loop]) auto

section \<open>Programs that only read\<close>

definition read_only_io :: "'a io \<Rightarrow> bool" where
  "read_only_io m = runs m (\<lambda>r es. silent es \<and> audit_lines es = [])"

lemma read_only_ret [trace_intros]: "read_only_io (ret x)" "read_only_io (raise e)" "read_only_io (of_res r)"
  by (simp_all add: read_only_io_def)

lemma read_only_bnd [trace_intros]:
  "read_only_io m \<Longrightarrow> (\<And>x. read_only_io (f x)) \<Longrightarrow> read_only_io (bnd m f)"
  unfolding read_only_io_def by (rule runs_bnd, assumption) (auto elim!: runs_conseq)

lemma read_only_try_else [trace_intros]:
  "read_only_io m \<Longrightarrow> (\<And>e. read_only_io (h e)) \<Longrightarrow> (\<And>x. read_only_io (f x)) \<Longrightarrow>
   read_only_io (try_else m p h f)"
  unfolding read_only_io_def by (rule runs_try_else, assumption) (auto elim!: runs_conseq)

lemma read_only_try_catch [trace_intros]:
  "read_only_io m \<Longrightarrow> (\<And>e. read_only_io (h e)) \<Longrightarrow> read_only_io (try_catch m p h)"
  unfolding try_catch_def by (intro trace_intros) auto

lemma read_only_if [trace_intros]:
  "read_only_io m \<Longrightarrow> read_only_io m' \<Longrightarrow> read_only_io (if c then m else m')"
  by simp

lemma read_only_client_get [trace_intros]: "read_only_io (client_get c path ps)"
  unfolding read_only_io_def
  by (rule runs_client_get) (auto dest: get_events_silent get_events_no_audit)

lemma read_only_sleep [trace_intros]: "read_only_io (sleep d)"
  by (simp add: read_only_io_def silent_Cons)

end
