(* ===== verification/Floats.thy ===== *)
theory Floats
  imports Pylib
begin

text \<open>
  Python's floating-point numbers, as far as the program uses them: \<^verbatim>\<open>float\<close> of a text, the quotient of two integers,
  multiplying and dividing by an integer, \<^verbatim>\<open>round\<close> to some decimals, truncation, and the text \<^verbatim>\<open>repr\<close> gives. A number
  is a sign, a mantissa below \<^verbatim>\<open>2^53\<close> and a power of two, and every operation rounds once, to the nearest such
  number, as IEEE 754 asks for (\<^verbatim>\<open>to_double_proper\<close>, \<^verbatim>\<open>to_double_facts\<close>). Texts are read as ASCII.
\<close>

section \<open>Rounding a fraction\<close>

datatype double = Finite bool int int | Infinite bool | Not_A_Number

function bit_length :: "int \<Rightarrow> nat" where
  "bit_length n = (if n \<le> 0 then 0 else Suc (bit_length (n div 2)))"
  by pat_completeness auto
termination
  by (relation "measure nat") auto

declare bit_length.simps [simp del]

text \<open>The integer next to \<^verbatim>\<open>p/q\<close>; a tie goes to the even one.\<close>

definition half_even :: "int \<Rightarrow> int \<Rightarrow> int" where
  "half_even p q = (let d = p div q; r = p mod q in if 2 * r < q \<or> 2 * r = q \<and> even d then d else d + 1)"

text \<open>The fraction \<^verbatim>\<open>p/q\<close>, divided by \<^verbatim>\<open>b^e\<close>.\<close>

definition scaled :: "int \<Rightarrow> int \<Rightarrow> int \<Rightarrow> int \<Rightarrow> int \<times> int" where
  "scaled b p q e = (if e < 0 then (p * b ^ nat (- e), q) else (p, q * b ^ nat e))"

text \<open>The exponent \<^verbatim>\<open>k\<close> with \<^verbatim>\<open>2^k \<le> p/q < 2^(k+1)\<close>.\<close>

definition floor_log2 :: "int \<Rightarrow> int \<Rightarrow> int" where
  "floor_log2 p q = (let k = int (bit_length p) - int (bit_length q); (p', q') = scaled 2 p q k in if q' \<le> p' then k else k - 1)"

text \<open>The number next to \<^verbatim>\<open>p/q\<close>, with its sign; what is too large is infinite.\<close>

definition to_double :: "bool \<Rightarrow> int \<Rightarrow> int \<Rightarrow> double" where
  "to_double sg p q =
     (if p = 0 then Finite sg 0 (- 1074)
      else (let e = max (floor_log2 p q - 52) (- 1074); (p', q') = scaled 2 p q e; m = half_even p' q';
                (m', e') = (if m = 2 ^ 53 then (2 ^ 52, e + 1) else (m, e)) in
        if e' > 971 then Infinite sg else Finite sg m' e'))"

text \<open>The fraction a number stands for, without its sign.\<close>

definition fraction_of :: "int \<Rightarrow> int \<Rightarrow> int \<times> int" where
  "fraction_of m e = scaled 2 m 1 (- e)"

definition double_mult :: "double \<Rightarrow> int \<Rightarrow> double" where
  "double_mult x n = (case x of Finite sg m e \<Rightarrow> (let (p, q) = fraction_of m e in to_double sg (p * n) q) | _ \<Rightarrow> x)"

definition double_div :: "double \<Rightarrow> int \<Rightarrow> double" where
  "double_div x n = (case x of Finite sg m e \<Rightarrow> (let (p, q) = fraction_of m e in to_double sg p (q * n)) | _ \<Rightarrow> x)"

text \<open>\<^verbatim>\<open>round(x, n)\<close> for \<^verbatim>\<open>n \<ge> 0\<close>.\<close>

definition double_round :: "double \<Rightarrow> nat \<Rightarrow> double" where
  "double_round x n = (case x of
      Finite sg m e \<Rightarrow> (let (p, q) = fraction_of m e in to_double sg (half_even (p * 10 ^ n) q) (10 ^ n)) | _ \<Rightarrow> x)"

text \<open>The integer a number is, if it is one.\<close>

definition double_whole :: "double \<Rightarrow> int option" where
  "double_whole x = (case x of
      Finite sg m e \<Rightarrow> (let (p, q) = fraction_of m e in
        if m = 0 then Some 0 else if p mod q = 0 then Some (if sg then - (p div q) else p div q) else None)
    | _ \<Rightarrow> None)"

section \<open>Reading\<close>

text \<open>An underscore may stand between digits.\<close>

fun drop_underscores :: "bool \<Rightarrow> string \<Rightarrow> string option" where
  "drop_underscores after [] = Some []"
| "drop_underscores after (c # cs) =
     (if c = CHR ''_'' then
        (if after \<and> cs \<noteq> [] \<and> is_digit (hd cs) then drop_underscores False cs else None)
      else map_option ((#) c) (drop_underscores (is_digit c) cs))"

definition sign_of :: "string \<Rightarrow> bool \<times> string" where
  "sign_of s = (case s of c # cs \<Rightarrow> if c = CHR ''-'' then (True, cs) else if c = CHR ''+'' then (False, cs) else (False, s)
     | [] \<Rightarrow> (False, []))"

definition read_exponent :: "string \<Rightarrow> int option" where
  "read_exponent s = (case s of
      [] \<Rightarrow> Some 0
    | c # cs \<Rightarrow> (let (neg, ds) = sign_of cs in
        if c \<in> {CHR ''e'', CHR ''E''} \<and> ds \<noteq> [] \<and> list_all is_digit ds
        then Some (if neg then - dec_val 0 ds else dec_val 0 ds) else None))"

definition read_numeral :: "bool \<Rightarrow> string \<Rightarrow> double option" where
  "read_numeral sg s =
     (let whole = takeWhile is_digit s; r = dropWhile is_digit s;
          (part, r') = (if r \<noteq> [] \<and> hd r = CHR ''.'' then (takeWhile is_digit (tl r), dropWhile is_digit (tl r)) else ([], r)) in
      if whole @ part = [] then None
      else map_option (\<lambda>e. let (p, q) = scaled 10 (dec_val 0 (whole @ part)) 1 (int (length part) - e) in to_double sg p q)
        (read_exponent r'))"

definition read_double :: "string \<Rightarrow> double option" where
  "read_double s = Option.bind (drop_underscores False (strip s)) (\<lambda>t.
     let (sg, u) = sign_of t in
     if lower u \<in> {''inf'', ''infinity''} then Some (Infinite sg) else if lower u = ''nan'' then Some Not_A_Number
     else read_numeral sg u)"

section \<open>Printing\<close>

text \<open>The number \<^verbatim>\<open>d\<close> with \<^verbatim>\<open>10^(d-1) \<le> p/q < 10^d\<close>; the fuel bounds the zeros after the point.\<close>

fun leading_zeros :: "nat \<Rightarrow> int \<Rightarrow> int \<Rightarrow> nat" where
  "leading_zeros 0 p q = 0"
| "leading_zeros (Suc n) p q = (if q \<le> p then 0 else Suc (leading_zeros n (10 * p) q))"

definition point_at :: "int \<Rightarrow> int \<Rightarrow> int" where
  "point_at p q = (if q \<le> p then int (length (dec_str (p div q))) else 1 - int (leading_zeros 400 p q))"

text \<open>The decimals of \<^verbatim>\<open>n\<close> digits next to a number that are read as this number, the nearest of them first.\<close>

definition decimals :: "int \<Rightarrow> int \<Rightarrow> nat \<Rightarrow> int list" where
  "decimals m e n =
     (let (p, q) = fraction_of m e; k = point_at p q - int n; (p', q') = scaled 10 p q k;
          good = (\<lambda>c. let (a, b) = scaled 10 c 1 (- k) in to_double False a b = Finite False m e) in
      filter good [half_even p' q', p' div q', p' div q' + 1])"

text \<open>As few digits as possible; 17 are always enough.\<close>

fun shortest :: "int \<Rightarrow> int \<Rightarrow> nat \<Rightarrow> nat \<Rightarrow> int \<times> nat" where
  "shortest m e n 0 = (let (p, q) = fraction_of m e; (p', q') = scaled 10 p q (point_at p q - int n) in (half_even p' q', n))"
| "shortest m e n (Suc more) = (case decimals m e n of c # _ \<Rightarrow> (c, n) | [] \<Rightarrow> shortest m e (Suc n) more)"

definition strip_zeros :: "string \<Rightarrow> string" where
  "strip_zeros s = rev (dropWhile (\<lambda>c. c = CHR ''0'') (rev s))"

definition exponent_text :: "int \<Rightarrow> string" where
  "exponent_text k = (if k < 0 then ''-'' else ''+'') @ (let s = dec_str (abs k) in if length s < 2 then CHR ''0'' # s else s)"

text \<open>The digits \<^verbatim>\<open>s\<close>, with the point after the \<^verbatim>\<open>k\<close>-th of them.\<close>

definition place_point :: "string \<Rightarrow> int \<Rightarrow> string" where
  "place_point s k =
     (if - 4 < k \<and> k \<le> 16 then
        (if k \<le> 0 then ''0.'' @ replicate (nat (- k)) (CHR ''0'') @ s
         else if int (length s) \<le> k then s @ replicate (nat k - length s) (CHR ''0'') @ ''.0''
         else take (nat k) s @ ''.'' @ drop (nat k) s)
      else take 1 s @ (if length s > 1 then ''.'' @ drop 1 s else []) @ ''e'' @ exponent_text (k - 1))"

definition double_text :: "double \<Rightarrow> string" where
  "double_text x = (case x of
      Not_A_Number \<Rightarrow> ''nan''
    | Infinite sg \<Rightarrow> if sg then ''-inf'' else ''inf''
    | Finite sg m e \<Rightarrow> (if sg then ''-'' else []) @
        (if m = 0 then ''0.0''
         else (let (c, n) = shortest m e 1 16; (p, q) = fraction_of m e; s = dec_str c in
           place_point (strip_zeros s) (point_at p q + int (length s) - int n))))"

section \<open>What the program computes\<close>

text \<open>The \<^verbatim>\<open>repr\<close> of \<^verbatim>\<open>float(s)\<close>, if that does not raise.\<close>

definition float_text :: "string \<Rightarrow> string option" where
  "float_text s = map_option double_text (read_double s)"

text \<open>The \<^verbatim>\<open>repr\<close> of a number, given by its own, divided by a positive integer; a \<^verbatim>\<open>repr\<close> is always read.\<close>

definition quotient_text :: "string \<Rightarrow> int \<Rightarrow> string" where
  "quotient_text r n = double_text (case read_double r of Some x \<Rightarrow> double_div x n | None \<Rightarrow> Not_A_Number)"

text \<open>The \<^verbatim>\<open>repr\<close> of \<^verbatim>\<open>round(a / b * 100, n)\<close> for integers \<^verbatim>\<open>b \<noteq> 0\<close>; \<^verbatim>\<open>None\<close> is the \<^verbatim>\<open>OverflowError\<close> of the quotient.\<close>

definition percent_text :: "int \<Rightarrow> int \<Rightarrow> nat \<Rightarrow> string option" where
  "percent_text a b n = (let x = to_double ((a < 0) \<noteq> (b < 0)) (abs a) (abs b) in case x of
      Infinite _ \<Rightarrow> None | _ \<Rightarrow> Some (double_text (double_round (double_mult x 100) n)))"

section \<open>Equality of values\<close>

text \<open>
  Python's \<^verbatim>\<open>==\<close>: booleans are the integers 0 and 1, a float equals an integer when its exact value is that integer,
  two other floats are equal when their \<^verbatim>\<open>repr\<close> is, dictionaries are compared without regard to order.
\<close>

definition num_val :: "json \<Rightarrow> int option" where
  "num_val v = (case v of JBool b \<Rightarrow> Some (if b then 1 else 0) | JInt i \<Rightarrow> Some i
     | JFloat r \<Rightarrow> Option.bind (read_double r) double_whole | _ \<Rightarrow> None)"

lemma json_size_zip [termination_simp]:
  "(x, y) \<in> set (zip xs ys) \<Longrightarrow> size x < Suc (size_list size xs)"
  by (rule json_size_arr) (auto dest: set_zip_leftD)

fun py_eq :: "json \<Rightarrow> json \<Rightarrow> bool" where
  "py_eq (JArr xs) w = (case w of JArr ys \<Rightarrow>
     length xs = length ys \<and> (\<forall>(x, y) \<in> set (zip xs ys). py_eq x y) | _ \<Rightarrow> False)"
| "py_eq (JObj d) w = (case w of JObj d' \<Rightarrow>
     length d = length d' \<and>
     (\<forall>(k, v) \<in> set d. case map_of d' k of None \<Rightarrow> False | Some v' \<Rightarrow> py_eq v v') | _ \<Rightarrow> False)"
| "py_eq (JStr s) w = (w = JStr s)"
| "py_eq JNull w = (w = JNull)"
| "py_eq v w = (case (num_val v, num_val w) of
     (Some i, Some j) \<Rightarrow> i = j
   | (None, None) \<Rightarrow> v = w \<and> v \<noteq> JFloat ''nan''
   | _ \<Rightarrow> False)"

lemma py_eq_str [simp]: "py_eq v (JStr s) = (v = JStr s)"
  by (cases v) (auto simp: num_val_def split: option.splits)

section \<open>Rounding is to the nearest number\<close>

lemma bit_length_bounds: "0 < n \<Longrightarrow> 2 ^ (bit_length n - 1) \<le> n \<and> n < 2 ^ bit_length n"
proof (induction n rule: bit_length.induct)
  case (1 n)
  show ?case
  proof (cases "n = 1")
    case True
    then show ?thesis by (simp add: bit_length.simps)
  next
    case False
    with 1(2) have m: "0 < n div 2" "\<not> n \<le> 0" by auto
    then have "0 < bit_length (n div 2)" by (simp add: bit_length.simps [of "n div 2"])
    then obtain k where k: "bit_length (n div 2) = Suc k" by (cases "bit_length (n div 2)") auto
    with 1(1) [OF m(2,1)] have "2 ^ k \<le> n div 2" "n div 2 < 2 * 2 ^ k" by auto
    moreover from this have "2 * 2 ^ k \<le> n" "n < 4 * 2 ^ k" by linarith+
    ultimately show ?thesis using m k by (simp add: bit_length.simps [of n])
  qed
qed

lemma half_even_near:
  assumes "0 < q"
  shows "\<bar>rat_of_int (half_even p q) - of_int p / of_int q\<bar> \<le> 1 / 2"
proof -
  define d where "d = p div q"
  define r where "r = p mod q"
  have r: "0 \<le> r" "r < q" "p = q * d + r" using assms by (auto simp: d_def r_def)
  have x: "rat_of_int p / of_int q = of_int d + of_int r / of_int q"
    using assms by (simp add: r(3) field_simps)
  have q: "0 < rat_of_int q" "0 \<le> rat_of_int r" "rat_of_int r < of_int q" using assms r by simp_all
  show ?thesis
  proof (cases "2 * r < q \<or> 2 * r = q \<and> even d")
    case True
    then have "2 * r \<le> q" by linarith
    then have "rat_of_int (2 * r) \<le> of_int q" by (simp only: of_int_le_iff)
    with q have "0 \<le> rat_of_int r / of_int q" "rat_of_int r / of_int q \<le> 1 / 2" by (simp_all add: divide_simps)
    moreover have "half_even p q = d" using True by (simp add: half_even_def d_def r_def)
    ultimately show ?thesis by (simp add: x)
  next
    case False
    then have "q \<le> 2 * r" by linarith
    then have "rat_of_int q \<le> of_int (2 * r)" by (simp only: of_int_le_iff)
    with q have "1 / 2 \<le> rat_of_int r / of_int q" "rat_of_int r / of_int q < 1" by (simp_all add: divide_simps)
    moreover have "half_even p q = d + 1" using False by (auto simp: half_even_def Let_def d_def r_def)
    ultimately show ?thesis by (simp add: x)
  qed
qed

lemma half_even_bounds:
  assumes "0 < q"
  shows "of_int p / of_int q < rat_of_int k \<Longrightarrow> half_even p q \<le> k"
    and "rat_of_int k \<le> of_int p / of_int q \<Longrightarrow> k \<le> half_even p q"
proof -
  define x where "x = rat_of_int p / of_int q"
  have near: "\<bar>rat_of_int (half_even p q) - x\<bar> \<le> 1 / 2" using half_even_near [OF assms] by (simp add: x_def)
  show "half_even p q \<le> k" if "of_int p / of_int q < rat_of_int k"
  proof -
    from that have "x < of_int k" by (simp add: x_def)
    with near have "rat_of_int (half_even p q) < of_int (k + 1)" unfolding of_int_add of_int_1 by linarith
    then show ?thesis by (simp only: of_int_less_iff)
  qed
  show "k \<le> half_even p q" if "rat_of_int k \<le> of_int p / of_int q"
  proof -
    from that have "of_int k \<le> x" by (simp add: x_def)
    with near have "rat_of_int (k - 1) < of_int (half_even p q)" unfolding of_int_diff of_int_1 by linarith
    then show ?thesis by (simp only: of_int_less_iff)
  qed
qed

lemma scaled_value:
  assumes "0 < b" "scaled b p q e = (p', q')" "0 < q"
  shows "rat_of_int p' / of_int q' = of_int p / of_int q / of_int b powi e" "0 < q'"
    and "0 \<le> p \<Longrightarrow> 0 \<le> p'" "0 < p \<Longrightarrow> 0 < p'"
proof -
  have b: "0 < b ^ n" "0 \<le> b ^ n" for n using assms(1) by simp_all
  show "rat_of_int p' / of_int q' = of_int p / of_int q / of_int b powi e"
  proof (cases "e < 0")
    case True
    with assms(2) have "p' = p * b ^ nat (- e)" "q' = q" by (simp_all add: scaled_def)
    with True show ?thesis by (simp add: power_int_def divide_inverse mult.assoc mult.commute power_inverse)
  next
    case False
    with assms(2) have "p' = p" "q' = q * b ^ nat e" by (simp_all add: scaled_def)
    with False show ?thesis by (simp add: power_int_def)
  qed
  show "0 < q'" "0 \<le> p \<Longrightarrow> 0 \<le> p'" "0 < p \<Longrightarrow> 0 < p'"
    using assms(2,3) b by (auto simp: scaled_def split: if_splits)
qed

lemma bit_length_powi:
  assumes "0 < n"
  shows "2 powi (int (bit_length n) - 1) \<le> rat_of_int n" "rat_of_int n < 2 powi int (bit_length n)"
proof -
  have "0 < bit_length n" using assms by (simp add: bit_length.simps [of n])
  then have e: "int (bit_length n) - 1 = int (bit_length n - 1)" by simp
  have "rat_of_int (2 ^ (bit_length n - 1)) \<le> of_int n" "rat_of_int n < of_int (2 ^ bit_length n)"
    using bit_length_bounds [OF assms] by (simp_all only: of_int_le_iff of_int_less_iff)
  then show "2 powi (int (bit_length n) - 1) \<le> rat_of_int n" "rat_of_int n < 2 powi int (bit_length n)"
    unfolding e power_int_of_nat by simp_all
qed

lemma floor_log2_bounds:
  assumes "0 < p" "0 < q"
  shows "2 powi floor_log2 p q \<le> rat_of_int p / of_int q" "rat_of_int p / of_int q < 2 powi (floor_log2 p q + 1)"
proof -
  define x where "x = rat_of_int p / of_int q"
  define a where "a = int (bit_length p)"
  define b where "b = int (bit_length q)"
  obtain p' q' where s: "scaled 2 p q (a - b) = (p', q')" by force
  have v: "rat_of_int p' / of_int q' = x / 2 powi (a - b)" "0 < q'"
    using scaled_value [OF _ s assms(2)] by (simp_all add: x_def)
  have "q' \<le> p' \<longleftrightarrow> 1 \<le> rat_of_int p' / of_int q'" using v(2) by (simp add: le_divide_eq_1_pos)
  then have c: "q' \<le> p' \<longleftrightarrow> 2 powi (a - b) \<le> x" unfolding v(1) by (simp add: le_divide_eq_1_pos)
  have "2 powi (a - b - 1) = (2 :: rat) powi (a - 1) / 2 powi b" by (simp add: power_int_diff)
  also have "\<dots> \<le> x" unfolding x_def a_def b_def
    by (rule frac_le) (use bit_length_powi [OF assms(1)] bit_length_powi [OF assms(2)] assms in auto)
  finally have lo: "2 powi (a - b - 1) \<le> x" .
  have "x < 2 powi a / 2 powi (b - 1)" unfolding x_def a_def b_def
    by (rule frac_less) (use bit_length_powi [OF assms(1)] bit_length_powi [OF assms(2)] assms in auto)
  also have "\<dots> = 2 powi (a - b + 1)" by (simp add: power_int_diff power_int_add)
  finally have hi: "x < 2 powi (a - b + 1)" .
  have f: "floor_log2 p q = (if 2 powi (a - b) \<le> x then a - b else a - b - 1)"
    using s c by (simp add: floor_log2_def a_def b_def Let_def)
  show "2 powi floor_log2 p q \<le> rat_of_int p / of_int q" "rat_of_int p / of_int q < 2 powi (floor_log2 p q + 1)"
    using lo hi by (simp_all add: f x_def [symmetric])
qed

text \<open>The numbers the machine has, each in one form: the mantissa is full, but for the smallest exponent.\<close>

definition proper :: "double \<Rightarrow> bool" where
  "proper x = (case x of Finite sg m e \<Rightarrow> 0 \<le> m \<and> m < 2 ^ 53 \<and> - 1074 \<le> e \<and> e \<le> 971 \<and> (2 ^ 52 \<le> m \<or> e = - 1074) | _ \<Rightarrow> True)"

lemma to_double_facts:
  assumes "0 < p" "0 < q" "to_double sg p q = Finite s m e"
  shows "proper (Finite s m e)" "s = sg" "\<bar>of_int m * 2 powi e - rat_of_int p / of_int q\<bar> \<le> 2 powi e / 2"
proof -
  define x where "x = rat_of_int p / of_int q"
  define k where "k = max (floor_log2 p q - 52) (- 1074)"
  obtain p' q' where s: "scaled 2 p q k = (p', q')" by force
  define h where "h = half_even p' q'"
  define y where "y = rat_of_int p' / of_int q'"
  have v: "x = y * 2 powi k" "0 < q'" "0 < p'"
    using scaled_value [OF _ s assms(2)] assms(1) by (simp_all add: x_def y_def)
  have near: "\<bar>rat_of_int h - y\<bar> \<le> 1 / 2" using half_even_near [OF v(2)] by (simp add: h_def y_def)
  have pos: "0 < (2 :: rat) powi k" by simp
  have "y * 2 powi k < 2 powi (floor_log2 p q + 1)" using floor_log2_bounds(2) [OF assms(1,2)] v(1) by (simp add: x_def)
  also have "(2 :: rat) powi (floor_log2 p q + 1) \<le> 2 powi (53 + k)" by (rule power_int_increasing) (simp_all add: k_def)
  also have "(2 :: rat) powi (53 + k) = of_int (2 ^ 53) * 2 powi k" by (simp add: power_int_add)
  finally have "y < of_int (2 ^ 53)" using pos by (simp only: mult_less_cancel_right_pos)
  then have hi: "h \<le> 2 ^ 53" unfolding h_def y_def by (rule half_even_bounds(1) [OF v(2)])
  have lo: "2 ^ 52 \<le> h" if "k \<noteq> - 1074"
  proof -
    from that have "floor_log2 p q = 52 + k" by (simp add: k_def)
    then have "2 powi (52 + k) \<le> y * 2 powi k" using floor_log2_bounds(1) [OF assms(1,2)] v(1) by (simp add: x_def)
    then have "of_int (2 ^ 52) * 2 powi k \<le> y * 2 powi k" by (simp add: power_int_add)
    then have "of_int (2 ^ 52) \<le> y" using pos by (simp only: mult_le_cancel_right_pos)
    then show ?thesis unfolding h_def y_def by (rule half_even_bounds(2) [OF v(2)])
  qed
  have zero: "0 \<le> h" unfolding h_def by (rule half_even_bounds(2) [OF v(2)]) (use v in simp)
  have res: "(m, e) = (if h = 2 ^ 53 then (2 ^ 52, k + 1) else (h, k))" "e \<le> 971" "s = sg"
    using assms s by (auto simp: to_double_def Let_def k_def [symmetric] h_def [symmetric] split: if_splits)
  then show "s = sg" by simp
  have k: "- 1074 \<le> k" by (simp add: k_def)
  show "proper (Finite s m e)"
    using res hi lo zero k by (auto simp: proper_def split: if_splits)
  have "rat_of_int h * 2 powi k - x = (of_int h - y) * 2 powi k" by (simp add: v(1) algebra_simps)
  then have "\<bar>rat_of_int h * 2 powi k - x\<bar> = \<bar>of_int h - y\<bar> * 2 powi k" by (simp add: abs_mult)
  also have "\<dots> \<le> 1 / 2 * 2 powi k" using near pos by (intro mult_right_mono) auto
  finally have n: "\<bar>rat_of_int h * 2 powi k - x\<bar> \<le> 2 powi k / 2" by simp
  show "\<bar>of_int m * 2 powi e - rat_of_int p / of_int q\<bar> \<le> 2 powi e / 2"
  proof (cases "h = 2 ^ 53")
    case True
    with res have "m = 2 ^ 52" "e = k + 1" by auto
    with True have "rat_of_int m * 2 powi e = of_int h * 2 powi k" by (simp add: power_int_add)
    moreover have "2 powi k / 2 \<le> (2 :: rat) powi e / 2" using \<open>e = k + 1\<close> by (simp add: power_int_add)
    ultimately show ?thesis using n by (simp add: x_def)
  next
    case False
    with res n show ?thesis by (simp add: x_def)
  qed
qed

lemma to_double_proper: "0 \<le> p \<Longrightarrow> 0 < q \<Longrightarrow> proper (to_double sg p q)"
proof -
  assume a: "0 \<le> p" "0 < q"
  show ?thesis
  proof (cases "p = 0")
    case True
    then show ?thesis by (simp add: to_double_def proper_def)
  next
    case False
    with a have "0 < p" by simp
    from to_double_facts(1) [OF this a(2)] show ?thesis
      by (cases "to_double sg p q") (auto simp: proper_def [of "Infinite _"] proper_def [of Not_A_Number])
  qed
qed

lemma scaled_pos:
  "0 < b \<Longrightarrow> 0 < q \<Longrightarrow> 0 < snd (scaled b p q e)" "0 < b \<Longrightarrow> 0 \<le> p \<Longrightarrow> 0 \<le> fst (scaled b p q e)"
  by (simp_all add: scaled_def)

lemma fraction_of_pos: "0 < snd (fraction_of m e)" "0 \<le> m \<Longrightarrow> 0 \<le> fst (fraction_of m e)"
  by (simp_all add: fraction_of_def scaled_pos)

lemma half_even_nonneg: "0 \<le> p \<Longrightarrow> 0 < q \<Longrightarrow> 0 \<le> half_even p q"
  by (rule half_even_bounds(2)) simp_all

lemma operations_proper:
  assumes "proper x"
  shows "0 \<le> n \<Longrightarrow> proper (double_mult x n)" "0 < n \<Longrightarrow> proper (double_div x n)" "proper (double_round x k)"
proof -
  have m: "0 \<le> m" if "x = Finite s m e" for s m e using assms that by (simp add: proper_def)
  show "0 \<le> n \<Longrightarrow> proper (double_mult x n)" "0 < n \<Longrightarrow> proper (double_div x n)" "proper (double_round x k)"
    using assms m by (cases x; simp add: double_mult_def double_div_def double_round_def case_prod_beta
        fraction_of_pos to_double_proper half_even_nonneg)+
qed

lemma dec_val_nonneg: "list_all is_digit s \<Longrightarrow> 0 \<le> acc \<Longrightarrow> 0 \<le> dec_val acc s"
proof (induction acc s rule: dec_val.induct)
  case (2 acc c cs)
  then have "digit_val c = int (code c) - 48" "48 \<le> code c"
    by (simp_all add: digit_val_def code_def of_nat_of_char is_digit_def in_range_def)
  with 2 show ?case by simp
qed simp

lemma takeWhile_all: "list_all P (takeWhile P xs)"
  by (auto simp: list_all_iff dest: set_takeWhileD)

lemma read_numeral_proper: "read_numeral sg t = Some x \<Longrightarrow> proper x"
proof -
  assume a: "read_numeral sg t = Some x"
  define r where "r = dropWhile is_digit t"
  define ds where "ds = takeWhile is_digit t @ (if r \<noteq> [] \<and> hd r = CHR ''.'' then takeWhile is_digit (tl r) else [])"
  have "list_all is_digit ds" by (simp add: ds_def takeWhile_all)
  then have d: "0 \<le> dec_val 0 ds" by (simp add: dec_val_nonneg)
  from a obtain k where "x = to_double sg (fst (scaled 10 (dec_val 0 ds) 1 k)) (snd (scaled 10 (dec_val 0 ds) 1 k))"
    by (simp add: read_numeral_def Let_def r_def [symmetric] ds_def case_prod_beta split: if_splits) auto
  then show ?thesis using d by (simp add: to_double_proper scaled_pos)
qed

lemma read_double_proper: "read_double s = Some x \<Longrightarrow> proper x"
proof -
  assume "read_double s = Some x"
  then obtain t where "(if lower (snd (sign_of t)) \<in> {''inf'', ''infinity''} then Some (Infinite (fst (sign_of t)))
      else if lower (snd (sign_of t)) = ''nan'' then Some Not_A_Number else read_numeral (fst (sign_of t)) (snd (sign_of t))) = Some x"
    by (auto simp: read_double_def Let_def bind_eq_Some_conv case_prod_beta)
  then show ?thesis by (auto simp: proper_def split: if_splits dest: read_numeral_proper)
qed

section \<open>The text has no white space\<close>

lemma decimals_nonneg:
  assumes "0 \<le> m" "c \<in> set (decimals m e n)"
  shows "0 \<le> c"
proof -
  define f where "f = fraction_of m e"
  define g where "g = scaled 10 (fst f) (snd f) (point_at (fst f) (snd f) - int n)"
  have g: "0 \<le> fst g" "0 < snd g" using assms(1) by (simp_all add: f_def g_def fraction_of_pos scaled_pos)
  have "set (decimals m e n) \<subseteq> set [half_even (fst g) (snd g), fst g div snd g, fst g div snd g + 1]"
    unfolding decimals_def Let_def case_prod_beta f_def [symmetric] g_def [symmetric] by (rule filter_is_subset)
  with assms(2) g show ?thesis by (auto simp: half_even_nonneg pos_imp_zdiv_nonneg_iff intro!: add_nonneg_nonneg)
qed

lemma shortest_nonneg: "0 \<le> m \<Longrightarrow> 0 \<le> fst (shortest m e n k)"
proof (induction m e n k rule: shortest.induct)
  case (1 m e n)
  then show ?case by (simp add: Let_def case_prod_beta half_even_nonneg fraction_of_pos scaled_pos)
next
  case (2 m e n more)
  then show ?case using decimals_nonneg [of m _ e n] by (auto split: list.split)
qed

definition spaceless :: "string \<Rightarrow> bool" where
  "spaceless s = list_all (\<lambda>c. \<not> is_space c) s"

lemma spaceless_simps:
  "spaceless (s @ t) = (spaceless s \<and> spaceless t)" "spaceless (c # s) = (\<not> is_space c \<and> spaceless s)" "spaceless []"
  "spaceless (replicate n (CHR ''0''))"
  by (auto simp: spaceless_def list_all_iff is_space_def code_def)

lemma spaceless_dec: "0 \<le> n \<Longrightarrow> spaceless (dec_str n)"
  using dec_str_digits [of n] digit_not_space by (auto simp: spaceless_def list_all_iff)

lemma spaceless_sub: "spaceless s \<Longrightarrow> set t \<subseteq> set s \<Longrightarrow> spaceless t"
  by (auto simp: spaceless_def list_all_iff)

lemma spaceless_place: "spaceless s \<Longrightarrow> spaceless (place_point s k)"
proof -
  assume s: "spaceless s"
  have p: "spaceless (take n s)" "spaceless (drop n s)" for n
    using s by (auto intro: spaceless_sub dest: in_set_takeD in_set_dropD)
  have e: "spaceless (exponent_text j)" for j
    by (simp add: exponent_text_def Let_def spaceless_simps spaceless_dec) (simp add: is_space_def code_def)
  show ?thesis
    unfolding place_point_def by (auto simp: spaceless_simps p e s simp del: replicate_Suc) (simp_all add: is_space_def code_def)
qed

lemma double_text_plain:
  assumes "proper x"
  shows "double_text x \<noteq> []" "spaceless (double_text x)"
proof -
  show "double_text x \<noteq> []"
    by (auto simp: double_text_def place_point_def Let_def split: double.split prod.split)
  have m: "0 \<le> m" if "x = Finite s m e" for s m e using assms that by (simp add: proper_def)
  have d: "spaceless (strip_zeros (dec_str (fst (shortest m e 1 16))))" if "0 \<le> m" for m e
    by (rule spaceless_sub [OF spaceless_dec [OF shortest_nonneg [OF that, of e 1 16]]])
      (auto simp: strip_zeros_def dest: set_dropWhileD)
  have l: "spaceless ''-''" "spaceless ''0.0''" "spaceless ''nan''" "spaceless ''inf''" "spaceless ''-inf''"
    by (simp_all add: spaceless_def is_space_def code_def)
  show "spaceless (double_text x)"
    using m d by (cases x) (auto simp: double_text_def Let_def case_prod_beta l spaceless_place spaceless_simps(1,3))
qed

lemma quotient_spaceless: "0 < n \<Longrightarrow> quotient_text r n \<noteq> [] \<and> spaceless (quotient_text r n)"
  using double_text_plain [of Not_A_Number] double_text_plain [OF operations_proper(2) [OF read_double_proper]]
  by (auto simp: quotient_text_def proper_def split: option.split)

end
