(* ===== verification/Netlib.thy ===== *)
theory Netlib
  imports Floats
begin

text \<open>
  \<^verbatim>\<open>ipaddress.ip_address\<close> and \<^verbatim>\<open>urllib.parse.urlsplit\<close> as far as the HA checks use them
  (\<^verbatim>\<open>_sync_preflight\<close> of \<^verbatim>\<open>src/writers/verified.py\<close>), and the decimal value of a float.
\<close>

section \<open>IP addresses\<close>

text \<open>An address is its integer; an IPv6 address also keeps its scope.\<close>

datatype ipaddr = V4 int | V6 int "string option"

definition octet :: "string \<Rightarrow> int option" where
  "octet s = (if nonempty_all is_digit s \<and> length s \<le> 3 \<and> (s = ''0'' \<or> hd s \<noteq> CHR ''0'') \<and> dec_val 0 s \<le> 255
     then Some (dec_val 0 s) else None)"

definition parse_v4 :: "string \<Rightarrow> int option" where
  "parse_v4 s = (case map octet (split_on (CHR ''.'') s) of
      [Some a, Some b, Some c, Some d] \<Rightarrow> Some (((a * 256 + b) * 256 + c) * 256 + d)
    | _ \<Rightarrow> None)"

definition hex_val1 :: "char \<Rightarrow> int" where
  "hex_val1 c = (let l = lower_char c in if is_digit l then of_char l - 48 else of_char l - 87)"

definition hextet :: "string \<Rightarrow> int option" where
  "hextet s = (if nonempty_all is_hex s \<and> length s \<le> 4
     then Some (foldl (\<lambda>a c. 16 * a + hex_val1 c) 0 s) else None)"

text \<open>An embedded dotted quad in the last group counts as two groups of the value it denotes.\<close>

datatype group = Txt string | Val int

fun group_vals :: "int \<Rightarrow> group list \<Rightarrow> int option" where
  "group_vals acc [] = Some acc"
| "group_vals acc (Val n # gs) = group_vals (65536 * acc + n) gs"
| "group_vals acc (Txt p # gs) = (case hextet p of None \<Rightarrow> None | Some n \<Rightarrow> group_vals (65536 * acc + n) gs)"

definition v6_groups :: "string \<Rightarrow> group list option" where
  "v6_groups s = (let ps = split_on (CHR '':'') s in
     if length ps < 3 then None
     else if CHR ''.'' \<in> set (last ps) then
       (case parse_v4 (last ps) of None \<Rightarrow> None
        | Some n \<Rightarrow> Some (map Txt (butlast ps) @ [Val (n div 65536), Val (n mod 65536)]))
     else Some (map Txt ps))"

text \<open>
  A group between the first and the last that is empty is the \<^verbatim>\<open>::\<close>; there is at most one, and an
  empty first or last group must be next to it.
\<close>

definition parse_v6 :: "string \<Rightarrow> int option" where
  "parse_v6 s = (case v6_groups s of None \<Rightarrow> None | Some gs \<Rightarrow>
     if length gs > 9 then None else
     (case filter (\<lambda>i. gs ! i = Txt []) [1..<length gs - 1] of
        [] \<Rightarrow> if length gs = 8 \<and> hd gs \<noteq> Txt [] \<and> last gs \<noteq> Txt [] then group_vals 0 gs else None
      | [i] \<Rightarrow>
          (let hi = (if hd gs = Txt [] then [] else take i gs);
               lo = (if last gs = Txt [] then [] else drop (Suc i) gs)
           in if hd gs = Txt [] \<and> i \<noteq> 1 \<or> last gs = Txt [] \<and> i \<noteq> length gs - 2 \<or>
                 length hi + length lo > 7 then None
              else (case group_vals 0 hi of None \<Rightarrow> None
                | Some h \<Rightarrow> group_vals (h * 65536 ^ (8 - (length hi + length lo))) lo))
      | _ \<Rightarrow> None))"

definition parse_v6_scoped :: "string \<Rightarrow> ipaddr option" where
  "parse_v6_scoped s = (case split_on (CHR ''%'') s of
      [a] \<Rightarrow> map_option (\<lambda>n. V6 n None) (parse_v6 a)
    | [a, z] \<Rightarrow> if z = [] then None else map_option (\<lambda>n. V6 n (Some z)) (parse_v6 a)
    | _ \<Rightarrow> None)"

definition parse_ip :: "string \<Rightarrow> ipaddr option" where
  "parse_ip s = (if CHR ''/'' \<in> set s then None else
     (case parse_v4 s of Some n \<Rightarrow> Some (V4 n) | None \<Rightarrow> parse_v6_scoped s))"

text \<open>\<^verbatim>\<open>ip_address(v)\<close>: text is parsed, an integer (or boolean) is the address itself.\<close>

definition int_ip :: "int \<Rightarrow> ipaddr option" where
  "int_ip n = (if 0 \<le> n \<and> n < 2 ^ 32 then Some (V4 n)
     else if 0 \<le> n \<and> n < 2 ^ 128 then Some (V6 n None) else None)"

definition ip_address :: "json \<Rightarrow> ipaddr option" where
  "ip_address v = (case v of JStr s \<Rightarrow> parse_ip s | JInt n \<Rightarrow> int_ip n
     | JBool b \<Rightarrow> int_ip (if b then 1 else 0) | _ \<Rightarrow> None)"

fun is_loopback :: "ipaddr \<Rightarrow> bool" where
  "is_loopback (V4 n) = (n div 2 ^ 24 = 127)"
| "is_loopback (V6 n _) = (n = 1)"

fun is_unspecified :: "ipaddr \<Rightarrow> bool" where
  "is_unspecified (V4 n) = (n = 0)"
| "is_unspecified (V6 n _) = (n = 0)"

fun is_multicast :: "ipaddr \<Rightarrow> bool" where
  "is_multicast (V4 n) = (n div 2 ^ 28 = 14)"
| "is_multicast (V6 n _) = (n div 2 ^ 120 = 255)"

section \<open>URLs\<close>

fun cut :: "char list \<Rightarrow> string \<Rightarrow> string \<times> string" where
  "cut stops [] = ([], [])"
| "cut stops (c # cs) =
     (if c \<in> set stops then ([], c # cs) else (let (a, b) = cut stops cs in (c # a, b)))"

record url =
  u_scheme :: string
  u_netloc :: string
  u_path :: string
  u_query :: string
  u_fragment :: string

definition scheme_char :: "char \<Rightarrow> bool" where
  "scheme_char c = (is_alnum c \<or> c \<in> set ''+-.'')"

definition take_scheme :: "string \<Rightarrow> string \<times> string" where
  "take_scheme s = (case cut '':'' s of
      (a, c # rest) \<Rightarrow> if a \<noteq> [] \<and> is_alpha (hd a) \<and> list_all scheme_char a then (lower a, rest) else ([], s)
    | (a, []) \<Rightarrow> ([], s))"

definition after1 :: "char \<Rightarrow> string \<Rightarrow> string \<times> string" where
  "after1 c s = (case cut [c] s of (a, _ # b) \<Rightarrow> (a, b) | (a, []) \<Rightarrow> (a, []))"

definition urlsplit :: "string \<Rightarrow> url option" where
  "urlsplit s0 =
     (let s = filter (\<lambda>c. c \<notin> set [CHR 0x09, CHR 0x0A, CHR 0x0D]) (dropWhile (\<lambda>c. code c \<le> 32) s0);
          (scheme, rest) = take_scheme s;
          (netloc, rest2) = (if starts_with ''//'' rest then cut ''/?#'' (drop 2 rest) else ([], rest));
          (rest3, fragment) = after1 (CHR ''#'') rest2;
          (path, query) = after1 (CHR ''?'') rest3
      in if (CHR ''['' \<in> set netloc) \<noteq> (CHR '']'' \<in> set netloc) then None
         else Some \<lparr>u_scheme = scheme, u_netloc = netloc, u_path = path, u_query = query, u_fragment = fragment\<rparr>)"

definition has_userinfo :: "url \<Rightarrow> bool" where
  "has_userinfo u = (CHR ''@'' \<in> set (u_netloc u))"

text \<open>Host and port of the part after the last \<^verbatim>\<open>@\<close>; a bracketed host is an IPv6 literal.\<close>

definition hostinfo :: "url \<Rightarrow> string \<times> string" where
  "hostinfo u =
     (let hp = rev (fst (cut ''@'' (rev (u_netloc u)))) in
      case cut ''['' hp of
        (_, _ # br) \<Rightarrow> (let (h, r) = after1 (CHR '']'') br in (h, snd (after1 (CHR '':'') r)))
      | (_, []) \<Rightarrow> after1 (CHR '':'') hp)"

definition u_hostname :: "url \<Rightarrow> string option" where
  "u_hostname u = (let h = fst (hostinfo u); (a, z) = cut ''%'' h
     in if h = [] then None else Some (lower a @ z))"

datatype port = NoPort | Port int | BadPort

definition u_port :: "url \<Rightarrow> port" where
  "u_port u = (let p = snd (hostinfo u) in
     if p = [] then NoPort
     else if list_all is_digit p \<and> dec_val 0 p \<le> 65535 then Port (dec_val 0 p) else BadPort)"

section \<open>Value of a float\<close>

definition ten_pow :: "int \<Rightarrow> rat" where
  "ten_pow k = (if 0 \<le> k then 10 ^ nat k else 1 / 10 ^ nat (- k))"

text \<open>The rational a \<^verbatim>\<open>repr\<close> such as \<^verbatim>\<open>-1.25e-07\<close> denotes; infinities and NaN have none.\<close>

definition float_rat :: "string \<Rightarrow> rat option" where
  "float_rat r =
     (let neg = starts_with ''-'' r; s = (if neg then tl r else r);
          (m, e) = after1 (CHR ''e'') s; (a, b) = after1 (CHR ''.'') m;
          ex = (if CHR ''e'' \<in> set s then py_int e else Some 0)
      in if list_all is_digit (a @ b) \<and> a @ b \<noteq> [] then
           map_option (\<lambda>k. (if neg then - 1 else 1) * of_int (dec_val 0 (a @ b)) * ten_pow (k - int (length b))) ex
         else None)"

definition json_rat :: "json \<Rightarrow> rat option" where
  "json_rat v = (case v of JInt i \<Rightarrow> Some (of_int i) | JFloat r \<Rightarrow> float_rat r | _ \<Rightarrow> None)"

end
