(* ===== verification/Carp.thy ===== *)
theory Carp
  imports Client Netlib "HOL-Library.Product_Lexorder"
begin

text \<open>
  CARP role detection, \<^verbatim>\<open>src/collectors/carp.py\<close>, and the client of an HA pair that resolves the
  current master from it, \<^verbatim>\<open>src/client/cluster.py\<close>.
\<close>

section \<open>CARP status of a node\<close>

datatype carp_role = RMaster | RBackup | RDisabled | RUnknown

record carp_vhid =
  v_vhid :: string
  v_interface :: string
  v_ipaddr :: string
  v_status :: string
  v_advbase :: string
  v_advskew :: string

record carp_status =
  cs_role :: carp_role
  cs_enabled :: bool
  cs_maintenance :: bool
  cs_demotion :: int
  cs_status_msg :: string
  cs_vhids :: "carp_vhid list"

definition bool_truthy :: "json \<Rightarrow> bool" where
  "bool_truthy v = (case v of JBool b \<Rightarrow> b | JNull \<Rightarrow> False
     | _ \<Rightarrow> (case int_of_text (strip (py_str v)) of Some n \<Rightarrow> n = 1
            | None \<Rightarrow> lower (strip (py_str v)) = ''true''))"

definition safe_get :: "client \<Rightarrow> string \<Rightarrow> obj io" where
  "safe_get c path = try_else (client_get c path []) is_opn (\<lambda>_. ret [])
     (\<lambda>v. ret (case v of JObj d \<Rightarrow> d | _ \<Rightarrow> []))"

text \<open>\<^verbatim>\<open>int(s or 9999)\<close> on the text of a field.\<close>

definition int_or_9999 :: "string \<Rightarrow> int option" where
  "int_or_9999 s = (if s = [] then Some 9999 else int_of_text s)"

definition vhid_key :: "carp_vhid \<Rightarrow> (int \<times> int) option" where
  "vhid_key v = (case (int_or_9999 (v_vhid v), int_or_9999 (v_advskew v)) of
     (Some a, Some b) \<Rightarrow> Some (a, b) | _ \<Rightarrow> None)"

definition active_vhids :: "carp_vhid list \<Rightarrow> carp_vhid list" where
  "active_vhids vs = filter (\<lambda>v. v_status v \<noteq> ''DISABLED'' \<and> v_status v \<noteq> []) vs"

definition primary_vhid :: "carp_vhid list \<Rightarrow> carp_vhid option res" where
  "primary_vhid vs =
     (let active = active_vhids vs in
      if active = [] then Inr None
      else if list_all (\<lambda>v. vhid_key v \<noteq> None) active then
        Inr (Some (hd (sort_key (\<lambda>v. case vhid_key v of Some k \<Rightarrow> k | None \<Rightarrow> (0, 0)) active)))
      else Inl (OPNErr ''CARP: invalid VHID or advskew in upstream response''))"

definition classify_role :: "bool \<Rightarrow> bool \<Rightarrow> carp_vhid list \<Rightarrow> carp_role res" where
  "classify_role enabled maintenance vs =
     (if \<not> enabled then Inr RDisabled
      else if maintenance then Inr RBackup
      else rbnd (primary_vhid vs) (\<lambda>p. case p of
          None \<Rightarrow> Inr RDisabled
        | Some v \<Rightarrow> Inr (if v_status v = ''MASTER'' then RMaster
                        else if v_status v = ''BACKUP'' then RBackup else RUnknown)))"

text \<open>A row of \<^verbatim>\<open>getVipStatus\<close>, when it is an object and its mode is \<^verbatim>\<open>carp\<close>.\<close>

definition row_vhid :: "json \<Rightarrow> carp_vhid option" where
  "row_vhid r =
     (if \<not> is_obj r \<or> lower (py_str (dget_or r ''mode'' (JStr ''carp''))) \<noteq> ''carp'' then None
      else Some \<lparr>v_vhid = py_str (dget_or r ''vhid'' (JStr [])),
        v_interface = py_str (dget_or r ''interface'' (JStr [])),
        v_ipaddr = py_str (dget_or r ''ipaddr'' (dget_or r ''subnet'' (JStr []))),
        v_status = upper (py_str (dget_or r ''status'' (JStr []))),
        v_advbase = py_str (dget_or r ''advbase'' (JStr [])),
        v_advskew = py_str (dget_or r ''advskew'' (JStr []))\<rparr>)"

text \<open>\<^verbatim>\<open>int\<close> of a float, given by its \<^verbatim>\<open>repr\<close>: the part before the point.\<close>

definition int_of_float :: "string \<Rightarrow> int res" where
  "int_of_float r = (case read_double r of
      Some (Finite sg m e) \<Rightarrow> Inr (let (p, q) = fraction_of m e in if sg then - (p div q) else p div q)
    | Some (Infinite sg) \<Rightarrow> Inl (ArithErr ''cannot convert float infinity to integer'')
    | _ \<Rightarrow> Inl (ValueErr ''cannot convert float NaN to integer''))"

text \<open>\<^verbatim>\<open>int(v)\<close> with \<^verbatim>\<open>TypeError\<close> and \<^verbatim>\<open>ValueError\<close> mapped to 0; an infinity raises \<^verbatim>\<open>OverflowError\<close>.\<close>

definition demotion_of :: "json \<Rightarrow> int res" where
  "demotion_of v = (case v of JInt i \<Rightarrow> Inr i | JBool b \<Rightarrow> Inr (if b then 1 else 0)
     | JStr s \<Rightarrow> Inr (case int_of_text s of Some n \<Rightarrow> n | None \<Rightarrow> 0)
     | JFloat r \<Rightarrow> (case int_of_float r of Inl (ArithErr t) \<Rightarrow> Inl (ArithErr t) | Inl e \<Rightarrow> Inr 0 | Inr n \<Rightarrow> Inr n)
     | _ \<Rightarrow> Inr 0)"

definition carp_of :: "obj \<Rightarrow> carp_status res" where
  "carp_of vip =
     (let rows = (case map_of vip ''rows'' of Some (JArr rs) \<Rightarrow> rs | _ \<Rightarrow> []);
          blk = (case map_of vip ''carp'' of Some (JObj d) \<Rightarrow> JObj d | _ \<Rightarrow> JObj []);
          vs = List.map_filter row_vhid rows;
          maint = bool_truthy (dget_or blk ''maintenancemode'' (dget_or blk ''maintenance_mode'' (JBool False)));
          enabled = (vs \<noteq> [])
      in rbnd (demotion_of (dget_or blk ''demotion'' (JInt 0))) (\<lambda>demotion. rbnd (classify_role enabled maint vs) (\<lambda>role.
         Inr \<lparr>cs_role = role, cs_enabled = enabled, cs_maintenance = maint,
           cs_demotion = demotion,
           cs_status_msg = py_str (dget_or blk ''status_msg'' (JStr [])), cs_vhids = vs\<rparr>)))"

definition collect_carp_status :: "client \<Rightarrow> carp_status io" where
  "collect_carp_status c =
     bnd (safe_get c ''/api/diagnostics/interface/getVipStatus'') (\<lambda>vip. of_res (carp_of vip))"

section \<open>The HA pair\<close>

text \<open>
  \<^verbatim>\<open>OPNsenseClusterClient\<close>: two clients, their names, and the probes cached for one request.
  Operations that may probe return the updated object.
\<close>

datatype side = SideA | SideB

record carp_probe =
  p_role :: carp_role
  p_enabled :: bool

record cluster =
  cl_a :: client
  cl_b :: client
  cl_name_a :: string
  cl_name_b :: string
  cl_probe_a :: "carp_probe option"
  cl_probe_b :: "carp_probe option"

definition mk_cluster :: "client \<Rightarrow> client \<Rightarrow> string \<Rightarrow> string \<Rightarrow> cluster" where
  "mk_cluster a b na nb = \<lparr>cl_a = a, cl_b = b, cl_name_a = na, cl_name_b = nb,
     cl_probe_a = None, cl_probe_b = None\<rparr>"

definition probe_of :: "carp_status \<Rightarrow> carp_probe" where
  "probe_of s = \<lparr>p_role = cs_role s, p_enabled = cs_enabled s\<rparr>"

definition set_carp_cache :: "carp_status option \<Rightarrow> carp_status option \<Rightarrow> cluster \<Rightarrow> cluster" where
  "set_carp_cache sa sb cl =
     (let cl1 = (case sa of None \<Rightarrow> cl | Some s \<Rightarrow> cl\<lparr>cl_probe_a := Some (probe_of s)\<rparr>)
      in case sb of None \<Rightarrow> cl1 | Some s \<Rightarrow> cl1\<lparr>cl_probe_b := Some (probe_of s)\<rparr>)"

text \<open>Each missing probe is collected, that of A first.\<close>

definition ensure_probes :: "cluster \<Rightarrow> (carp_probe \<times> carp_probe \<times> cluster) io" where
  "ensure_probes cl =
     bnd (case cl_probe_a cl of Some p \<Rightarrow> ret p
          | None \<Rightarrow> bnd (collect_carp_status (cl_a cl)) (\<lambda>s. ret (probe_of s))) (\<lambda>pa.
     bnd (case cl_probe_b cl of Some p \<Rightarrow> ret p
          | None \<Rightarrow> bnd (collect_carp_status (cl_b cl)) (\<lambda>s. ret (probe_of s))) (\<lambda>pb.
     ret (pa, pb, cl\<lparr>cl_probe_a := Some pa, cl_probe_b := Some pb\<rparr>)))"

definition side_of_roles :: "carp_role \<Rightarrow> carp_role \<Rightarrow> side" where
  "side_of_roles ra rb =
     (if ra = RMaster \<and> rb \<noteq> RMaster then SideA
      else if rb = RMaster \<and> ra \<noteq> RMaster then SideB
      else SideA)"

definition master_side :: "cluster \<Rightarrow> (side \<times> cluster) io" where
  "master_side cl =
     bnd (ensure_probes cl) (\<lambda>(pa, pb, cl'). ret (side_of_roles (p_role pa) (p_role pb), cl'))"

definition master :: "cluster \<Rightarrow> (client \<times> cluster) io" where
  "master cl = bnd (master_side cl) (\<lambda>(s, cl'). ret (if s = SideA then cl_a cl else cl_b cl, cl'))"

definition backup :: "cluster \<Rightarrow> (client \<times> cluster) io" where
  "backup cl = bnd (master_side cl) (\<lambda>(s, cl'). ret (if s = SideA then cl_b cl else cl_a cl, cl'))"

definition master_name :: "cluster \<Rightarrow> (string \<times> cluster) io" where
  "master_name cl = bnd (master_side cl) (\<lambda>(s, cl'). ret (if s = SideA then cl_name_a cl else cl_name_b cl, cl'))"

definition backup_name :: "cluster \<Rightarrow> (string \<times> cluster) io" where
  "backup_name cl = bnd (master_side cl) (\<lambda>(s, cl'). ret (if s = SideA then cl_name_b cl else cl_name_a cl, cl'))"

record node_health =
  nh_name :: string
  nh_reachable :: bool
  nh_error :: string

definition reach :: "client \<Rightarrow> (bool \<times> string) io" where
  "reach c = try_else (client_get c ''/api/core/firmware/info'' []) is_opn
     (\<lambda>e. ret (False, exn_str e)) (\<lambda>_. ret (True, []))"

definition health :: "cluster \<Rightarrow> (node_health \<times> node_health \<times> string \<times> cluster) io" where
  "health cl =
     bnd (reach (cl_a cl)) (\<lambda>(ra, ea).
     bnd (reach (cl_b cl)) (\<lambda>(rb, eb).
     bnd (try_catch
            (if ra \<and> rb then master_name cl
             else ret (if ra then cl_name_a cl else if rb then cl_name_b cl else [], cl))
            is_opn (\<lambda>_. ret ([], cl))) (\<lambda>(m, cl').
     ret (\<lparr>nh_name = cl_name_a cl, nh_reachable = ra, nh_error = ea\<rparr>,
          \<lparr>nh_name = cl_name_b cl, nh_reachable = rb, nh_error = eb\<rparr>, m, cl'))))"

section \<open>Reading status never writes\<close>

lemma read_only_carp [trace_intros]: "read_only_io (collect_carp_status c)"
  unfolding collect_carp_status_def safe_get_def by (intro trace_intros)

lemma read_only_master_side [trace_intros]: "read_only_io (master_side cl)"
  unfolding master_side_def ensure_probes_def
  by (intro trace_intros) (auto split: option.split prod.split intro!: trace_intros)

section \<open>Role and master resolution\<close>

lemma demotion_of_Inl: "demotion_of v = Inl e \<Longrightarrow> \<exists>t. e = ArithErr t"
  by (auto simp: demotion_of_def split: json.splits sum.splits exn.splits)

text \<open>A demotion that is infinite, which \<^verbatim>\<open>json.loads\<close> reads from \<^verbatim>\<open>Infinity\<close> or \<^verbatim>\<open>1e999\<close>, is not mapped to 0.\<close>

lemma demotion_infinite: "demotion_of (JFloat ''inf'') = Inl (ArithErr ''cannot convert float infinity to integer'')"
  by code_simp

lemma collect_carp_errors:
  "runs (collect_carp_status c) (\<lambda>r es. \<forall>e. r = Inl e \<longrightarrow> is_opn e \<or> (\<exists>t. e = ArithErr t))"
proof -
  have carp: "carp_of d = Inl e \<Longrightarrow> is_opn e \<or> (\<exists>t. e = ArithErr t)" for d e
    by (auto simp: carp_of_def classify_role_def rbnd_def primary_vhid_def Let_def
        split: sum.splits if_splits option.splits dest: demotion_of_Inl)
  have safe: "runs (safe_get c p) (\<lambda>r es. \<exists>d. r = Inr d)" for p
    unfolding safe_get_def by (rule runs_try_else [OF runs_client_get [where Q = "\<lambda>r es. \<forall>e. r = Inl e \<longrightarrow> is_opn e"]]) auto
  show ?thesis
    unfolding collect_carp_status_def
    by (rule runs_bnd [OF safe]) (auto dest: carp)
qed

lemma side_unique_master:
  "ra = RMaster \<Longrightarrow> rb \<noteq> RMaster \<Longrightarrow> side_of_roles ra rb = SideA"
  "ra \<noteq> RMaster \<Longrightarrow> rb = RMaster \<Longrightarrow> side_of_roles ra rb = SideB"
  by (auto simp: side_of_roles_def)

text \<open>With both probes cached, the master is resolved without touching the network.\<close>

lemma master_side_cached:
  "cl_probe_a cl = Some pa \<Longrightarrow> cl_probe_b cl = Some pb \<Longrightarrow>
   master_side cl E tr = (Inr (side_of_roles (p_role pa) (p_role pb), cl), tr)"
  by (simp add: master_side_def ensure_probes_def bnd_def ret_def)

end
