(* ===== verification/Sha256.thy ===== *)
theory Sha256
  imports Prelude "HOL-Library.Word"
begin

unbundle bit_operations_syntax

text \<open>
  SHA-256 (FIPS 180-4) on byte strings, as \<^verbatim>\<open>hashlib.sha256(..).hexdigest()\<close> computes it: the
  program compares revisions and audit digests by this function, so it is a definition here and not
  a parameter. The lemmas at the end give the shape of every digest.
\<close>

type_synonym u32 = "32 word"

definition rotr32 :: "nat \<Rightarrow> u32 \<Rightarrow> u32" where
  "rotr32 n x = (drop_bit n x OR push_bit (32 - n) x)"

definition big_sigma0 :: "u32 \<Rightarrow> u32" where
  "big_sigma0 x = (rotr32 2 x XOR rotr32 13 x XOR rotr32 22 x)"

definition big_sigma1 :: "u32 \<Rightarrow> u32" where
  "big_sigma1 x = (rotr32 6 x XOR rotr32 11 x XOR rotr32 25 x)"

definition small_sigma0 :: "u32 \<Rightarrow> u32" where
  "small_sigma0 x = (rotr32 7 x XOR rotr32 18 x XOR drop_bit 3 x)"

definition small_sigma1 :: "u32 \<Rightarrow> u32" where
  "small_sigma1 x = (rotr32 17 x XOR rotr32 19 x XOR drop_bit 10 x)"

definition ch32 :: "u32 \<Rightarrow> u32 \<Rightarrow> u32 \<Rightarrow> u32" where
  "ch32 x y z = ((x AND y) XOR (NOT x AND z))"

definition maj32 :: "u32 \<Rightarrow> u32 \<Rightarrow> u32 \<Rightarrow> u32" where
  "maj32 x y z = ((x AND y) XOR (x AND z) XOR (y AND z))"

definition round_constants :: "u32 list" where
  "round_constants =
    [1116352408, 1899447441, 3049323471, 3921009573, 961987163, 1508970993, 2453635748,
     2870763221, 3624381080, 310598401, 607225278, 1426881987, 1925078388, 2162078206,
     2614888103, 3248222580, 3835390401, 4022224774, 264347078, 604807628, 770255983,
     1249150122, 1555081692, 1996064986, 2554220882, 2821834349, 2952996808, 3210313671,
     3336571891, 3584528711, 113926993, 338241895, 666307205, 773529912, 1294757372,
     1396182291, 1695183700, 1986661051, 2177026350, 2456956037, 2730485921, 2820302411,
     3259730800, 3345764771, 3516065817, 3600352804, 4094571909, 275423344, 430227734,
     506948616, 659060556, 883997877, 958139571, 1322822218, 1537002063, 1747873779,
     1955562222, 2024104815, 2227730452, 2361852424, 2428436474, 2756734187, 3204031479,
     3329325298]"

datatype hstate = HS u32 u32 u32 u32 u32 u32 u32 u32

definition initial_hash :: hstate where
  "initial_hash = HS 1779033703 3144134277 1013904242 2773480762
                     1359893119 2600822924 528734635 1541459225"

text \<open>The message schedule: the sixteen words of the block, then forty-eight derived ones.\<close>

fun extend :: "nat \<Rightarrow> u32 list \<Rightarrow> u32 list" where
  "extend 0 ws = ws"
| "extend (Suc n) ws =
     extend n (ws @ [small_sigma1 (ws ! (length ws - 2)) + ws ! (length ws - 7)
                     + small_sigma0 (ws ! (length ws - 15)) + ws ! (length ws - 16)])"

fun step :: "hstate \<Rightarrow> u32 \<times> u32 \<Rightarrow> hstate" where
  "step (HS a b c d e f g h) (k, w) =
     (let t1 = h + big_sigma1 e + ch32 e f g + k + w;
          t2 = big_sigma0 a + maj32 a b c
      in HS (t1 + t2) a b c (d + t1) e f g)"

fun add_state :: "hstate \<Rightarrow> hstate \<Rightarrow> hstate" where
  "add_state (HS a b c d e f g h) (HS a' b' c' d' e' f' g' h') =
     HS (a + a') (b + b') (c + c') (d + d') (e + e') (f + f') (g + g') (h + h')"

definition compress :: "hstate \<Rightarrow> u32 list \<Rightarrow> hstate" where
  "compress st blk = add_state st (foldl step st (zip round_constants (extend 48 blk)))"

text \<open>
  Padding: one bit, zeros, and the length in bits as eight big-endian bytes. Byte values are
  integers, not unary naturals, so that digests can be evaluated.
\<close>

fun be_bytes :: "nat \<Rightarrow> int \<Rightarrow> int list" where
  "be_bytes 0 n = []"
| "be_bytes (Suc k) n = be_bytes k (n div 256) @ [n mod 256]"

definition pad :: "int list \<Rightarrow> int list" where
  "pad bs = (let n = int (length bs)
             in bs @ [128] @ replicate (nat ((119 - n mod 64) mod 64)) 0 @ be_bytes 8 (8 * n))"

fun to_words :: "int list \<Rightarrow> u32 list" where
  "to_words (a # b # c # d # bs) =
     word_of_int (((a * 256 + b) * 256 + c) * 256 + d) # to_words bs"
| "to_words _ = []"

fun blocks :: "nat \<Rightarrow> u32 list \<Rightarrow> u32 list list" where
  "blocks 0 ws = []"
| "blocks (Suc n) ws = take 16 ws # blocks n (drop 16 ws)"

definition digest :: "int list \<Rightarrow> hstate" where
  "digest bs = (let ws = to_words (pad bs) in foldl compress initial_hash (blocks (length ws div 16) ws))"

definition hex_digit :: "int \<Rightarrow> char" where
  "hex_digit n = (if n < 10 then char_of (48 + n) else char_of (87 + n))"

fun hex_int :: "nat \<Rightarrow> int \<Rightarrow> string" where
  "hex_int 0 n = []"
| "hex_int (Suc k) n = hex_int k (n div 16) @ [hex_digit (n mod 16)]"

fun hex_state :: "hstate \<Rightarrow> string" where
  "hex_state (HS a b c d e f g h) =
     concat (map (\<lambda>w. hex_int 8 (uint w)) [a, b, c, d, e, f, g, h])"

definition sha256_hex :: "string \<Rightarrow> string" where
  "sha256_hex s = hex_state (digest (map of_char s))"

section \<open>Every digest is sixty-four lower-case hexadecimal digits\<close>

lemma length_hex_int [simp]: "length (hex_int k n) = k"
  by (induction k n rule: hex_int.induct) auto

lemma is_hex_lower_hex_digit: "0 \<le> n \<Longrightarrow> n < 16 \<Longrightarrow> is_hex_lower (hex_digit n)"
proof -
  assume n: "0 \<le> n" "n < 16"
  have codes: "code (CHR ''0'') = 48" "code (CHR ''9'') = 57" "code (CHR ''a'') = 97" "code (CHR ''f'') = 102"
    by (simp_all add: code_def)
  show ?thesis
    using n by (auto simp: hex_digit_def is_hex_lower_def is_digit_def in_range_def codes)
qed

lemma hex_int_lower: "list_all is_hex_lower (hex_int k n)"
  by (induction k n rule: hex_int.induct) (auto simp: is_hex_lower_hex_digit)

lemma length_sha256_hex [simp]: "length (sha256_hex s) = 64"
  by (cases "digest (map of_char s)") (simp add: sha256_hex_def)

lemma sha256_hex_lower: "list_all is_hex_lower (sha256_hex s)"
  by (cases "digest (map of_char s)") (simp add: sha256_hex_def hex_int_lower)

end
