(* ===== verification/Audit_Log.thy ===== *)
theory Audit_Log
  imports Effects Pylib Sha256
begin

text \<open>
  The audit log, \<^verbatim>\<open>src/writers/audit.py\<close>: the digest of a payload, entries, and the append that
  every writer performs. The file itself is the environment's; a line reaches it when the append
  does not raise.
\<close>

definition canonical_json :: "json \<Rightarrow> string" where
  "canonical_json v = dumps '','' '':'' v"

text \<open>\<^verbatim>\<open>hash_payload\<close>: the empty text for \<^verbatim>\<open>None\<close>, else the digest of the canonical JSON.\<close>

definition hash_payload :: "json \<Rightarrow> string" where
  "hash_payload v = (if v = JNull then [] else sha256_hex (canonical_json v))"

text \<open>\<^verbatim>\<open>AuditEntry.now\<close>.\<close>

definition entry_now ::
  "string \<Rightarrow> string \<Rightarrow> string \<Rightarrow> string \<Rightarrow> string \<Rightarrow> int \<Rightarrow> string \<Rightarrow> string \<Rightarrow> audit_entry io" where
  "entry_now usr action target hst rslt dur detail sha =
     bnd utc_now (\<lambda>ts. ret \<lparr>ae_ts = ts, ae_user = usr, ae_action = action, ae_target = target,
       ae_host = hst, ae_result = rslt, ae_duration_ms = dur, ae_detail = detail,
       ae_payload_sha256 = sha\<rparr>)"

definition audit_now ::
  "string \<Rightarrow> string \<Rightarrow> string \<Rightarrow> string \<Rightarrow> string \<Rightarrow> int \<Rightarrow> string \<Rightarrow> string \<Rightarrow> audit_entry io" where
  "audit_now usr action target hst rslt dur detail sha =
     bnd (entry_now usr action target hst rslt dur detail sha) (\<lambda>a. bnd (audit_append a) (\<lambda>_. ret a))"

section \<open>Digests\<close>

lemma hash_payload_canon: "canon v = canon w \<Longrightarrow> v \<noteq> JNull \<Longrightarrow> w \<noteq> JNull \<Longrightarrow> hash_payload v = hash_payload w"
  unfolding hash_payload_def canonical_json_def by (metis dumps_canon)

lemma hash_payload_length: "v \<noteq> JNull \<Longrightarrow> length (hash_payload v) = 64"
  by (simp add: hash_payload_def)

lemma hash_payload_lower: "list_all is_hex_lower (hash_payload v)"
  by (simp add: hash_payload_def sha256_hex_lower)

section \<open>Entries\<close>

definition entry_of ::
  "string \<Rightarrow> string \<Rightarrow> string \<Rightarrow> string \<Rightarrow> string \<Rightarrow> string \<Rightarrow> string \<Rightarrow> audit_entry \<Rightarrow> bool" where
  "entry_of usr action target hst rslt detail sha a =
     (ae_user a = usr \<and> ae_action a = action \<and> ae_target a = target \<and> ae_host a = hst \<and>
      ae_result a = rslt \<and> ae_detail a = detail \<and> ae_payload_sha256 a = sha)"

lemma runs_entry_now [trace_intros]:
  "(\<And>a. entry_of usr action target hst rslt detail sha a \<Longrightarrow> ae_duration_ms a = dur \<Longrightarrow> Q (Inr a) []) \<Longrightarrow>
   runs (entry_now usr action target hst rslt dur detail sha) Q"
  unfolding entry_now_def
  by (rule runs_bnd [OF runs_utc_now [where Q = "\<lambda>r es. (\<exists>t. r = Inr t) \<and> es = []"]])
    (auto simp: entry_of_def)

lemma runs_audit_now [trace_intros]:
  assumes ok: "\<And>a. entry_of usr action target hst rslt detail sha a \<Longrightarrow> Q (Inr a) [AuditEv a None]"
    and fail: "\<And>a msg. entry_of usr action target hst rslt detail sha a \<Longrightarrow>
      Q (Inl (OSErr msg)) [AuditEv a (Some msg)]"
  shows "runs (audit_now usr action target hst rslt dur detail sha) Q"
  unfolding audit_now_def
proof (rule runs_bnd [OF runs_entry_now [where Q = "\<lambda>r es. es = [] \<and>
    (\<exists>a. r = Inr a \<and> entry_of usr action target hst rslt detail sha a)"]])
  fix a and es :: trace assume "es = [] \<and> (\<exists>a'. Inr a = Inr a' \<and> entry_of usr action target hst rslt detail sha a')"
  then have a: "es = []" "entry_of usr action target hst rslt detail sha a" by auto
  show "runs (bnd (audit_append a) (\<lambda>_. ret a)) (\<lambda>r es'. Q r (es @ es'))"
    by (rule runs_bnd [OF runs_audit_append [where Q = "\<lambda>r es. case r of
        Inr _ \<Rightarrow> es = [AuditEv a None] | Inl e \<Rightarrow> \<exists>msg. e = OSErr msg \<and> es = [AuditEv a (Some msg)]"]])
      (use a ok fail in auto)
qed auto

end
