(* ===== verification/Forms.thy ===== *)
theory Forms
  imports Effects Audit_Log
begin

text \<open>
  The pure half of \<^verbatim>\<open>src/writers/verified.py\<close>: validation of revisions and UUIDs, the
  conversion of OPNsense form dictionaries to stored values, comparison of a readback with what was
  requested, and the acknowledgement check.
\<close>

section \<open>Revisions and UUIDs\<close>

definition validate_revision :: "json \<Rightarrow> string res" where
  "validate_revision v = (case v of
      JStr s \<Rightarrow> if length s = 64 \<and> list_all is_hex_lower s then Inr s
        else Inl (ValueErr ''revision must be the 64-character revision returned by the latest listing'')
    | _ \<Rightarrow> Inl (ValueErr ''revision must be the 64-character revision returned by the latest listing''))"

definition validate_uuid :: "json \<Rightarrow> string res" where
  "validate_uuid v = (case v of
      JStr s \<Rightarrow> if canonical_uuid (lower s) then Inr (lower s)
        else Inl (ValueErr ''uuid must be a canonical UUID'')
    | _ \<Rightarrow> Inl (TypeErr ''uuid must be a UUID string''))"

lemma validate_uuid_Inr:
  "validate_uuid v = Inr u \<Longrightarrow> canonical_uuid u \<and> (\<exists>s. v = JStr s \<and> u = lower s)"
  by (auto simp: validate_uuid_def split: json.splits if_splits)

lemma validate_uuid_again: "validate_uuid v = Inr u \<Longrightarrow> validate_uuid (JStr u) = Inr u"
  by (auto simp: validate_uuid_def split: json.splits if_splits)

lemma validate_uuid_Inl: "validate_uuid v = Inl e \<Longrightarrow> (\<exists>s. e = ValueErr s) \<or> (\<exists>s. e = TypeErr s)"
  by (auto simp: validate_uuid_def split: json.splits if_splits)

lemma validate_revision_Inr: "validate_revision v = Inr r \<Longrightarrow> v = JStr r"
  by (auto simp: validate_revision_def split: json.splits if_splits)

lemma validate_revision_hash: "v \<noteq> JNull \<Longrightarrow> validate_revision (JStr (hash_payload v)) = Inr (hash_payload v)"
  by (simp add: validate_revision_def hash_payload_length hash_payload_lower)

section \<open>Form dictionaries\<close>

text \<open>
  \<^verbatim>\<open>selected\<close>: an option dictionary (every value an object with the key \<^verbatim>\<open>selected\<close>) becomes the
  comma-separated keys of the selected options; other dictionaries are converted recursively.
\<close>

definition is_option :: "json \<Rightarrow> bool" where
  "is_option v = (is_obj v \<and> dget v ''selected'' \<noteq> None)"

definition is_options :: "obj \<Rightarrow> bool" where
  "is_options kvs = (kvs \<noteq> [] \<and> list_all (\<lambda>(k, v). is_option v) kvs)"

definition chosen :: "obj \<Rightarrow> string list" where
  "chosen kvs = map fst (filter (\<lambda>(k, v). py_str (dget_or v ''selected'' JNull) = ''1'') kvs)"

fun selected :: "json \<Rightarrow> json" where
  "selected (JObj kvs) =
     (if is_options kvs then JStr (join '','' (chosen kvs))
      else JObj (map (\<lambda>(k, v). (k, selected v)) kvs))"
| "selected v = v"

lemma selected_str [simp]: "selected (JStr s) = JStr s"
  by simp

lemma is_option_selected: "is_option (selected v) \<Longrightarrow> is_option v"
  by (cases v) (auto simp: is_option_def map_of_map split: if_splits)

lemma selected_not_options:
  assumes "\<not> is_options kvs" shows "\<not> is_options (map (\<lambda>(k, v). (k, selected v)) kvs)"
  using assms by (fastforce simp: is_options_def list_all_iff dest: is_option_selected)

text \<open>A canonical value stays as it is: reading a form twice changes nothing.\<close>

lemma selected_idem: "selected (selected v) = selected v"
proof (induction v rule: selected.induct)
  case (1 kvs)
  show ?case
  proof (cases "is_options kvs")
    case False
    have "map (\<lambda>(k, v). (k, selected v)) (map (\<lambda>(k, v). (k, selected v)) kvs) =
        map (\<lambda>(k, v). (k, selected v)) kvs"
      using 1 False by auto
    with False selected_not_options [OF False] show ?thesis by simp
  qed simp
qed auto

lemma jwf_selected: "jwf v \<Longrightarrow> jwf (selected v)"
proof (induction v rule: selected.induct)
  case (1 kvs)
  have "map fst (map (\<lambda>(k, v). (k, selected v)) kvs) = map fst kvs" by auto
  with 1 show ?case by (auto simp del: map_map)
qed auto

section \<open>Comparing a readback with the request\<close>

text \<open>
  \<^verbatim>\<open>_flatten\<close> as the list of its assignments in order; a later one wins, as in
  \<^verbatim>\<open>dict.update\<close>. Calling it on something that has no \<^verbatim>\<open>items\<close> raises.
\<close>

fun flat :: "string \<Rightarrow> json \<Rightarrow> (string \<times> string) list" where
  "flat prefix (JObj kvs) =
     concat (map (\<lambda>(k, v). if is_obj v then flat (prefix @ k @ ''.'') v
                           else [(prefix @ k, if v = JNull then [] else py_str v)]) kvs)"
| "flat prefix v = []"

declare flat.simps [simp del]

definition flatten :: "json \<Rightarrow> (string \<times> string) list res" where
  "flatten v = (case v of JObj kvs \<Rightarrow> Inr (flat [] v)
     | _ \<Rightarrow> Inl (AttrErr ''object has no attribute items''))"

definition fget :: "(string \<times> string) list \<Rightarrow> string \<Rightarrow> string option" where
  "fget l k = map_of (rev l) k"

text \<open>Protocol names compare without case, alias content as the sorted list of its entries.\<close>

definition norm_field :: "string \<Rightarrow> string \<Rightarrow> string list" where
  "norm_field k s =
     (if k = ''content'' then sort (split_on (CHR '','') (replace_char (CHR 0x0A) (CHR '','') s))
      else if k = ''protocol'' then [lower s] else [s])"

definition same_field :: "(string \<times> string) list \<Rightarrow> (string \<times> string) list \<Rightarrow> string \<Rightarrow> bool" where
  "same_field act ex k = (case fget act k of None \<Rightarrow> False
     | Some s \<Rightarrow> (case fget ex k of None \<Rightarrow> False | Some t \<Rightarrow> norm_field k s = norm_field k t))"

definition matches :: "json \<Rightarrow> json \<Rightarrow> bool res" where
  "matches actual expected =
     rbnd (flatten (selected actual)) (\<lambda>act.
     rbnd (flatten expected) (\<lambda>ex.
     Inr (list_all (\<lambda>(k, _). same_field act ex k) ex)))"

lemma flatten_JObj [simp]: "flatten (JObj kvs) = Inr (flat [] (JObj kvs))"
  by (simp add: flatten_def)

lemma fget_some: "(k, t) \<in> set l \<Longrightarrow> \<exists>s. fget l k = Some s"
  unfolding fget_def by (metis set_rev weak_map_of_SomeI)

lemma matches_obj:
  "matches actual (JObj d) = Inr b \<Longrightarrow> \<exists>kvs. selected actual = JObj kvs"
  by (auto simp: matches_def flatten_def rbnd_def split: json.splits)

text \<open>What a successful comparison says: every requested field is in the readback with the same value.\<close>

lemma matches_sound:
  assumes "matches actual expected = Inr True" and "(k, t) \<in> set (flat [] expected)"
  shows "\<exists>s t'. fget (flat [] (selected actual)) k = Some s \<and> fget (flat [] expected) k = Some t' \<and>
    norm_field k s = norm_field k t'"
proof -
  have "same_field (flat [] (selected actual)) (flat [] expected) k"
    using assms by (auto simp: matches_def flatten_def rbnd_def list_all_iff split: json.splits sum.splits)
  then show ?thesis by (auto simp: same_field_def split: option.splits)
qed

text \<open>Reading back exactly what was requested always passes.\<close>

lemma matches_refl:
  assumes "selected actual = JObj d" shows "matches actual (JObj d) = Inr True"
proof -
  have "same_field (flat [] (JObj d)) (flat [] (JObj d)) k" if "(k, t) \<in> set (flat [] (JObj d))" for k t
    using fget_some [OF that] by (auto simp: same_field_def)
  with assms show ?thesis by (auto simp: matches_def rbnd_def list_all_iff)
qed

section \<open>Acknowledgements\<close>

definition ack_words :: "string list" where
  "ack_words = [''ok'', ''saved'', ''deleted'', ''done'', ''success'']"

definition markers :: "obj \<Rightarrow> string list" where
  "markers d = concat (map (\<lambda>k. case map_of d k of None \<Rightarrow> [] | Some v \<Rightarrow> [lower (strip (py_str v))])
     [''result'', ''status''])"

definition require_success :: "json \<Rightarrow> string \<Rightarrow> obj res" where
  "require_success response what = (case response of
      JObj d \<Rightarrow>
        if truthy_opt (map_of d ''validations'') then
          Inl (Rejected (what @ '': OPNsense rejected validation'') (map_of d ''validations''))
        else if markers d = [] \<or> \<not> list_all (\<lambda>m. m \<in> set ack_words) (markers d) then
          Inl (Rejected (what @ '': OPNsense did not acknowledge success'') None)
        else Inr d
    | _ \<Rightarrow> Inl (Rejected (what @ '': invalid API response'') None))"

lemma require_success_Inl: "require_success v what = Inl e \<Longrightarrow> \<exists>s m. e = Rejected s m"
  by (auto simp: require_success_def split: json.splits if_splits)

lemma require_success_Inr: "require_success v what = Inr d \<Longrightarrow>
  v = JObj d \<and> markers d \<noteq> [] \<and> set (markers d) \<subseteq> set ack_words"
  by (auto simp: require_success_def list_all_iff split: json.splits if_splits)

end
