(* ===== verification/Verified.thy ===== *)
theory Verified
  imports Carp Forms "HOL-Library.Sublist"
begin

text \<open>
  The verified writer for destination NAT, filter rules and aliases: the class
  \<^verbatim>\<open>VerifiedFirewallWriter\<close> of \<^verbatim>\<open>src/writers/verified.py\<close>. One operation reserves a line of the
  audit log, checks the HA preconditions and the revision, sends one mutation, applies it, reads it
  back, observes the peer, and records the outcome.
\<close>

section \<open>The writer\<close>

datatype resource = PortForward | Rules | Aliases

record wspec =
  ws_base :: string
  ws_suffix :: string
  ws_key :: string
  ws_apply :: string

fun specs :: "resource \<Rightarrow> wspec" where
  "specs PortForward = \<lparr>ws_base = ''/api/firewall/d_nat'', ws_suffix = ''Rule'', ws_key = ''rule'', ws_apply = ''apply''\<rparr>"
| "specs Rules = \<lparr>ws_base = ''/api/firewall/filter'', ws_suffix = ''Rule'', ws_key = ''rule'', ws_apply = ''apply''\<rparr>"
| "specs Aliases = \<lparr>ws_base = ''/api/firewall/alias'', ws_suffix = ''Item'', ws_key = ''alias'', ws_apply = ''reconfigure''\<rparr>"

fun resource_name :: "resource \<Rightarrow> string" where
  "resource_name PortForward = ''port_forward''"
| "resource_name Rules = ''rules''"
| "resource_name Aliases = ''aliases''"

definition alias_runtime_fields :: "string list" where
  "alias_runtime_fields =
     [''last_updated'', ''eval_match'', ''eval_nomatch'',
      ''in_pass_b'', ''in_pass_p'', ''out_pass_b'', ''out_pass_p'',
      ''in_block_b'', ''in_block_p'', ''out_block_b'', ''out_block_p'']"

datatype sync_mode = Automatic | XmlrpcPf

fun mode_name :: "sync_mode \<Rightarrow> string" where
  "mode_name Automatic = ''automatic''"
| "mode_name XmlrpcPf = ''xmlrpc_pf''"

record writer =
  vw_client :: client
  vw_resource :: resource
  vw_actor :: string
  vw_peer :: "client option"
  vw_attempts :: nat
  vw_backoff :: rat
  vw_mode :: sync_mode

definition mk_writer ::
  "client \<Rightarrow> resource \<Rightarrow> string \<Rightarrow> client option \<Rightarrow> json \<Rightarrow> json \<Rightarrow> json \<Rightarrow> writer res" where
  "mk_writer c rsrc actor peer attempts backoff mode =
     (case (if mode = JStr ''automatic'' then Some Automatic
            else if mode = JStr ''xmlrpc_pf'' then Some XmlrpcPf else None) of
        None \<Rightarrow> Inl (ValueErr ''ha_sync_mode must be automatic or xmlrpc_pf'')
      | Some m \<Rightarrow>
          (case attempts of
             JInt n \<Rightarrow>
               if \<not> (1 \<le> n \<and> n \<le> 10) then
                 Inl (ValueErr ''ha_verify_attempts must be an integer between 1 and 10'')
               else (case json_rat backoff of
                   Some b \<Rightarrow> if 0 \<le> b \<and> b \<le> 2 then
                       Inr \<lparr>vw_client = c, vw_resource = rsrc, vw_actor = actor, vw_peer = peer,
                         vw_attempts = nat n, vw_backoff = b, vw_mode = m\<rparr>
                     else Inl (ValueErr ''ha_verify_backoff must be a number between 0 and 2 seconds'')
                 | None \<Rightarrow> Inl (ValueErr ''ha_verify_backoff must be a number between 0 and 2 seconds''))
           | _ \<Rightarrow> Inl (ValueErr ''ha_verify_attempts must be an integer between 1 and 10'')))"

abbreviation vw_spec :: "writer \<Rightarrow> wspec" where
  "vw_spec w \<equiv> specs (vw_resource w)"

section \<open>Reading\<close>

text \<open>\<^verbatim>\<open>re.fullmatch("lockout_\\d+", s)\<close>: the anti-lockout rows OPNsense generates.\<close>

definition is_lockout :: "string \<Rightarrow> bool" where
  "is_lockout s = (starts_with ''lockout_'' s \<and> isdigit (drop 8 s))"

definition check_total :: "json \<Rightarrow> nat \<Rightarrow> unit res" where
  "check_total tot cnt =
     (let text = py_str tot in
      if (case tot of JInt _ \<Rightarrow> True | JStr _ \<Rightarrow> True | _ \<Rightarrow> False) \<and> isdigit text \<and>
         (is_str tot \<longrightarrow> length text \<le> 4300)
      then if dec_val 0 text > int cnt
           then Inl (OPNErr ''search: incomplete response; refusing partial verification'')
           else Inr ()
      else Inl (OPNErr ''search: invalid total''))"

definition check_search :: "resource \<Rightarrow> json \<Rightarrow> json list res" where
  "check_search rsrc out = (case out of
      JObj d \<Rightarrow> (case map_of d ''rows'' of
          Some (JArr rows) \<Rightarrow>
            if \<not> list_all is_obj rows then Inl (OPNErr ''search: invalid row'')
            else (let cnt = length (filter (\<lambda>row. \<not> (rsrc = PortForward \<and>
                        is_lockout (py_str (dget_or row ''uuid'' (JStr []))))) rows)
                  in case map_of d ''total'' of
                      None \<Rightarrow> Inr rows
                    | Some tot \<Rightarrow> rbnd (check_total tot cnt) (\<lambda>_. Inr rows))
        | _ \<Rightarrow> Inl (OPNErr ''search: invalid API response (rows missing)''))
    | _ \<Rightarrow> Inl (OPNErr ''search: invalid API response (rows missing)''))"

definition search_path :: "writer \<Rightarrow> string" where
  "search_path w = ws_base (vw_spec w) @ ''/search'' @ ws_suffix (vw_spec w)"

definition search_params :: obj where
  "search_params = [(''rowCount'', JInt (-1)), (''current'', JInt 1)]"

definition search :: "writer \<Rightarrow> client \<Rightarrow> json list io" where
  "search w c = bnd (client_get c (search_path w) search_params)
     (\<lambda>out. of_res (check_search (vw_resource w) out))"

definition check_get :: "resource \<Rightarrow> json \<Rightarrow> json res" where
  "check_get rsrc out = (case dget out (ws_key (specs rsrc)) of
      Some (JObj (kv # d)) \<Rightarrow>
        (let detail = selected (JObj (kv # d)) in
         if rsrc = Aliases then
           (case detail of
              JObj fs \<Rightarrow> Inr (JObj (filter (\<lambda>(k, _). k \<notin> set alias_runtime_fields) fs))
            | _ \<Rightarrow> Inl (AttrErr ''str object has no attribute items''))
         else Inr detail)
    | _ \<Rightarrow> Inl (OPNErr ''readback: requested object missing or invalid''))"

definition get_path :: "writer \<Rightarrow> string \<Rightarrow> string" where
  "get_path w uuid = ws_base (vw_spec w) @ ''/get'' @ ws_suffix (vw_spec w) @ ''/'' @ uuid"

definition get :: "writer \<Rightarrow> string \<Rightarrow> client \<Rightarrow> json io" where
  "get w uuid c = bnd (client_get c (get_path w uuid) []) (\<lambda>out. of_res (check_get (vw_resource w) out))"

definition row_is :: "string \<Rightarrow> json \<Rightarrow> bool" where
  "row_is uuid row = (lower (py_str (dget_or row ''uuid'' (JStr []))) = lower uuid)"

definition verify :: "writer \<Rightarrow> string \<Rightarrow> json option \<Rightarrow> client \<Rightarrow> bool io" where
  "verify w uuid expected c = (case expected of
      None \<Rightarrow> bnd (search w c) (\<lambda>rows. ret (\<not> list_ex (row_is uuid) rows))
    | Some ex \<Rightarrow> bnd (get w uuid c) (\<lambda>actual. of_res (matches actual ex)))"

section \<open>Writing\<close>

definition verb_path :: "writer \<Rightarrow> string \<Rightarrow> string \<Rightarrow> string" where
  "verb_path w verb uuid = ws_base (vw_spec w) @ ''/'' @ verb @ ws_suffix (vw_spec w) @
     (if uuid = [] then [] else ''/'' @ uuid)"

definition apply_path :: "writer \<Rightarrow> string" where
  "apply_path w = ws_base (vw_spec w) @ ''/'' @ ws_apply (vw_spec w)"

definition post_ack :: "client \<Rightarrow> string \<Rightarrow> obj \<Rightarrow> string \<Rightarrow> obj io" where
  "post_ack c path d what = bnd (client_post c path d) (\<lambda>v. of_res (require_success v what))"

definition apply_changes :: "writer \<Rightarrow> unit io" where
  "apply_changes w = bnd (post_ack (vw_client w) (apply_path w) [] ''apply'') (\<lambda>_. ret ())"

section \<open>HA preconditions\<close>

text \<open>The literal address of an XMLRPC target: an IP address, or an HTTPS URL of one.\<close>

definition sync_target :: "json \<Rightarrow> ipaddr option" where
  "sync_target target = (case target of
      JStr s \<Rightarrow>
        (case (if infix_of ''://'' s then
                 (case urlsplit s of None \<Rightarrow> None
                  | Some u \<Rightarrow>
                      if u_scheme u \<noteq> ''https'' \<or> has_userinfo u \<or> u_path u \<notin> set [[], ''/''] \<or>
                         u_query u \<noteq> [] \<or> u_fragment u \<noteq> [] then None
                      else (case u_port u of BadPort \<Rightarrow> None
                            | Port n \<Rightarrow> if 1 \<le> n \<and> n \<le> 65535 then u_hostname u else None
                            | NoPort \<Rightarrow> u_hostname u))
               else Some s) of
           None \<Rightarrow> None
         | Some h \<Rightarrow> (case parse_ip h of
             None \<Rightarrow> None
           | Some a \<Rightarrow> if is_loopback a \<or> is_unspecified a \<or> is_multicast a then None else Some a))
    | _ \<Rightarrow> None)"

text \<open>Addresses of a node that are not CARP VIPs.\<close>

definition entry_address :: "json \<Rightarrow> ipaddr option" where
  "entry_address en = (if is_obj en \<and> \<not> truthy_opt (dget en ''vhid'')
     then ip_address (dget_or en ''ipaddr'' JNull) else None)"

definition family_addresses :: "json \<Rightarrow> string \<Rightarrow> ipaddr list res" where
  "family_addresses iface fam = (case dget_or iface fam (JArr []) of
      JArr entries \<Rightarrow> Inr (List.map_filter entry_address entries)
    | _ \<Rightarrow> Inl (UnsafeSync ''Cannot verify XMLRPC peer interfaces''))"

fun iface_addresses :: "json list \<Rightarrow> ipaddr list res" where
  "iface_addresses [] = Inr []"
| "iface_addresses (i # is) =
     (if is_obj i then
        rbnd (family_addresses i ''ipv4'') (\<lambda>a.
        rbnd (family_addresses i ''ipv6'') (\<lambda>b.
        rbnd (iface_addresses is) (\<lambda>c. Inr (a @ b @ c))))
      else iface_addresses is)"

definition addresses :: "client \<Rightarrow> ipaddr list io" where
  "addresses c = bnd (client_get c ''/api/diagnostics/interface/getInterfaceConfig'' [])
     (\<lambda>v. of_res (case v of JObj d \<Rightarrow> iface_addresses (map snd d)
                  | _ \<Rightarrow> Inl (UnsafeSync ''Cannot verify XMLRPC peer interfaces'')))"

text \<open>What a preflight pins down: the target, the sections and the CARP VIPs.\<close>

type_synonym plan = "json \<times> string list \<times> (string \<times> string) list"

fun required_section :: "resource \<Rightarrow> string" where
  "required_section Aliases = ''aliases''"
| "required_section Rules = ''rules''"
| "required_section PortForward = ''nat''"

definition hasync_of :: "json \<Rightarrow> json res" where
  "hasync_of data = (case selected data of
      JObj d \<Rightarrow> Inr (case map_of d ''hasync'' of None \<Rightarrow> JObj [] | Some v \<Rightarrow> v)
    | _ \<Rightarrow> Inl (AttrErr ''str object has no attribute get''))"

definition sections_of :: "json \<Rightarrow> string list" where
  "sections_of loc = sort (remdups (split_on (CHR '','') (py_str (dget_or loc ''syncitems'' (JStr [])))))"

text \<open>The checks on the two HA configurations; the result is the target, its address, the sections.\<close>

definition preflight_config :: "resource \<Rightarrow> json \<Rightarrow> json \<Rightarrow> (json \<times> ipaddr \<times> string list) res" where
  "preflight_config rsrc local_data peer_data =
     (if \<not> is_obj local_data \<or> \<not> is_obj peer_data then
        Inl (UnsafeSync ''Cannot verify XMLRPC configuration'')
      else rbnd (hasync_of local_data) (\<lambda>loc. rbnd (hasync_of peer_data) (\<lambda>peer.
        (case dget peer ''synchronizetoip'' of
           Some (JStr back) \<Rightarrow>
             if \<not> is_obj loc \<or> \<not> is_obj peer then
               Inl (UnsafeSync ''Cannot verify XMLRPC configuration'')
             else (let sections = sections_of loc in
               if required_section rsrc \<notin> set sections \<or> \<not> set sections \<subseteq> {''aliases'', ''rules'', ''nat''} then
                 Inl (UnsafeSync ''XMLRPC must select the required section and only aliases, rules and NAT'')
               else if back \<noteq> [] then
                 Inl (UnsafeSync ''XMLRPC must be configured in one direction only'')
               else (let target = dget_or loc ''synchronizetoip'' (JStr []) in
                 case sync_target target of
                   None \<Rightarrow> Inl (UnsafeSync ''XMLRPC target must be a literal peer IP or HTTPS IP URL'')
                 | Some a \<Rightarrow> Inr (target, a, sections)))
         | _ \<Rightarrow> Inl (UnsafeSync ''Cannot verify XMLRPC configuration'')))))"

definition carp_ready :: "carp_status \<Rightarrow> string \<Rightarrow> bool" where
  "carp_ready st role = (cs_enabled st \<and> \<not> cs_maintenance st \<and> cs_vhids st \<noteq> [] \<and>
     list_all (\<lambda>v. v_status v = role) (cs_vhids st))"

definition vip_ids :: "carp_status \<Rightarrow> (string \<times> string) list" where
  "vip_ids st = sort (remdups (map (\<lambda>v. (v_vhid v, v_ipaddr v)) (cs_vhids st)))"

definition preflight_carp :: "carp_status \<Rightarrow> carp_status \<Rightarrow> (string \<times> string) list res" where
  "preflight_carp left right =
     (if \<not> carp_ready left ''MASTER'' \<or> \<not> carp_ready right ''BACKUP'' then
        Inl (UnsafeSync ''XMLRPC requires the selected node to remain MASTER and its peer BACKUP'')
      else if vip_ids left \<noteq> vip_ids right then Inl (UnsafeSync ''XMLRPC nodes must own the same CARP VIPs'')
      else Inr (vip_ids left))"

definition sync_preflight :: "writer \<Rightarrow> plan option io" where
  "sync_preflight w = (case vw_peer w of
      None \<Rightarrow> ret None
    | Some peer \<Rightarrow>
        if vw_mode w \<noteq> XmlrpcPf then ret None
        else
          bnd (client_get (vw_client w) ''/api/core/hasync/get'' []) (\<lambda>local_data.
          bnd (client_get peer ''/api/core/hasync/get'' []) (\<lambda>peer_data.
          bnd (of_res (preflight_config (vw_resource w) local_data peer_data)) (\<lambda>(target, address, sections).
          bnd (addresses peer) (\<lambda>theirs.
          bnd (if address \<notin> set theirs then ret True
               else bnd (addresses (vw_client w)) (\<lambda>ours. ret (address \<in> set ours))) (\<lambda>bad.
          if bad then raise (UnsafeSync ''XMLRPC target is not an exclusive address of the configured peer'')
          else
            bnd (collect_carp_status (vw_client w)) (\<lambda>left.
            bnd (collect_carp_status peer) (\<lambda>right.
            bnd (of_res (preflight_carp left right)) (\<lambda>ids.
            ret (Some (target, sections, ids)))))))))))"

end
