(* ===== verification/Execute.thy ===== *)
theory Execute
  imports Verified
begin

text \<open>
  One operation of the verified writer: \<^verbatim>\<open>_sync\<close>, \<^verbatim>\<open>_finish_last_dnat_delete\<close> and
  \<^verbatim>\<open>execute\<close>/\<^verbatim>\<open>_execute\<close> of \<^verbatim>\<open>src/writers/verified.py\<close>. Fields of the result that the code
  sets before an exception are carried into the handler, stage by stage. The attributes
  \<^verbatim>\<open>_sync_plan\<close> and \<^verbatim>\<open>_peer_delete_revision\<close> are arguments: each run sets them before it reads them.
\<close>

section \<open>Results\<close>

record cleanup =
  cu_attempted :: bool
  cu_deleted :: bool
  cu_applied :: bool
  cu_verified :: bool

record sync_result =
  sr_triggered :: bool
  sr_mode :: sync_mode
  sr_verified :: bool
  sr_attempts :: nat
  sr_detail :: string
  sr_cleanup :: "cleanup option"

record rollback =
  rb_attempted :: bool
  rb_verified :: bool
  rb_local_verified :: bool
  rb_peer_verified :: "bool option"
  rb_detail :: string

datatype action = Create | Update | Delete

fun action_name :: "action \<Rightarrow> string" where
  "action_name Create = ''create''"
| "action_name Update = ''update''"
| "action_name Delete = ''delete''"

fun action_verb :: "action \<Rightarrow> string" where
  "action_verb Create = ''add''"
| "action_verb Update = ''set''"
| "action_verb Delete = ''del''"

record vresult =
  vr_ok :: bool
  vr_uuid :: string
  vr_action :: action
  vr_detail :: string
  vr_verified :: bool
  vr_applied :: bool
  vr_sync :: "sync_result option"
  vr_rollback :: rollback
  vr_audit :: "audit_entry option"
  vr_error :: "string option"
  vr_validations :: "json option"

definition cleanup_json :: "cleanup \<Rightarrow> json" where
  "cleanup_json c = JObj [(''attempted'', JBool (cu_attempted c)), (''deleted'', JBool (cu_deleted c)),
     (''applied'', JBool (cu_applied c)), (''verified'', JBool (cu_verified c))]"

definition rollback_json :: "rollback \<Rightarrow> json" where
  "rollback_json r = JObj [(''attempted'', JBool (rb_attempted r)), (''verified'', JBool (rb_verified r)),
     (''local_verified'', JBool (rb_local_verified r)),
     (''peer_verified'', (case rb_peer_verified r of None \<Rightarrow> JNull | Some b \<Rightarrow> JBool b)),
     (''detail'', JStr (rb_detail r))]"

section \<open>Observing the peer\<close>

text \<open>The attempts of \<^verbatim>\<open>_sync\<close>: this one is number \<open>attempt\<close>, \<open>left\<close> more may follow it.\<close>

fun verify_loop ::
  "writer \<Rightarrow> client \<Rightarrow> string \<Rightarrow> json option \<Rightarrow> nat \<Rightarrow> nat \<Rightarrow> sync_result \<Rightarrow> sync_result io" where
  "verify_loop w peer uuid expected attempt 0 sr = ret sr"
| "verify_loop w peer uuid expected attempt (Suc left) sr =
     try_else (verify w uuid expected peer) is_opn
       (\<lambda>e. let sr' = sr\<lparr>sr_attempts := attempt, sr_detail := exn_str e\<rparr> in
            if left = 0 then ret sr'
            else bnd (sleep (vw_backoff w * of_nat attempt)) (\<lambda>_. verify_loop w peer uuid expected (Suc attempt) left sr'))
       (\<lambda>found. if found then
              ret (sr\<lparr>sr_attempts := attempt, sr_verified := True, sr_detail := ''Peer configuration verified''\<rparr>)
            else let sr' = sr\<lparr>sr_attempts := attempt, sr_detail := ''Peer configuration did not converge''\<rparr> in
              if left = 0 then ret sr'
              else bnd (sleep (vw_backoff w * of_nat attempt)) (\<lambda>_. verify_loop w peer uuid expected (Suc attempt) left sr'))"

text \<open>UUIDs of the editable DNAT rows; generated anti-lockout rows are skipped.\<close>

fun dnat_row_ids :: "json list \<Rightarrow> string list res" where
  "dnat_row_ids [] = Inr []"
| "dnat_row_ids (row # rows) =
     (case dget_or row ''uuid'' JNull of
        JStr s \<Rightarrow> if is_lockout s then dnat_row_ids rows
          else (case validate_uuid (JStr s) of
              Inl _ \<Rightarrow> Inl (UnsafeSync ''Unknown DNAT row; cannot qualify last-rule cleanup'')
            | Inr u \<Rightarrow> rbnd (dnat_row_ids rows) (\<lambda>us. Inr (u # us)))
      | _ \<Rightarrow> Inl (UnsafeSync ''Unknown DNAT row; cannot qualify last-rule cleanup''))"

definition dnat_ids :: "writer \<Rightarrow> client \<Rightarrow> string list io" where
  "dnat_ids w c = bnd (search w c) (\<lambda>rows. of_res (dnat_row_ids rows))"

definition only_id :: "string \<Rightarrow> string list \<Rightarrow> bool" where
  "only_id uuid ids = (ids \<noteq> [] \<and> list_all (\<lambda>i. i = uuid) ids)"

text \<open>
  \<^verbatim>\<open>_finish_last_dnat_delete\<close>: the last DNAT row is deleted on the peer by its UUID, only while
  the plan, both inventories and the peer's revision are what they were.
\<close>

definition cleanup_guard :: "writer \<Rightarrow> client \<Rightarrow> plan option \<Rightarrow> string \<Rightarrow> string \<Rightarrow> unit io" where
  "cleanup_guard w peer plan pdr uuid =
     bnd (sync_preflight w) (\<lambda>now.
     bnd (if now \<noteq> plan then ret True
          else bnd (dnat_ids w (vw_client w)) (\<lambda>ours.
               if ours \<noteq> [] then ret True
               else bnd (dnat_ids w peer) (\<lambda>theirs. ret (\<not> only_id uuid theirs)))) (\<lambda>changed.
     if changed then raise (UnsafeSync ''HA or local DNAT changed; peer cleanup requires reconciliation'')
     else bnd (get w uuid peer) (\<lambda>detail.
       if hash_payload detail \<noteq> pdr then raise (Conflict ''Peer DNAT changed; refusing peer cleanup'')
       else bnd (audit_now (vw_actor w) ''port_forward.peer_delete'' uuid (h_name (c_host peer)) ''started'' 0 [] pdr)
              (\<lambda>_. ret ()))))"

definition finish_last_dnat_delete ::
  "writer \<Rightarrow> client \<Rightarrow> plan option \<Rightarrow> string \<Rightarrow> string \<Rightarrow> sync_result \<Rightarrow> sync_result io" where
  "finish_last_dnat_delete w peer plan pdr uuid sr =
     (let c0 = \<lparr>cu_attempted = False, cu_deleted = False, cu_applied = False, cu_verified = False\<rparr>;
          p = (\<lambda>e. is_opn e \<or> is_os e);
          fail = (\<lambda>c e. ret (sr\<lparr>sr_cleanup := Some c, sr_detail := exn_str e\<rparr>)) in
      try_else (cleanup_guard w peer plan pdr uuid) p (fail c0) (\<lambda>_.
      let c1 = c0\<lparr>cu_attempted := True\<rparr> in
      try_else (post_ack peer (verb_path w ''del'' uuid) [] ''peer delete'') p (fail c1) (\<lambda>_.
      let c2 = c1\<lparr>cu_deleted := True\<rparr> in
      try_else (post_ack peer (apply_path w) [] ''peer apply'') p (fail c2) (\<lambda>_.
      let c3 = c2\<lparr>cu_applied := True\<rparr> in
      try_else (bnd (verify w uuid None (vw_client w)) (\<lambda>gone.
                  if gone then verify w uuid None peer else ret False)) p (fail c3) (\<lambda>ok.
      ret (sr\<lparr>sr_cleanup := Some (c3\<lparr>cu_verified := ok\<rparr>), sr_verified := ok,
        sr_detail := (if ok then ''Last DNAT absence verified on both nodes''
                      else ''Peer cleanup absence unverified'')\<rparr>))))))"

definition sync ::
  "writer \<Rightarrow> plan option \<Rightarrow> string option \<Rightarrow> string \<Rightarrow> json option \<Rightarrow> sync_result option io" where
  "sync w plan pdr uuid expected = (case vw_peer w of
      None \<Rightarrow> ret None
    | Some peer \<Rightarrow>
        (let sr0 = \<lparr>sr_triggered = False, sr_mode = vw_mode w, sr_verified = False, sr_attempts = 0,
               sr_detail = [], sr_cleanup = None\<rparr>;
             observe = (\<lambda>sr. bnd (verify_loop w peer uuid expected 1 (vw_attempts w) sr) (\<lambda>sr'.
               if \<not> sr_verified sr' \<and> expected = None then
                 (case pdr of None \<Rightarrow> ret (Some sr')
                  | Some pr \<Rightarrow> bnd (finish_last_dnat_delete w peer plan pr uuid sr') (\<lambda>sr''. ret (Some sr'')))
               else ret (Some sr')))
         in if vw_mode w = XmlrpcPf then
              try_else (bnd (sync_preflight w) (\<lambda>now. if now \<noteq> plan
                  then raise (UnsafeSync ''XMLRPC configuration changed during the operation; reconcile manually'')
                  else ret ())) is_opn
                (\<lambda>e. ret (Some (sr0\<lparr>sr_detail := exn_str e\<rparr>)))
                (\<lambda>_. let sr1 = sr0\<lparr>sr_triggered := True\<rparr> in
                  try_else (post_ack (vw_client w) ''/api/core/hasync_status/restart/pf'' [] ''HA sync'') is_opn
                    (\<lambda>e. ret (Some (sr1\<lparr>sr_detail := exn_str e\<rparr>)))
                    (\<lambda>_. observe sr1))
            else observe sr0))"

section \<open>The operation\<close>

definition expected_of :: "writer \<Rightarrow> obj option \<Rightarrow> json option res" where
  "expected_of w payload = (case payload of
      None \<Rightarrow> Inr None
    | Some [] \<Rightarrow> Inr None
    | Some d \<Rightarrow> (case map_of d (ws_key (vw_spec w)) of
        None \<Rightarrow> Inl (KeyErr (ws_key (vw_spec w))) | Some v \<Rightarrow> Inr (Some v)))"

definition payload_sha :: "obj option \<Rightarrow> string" where
  "payload_sha payload = (case payload of None \<Rightarrow> hash_payload JNull | Some d \<Rightarrow> hash_payload (JObj d))"

text \<open>The optimistic check on the object, and on the peer's when this deletes the last DNAT row.\<close>

definition check_revision :: "writer \<Rightarrow> action \<Rightarrow> string \<Rightarrow> string \<Rightarrow> string option io" where
  "check_revision w act uuid revision =
     (if act = Create then ret None
      else bnd (get w uuid (vw_client w)) (\<lambda>current.
        if hash_payload current \<noteq> revision then
          raise (Conflict ''Configuration changed since it was loaded; refresh before editing or deleting'')
        else (case vw_peer w of
          Some peer \<Rightarrow>
            if act = Delete \<and> vw_resource w = PortForward \<and> vw_mode w = XmlrpcPf then
              bnd (dnat_ids w (vw_client w)) (\<lambda>ours.
              if \<not> only_id uuid ours then ret None
              else bnd (get w uuid peer) (\<lambda>theirs.
                let pr = hash_payload theirs in
                bnd (if pr \<noteq> revision then ret True
                     else bnd (dnat_ids w peer) (\<lambda>ids. ret (\<not> only_id uuid ids))) (\<lambda>differs.
                if differs then raise (Conflict ''Last DNAT differs on peer; reconcile before deleting'')
                else ret (Some pr))))
            else ret None
        | None \<Rightarrow> ret None)))"

text \<open>Everything up to the acknowledged mutation: the object's UUID, the plan and the peer revision.\<close>

definition mutate_stage ::
  "writer \<Rightarrow> action \<Rightarrow> obj option \<Rightarrow> string \<Rightarrow> string \<Rightarrow> (string \<times> plan option \<times> string option) io" where
  "mutate_stage w act payload uuid revision =
     bnd (audit_now (vw_actor w) (resource_name (vw_resource w) @ ''.'' @ action_name act) uuid
           (h_name (c_host (vw_client w))) ''started'' 0 [] (payload_sha payload)) (\<lambda>_.
     bnd (sync_preflight w) (\<lambda>plan.
     bnd (check_revision w act uuid revision) (\<lambda>pdr.
     bnd (post_ack (vw_client w) (verb_path w (action_verb act) uuid)
            (case payload of None \<Rightarrow> [] | Some d \<Rightarrow> d) (action_name act)) (\<lambda>response.
     if act = Create then
       (case validate_uuid (dget_or (JObj response) ''uuid'' JNull) of
          Inl _ \<Rightarrow> raise (OPNErr ''Create acknowledged without valid UUID; reconcile manually'')
        | Inr u \<Rightarrow> ret (u, plan, pdr))
     else ret (uuid, plan, pdr)))))"

fun error_code :: "exn \<Rightarrow> string" where
  "error_code (UnsafeSync _) = ''ha_unsafe''"
| "error_code (Conflict _) = ''conflict''"
| "error_code (AuthErr _) = ''auth''"
| "error_code (TimeoutErr _) = ''timeout''"
| "error_code (Rejected _ v) = (if truthy_opt v then ''validation'' else ''upstream'')"
| "error_code _ = ''upstream''"

definition no_rollback :: rollback where
  "no_rollback = \<lparr>rb_attempted = False, rb_verified = False, rb_local_verified = False,
     rb_peer_verified = None, rb_detail = ''Not required''\<rparr>"

definition result0 :: "action \<Rightarrow> string \<Rightarrow> vresult" where
  "result0 act uuid = \<lparr>vr_ok = False, vr_uuid = uuid, vr_action = act, vr_detail = [],
     vr_verified = False, vr_applied = False, vr_sync = None, vr_rollback = no_rollback,
     vr_audit = None, vr_error = None, vr_validations = None\<rparr>"

text \<open>Undoing a create that was definitely refused after it was stored.\<close>

definition rollback_create :: "writer \<Rightarrow> plan option \<Rightarrow> string \<Rightarrow> rollback io" where
  "rollback_create w plan uuid =
     (let r0 = no_rollback\<lparr>rb_attempted := True,
            rb_detail := ''Not attempted; inspect current configuration before retrying''\<rparr> in
      try_else
        (bnd (post_ack (vw_client w) (verb_path w ''del'' uuid) [] ''rollback delete'') (\<lambda>_.
         bnd (apply_changes w) (\<lambda>_. verify w uuid None (vw_client w)))) is_opn
        (\<lambda>e. ret (r0\<lparr>rb_detail := exn_str e\<rparr>))
        (\<lambda>gone. let r1 = r0\<lparr>rb_local_verified := gone\<rparr> in
          try_else (sync w plan None uuid None) is_opn
            (\<lambda>e. ret (r1\<lparr>rb_detail := exn_str e\<rparr>))
            (\<lambda>peer. let pv = map_option sr_verified peer;
                         v = (gone \<and> (vw_peer w = None \<or> pv = Some True)) in
              ret (r1\<lparr>rb_peer_verified := pv, rb_verified := v,
                rb_detail := (if v then ''Deleted and applied; absence verified on all configured nodes''
                              else ''Rollback absence not verified on all configured nodes'') @
                             (case peer of None \<Rightarrow> [] | Some s \<Rightarrow> ''; peer: '' @ sr_detail s)\<rparr>))))"

text \<open>
  The handler: \<open>accepted\<close> carries the plan and the peer revision once the mutation was acknowledged.
\<close>

definition on_failure ::
  "writer \<Rightarrow> action \<Rightarrow> (plan option) option \<Rightarrow> vresult \<Rightarrow> exn \<Rightarrow> vresult io" where
  "on_failure w act accepted r e =
     (let r1 = r\<lparr>vr_error := Some (error_code e), vr_detail := exn_str e,
            vr_validations := (case e of Rejected _ v \<Rightarrow> if truthy_opt v then v else None | _ \<Rightarrow> None),
            vr_rollback := (vr_rollback r)\<lparr>rb_detail := ''Not attempted; inspect current configuration before retrying''\<rparr>\<rparr>
      in case accepted of
           Some plan \<Rightarrow>
             if act = Create \<and> (case e of Rejected _ _ \<Rightarrow> True | _ \<Rightarrow> False) then
               bnd (rollback_create w plan (vr_uuid r)) (\<lambda>rb. ret (r1\<lparr>vr_rollback := rb\<rparr>))
             else ret r1
         | None \<Rightarrow> ret r1)"

definition caught :: "exn \<Rightarrow> bool" where
  "caught e = (is_opn e \<or> is_os e)"

text \<open>The stages after the acknowledged mutation, and the whole \<^verbatim>\<open>try\<close> statement.\<close>

definition finish_stages ::
  "writer \<Rightarrow> action \<Rightarrow> json option \<Rightarrow> string \<Rightarrow> plan option \<Rightarrow> string option \<Rightarrow> vresult \<Rightarrow> vresult io" where
  "finish_stages w act expected u plan pdr r1 =
     try_else (apply_changes w) caught (on_failure w act (Some plan) r1) (\<lambda>_.
     let r2 = r1\<lparr>vr_applied := True\<rparr> in
     try_else (bnd (verify w u expected (vw_client w)) (\<lambda>ok. if ok then ret ()
                 else raise (OPNErr ''Readback does not match requested configuration''))) caught
       (on_failure w act (Some plan) r2) (\<lambda>_.
     let r3 = r2\<lparr>vr_verified := True\<rparr> in
     try_else (sync w plan pdr u expected) caught (on_failure w act (Some plan) r3) (\<lambda>s.
     let ok = (case s of None \<Rightarrow> True | Some sr \<Rightarrow> sr_verified sr) in
     ret (if ok then r3\<lparr>vr_sync := s, vr_ok := True\<rparr>
          else r3\<lparr>vr_sync := s, vr_error := Some ''ha_unverified'',
                 vr_detail := ''Saved locally; HA verification failed''\<rparr>))))"

definition run_stages :: "writer \<Rightarrow> action \<Rightarrow> obj option \<Rightarrow> json option \<Rightarrow> string \<Rightarrow> string \<Rightarrow> vresult io" where
  "run_stages w act payload expected uuid revision =
     (let r0 = result0 act uuid in
      try_else (mutate_stage w act payload uuid revision) caught (on_failure w act None r0)
        (\<lambda>(u, plan, pdr). finish_stages w act expected u plan pdr (r0\<lparr>vr_uuid := u\<rparr>)))"

definition final_detail :: "vresult \<Rightarrow> string" where
  "final_detail r = vr_detail r
     @ (if rb_attempted (vr_rollback r) then ''; rollback='' @ py_repr (rollback_json (vr_rollback r)) else [])
     @ (case vr_sync r of Some sr \<Rightarrow>
          (case sr_cleanup sr of Some c \<Rightarrow> ''; peer_cleanup='' @ py_repr (cleanup_json c) | None \<Rightarrow> [])
        | None \<Rightarrow> [])"

definition record_result :: "writer \<Rightarrow> obj option \<Rightarrow> int \<Rightarrow> vresult \<Rightarrow> vresult io" where
  "record_result w payload dur r =
     bnd (entry_now (vw_actor w) (resource_name (vw_resource w) @ ''.'' @ action_name (vr_action r)) (vr_uuid r)
            (h_name (c_host (vw_client w))) (if vr_ok r then ''ok'' else ''error'') dur (final_detail r)
            (payload_sha payload)) (\<lambda>a.
     try_else (audit_append a) is_os
       (\<lambda>_. ret (r\<lparr>vr_ok := False, vr_error := Some ''audit'',
                  vr_detail := vr_detail r @ ''; audit persistence failed''\<rparr>))
       (\<lambda>_. ret (r\<lparr>vr_audit := Some a\<rparr>)))"

definition execute_locked :: "writer \<Rightarrow> action \<Rightarrow> obj option \<Rightarrow> string \<Rightarrow> string \<Rightarrow> vresult io" where
  "execute_locked w act payload uuid revision =
     bnd now_ms (\<lambda>t0.
     bnd (of_res (expected_of w payload)) (\<lambda>expected.
     bnd (run_stages w act payload expected uuid revision) (\<lambda>r.
     bnd now_ms (\<lambda>t1. record_result w payload (t1 - t0) r))))"

text \<open>The lock a writer takes is that of the unordered pair of node addresses.\<close>

definition lock_key :: "writer \<Rightarrow> string \<times> string" where
  "lock_key w = (let a = h_url (c_host (vw_client w));
      b = (case vw_peer w of None \<Rightarrow> [] | Some p \<Rightarrow> h_url (c_host p)) in (min a b, max a b))"

definition execute :: "writer \<Rightarrow> action \<Rightarrow> obj option \<Rightarrow> json \<Rightarrow> json \<Rightarrow> vresult io" where
  "execute w act payload uuid revision =
     (if act = Create then execute_locked w act payload (case uuid of JStr u \<Rightarrow> u | _ \<Rightarrow> []) []
      else bnd (of_res (validate_uuid uuid)) (\<lambda>u.
           bnd (of_res (validate_revision revision)) (\<lambda>rv.
           execute_locked w act payload u rv)))"

end
