(* ===== verification/Sending.thy ===== *)
theory Sending
  imports Client Audit_Log "HOL-Library.Sublist"
begin

text \<open>
  A calculus of what a program sends. \<open>sends m ts\<close>: the mutating requests of \<open>m\<close> are a prefix of
  \<open>ts\<close>, and all of \<open>ts\<close> when \<open>m\<close> returns. \<open>sends_upto m ts\<close>: a prefix of \<open>ts\<close> in any case.
  \<open>raises m p\<close>: an exception of \<open>m\<close> satisfies \<open>p\<close>.
\<close>

type_synonym target = "host \<times> string"

definition sends :: "'a io \<Rightarrow> target list \<Rightarrow> bool" where
  "sends m ts = runs m (\<lambda>r es. prefix (targets es) ts \<and> (\<forall>x. r = Inr x \<longrightarrow> targets es = ts))"

definition sends_upto :: "'a io \<Rightarrow> target list \<Rightarrow> bool" where
  "sends_upto m ts = runs m (\<lambda>r es. prefix (targets es) ts)"

definition raises :: "'a io \<Rightarrow> (exn \<Rightarrow> bool) \<Rightarrow> bool" where
  "raises m p = runs m (\<lambda>r es. \<forall>e. r = Inl e \<longrightarrow> p e)"

lemma sends_upto_mono: "sends_upto m ts \<Longrightarrow> prefix ts ts' \<Longrightarrow> sends_upto m ts'"
  unfolding sends_upto_def by (erule runs_conseq) (auto intro: prefix_order.trans)

lemma sends_upto_append: "sends_upto m ts \<Longrightarrow> sends_upto m (ts @ ts')"
  by (erule sends_upto_mono) simp

lemma sends_imp_upto: "sends m ts \<Longrightarrow> sends_upto m ts"
  unfolding sends_def sends_upto_def by (erule runs_conseq) simp

lemma read_only_sends: "read_only_io m \<Longrightarrow> sends m []"
  unfolding sends_def read_only_io_def by (erule runs_conseq) (simp add: silent_targets)

lemma read_only_upto: "read_only_io m \<Longrightarrow> sends_upto m ts"
  using sends_imp_upto [OF read_only_sends] by (rule sends_upto_mono) auto

lemma sends_bnd:
  "sends m ts \<Longrightarrow> (\<And>x. sends (f x) ts') \<Longrightarrow> sends (bnd m f) (ts @ ts')"
  unfolding sends_def by (rule runs_bnd, assumption) (auto elim!: runs_conseq)

lemma upto_bnd:
  "sends m ts \<Longrightarrow> (\<And>x. sends_upto (f x) ts') \<Longrightarrow> sends_upto (bnd m f) (ts @ ts')"
  unfolding sends_def sends_upto_def by (rule runs_bnd, assumption) (auto elim!: runs_conseq)

lemma upto_try_else:
  "sends m ts \<Longrightarrow> (\<And>e. sends_upto (h e) []) \<Longrightarrow> (\<And>x. sends_upto (f x) ts') \<Longrightarrow>
   sends_upto (try_else m p h f) (ts @ ts')"
  unfolding sends_def sends_upto_def
  by (rule runs_try_else, assumption) (simp, (erule meta_allE, erule runs_conseq, force)+)

lemma upto_try_else_sent:
  assumes "runs m (\<lambda>r es. targets es = ts)"
    and "\<And>e. sends_upto (h e) ts'" and "\<And>x. sends_upto (f x) ts'"
  shows "sends_upto (try_else m p h f) (ts @ ts')"
  using assms unfolding sends_upto_def by - (rule runs_try_else, assumption, auto elim!: runs_conseq)

lemma upto_ret [simp]: "sends_upto (ret x) ts" "sends_upto (raise e) ts" "sends_upto (of_res r) ts"
  by (simp_all add: sends_upto_def)

lemma sends_ret [simp]: "sends (ret x) []"
  by (simp add: sends_def)

lemma raises_ret [simp]: "raises (ret x) p" "raises (raise e) p = p e"
  "raises (of_res r) p = (\<forall>e. r = Inl e \<longrightarrow> p e)"
  by (simp_all add: raises_def)

lemma raises_bnd [trace_intros]: "raises m p \<Longrightarrow> (\<And>x. raises (f x) p) \<Longrightarrow> raises (bnd m f) p"
  unfolding raises_def by (rule runs_bnd, assumption) (auto elim!: runs_conseq)

lemma raises_try_else [trace_intros]:
  "raises m (\<lambda>e. q e \<or> p e) \<Longrightarrow> (\<And>e. q e \<Longrightarrow> raises (h e) p) \<Longrightarrow> (\<And>x. raises (f x) p) \<Longrightarrow>
   raises (try_else m q h f) p"
  unfolding raises_def by (rule runs_try_else, assumption) (auto elim!: runs_conseq)

lemma raises_True [simp]: "raises m (\<lambda>e. True)" if "runs m R"
  using that unfolding raises_def by (rule runs_conseq) simp

lemma sends_any: "sends m ts \<Longrightarrow> runs m (\<lambda>r es. True)"
  unfolding sends_def by (erule runs_conseq) simp

lemma read_only_any: "read_only_io m \<Longrightarrow> runs m (\<lambda>r es. True)"
  unfolding read_only_io_def by (erule runs_conseq) simp

lemma raises_caught:
  assumes "runs m (\<lambda>r es. True)" "\<And>e. q e \<or> p e" "\<And>e. q e \<Longrightarrow> raises (h e) p" "\<And>x. raises (f x) p"
  shows "raises (try_else m q h f) p"
proof -
  have "raises m (\<lambda>e. q e \<or> p e)"
    using assms(1,2) unfolding raises_def by - (erule runs_conseq, auto)
  then show ?thesis by (rule raises_try_else) (use assms in auto)
qed

lemma raises_mono: "raises m p \<Longrightarrow> (\<And>e. p e \<Longrightarrow> q e) \<Longrightarrow> raises m q"
  unfolding raises_def by (erule runs_conseq) auto

text \<open>Programs that append to the log but send nothing.\<close>

lemma sends_nil_bnd [trace_intros]: "sends m [] \<Longrightarrow> (\<And>x. sends (f x) []) \<Longrightarrow> sends (bnd m f) []"
  using sends_bnd [of m "[]" f "[]"] by simp

lemma sends_nil_try_else [trace_intros]:
  "sends m [] \<Longrightarrow> (\<And>e. sends (h e) []) \<Longrightarrow> (\<And>x. sends (f x) []) \<Longrightarrow> sends (try_else m p h f) []"
  unfolding sends_def by (rule runs_try_else, assumption) auto

lemma sends_nil_simps [trace_intros]:
  "sends (ret x) []" "sends (raise e) []" "sends (of_res r) []" "sends (audit_now a b c d g h i j) []"
  "sends (entry_now a b c d g h i j) []" "sends (audit_append en) []" "sends now_ms []"
  by (auto simp: sends_def intro!: runs_audit_now runs_entry_now runs_audit_append runs_now_ms)

lemma sends_nil_if [trace_intros]: "sends m [] \<Longrightarrow> sends m' [] \<Longrightarrow> sends (if c then m else m') []"
  by simp

text \<open>What is silent keeps the log as it is, whatever it is followed by.\<close>

lemma read_only_runs: "read_only_io m \<Longrightarrow> (\<And>r es. silent es \<Longrightarrow> audit_lines es = [] \<Longrightarrow> Q r es) \<Longrightarrow> runs m Q"
  unfolding read_only_io_def by (erule runs_conseq) auto

text \<open>Two facts about the same run, and one about every run.\<close>

lemma runs_both:
  "runs m R \<Longrightarrow> runs m S \<Longrightarrow> (\<And>r es. R r es \<Longrightarrow> S r es \<Longrightarrow> Q r es) \<Longrightarrow> runs m Q"
  by (rule runs_conseq [OF runs_conj [of m R S]]) auto

section \<open>Requests without an answer\<close>

text \<open>
  A POST that raised: nothing came back, and whether the firewall acted on it is not known. A trace \<open>stops\<close> there when
  no mutating request follows it; a program \<open>halts\<close> when its trace does and such a request ends it in a \<open>TimeoutErr\<close>.
\<close>

definition unanswered :: "event \<Rightarrow> bool" where
  "unanswered e = (\<exists>h p ps b msg. e = HttpEv h POST p ps b (RequestException msg))"

definition stops :: "trace \<Rightarrow> bool" where
  "stops es = (\<forall>xs e ys. es = xs @ e # ys \<longrightarrow> unanswered e \<longrightarrow> targets ys = [])"

definition dead :: "trace \<Rightarrow> bool" where
  "dead es = (\<exists>e \<in> set es. unanswered e)"

lemma stops_Nil [simp]: "stops []"
  by (simp add: stops_def)

lemma stops_Cons: "stops (e # es) = ((unanswered e \<longrightarrow> targets es = []) \<and> stops es)"
proof
  assume s: "stops (e # es)"
  have "e # es = [] @ e # es" "\<And>xs x ys. es = xs @ x # ys \<Longrightarrow> e # es = (e # xs) @ x # ys" by simp_all
  with s show "(unanswered e \<longrightarrow> targets es = []) \<and> stops es" unfolding stops_def by blast
qed (auto simp: stops_def Cons_eq_append_conv)

lemma dead_append [simp]: "dead (xs @ ys) = (dead xs \<or> dead ys)"
  by (auto simp: dead_def)

lemma stops_append: "stops (xs @ ys) = (stops xs \<and> stops ys \<and> (dead xs \<longrightarrow> targets ys = []))"
  by (induction xs) (auto simp: stops_Cons dead_def)

lemma quiet_stops: "targets es = [] \<Longrightarrow> stops es \<and> \<not> dead es"
proof (induction es)
  case (Cons e es)
  then have t: "target_of e = []" "targets es = []" by (simp_all add: targets_def)
  then have "\<not> unanswered e" by (auto simp: unanswered_def target_of_def)
  with Cons t show ?case by (simp add: stops_Cons dead_def)
qed (simp add: dead_def)

definition halts :: "'a io \<Rightarrow> bool" where
  "halts m = runs m (\<lambda>r es. stops es \<and> (dead es \<longrightarrow> (\<exists>msg. r = Inl (TimeoutErr msg))))"

definition halted :: "'a io \<Rightarrow> bool" where
  "halted m = runs m (\<lambda>r es. stops es)"

lemma halts_halted: "halts m \<Longrightarrow> halted m"
  unfolding halts_def halted_def by (erule runs_conseq) simp

lemma sends_nil_halts: "sends_upto m [] \<Longrightarrow> halts m"
  unfolding sends_upto_def halts_def by (erule runs_conseq) (auto dest: quiet_stops)

lemma read_only_halts: "read_only_io m \<Longrightarrow> halts m"
  by (rule sends_nil_halts) (rule read_only_upto)

lemma halts_ret [trace_intros]: "halts (ret x)" "halts (raise e)" "halts (of_res r)"
  by (simp_all add: halts_def dead_def)

lemma halts_bnd [trace_intros]: "halts m \<Longrightarrow> (\<And>x. halts (f x)) \<Longrightarrow> halts (bnd m f)"
  unfolding halts_def by (rule runs_bnd, assumption) (auto simp: stops_append elim!: runs_conseq)

lemma halted_bnd: "halts m \<Longrightarrow> (\<And>x. halted (f x)) \<Longrightarrow> halted (bnd m f)"
  unfolding halts_def halted_def by (rule runs_bnd, assumption) (auto simp: stops_append elim!: runs_conseq)

lemma halted_quiet: "halted m \<Longrightarrow> (\<And>x. sends_upto (f x) []) \<Longrightarrow> halted (bnd m f)"
  unfolding halted_def sends_upto_def
proof (rule runs_bnd, assumption, goal_cases)
  case (2 x es)
  then show ?case
    by - (rule runs_conseq [where R = "\<lambda>r es. prefix (targets es) []"], auto simp: stops_append dest: quiet_stops)
qed simp

text \<open>What handles an error of a part that halts may go on, unless the error is a timeout.\<close>

lemma halted_try_else:
  assumes "halts m" and "\<And>x. halted (f x)" and "\<And>e. halted (h e)" and "\<And>msg. sends_upto (h (TimeoutErr msg)) []"
  shows "halted (try_else m p h f)"
  unfolding halted_def
proof (rule runs_try_else [OF assms(1) [unfolded halts_def]], goal_cases)
  case (2 e es)
  show ?case
  proof (cases "dead es")
    case True
    with 2 obtain msg where "e = TimeoutErr msg" by auto
    with assms(4) [of msg] 2 show ?thesis
      unfolding sends_upto_def by (auto simp: stops_append dest: quiet_stops elim!: runs_conseq)
  next
    case False
    with assms(3) [of e] 2 show ?thesis
      unfolding halted_def by (auto simp: stops_append elim!: runs_conseq)
  qed
next
  case (3 x es)
  with assms(2) [of x] show ?case
    unfolding halted_def by (auto simp: stops_append elim!: runs_conseq)
qed simp

section \<open>What the first answer names\<close>

text \<open>The first mutating request of a trace was answered, with a status of success, with an object.\<close>

definition first_answer :: "trace \<Rightarrow> obj \<Rightarrow> bool" where
  "first_answer es d = (\<exists>xs h p ps b status text ys.
     es = xs @ HttpEv h POST p ps b (Response status text (Some (JObj d))) # ys \<and> targets xs = [] \<and> resp_ok status)"

lemma first_answer_append: "first_answer es d \<Longrightarrow> first_answer (es @ es') d"
  unfolding first_answer_def by (metis append.assoc append_Cons)

lemma first_answer_prepend: "targets es = [] \<Longrightarrow> first_answer es' d \<Longrightarrow> first_answer (es @ es') d"
  unfolding first_answer_def by (metis append.assoc append_Nil targets_append)

lemma first_answer_sent: "first_answer es d \<Longrightarrow> targets es \<noteq> []"
  by (auto simp: first_answer_def)

lemma first_answer_Cons: "first_answer (e # es) d =
   (if target_of e = [] then first_answer es d
    else \<exists>h p ps b status text. e = HttpEv h POST p ps b (Response status text (Some (JObj d))) \<and> resp_ok status)"
proof (cases "target_of e = []")
  case True
  have "first_answer es d" if f: "first_answer (e # es) d"
  proof -
    from f obtain xs h p ps b status bd ys where
        e: "e # es = xs @ HttpEv h POST p ps b (Response status bd (Some (JObj d))) # ys" "targets xs = []" "resp_ok status"
      unfolding first_answer_def by blast
    with True obtain xs' where "xs = e # xs'" by (cases xs) (auto simp: target_of_def)
    with e True have "es = xs' @ HttpEv h POST p ps b (Response status bd (Some (JObj d))) # ys" "targets xs' = []"
      by (auto simp: targets_def)
    with e(3) show ?thesis unfolding first_answer_def by blast
  qed
  with True first_answer_prepend [of "[e]" es d] show ?thesis by (auto simp: targets_def)
next
  case False
  have "xs = []" if "e # es = xs @ ys" "targets xs = []" for xs ys
    using that False by (cases xs) (auto simp: targets_def)
  then have "first_answer (e # es) d \<longleftrightarrow> (\<exists>h p ps b status bd ys.
      e # es = HttpEv h POST p ps b (Response status bd (Some (JObj d))) # ys \<and> resp_ok status)"
    unfolding first_answer_def by (metis append_Nil targets_simps(1))
  with False show ?thesis by auto
qed

lemma first_answer_app: "targets es \<noteq> [] \<Longrightarrow> first_answer (es @ es') d = first_answer es d"
  by (induction es) (auto simp: first_answer_Cons targets_def)

lemma first_answer_skip: "targets es = [] \<Longrightarrow> first_answer (es @ es') d = first_answer es' d"
  by (induction es) (auto simp: first_answer_Cons targets_def)

lemma first_answer_Nil [simp]: "\<not> first_answer [] d"
  by (simp add: first_answer_def)

text \<open>One POST: what the client returned is what the first answer is.\<close>

lemma first_answer_posted: "first_answer [posted c p b out] d \<longleftrightarrow> post_result c p out = Inr (JObj d)"
  by (cases out) (auto simp: first_answer_Cons posted_def target_of_def post_result_def client_response_def Let_def
      resp_ok_def split: option.splits)

lemma first_answer_fun: "first_answer es d \<Longrightarrow> first_answer es d' \<Longrightarrow> d = d'"
  unfolding first_answer_def by (force simp: append_eq_append_conv2 append_eq_Cons_conv Cons_eq_append_conv)

end
