(* ===== verification/Readback.thy ===== *)
theory Readback
  imports Verified
begin

text \<open>
  What it means that a node shows a configuration: the requests of the OPNsense API for the three kinds of objects
  written out, and what an answer to one of them says, stated on the answer and apart from the functions of
  \<^verbatim>\<open>src/writers/verified.py\<close> that compare it. The lemmas show that the writer's own checks entail it.
\<close>

section \<open>The requests\<close>

fun verb_url :: "resource \<Rightarrow> string \<Rightarrow> string" where
  "verb_url PortForward verb = ''/api/firewall/d_nat/'' @ verb @ ''Rule''"
| "verb_url Rules verb = ''/api/firewall/filter/'' @ verb @ ''Rule''"
| "verb_url Aliases verb = ''/api/firewall/alias/'' @ verb @ ''Item''"

fun apply_url :: "resource \<Rightarrow> string" where
  "apply_url PortForward = ''/api/firewall/d_nat/apply''"
| "apply_url Rules = ''/api/firewall/filter/apply''"
| "apply_url Aliases = ''/api/firewall/alias/reconfigure''"

text \<open>The key of the object in a payload and in an answer.\<close>

fun object_key :: "resource \<Rightarrow> string" where
  "object_key PortForward = ''rule''"
| "object_key Rules = ''rule''"
| "object_key Aliases = ''alias''"

definition object_url :: "resource \<Rightarrow> string \<Rightarrow> string \<Rightarrow> string" where
  "object_url rsrc verb u = (if u = [] then verb_url rsrc verb else verb_url rsrc verb @ ''/'' @ u)"

lemma verb_path_url: "verb_path w verb u = object_url (vw_resource w) verb u"
  by (cases "vw_resource w") (simp_all add: verb_path_def object_url_def)

lemma apply_path_url: "apply_path w = apply_url (vw_resource w)"
  by (cases "vw_resource w") (simp_all add: apply_path_def)

lemma get_path_url: "get_path w u = verb_url (vw_resource w) ''get'' @ ''/'' @ u"
  by (cases "vw_resource w") (simp_all add: get_path_def)

lemma search_path_url: "search_path w = verb_url (vw_resource w) ''search''"
  by (cases "vw_resource w") (simp_all add: search_path_def)

lemma object_key_spec: "ws_key (specs rsrc) = object_key rsrc"
  by (cases rsrc) simp_all

section \<open>The fields of an object\<close>

text \<open>
  \<open>field form v n t\<close>: the field of the dotted name \<open>n\<close> has the text \<open>t\<close> in \<open>v\<close>. In a form of the firewall a field
  may be a dictionary of options, each with a mark; its text is the list of the marked ones.
\<close>

definition options :: "json \<Rightarrow> bool" where
  "options v = (\<exists>os. v = JObj os \<and> os \<noteq> [] \<and> (\<forall>(k, x) \<in> set os. \<exists>d. x = JObj d \<and> (\<exists>m. map_of d ''selected'' = Some m)))"

definition marked :: "json \<Rightarrow> bool" where
  "marked x = (\<exists>d m. x = JObj d \<and> map_of d ''selected'' = Some m \<and> py_str m = ''1'')"

inductive field :: "bool \<Rightarrow> json \<Rightarrow> string \<Rightarrow> string \<Rightarrow> bool" for form :: bool where
  plain: "(k, v) \<in> set kvs \<Longrightarrow> \<not> is_obj v \<Longrightarrow> field form (JObj kvs) k (if v = JNull then [] else py_str v)"
| choice: "form \<Longrightarrow> (k, JObj os) \<in> set kvs \<Longrightarrow> options (JObj os) \<Longrightarrow>
    field form (JObj kvs) k (join '','' [o'. (o', x) \<leftarrow> os, marked x])"
| nested: "(k, v) \<in> set kvs \<Longrightarrow> \<not> (form \<and> options v) \<Longrightarrow> field form v n t \<Longrightarrow> field form (JObj kvs) (k @ ''.'' @ n) t"

text \<open>Protocols compare without case; the content of an alias, by lines or by commas, as a bag of entries.\<close>

definition entries_of :: "string \<Rightarrow> string list" where
  "entries_of s = split_on (CHR '','') (map (\<lambda>c. if c = CHR 0x0A then CHR '','' else c) s)"

definition alike :: "string \<Rightarrow> string \<Rightarrow> string \<Rightarrow> bool" where
  "alike n s t = (if n = ''protocol'' then lower s = lower t
     else if n = ''content'' then mset (entries_of s) = mset (entries_of t) else s = t)"

section \<open>What an answer shows\<close>

text \<open>An answer with the object, each requested field of which is in it with a value requested for that name.\<close>

definition shows_object :: "resource \<Rightarrow> json \<Rightarrow> json \<Rightarrow> bool" where
  "shows_object rsrc ex v = (\<exists>d form. v = JObj d \<and> map_of d (object_key rsrc) = Some form \<and>
     (\<forall>n t. field False ex n t \<longrightarrow> (\<exists>s t'. field True form n s \<and> field False ex n t' \<and> alike n s t')))"

text \<open>An answer with all rows, none of which has this UUID. The anti-lockout rows are not in the total.\<close>

definition lockout_row :: "json \<Rightarrow> bool" where
  "lockout_row row = (\<exists>ds. py_str (dget_or row ''uuid'' (JStr [])) = ''lockout_'' @ ds \<and> ds \<noteq> [] \<and> list_all is_digit ds)"

definition shows_absence :: "resource \<Rightarrow> string \<Rightarrow> json \<Rightarrow> bool" where
  "shows_absence rsrc u v = (\<exists>d rows. v = JObj d \<and> map_of d ''rows'' = Some (JArr rows) \<and>
     (\<forall>row \<in> set rows. \<exists>r. row = JObj r \<and> (\<forall>s. map_of r ''uuid'' = Some (JStr s) \<longrightarrow> lower s \<noteq> lower u)) \<and>
     (\<forall>tot. map_of d ''total'' = Some tot \<longrightarrow>
        list_all is_digit (py_str tot) \<and> dec_val 0 (py_str tot) \<le>
        int (length (filter (\<lambda>row. \<not> (rsrc = PortForward \<and> lockout_row row)) rows))))"

text \<open>
  The request and its answer: the object read by its UUID, or all rows of the grid. \<open>expected\<close> is what was requested,
  none for an absence.
\<close>

definition displays :: "resource \<Rightarrow> host \<Rightarrow> string \<Rightarrow> json option \<Rightarrow> event \<Rightarrow> bool" where
  "displays rsrc h u expected e = (\<exists>status text v. resp_ok status \<and> (case expected of
      None \<Rightarrow> e = HttpEv h GET (verb_url rsrc ''search'') [(''rowCount'', JInt (-1)), (''current'', JInt 1)] None
          (Response status text (Some v)) \<and> shows_absence rsrc u v
    | Some ex \<Rightarrow> e = HttpEv h GET (verb_url rsrc ''get'' @ ''/'' @ u) [] None (Response status text (Some v)) \<and>
          shows_object rsrc ex v))"


section \<open>The writer's checks entail it\<close>

lemma flat_member:
  "(n, t) \<in> set (flat p (JObj kvs)) \<longleftrightarrow> (\<exists>(k, v) \<in> set kvs. (n, t) \<in> set (if is_obj v then flat (p @ k @ ''.'') v
     else [(p @ k, if v = JNull then [] else py_str v)]))"
proof -
  have "x \<in> set (concat (map f l)) \<longleftrightarrow> (\<exists>y \<in> set l. x \<in> set (f y))" for x :: 'b and f and l :: "'a list"
    by auto
  then show ?thesis unfolding flat.simps by (simp only: case_prod_unfold)
qed

lemma flat_field: "(n, t) \<in> set (flat p v) \<longleftrightarrow> (\<exists>m. n = p @ m \<and> field False v m t)"
proof (induction p v arbitrary: n t rule: flat.induct)
  case (1 p kvs)
  show ?case
  proof
    assume "(n, t) \<in> set (flat p (JObj kvs))"
    then obtain k v where kv: "(k, v) \<in> set kvs" and "(n, t) \<in> set (if is_obj v then flat (p @ k @ ''.'') v
        else [(p @ k, if v = JNull then [] else py_str v)])"
      unfolding flat_member by blast
    with "1.IH" [OF kv refl] show "\<exists>m. n = p @ m \<and> field False (JObj kvs) m t"
      using plain [OF kv, of False] nested [OF kv, of False] by (cases "is_obj v") auto
  next
    assume "\<exists>m. n = p @ m \<and> field False (JObj kvs) m t"
    then obtain m where n: "n = p @ m" and f: "field False (JObj kvs) m t" by blast
    from f show "(n, t) \<in> set (flat p (JObj kvs))"
    proof cases
      case (plain v)
      then have "(n, t) \<in> set (if is_obj v then flat (p @ m @ ''.'') v else [(p @ m, if v = JNull then [] else py_str v)])"
        using n by simp
      with plain show ?thesis unfolding flat_member by blast
    next
      case (nested k v m')
      from nested(4) have "is_obj v" by cases simp_all
      with nested n "1.IH" [OF nested(2) refl this, of n t] have
          "(n, t) \<in> set (if is_obj v then flat (p @ k @ ''.'') v else [(p @ k, if v = JNull then [] else py_str v)])"
        by (auto simp del: append_Cons)
      with nested(2) show ?thesis unfolding flat_member by blast
    qed simp
  qed
qed (auto simp: flat.simps elim: field.cases)

lemma is_options_options: "is_options os \<longleftrightarrow> options (JObj os)"
proof -
  have "is_option x \<longleftrightarrow> (\<exists>d. x = JObj d \<and> (\<exists>m. map_of d ''selected'' = Some m))" for x
    by (cases x) (auto simp: is_option_def)
  then show ?thesis by (auto simp: is_options_def options_def list_all_iff)
qed

lemma chosen_marked: "options (JObj os) \<Longrightarrow> chosen os = [o'. (o', x) \<leftarrow> os, marked x]"
proof -
  assume "options (JObj os)"
  then have "\<forall>(k, x) \<in> set os. py_str (dget_or x ''selected'' JNull) = ''1'' \<longleftrightarrow> marked x"
    by (fastforce simp: options_def marked_def dget_or_def)
  then have "filter (\<lambda>(k, v). py_str (dget_or v ''selected'' JNull) = ''1'') os = filter (\<lambda>(k, x). marked x) os"
    by (intro filter_cong) auto
  moreover have "map fst (filter (\<lambda>(k, x). marked x) l) = [o'. (o', x) \<leftarrow> l, marked x]" for l :: obj
    by (induction l) auto
  ultimately show ?thesis by (simp add: chosen_def)
qed

lemma selected_field: "field False (selected v) n t \<Longrightarrow> field True v n t"
proof (induction v arbitrary: n t rule: selected.induct)
  case (1 kvs)
  from "1.prems" have no: "\<not> is_options kvs"
    by (auto split: if_splits elim: field.cases)
  with "1.prems" have "field False (JObj (map (\<lambda>(k, v). (k, selected v)) kvs)) n t" by simp
  then show ?case
  proof cases
    case (plain v)
    then obtain x where x: "(n, x) \<in> set kvs" "v = selected x" by auto
    show ?thesis
    proof (cases x)
      case (JObj os)
      with plain x have os: "is_options os" by (auto split: if_splits)
      with plain x JObj have "t = join '','' [o'. (o', x) \<leftarrow> os, marked x]"
        by (simp add: chosen_marked is_options_options)
      with choice [of True n os kvs] x JObj os plain show ?thesis by (simp add: is_options_options)
    qed (use plain x field.plain [of n x kvs True] in auto)
  next
    case (nested k v m)
    then obtain x where x: "(k, x) \<in> set kvs" "v = selected x" by auto
    from nested(4) x(2) obtain os where os: "x = JObj os" "\<not> is_options os"
      by (cases x) (auto split: if_splits elim: field.cases)
    have "field True x m t" using "1.IH" [OF no x(1) refl] nested(4) x(2) by simp
    with field.nested [of k x kvs True] nested x os show ?thesis by (simp add: is_options_options)
  qed simp
qed (auto elim: field.cases)

lemma field_mono: "field False (JObj kvs) n t \<Longrightarrow> set kvs \<subseteq> set kvs' \<Longrightarrow> field False (JObj kvs') n t"
proof (erule field.cases, goal_cases)
  case (1 k v l)
  then show ?case using plain [of k v kvs' False] by auto
next
  case (3 k v l m u)
  then show ?case using nested [of k v kvs' False] by auto
qed simp

lemma alike_norm: "norm_field n s = norm_field n t \<Longrightarrow> alike n s t"
proof -
  assume eq: "norm_field n s = norm_field n t"
  have "mset (entries_of s) = mset (entries_of t)" if "n = ''content''"
  proof -
    have "sort (entries_of s) = sort (entries_of t)"
      using eq that by (simp add: norm_field_def entries_of_def replace_char_def)
    then show ?thesis by (metis mset_sort)
  qed
  with eq show ?thesis by (auto simp: norm_field_def alike_def split: if_splits)
qed

lemma check_get_form:
  assumes "check_get rsrc v = Inr d"
  obtains o' form where "v = JObj o'" "map_of o' (object_key rsrc) = Some form"
    "\<And>kvs. selected d = JObj kvs \<Longrightarrow> \<exists>fs. selected form = JObj fs \<and> set kvs \<subseteq> set fs"
proof -
  from assms obtain kv fs' where f: "dget v (object_key rsrc) = Some (JObj (kv # fs'))"
    and d: "(if rsrc = Aliases then (case selected (JObj (kv # fs')) of
        JObj fs \<Rightarrow> Inr (JObj (filter (\<lambda>(k, _). k \<notin> set alias_runtime_fields) fs))
      | _ \<Rightarrow> Inl (AttrErr ''str object has no attribute items''))
      else Inr (selected (JObj (kv # fs')))) = Inr d"
    by (auto simp: check_get_def object_key_spec Let_def split: option.splits json.splits list.splits simp del: selected.simps)
  then obtain o' where o': "v = JObj o'" "map_of o' (object_key rsrc) = Some (JObj (kv # fs'))"
    by (cases v) (auto simp: dget_def)
  show thesis
  proof (rule that [OF o'])
    fix kvs assume k: "selected d = JObj kvs"
    show "\<exists>fs. selected (JObj (kv # fs')) = JObj fs \<and> set kvs \<subseteq> set fs"
    proof (cases "rsrc = Aliases")
      case False
      with d have "selected (JObj (kv # fs')) = d" by simp
      with k have "selected (JObj (kv # fs')) = JObj kvs" by (metis selected_idem)
      then show ?thesis by blast
    next
      case True
      with d obtain fs where fs: "selected (JObj (kv # fs')) = JObj fs"
        and dd: "d = JObj (filter (\<lambda>(k, _). k \<notin> set alias_runtime_fields) fs)"
        by (auto split: json.splits simp del: selected.simps)
      have "selected x = x" if "(a, x) \<in> set fs" for a x
        using fs that selected_idem by (auto split: if_splits prod.splits)
      then have "map (\<lambda>(k, v). (k, selected v)) (filter (\<lambda>(k, _). k \<notin> set alias_runtime_fields) fs) =
          filter (\<lambda>(k, _). k \<notin> set alias_runtime_fields) fs"
        by (intro map_idI) auto
      with k dd have "kvs = filter (\<lambda>(k, _). k \<notin> set alias_runtime_fields) fs" by (simp split: if_splits)
      with fs show ?thesis by auto
    qed
  qed
qed

lemma matches_shows:
  assumes "check_get rsrc v = Inr d" "matches d ex = Inr True"
  shows "shows_object rsrc ex v"
proof -
  from assms(1) obtain o' form where o': "v = JObj o'" "map_of o' (object_key rsrc) = Some form"
    and sub: "\<And>kvs. selected d = JObj kvs \<Longrightarrow> \<exists>fs. selected form = JObj fs \<and> set kvs \<subseteq> set fs"
    by (rule check_get_form) blast
  from assms(2) obtain kvs where k: "selected d = JObj kvs"
    by (auto simp: matches_def flatten_def rbnd_def split: json.splits)
  from sub [OF k] obtain fs where fs: "selected form = JObj fs" "set kvs \<subseteq> set fs" by blast
  have "\<exists>s t'. field True form n s \<and> field False ex n t' \<and> alike n s t'" if "field False ex n t" for n t
  proof -
    from that have "(n, t) \<in> set (flat [] ex)" by (simp add: flat_field)
    from matches_sound [OF assms(2) this] obtain s t' where
        s: "fget (flat [] (selected d)) n = Some s" "fget (flat [] ex) n = Some t'" "norm_field n s = norm_field n t'"
      by blast
    then have "(n, s) \<in> set (flat [] (selected d))" "(n, t') \<in> set (flat [] ex)"
      by (auto simp: fget_def dest: map_of_SomeD)
    then have "field False (JObj fs) n s" "field False ex n t'"
      using field_mono [OF _ fs(2)] k by (auto simp: flat_field)
    with fs(1) selected_field [of form n s] alike_norm [OF s(3)] show ?thesis by auto
  qed
  with o' show ?thesis by (auto simp: shows_object_def)
qed

lemma starts_with_append: "starts_with p s \<longleftrightarrow> (\<exists>r. s = p @ r)"
  by (induction p s rule: starts_with.induct) auto

lemma lockout_row_iff: "lockout_row row \<longleftrightarrow> is_lockout (py_str (dget_or row ''uuid'' (JStr [])))"
  by (auto simp: is_lockout_def lockout_row_def starts_with_append isdigit_def nonempty_all_def)

lemma search_shows:
  assumes "check_search rsrc v = Inr rows" "\<not> list_ex (row_is u) rows"
  shows "shows_absence rsrc u v"
proof -
  from assms(1) obtain d where d: "v = JObj d" "map_of d ''rows'' = Some (JArr rows)" "list_all is_obj rows"
    and total: "\<And>tot. map_of d ''total'' = Some tot \<Longrightarrow> check_total tot (length (filter (\<lambda>row. \<not> (rsrc = PortForward \<and>
        is_lockout (py_str (dget_or row ''uuid'' (JStr []))))) rows)) = Inr ()"
    by (auto simp: check_search_def Let_def rbnd_def split: json.splits option.splits if_splits sum.splits)
  have rows: "\<exists>r. row = JObj r \<and> (\<forall>s. map_of r ''uuid'' = Some (JStr s) \<longrightarrow> lower s \<noteq> lower u)" if "row \<in> set rows" for row
  proof -
    from that d(3) have "is_obj row" by (simp add: list_all_iff)
    moreover from that assms(2) have "\<not> row_is u row" by (auto simp: list_ex_iff)
    ultimately show ?thesis by (auto simp: row_is_def dget_or_def)
  qed
  have "list_all is_digit (py_str tot) \<and> dec_val 0 (py_str tot) \<le>
        int (length (filter (\<lambda>row. \<not> (rsrc = PortForward \<and> lockout_row row)) rows))"
    if "map_of d ''total'' = Some tot" for tot
    using total [OF that] by (auto simp: check_total_def Let_def lockout_row_iff isdigit_def nonempty_all_def split: if_splits)
  with d rows show ?thesis by (auto simp: shows_absence_def)
qed

end
