(* ===== verification/Verified_Facts.thy ===== *)
theory Verified_Facts
  imports Execute Sending Readback
begin

text \<open>
  What the verified writer guarantees, for every behaviour of the firewall, of the audit file and of
  concurrent actors: its requests, its audit lines and its results.
\<close>

section \<open>Requests of the parts\<close>

lemma post_result_Inr: "post_result c p out = Inr v \<Longrightarrow> \<exists>st bd. out = Response st bd (Some v)"
  by (auto simp: post_result_def dest: client_response_Inr split: outcome.splits)

lemma post_ack_runs:
  "runs (post_ack c p d what) (\<lambda>r es. targets es = [(c_host c, url_path p)] \<and> audit_lines es = [] \<and>
     (\<forall>e. r = Inl e \<longrightarrow> is_opn e) \<and>
     (\<forall>s. r = Inr s \<longrightarrow> markers s \<noteq> [] \<and> set (markers s) \<subseteq> set ack_words \<and> first_answer es s))"
  unfolding post_ack_def
proof (rule runs_bnd [OF runs_client_post [where Q = "\<lambda>r es. (\<exists>out. r = post_result c p out \<and> es = [posted c p d out])"]], goal_cases)
  case (3 v es)
  then obtain out where es: "es = [posted c p d out]" "post_result c p out = Inr v" by auto
  have "first_answer es s" if "require_success v what = Inr s" for s
    using that es by (auto simp: first_answer_posted dest!: require_success_Inr)
  with 3 es show ?case by (auto simp: posted_def dest: require_success_Inl require_success_Inr)
qed (auto simp: posted_def dest: post_result_opn sym)

text \<open>The UUID the firewall gave in its answer to the first mutating request.\<close>

definition named_uuid :: "trace \<Rightarrow> string \<Rightarrow> bool" where
  "named_uuid es u = (\<exists>d s. first_answer es d \<and> map_of d ''uuid'' = Some (JStr s) \<and> u = lower s \<and> canonical_uuid u)"

lemma named_uuid_append: "named_uuid es u \<Longrightarrow> named_uuid (es @ es') u"
  unfolding named_uuid_def using first_answer_append by blast

lemma named_uuid_prepend: "targets es = [] \<Longrightarrow> named_uuid es' u \<Longrightarrow> named_uuid (es @ es') u"
  unfolding named_uuid_def using first_answer_prepend by blast

lemma named_uuid_intro:
  "first_answer es d \<Longrightarrow> validate_uuid (dget_or (JObj d) ''uuid'' JNull) = Inr u \<Longrightarrow> named_uuid es u"
  by (auto simp: named_uuid_def dget_or_def dest!: validate_uuid_Inr split: option.splits)

lemma sends_post_ack: "sends (post_ack c p d what) [(c_host c, url_path p)]"
  unfolding sends_def by (rule runs_conseq [OF post_ack_runs]) auto

lemma read_only_search [trace_intros]: "read_only_io (search w c)"
  unfolding search_def by (intro trace_intros)

lemma read_only_get [trace_intros]: "read_only_io (get w uuid c)"
  unfolding get_def by (intro trace_intros)

lemma read_only_verify [trace_intros]: "read_only_io (verify w uuid expected c)"
  unfolding verify_def by (cases expected) (auto intro!: trace_intros)

lemma read_only_dnat_ids [trace_intros]: "read_only_io (dnat_ids w c)"
  unfolding dnat_ids_def by (intro trace_intros)

lemma read_only_addresses [trace_intros]: "read_only_io (addresses c)"
  unfolding addresses_def by (intro trace_intros)

lemma read_only_preflight [trace_intros]: "read_only_io (sync_preflight w)"
  unfolding sync_preflight_def
  by (auto split: option.split prod.split intro!: trace_intros)

lemma read_only_check_revision [trace_intros]: "read_only_io (check_revision w act uuid revision)"
  unfolding check_revision_def Let_def
  by (auto split: option.split intro!: trace_intros)

lemma read_only_verify_loop [trace_intros]:
  "read_only_io (verify_loop w peer uuid expected attempt left sr)"
  by (induction left arbitrary: attempt sr) (auto simp: Let_def intro!: trace_intros)

section \<open>The protocol of requests\<close>

definition restart_targets :: "writer \<Rightarrow> target list" where
  "restart_targets w = (if vw_peer w \<noteq> None \<and> vw_mode w = XmlrpcPf
     then [(c_host (vw_client w), ''/api/core/hasync_status/restart/pf'')] else [])"

definition cleanup_targets :: "writer \<Rightarrow> string \<Rightarrow> target list" where
  "cleanup_targets w u = (case vw_peer w of None \<Rightarrow> []
     | Some peer \<Rightarrow> [(c_host peer, object_url (vw_resource w) ''del'' u), (c_host peer, apply_url (vw_resource w))])"

definition change_targets :: "writer \<Rightarrow> string \<Rightarrow> string \<Rightarrow> target list" where
  "change_targets w verb u =
     [(c_host (vw_client w), object_url (vw_resource w) verb u), (c_host (vw_client w), apply_url (vw_resource w))]"

text \<open>The verb of the API for each action.\<close>

fun change_verb :: "action \<Rightarrow> string" where
  "change_verb Create = ''add''"
| "change_verb Update = ''set''"
| "change_verb Delete = ''del''"

lemma action_verb_eq [simp]: "action_verb act = change_verb act"
  by (cases act) simp_all

lemmas cleanup_targets_eq = cleanup_targets_def [folded verb_path_url apply_path_url]

lemmas change_targets_eq = change_targets_def [folded verb_path_url apply_path_url]

lemma url_path_base [simp]: "url_path (verb_path w verb u) = verb_path w verb u"
  "url_path (apply_path w) = apply_path w"
  by (cases "vw_resource w"; simp add: url_path_def verb_path_def apply_path_def)+

lemma sends_guard: "sends (cleanup_guard w peer plan pdr u) []"
  unfolding cleanup_guard_def by (intro trace_intros sends_nil_bnd read_only_sends [OF read_only_preflight]
    read_only_sends [OF read_only_get] read_only_sends [OF read_only_dnat_ids])

lemma sends_cleanup:
  "vw_peer w = Some peer \<Longrightarrow>
   sends_upto (finish_last_dnat_delete w peer plan pdr u sr) (cleanup_targets w u)"
proof -
  assume peer: "vw_peer w = Some peer"
  have "sends_upto (finish_last_dnat_delete w peer plan pdr u sr)
      ([] @ [(c_host peer, verb_path w ''del'' u)] @ [(c_host peer, apply_path w)] @ [] @ [])"
    unfolding finish_last_dnat_delete_def Let_def
    by (intro upto_try_else sends_guard upto_ret sends_post_ack [where p = "verb_path w verb u" for verb u, simplified]
        sends_post_ack [where p = "apply_path w", simplified] read_only_sends)
      (auto intro!: trace_intros)
  then show ?thesis by (simp add: cleanup_targets_eq peer)
qed

lemma sends_sync:
  "sends_upto (sync w plan pdr u expected)
     (restart_targets w @ (if pdr = None then [] else cleanup_targets w u))"
proof (cases "vw_peer w")
  case None
  then show ?thesis by (simp add: sync_def)
next
  case (Some peer)
  let ?c = "if pdr = None then [] else cleanup_targets w u"
  have tail: "sends_upto (bnd (finish_last_dnat_delete w peer plan p u sr) (\<lambda>s. ret (Some s))) (cleanup_targets w u)" for p sr
    using sends_cleanup [OF Some] unfolding sends_upto_def
    by (rule runs_bnd) auto
  have observe: "sends_upto (bnd (verify_loop w peer u expected 1 n sr) (\<lambda>sr'.
               if \<not> sr_verified sr' \<and> expected = None then
                 (case pdr of None \<Rightarrow> ret (Some sr')
                  | Some pr \<Rightarrow> bnd (finish_last_dnat_delete w peer plan pr u sr') (\<lambda>sr''. ret (Some sr'')))
               else ret (Some sr'))) ([] @ ?c)" for n sr
    by (rule upto_bnd) (auto intro!: read_only_sends trace_intros tail split: option.split)
  show ?thesis
  proof (cases "vw_mode w")
    case Automatic
    with Some observe show ?thesis by (simp add: sync_def Let_def restart_targets_def)
  next
    case XmlrpcPf
    have pre: "sends (bnd (sync_preflight w) (\<lambda>now. if now \<noteq> plan then raise ex else ret ())) []" for ex
      by (rule read_only_sends) (auto intro!: trace_intros)
    have post: "sends (post_ack (vw_client w) ''/api/core/hasync_status/restart/pf'' [] what)
        [(c_host (vw_client w), ''/api/core/hasync_status/restart/pf'')]" for what
      using sends_post_ack [where p = "''/api/core/hasync_status/restart/pf''"] by (simp add: url_path_def)
    have "sends_upto (sync w plan pdr u expected)
        ([] @ [(c_host (vw_client w), ''/api/core/hasync_status/restart/pf'')] @ ([] @ ?c))"
      unfolding sync_def Some option.case Let_def XmlrpcPf simp_thms if_True
      by (intro upto_try_else pre post upto_ret observe)
    then show ?thesis by (simp add: restart_targets_def Some XmlrpcPf)
  qed
qed

section \<open>Errors of the parts\<close>

text \<open>The refusals that are decided here, before anything is sent, and the log's own failure.\<close>

fun refusal :: "exn \<Rightarrow> bool" where
  "refusal (Conflict _) = True"
| "refusal (UnsafeSync _) = True"
| "refusal (OSErr _) = True"
| "refusal _ = False"

lemma client_response_refusal: "client_response c m path status text body = Inl e \<Longrightarrow> \<not> refusal e"
  by (auto simp: client_response_def Let_def split: if_splits option.splits)

lemma post_result_refusal: "post_result c path out = Inl e \<Longrightarrow> \<not> refusal e"
  by (auto simp: post_result_def client_response_refusal split: outcome.splits)

lemma raises_get_loop: "raises (request_loop c GET path ps None True n left) (\<lambda>e. \<not> refusal e)"
proof (induction left)
  case (Suc left)
  have "raises (http h m p q b) P" "raises (sleep_backoff rp i) P" for h m p q b rp i P
    by (simp_all add: raises_def sleep_backoff_def runs_http)
  with Suc show ?case
    by (auto simp: Let_def client_response_refusal intro!: raises_bnd split: outcome.split)
qed simp

lemma raises_client_get [trace_intros]: "raises (client_get c path ps) (\<lambda>e. \<not> refusal e)"
  unfolding client_get_def request_def Let_def by (rule raises_get_loop)

lemma raises_post_ack: "raises (post_ack c path d what) (\<lambda>e. \<not> refusal e \<and> is_opn e)"
  unfolding post_ack_def raises_def
  by (rule runs_bnd [OF runs_client_post [where Q = "\<lambda>r es. \<exists>out. r = post_result c path out"]])
    (auto dest: require_success_Inl post_result_opn post_result_refusal sym)

lemma check_total_refusal: "check_total t n = Inl e \<Longrightarrow> \<not> refusal e"
  by (auto simp: check_total_def Let_def split: if_splits)

lemma check_search_refusal: "check_search rsrc out = Inl e \<Longrightarrow> \<not> refusal e"
  by (auto simp: check_search_def Let_def rbnd_def check_total_refusal
      split: json.splits option.splits if_splits sum.splits)

lemma check_get_refusal: "check_get rsrc out = Inl e \<Longrightarrow> \<not> refusal e"
  by (auto simp: check_get_def Let_def split: json.splits option.splits list.splits if_splits)

lemma matches_refusal: "matches a ex = Inl e \<Longrightarrow> \<not> refusal e"
  by (auto simp: matches_def rbnd_def flatten_def split: json.splits sum.splits)

lemma raises_search: "raises (search w c) (\<lambda>e. \<not> refusal e)"
  unfolding search_def by (intro trace_intros) (auto simp: check_search_refusal)

lemma raises_get: "raises (get w u c) (\<lambda>e. \<not> refusal e)"
  unfolding get_def by (intro trace_intros) (auto simp: check_get_refusal)

lemma raises_verify: "raises (verify w u expected c) (\<lambda>e. \<not> refusal e)"
  unfolding verify_def
  by (cases expected) (auto intro!: raises_bnd raises_search raises_get simp: matches_refusal)

text \<open>Observing the peer never raises an error of the client: it is recorded in the result.\<close>

lemma raises_verify_loop: "raises (verify_loop w peer u expected attempt left sr) (\<lambda>e. \<not> caught e)"
proof (induction left arbitrary: attempt sr)
  case (Suc left)
  have "raises (sleep d) P" for d P by (simp add: raises_def)
  moreover have "raises (verify w u expected peer) (\<lambda>e. is_opn e \<or> \<not> caught e)"
    by (rule raises_mono [OF raises_verify]) (auto simp: caught_def elim: is_os.elims)
  ultimately show ?case
    using Suc by (auto simp: Let_def intro!: trace_intros)
qed simp

lemma raises_cleanup: "raises (finish_last_dnat_delete w peer plan pdr u sr) (\<lambda>e. \<not> caught e)"
  unfolding finish_last_dnat_delete_def Let_def
  by (intro raises_caught sends_guard [THEN sends_any] sends_post_ack [THEN sends_any] read_only_any)
    (auto intro!: trace_intros simp: caught_def)

lemma hasync_of_Inl: "hasync_of d = Inl e \<Longrightarrow> \<not> is_os e"
  by (auto simp: hasync_of_def split: json.splits)

lemma preflight_config_Inl: "preflight_config rsrc a b = Inl e \<Longrightarrow> \<not> is_os e"
  by (auto simp: preflight_config_def rbnd_def Let_def dest: hasync_of_Inl
      split: sum.splits if_splits option.splits json.splits)

lemma iface_addresses_Inl: "iface_addresses is = Inl e \<Longrightarrow> \<not> is_os e"
  by (induction "is") (auto simp: family_addresses_def rbnd_def split: sum.splits if_splits json.splits)

lemma raises_preflight: "raises (sync_preflight w) (\<lambda>e. \<not> is_os e)"
proof -
  have get: "raises (client_get c p ps) (\<lambda>e. \<not> is_os e)" for c p ps
    by (rule raises_mono [OF raises_client_get]) (auto elim: is_os.elims)
  have addr: "raises (addresses c) (\<lambda>e. \<not> is_os e)" for c
    unfolding addresses_def
    by (intro raises_bnd get) (auto dest: iface_addresses_Inl split: json.splits)
  have carp: "raises (collect_carp_status c) (\<lambda>e. \<not> is_os e)" for c
    unfolding raises_def by (rule runs_conseq [OF collect_carp_errors]) (auto elim!: is_os.elims)
  show ?thesis
    unfolding sync_preflight_def
    by (auto intro!: raises_bnd get addr carp dest: preflight_config_Inl
        simp: preflight_carp_def split: option.split prod.split if_splits)
qed

lemma raises_sync: "raises (sync w plan pdr u expected) (\<lambda>e. \<not> caught e)"
proof (cases "vw_peer w")
  case (Some peer)
  let ?observe = "\<lambda>sr. bnd (verify_loop w peer u expected 1 (vw_attempts w) sr) (\<lambda>sr'.
               if \<not> sr_verified sr' \<and> expected = None then
                 (case pdr of None \<Rightarrow> ret (Some sr')
                  | Some pr \<Rightarrow> bnd (finish_last_dnat_delete w peer plan pr u sr') (\<lambda>sr''. ret (Some sr'')))
               else ret (Some sr'))"
  have observe: "raises (?observe sr) (\<lambda>e. \<not> caught e)" for sr
    by (auto intro!: raises_bnd raises_verify_loop raises_cleanup split: option.split)
  have pre: "raises (bnd (sync_preflight w) (\<lambda>now. if now \<noteq> plan then raise (UnsafeSync msg) else ret ()))
      (\<lambda>e. is_opn e \<or> \<not> caught e)" for msg
    by (intro raises_bnd raises_mono [OF raises_preflight]) (auto simp: caught_def)
  have post: "raises (post_ack c p d what) (\<lambda>e. is_opn e \<or> \<not> caught e)" for c p d what
    by (rule raises_mono [OF raises_post_ack]) auto
  show ?thesis
    unfolding sync_def Some option.case Let_def
    by (auto intro!: observe raises_try_else pre post simp del: One_nat_def)
qed (simp add: sync_def)

section \<open>The stages\<close>

text \<open>The line that reserves an operation in the log.\<close>

definition started_line :: "writer \<Rightarrow> action \<Rightarrow> obj option \<Rightarrow> string \<Rightarrow> audit_entry \<Rightarrow> bool" where
  "started_line w act payload u a =
     (entry_of (vw_actor w) (resource_name (vw_resource w) @ ''.'' @ action_name act) u
        (h_name (c_host (vw_client w))) ''started'' [] (payload_sha payload) a)"

definition dnat_cleanup :: "writer \<Rightarrow> action \<Rightarrow> bool" where
  "dnat_cleanup w act = (act = Delete \<and> vw_resource w = PortForward \<and> vw_mode w = XmlrpcPf \<and> vw_peer w \<noteq> None)"

lemma check_revision_runs:
  "runs (check_revision w act u revision) (\<lambda>r es. \<forall>p. r = Inr (Some p) \<longrightarrow> dnat_cleanup w act)"
proof (cases "dnat_cleanup w act")
  case True
  then show ?thesis
    by (intro read_only_runs [OF read_only_check_revision]) simp
next
  case False
  have get: "runs (get w u (vw_client w)) (\<lambda>r es. True)"
    by (intro read_only_runs [OF read_only_get]) simp
  from False show ?thesis
    unfolding check_revision_def dnat_cleanup_def
    by (auto intro!: runs_bnd [OF get] split: option.split)
qed

lemma mutate_stage_runs:
  "runs (mutate_stage w act payload u revision) (\<lambda>r es.
     audited (started_line w act payload u) es \<and>
     (silent es \<or> (\<exists>e \<in> set es. logged (started_line w act payload u) e)) \<and>
     prefix (targets es) [(c_host (vw_client w), verb_path w (action_verb act) u)] \<and>
     (\<forall>e. r = Inl e \<longrightarrow> refusal e \<longrightarrow> targets es = []) \<and>
     (\<forall>v plan pdr. r = Inr (v, plan, pdr) \<longrightarrow>
        targets es = [(c_host (vw_client w), verb_path w (action_verb act) u)] \<and>
        (pdr \<noteq> None \<longrightarrow> dnat_cleanup w act) \<and>
        (if act = Create then named_uuid es v else v = u)))" (is "runs _ ?Q")
proof -
  let ?P = "started_line w act payload u"
  let ?t = "(c_host (vw_client w), verb_path w (action_verb act) u)"
  have send: "runs (bnd (post_ack (vw_client w) (verb_path w (action_verb act) u) d what) (\<lambda>response.
      if act = Create then
       (case validate_uuid (dget_or (JObj response) ''uuid'' JNull) of
          Inl _ \<Rightarrow> raise (OPNErr msg) | Inr v \<Rightarrow> ret (v, plan, pdr))
      else ret (u, plan, pdr))) (\<lambda>r es. targets es = [?t] \<and> (\<forall>e. r = Inl e \<longrightarrow> \<not> refusal e) \<and>
        (\<forall>v plan' pdr'. r = Inr (v, plan', pdr') \<longrightarrow> pdr' = pdr \<and>
           (if act = Create then named_uuid es v else v = u)))" for d what msg plan pdr
  proof (rule runs_bnd [OF runs_conj [OF post_ack_runs raises_post_ack [unfolded raises_def]]])
    fix e es
    assume "(targets es = [(c_host (vw_client w), url_path (verb_path w (action_verb act) u))] \<and> audit_lines es = [] \<and>
     (\<forall>ea. Inl e = Inl ea \<longrightarrow> is_opn ea) \<and>
     (\<forall>s. Inl e = (Inr s :: obj res) \<longrightarrow> markers s \<noteq> [] \<and> set (markers s) \<subseteq> set ack_words \<and> first_answer es s)) \<and>
     (\<forall>ea. Inl e = Inl ea \<longrightarrow> \<not> refusal ea \<and> is_opn ea)"
    then show "targets es = [?t] \<and> (\<forall>ea. Inl e = Inl ea \<longrightarrow> \<not> refusal ea) \<and>
        (\<forall>v plan' pdr'. Inl e = Inr (v, plan', pdr') \<longrightarrow> pdr' = pdr \<and>
           (if act = Create then named_uuid es v else v = u))"
      by (cases e) auto
  qed (auto split: sum.split dest: named_uuid_append intro: named_uuid_intro)
  have checked: "runs (check_revision w act u revision) (\<lambda>r es. targets es = [] \<and>
      (\<forall>p. r = Inr (Some p) \<longrightarrow> dnat_cleanup w act))"
    by (rule runs_both [OF check_revision_runs read_only_check_revision [unfolded read_only_io_def]])
      (simp add: silent_targets)
  have plan: "runs (sync_preflight w) (\<lambda>r es. targets es = [])"
    by (rule read_only_runs [OF read_only_preflight]) (simp add: silent_targets)
  show ?thesis
    unfolding mutate_stage_def
  proof (rule runs_bnd [OF runs_audit_now [where Q = "\<lambda>r es. targets es = [] \<and>
      ((\<exists>e. r = Inl e) \<or> (\<exists>e \<in> set es. logged ?P e))"]])
    fix x and es :: trace
    assume "targets es = [] \<and> ((\<exists>e. (Inr x :: audit_entry res) = Inl e) \<or> (\<exists>e \<in> set es. logged ?P e))"
    then have t: "targets es = []" and l: "\<exists>e \<in> set es. logged ?P e" by auto
    have a: "audited ?P (es @ es')" for es'
      using t l by (auto simp: audited_append intro: audited_silent simp: silent_targets)
    show "runs (bnd (sync_preflight w) (\<lambda>plan. bnd (check_revision w act u revision) (\<lambda>pdr.
        bnd (post_ack (vw_client w) (verb_path w (action_verb act) u) (case payload of None \<Rightarrow> [] | Some d \<Rightarrow> d)
          (action_name act)) (\<lambda>response.
        if act = Create then (case validate_uuid (dget_or (JObj response) ''uuid'' JNull) of
            Inl _ \<Rightarrow> raise (OPNErr ''Create acknowledged without valid UUID; reconcile manually'')
          | Inr v \<Rightarrow> ret (v, plan, pdr))
        else ret (u, plan, pdr))))) (\<lambda>r es'. ?Q r (es @ es'))"
    proof (intro runs_bnd [OF plan] runs_bnd [OF checked] runs_conseq [OF send], goal_cases)
      case (3 pl es1 pd es2 x es3)
      then have "named_uuid (es @ es1 @ es2 @ es3) v" if "named_uuid es3 v" for v
        using that t by (auto intro!: named_uuid_prepend)
      with 3 t l a show ?case by (auto split: if_splits)
    qed (use t l a in \<open>force split: if_splits\<close>)+
  qed (auto simp: audited_append started_line_def silent_targets audited_silent)
qed

section \<open>Failures and rollback\<close>

fun definite :: "exn \<Rightarrow> bool" where
  "definite (Rejected _ _) = True"
| "definite _ = False"

definition undone :: "action \<Rightarrow> bool \<Rightarrow> exn \<Rightarrow> bool" where
  "undone act acc e = (acc \<and> act = Create \<and> definite e)"

text \<open>How the handler changes a result.\<close>

definition failed_as :: "vresult \<Rightarrow> exn \<Rightarrow> vresult \<Rightarrow> bool" where
  "failed_as r e r' = (vr_error r' = Some (error_code e) \<and> vr_ok r' = vr_ok r \<and>
     vr_applied r' = vr_applied r \<and> vr_verified r' = vr_verified r \<and> vr_sync r' = vr_sync r \<and>
     vr_uuid r' = vr_uuid r \<and> vr_action r' = vr_action r)"

lemma apply_sends: "sends (apply_changes w) [(c_host (vw_client w), apply_path w)]"
proof -
  have "sends (apply_changes w) ([(c_host (vw_client w), apply_path w)] @ [])"
    unfolding apply_changes_def
    by (rule sends_bnd) (use sends_post_ack [of "vw_client w" "apply_path w"] in auto)
  then show ?thesis by simp
qed

lemma rollback_runs:
  "runs (rollback_create w plan u) (\<lambda>r es.
     prefix (targets es) (change_targets w ''del'' u @ restart_targets w) \<and>
     (\<forall>rb. r = Inr rb \<longrightarrow> rb_attempted rb) \<and>
     (\<forall>rb. r = Inr rb \<longrightarrow> rb_verified rb \<longrightarrow> rb_local_verified rb \<and> (vw_peer w = None \<or> rb_peer_verified rb = Some True)))"
proof -
  let ?t = "[(c_host (vw_client w), verb_path w ''del'' u)] @ [(c_host (vw_client w), apply_path w)] @ []"
  have "sends (bnd (post_ack (vw_client w) (verb_path w ''del'' u) [] ''rollback delete'') (\<lambda>_.
         bnd (apply_changes w) (\<lambda>_. verify w u None (vw_client w)))) ?t"
    by (intro sends_bnd apply_sends read_only_sends trace_intros)
      (use sends_post_ack [of "vw_client w" "verb_path w ''del'' u"] in auto)
  then have first: "runs (bnd (post_ack (vw_client w) (verb_path w ''del'' u) [] ''rollback delete'') (\<lambda>_.
         bnd (apply_changes w) (\<lambda>_. verify w u None (vw_client w))))
      (\<lambda>r es. prefix (targets es) (change_targets w ''del'' u) \<and>
        (\<forall>x. r = Inr x \<longrightarrow> targets es = change_targets w ''del'' u))"
    by (simp add: sends_def change_targets_eq)
  have second: "runs (sync w plan None u None) (\<lambda>r es. prefix (targets es) (restart_targets w))"
    using sends_sync [of w plan None u None] by (simp add: sends_upto_def)
  show ?thesis
    unfolding rollback_create_def Let_def
    by (rule runs_try_else [OF first]; (rule runs_try_else [OF second])?)
      (auto simp: no_rollback_def)
qed

lemma on_failure_runs:
  "runs (on_failure w act acc r e) (\<lambda>x es.
     (if undone act (acc \<noteq> None) e
      then prefix (targets es) (change_targets w ''del'' (vr_uuid r) @ restart_targets w)
      else targets es = []) \<and>
     (\<forall>r'. x = Inr r' \<longrightarrow> failed_as r e r' \<and>
        (if undone act (acc \<noteq> None) e then rb_attempted (vr_rollback r')
         else rb_attempted (vr_rollback r') = rb_attempted (vr_rollback r))))"
proof (cases "undone act (acc \<noteq> None) e")
  case True
  then obtain plan d v where "acc = Some plan" "act = Create" "e = Rejected d v"
    by (cases e) (auto simp: undone_def)
  with True show ?thesis
    unfolding on_failure_def Let_def
    by simp (intro conjI impI; rule runs_bnd [OF rollback_runs]; auto simp: failed_as_def)
next
  case False
  then show ?thesis
    by (cases e; cases acc) (auto simp: on_failure_def undone_def failed_as_def Let_def)
qed

section \<open>Observations\<close>

text \<open>The answer of a node that shows the requested configuration, or its absence.\<close>

definition observed :: "writer \<Rightarrow> client \<Rightarrow> string \<Rightarrow> json option \<Rightarrow> event \<Rightarrow> bool" where
  "observed w c u expected e = displays (vw_resource w) (c_host c) u expected e"

definition ends_observed :: "writer \<Rightarrow> client \<Rightarrow> string \<Rightarrow> json option \<Rightarrow> trace \<Rightarrow> bool" where
  "ends_observed w c u expected es = (es \<noteq> [] \<and> observed w c u expected (last es))"

lemma url_path_verb [simp]: "url_path (verb_url rsrc verb) = verb_url rsrc verb"
    "url_path (verb_url rsrc verb @ r) = verb_url rsrc verb @ r"
  by (cases rsrc; simp add: url_path_def)+

lemma got_object:
  assumes "got c (get_path w u) [] v es" "check_get (vw_resource w) v = Inr d" "matches d ex = Inr True"
  shows "ends_observed w c u (Some ex) es"
  using assms(1) matches_shows [OF assms(2,3)]
  by (auto simp: got_def ends_observed_def observed_def displays_def get_path_url)

lemma got_rows:
  assumes "got c (search_path w) search_params v es" "check_search (vw_resource w) v = Inr rows"
    "\<not> list_ex (row_is u) rows"
  shows "ends_observed w c u None es"
  using assms(1) search_shows [OF assms(2,3)]
  by (auto simp: got_def ends_observed_def observed_def displays_def search_path_url search_params_def)

lemma ends_observed_append [intro]: "ends_observed w c u expected es' \<Longrightarrow> ends_observed w c u expected (es @ es')"
  by (auto simp: ends_observed_def)

lemma verify_observed:
  "runs (verify w u expected c) (\<lambda>r es. r = Inr True \<longrightarrow> ends_observed w c u expected es)"
proof (cases expected)
  case None
  have search: "runs (search w c) (\<lambda>r es. \<forall>rows. r = Inr rows \<longrightarrow> \<not> list_ex (row_is u) rows \<longrightarrow>
      ends_observed w c u None es)"
    unfolding search_def
    by (rule runs_bnd [OF runs_client_get [where Q = "\<lambda>r es. \<forall>v. r = Inr v \<longrightarrow>
      got c (search_path w) search_params v es"]]) (auto intro: got_rows split: sum.splits)
  show ?thesis
    unfolding verify_def None option.case by (rule runs_bnd [OF search]) auto
next
  case (Some ex)
  have get: "runs (get w u c) (\<lambda>r es. \<forall>d. r = Inr d \<longrightarrow> matches d ex = Inr True \<longrightarrow>
      ends_observed w c u (Some ex) es)"
    unfolding get_def
    by (rule runs_bnd [OF runs_client_get [where Q = "\<lambda>r es. \<forall>v. r = Inr v \<longrightarrow>
      got c (get_path w u) [] v es"]]) (auto intro: got_object split: sum.splits)
  show ?thesis
    unfolding verify_def Some option.case by (rule runs_bnd [OF get]) auto
qed

lemma verify_loop_runs:
  "runs (verify_loop w peer u expected attempt left sr) (\<lambda>r es. \<forall>sr'. r = Inr sr' \<longrightarrow>
     (sr_verified sr' \<longrightarrow> sr_verified sr \<or> ends_observed w peer u expected es) \<and>
     sr_triggered sr' = sr_triggered sr \<and> sr_mode sr' = sr_mode sr \<and> sr_cleanup sr' = sr_cleanup sr \<and>
     (left \<noteq> 0 \<longrightarrow> sr_attempts sr' < attempt + left))"
proof (induction left arbitrary: attempt sr)
  case (Suc left)
  have again: "runs (bnd (sleep d) (\<lambda>_. verify_loop w peer u expected (Suc attempt) left
      (sr\<lparr>sr_attempts := attempt, sr_detail := m\<rparr>))) (\<lambda>r es'. \<forall>sr'. r = Inr sr' \<longrightarrow>
     (sr_verified sr' \<longrightarrow> sr_verified sr \<or> ends_observed w peer u expected (es @ es')) \<and>
     sr_triggered sr' = sr_triggered sr \<and> sr_mode sr' = sr_mode sr \<and> sr_cleanup sr' = sr_cleanup sr \<and>
     sr_attempts sr' < Suc (attempt + left))" if "0 < left" for d m es
  proof (rule runs_bnd [where R = "\<lambda>r es. True"])
    fix x and es2 :: trace
    show "runs (verify_loop w peer u expected (Suc attempt) left (sr\<lparr>sr_attempts := attempt, sr_detail := m\<rparr>))
      (\<lambda>r es'. \<forall>sr'. r = Inr sr' \<longrightarrow>
       (sr_verified sr' \<longrightarrow> sr_verified sr \<or> ends_observed w peer u expected (es @ es2 @ es')) \<and>
       sr_triggered sr' = sr_triggered sr \<and> sr_mode sr' = sr_mode sr \<and> sr_cleanup sr' = sr_cleanup sr \<and>
       sr_attempts sr' < Suc (attempt + left))"
      by (rule runs_conseq [OF Suc], intro allI impI, erule allE, erule impE, assumption)
        (use that in auto)
  qed auto
  show ?case
    unfolding verify_loop.simps Let_def
    by (rule runs_try_else [OF verify_observed]) (auto intro!: again)
qed simp

lemma cleanup_observed:
  "runs (finish_last_dnat_delete w peer plan pdr u sr) (\<lambda>r es. \<forall>sr'. r = Inr sr' \<longrightarrow> \<not> sr_verified sr \<longrightarrow>
     sr_verified sr' \<longrightarrow> ends_observed w peer u None es)"
proof -
  have any: "runs (cleanup_guard w peer plan pdr u) (\<lambda>r es. True)"
    "runs (post_ack peer p d what) (\<lambda>r es. True)" for p d what
    by (rule sends_any [OF sends_guard] sends_any [OF sends_post_ack])+
  have gone: "runs (bnd (verify w u None (vw_client w)) (\<lambda>gone. if gone then verify w u None peer else ret False))
      (\<lambda>r es. r = Inr True \<longrightarrow> ends_observed w peer u None es)"
    by (rule runs_bnd [OF read_only_any [OF read_only_verify]])
      (auto intro!: runs_conseq [OF verify_observed] ends_observed_append)
  show ?thesis
    unfolding finish_last_dnat_delete_def Let_def
    by (rule runs_try_else [OF any(1)], simp, simp, rule runs_try_else [OF any(2)], simp, simp,
        rule runs_try_else [OF any(2)], simp, simp, rule runs_try_else [OF gone])
      (simp_all add: ends_observed_append)
qed


lemma sync_runs:
  "runs (sync w plan pdr u expected) (\<lambda>r es.
     (vw_peer w = None \<longrightarrow> r = Inr None \<and> es = []) \<and>
     (\<forall>peer. vw_peer w = Some peer \<longrightarrow> (\<forall>x. r = Inr x \<longrightarrow>
        (\<exists>sr. x = Some sr \<and> (sr_verified sr \<longrightarrow> ends_observed w peer u expected es)))))"
proof (cases "vw_peer w")
  case (Some peer)
  let ?Q = "\<lambda>r es. \<forall>x. r = Inr x \<longrightarrow> (\<exists>sr. x = Some sr \<and> (sr_verified sr \<longrightarrow> ends_observed w peer u expected es))"
  let ?observe = "\<lambda>sr. bnd (verify_loop w peer u expected 1 (vw_attempts w) sr) (\<lambda>sr'.
               if \<not> sr_verified sr' \<and> expected = None then
                 (case pdr of None \<Rightarrow> ret (Some sr')
                  | Some pr \<Rightarrow> bnd (finish_last_dnat_delete w peer plan pr u sr') (\<lambda>sr''. ret (Some sr'')))
               else ret (Some sr'))"
  have tail: "runs (bnd (finish_last_dnat_delete w peer plan pr u sr') (\<lambda>sr''. ret (Some sr'')))
      (\<lambda>r es'. \<forall>x. r = Inr x \<longrightarrow> (\<exists>sr. x = Some sr \<and> (sr_verified sr \<longrightarrow>
         ends_observed w peer u None (es @ es2 @ es'))))" if "\<not> sr_verified sr'" for pr sr' es es2
    by (rule runs_bnd [OF cleanup_observed]) (use that in \<open>auto intro: ends_observed_append\<close>)
  have observe: "runs (?observe sr) (\<lambda>r es'. ?Q r (es @ es'))" if "\<not> sr_verified sr" for sr es
    by (rule runs_bnd [OF verify_loop_runs])
      (use that in \<open>auto intro!: tail intro: ends_observed_append split: option.split\<close>)
  have observe0: "runs (?observe sr) ?Q" if "\<not> sr_verified sr" for sr
    using observe [OF that, of "[]"] by simp
  have pre: "runs (bnd (sync_preflight w) (\<lambda>now. if now \<noteq> plan then raise ex else ret ())) (\<lambda>r es. True)" for ex
    by (rule read_only_any) (auto intro!: trace_intros)
  have "runs (sync w plan pdr u expected) ?Q"
  proof (cases "vw_mode w")
    case Automatic
    then show ?thesis
      unfolding sync_def Some option.case Let_def by (simp add: observe0 del: One_nat_def)
  next
    case XmlrpcPf
    show ?thesis
      unfolding sync_def Some option.case Let_def XmlrpcPf simp_thms if_True
      by (rule runs_try_else [OF pre], simp, simp,
          rule runs_try_else [OF sends_any [OF sends_post_ack]], simp, simp, simp only: append_assoc [symmetric])
        (rule observe, simp)
  qed
  then show ?thesis by (simp add: Some)
qed (simp add: sync_def)

section \<open>The whole operation\<close>

text \<open>
  The order of the mutating requests: the change, the apply, the push to the peer and the deletion there of the object
  that was to be deleted; or, for a create, the deletion of the object the firewall named in its answer, its apply and push.
\<close>

definition protocol :: "writer \<Rightarrow> action \<Rightarrow> string \<Rightarrow> trace \<Rightarrow> bool" where
  "protocol w act given es =
     (prefix (targets es) (change_targets w (change_verb act) given @ restart_targets w @
                 (if dnat_cleanup w act then cleanup_targets w given else [])) \<or>
      act = Create \<and> (\<exists>u. named_uuid es u \<and>
        prefix (targets es) (change_targets w (change_verb act) given @ change_targets w ''del'' u @ restart_targets w)))"

lemma apply_runs:
  "runs (apply_changes w) (\<lambda>r es. targets es = [(c_host (vw_client w), apply_path w)] \<and>
     (\<forall>e. r = Inl e \<longrightarrow> \<not> refusal e \<and> is_opn e))"
  unfolding apply_changes_def
  by (rule runs_bnd [OF runs_conj [OF post_ack_runs raises_post_ack [unfolded raises_def]]]) auto

lemma readback_runs:
  "runs (bnd (verify w u expected c) (\<lambda>ok. if ok then ret () else raise (OPNErr msg)))
     (\<lambda>r es. targets es = [] \<and> (\<forall>e. r = Inl e \<longrightarrow> \<not> refusal e) \<and>
        (r = Inr () \<longrightarrow> ends_observed w c u expected es))"
proof -
  have "runs (verify w u expected c) (\<lambda>r es. targets es = [] \<and> (\<forall>e. r = Inl e \<longrightarrow> \<not> refusal e) \<and>
      (r = Inr True \<longrightarrow> ends_observed w c u expected es))"
    by (rule runs_both [OF runs_conj [OF verify_observed raises_verify [unfolded raises_def]]
        read_only_verify [unfolded read_only_io_def]]) (auto simp: silent_targets)
  then show ?thesis by (rule runs_bnd) auto
qed

lemma sync_all_runs:
  "runs (sync w plan pdr u expected) (\<lambda>r es.
     prefix (targets es) (restart_targets w @ (if pdr = None then [] else cleanup_targets w u)) \<and>
     (\<forall>e. r = Inl e \<longrightarrow> \<not> caught e) \<and>
     (vw_peer w = None \<longrightarrow> r = Inr None \<and> es = []) \<and>
     (\<forall>peer x. vw_peer w = Some peer \<longrightarrow> r = Inr x \<longrightarrow>
        (\<exists>sr. x = Some sr \<and> (sr_verified sr \<longrightarrow> ends_observed w peer u expected es))))"
  by (rule runs_both [OF runs_conj [OF sync_runs sends_sync [unfolded sends_upto_def]]
        raises_sync [unfolded raises_def]]) blast

text \<open>What an \<open>ok\<close> result rests on: the local readback, and the peer's as the last event.\<close>

definition confirmed :: "writer \<Rightarrow> action \<Rightarrow> string \<Rightarrow> json option \<Rightarrow> vresult \<Rightarrow> trace \<Rightarrow> bool" where
  "confirmed w act given expected r es =
     (vr_applied r \<and> vr_verified r \<and> vr_error r = None \<and>
      (\<exists>xs ys. es = xs @ ys \<and> targets xs = change_targets w (change_verb act) given \<and>
         ends_observed w (vw_client w) (vr_uuid r) expected xs \<and>
         (case vw_peer w of None \<Rightarrow> vr_sync r = None \<and> ys = []
          | Some peer \<Rightarrow> \<exists>sr. vr_sync r = Some sr \<and> sr_verified sr \<and>
              ends_observed w peer (vr_uuid r) expected ys)))"

definition stages_ok :: "writer \<Rightarrow> action \<Rightarrow> obj option \<Rightarrow> json option \<Rightarrow> string \<Rightarrow> vresult res \<Rightarrow> trace \<Rightarrow> bool" where
  "stages_ok w act payload expected given r es =
     (audited (started_line w act payload given) es \<and>
      protocol w act given es \<and>
      (\<forall>e. r = Inl e \<longrightarrow> \<not> caught e) \<and>
      (\<forall>r'. r = Inr r' \<longrightarrow> vr_action r' = act \<and>
         (act \<noteq> Create \<longrightarrow> vr_uuid r' = given) \<and>
         (vr_ok r' \<longrightarrow> confirmed w act given expected r' es) \<and>
         (\<not> vr_ok r' \<longrightarrow> vr_error r' \<noteq> None) \<and>
         (vr_error r' \<in> {Some ''conflict'', Some ''ha_unsafe''} \<longrightarrow> targets es = []) \<and>
         (rb_attempted (vr_rollback r') \<longrightarrow> act = Create \<and> vr_error r' \<in> {Some ''validation'', Some ''upstream''}) \<and>
         (vr_error r' = Some ''timeout'' \<longrightarrow> prefix (targets es) (change_targets w (change_verb act) given))))"

lemma error_code_cases:
  "error_code e = ''conflict'' \<Longrightarrow> refusal e" "error_code e = ''ha_unsafe'' \<Longrightarrow> refusal e"
  "error_code e = ''timeout'' \<Longrightarrow> \<not> definite e" "definite e \<Longrightarrow> error_code e \<in> {''validation'', ''upstream''}"
  by (cases e; auto split: if_splits)+

lemma failed_stage:
  assumes log: "audited (started_line w act payload given) es"
    "undone act (acc \<noteq> None) e \<Longrightarrow> \<exists>a \<in> set es. logged (started_line w act payload given) a"
    and r: "\<not> vr_ok r" "\<not> rb_attempted (vr_rollback r)" "vr_action r = act" "act \<noteq> Create \<Longrightarrow> vr_uuid r = given"
    and sent: "prefix (targets es) (change_targets w (change_verb act) given)"
      "undone act (acc \<noteq> None) e \<Longrightarrow> targets es = change_targets w (change_verb act) given"
      "undone act (acc \<noteq> None) e \<Longrightarrow> named_uuid es (vr_uuid r)"
    and early: "refusal e \<Longrightarrow> targets es = []"
  shows "runs (on_failure w act acc r e) (\<lambda>x es'. stages_ok w act payload expected given x (es @ es'))"
proof -
  have never: "raises (on_failure w act acc r e) (\<lambda>ex. \<not> caught ex)"
  proof -
    have "raises (rollback_create w plan u) (\<lambda>ex. \<not> caught ex)" for plan u
    proof -
      have ok: "raises m (\<lambda>e. is_opn e \<or> \<not> caught e)" if "raises m (\<lambda>e. \<not> refusal e)" for m :: "'a io"
        by (rule raises_mono [OF that]) (auto simp: caught_def elim: is_os.elims)
      have p: "raises (post_ack c p d what) (\<lambda>e. \<not> refusal e)" for c p d what
        by (rule raises_mono [OF raises_post_ack]) simp
      have a: "raises (apply_changes w) (\<lambda>e. \<not> refusal e)"
        unfolding raises_def by (rule runs_conseq [OF apply_runs]) simp
      have s: "raises (sync w plan None u None) (\<lambda>e. is_opn e \<or> \<not> caught e)"
        by (rule raises_mono [OF raises_sync]) simp
      show ?thesis
        unfolding rollback_create_def Let_def
        by (rule raises_try_else, rule ok, intro raises_bnd p a raises_verify, simp,
            rule raises_try_else [OF s])
          simp_all
    qed
    then show ?thesis
      by (auto simp: on_failure_def Let_def intro!: raises_bnd split: option.split)
  qed
  show ?thesis
  proof (rule runs_both [OF on_failure_runs never [unfolded raises_def]])
    fix x and es' :: trace
    let ?u = "undone act (acc \<noteq> None) e"
    assume f: "(if ?u then prefix (targets es') (change_targets w ''del'' (vr_uuid r) @ restart_targets w)
      else targets es' = []) \<and>
     (\<forall>r'. x = Inr r' \<longrightarrow> failed_as r e r' \<and>
        (if ?u then rb_attempted (vr_rollback r')
         else rb_attempted (vr_rollback r') = rb_attempted (vr_rollback r)))"
      and x: "\<forall>ex. x = Inl ex \<longrightarrow> \<not> caught ex"
    have aud: "audited (started_line w act payload given) (es @ es')"
    proof (cases ?u)
      case True with log show ?thesis by (simp add: audited_append)
    next
      case False with log f show ?thesis by (simp add: audited_append audited_silent silent_targets)
    qed
    have prot: "protocol w act given (es @ es')"
    proof (cases ?u)
      case True
      with f sent(2) have "act = Create" by (simp add: undone_def)
      with True f sent(2) named_uuid_append [OF sent(3) [OF True], of es'] show ?thesis
        unfolding protocol_def by auto
    next
      case False with f sent(1) show ?thesis by (simp add: protocol_def prefix_append)
    qed
    have u: "?u \<Longrightarrow> definite e \<and> act = Create" by (simp add: undone_def)
    have same: "\<not> ?u \<Longrightarrow> targets (es @ es') = targets es" using f by (simp split: if_splits)
    show "stages_ok w act payload expected given x (es @ es')"
    proof (cases x)
      case (Inl ex)
      with x aud prot show ?thesis by (auto simp: stages_ok_def)
    next
      case (Inr r')
      with f r(2) have fa: "failed_as r e r'" and rb: "rb_attempted (vr_rollback r') = ?u"
        by (auto split: if_splits)
      have code: "vr_error r' = Some (error_code e)" "\<not> vr_ok r'" "vr_uuid r' = vr_uuid r" "vr_action r' = act"
        using fa r by (auto simp: failed_as_def)
      have "vr_error r' \<in> {Some ''conflict'', Some ''ha_unsafe''} \<Longrightarrow> targets (es @ es') = []"
      proof -
        assume "vr_error r' \<in> {Some ''conflict'', Some ''ha_unsafe''}"
        then have ref: "refusal e" using code(1) error_code_cases(1,2) by auto
        then have "\<not> ?u" using u by (cases e) auto
        with same early [OF ref] show ?thesis by simp
      qed
      moreover have "prefix (targets (es @ es')) (change_targets w (change_verb act) given)"
        if "vr_error r' = Some ''timeout''"
        using that code(1) error_code_cases(3) u same sent(1) by fastforce
      moreover have "act = Create \<and> vr_error r' \<in> {Some ''validation'', Some ''upstream''}"
        if "rb_attempted (vr_rollback r')"
        using that rb u code(1) error_code_cases(4) by fastforce
      ultimately show ?thesis
        using aud prot code r(4) Inr unfolding stages_ok_def by blast
    qed
  qed
qed

lemma protocol_sync:
  assumes "targets es = change_targets w (change_verb act) given"
    and "prefix (targets es') (restart_targets w @ (if pdr = None then [] else cleanup_targets w u))"
    and "pdr \<noteq> None \<Longrightarrow> dnat_cleanup w act" and "act \<noteq> Create \<Longrightarrow> u = given"
  shows "protocol w act given (es @ es')"
proof -
  have "prefix (targets es') (restart_targets w @ (if dnat_cleanup w act then cleanup_targets w given else []))"
    by (rule prefix_order.trans [OF assms(2)]) (use assms(3,4) in \<open>auto simp: dnat_cleanup_def\<close>)
  then show ?thesis by (simp add: protocol_def assms(1))
qed

lemma finish_stages_runs:
  assumes log: "audited (started_line w act payload given) es"
      "\<exists>a \<in> set es. logged (started_line w act payload given) a"
    and sent: "targets es = [(c_host (vw_client w), verb_path w (action_verb act) given)]"
    and pdr: "pdr \<noteq> None \<Longrightarrow> dnat_cleanup w act"
    and r: "\<not> vr_ok r" "\<not> rb_attempted (vr_rollback r)" "vr_action r = act" "vr_uuid r = u"
      "act \<noteq> Create \<Longrightarrow> u = given" "vr_error r = None" "vr_sync r = None"
    and named: "act = Create \<Longrightarrow> named_uuid es u"
  shows "runs (finish_stages w act expected u plan pdr r)
    (\<lambda>x es'. stages_ok w act payload expected given x (es @ es'))"
proof -
  let ?P = "started_line w act payload given"
  let ?c = "change_targets w (change_verb act) given"
  let ?ok = "stages_ok w act payload expected given"
  have aud: "audited ?P (es @ es')" "\<exists>a \<in> set (es @ es'). logged ?P a" for es'
    using log by (auto simp: audited_append)
  have pass: "?ok (Inl e) (es @ es')" if "\<not> caught e" "protocol w act given (es @ es')" for e es'
    using that aud by (simp add: stages_ok_def)
  have fail: "runs (on_failure w act acc r' e) (\<lambda>x es''. ?ok x ((es @ es') @ es''))"
    if "targets (es @ es') = ?c" "\<not> refusal e" "\<not> vr_ok r'" "\<not> rb_attempted (vr_rollback r')"
      "vr_action r' = act" "vr_uuid r' = u" for acc r' e es'
    by (rule failed_stage) (use that aud r(5) named named_uuid_append in \<open>auto simp: undone_def\<close>)
  have c: "targets es @ [(c_host (vw_client w), apply_path w)] = ?c"
    by (simp add: sent change_targets_eq)
  show ?thesis
    unfolding finish_stages_def Let_def
  proof (rule runs_try_else [OF apply_runs], goal_cases)
    case (1 e es1) then show ?case by (auto simp: caught_def)
  next
    case (2 e es1)
    then have "runs (on_failure w act (Some plan) r e) (\<lambda>x es''. ?ok x ((es @ es1) @ es''))"
      by (intro fail) (use r c in auto)
    then show ?case by simp
  next
    case (3 x es1)
    then have c1: "targets (es @ es1) = ?c" using c by simp
    show ?case
    proof (rule runs_try_else [OF readback_runs], goal_cases)
      case (1 e es2) then show ?case using c1 by (auto intro!: pass exI simp: protocol_def)
    next
      case (2 e es2)
      then have "runs (on_failure w act (Some plan) (r\<lparr>vr_applied := True\<rparr>) e)
          (\<lambda>x es''. ?ok x ((es @ (es1 @ es2)) @ es''))"
        by (intro fail) (use r c1 in auto)
      then show ?case by simp
    next
      case (3 y es2)
      then have c2: "targets (es @ es1 @ es2) = ?c" and o2: "ends_observed w (vw_client w) u expected (es @ es1 @ es2)"
        using c1 by auto
      show ?case
      proof (rule runs_try_else [OF sync_all_runs], goal_cases)
        case (1 e es3)
        have "protocol w act given ((es @ es1 @ es2) @ es3)"
          by (rule protocol_sync [OF c2 conjunct1 [OF 1(1)] pdr r(5)])
        with 1 show ?case by (auto intro!: pass)
      next
        case (2 e es3) then show ?case by simp
      next
        case (3 s es3)
        have "protocol w act given ((es @ es1 @ es2) @ es3)"
          by (rule protocol_sync [OF c2 conjunct1 [OF 3(1)] pdr r(5)])
        then have p: "protocol w act given (es @ es1 @ es2 @ es3)" by simp
        show ?case
        proof (cases "s = None \<or> (\<exists>sr. s = Some sr \<and> sr_verified sr)")
          case True
          let ?r = "r\<lparr>vr_applied := True, vr_verified := True, vr_sync := s, vr_ok := True\<rparr>"
          have "case vw_peer w of None \<Rightarrow> vr_sync ?r = None \<and> es3 = []
            | Some peer \<Rightarrow> \<exists>sr. vr_sync ?r = Some sr \<and> sr_verified sr \<and>
                ends_observed w peer (vr_uuid ?r) expected es3"
            using 3 True r by (cases "vw_peer w") auto
          with c2 o2 r have "confirmed w act given expected ?r (es @ es1 @ es2 @ es3)"
            unfolding confirmed_def by (intro conjI exI [of _ "es @ es1 @ es2"] exI [of _ es3]) simp_all
          with True p r aud show ?thesis by (auto simp: stages_ok_def)
        next
          case False
          with p r aud show ?thesis by (auto simp: stages_ok_def split: option.split)
        qed
      qed
    qed
  qed
qed

lemma run_stages_runs:
  "runs (run_stages w act payload expected given revision) (stages_ok w act payload expected given)"
  unfolding run_stages_def Let_def
proof (rule runs_try_else [OF mutate_stage_runs], goal_cases)
  case (1 e es)
  then show ?case by (auto simp: stages_ok_def protocol_def change_targets_eq prefix_Cons)
next
  case (2 e es)
  show ?case
    by (rule failed_stage)
      (use 2 in \<open>auto simp: undone_def change_targets_eq prefix_Cons result0_def no_rollback_def\<close>)
next
  case (3 x es)
  then show ?case
    by (cases x) (auto intro!: finish_stages_runs simp: silent_targets result0_def no_rollback_def split: if_splits)
qed

section \<open>The revision check\<close>

text \<open>Before anything is sent, the object was read and had the revision the caller saw.\<close>

definition revision_read :: "writer \<Rightarrow> string \<Rightarrow> string \<Rightarrow> event \<Rightarrow> bool" where
  "revision_read w u revision e = (\<exists>status text v d.
     e = HttpEv (c_host (vw_client w)) GET (url_path (get_path w u)) [] None (Response status text (Some v)) \<and>
     check_get (vw_resource w) v = Inr d \<and> hash_payload d = revision)"

definition fresh :: "writer \<Rightarrow> string \<Rightarrow> string \<Rightarrow> trace \<Rightarrow> bool" where
  "fresh w u revision es = (\<exists>xs e ys. es = xs @ e # ys \<and> silent xs \<and> revision_read w u revision e)"

lemma fresh_append: "fresh w u revision es \<Longrightarrow> fresh w u revision (es @ es')"
  unfolding fresh_def by (metis append.assoc append_Cons)

lemma fresh_prepend: "silent es \<Longrightarrow> fresh w u revision es' \<Longrightarrow> fresh w u revision (es @ es')"
  unfolding fresh_def by (metis append.assoc silent_simps(2))

lemma get_read:
  "runs (get w u (vw_client w)) (\<lambda>r es. \<forall>d. r = Inr d \<longrightarrow> fresh w u (hash_payload d) es)"
  unfolding get_def
proof (rule runs_bnd [OF runs_client_get [where Q = "\<lambda>r es. silent es \<and> (\<forall>v. r = Inr v \<longrightarrow>
      got (vw_client w) (get_path w u) [] v es)"]], goal_cases)
  case (3 v es)
  then obtain st bt where l: "es \<noteq> []" "silent es" "last es =
      HttpEv (c_host (vw_client w)) GET (url_path (get_path w u)) [] None (Response st bt (Some v))"
    by (auto simp: got_def)
  from l(1) have es: "es = butlast es @ last es # []" by simp
  from l(2) have "silent (butlast es)" by (metis es silent_simps(2))
  then have "fresh w u (hash_payload d) es" if "check_get (vw_resource w) v = Inr d" for d
    unfolding fresh_def revision_read_def using es l(3) that by blast
  then show ?case by auto
qed (auto dest: get_events_silent)

lemma check_revision_fresh:
  assumes "act \<noteq> Create"
  shows "runs (check_revision w act u revision) (\<lambda>r es. silent es \<and> (\<forall>x. r = Inr x \<longrightarrow> fresh w u revision es))"
proof -
  have "runs (check_revision w act u revision) (\<lambda>r es. \<forall>x. r = Inr x \<longrightarrow> fresh w u revision es)"
    unfolding check_revision_def if_not_P [OF assms]
  proof (rule runs_bnd [OF get_read], goal_cases)
    case (2 current es)
    show ?case
    proof (rule runs_if, goal_cases)
      case 2
      then have "fresh w u revision (es @ es')" for es'
        using \<open>\<forall>d. Inr current = Inr d \<longrightarrow> fresh w u (hash_payload d) es\<close> fresh_append by auto
      then show ?case
        by (intro runs_conseq [OF read_only_any])
          (auto simp: Let_def intro!: trace_intros split: option.split)
    qed simp
  qed simp
  then show ?thesis
    by (rule runs_both [OF _ read_only_check_revision [unfolded read_only_io_def]]) auto
qed

lemma mutate_stage_fresh:
  assumes "act \<noteq> Create"
  shows "runs (mutate_stage w act payload u revision) (\<lambda>r es. fresh w u revision es \<or> silent es \<and> (\<forall>x. r \<noteq> Inr x))"
  unfolding mutate_stage_def
proof (rule runs_bnd [OF sends_nil_simps(4) [unfolded sends_def]], goal_cases)
  case (2 a es)
  then have es: "silent es" by (simp add: silent_targets)
  show ?case
  proof (rule runs_bnd [OF read_only_preflight [unfolded read_only_io_def]], goal_cases)
    case (2 plan es2)
    show ?case
    proof (rule runs_bnd [OF check_revision_fresh [OF assms]], goal_cases)
      case (2 pdr es3)
      then have "fresh w u revision (es @ es2 @ es3 @ es')" for es'
        using es \<open>silent es2 \<and> audit_lines es2 = []\<close>
        by (metis fresh_append fresh_prepend append.assoc)
      then show ?case
        using assms by (intro runs_bnd [OF post_ack_runs]) auto
    qed (use es 2 in auto)
  qed (use es in auto)
qed (auto simp: silent_targets)

lemma finish_any: "runs (finish_stages w act expected u plan pdr r) (\<lambda>r es. True)"
proof -
  have f: "runs (on_failure w act acc r e) (\<lambda>r es. True)" for acc r e
    by (rule runs_conseq [OF on_failure_runs]) simp
  show ?thesis
    unfolding finish_stages_def Let_def
    by (rule runs_try_else [OF apply_runs], simp, rule f, rule runs_try_else [OF readback_runs], simp, rule f,
        rule runs_try_else [OF sync_all_runs], simp, rule f) simp
qed

lemma run_stages_fresh:
  assumes "act \<noteq> Create"
  shows "runs (run_stages w act payload expected u revision) (\<lambda>r es. fresh w u revision es \<or> silent es)"
  unfolding run_stages_def Let_def
proof (rule runs_try_else [OF mutate_stage_fresh [OF assms]], goal_cases)
  case (2 e es)
  have "runs (on_failure w act None (result0 act u) e) (\<lambda>r es. targets es = [])"
    by (rule runs_conseq [OF on_failure_runs]) (auto simp: undone_def)
  then show ?case
    by (rule runs_conseq) (use 2 in \<open>auto simp: silent_targets intro: fresh_append\<close>)
next
  case (3 x es)
  then have f: "fresh w u revision (es @ es')" for es' by (auto intro: fresh_append)
  obtain v plan pdr where x: "x = (v, plan, pdr)" by (cases x) auto
  show ?case
    unfolding x prod.case by (rule runs_conseq [OF finish_any]) (use f in auto)
qed auto

section \<open>The recorded outcome\<close>

definition recorded :: "writer \<Rightarrow> obj option \<Rightarrow> vresult \<Rightarrow> vresult \<Rightarrow> trace \<Rightarrow> bool" where
  "recorded w payload r r' es = (\<exists>a.
     entry_of (vw_actor w) (resource_name (vw_resource w) @ ''.'' @ action_name (vr_action r)) (vr_uuid r)
       (h_name (c_host (vw_client w))) (if vr_ok r then ''ok'' else ''error'') (final_detail r)
       (payload_sha payload) a \<and>
     (es = [AuditEv a None] \<and> r' = r\<lparr>vr_audit := Some a\<rparr> \<or>
      (\<exists>msg. es = [AuditEv a (Some msg)] \<and>
         r' = r\<lparr>vr_ok := False, vr_error := Some ''audit'',
                vr_detail := vr_detail r @ ''; audit persistence failed''\<rparr>)))"

lemma record_result_runs:
  "runs (record_result w payload dur r) (\<lambda>x es. \<exists>r'. x = Inr r' \<and> recorded w payload r r' es)"
  unfolding record_result_def
proof (rule runs_bnd [OF runs_entry_now [where Q = "\<lambda>x es. es = [] \<and> (\<exists>a. x = Inr a \<and>
    entry_of (vw_actor w) (resource_name (vw_resource w) @ ''.'' @ action_name (vr_action r)) (vr_uuid r)
       (h_name (c_host (vw_client w))) (if vr_ok r then ''ok'' else ''error'') (final_detail r)
       (payload_sha payload) a)"]], goal_cases)
  case (3 a es)
  show ?case
    by (rule runs_try_else [OF runs_audit_append [where Q = "\<lambda>x es. case x of
        Inr _ \<Rightarrow> es = [AuditEv a None] | Inl e \<Rightarrow> \<exists>msg. e = OSErr msg \<and> es = [AuditEv a (Some msg)]"]])
      (use 3 in \<open>auto simp: recorded_def\<close>)
qed auto

definition given_uuid :: "action \<Rightarrow> json \<Rightarrow> string" where
  "given_uuid act uuid = (if act = Create then (case uuid of JStr u \<Rightarrow> u | _ \<Rightarrow> [])
     else (case validate_uuid uuid of Inr u \<Rightarrow> u | Inl _ \<Rightarrow> []))"

definition given_revision :: "json \<Rightarrow> string" where
  "given_revision v = (case v of JStr s \<Rightarrow> s | _ \<Rightarrow> [])"

text \<open>A run: the stages, then the record of the outcome; or a bad argument and no event at all.\<close>

definition run_shape ::
  "writer \<Rightarrow> action \<Rightarrow> obj option \<Rightarrow> json \<Rightarrow> json \<Rightarrow> vresult res \<Rightarrow> trace \<Rightarrow> vresult res \<Rightarrow> trace \<Rightarrow> bool" where
  "run_shape w act payload uuid revision r1 es1 r es =
     (\<exists>expected. expected_of w payload = Inr expected \<and>
      stages_ok w act payload expected (given_uuid act uuid) r1 es1 \<and>
      (act \<noteq> Create \<longrightarrow> fresh w (given_uuid act uuid) (given_revision revision) es1 \<or> silent es1) \<and>
      (case r1 of Inl e \<Rightarrow> r = Inl e \<and> es = es1
       | Inr x \<Rightarrow> \<exists>r' es2. r = Inr r' \<and> es = es1 @ es2 \<and> recorded w payload x r' es2))"

lemma locked_runs:
  assumes "act \<noteq> Create \<Longrightarrow> given_revision revision = rv"
  shows "runs (execute_locked w act payload (given_uuid act uuid) rv) (\<lambda>r es.
     (\<exists>e. r = Inl e \<and> \<not> caught e \<and> es = []) \<or> (\<exists>r1 es1. run_shape w act payload uuid revision r1 es1 r es))"
  unfolding execute_locked_def
proof (rule runs_bnd [OF runs_now_ms [where Q = "\<lambda>r es. \<exists>t. r = Inr t \<and> es = []"]], goal_cases)
  case (3 t0 es)
  then have "es = []" by auto
  show ?case
  proof (cases "expected_of w payload")
    case (Inl e)
    then have "\<not> caught e"
      by (auto simp: expected_of_def caught_def split: option.splits list.splits)
    with Inl \<open>es = []\<close> show ?thesis by simp
  next
    case (Inr expected)
    let ?run = "run_stages w act payload expected (given_uuid act uuid) rv"
    have st: "runs ?run (\<lambda>r es. stages_ok w act payload expected (given_uuid act uuid) r es \<and>
        (act \<noteq> Create \<longrightarrow> fresh w (given_uuid act uuid) (given_revision revision) es \<or> silent es))"
      using runs_conj [OF run_stages_runs run_stages_fresh [of act w payload expected "given_uuid act uuid" rv]]
        run_stages_runs assms by (cases "act = Create") auto
    have fin: "runs (bnd now_ms (\<lambda>t1. record_result w payload (t1 - t0) x)) (\<lambda>r es. \<exists>r'. r = Inr r' \<and> recorded w payload x r' es)" for x
      by (rule runs_bnd [OF runs_now_ms [where Q = "\<lambda>r es. \<exists>t. r = Inr t \<and> es = []"]])
        (auto intro!: runs_conseq [OF record_result_runs])
    have "runs (bnd ?run (\<lambda>x. bnd now_ms (\<lambda>t1. record_result w payload (t1 - t0) x)))
        (\<lambda>r es. \<exists>r1 es1. run_shape w act payload uuid revision r1 es1 r es)"
    proof (rule runs_bnd [OF st], goal_cases)
      case (1 e es) then show ?case by (auto simp: run_shape_def Inr intro!: exI [of _ "Inl e"])
    next
      case (2 x es)
      then show ?case
        by (intro runs_conseq [OF fin]) (fastforce simp: run_shape_def Inr intro!: exI [of _ "Inr x"])
    qed
    then have "runs (bnd ?run (\<lambda>x. bnd now_ms (\<lambda>t1. record_result w payload (t1 - t0) x)))
        (\<lambda>r es. (\<exists>e. r = Inl e \<and> \<not> caught e \<and> es = []) \<or> (\<exists>r1 es1. run_shape w act payload uuid revision r1 es1 r es))"
      by (rule runs_conseq) simp
    then show ?thesis using \<open>es = []\<close> by (simp add: Inr)
  qed
qed auto

lemma execute_runs:
  "runs (execute w act payload uuid revision) (\<lambda>r es.
     (\<exists>e. r = Inl e \<and> \<not> caught e \<and> es = []) \<or> (\<exists>r1 es1. run_shape w act payload uuid revision r1 es1 r es))"
proof (cases "act = Create")
  case True
  have "given_uuid act uuid = (case uuid of JStr u \<Rightarrow> u | _ \<Rightarrow> [])" by (simp add: given_uuid_def True)
  then show ?thesis
    using locked_runs [of act revision "[]" w payload uuid] True by (simp add: execute_def)
next
  case False
  show ?thesis
  proof (cases "validate_uuid uuid")
    case (Inl e)
    then have "\<not> caught e" by (auto dest: validate_uuid_Inl simp: caught_def)
    with Inl False show ?thesis by (simp add: execute_def)
  next
    case u: (Inr u)
    show ?thesis
    proof (cases "validate_revision revision")
      case (Inl e)
      then have "\<not> caught e"
        by (auto simp: validate_revision_def caught_def split: json.splits if_splits)
      with Inl u False show ?thesis by (simp add: execute_def)
    next
      case (Inr rv)
      then have "given_revision revision = rv" by (auto dest: validate_revision_Inr simp: given_revision_def)
      moreover have "given_uuid act uuid = u" using u False by (simp add: given_uuid_def)
      ultimately have "runs (execute_locked w act payload u rv) (\<lambda>r es.
          (\<exists>e. r = Inl e \<and> \<not> caught e \<and> es = []) \<or> (\<exists>r1 es1. run_shape w act payload uuid revision r1 es1 r es))"
        using locked_runs [of act revision rv w payload uuid] by simp
      with Inr u False show ?thesis
        by (simp add: execute_def)
    qed
  qed
qed

text \<open>What the shape of a run gives for its whole trace.\<close>

lemma run_shape_parts:
  assumes "run_shape w act payload uuid revision r1 es1 r es"
  obtains es2 where "es = es1 @ es2" "silent es2" "\<And>e. r = Inl e \<Longrightarrow> \<not> caught e"
proof (cases r1)
  case (Inl e)
  with assms that [of "[]"] show ?thesis by (auto simp: run_shape_def stages_ok_def)
next
  case (Inr x)
  with assms obtain r' es2 where "r = Inr r'" "es = es1 @ es2" "recorded w payload x r' es2"
    by (auto simp: run_shape_def)
  with that [of es2] show ?thesis by (auto simp: recorded_def silent_Cons)
qed

text \<open>What was requested: the object in the payload, or nothing.\<close>

definition requested :: "writer \<Rightarrow> obj option \<Rightarrow> json option \<Rightarrow> bool" where
  "requested w payload expected = (case payload of
      Some (kv # d) \<Rightarrow> expected \<noteq> None \<and> expected = map_of (kv # d) (object_key (vw_resource w))
    | _ \<Rightarrow> expected = None)"

lemma expected_requested: "expected_of w payload = Inr expected \<Longrightarrow> requested w payload expected"
  unfolding expected_of_def requested_def object_key_spec
  by (cases payload; cases "the payload"; cases expected) (simp_all split: option.splits if_splits prod.splits)

text \<open>A returned result is that of the stages, recorded.\<close>

lemma execute_result:
  assumes "execute w act payload uuid revision E tr = (Inr r, tr')"
  obtains x es1 es2 expected where "tr' = tr @ es1 @ es2" "expected_of w payload = Inr expected"
    "stages_ok w act payload expected (given_uuid act uuid) (Inr x) es1"
    "act \<noteq> Create \<Longrightarrow> fresh w (given_uuid act uuid) (given_revision revision) es1 \<or> silent es1"
    "recorded w payload x r es2"
proof -
  from execute_runs [of w act payload uuid revision] assms obtain r1 es1 es
    where tr: "tr' = tr @ es" and s: "run_shape w act payload uuid revision r1 es1 (Inr r) es"
    by (auto elim!: runsE)
  then obtain x es2 expected where "r1 = Inr x" "expected_of w payload = Inr expected" "es = es1 @ es2"
      "recorded w payload x r es2" "stages_ok w act payload expected (given_uuid act uuid) (Inr x) es1"
      "act \<noteq> Create \<longrightarrow> fresh w (given_uuid act uuid) (given_revision revision) es1 \<or> silent es1"
    by (auto simp: run_shape_def split: sum.splits)
  with that tr show thesis by auto
qed

lemma recorded_silent: "recorded w payload x r es \<Longrightarrow> targets es = []"
  by (auto simp: recorded_def)

lemma confirmed_audit [simp]:
  "confirmed w act given expected (x\<lparr>vr_audit := a\<rparr>) es = confirmed w act given expected x es"
  by (cases "vw_peer w") (simp_all add: confirmed_def)

lemma run_shape_split:
  assumes "(\<exists>e. r = Inl e \<and> \<not> caught e \<and> es = []) \<or> (\<exists>r1 es1. run_shape w act payload uuid revision r1 es1 r es)"
    and "es = [] \<Longrightarrow> P"
    and "\<And>r1 es1 es2 expected. es = es1 @ es2 \<Longrightarrow> silent es2 \<Longrightarrow>
      stages_ok w act payload expected (given_uuid act uuid) r1 es1 \<Longrightarrow>
      (act \<noteq> Create \<Longrightarrow> fresh w (given_uuid act uuid) (given_revision revision) es1 \<or> silent es1) \<Longrightarrow> P"
  shows P
  using assms(1)
proof
  assume "\<exists>r1 es1. run_shape w act payload uuid revision r1 es1 r es"
  then obtain r1 es1 where s: "run_shape w act payload uuid revision r1 es1 r es" by blast
  then obtain es2 where "es = es1 @ es2" "silent es2" by (rule run_shape_parts)
  with s assms(3) show P by (auto simp: run_shape_def)
qed (use assms(2) in auto)

lemma ok_confirmed:
  assumes "execute w act payload uuid revision E tr = (Inr r, tr')" and "vr_ok r"
  shows "\<exists>es a expected. tr' = tr @ es @ [AuditEv a None] \<and> vr_audit r = Some a \<and> ae_result a = ''ok'' \<and>
    requested w payload expected \<and> confirmed w act (given_uuid act uuid) expected r es"
  using assms(1)
proof (rule execute_result, goal_cases)
  case (1 x es1 es2 expected)
  from 1(5) assms(2) obtain a where a: "es2 = [AuditEv a None]" "r = x\<lparr>vr_audit := Some a\<rparr>"
      "ae_result a = (if vr_ok x then ''ok'' else ''error'')"
    by (auto simp: recorded_def entry_of_def)
  with 1(3) assms(2) have "confirmed w act (given_uuid act uuid) expected r es1" by (simp add: stages_ok_def)
  with 1 a assms(2) expected_requested show ?case by fastforce
qed

section \<open>A request without an answer is the last one\<close>

lemma halts_post_ack [trace_intros]: "halts (post_ack c p d what)"
  unfolding post_ack_def halts_def
proof (rule runs_bnd [OF runs_client_post [where Q = "\<lambda>r es. (\<exists>out. r = post_result c p out \<and> es = [posted c p d out])"]], goal_cases)
  case (3 v es)
  then obtain st bd where "es = [posted c p d (Response st bd (Some v))]"
    by (auto dest: post_result_Inr [OF sym])
  then show ?case by (simp add: posted_def stops_Cons dead_def unanswered_def)
next
  case (2 e es)
  then obtain out where "Inl e = post_result c p out" "es = [posted c p d out]" by blast
  then show ?case
    by (cases out) (auto simp: posted_def stops_Cons dead_def unanswered_def post_result_def)
qed auto

lemma halts_apply [trace_intros]: "halts (apply_changes w)"
  unfolding apply_changes_def by (intro trace_intros)

lemma halted_cleanup: "halted (finish_last_dnat_delete w peer plan pdr u sr)"
  unfolding finish_last_dnat_delete_def Let_def
  by (intro halted_try_else halts_post_ack sends_nil_halts [OF sends_imp_upto [OF sends_guard]]
      read_only_halts halts_halted halts_ret upto_ret) (auto intro!: trace_intros)

lemma halted_last: "halted m \<Longrightarrow> halted (try_else m p (\<lambda>e. ret (f e)) (\<lambda>x. ret (g x)))"
  unfolding halted_def by (erule runs_try_else) auto

lemma halted_sync: "halted (sync w plan pdr u expected)"
proof (cases "vw_peer w")
  case None
  then show ?thesis by (simp add: sync_def halts_halted halts_ret)
next
  case (Some peer)
  have observe: "halted (bnd (verify_loop w peer u expected 1 n sr) (\<lambda>sr'.
               if \<not> sr_verified sr' \<and> expected = None then
                 (case pdr of None \<Rightarrow> ret (Some sr')
                  | Some pr \<Rightarrow> bnd (finish_last_dnat_delete w peer plan pr u sr') (\<lambda>sr''. ret (Some sr'')))
               else ret (Some sr')))" for n sr
  proof (rule halted_bnd [OF read_only_halts [OF read_only_verify_loop]])
    fix sr' show "halted (if \<not> sr_verified sr' \<and> expected = None then
                 (case pdr of None \<Rightarrow> ret (Some sr')
                  | Some pr \<Rightarrow> bnd (finish_last_dnat_delete w peer plan pr u sr') (\<lambda>sr''. ret (Some sr'')))
               else ret (Some sr'))"
      by (cases pdr) (simp_all add: halted_quiet halted_cleanup halts_halted halts_ret)
  qed
  have pre: "halts (bnd (sync_preflight w) (\<lambda>now. if now \<noteq> plan then raise ex else ret ()))" for ex
    by (rule read_only_halts) (auto intro!: trace_intros)
  show ?thesis
  proof (cases "vw_mode w")
    case Automatic
    then show ?thesis unfolding sync_def Some option.case Let_def by (simp add: observe del: One_nat_def)
  next
    case XmlrpcPf
    show ?thesis
      unfolding sync_def Some option.case Let_def XmlrpcPf simp_thms if_True
      by (intro halted_try_else pre halts_post_ack observe halts_halted halts_ret upto_ret)
  qed
qed

lemma halted_rollback: "halted (rollback_create w plan u)"
proof -
  have first: "halts (bnd (post_ack (vw_client w) (verb_path w ''del'' u) [] what) (\<lambda>_.
         bnd (apply_changes w) (\<lambda>_. verify w u None (vw_client w))))" for what
    by (intro trace_intros read_only_halts read_only_verify)
  show ?thesis
    unfolding rollback_create_def Let_def
    by (rule halted_try_else [OF first]) (simp_all add: halted_last halted_sync halts_halted halts_ret)
qed

lemma halted_failure: "halted (on_failure w act acc r e)"
  unfolding on_failure_def Let_def
  by (cases acc; cases "act = Create \<and> (case e of Rejected _ _ \<Rightarrow> True | _ \<Rightarrow> False)")
    (simp_all add: halted_quiet halted_rollback halts_halted halts_ret)

lemma failure_timeout: "sends_upto (on_failure w act acc r (TimeoutErr msg)) []"
  by (auto simp: on_failure_def Let_def split: option.split)

lemma halts_mutate: "halts (mutate_stage w act payload u revision)"
proof -
  have a: "halts (audit_now a1 a2 a3 a4 a5 a6 a7 a8)" for a1 a2 a3 a4 a5 a6 a7 a8
    by (rule sends_nil_halts [OF sends_imp_upto]) (rule sends_nil_simps)
  show ?thesis
    unfolding mutate_stage_def
    by (intro halts_bnd a halts_post_ack read_only_halts [OF read_only_preflight]
        read_only_halts [OF read_only_check_revision])
      (auto intro!: halts_ret split: sum.split)
qed

lemma halted_finish: "halted (finish_stages w act expected u plan pdr r)"
proof -
  have readback: "halts (bnd (verify w u expected c) (\<lambda>ok. if ok then ret () else raise e))" for c e
    by (rule read_only_halts) (auto intro!: trace_intros)
  have sync: "halted (try_else (sync w plan pdr u expected) caught h (\<lambda>s. ret (f s)))" for h and f :: "_ \<Rightarrow> vresult"
    unfolding halted_def
    by (rule runs_try_else [OF runs_conj [OF halted_sync [unfolded halted_def] raises_sync [unfolded raises_def]]]) auto
  show ?thesis
    unfolding finish_stages_def Let_def
    by (rule halted_try_else [OF halts_apply halted_try_else [OF readback sync]];
        rule halted_failure failure_timeout)
qed

lemma halted_stages: "halted (run_stages w act payload expected u revision)"
  unfolding run_stages_def Let_def
  by (rule halted_try_else [OF halts_mutate]) (auto intro: halted_finish halted_failure failure_timeout)

lemma halted_execute: "halted (execute w act payload uuid revision)"
proof -
  have locked: "halted (execute_locked w act payload u rv)" for u rv
  proof -
    have rec: "sends_upto (bnd now_ms (\<lambda>t1. record_result w payload (t1 - t0) x)) []" for t0 x
      unfolding record_result_def
      by (intro sends_imp_upto trace_intros sends_nil_simps)
    show ?thesis
      unfolding execute_locked_def
      by (intro halted_bnd halted_quiet halted_stages rec halts_ret sends_nil_halts [OF sends_imp_upto] sends_nil_simps)
  qed
  then show ?thesis
    unfolding execute_def by (auto intro!: halted_bnd halts_ret)
qed

lemma timeout_prefix:
  "runs (execute w act payload uuid revision) (\<lambda>r es. \<forall>x. r = Inr x \<longrightarrow> vr_error x = Some ''timeout'' \<longrightarrow>
     \<not> rb_attempted (vr_rollback x) \<and> prefix (targets es) (change_targets w (change_verb act) (given_uuid act uuid)))"
proof (rule runs_conseq [OF execute_runs], intro allI impI)
  fix r x and es :: trace
  assume "(\<exists>e. r = Inl e \<and> \<not> caught e \<and> es = []) \<or> (\<exists>r1 es1. run_shape w act payload uuid revision r1 es1 r es)"
    and r: "r = Inr x" and e: "vr_error x = Some ''timeout''"
  then obtain r1 es1 where sh: "run_shape w act payload uuid revision r1 es1 (Inr x) es" by auto
  then obtain y where "r1 = Inr y" by (cases r1) (auto simp: run_shape_def)
  with sh obtain expected es2 where "stages_ok w act payload expected (given_uuid act uuid) (Inr y) es1"
      "es = es1 @ es2" and rec: "recorded w payload y x es2"
    by (auto simp: run_shape_def)
  moreover from rec e have "vr_error y = vr_error x" "vr_rollback y = vr_rollback x" by (auto simp: recorded_def)
  ultimately show "\<not> rb_attempted (vr_rollback x) \<and>
      prefix (targets es) (change_targets w (change_verb act) (given_uuid act uuid))"
    using e recorded_silent [OF rec] by (auto simp: stages_ok_def)
qed

end
