(* ===== verification/Demo.thy ===== *)
theory Demo
  imports Verified_Facts
begin

text \<open>
  A concrete firewall for the witnesses: it stores nothing, acknowledges every POST with a UUID and
  answers every GET with the same document; the log accepts every line. Programs are run on it with
  the simplifier, digests left symbolic.
\<close>

definition demo_host :: host where
  "demo_host = \<lparr>h_name = ''fw'', h_url = ''https://fw'', h_api_key = ''k'', h_api_secret = ''s'',
     h_verify_tls = True, h_ca_bundle_path = None, h_connect_timeout = 5, h_read_timeout = 10\<rparr>"

definition demo_client :: client where
  "demo_client = \<lparr>c_host = demo_host, c_retry = default_retry\<rparr>"

definition demo_uuid :: string where
  "demo_uuid = ''01234567-89ab-cdef-0123-456789abcdef''"

text \<open>
  \<open>demo_env post doc lg\<close>: what a POST to a path gives, the document behind a GET of a path (there
  may be none), and what the log raises, if anything.
\<close>

definition answer :: "json \<Rightarrow> outcome" where
  "answer v = Response 200 [] (Some v)"

definition document :: "json option \<Rightarrow> outcome" where
  "document d = (case d of Some v \<Rightarrow> answer v | None \<Rightarrow> Response 404 [] None)"

definition demo_env :: "(string \<Rightarrow> outcome) \<Rightarrow> (string \<Rightarrow> json option) \<Rightarrow> string option \<Rightarrow> env" where
  "demo_env post doc lg =
     \<lparr>e_http = (\<lambda>tr h m p ps b. case m of POST \<Rightarrow> post p | GET \<Rightarrow> document (doc p)),
      e_audit = (\<lambda>tr a. lg), e_ms = (\<lambda>tr. 0), e_utc = (\<lambda>tr. ''2026''), e_instant = (\<lambda>tr. 0)\<rparr>"

definition saved :: json where
  "saved = JObj [(''result'', JStr ''saved''), (''uuid'', JStr demo_uuid)]"

definition demo_rule :: json where
  "demo_rule = JObj [(''enabled'', JStr ''1'')]"

definition demo_doc :: json where
  "demo_doc = JObj [(''rule'', demo_rule)]"

definition demo_writer :: writer where
  "demo_writer = \<lparr>vw_client = demo_client, vw_resource = Rules, vw_actor = ''op'', vw_peer = None,
     vw_attempts = 6, vw_backoff = 1 / 2, vw_mode = Automatic\<rparr>"

lemma demo_env_simps [simp]:
  "e_http (demo_env post doc lg) tr h POST p ps b = post p"
  "e_http (demo_env post doc lg) tr h GET p ps b = document (doc p)"
  "e_audit (demo_env post doc lg) tr a = lg" "e_ms (demo_env post doc lg) tr = 0"
  "e_utc (demo_env post doc lg) tr = ''2026''"
  by (simp_all add: demo_env_def)

text \<open>Running the primitives on an environment.\<close>

lemma io_runs [run_simps]:
  "ret x E tr = (Inr x, tr)" "raise e E tr = (Inl e, tr)" "of_res r E tr = (r, tr)"
  "now_ms E tr = (Inr (e_ms E tr), tr)" "utc_now E tr = (Inr (e_utc E tr), tr)"
  "sleep d E tr = (Inr (), tr @ [SleepEv d])"
  "audit_append a E tr = ((case e_audit E tr a of None \<Rightarrow> Inr () | Some msg \<Rightarrow> Inl (OSErr msg)),
     tr @ [AuditEv a (e_audit E tr a)])"
  by (simp_all add: ret_def raise_def of_res_def now_ms_def utc_now_def sleep_def audit_append_def Let_def)

lemma bnd_run [run_simps]:
  "bnd m f E tr = (case m E tr of (Inl e, tr') \<Rightarrow> (Inl e, tr') | (Inr x, tr') \<Rightarrow> f x E tr')"
  "try_else m p h f E tr = (case m E tr of
      (Inl e, tr') \<Rightarrow> if p e then h e E tr' else (Inl e, tr')
    | (Inr x, tr') \<Rightarrow> f x E tr')"
  by (simp_all add: bnd_def try_else_def)

lemma client_post_run [run_simps]:
  "client_post c p d (demo_env post doc lg) tr =
     (post_result c p (post (url_path p)), tr @ [posted c p d (post (url_path p))])"
  by (simp add: client_post_eq bnd_def http_def of_res_def posted_def Let_def)

lemma post_answer [simp]: "post_result c p (answer v) = Inr v"
  by (simp add: post_result_def answer_def client_response_def resp_ok_def)

lemma post_timeout [simp]: "post_result c p (RequestException e) =
    Inl (TimeoutErr (''POST '' @ p @ '' failed after 1 attempt(s): '' @ e))"
  by (simp add: post_result_def)

lemma client_get_run [run_simps]:
  assumes "c_retry c = default_retry"
  shows "client_get c p ps (demo_env post doc lg) tr =
     ((case doc (url_path p) of Some v \<Rightarrow> Inr v
       | None \<Rightarrow> Inl (OPNErr (''GET '' @ p @ '' '' @ arrow @ '' '' @ ''HTTP 404: ''))),
      tr @ [HttpEv (c_host c) GET (url_path p) ps None (document (doc (url_path p)))])"
proof -
  have "int_str 404 = ''404''" by code_simp
  then show ?thesis
    using assms by (simp add: client_get_def request_def bnd_def http_def of_res_def client_response_def
      resp_ok_def answer_def document_def Let_def default_retry_def numeral_3_eq_3 meth_str_def split: option.split)
qed

lemma demo_client_retry [simp]: "c_retry demo_client = default_retry"
  by (simp add: demo_client_def)

lemma demo_uuid_valid [simp]: "validate_uuid (JStr demo_uuid) = Inr demo_uuid"
  by code_simp

text \<open>Every step of a verified operation, unfolded down to the primitives.\<close>

lemmas writer_run = run_simps execute_def execute_locked_def expected_of_def run_stages_def result0_def
  mutate_stage_def audit_now_def entry_now_def sync_preflight_def check_revision_def post_ack_def
  finish_stages_def apply_changes_def verify_def get_def search_def sync_def record_result_def Let_def

lemma demo_writer_simps [simp]:
  "vw_client demo_writer = demo_client" "vw_resource demo_writer = Rules" "vw_actor demo_writer = ''op''"
  "vw_peer demo_writer = None" "vw_mode demo_writer = Automatic"
  by (simp_all add: demo_writer_def)

lemma saved_success [simp]:
  "require_success saved what = Inr [(''result'', JStr ''saved''), (''uuid'', JStr demo_uuid)]"
proof -
  have "markers [(''result'', JStr ''saved''), (''uuid'', JStr demo_uuid)] = [''saved'']" by code_simp
  then show ?thesis by (simp add: saved_def require_success_def ack_words_def)
qed

lemma demo_get [simp]: "check_get Rules demo_doc = Inr demo_rule"
  by code_simp

lemma demo_rule_not_null [simp]: "demo_rule \<noteq> JNull"
  by (simp add: demo_rule_def)

lemma refused [simp]: "require_success (JObj []) what = Inl (Rejected (what @ '': OPNsense did not acknowledge success'') None)"
  by (simp add: require_success_def markers_def)

lemma demo_paths [simp]:
  "verb_path demo_writer ''add'' [] \<noteq> apply_path demo_writer"
  "verb_path demo_writer ''del'' demo_uuid \<noteq> apply_path demo_writer"
  by (code_simp, code_simp)

lemma demo_matches [simp]: "matches demo_rule demo_rule = Inr True"
  by code_simp

text \<open>Creating a rule: acknowledged, applied, read back.\<close>

lemma demo_create:
  "\<exists>r tr'. execute demo_writer Create (Some [(''rule'', demo_rule)]) JNull JNull
       (demo_env (\<lambda>p. answer saved) (\<lambda>p. Some demo_doc) None) [] = (Inr r, tr') \<and> vr_ok r"
  by (simp add: writer_run caught_def dget_or_def)

text \<open>Updating it with the revision of the document the firewall holds.\<close>

lemma demo_update:
  "\<exists>r tr'. execute demo_writer Update (Some [(''rule'', demo_rule)]) (JStr demo_uuid) (JStr (hash_payload demo_rule))
       (demo_env (\<lambda>p. answer saved) (\<lambda>p. Some demo_doc) None) [] = (Inr r, tr') \<and> vr_ok r"
  by (simp add: writer_run caught_def dget_or_def validate_revision_hash)

text \<open>A create whose apply is refused is undone; one whose apply times out is left alone.\<close>

definition refusing :: "string \<Rightarrow> outcome" where
  "refusing p = answer (if p = apply_path demo_writer then JObj [] else saved)"

definition failing :: "string \<Rightarrow> outcome" where
  "failing p = (if p = apply_path demo_writer then RequestException ''timed out'' else answer saved)"

lemma demo_rollback:
  "\<exists>r tr'. execute demo_writer Create (Some [(''rule'', demo_rule)]) JNull JNull
       (demo_env refusing (\<lambda>p. Some demo_doc) None) [] = (Inr r, tr') \<and> rb_attempted (vr_rollback r)"
  by (simp add: writer_run caught_def dget_or_def refusing_def on_failure_def
      rollback_create_def)

lemma demo_timeout:
  "\<exists>r tr'. execute demo_writer Create (Some [(''rule'', demo_rule)]) JNull JNull
       (demo_env failing (\<lambda>p. Some demo_doc) None) [] = (Inr r, tr') \<and> vr_error r = Some ''timeout'' \<and>
     (\<exists>h p ps b msg. HttpEv h POST p ps b (RequestException msg) \<in> set tr') \<and> length (targets tr') = 2"
  by (simp add: writer_run caught_def dget_or_def failing_def on_failure_def posted_def) (simp add: answer_def)

text \<open>With an HA pair whose configuration cannot be read, nothing is sent.\<close>

definition pair_writer :: writer where
  "pair_writer = demo_writer\<lparr>vw_peer := Some demo_client, vw_mode := XmlrpcPf\<rparr>"

lemma demo_unsafe:
  "\<exists>r tr'. execute pair_writer Create (Some [(''rule'', demo_rule)]) JNull JNull
       (demo_env (\<lambda>p. answer saved) (\<lambda>p. Some (JArr [])) None) [] = (Inr r, tr') \<and> vr_error r = Some ''ha_unsafe''"
  by (simp add: writer_run caught_def pair_writer_def preflight_config_def on_failure_def)

end
