(* ===== verification/Verified_Props.thy ===== *)
theory Verified_Props
  imports Verified_Facts Demo
begin

text \<open>
  The properties of the verified writer, \<^verbatim>\<open>VerifiedFirewallWriter.execute\<close> of
  \<^verbatim>\<open>src/writers/verified.py\<close>. They hold in every environment: whatever the firewall answers,
  whether or not the log accepts a line, whatever other actors do between two requests.
\<close>

section \<open>What an operation sends\<close>

text \<open>C1: no request that could change the firewall leaves before a line saying that this actor
  started this action on this object, with the digest of this payload, has reached the audit log.\<close>

theorem execute_audited:
  "runs (execute w act payload uuid revision)
     (\<lambda>r es. audited (started_line w act payload (given_uuid act uuid)) es)"
  by (rule runs_conseq [OF execute_runs], erule run_shape_split)
    (auto simp: stages_ok_def audited_append audited_silent)


section \<open>What a result means\<close>

text \<open>C3: an operation that reports success sent the change and the apply, then read this object by its UUID from the
  firewall and found in the answer each field that was requested with the requested value (for a delete, read all rows of
  the grid and found none with this UUID), then - with a configured peer - read the same from the peer as its last
  request, and logged the success. Values compare as texts, protocols without case, contents of aliases as bags of
  entries; a dictionary of options counts as the list of its marked ones.\<close>

theorem execute_ok_confirmed:
  assumes "execute w act payload uuid revision E tr = (Inr r, tr')" and "vr_ok r"
  shows "\<exists>es a expected. tr' = tr @ es @ [AuditEv a None] \<and> vr_audit r = Some a \<and> ae_result a = ''ok'' \<and>
    requested w payload expected \<and> confirmed w act (given_uuid act uuid) expected r es"
  by (rule ok_confirmed [OF assms])

theorem execute_ok_confirmed_witness:
  "\<exists>r es expected. fst (execute demo_writer Create (Some [(''rule'', demo_rule)]) JNull JNull
       (demo_env (\<lambda>p. answer saved) (\<lambda>p. Some demo_doc) None) []) = Inr r \<and> vr_ok r \<and>
     confirmed demo_writer Create [] expected r es"
proof -
  obtain r tr' where run: "execute demo_writer Create (Some [(''rule'', demo_rule)]) JNull JNull
       (demo_env (\<lambda>p. answer saved) (\<lambda>p. Some demo_doc) None) [] = (Inr r, tr')" "vr_ok r"
    using demo_create by blast
  from execute_ok_confirmed [OF run] obtain es expected where
      "confirmed demo_writer Create (given_uuid Create JNull) expected r es" by blast
  with run show ?thesis by (auto simp: given_uuid_def)
qed

text \<open>C4: an update or a delete sends nothing unless it first read the object from the firewall and
  the digest of what it read was the revision the caller gave.\<close>

theorem execute_checks_revision:
  assumes "act \<noteq> Create"
  shows "runs (execute w act payload uuid revision)
    (\<lambda>r es. targets es = [] \<or> fresh w (given_uuid act uuid) (given_revision revision) es)"
  by (rule runs_conseq [OF execute_runs], erule run_shape_split)
    (use assms in \<open>auto simp: silent_targets intro: fresh_append\<close>)

theorem execute_checks_revision_witness:
  "\<exists>es. snd (execute demo_writer Update (Some [(''rule'', demo_rule)]) (JStr demo_uuid) (JStr (hash_payload demo_rule))
       (demo_env (\<lambda>p. answer saved) (\<lambda>p. Some demo_doc) None) []) = es \<and>
     (targets es = [] \<or> fresh demo_writer demo_uuid (hash_payload demo_rule) es)"
proof -
  have g: "given_uuid Update (JStr demo_uuid) = demo_uuid" "given_revision (JStr s) = s" for s
    by (simp_all add: given_uuid_def given_revision_def)
  have "Update \<noteq> Create" by simp
  from runsD [OF execute_checks_revision [OF this], of demo_writer "Some [(''rule'', demo_rule)]" "JStr demo_uuid"
      "JStr (hash_payload demo_rule)" "demo_env (\<lambda>p. answer saved) (\<lambda>p. Some demo_doc) None" "[]"]
  show ?thesis by (auto simp: g)
qed

text \<open>C5: a result that reports a conflict or an unsafe HA configuration comes from an operation that
  sent nothing.\<close>

theorem execute_refused_sends_nothing:
  assumes "execute w act payload uuid revision E tr = (Inr r, tr')"
    and "vr_error r = Some ''conflict'' \<or> vr_error r = Some ''ha_unsafe''"
  shows "\<exists>es. tr' = tr @ es \<and> targets es = []"
  using assms(1)
proof (rule execute_result, goal_cases)
  case (1 x es1 es2 expected)
  from 1(5) assms(2) have "vr_error x = vr_error r" by (auto simp: recorded_def)
  with 1(3) assms(2) have "targets es1 = []" by (auto simp: stages_ok_def)
  with 1 show ?case by (auto dest: recorded_silent)
qed

theorem execute_refused_sends_nothing_witness:
  "\<exists>r es. execute pair_writer Create (Some [(''rule'', demo_rule)]) JNull JNull
       (demo_env (\<lambda>p. answer saved) (\<lambda>p. Some (JArr [])) None) [] = (Inr r, es) \<and>
     vr_error r = Some ''ha_unsafe'' \<and> targets es = []"
proof -
  obtain r tr' where run: "execute pair_writer Create (Some [(''rule'', demo_rule)]) JNull JNull
       (demo_env (\<lambda>p. answer saved) (\<lambda>p. Some (JArr [])) None) [] = (Inr r, tr')" "vr_error r = Some ''ha_unsafe''"
    using demo_unsafe by blast
  from execute_refused_sends_nothing [OF run(1)] run(2) have "targets tr' = []" by auto
  with run show ?thesis by blast
qed

text \<open>C6: a mutating request that gets no answer - a timeout, a lost connection - is the last one of the operation:
  whatever it was (the change, the apply, the push to the peer, the undoing of a create, the deletion on the peer) and
  however the operation ends, no mutating request follows it. An operation that reports a timeout undid nothing and
  sent at most the change and the apply.\<close>

theorem execute_timeout_stops:
  "runs (execute w act payload uuid revision) (\<lambda>r es.
     (\<forall>xs h p ps b msg ys. es = xs @ HttpEv h POST p ps b (RequestException msg) # ys \<longrightarrow> targets ys = []) \<and>
     (\<forall>x. r = Inr x \<longrightarrow> vr_error x = Some ''timeout'' \<longrightarrow> \<not> rb_attempted (vr_rollback x) \<and>
        prefix (targets es) (change_targets w (change_verb act) (given_uuid act uuid))))"
  by (rule runs_both [OF halted_execute [unfolded halted_def] timeout_prefix])
    (auto simp: stops_def unanswered_def)

theorem execute_timeout_stops_witness:
  "\<exists>r xs h p ps b msg ys. execute demo_writer Create (Some [(''rule'', demo_rule)]) JNull JNull
       (demo_env failing (\<lambda>p. Some demo_doc) None) [] = (Inr r, xs @ HttpEv h POST p ps b (RequestException msg) # ys) \<and>
     vr_error r = Some ''timeout'' \<and> targets xs \<noteq> [] \<and> targets ys = []"
proof -
  obtain r tr' h p ps b msg where run: "execute demo_writer Create (Some [(''rule'', demo_rule)]) JNull JNull
       (demo_env failing (\<lambda>p. Some demo_doc) None) [] = (Inr r, tr')" "vr_error r = Some ''timeout''"
      and ev: "HttpEv h POST p ps b (RequestException msg) \<in> set tr'" "length (targets tr') = 2"
    using demo_timeout by blast
  from ev(1) obtain xs ys where tr: "tr' = xs @ HttpEv h POST p ps b (RequestException msg) # ys"
    by (auto simp: in_set_conv_decomp)
  have "targets ys = []"
    by (rule runsE [OF execute_timeout_stops run(1)]) (use tr in auto)
  moreover from this tr ev(2) have "targets xs \<noteq> []" by auto
  ultimately show ?thesis using run tr by blast
qed

text \<open>Only a create is undone, and only after a definite refusal of the firewall.\<close>

theorem execute_rollback_only_create:
  assumes "execute w act payload uuid revision E tr = (Inr r, tr')" and "rb_attempted (vr_rollback r)"
  shows "act = Create \<and> (vr_error r = Some ''audit'' \<or> vr_error r = Some ''validation'' \<or> vr_error r = Some ''upstream'')"
  using assms(1)
proof (rule execute_result, goal_cases)
  case (1 x es1 es2 expected)
  from 1(5) assms(2) have "vr_error r = vr_error x \<or> vr_error r = Some ''audit''" "rb_attempted (vr_rollback x)"
    by (auto simp: recorded_def)
  with 1(3) show ?case by (auto simp: stages_ok_def)
qed

theorem execute_rollback_only_create_witness:
  "\<exists>r. fst (execute demo_writer Create (Some [(''rule'', demo_rule)]) JNull JNull
       (demo_env refusing (\<lambda>p. Some demo_doc) None) []) = Inr r \<and> rb_attempted (vr_rollback r) \<and> vr_error r \<noteq> Some ''timeout''"
proof -
  obtain r tr' where run: "execute demo_writer Create (Some [(''rule'', demo_rule)]) JNull JNull
       (demo_env refusing (\<lambda>p. Some demo_doc) None) [] = (Inr r, tr')" "rb_attempted (vr_rollback r)"
    using demo_rollback by blast
  from execute_rollback_only_create [OF run] run show ?thesis by auto
qed

text \<open>C8: the last event of an operation that returns is its line in the audit log, with the outcome,
  the object and the digest of the payload; if the log refuses it the result is an error.\<close>

theorem execute_outcome_logged:
  assumes "execute w act payload uuid revision E tr = (Inr r, tr')"
  shows "\<exists>es a lg. tr' = tr @ es @ [AuditEv a lg] \<and>
    ae_user a = vw_actor w \<and> ae_action a = resource_name (vw_resource w) @ ''.'' @ action_name act \<and>
    ae_target a = vr_uuid r \<and> ae_host a = h_name (c_host (vw_client w)) \<and> ae_payload_sha256 a = payload_sha payload \<and>
    (case lg of None \<Rightarrow> vr_audit r = Some a \<and> ae_result a = (if vr_ok r then ''ok'' else ''error'')
     | Some msg \<Rightarrow> \<not> vr_ok r \<and> vr_error r = Some ''audit'')"
  using assms
proof (rule execute_result, goal_cases)
  case (1 x es1 es2 expected)
  then have "vr_action x = act" by (simp add: stages_ok_def)
  with 1 show ?case by (auto simp: recorded_def entry_of_def)
qed

theorem execute_outcome_logged_witness:
  "\<exists>es a lg. snd (execute demo_writer Create (Some [(''rule'', demo_rule)]) JNull JNull
       (demo_env (\<lambda>p. answer saved) (\<lambda>p. Some demo_doc) None) []) = es @ [AuditEv a lg] \<and> ae_user a = ''op''"
proof -
  obtain r tr' where run: "execute demo_writer Create (Some [(''rule'', demo_rule)]) JNull JNull
       (demo_env (\<lambda>p. answer saved) (\<lambda>p. Some demo_doc) None) [] = (Inr r, tr')"
    using demo_create by blast
  from execute_outcome_logged [OF run] run show ?thesis by auto
qed

text \<open>C9: the errors of the HTTP client, the refusals and the failures of the log are always turned
  into a result: what an operation raises is none of them.\<close>

theorem execute_catches:
  "raises (execute w act payload uuid revision) (\<lambda>e. \<not> is_opn e \<and> \<not> is_os e)"
  unfolding raises_def
proof (rule runs_conseq [OF execute_runs])
  fix r and es :: trace
  assume s: "(\<exists>e. r = Inl e \<and> \<not> caught e \<and> es = []) \<or> (\<exists>r1 es1. run_shape w act payload uuid revision r1 es1 r es)"
  show "\<forall>e. r = Inl e \<longrightarrow> \<not> is_opn e \<and> \<not> is_os e"
  proof (intro allI impI)
    fix e assume "r = Inl e"
    with s have "\<not> caught e" by (auto elim: run_shape_parts)
    then show "\<not> is_opn e \<and> \<not> is_os e" by (simp add: caught_def)
  qed
qed

end
