(* ===== verification/HaVerify.thy ===== *)
theory HaVerify
  imports Sending
begin

text \<open>
  HA synchronization of the legacy writers, \<^verbatim>\<open>src/writers/hasync_writer.py\<close>: trigger a push to
  the peer, then compare what both nodes hold. Every method is modelled; waits are rationals in
  seconds. The laws other components rely on are the locale \<open>observer\<close> at the end.
\<close>

section \<open>Data\<close>

text \<open>\<^verbatim>\<open>SyncResult\<close> and \<^verbatim>\<open>HAVerifier\<close>.\<close>

record hsync =
  hs_triggered :: bool
  hs_verified :: bool
  hs_local_fp :: string
  hs_peer_fp :: string
  hs_detail :: string
  hs_attempts :: nat
  hs_rev_local :: string
  hs_rev_peer :: string

record ha =
  ha_local :: client
  ha_peer :: "client option"

definition hsync0 :: hsync where
  "hsync0 = \<lparr>hs_triggered = False, hs_verified = False, hs_local_fp = [], hs_peer_fp = [],
     hs_detail = [], hs_attempts = 0, hs_rev_local = [], hs_rev_peer = []\<rparr>"

text \<open>The em dash of the messages, U+2014 in UTF-8.\<close>

definition single_node :: string where
  "single_node = ''no peer configured '' @ [CHR 0xE2, CHR 0x80, CHR 0x94] @ '' single-node mode''"

definition sysinfo_path :: string where
  "sysinfo_path = ''/api/diagnostics/system/system_information''"

definition sync_path :: string where
  "sync_path = ''/api/core/hasync/syncTo''"

definition fingerprint :: "json \<Rightarrow> string" where
  "fingerprint v = take 16 (sha256_hex (dumps '', '' '': '' v))"

definition iter_rows :: "json \<Rightarrow> json list" where
  "iter_rows v = (case v of
      JObj d \<Rightarrow> (case map_of d ''rows'' of Some (JArr rows) \<Rightarrow> rows | _ \<Rightarrow> [])
    | JArr rows \<Rightarrow> rows
    | _ \<Rightarrow> [])"

section \<open>The methods\<close>

definition ha_sync :: "ha \<Rightarrow> bool io" where
  "ha_sync h = try_else (client_post (ha_local h) sync_path []) (\<lambda>_. True) (\<lambda>_. ret False) (\<lambda>_. ret True)"

definition ha_verify :: "ha \<Rightarrow> string \<Rightarrow> hsync io" where
  "ha_verify h path =
     bnd (client_get (ha_local h) path []) (\<lambda>v. let fp = fingerprint v in
     case ha_peer h of
       None \<Rightarrow> ret (hsync0\<lparr>hs_verified := True, hs_local_fp := fp, hs_peer_fp := fp, hs_attempts := 1,
                hs_detail := single_node\<rparr>)
     | Some peer \<Rightarrow> bnd (ha_sync h) (\<lambda>triggered.
         if \<not> triggered then ret (hsync0\<lparr>hs_local_fp := fp, hs_attempts := 1, hs_detail := ''syncTo failed''\<rparr>)
         else try_else (client_get peer path []) (\<lambda>_. True)
           (\<lambda>e. ret (hsync0\<lparr>hs_triggered := True, hs_local_fp := fp, hs_attempts := 1,
                      hs_detail := ''peer fetch failed: '' @ exn_str e\<rparr>))
           (\<lambda>pv. ret (hsync0\<lparr>hs_triggered := True, hs_verified := (fp = fingerprint pv), hs_local_fp := fp,
                      hs_peer_fp := fingerprint pv, hs_attempts := 1\<rparr>))))"

definition num :: "nat \<Rightarrow> string" where
  "num n = int_str (int n)"

definition with_error :: "string \<Rightarrow> string" where
  "with_error err = (if err = [] then [] else '' ('' @ err @ '')'')"

text \<open>
  The retry loops: this is attempt \<open>attempt\<close>, \<open>left\<close> counts it and those that may follow. A row that
  is not a dictionary raises, as \<^verbatim>\<open>r.get\<close> does.
\<close>

definition row_present :: "string \<Rightarrow> string \<Rightarrow> json list \<Rightarrow> bool res" where
  "row_present field value rows =
     (let hit = (\<lambda>r. is_obj r \<and> py_str (dget_or r field (JStr [])) = value);
          seen = takeWhile (\<lambda>r. \<not> hit r) rows in
      if list_all is_obj seen then Inr (length seen < length rows)
      else Inl (AttrErr ''object has no attribute get''))"

fun item_loop ::
  "client \<Rightarrow> string \<Rightarrow> string \<Rightarrow> string \<Rightarrow> bool \<Rightarrow> rat \<Rightarrow> nat \<Rightarrow> nat \<Rightarrow> string \<Rightarrow> (hsync + string) io" where
  "item_loop peer path field value expect backoff attempt 0 err = ret (Inr err)"
| "item_loop peer path field value expect backoff attempt (Suc left) err =
     try_else (client_get peer path []) (\<lambda>_. True)
       (\<lambda>e. if left \<noteq> 0 then
              bnd (sleep (backoff * of_nat attempt)) (\<lambda>_.
              item_loop peer path field value expect backoff (Suc attempt) left (exn_str e))
            else ret (Inl (hsync0\<lparr>hs_triggered := True, hs_attempts := attempt,
                             hs_detail := ''peer fetch failed: '' @ exn_str e\<rparr>)))
       (\<lambda>v. bnd (of_res (row_present field value (iter_rows v))) (\<lambda>present.
            if present = expect then
              ret (Inl (hsync0\<lparr>hs_triggered := True, hs_verified := True, hs_attempts := attempt,
                hs_detail := value @ '' '' @ (if expect then ''found'' else ''removed'') @ '' on peer in '' @
                  num attempt @ '' attempt(s)''\<rparr>))
            else if left \<noteq> 0 then
              bnd (sleep (backoff * of_nat attempt)) (\<lambda>_.
              item_loop peer path field value expect backoff (Suc attempt) left err)
            else ret (Inr err)))"

definition verify_item :: "ha \<Rightarrow> string \<Rightarrow> string \<Rightarrow> string \<Rightarrow> bool \<Rightarrow> nat \<Rightarrow> rat \<Rightarrow> hsync io" where
  "verify_item h path field value expect max_attempts backoff = (case ha_peer h of
      None \<Rightarrow> ret (hsync0\<lparr>hs_verified := True, hs_attempts := 1, hs_detail := single_node\<rparr>)
    | Some peer \<Rightarrow> bnd (ha_sync h) (\<lambda>triggered.
        if \<not> triggered then ret (hsync0\<lparr>hs_attempts := 1, hs_detail := ''syncTo failed''\<rparr>)
        else bnd (item_loop peer path field value expect backoff 1 max_attempts []) (\<lambda>out.
        case out of Inl r \<Rightarrow> ret r
        | Inr err \<Rightarrow> ret (hsync0\<lparr>hs_triggered := True, hs_attempts := max_attempts,
            hs_detail := value @ '' '' @ (if expect then ''not present'' else ''still present'') @
              '' on peer after '' @ num max_attempts @ '' attempt(s)'' @ with_error err\<rparr>))))"

definition get_revision :: "client \<Rightarrow> string io" where
  "get_revision c = try_else (client_get c sysinfo_path []) (\<lambda>_. True) (\<lambda>_. ret [])
     (\<lambda>v. ret (case v of
        JObj d \<Rightarrow>
          (if truthy_opt (map_of d ''config_revision'') then py_str (dget_or v ''config_revision'' JNull)
           else if truthy_opt (map_of d ''configRevision'') then py_str (dget_or v ''configRevision'' JNull)
           else [])
      | _ \<Rightarrow> []))"

fun robust_loop ::
  "client \<Rightarrow> string \<Rightarrow> string \<Rightarrow> rat \<Rightarrow> nat \<Rightarrow> nat \<Rightarrow> string \<Rightarrow> string \<Rightarrow> (hsync + string \<times> string) io" where
  "robust_loop peer path fp backoff attempt 0 pfp err = ret (Inr (pfp, err))"
| "robust_loop peer path fp backoff attempt (Suc left) pfp err =
     try_else (client_get peer path []) (\<lambda>_. True)
       (\<lambda>e. if left \<noteq> 0 then
              bnd (sleep (backoff * of_nat attempt)) (\<lambda>_.
              robust_loop peer path fp backoff (Suc attempt) left pfp (exn_str e))
            else ret (Inl (hsync0\<lparr>hs_triggered := True, hs_local_fp := fp, hs_attempts := attempt,
                             hs_detail := ''peer fetch failed: '' @ exn_str e\<rparr>)))
       (\<lambda>v. if fingerprint v = fp then
              ret (Inl (hsync0\<lparr>hs_triggered := True, hs_verified := True, hs_local_fp := fp,
                hs_peer_fp := fingerprint v, hs_attempts := attempt,
                hs_detail := ''fingerprints matched in '' @ num attempt @ '' attempt(s)''\<rparr>))
            else if left \<noteq> 0 then
              bnd (sleep (backoff * of_nat attempt)) (\<lambda>_.
              robust_loop peer path fp backoff (Suc attempt) left (fingerprint v) err)
            else ret (Inr (fingerprint v, err)))"

definition revision_hint :: "string \<Rightarrow> string \<Rightarrow> string" where
  "revision_hint rl rp = (if rl \<noteq> [] \<and> rl = rp
     then ''revision matches but content differs (suspect concurrent write)''
     else ''revision mismatch (local='' @ repr_str rl @ '', peer='' @ repr_str rp @ '')'')"

definition verify_robust :: "ha \<Rightarrow> string \<Rightarrow> nat \<Rightarrow> rat \<Rightarrow> hsync io" where
  "verify_robust h path max_attempts backoff =
     bnd (client_get (ha_local h) path []) (\<lambda>v. let fp = fingerprint v in
     case ha_peer h of
       None \<Rightarrow> ret (hsync0\<lparr>hs_verified := True, hs_local_fp := fp, hs_peer_fp := fp, hs_attempts := 1,
                hs_detail := single_node\<rparr>)
     | Some peer \<Rightarrow> bnd (ha_sync h) (\<lambda>triggered.
         if \<not> triggered then ret (hsync0\<lparr>hs_local_fp := fp, hs_attempts := 1, hs_detail := ''syncTo failed''\<rparr>)
         else bnd (robust_loop peer path fp backoff 1 max_attempts [] []) (\<lambda>out.
         case out of Inl r \<Rightarrow> ret r
         | Inr (pfp, err) \<Rightarrow>
             bnd (get_revision (ha_local h)) (\<lambda>rl.
             bnd (get_revision peer) (\<lambda>rp.
             ret (hsync0\<lparr>hs_triggered := True, hs_local_fp := fp, hs_peer_fp := pfp,
               hs_attempts := max_attempts, hs_rev_local := rl, hs_rev_peer := rp,
               hs_detail := ''fingerprints diverged after '' @ num max_attempts @ '' attempt(s); '' @
                 revision_hint rl rp @ with_error err\<rparr>))))))"

text \<open>The defaults of the two keyword arguments.\<close>

definition default_attempts :: nat where "default_attempts = 5"
definition default_backoff :: rat where "default_backoff = 2 / 5"

fun revision_loop :: "ha \<Rightarrow> client \<Rightarrow> bool \<Rightarrow> rat \<Rightarrow> nat \<Rightarrow> nat \<Rightarrow> string \<Rightarrow> string \<Rightarrow> (hsync + string \<times> string) io" where
  "revision_loop h peer trig backoff attempt 0 rl rp = ret (Inr (rl, rp))"
| "revision_loop h peer trig backoff attempt (Suc left) rl rp =
     bnd (get_revision (ha_local h)) (\<lambda>rl'.
     bnd (get_revision peer) (\<lambda>rp'.
     if rl' \<noteq> [] \<and> rl' = rp' then
       ret (Inl (hsync0\<lparr>hs_triggered := trig, hs_verified := True, hs_attempts := attempt,
         hs_rev_local := rl', hs_rev_peer := rp',
         hs_detail := ''config_revision '' @ rl' @ '' matched in '' @ num attempt @ '' attempt(s)''\<rparr>))
     else if left \<noteq> 0 then
       bnd (sleep (backoff * of_nat attempt)) (\<lambda>_. revision_loop h peer trig backoff (Suc attempt) left rl' rp')
     else ret (Inr (rl', rp'))))"

definition verify_revision :: "ha \<Rightarrow> bool \<Rightarrow> nat \<Rightarrow> rat \<Rightarrow> hsync io" where
  "verify_revision h trig max_attempts backoff = (case ha_peer h of
      None \<Rightarrow> ret (hsync0\<lparr>hs_verified := True, hs_attempts := 1, hs_detail := single_node\<rparr>)
    | Some peer \<Rightarrow>
        bnd (if trig then ha_sync h else ret True) (\<lambda>ok.
        if \<not> ok then ret (hsync0\<lparr>hs_attempts := 1, hs_detail := ''syncTo failed''\<rparr>)
        else bnd (revision_loop h peer trig backoff 1 max_attempts [] []) (\<lambda>out.
        case out of Inl r \<Rightarrow> ret r
        | Inr (rl, rp) \<Rightarrow> ret (hsync0\<lparr>hs_triggered := trig, hs_attempts := max_attempts,
            hs_rev_local := rl, hs_rev_peer := rp,
            hs_detail := ''config_revision mismatch after '' @ num max_attempts @ '' attempt(s) (local='' @
              repr_str rl @ '', peer='' @ repr_str rp @ '')''\<rparr>))))"

section \<open>What they send and what they observe\<close>

definition sync_targets :: "ha \<Rightarrow> target list" where
  "sync_targets h = (if ha_peer h = None then [] else [(c_host (ha_local h), sync_path)])"

lemma sync_runs_once:
  "runs (ha_sync h) (\<lambda>r es. targets es = [(c_host (ha_local h), sync_path)] \<and> audit_lines es = [] \<and> (\<exists>b. r = Inr b))"
  unfolding ha_sync_def
  by (rule runs_try_else [OF runs_client_post [where Q = "\<lambda>r es. targets es = [(c_host (ha_local h), sync_path)] \<and> audit_lines es = []"]])
    (auto simp: posted_def sync_path_def url_path_def)

text \<open>The last event is an answer of that client to a GET of that path, with a body that satisfies \<open>P\<close>.\<close>

definition last_read :: "client \<Rightarrow> string \<Rightarrow> (json \<Rightarrow> bool) \<Rightarrow> trace \<Rightarrow> bool" where
  "last_read c path P es = (\<exists>v. got c path [] v es \<and> P v)"

lemma got_last_read: "got c path [] v es \<Longrightarrow> P v \<Longrightarrow> last_read c path P es"
  by (auto simp: last_read_def)

lemma last_read_append [intro]: "last_read c path P es' \<Longrightarrow> last_read c path P (es @ es')"
  by (auto simp: last_read_def got_def)

lemma last_read_Cons [intro]: "last_read c path P es \<Longrightarrow> last_read c path P (e # es)"
  by (auto simp: last_read_def got_def)

lemma runs_peer_get:
  "runs (client_get c path []) (\<lambda>r es. targets es = [] \<and> audit_lines es = [] \<and>
     (case r of Inl e \<Rightarrow> is_opn e | Inr v \<Rightarrow> got c path [] v es))"
  by (rule runs_client_get) (auto simp: silent_targets [symmetric] dest: get_events_silent get_events_no_audit)

lemma robust_loop_runs:
  "runs (robust_loop peer path fp backoff attempt left pfp err) (\<lambda>r es. targets es = [] \<and> audit_lines es = [] \<and>
     (\<forall>e. r \<noteq> Inl e) \<and>
     (\<forall>x. r = Inr (Inl x) \<longrightarrow> hs_triggered x \<and> hs_attempts x < attempt + left \<and>
        (hs_verified x \<longrightarrow> hs_local_fp x = fp \<and> hs_peer_fp x = fp \<and>
           last_read peer path (\<lambda>v. fingerprint v = fp) es)))"
proof (induction left arbitrary: attempt pfp err)
  case (Suc left)
  have again: "runs (bnd (sleep d) (\<lambda>_. robust_loop peer path fp backoff (Suc attempt) left pfp' err'))
    (\<lambda>r es'. targets es' = [] \<and> audit_lines es' = [] \<and> (\<forall>e. r \<noteq> Inl e) \<and>
     (\<forall>x. r = Inr (Inl x) \<longrightarrow> hs_triggered x \<and> hs_attempts x < Suc (attempt + left) \<and>
        (hs_verified x \<longrightarrow> hs_local_fp x = fp \<and> hs_peer_fp x = fp \<and>
           last_read peer path (\<lambda>v. fingerprint v = fp) (es @ es'))))"
    for d pfp' err' es
  proof (rule runs_bnd [where R = "\<lambda>r es. r = Inr () \<and> es = [SleepEv d]"], goal_cases)
    case (3 x es2)
    then show ?case
      by (intro runs_conseq [OF Suc]) auto
  qed auto
  show ?case
    unfolding robust_loop.simps
    by (rule runs_try_else [OF runs_peer_get]) (auto intro!: again intro: got_last_read simp: hsync0_def)
qed simp

lemma revision_reads [trace_intros]: "read_only_io (get_revision c)"
  unfolding get_revision_def by (intro trace_intros) 

lemma revision_raises: "raises (get_revision c) p"
  unfolding get_revision_def by (rule raises_caught [OF read_only_any]) (auto intro: trace_intros)

lemma verify_robust_runs:
  "runs (verify_robust h path n d) (\<lambda>r es.
     prefix (targets es) (sync_targets h) \<and> audit_lines es = [] \<and>
     (\<forall>e. r = Inl e \<longrightarrow> is_opn e \<and> targets es = []) \<and>
     (\<forall>x. r = Inr x \<longrightarrow> (hs_triggered x \<longrightarrow> targets es = sync_targets h \<and> ha_peer h \<noteq> None) \<and>
        hs_attempts x \<le> max 1 n \<and>
        (\<forall>peer. ha_peer h = Some peer \<longrightarrow> hs_verified x \<longrightarrow> hs_triggered x \<and> hs_peer_fp x = hs_local_fp x \<and>
           (\<exists>xs ys v. es = xs @ ys \<and> targets xs = [] \<and> got (ha_local h) path [] v xs \<and> fingerprint v = hs_local_fp x \<and>
              last_read peer path (\<lambda>v. fingerprint v = hs_local_fp x) ys))))"
  unfolding verify_robust_def Let_def
proof (rule runs_bnd [OF runs_peer_get], goal_cases)
  case (2 v es)
  show ?case
  proof (cases "ha_peer h")
    case None
    with 2 show ?thesis by (simp add: hsync0_def sync_targets_def)
  next
    case (Some peer)
    have rev: "runs (bnd (get_revision c) (\<lambda>rl. bnd (get_revision c') (\<lambda>rp. ret (f rl rp))))
        (\<lambda>r es. targets es = [] \<and> audit_lines es = [] \<and> (\<exists>a b. r = Inr (f a b)))"
      for c c' and f :: "string \<Rightarrow> string \<Rightarrow> hsync"
    proof -
      have one: "runs (get_revision c) (\<lambda>r es. targets es = [] \<and> audit_lines es = [] \<and> (\<exists>a. r = Inr a))" for c
        by (rule runs_both [OF revision_reads [unfolded read_only_io_def]
              revision_raises [where p = "\<lambda>_. False", unfolded raises_def]])
          (auto simp: silent_targets split: sum.splits, metis sum.exhaust)
      show ?thesis
        by (rule runs_bnd [OF one], simp, rule runs_bnd [OF one]) auto
    qed
    show ?thesis
      unfolding Some option.case
    proof (rule runs_bnd [OF sync_runs_once], goal_cases)
      case (2 trig es2)
      show ?case
      proof (rule runs_if, goal_cases)
        case 2
        show ?case
        proof (rule runs_bnd [OF robust_loop_runs], goal_cases)
          case (2 out es3)
          note a = \<open>targets es = [] \<and> audit_lines es = [] \<and> (case Inr v of Inl e \<Rightarrow> is_opn e | Inr v \<Rightarrow> got (ha_local h) path [] v es)\<close>
          note b = \<open>targets es2 = [(c_host (ha_local h), sync_path)] \<and> audit_lines es2 = [] \<and> (\<exists>b. Inr trig = Inr b)\<close>
          show ?case
          proof (cases out)
            case (Inl x)
            have "\<exists>xs ys v. es @ es2 @ es3 = xs @ ys \<and> targets xs = [] \<and> got (ha_local h) path [] v xs \<and>
                fingerprint v = hs_local_fp x \<and> last_read peer path (\<lambda>v. fingerprint v = hs_local_fp x) ys"
              if "hs_verified x"
              by (rule exI [of _ es], rule exI [of _ "es2 @ es3"], rule exI [of _ v])
                (use 2 a that Inl in \<open>auto intro: last_read_append\<close>)
            moreover have "hs_attempts x \<le> max 1 n" using 2 Inl by auto
            ultimately show ?thesis using Inl 2 a b Some by (simp add: sync_targets_def)
          next
            case (Inr q)
            then show ?thesis
              using 2 a b Some
              by (cases q) (auto simp: sync_targets_def hsync0_def intro!: runs_conseq [OF rev])
          qed
        qed auto
      qed (use 2 \<open>targets es = [] \<and> _\<close> Some in \<open>auto simp: hsync0_def sync_targets_def\<close>)
    qed auto
  qed
qed auto

section \<open>The interface the writers use\<close>

text \<open>
  \<open>observe\<close> is what a writer runs after a change that was applied (\<^verbatim>\<open>_maybe_sync\<close>): it may send the
  requests of \<open>may_send\<close> in order, never writes to the audit log, and raises client errors only.
\<close>

locale observer =
  fixes observe :: "'h io" and may_send :: "target list"
  assumes observe_law: "runs observe (\<lambda>r es. prefix (targets es) may_send \<and> audit_lines es = [] \<and>
    (\<forall>e. r = Inl e \<longrightarrow> is_opn e))"
begin

lemma observe_logs_nothing: "runs observe (\<lambda>r es. audit_lines es = [])"
  by (rule runs_conseq [OF observe_law]) simp

lemma observe_sends: "sends_upto observe may_send"
  unfolding sends_upto_def by (rule runs_conseq [OF observe_law]) simp

end

definition maybe_sync :: "ha option \<Rightarrow> string \<Rightarrow> hsync option io" where
  "maybe_sync h path = (case h of None \<Rightarrow> ret None
     | Some v \<Rightarrow> bnd (verify_robust v path default_attempts default_backoff) (\<lambda>r. ret (Some r)))"

definition maybe_targets :: "ha option \<Rightarrow> target list" where
  "maybe_targets h = (case h of None \<Rightarrow> [] | Some v \<Rightarrow> sync_targets v)"

interpretation robust: observer "maybe_sync h path" "maybe_targets h" for h path
proof
  show "runs (maybe_sync h path) (\<lambda>r es. prefix (targets es) (maybe_targets h) \<and> audit_lines es = [] \<and>
      (\<forall>e. r = Inl e \<longrightarrow> is_opn e))"
    by (cases h) (auto simp: maybe_sync_def maybe_targets_def intro!: runs_bnd [OF verify_robust_runs])
qed

end
