(* ===== verification/Legacy.thy ===== *)
theory Legacy
  imports HaVerify
begin

text \<open>
  The life cycle the unverified writers share (\<^verbatim>\<open>src/writers/alias.py\<close>, \<^verbatim>\<open>rule.py\<close>,
  \<^verbatim>\<open>nat.py\<close>, \<^verbatim>\<open>one_to_one.py\<close>, \<^verbatim>\<open>wireguard_peer.py\<close>, \<^verbatim>\<open>dhcp.py\<close>,
  \<^verbatim>\<open>dhcp_subnet.py\<close>, \<^verbatim>\<open>unbound.py\<close>): the same \<^verbatim>\<open>create\<close>, \<^verbatim>\<open>update\<close>,
  \<^verbatim>\<open>delete\<close>, \<^verbatim>\<open>search\<close> and \<^verbatim>\<open>_record\<close> bodies with other names. What a class writes into
  them is a \<open>kind\<close>; what a call writes is a \<open>creation\<close>. The classes are in \<^verbatim>\<open>Legacy_Kinds\<close>.
\<close>

section \<open>Data\<close>

record kind =
  k_name :: string
  k_base :: string
  k_noun :: string
  k_search :: string
  k_apply :: string
  k_word :: string

record crud_writer =
  cw_client :: client
  cw_ha :: "ha option"
  cw_actor :: string
  cw_host :: string

definition mk_crud :: "client \<Rightarrow> ha option \<Rightarrow> string \<Rightarrow> string \<Rightarrow> crud_writer" where
  "mk_crud c h actor name = \<lparr>cw_client = c, cw_ha = h, cw_actor = actor,
     cw_host = (if name = [] then h_name (c_host c) else name)\<rparr>"

record crud_result =
  lr_ok :: bool
  lr_uuid :: string
  lr_detail :: string
  lr_sync :: "hsync option"
  lr_audit :: "audit_entry option"

definition failed :: "string \<Rightarrow> string \<Rightarrow> crud_result" where
  "failed uuid detail = \<lparr>lr_ok = False, lr_uuid = uuid, lr_detail = detail, lr_sync = None, lr_audit = None\<rparr>"

definition succeeded :: "string \<Rightarrow> hsync option \<Rightarrow> audit_entry \<Rightarrow> crud_result" where
  "succeeded uuid s a = \<lparr>lr_ok = True, lr_uuid = uuid, lr_detail = [], lr_sync = s, lr_audit = Some a\<rparr>"

text \<open>
  The payload of a create, the names its error lines carry (when the add fails, and later), and
  target and detail of its success line, from the new UUID.
\<close>

record creation =
  cr_payload :: obj
  cr_add_label :: string
  cr_label :: string
  cr_ok_target :: "string \<Rightarrow> string"
  cr_ok_detail :: "string \<Rightarrow> string"

definition verb :: "kind \<Rightarrow> string \<Rightarrow> string" where
  "verb k v = k_base k @ ''/'' @ v @ k_noun k"

definition item :: "kind \<Rightarrow> string \<Rightarrow> string \<Rightarrow> string" where
  "item k v uuid = verb k v @ ''/'' @ uuid"

section \<open>Operations\<close>

text \<open>
  \<^verbatim>\<open>_record\<close>: a line the log refuses is dropped. The timer of an operation is read only after its
  \<^verbatim>\<open>with\<close> block, so every error line is written with duration 0.
\<close>

definition record_line ::
  "crud_writer \<Rightarrow> string \<Rightarrow> string \<Rightarrow> string \<Rightarrow> int \<Rightarrow> string \<Rightarrow> string \<Rightarrow> audit_entry io" where
  "record_line w act target rslt dur detail sha =
     bnd (entry_now (cw_actor w) act target (cw_host w) rslt dur detail sha) (\<lambda>a.
     try_else (audit_append a) is_os (\<lambda>_. ret a) (\<lambda>_. ret a))"

definition rolled_back :: "kind \<Rightarrow> exn \<Rightarrow> string" where
  "rolled_back k e = k_word k @ '' failed '' @ arrow @ '' rolled back: '' @ exn_str e"

text \<open>A create: what follows the acknowledged add, then the whole body.\<close>

definition finish_create ::
  "hsync option io \<Rightarrow> crud_writer \<Rightarrow> kind \<Rightarrow> creation \<Rightarrow> int \<Rightarrow> string \<Rightarrow> crud_result io" where
  "finish_create observe w k q t0 uuid =
     (let act = k_name k @ ''.create''; c = cw_client w in
      try_else (client_post c (k_apply k) []) is_opn
        (\<lambda>e. bnd (try_else (client_post c (item k ''del'' uuid) []) is_opn (\<lambda>_. ret ()) (\<lambda>_. ret ())) (\<lambda>_.
             bnd (record_line w act (cr_label q) ''error'' 0 (rolled_back k e) []) (\<lambda>_.
             ret (failed [] (rolled_back k e)))))
        (\<lambda>_. bnd now_ms (\<lambda>t1.
             bnd observe (\<lambda>s.
             bnd (record_line w act (cr_ok_target q uuid) ''ok'' (t1 - t0) (cr_ok_detail q uuid)
                    (hash_payload (JObj (cr_payload q)))) (\<lambda>a.
             ret (succeeded uuid s a))))))"

definition crud_create :: "hsync option io \<Rightarrow> crud_writer \<Rightarrow> kind \<Rightarrow> creation \<Rightarrow> crud_result io" where
  "crud_create observe w k q =
     (let act = k_name k @ ''.create''; c = cw_client w in
      bnd now_ms (\<lambda>t0.
      try_else (client_post c (verb k ''add'') (cr_payload q)) is_opn
        (\<lambda>e. bnd (record_line w act (cr_add_label q) ''error'' 0 (exn_str e) []) (\<lambda>_.
             ret (failed [] (exn_str e))))
        (\<lambda>resp. case resp of
           JObj d \<Rightarrow>
             (let uuid = py_str (dget_or resp ''uuid'' (JStr [])) in
              if uuid = [] then
                bnd (record_line w act (cr_label q) ''error'' 0 ''no uuid in response'' []) (\<lambda>_.
                ret (failed [] ''OPNsense did not return uuid''))
              else finish_create observe w k q t0 uuid)
         | _ \<Rightarrow> raise (AttrErr ''object has no attribute get''))))"

text \<open>The body of \<^verbatim>\<open>update\<close> and \<^verbatim>\<open>delete\<close>: the answers are not looked at.\<close>

definition crud_change ::
  "hsync option io \<Rightarrow> crud_writer \<Rightarrow> kind \<Rightarrow> string \<Rightarrow> string \<Rightarrow> string \<Rightarrow> obj \<Rightarrow> string \<Rightarrow> string \<Rightarrow> crud_result io" where
  "crud_change observe w k act v uuid payload detail sha =
     bnd now_ms (\<lambda>t0.
     try_else (bnd (client_post (cw_client w) (item k v uuid) payload) (\<lambda>_.
               client_post (cw_client w) (k_apply k) [])) is_opn
       (\<lambda>e. bnd (record_line w (k_name k @ ''.'' @ act) uuid ''error'' 0 (exn_str e) []) (\<lambda>_.
            ret (failed uuid (exn_str e))))
       (\<lambda>_. bnd now_ms (\<lambda>t1.
            bnd observe (\<lambda>s.
            bnd (record_line w (k_name k @ ''.'' @ act) uuid ''ok'' (t1 - t0) detail sha) (\<lambda>a.
            ret (succeeded uuid s a))))))"

definition crud_update :: "hsync option io \<Rightarrow> crud_writer \<Rightarrow> kind \<Rightarrow> string \<Rightarrow> obj \<Rightarrow> string \<Rightarrow> crud_result io" where
  "crud_update observe w k uuid payload detail =
     crud_change observe w k ''update'' ''set'' uuid payload detail (hash_payload (JObj payload))"

definition crud_delete :: "hsync option io \<Rightarrow> crud_writer \<Rightarrow> kind \<Rightarrow> string \<Rightarrow> crud_result io" where
  "crud_delete observe w k uuid = crud_change observe w k ''delete'' ''del'' uuid [] [] []"

text \<open>\<^verbatim>\<open>out.get("rows", []) if isinstance(out, dict) else []\<close>.\<close>

definition rows_of :: "json \<Rightarrow> json" where
  "rows_of out = (case out of JObj d \<Rightarrow> dget_or out ''rows'' (JArr []) | _ \<Rightarrow> JArr [])"

definition crud_search :: "crud_writer \<Rightarrow> string \<Rightarrow> string \<Rightarrow> json io" where
  "crud_search w path phrase =
     bnd (client_get (cw_client w) path (if phrase = [] then [] else [(''searchPhrase'', JStr phrase)]))
       (\<lambda>out. ret (rows_of out))"

definition crud_get :: "crud_writer \<Rightarrow> kind \<Rightarrow> string \<Rightarrow> json io" where
  "crud_get w k uuid = client_get (cw_client w) (item k ''get'' uuid) []"

fun is_value :: "exn \<Rightarrow> bool" where
  "is_value (ValueErr _) = True"
| "is_value _ = False"

lemma is_value_opn: "is_opn e \<Longrightarrow> \<not> is_value e"
  by (cases e) auto

section \<open>What a life-cycle operation does, for any observer\<close>

text \<open>The line an operation ends with, whether or not the log took it.\<close>

definition final_line :: "crud_writer \<Rightarrow> string \<Rightarrow> string \<Rightarrow> trace \<Rightarrow> bool" where
  "final_line w act rslt es = (\<exists>xs a lg. es = xs @ [AuditEv a lg] \<and> audit_lines xs = [] \<and>
     ae_user a = cw_actor w \<and> ae_action a = act \<and> ae_host a = cw_host w \<and> ae_result a = rslt \<and>
     (rslt = ''error'' \<longrightarrow> ae_duration_ms a = 0))"

lemma record_line_runs:
  "runs (record_line w act target rslt dur detail sha) (\<lambda>r es. \<exists>a lg. r = Inr a \<and> es = [AuditEv a lg] \<and>
     entry_of (cw_actor w) act target (cw_host w) rslt detail sha a \<and> ae_duration_ms a = dur)"
  unfolding record_line_def
proof (rule runs_bnd [OF runs_entry_now [where Q = "\<lambda>r es. es = [] \<and> (\<exists>a. r = Inr a \<and>
    entry_of (cw_actor w) act target (cw_host w) rslt detail sha a \<and> ae_duration_ms a = dur)"]], goal_cases)
  case (3 a es)
  show ?case
    by (rule runs_try_else [OF runs_audit_append [where Q = "\<lambda>x es. case x of
        Inr _ \<Rightarrow> es = [AuditEv a None] | Inl e \<Rightarrow> \<exists>msg. e = OSErr msg \<and> es = [AuditEv a (Some msg)]"]])
      (use 3 in auto)
qed auto

definition hit :: "crud_writer \<Rightarrow> string \<Rightarrow> host \<times> string" where
  "hit w p = (c_host (cw_client w), url_path p)"

lemma post_runs:
  "runs (client_post c p d) (\<lambda>r es. targets es = [(c_host c, url_path p)] \<and> audit_lines es = [] \<and>
     (\<forall>e. r = Inl e \<longrightarrow> is_opn e) \<and> (\<forall>d. first_answer es d \<longleftrightarrow> r = Inr (JObj d)))"
  by (rule runs_client_post) (auto simp: first_answer_posted, auto simp: posted_def dest: post_result_opn)

text \<open>The UUID in the firewall's answer to the first mutating request, as its text.\<close>

definition answered_id :: "trace \<Rightarrow> string \<Rightarrow> bool" where
  "answered_id es u = (\<exists>d v. first_answer es d \<and> map_of d ''uuid'' = Some v \<and> u = py_str v \<and> u \<noteq> [])"

lemma answered_id_nonempty: "answered_id es u \<Longrightarrow> u \<noteq> []"
  by (auto simp: answered_id_def)

lemma final_lineI:
  "audit_lines xs = [] \<Longrightarrow> entry_of (cw_actor w) act target (cw_host w) rslt detail sha a \<Longrightarrow>
   (rslt = ''error'' \<longrightarrow> ae_duration_ms a = 0) \<Longrightarrow> final_line w act rslt (xs @ [AuditEv a lg])"
  by (auto simp: final_line_def entry_of_def)

lemma final_line_prepend [intro]:
  "audit_lines xs = [] \<Longrightarrow> final_line w act rslt es \<Longrightarrow> final_line w act rslt (xs @ es)"
  unfolding final_line_def by (metis append.assoc append_Nil audit_lines_append)

lemma now_nothing: "runs now_ms (\<lambda>r es. (\<exists>t. r = Inr t) \<and> es = [])"
  by (rule runs_now_ms) auto

text \<open>Recording an outcome and returning it.\<close>

lemma record_then:
  assumes "targets es = ts" "audit_lines es = []" "rslt = ''error'' \<longrightarrow> dur = 0"
    and "\<And>a lg es'. final_line w act rslt es' \<Longrightarrow> targets es' = ts \<Longrightarrow> P (Inr (f a)) es'"
  shows "runs (bnd (record_line w act target rslt dur detail sha) (\<lambda>a. ret (f a))) (\<lambda>r es'. P r (es @ es'))"
  by (rule runs_bnd [OF record_line_runs]) (use assms in \<open>auto intro!: assms(4) final_lineI\<close>)

lemma record_final:
  assumes "rslt = ''error'' \<longrightarrow> dur = 0"
    and "\<And>a es'. final_line w act rslt es' \<Longrightarrow> targets es' = [] \<Longrightarrow> P (Inr (f a)) es'"
  shows "runs (bnd (record_line w act target rslt dur detail sha) (\<lambda>a. ret (f a))) P"
  using record_then [of "[]" "[]" rslt dur w act P f target detail sha] assms by simp

text \<open>
  The outcome of a create and of a change, when the observer may send \<open>may_send\<close>. A create that returns a
  failure leaves nothing behind: either the add was not answered with a UUID, or a delete of the object of that UUID was
  sent. It raises when the answer is no object, or when the observer does: then the operation is done and unrecorded.
\<close>

definition created :: "crud_writer \<Rightarrow> kind \<Rightarrow> target list \<Rightarrow> crud_result res \<Rightarrow> trace \<Rightarrow> bool" where
  "created w k may_send r es =
     ((\<forall>e. r = Inl e \<longrightarrow> \<not> is_value e \<and> audit_lines es = [] \<and>
        (\<not> is_opn e \<and> targets es = [hit w (verb k ''add'')] \<and> (\<forall>d. \<not> first_answer es d) \<or>
         is_opn e \<and> (\<exists>u. answered_id es u) \<and>
           (\<exists>ts. prefix ts may_send \<and> targets es = [hit w (verb k ''add''), hit w (k_apply k)] @ ts))) \<and>
     (\<forall>x. r = Inr x \<longrightarrow>
        final_line w (k_name k @ ''.create'') (if lr_ok x then ''ok'' else ''error'') es \<and>
        (if lr_ok x then answered_id es (lr_uuid x) \<and>
           (\<exists>ts. prefix ts may_send \<and> targets es = [hit w (verb k ''add''), hit w (k_apply k)] @ ts)
         else targets es = [hit w (verb k ''add'')] \<and> (\<forall>u. \<not> answered_id es u) \<or>
           (\<exists>u. answered_id es u \<and>
              targets es = [hit w (verb k ''add''), hit w (k_apply k), hit w (item k ''del'' u)]))))"

definition changed ::
  "crud_writer \<Rightarrow> kind \<Rightarrow> string \<Rightarrow> string \<Rightarrow> string \<Rightarrow> target list \<Rightarrow> crud_result res \<Rightarrow> trace \<Rightarrow> bool" where
  "changed w k act v uuid may_send r es =
     ((\<forall>e. r = Inl e \<longrightarrow> is_opn e \<and> audit_lines es = [] \<and>
        (\<exists>ts. prefix ts may_send \<and> targets es = [hit w (item k v uuid), hit w (k_apply k)] @ ts)) \<and>
     (\<forall>x. r = Inr x \<longrightarrow> lr_uuid x = uuid \<and>
        final_line w (k_name k @ ''.'' @ act) (if lr_ok x then ''ok'' else ''error'') es \<and>
        (if lr_ok x then \<exists>ts. prefix ts may_send \<and> targets es = [hit w (item k v uuid), hit w (k_apply k)] @ ts
         else targets es \<noteq> [] \<and> prefix (targets es) [hit w (item k v uuid), hit w (k_apply k)])))"

text \<open>The observer of the CRUD writers returns a sync result, if it has a peer to ask.\<close>

locale crud_observer = observer observe may_send
  for observe :: "hsync option io" and may_send :: "target list"
begin

text \<open>An update or delete is sent, applied, observed, and recorded once; an exception of the observer
  leaves it applied and unrecorded.\<close>

lemma crud_change_runs:
  "runs (crud_change observe w k act v uuid payload detail sha) (changed w k act v uuid may_send)"
    (is "runs _ ?Q")
  unfolding crud_change_def
proof (rule runs_bnd [OF now_nothing], goal_cases)
  case (2 t0 es)
  then have [simp]: "es = []" by simp
  have both: "runs (bnd (client_post (cw_client w) (item k v uuid) payload) (\<lambda>_. client_post (cw_client w) (k_apply k) []))
      (\<lambda>r es. audit_lines es = [] \<and> targets es \<noteq> [] \<and> prefix (targets es) [hit w (item k v uuid), hit w (k_apply k)] \<and>
         (\<forall>e. r = Inl e \<longrightarrow> is_opn e) \<and> (\<forall>x. r = Inr x \<longrightarrow> targets es = [hit w (item k v uuid), hit w (k_apply k)]))"
    by (rule runs_bnd [OF post_runs]) (auto intro!: runs_conseq [OF post_runs] simp: hit_def)
  show ?case
  proof (rule runs_try_else [OF both], goal_cases)
    case (2 e es1)
    then show ?case
      by (intro record_then [where P = "\<lambda>r es'. ?Q r (es @ es')"]) (auto simp: failed_def changed_def)
  next
    case (3 x es1)
    note sent = 3
    show ?case
    proof (rule runs_bnd [OF now_nothing], goal_cases)
      case (2 t1 es2)
      then have [simp]: "es2 = []" by simp
      show ?case
      proof (rule runs_bnd [OF observe_law], goal_cases)
        case (1 e es3) with sent show ?case by (auto simp: changed_def)
      next
        case (2 s es3)
        with sent show ?case
          by (intro record_then [where P = "\<lambda>r es'. ?Q r (es @ es1 @ es2 @ es')" and es = es3]) (auto simp: succeeded_def changed_def)
      qed
    qed auto
  qed auto
qed auto

lemma finish_create_runs:
  "runs (finish_create observe w k q t0 u) (\<lambda>r es.
     (\<forall>e. r = Inl e \<longrightarrow> is_opn e \<and> audit_lines es = [] \<and> (\<exists>ts. prefix ts may_send \<and> targets es = [hit w (k_apply k)] @ ts)) \<and>
     (\<forall>x. r = Inr x \<longrightarrow>
        final_line w (k_name k @ ''.create'') (if lr_ok x then ''ok'' else ''error'') es \<and>
        (if lr_ok x then lr_uuid x = u \<and> (\<exists>ts. prefix ts may_send \<and> targets es = [hit w (k_apply k)] @ ts)
         else targets es = [hit w (k_apply k), hit w (item k ''del'' u)])))"
    (is "runs _ ?Q")
  unfolding finish_create_def Let_def
proof (rule runs_try_else [OF post_runs], goal_cases)
  case (2 e es1)
  have del: "runs (try_else (client_post (cw_client w) (item k ''del'' u) []) is_opn (\<lambda>_. ret ()) (\<lambda>_. ret ()))
      (\<lambda>r es. targets es = [hit w (item k ''del'' u)] \<and> audit_lines es = [] \<and> r = Inr ())"
    by (rule runs_try_else [OF post_runs]) (auto simp: hit_def)
  show ?case
  proof (rule runs_bnd [OF del], goal_cases)
    case (2 x es2)
    with \<open>targets es1 = _ \<and> _\<close> show ?case
      by (intro record_then [where P = "\<lambda>r es'. ?Q r (es1 @ es')"]) (auto simp: failed_def hit_def)
  qed auto
next
  case (3 x es1)
  note sent = 3
  show ?case
  proof (rule runs_bnd [OF now_nothing], goal_cases)
    case (2 t1 es2)
    then have [simp]: "es2 = []" by simp
    show ?case
    proof (rule runs_bnd [OF observe_law], goal_cases)
      case (1 e es3) with sent show ?case by (auto simp: hit_def)
    next
      case (2 s es3)
      with sent show ?case
        by (intro record_then [where P = "\<lambda>r es'. ?Q r (es1 @ es2 @ es')"]) (auto simp: succeeded_def hit_def)
    qed
  qed auto
qed auto

lemma crud_create_runs: "runs (crud_create observe w k q) (created w k may_send)"
    (is "runs _ ?Q")
  unfolding crud_create_def Let_def
proof (rule runs_bnd [OF now_nothing], goal_cases)
  case (2 t0 es)
  then have [simp]: "es = []" by simp
  show ?case
  proof (rule runs_try_else [OF post_runs], goal_cases)
    case (2 e es1)
    then have add: "targets es1 = [hit w (verb k ''add'')]" "audit_lines es1 = []" "\<And>d. \<not> first_answer es1 d"
      by (auto simp: hit_def)
    have "\<not> answered_id (es1 @ es') u" for es' u
      using add by (simp add: answered_id_def first_answer_app)
    with add show ?case
      by (intro record_final) (auto simp: failed_def created_def)
  next
    case (3 resp es1)
    then have add: "targets es1 = [hit w (verb k ''add'')]" "audit_lines es1 = []"
      and ans: "first_answer (es1 @ es') d \<longleftrightarrow> resp = JObj d" for es' d
      by (auto simp: hit_def first_answer_app)
    let ?u = "py_str (dget_or resp ''uuid'' (JStr []))"
    have ids: "answered_id (es1 @ es') u \<longleftrightarrow> (\<exists>d. resp = JObj d) \<and> u = ?u \<and> u \<noteq> []" for es' u
      unfolding answered_id_def ans by (cases resp) (auto simp: dget_or_def split: option.split)
    have none: "runs (bnd (record_line w (k_name k @ ''.create'') (cr_label q) ''error'' 0 ''no uuid in response'' [])
        (\<lambda>_. ret (failed [] ''OPNsense did not return uuid''))) (\<lambda>r es'. ?Q r (es @ es1 @ es'))" if "?u = []"
      using add ids that
      by (intro record_final) (auto simp: failed_def created_def)
    have "runs (finish_create observe w k q t0 ?u) (\<lambda>r es'. ?Q r (es @ es1 @ es'))" if "?u \<noteq> []" "resp = JObj d" for d
      by (rule runs_conseq [OF finish_create_runs])
        (use that add ids in \<open>auto simp: created_def is_value_opn split: if_splits\<close>)
    with none add ans [of "[]"] show ?case
      by (cases resp) (auto simp: Let_def created_def)
  qed (use 2 in auto)
qed auto

end

end
