(* ===== verification/Legacy_Kinds.thy ===== *)
theory Legacy_Kinds
  imports Legacy
begin

text \<open>
  The ten unverified writers, as instances of the shared life cycle: each class with its input, its
  payload, its validation and its operations, in the order of the files under \<^verbatim>\<open>src/writers\<close>.
\<close>

interpretation crud: crud_observer "maybe_sync h path" "maybe_targets h" for h path
  by (rule crud_observer.intro) (rule robust.observer_axioms)

definition flag :: "bool \<Rightarrow> json" where
  "flag b = JStr (if b then ''1'' else ''0'')"

definition or_else :: "string \<Rightarrow> string \<Rightarrow> string" where
  "or_else s t = (if s = [] then t else s)"

definition observer_of :: "crud_writer \<Rightarrow> kind \<Rightarrow> hsync option io" where
  "observer_of w k = maybe_sync (cw_ha w) (k_search k)"

definition must :: "bool \<Rightarrow> string \<Rightarrow> unit res" where
  "must ok msg = (if ok then Inr () else Inl (ValueErr msg))"

section \<open>Firewall aliases\<close>

record alias_input =
  al_name :: string
  al_type :: string
  al_content :: string
  al_description :: string
  al_enabled :: bool
  al_proto :: string

definition alias_kind :: kind where
  "alias_kind = \<lparr>k_name = ''alias'', k_base = ''/api/firewall/alias'', k_noun = ''Item'',
     k_search = ''/api/firewall/alias/searchItem'', k_apply = ''/api/firewall/alias/reconfigure'',
     k_word = ''reconfigure''\<rparr>"

definition alias_payload :: "alias_input \<Rightarrow> obj" where
  "alias_payload p = [(''alias'', JObj [(''name'', JStr (al_name p)), (''type'', JStr (al_type p)),
     (''content'', JStr (al_content p)), (''description'', JStr (al_description p)),
     (''enabled'', flag (al_enabled p)), (''proto'', JStr (al_proto p))])]"

definition alias_creation :: "alias_input \<Rightarrow> creation" where
  "alias_creation p = \<lparr>cr_payload = alias_payload p, cr_add_label = al_name p, cr_label = al_name p,
     cr_ok_target = (\<lambda>u. al_name p), cr_ok_detail = (\<lambda>u. ''uuid='' @ u)\<rparr>"

definition alias_create :: "crud_writer \<Rightarrow> alias_input \<Rightarrow> crud_result io" where
  "alias_create w p = crud_create (observer_of w alias_kind) w alias_kind (alias_creation p)"

definition alias_update :: "crud_writer \<Rightarrow> string \<Rightarrow> alias_input \<Rightarrow> crud_result io" where
  "alias_update w uuid p = crud_update (observer_of w alias_kind) w alias_kind uuid (alias_payload p) (al_name p)"

definition alias_delete :: "crud_writer \<Rightarrow> string \<Rightarrow> crud_result io" where
  "alias_delete w uuid = crud_delete (observer_of w alias_kind) w alias_kind uuid"

definition alias_search :: "crud_writer \<Rightarrow> string \<Rightarrow> json io" where
  "alias_search w phrase = crud_search w (k_search alias_kind) phrase"

definition alias_get :: "crud_writer \<Rightarrow> string \<Rightarrow> json io" where
  "alias_get w uuid = crud_get w alias_kind uuid"

section \<open>Filter rules\<close>

record rule_input =
  ru_interface :: string
  ru_action :: string
  ru_direction :: string
  ru_ipprotocol :: string
  ru_protocol :: string
  ru_source_net :: string
  ru_source_port :: string
  ru_destination_net :: string
  ru_destination_port :: string
  ru_description :: string
  ru_enabled :: bool
  ru_sequence :: int

definition rule_kind :: kind where
  "rule_kind = \<lparr>k_name = ''rule'', k_base = ''/api/firewall/filter'', k_noun = ''Rule'',
     k_search = ''/api/firewall/filter/searchRule'', k_apply = ''/api/firewall/filter/apply'', k_word = ''apply''\<rparr>"

definition rule_payload :: "rule_input \<Rightarrow> obj" where
  "rule_payload p = [(''rule'', JObj [(''enabled'', flag (ru_enabled p)),
     (''sequence'', JStr (int_str (ru_sequence p))), (''action'', JStr (ru_action p)),
     (''direction'', JStr (ru_direction p)), (''ipprotocol'', JStr (ru_ipprotocol p)),
     (''protocol'', JStr (ru_protocol p)), (''source_net'', JStr (ru_source_net p)),
     (''source_port'', JStr (ru_source_port p)), (''destination_net'', JStr (ru_destination_net p)),
     (''destination_port'', JStr (ru_destination_port p)), (''interface'', JStr (ru_interface p)),
     (''description'', JStr (ru_description p))])]"

text \<open>The text of a tuple of names in an error message.\<close>

definition names_repr :: "string list \<Rightarrow> string" where
  "names_repr ns = ''('' @ join '', '' (map repr_str ns) @ '')''"

definition one_of :: "string \<Rightarrow> string list \<Rightarrow> string \<Rightarrow> unit res" where
  "one_of field ns v = must (v \<in> set ns) (field @ '' must be one of '' @ names_repr ns @ '', got '' @ repr_str v)"

definition rule_validate :: "rule_input \<Rightarrow> unit res" where
  "rule_validate p =
     rbnd (one_of ''action'' [''pass'', ''block'', ''reject''] (ru_action p)) (\<lambda>_.
     rbnd (one_of ''direction'' [''in'', ''out''] (ru_direction p)) (\<lambda>_.
     rbnd (one_of ''ipprotocol'' [''inet'', ''inet6'', ''inet46''] (ru_ipprotocol p)) (\<lambda>_.
     must (ru_interface p \<noteq> []) ''interface is required'')))"

definition rule_creation :: "rule_input \<Rightarrow> creation" where
  "rule_creation p = \<lparr>cr_payload = rule_payload p, cr_add_label = or_else (ru_description p) (ru_interface p),
     cr_label = ru_interface p, cr_ok_target = (\<lambda>u. u), cr_ok_detail = (\<lambda>u. ru_description p)\<rparr>"

definition rule_create :: "crud_writer \<Rightarrow> rule_input \<Rightarrow> crud_result io" where
  "rule_create w p = bnd (of_res (rule_validate p)) (\<lambda>_.
     crud_create (observer_of w rule_kind) w rule_kind (rule_creation p))"

definition rule_update :: "crud_writer \<Rightarrow> string \<Rightarrow> rule_input \<Rightarrow> crud_result io" where
  "rule_update w uuid p = bnd (of_res (rule_validate p)) (\<lambda>_.
     crud_update (observer_of w rule_kind) w rule_kind uuid (rule_payload p) [])"

definition rule_delete :: "crud_writer \<Rightarrow> string \<Rightarrow> crud_result io" where
  "rule_delete w uuid = crud_delete (observer_of w rule_kind) w rule_kind uuid"

definition rule_search :: "crud_writer \<Rightarrow> string \<Rightarrow> json io" where
  "rule_search w phrase = crud_search w (k_search rule_kind) phrase"

definition rule_get :: "crud_writer \<Rightarrow> string \<Rightarrow> json io" where
  "rule_get w uuid = crud_get w rule_kind uuid"

section \<open>Source NAT\<close>

record nat_input =
  na_interface :: string
  na_target :: string
  na_source_net :: string
  na_destination_net :: string
  na_description :: string
  na_enabled :: bool
  na_ipprotocol :: string
  na_protocol :: string

definition nat_kind :: kind where
  "nat_kind = \<lparr>k_name = ''nat'', k_base = ''/api/firewall/source_nat'', k_noun = ''Rule'',
     k_search = ''/api/firewall/source_nat/searchRule'', k_apply = ''/api/firewall/source_nat/apply'', k_word = ''apply''\<rparr>"

definition nat_payload :: "nat_input \<Rightarrow> obj" where
  "nat_payload p = [(''rule'', JObj [(''disabled'', flag (\<not> na_enabled p)), (''interface'', JStr (na_interface p)),
     (''ipprotocol'', JStr (na_ipprotocol p)), (''protocol'', JStr (na_protocol p)),
     (''source_net'', JStr (na_source_net p)), (''destination_net'', JStr (na_destination_net p)),
     (''target'', JStr (na_target p)), (''description'', JStr (na_description p))])]"

definition nat_validate :: "nat_input \<Rightarrow> unit res" where
  "nat_validate p =
     rbnd (must (na_interface p \<noteq> []) ''interface is required'') (\<lambda>_.
     rbnd (must (na_target p \<noteq> []) ''target is required (IP or alias)'') (\<lambda>_.
     must (na_ipprotocol p \<in> set [''inet'', ''inet6''])
       (''ipprotocol must be inet|inet6, got '' @ repr_str (na_ipprotocol p))))"

definition nat_creation :: "nat_input \<Rightarrow> creation" where
  "nat_creation p = \<lparr>cr_payload = nat_payload p, cr_add_label = or_else (na_description p) (na_interface p),
     cr_label = na_interface p, cr_ok_target = (\<lambda>u. u), cr_ok_detail = (\<lambda>u. na_description p)\<rparr>"

definition nat_create :: "crud_writer \<Rightarrow> nat_input \<Rightarrow> crud_result io" where
  "nat_create w p = bnd (of_res (nat_validate p)) (\<lambda>_.
     crud_create (observer_of w nat_kind) w nat_kind (nat_creation p))"

definition nat_update :: "crud_writer \<Rightarrow> string \<Rightarrow> nat_input \<Rightarrow> crud_result io" where
  "nat_update w uuid p = bnd (of_res (nat_validate p)) (\<lambda>_.
     crud_update (observer_of w nat_kind) w nat_kind uuid (nat_payload p) [])"

definition nat_delete :: "crud_writer \<Rightarrow> string \<Rightarrow> crud_result io" where
  "nat_delete w uuid = crud_delete (observer_of w nat_kind) w nat_kind uuid"

definition nat_search :: "crud_writer \<Rightarrow> string \<Rightarrow> json io" where
  "nat_search w phrase = crud_search w (k_search nat_kind) phrase"

definition nat_get :: "crud_writer \<Rightarrow> string \<Rightarrow> json io" where
  "nat_get w uuid = crud_get w nat_kind uuid"

section \<open>One-to-one NAT\<close>

record oto_input =
  oo_interface :: string
  oo_external :: string
  oo_source_net :: string
  oo_destination_net :: string
  oo_description :: string
  oo_enabled :: bool
  oo_type :: string
  oo_log :: bool
  oo_sequence :: string

definition oto_kind :: kind where
  "oto_kind = \<lparr>k_name = ''one_to_one'', k_base = ''/api/firewall/one_to_one'', k_noun = ''Rule'',
     k_search = ''/api/firewall/one_to_one/searchRule'', k_apply = ''/api/firewall/one_to_one/apply'', k_word = ''apply''\<rparr>"

definition oto_payload :: "oto_input \<Rightarrow> obj" where
  "oto_payload p = [(''rule'', JObj [(''enabled'', flag (oo_enabled p)), (''log'', flag (oo_log p)),
     (''sequence'', JStr (oo_sequence p)), (''interface'', JStr (oo_interface p)), (''type'', JStr (oo_type p)),
     (''source_net'', JStr (oo_source_net p)), (''source_not'', JStr ''0''),
     (''destination_net'', JStr (oo_destination_net p)), (''destination_not'', JStr ''0''),
     (''external'', JStr (oo_external p)), (''description'', JStr (oo_description p))])]"

definition oto_validate :: "oto_input \<Rightarrow> unit res" where
  "oto_validate p =
     rbnd (must (oo_interface p \<noteq> []) ''interface is required'') (\<lambda>_.
     rbnd (must (oo_external p \<noteq> []) ''external IP/alias is required'') (\<lambda>_.
     rbnd (must (oo_source_net p \<noteq> []) ''source_net (internal IP/alias) is required'') (\<lambda>_.
     must (oo_type p \<in> set [''binat'', ''nat'']) (''type must be binat|nat, got '' @ repr_str (oo_type p)))))"

definition oto_creation :: "oto_input \<Rightarrow> creation" where
  "oto_creation p = \<lparr>cr_payload = oto_payload p, cr_add_label = or_else (oo_description p) (oo_interface p),
     cr_label = oo_interface p, cr_ok_target = (\<lambda>u. u), cr_ok_detail = (\<lambda>u. oo_description p)\<rparr>"

definition oto_create :: "crud_writer \<Rightarrow> oto_input \<Rightarrow> crud_result io" where
  "oto_create w p = bnd (of_res (oto_validate p)) (\<lambda>_.
     crud_create (observer_of w oto_kind) w oto_kind (oto_creation p))"

definition oto_delete :: "crud_writer \<Rightarrow> string \<Rightarrow> crud_result io" where
  "oto_delete w uuid = crud_delete (observer_of w oto_kind) w oto_kind uuid"

definition oto_search :: "crud_writer \<Rightarrow> string \<Rightarrow> json io" where
  "oto_search w phrase = crud_search w (k_search oto_kind) phrase"

definition oto_get :: "crud_writer \<Rightarrow> string \<Rightarrow> json io" where
  "oto_get w uuid = crud_get w oto_kind uuid"

section \<open>WireGuard peers\<close>

record wg_input =
  wg_name :: string
  wg_pubkey :: string
  wg_tunneladdress :: string
  wg_keepalive :: int
  wg_psk :: string
  wg_enabled :: bool

definition wg_kind :: kind where
  "wg_kind = \<lparr>k_name = ''wgpeer'', k_base = ''/api/wireguard/client'', k_noun = ''Client'',
     k_search = ''/api/wireguard/client/searchClient'', k_apply = ''/api/wireguard/service/reconfigure'', k_word = ''apply''\<rparr>"

definition wg_payload :: "wg_input \<Rightarrow> obj" where
  "wg_payload p = [(''client'', JObj ([(''enabled'', flag (wg_enabled p)), (''name'', JStr (wg_name p)),
     (''pubkey'', JStr (wg_pubkey p)), (''tunneladdress'', JStr (wg_tunneladdress p)),
     (''keepalive'', JStr (int_str (wg_keepalive p)))] @
     (if wg_psk p = [] then [] else [(''psk'', JStr (wg_psk p))])))]"

definition wg_validate :: "wg_input \<Rightarrow> unit res" where
  "wg_validate p =
     rbnd (must (wg_name p \<noteq> []) ''name is required'') (\<lambda>_.
     rbnd (must (wg_pubkey p \<noteq> [] \<and> py_len (wg_pubkey p) = 44 \<and> last (wg_pubkey p) = CHR ''='')
       ''pubkey must be a 44-char base64-encoded WireGuard public key'') (\<lambda>_.
     rbnd (must (wg_tunneladdress p \<noteq> [] \<and> CHR ''/'' \<in> set (wg_tunneladdress p))
       ''tunneladdress must be CIDR (e.g. 10.99.0.5/32)'') (\<lambda>_.
     must (0 \<le> wg_keepalive p \<and> wg_keepalive p \<le> 65535) ''keepalive must be 0..65535 seconds'')))"

definition wg_creation :: "wg_input \<Rightarrow> creation" where
  "wg_creation p = \<lparr>cr_payload = wg_payload p, cr_add_label = or_else (wg_name p) ''?'',
     cr_label = wg_name p, cr_ok_target = (\<lambda>u. u), cr_ok_detail = (\<lambda>u. wg_name p)\<rparr>"

definition wg_create :: "crud_writer \<Rightarrow> wg_input \<Rightarrow> crud_result io" where
  "wg_create w p = bnd (of_res (wg_validate p)) (\<lambda>_.
     crud_create (observer_of w wg_kind) w wg_kind (wg_creation p))"

definition wg_delete :: "crud_writer \<Rightarrow> string \<Rightarrow> crud_result io" where
  "wg_delete w uuid = crud_delete (observer_of w wg_kind) w wg_kind uuid"

definition wg_get :: "crud_writer \<Rightarrow> string \<Rightarrow> json io" where
  "wg_get w uuid = crud_get w wg_kind uuid"

text \<open>Some builds expose the search as a POST; the phrase is not used.\<close>

definition wg_search :: "crud_writer \<Rightarrow> json io" where
  "wg_search w = bnd (try_else (client_get (cw_client w) (k_search wg_kind) []) is_opn
       (\<lambda>_. client_post (cw_client w) (k_search wg_kind) []) ret) (\<lambda>out. ret (rows_of out))"

section \<open>DHCP reservations and subnets\<close>

text \<open>
  \<^verbatim>\<open>^(?:\d{1,3}\.){3}\d{1,3}$\<close> and the like: \<^verbatim>\<open>$\<close> also matches before one final newline.
\<close>

definition chop_newline :: "string \<Rightarrow> string" where
  "chop_newline s = (if s \<noteq> [] \<and> last s = CHR 0x0A then butlast s else s)"

definition digits_1_3 :: "string \<Rightarrow> bool" where
  "digits_1_3 s = (isdigit s \<and> length s \<le> 3)"

definition ipv4_shape :: "string \<Rightarrow> bool" where
  "ipv4_shape s = (let ps = split_on (CHR ''.'') s in length ps = 4 \<and> list_all digits_1_3 ps)"

definition ipv4_re :: "string \<Rightarrow> bool" where
  "ipv4_re s = ipv4_shape (chop_newline s)"

definition cidr_re :: "string \<Rightarrow> bool" where
  "cidr_re s = (case split_on (CHR ''/'') (chop_newline s) of
      [a, m] \<Rightarrow> ipv4_shape a \<and> isdigit m \<and> length m \<le> 2 | _ \<Rightarrow> False)"

fun mac_groups :: "nat \<Rightarrow> string \<Rightarrow> bool" where
  "mac_groups 0 s = (s = [])"
| "mac_groups (Suc n) (sep # a # b # s) =
     ((sep = CHR '':'' \<or> sep = CHR ''-'') \<and> is_hex a \<and> is_hex b \<and> mac_groups n s)"
| "mac_groups (Suc n) _ = False"

definition mac_re :: "string \<Rightarrow> bool" where
  "mac_re s = (case chop_newline s of a # b # r \<Rightarrow> is_hex a \<and> is_hex b \<and> mac_groups 5 r | _ \<Rightarrow> False)"

record reservation_input =
  dr_subnet :: string
  dr_ip_address :: string
  dr_hw_address :: string
  dr_hostname :: string
  dr_description :: string

definition reservation_kind :: kind where
  "reservation_kind = \<lparr>k_name = ''dhcp_reservation'', k_base = ''/api/kea/dhcpv4'', k_noun = ''Reservation'',
     k_search = ''/api/kea/dhcpv4/searchReservation'', k_apply = ''/api/kea/service/reconfigure'', k_word = ''apply''\<rparr>"

definition reservation_payload :: "reservation_input \<Rightarrow> obj" where
  "reservation_payload p = [(''reservation'', JObj [(''subnet'', JStr (dr_subnet p)),
     (''ip_address'', JStr (dr_ip_address p)), (''hw_address'', JStr (dr_hw_address p)),
     (''hostname'', JStr (dr_hostname p)), (''description'', JStr (dr_description p))])]"

definition reservation_validate :: "reservation_input \<Rightarrow> unit res" where
  "reservation_validate p =
     rbnd (must (dr_subnet p \<noteq> []) ''subnet UUID is required'') (\<lambda>_.
     rbnd (must (ipv4_re (dr_ip_address p)) (''ip_address must be IPv4, got '' @ repr_str (dr_ip_address p))) (\<lambda>_.
     rbnd (must (mac_re (dr_hw_address p))
       (''hw_address must be MAC (XX:XX:XX:XX:XX:XX), got '' @ repr_str (dr_hw_address p))) (\<lambda>_.
     must (dr_hostname p \<noteq> []) ''hostname is required'')))"

definition reservation_creation :: "reservation_input \<Rightarrow> creation" where
  "reservation_creation p = \<lparr>cr_payload = reservation_payload p, cr_add_label = or_else (dr_hostname p) ''?'',
     cr_label = dr_hostname p, cr_ok_target = (\<lambda>u. u), cr_ok_detail = (\<lambda>u. dr_description p)\<rparr>"

definition reservation_create :: "crud_writer \<Rightarrow> reservation_input \<Rightarrow> crud_result io" where
  "reservation_create w p = bnd (of_res (reservation_validate p)) (\<lambda>_.
     crud_create (observer_of w reservation_kind) w reservation_kind (reservation_creation p))"

definition reservation_delete :: "crud_writer \<Rightarrow> string \<Rightarrow> crud_result io" where
  "reservation_delete w uuid = crud_delete (observer_of w reservation_kind) w reservation_kind uuid"

definition reservation_search :: "crud_writer \<Rightarrow> string \<Rightarrow> json io" where
  "reservation_search w phrase = crud_search w (k_search reservation_kind) phrase"

definition reservation_get :: "crud_writer \<Rightarrow> string \<Rightarrow> json io" where
  "reservation_get w uuid = crud_get w reservation_kind uuid"

record subnet_input =
  ds_subnet :: string
  ds_description :: string
  ds_pools :: string
  ds_next_server :: string
  ds_match_client_id :: bool

definition subnet_kind :: kind where
  "subnet_kind = \<lparr>k_name = ''dhcp_subnet'', k_base = ''/api/kea/dhcpv4'', k_noun = ''Subnet'',
     k_search = ''/api/kea/dhcpv4/searchSubnet'', k_apply = ''/api/kea/service/reconfigure'', k_word = ''apply''\<rparr>"

definition subnet_payload :: "subnet_input \<Rightarrow> obj" where
  "subnet_payload p = [(''subnet4'', JObj [(''subnet'', JStr (ds_subnet p)),
     (''description'', JStr (ds_description p)), (''pools'', JStr (ds_pools p)),
     (''next_server'', JStr (ds_next_server p)), (''match-client-id'', flag (ds_match_client_id p))])]"

definition subnet_validate :: "subnet_input \<Rightarrow> unit res" where
  "subnet_validate p = must (cidr_re (ds_subnet p))
     (''subnet must be IPv4 CIDR (e.g. 192.168.1.0/24), got '' @ repr_str (ds_subnet p))"

definition subnet_creation :: "subnet_input \<Rightarrow> creation" where
  "subnet_creation p = \<lparr>cr_payload = subnet_payload p, cr_add_label = or_else (ds_subnet p) ''?'',
     cr_label = ds_subnet p, cr_ok_target = (\<lambda>u. u), cr_ok_detail = (\<lambda>u. ds_description p)\<rparr>"

definition subnet_create :: "crud_writer \<Rightarrow> subnet_input \<Rightarrow> crud_result io" where
  "subnet_create w p = bnd (of_res (subnet_validate p)) (\<lambda>_.
     crud_create (observer_of w subnet_kind) w subnet_kind (subnet_creation p))"

definition subnet_delete :: "crud_writer \<Rightarrow> string \<Rightarrow> crud_result io" where
  "subnet_delete w uuid = crud_delete (observer_of w subnet_kind) w subnet_kind uuid"

definition subnet_search :: "crud_writer \<Rightarrow> string \<Rightarrow> json io" where
  "subnet_search w phrase = crud_search w (k_search subnet_kind) phrase"

definition subnet_get :: "crud_writer \<Rightarrow> string \<Rightarrow> json io" where
  "subnet_get w uuid = crud_get w subnet_kind uuid"

section \<open>Unbound overrides\<close>

record host_override_input =
  uh_hostname :: string
  uh_domain :: string
  uh_server :: string
  uh_rr :: string
  uh_description :: string
  uh_enabled :: bool

definition host_override_kind :: kind where
  "host_override_kind = \<lparr>k_name = ''unbound'', k_base = ''/api/unbound/settings'', k_noun = ''HostOverride'',
     k_search = ''/api/unbound/settings/searchHostOverride'', k_apply = ''/api/unbound/service/reconfigure'', k_word = ''apply''\<rparr>"

definition host_override_payload :: "host_override_input \<Rightarrow> obj" where
  "host_override_payload p = [(''host'', JObj [(''enabled'', flag (uh_enabled p)),
     (''hostname'', JStr (uh_hostname p)), (''domain'', JStr (uh_domain p)), (''rr'', JStr (uh_rr p)),
     (''server'', JStr (uh_server p)), (''description'', JStr (uh_description p))])]"

definition host_override_validate :: "host_override_input \<Rightarrow> unit res" where
  "host_override_validate p =
     rbnd (must (uh_hostname p \<noteq> []) ''hostname is required'') (\<lambda>_.
     rbnd (must (uh_domain p \<noteq> []) ''domain is required'') (\<lambda>_.
     rbnd (must (uh_server p \<noteq> []) ''server (IP) is required'') (\<lambda>_.
     must (uh_rr p \<in> set [''A'', ''AAAA'', ''MX'']) (''rr must be A|AAAA|MX, got '' @ repr_str (uh_rr p)))))"

definition host_override_creation :: "host_override_input \<Rightarrow> creation" where
  "host_override_creation p = \<lparr>cr_payload = host_override_payload p, cr_add_label = or_else (uh_hostname p) ''?'',
     cr_label = uh_hostname p, cr_ok_target = (\<lambda>u. u), cr_ok_detail = (\<lambda>u. uh_description p)\<rparr>"

definition host_override_create :: "crud_writer \<Rightarrow> host_override_input \<Rightarrow> crud_result io" where
  "host_override_create w p = bnd (of_res (host_override_validate p)) (\<lambda>_.
     crud_create (observer_of w host_override_kind) w host_override_kind (host_override_creation p))"

definition host_override_delete :: "crud_writer \<Rightarrow> string \<Rightarrow> crud_result io" where
  "host_override_delete w uuid = crud_delete (observer_of w host_override_kind) w host_override_kind uuid"

definition host_override_search :: "crud_writer \<Rightarrow> string \<Rightarrow> json io" where
  "host_override_search w phrase = crud_search w (k_search host_override_kind) phrase"

definition host_override_get :: "crud_writer \<Rightarrow> string \<Rightarrow> json io" where
  "host_override_get w uuid = crud_get w host_override_kind uuid"

record dot_input =
  ut_domain :: string
  ut_server :: string
  ut_verify :: string
  ut_port :: string
  ut_description :: string
  ut_enabled :: bool
  ut_tcp_upstream :: bool
  ut_first :: bool

definition dot_kind :: kind where
  "dot_kind = \<lparr>k_name = ''unbound_dot'', k_base = ''/api/unbound/settings'', k_noun = ''Forward'',
     k_search = ''/api/unbound/settings/searchForward'', k_apply = ''/api/unbound/service/reconfigure'', k_word = ''apply''\<rparr>"

definition dot_payload :: "dot_input \<Rightarrow> obj" where
  "dot_payload p = [(''dot'', JObj [(''enabled'', flag (ut_enabled p)), (''type'', JStr ''dot''),
     (''domain'', JStr (ut_domain p)), (''server'', JStr (ut_server p)), (''port'', JStr (ut_port p)),
     (''verify'', JStr (ut_verify p)), (''forward_tcp_upstream'', flag (ut_tcp_upstream p)),
     (''forward_first'', flag (ut_first p)), (''description'', JStr (ut_description p))])]"

definition dot_validate :: "dot_input \<Rightarrow> unit res" where
  "dot_validate p =
     rbnd (must (ut_domain p \<noteq> [] \<and> CHR ''.'' \<in> set (ut_domain p))
       ''domain must be a fully-qualified zone (e.g. lab.local)'') (\<lambda>_.
     rbnd (must (ut_server p \<noteq> []) ''server (DoT resolver IP) is required'') (\<lambda>_.
     rbnd (must (ut_verify p \<noteq> []) ''verify (cert hostname for SNI) is required'') (\<lambda>_.
     must (ut_port p \<noteq> [] \<and> isdigit (ut_port p)) ''port must be a numeric string (default 853)'')))"

definition dot_creation :: "dot_input \<Rightarrow> creation" where
  "dot_creation p = \<lparr>cr_payload = dot_payload p, cr_add_label = or_else (ut_domain p) ''?'',
     cr_label = ut_domain p, cr_ok_target = (\<lambda>u. u), cr_ok_detail = (\<lambda>u. ut_description p)\<rparr>"

definition dot_create :: "crud_writer \<Rightarrow> dot_input \<Rightarrow> crud_result io" where
  "dot_create w p = bnd (of_res (dot_validate p)) (\<lambda>_.
     crud_create (observer_of w dot_kind) w dot_kind (dot_creation p))"

definition dot_delete :: "crud_writer \<Rightarrow> string \<Rightarrow> crud_result io" where
  "dot_delete w uuid = crud_delete (observer_of w dot_kind) w dot_kind uuid"

text \<open>
  A comprehension over the rows: they must be a list of dictionaries; an empty text or dictionary has
  no element to ask.
\<close>

definition filter_rows :: "(json \<Rightarrow> bool) \<Rightarrow> json \<Rightarrow> json list res" where
  "filter_rows p rows = (case rows of
      JArr rs \<Rightarrow> if list_all is_obj rs then Inr (filter p rs) else Inl (AttrErr ''object has no attribute get'')
    | JStr s \<Rightarrow> if s = [] then Inr [] else Inl (AttrErr ''object has no attribute get'')
    | JObj d \<Rightarrow> if d = [] then Inr [] else Inl (AttrErr ''object has no attribute get'')
    | _ \<Rightarrow> Inl (TypeErr ''object is not iterable''))"

definition dot_search :: "crud_writer \<Rightarrow> string \<Rightarrow> json list io" where
  "dot_search w phrase = bnd (crud_search w (k_search dot_kind) phrase) (\<lambda>rows.
     of_res (filter_rows (\<lambda>r. lower (py_str (dget_or r ''type'' (JStr []))) = ''dot'') rows))"

record domain_input =
  ud_domain :: string
  ud_server :: string
  ud_description :: string
  ud_enabled :: bool

definition domain_kind :: kind where
  "domain_kind = \<lparr>k_name = ''unbound_domain'', k_base = ''/api/unbound/settings'', k_noun = ''Forward'',
     k_search = ''/api/unbound/settings/searchForward'', k_apply = ''/api/unbound/service/reconfigure'', k_word = ''apply''\<rparr>"

definition domain_payload :: "domain_input \<Rightarrow> obj" where
  "domain_payload p = [(''dot'', JObj [(''enabled'', flag (ud_enabled p)), (''type'', JStr ''forward''),
     (''domain'', JStr (ud_domain p)), (''server'', JStr (ud_server p)),
     (''description'', JStr (ud_description p))])]"

definition domain_validate :: "domain_input \<Rightarrow> unit res" where
  "domain_validate p =
     rbnd (must (ud_domain p \<noteq> []) ''domain is required'') (\<lambda>_.
     rbnd (must (CHR ''.'' \<in> set (ud_domain p)) ''domain must be a fully-qualified zone (contain a dot)'') (\<lambda>_.
     must (ud_server p \<noteq> []) ''server (IP) is required''))"

definition domain_creation :: "domain_input \<Rightarrow> creation" where
  "domain_creation p = \<lparr>cr_payload = domain_payload p, cr_add_label = or_else (ud_domain p) ''?'',
     cr_label = ud_domain p, cr_ok_target = (\<lambda>u. u), cr_ok_detail = (\<lambda>u. ud_description p)\<rparr>"

definition domain_create :: "crud_writer \<Rightarrow> domain_input \<Rightarrow> crud_result io" where
  "domain_create w p = bnd (of_res (domain_validate p)) (\<lambda>_.
     crud_create (observer_of w domain_kind) w domain_kind (domain_creation p))"

definition domain_delete :: "crud_writer \<Rightarrow> string \<Rightarrow> crud_result io" where
  "domain_delete w uuid = crud_delete (observer_of w domain_kind) w domain_kind uuid"

definition domain_get :: "crud_writer \<Rightarrow> string \<Rightarrow> json io" where
  "domain_get w uuid = crud_get w domain_kind uuid"

definition domain_search :: "crud_writer \<Rightarrow> string \<Rightarrow> json list io" where
  "domain_search w phrase = bnd (crud_search w (k_search domain_kind) phrase) (\<lambda>rows.
     of_res (filter_rows (\<lambda>r. dget_or r ''type'' JNull \<in> set [JStr ''forward'', JStr ''Forward'']) rows))"

end
