(* ===== verification/Legacy_Routes.thy ===== *)
theory Legacy_Routes
  imports Legacy_Kinds Carp
begin

text \<open>
  The routes over the unverified writers: \<^verbatim>\<open>src/routes/nat.py\<close>, \<^verbatim>\<open>one_to_one.py\<close>,
  \<^verbatim>\<open>wg.py\<close>, \<^verbatim>\<open>dhcp.py\<close>, \<^verbatim>\<open>dhcp_subnet.py\<close> and \<^verbatim>\<open>unbound.py\<close>. Each has a list and an
  action handler with the same body; a handler returns an HTTP status and a JSON document. Creating
  the audit directory is not modelled.
\<close>

section \<open>Shared bodies\<close>

type_synonym reply = "int \<times> json"

definition refuse :: "int \<Rightarrow> string \<Rightarrow> string \<Rightarrow> reply" where
  "refuse status err detail = (status, JObj [(''ok'', JBool False), (''error'', JStr err), (''detail'', JStr detail)])"

definition fine :: "json \<Rightarrow> reply" where
  "fine d = (200, JObj [(''ok'', JBool True), (''data'', d)])"

fun http_error :: "exn \<Rightarrow> reply" where
  "http_error (AuthErr s) = refuse 401 ''auth'' s"
| "http_error (TimeoutErr s) = refuse 504 ''timeout'' s"
| "http_error e = refuse 502 ''upstream'' (exn_str e)"

text \<open>The three \<^verbatim>\<open>except\<close> clauses every handler ends with.\<close>

definition upstream :: "reply io \<Rightarrow> reply io" where
  "upstream m = try_else m is_opn (\<lambda>e. ret (http_error e)) ret"

text \<open>\<^verbatim>\<open>len(rows)\<close>.\<close>

definition py_size :: "json \<Rightarrow> int res" where
  "py_size v = (case v of JArr vs \<Rightarrow> Inr (int (length vs)) | JStr s \<Rightarrow> Inr (int (py_len s))
     | JObj d \<Rightarrow> Inr (int (length d)) | _ \<Rightarrow> Inl (TypeErr ''object has no len''))"

definition list_reply :: "string \<Rightarrow> json \<Rightarrow> reply io" where
  "list_reply field rows = bnd (of_res (py_size rows)) (\<lambda>n.
     ret (fine (JObj [(field, rows), (''total'', JInt n)])))"

definition legacy_list :: "host \<Rightarrow> string \<Rightarrow> string \<Rightarrow> reply io" where
  "legacy_list h path field = bnd (of_res (mk_client h)) (\<lambda>c.
     upstream (bnd (client_get c path []) (\<lambda>out. list_reply field (rows_of out))))"

text \<open>\<^verbatim>\<open>body.get(section) or {}\<close>, then \<^verbatim>\<open>.get\<close> on it.\<close>

definition sub_dict :: "obj \<Rightarrow> string \<Rightarrow> obj res" where
  "sub_dict body section = (case map_of body section of
      Some (JObj d) \<Rightarrow> Inr d
    | v \<Rightarrow> if truthy_opt v then Inl (AttrErr ''object has no attribute get'') else Inr [])"

definition str_at :: "obj \<Rightarrow> string \<Rightarrow> string \<Rightarrow> string" where
  "str_at d k dflt = py_str (dget_or (JObj d) k (JStr dflt))"

definition bool_at :: "obj \<Rightarrow> string \<Rightarrow> bool \<Rightarrow> bool" where
  "bool_at d k dflt = truthy (dget_or (JObj d) k (JBool dflt))"

text \<open>\<^verbatim>\<open>int(v)\<close>.\<close>

definition to_int :: "json \<Rightarrow> int res" where
  "to_int v = (case v of JInt i \<Rightarrow> Inr i | JBool b \<Rightarrow> Inr (if b then 1 else 0)
     | JStr s \<Rightarrow> (case int_of_text s of Some n \<Rightarrow> Inr n | None \<Rightarrow> Inl (ValueErr ''invalid literal for int''))
     | JFloat r \<Rightarrow> int_of_float r
     | _ \<Rightarrow> Inl (TypeErr ''int() argument must be a string or a number''))"

fun is_bad_request :: "exn \<Rightarrow> bool" where
  "is_bad_request (TypeErr _) = True"
| "is_bad_request (ValueErr _) = True"
| "is_bad_request _ = False"

definition finish :: "string \<Rightarrow> crud_result \<Rightarrow> reply" where
  "finish action r = (if \<not> lr_ok r then refuse 502 ''upstream'' (or_else (lr_detail r) ''write failed'')
     else fine (JObj [(''uuid'', JStr (lr_uuid r)), (''action'', JStr action)]))"

definition legacy_action ::
  "host \<Rightarrow> string \<Rightarrow> bool \<Rightarrow> string \<Rightarrow> (obj \<Rightarrow> 'p res) \<Rightarrow> (crud_writer \<Rightarrow> 'p \<Rightarrow> crud_result io) \<Rightarrow>
   (crud_writer \<Rightarrow> string \<Rightarrow> crud_result io) \<Rightarrow> obj \<Rightarrow> reply io" where
  "legacy_action h actor read_only section parse create delete body =
     (if read_only then ret (refuse 403 ''read_only'' ''plugin config has read_only=true'')
      else let action = lower (str_at body ''action'' []) in
      if action \<notin> set [''create'', ''delete''] then
        ret (refuse 400 ''bad_request'' ''action must be create|delete'')
      else bnd (of_res (mk_client h)) (\<lambda>c. let w = mk_crud c None actor [] in
        upstream (if action = ''create'' then
            bnd (of_res (sub_dict body section)) (\<lambda>d.
            case parse d of
              Inl e \<Rightarrow> if is_bad_request e then ret (refuse 400 ''bad_request'' (exn_str e)) else raise e
            | Inr p \<Rightarrow> try_else (create w p) is_value (\<lambda>e. ret (refuse 400 ''validation'' (exn_str e)))
                (\<lambda>r. ret (finish action r)))
          else let uuid = str_at body ''uuid'' [] in
            if uuid = [] then ret (refuse 400 ''bad_request'' ''uuid is required'')
            else bnd (delete w uuid) (\<lambda>r. ret (finish action r)))))"

section \<open>Source NAT and one-to-one NAT\<close>

definition nat_parse :: "obj \<Rightarrow> nat_input res" where
  "nat_parse d = Inr \<lparr>na_interface = str_at d ''interface'' [], na_target = str_at d ''target'' [],
     na_source_net = or_else (str_at d ''source_net'' ''any'') ''any'',
     na_destination_net = or_else (str_at d ''destination_net'' ''any'') ''any'',
     na_description = str_at d ''description'' [], na_enabled = bool_at d ''enabled'' True,
     na_ipprotocol = str_at d ''ipprotocol'' ''inet'', na_protocol = str_at d ''protocol'' ''any''\<rparr>"

definition nat_list :: "host \<Rightarrow> reply io" where
  "nat_list h = legacy_list h ''/api/firewall/source_nat/searchRule'' ''rules''"

definition nat_action :: "host \<Rightarrow> string \<Rightarrow> bool \<Rightarrow> obj \<Rightarrow> reply io" where
  "nat_action h actor ro = legacy_action h actor ro ''rule'' nat_parse nat_create nat_delete"

definition oto_parse :: "obj \<Rightarrow> oto_input res" where
  "oto_parse d = Inr \<lparr>oo_interface = str_at d ''interface'' [], oo_external = str_at d ''external'' [],
     oo_source_net = str_at d ''source_net'' [],
     oo_destination_net = or_else (str_at d ''destination_net'' ''any'') ''any'',
     oo_description = str_at d ''description'' [], oo_enabled = bool_at d ''enabled'' True,
     oo_type = str_at d ''type'' ''binat'', oo_log = bool_at d ''log'' False,
     oo_sequence = str_at d ''sequence'' ''100''\<rparr>"

definition oto_list :: "host \<Rightarrow> reply io" where
  "oto_list h = legacy_list h ''/api/firewall/one_to_one/searchRule'' ''rules''"

definition oto_action :: "host \<Rightarrow> string \<Rightarrow> bool \<Rightarrow> obj \<Rightarrow> reply io" where
  "oto_action h actor ro = legacy_action h actor ro ''rule'' oto_parse oto_create oto_delete"

section \<open>WireGuard\<close>

text \<open>\<^verbatim>\<open>int(p.get("keepalive", 25) or 25)\<close>: a zero becomes the default.\<close>

definition wg_parse :: "obj \<Rightarrow> wg_input res" where
  "wg_parse d = rbnd (to_int (let v = dget_or (JObj d) ''keepalive'' (JInt 25) in if truthy v then v else JInt 25)) (\<lambda>ka.
     Inr \<lparr>wg_name = str_at d ''name'' [], wg_pubkey = str_at d ''pubkey'' [],
       wg_tunneladdress = str_at d ''tunneladdress'' [], wg_keepalive = ka,
       wg_psk = str_at d ''psk'' [], wg_enabled = bool_at d ''enabled'' True\<rparr>)"

definition wg_list :: "host \<Rightarrow> reply io" where
  "wg_list h = bnd (of_res (mk_client h)) (\<lambda>c. upstream
     (bnd (try_else (client_get c ''/api/wireguard/client/searchClient'' []) is_opn
             (\<lambda>_. client_post c ''/api/wireguard/client/searchClient'' []) ret)
        (\<lambda>out. list_reply ''peers'' (rows_of out))))"

definition wg_action :: "host \<Rightarrow> string \<Rightarrow> bool \<Rightarrow> obj \<Rightarrow> reply io" where
  "wg_action h actor ro = legacy_action h actor ro ''peer'' wg_parse wg_create wg_delete"

section \<open>DHCP\<close>

definition reservation_parse :: "obj \<Rightarrow> reservation_input res" where
  "reservation_parse d = Inr \<lparr>dr_subnet = str_at d ''subnet'' [], dr_ip_address = str_at d ''ip_address'' [],
     dr_hw_address = str_at d ''hw_address'' [], dr_hostname = str_at d ''hostname'' [],
     dr_description = str_at d ''description'' []\<rparr>"

definition reservation_list :: "host \<Rightarrow> reply io" where
  "reservation_list h = bnd (of_res (mk_client h)) (\<lambda>c. upstream
     (bnd (client_get c ''/api/kea/dhcpv4/searchReservation'' []) (\<lambda>reservations.
      bnd (client_get c ''/api/kea/dhcpv4/searchSubnet'' []) (\<lambda>subnets.
      bnd (of_res (py_size (rows_of reservations))) (\<lambda>n.
      ret (fine (JObj [(''reservations'', rows_of reservations), (''subnets'', rows_of subnets),
        (''total'', JInt n)])))))))"

definition reservation_action :: "host \<Rightarrow> string \<Rightarrow> bool \<Rightarrow> obj \<Rightarrow> reply io" where
  "reservation_action h actor ro =
     legacy_action h actor ro ''reservation'' reservation_parse reservation_create reservation_delete"

definition subnet_parse :: "obj \<Rightarrow> subnet_input res" where
  "subnet_parse d = Inr \<lparr>ds_subnet = str_at d ''subnet'' [], ds_description = str_at d ''description'' [],
     ds_pools = str_at d ''pools'' [], ds_next_server = str_at d ''next_server'' [],
     ds_match_client_id = bool_at d ''match_client_id'' True\<rparr>"

definition subnet_list :: "host \<Rightarrow> reply io" where
  "subnet_list h = legacy_list h ''/api/kea/dhcpv4/searchSubnet'' ''subnets''"

definition subnet_action :: "host \<Rightarrow> string \<Rightarrow> bool \<Rightarrow> obj \<Rightarrow> reply io" where
  "subnet_action h actor ro = legacy_action h actor ro ''subnet'' subnet_parse subnet_create subnet_delete"

section \<open>Unbound\<close>

definition host_override_parse :: "obj \<Rightarrow> host_override_input res" where
  "host_override_parse d = Inr \<lparr>uh_hostname = str_at d ''hostname'' [], uh_domain = str_at d ''domain'' [],
     uh_server = str_at d ''server'' [], uh_rr = str_at d ''rr'' ''A'',
     uh_description = str_at d ''description'' [], uh_enabled = bool_at d ''enabled'' True\<rparr>"

definition host_override_list :: "host \<Rightarrow> reply io" where
  "host_override_list h = legacy_list h ''/api/unbound/settings/searchHostOverride'' ''hosts''"

definition host_override_action :: "host \<Rightarrow> string \<Rightarrow> bool \<Rightarrow> obj \<Rightarrow> reply io" where
  "host_override_action h actor ro =
     legacy_action h actor ro ''host'' host_override_parse host_override_create host_override_delete"

text \<open>The forward endpoint holds plain forwards and DNS-over-TLS entries; each list shows its own.\<close>

definition forward_list :: "host \<Rightarrow> string \<Rightarrow> string \<Rightarrow> string \<Rightarrow> reply io" where
  "forward_list h dflt typ field = bnd (of_res (mk_client h)) (\<lambda>c. upstream
     (bnd (client_get c ''/api/unbound/settings/searchForward'' []) (\<lambda>out.
      bnd (of_res (filter_rows (\<lambda>r. lower (py_str (dget_or r ''type'' (JStr dflt))) = typ) (rows_of out))) (\<lambda>rows.
      list_reply field (JArr rows)))))"

definition domain_parse :: "obj \<Rightarrow> domain_input res" where
  "domain_parse d = Inr \<lparr>ud_domain = str_at d ''domain'' [], ud_server = str_at d ''server'' [],
     ud_description = str_at d ''description'' [], ud_enabled = bool_at d ''enabled'' True\<rparr>"

definition domain_list :: "host \<Rightarrow> reply io" where
  "domain_list h = forward_list h ''forward'' ''forward'' ''domains''"

definition domain_action :: "host \<Rightarrow> string \<Rightarrow> bool \<Rightarrow> obj \<Rightarrow> reply io" where
  "domain_action h actor ro = legacy_action h actor ro ''domain'' domain_parse domain_create domain_delete"

definition dot_parse :: "obj \<Rightarrow> dot_input res" where
  "dot_parse d = Inr \<lparr>ut_domain = str_at d ''domain'' [], ut_server = str_at d ''server'' [],
     ut_verify = str_at d ''verify'' [], ut_port = or_else (str_at d ''port'' ''853'') ''853'',
     ut_description = str_at d ''description'' [], ut_enabled = bool_at d ''enabled'' True,
     ut_tcp_upstream = bool_at d ''forward_tcp_upstream'' False, ut_first = bool_at d ''forward_first'' False\<rparr>"

definition dot_list :: "host \<Rightarrow> reply io" where
  "dot_list h = forward_list h [] ''dot'' ''dots''"

definition dot_action :: "host \<Rightarrow> string \<Rightarrow> bool \<Rightarrow> obj \<Rightarrow> reply io" where
  "dot_action h actor ro = legacy_action h actor ro ''dot'' dot_parse dot_create dot_delete"

end
