(* ===== verification/Legacy_Facts.thy ===== *)
theory Legacy_Facts
  imports Legacy_Routes
begin

text \<open>
  What the routes over the unverified writers guarantee. They rely on a writer only through the laws
  of the locale \<open>crud_actions\<close>; each of the eight writers they use is an interpretation of it.
\<close>

section \<open>The handlers over any writer\<close>

text \<open>What a handler may send: an add and its apply, undone if that fails, or a delete and its apply.\<close>

definition crud_protocol :: "crud_writer \<Rightarrow> kind \<Rightarrow> target list \<Rightarrow> bool" where
  "crud_protocol w k ts = (prefix ts [hit w (verb k ''add''), hit w (k_apply k)] \<or>
     (\<exists>u. u \<noteq> [] \<and> (ts = [hit w (verb k ''add''), hit w (k_apply k), hit w (item k ''del'' u)] \<or>
                   prefix ts [hit w (item k ''del'' u), hit w (k_apply k)])))"

definition completed :: "crud_writer \<Rightarrow> kind \<Rightarrow> target list \<Rightarrow> string \<Rightarrow> bool" where
  "completed w k ts act = (act = ''create'' \<and> ts = [hit w (verb k ''add''), hit w (k_apply k)] \<or>
     act = ''delete'' \<and> (\<exists>u. u \<noteq> [] \<and> ts = [hit w (item k ''del'' u), hit w (k_apply k)]))"

definition action_spec :: "host \<Rightarrow> string \<Rightarrow> bool \<Rightarrow> kind \<Rightarrow> reply res \<Rightarrow> trace \<Rightarrow> bool" where
  "action_spec h actor ro k r es =
     ((ro \<longrightarrow> es = []) \<and>
      (es = [] \<or> (\<exists>c. mk_client h = Inr c \<and> crud_protocol (mk_crud c None actor []) k (targets es))) \<and>
      (\<forall>d. r = Inr (200, d) \<longrightarrow> (\<exists>c act. mk_client h = Inr c \<and> completed (mk_crud c None actor []) k (targets es) act \<and>
         final_line (mk_crud c None actor []) (k_name k @ ''.'' @ act) ''ok'' es)))"

lemma http_error_status: "http_error e \<noteq> (200, d)"
  by (cases e) (auto simp: refuse_def)

locale crud_actions =
  fixes k :: kind and sec :: string and parse :: "obj \<Rightarrow> 'p res"
    and create :: "crud_writer \<Rightarrow> 'p \<Rightarrow> crud_result io" and delete :: "crud_writer \<Rightarrow> string \<Rightarrow> crud_result io"
  assumes create_law: "cw_ha w = None \<Longrightarrow> runs (create w p)
      (\<lambda>r es. (\<exists>m. r = Inl (ValueErr m)) \<and> es = [] \<or> created w k [] r es)"
    and delete_law: "cw_ha w = None \<Longrightarrow> runs (delete w uuid) (changed w k ''delete'' ''del'' uuid [])"
begin

lemma action_runs:
  "runs (legacy_action h actor ro sec parse create delete body) (action_spec h actor ro k)"
proof (cases "mk_client h")
  case (Inl e)
  then show ?thesis
    by (auto simp: legacy_action_def Let_def action_spec_def refuse_def)
next
  case (Inr c)
  let ?w = "mk_crud c None actor []"
  have ha: "cw_ha ?w = None" by (simp add: mk_crud_def)
  have [simp]: "action_spec h actor b k (Inr (refuse s e d)) []" if "s \<noteq> 200" for b s e d
    using that by (auto simp: action_spec_def refuse_def)
  have raise [simp]: "action_spec h actor b k (Inl e) []" for b e by (simp add: action_spec_def)
  have make: "runs (try_else (create ?w p) is_value (\<lambda>e. ret (refuse 400 ''validation'' (exn_str e)))
      (\<lambda>r. ret (finish ''create'' r))) (action_spec h actor False k)" for p
  proof (rule runs_try_else [OF create_law [OF ha]], goal_cases)
    case (1 e es)
    then show ?case using Inr by (auto simp: created_def action_spec_def crud_protocol_def)
  next
    case (2 e es)
    then show ?case by (auto simp: created_def)
  next
    case (3 x es)
    then have "created ?w k [] (Inr x) es" by auto
    then show ?case
      using Inr by (auto simp: created_def action_spec_def crud_protocol_def finish_def completed_def fine_def
          refuse_def split: if_splits dest: answered_id_nonempty)
  qed
  have remove: "runs (bnd (delete ?w u) (\<lambda>r. ret (finish ''delete'' r))) (action_spec h actor False k)" if "u \<noteq> []" for u
    by (rule runs_bnd [OF delete_law [OF ha]])
      (use that Inr in \<open>auto simp: changed_def action_spec_def crud_protocol_def finish_def completed_def fine_def
          refuse_def split: if_splits\<close>)
  have up: "runs m (action_spec h actor False k) \<Longrightarrow> runs (upstream m) (action_spec h actor False k)" for m
    unfolding upstream_def
    by (rule runs_try_else, assumption) (auto simp: action_spec_def http_error_status)
  show ?thesis
  proof (cases "ro \<or> lower (str_at body ''action'' []) \<notin> set [''create'', ''delete'']")
    case True
    then show ?thesis by (auto simp: legacy_action_def Let_def)
  next
    case False
    then have act: "\<not> ro" "lower (str_at body ''action'' []) = ''create'' \<or> lower (str_at body ''action'' []) = ''delete''"
      by auto
    have parsed: "runs (case parse d of
              Inl e \<Rightarrow> if is_bad_request e then ret (refuse 400 ''bad_request'' (exn_str e)) else raise e
            | Inr p \<Rightarrow> try_else (create ?w p) is_value (\<lambda>e. ret (refuse 400 ''validation'' (exn_str e)))
                (\<lambda>r. ret (finish ''create'' r))) (action_spec h actor False k)" for d
      by (cases "parse d") (auto simp: make)
    have made: "runs (bnd (of_res (sub_dict body sec)) (\<lambda>d. case parse d of
              Inl e \<Rightarrow> if is_bad_request e then ret (refuse 400 ''bad_request'' (exn_str e)) else raise e
            | Inr p \<Rightarrow> try_else (create ?w p) is_value (\<lambda>e. ret (refuse 400 ''validation'' (exn_str e)))
                (\<lambda>r. ret (finish ''create'' r)))) (action_spec h actor False k)"
      by (cases "sub_dict body sec") (auto simp: parsed)
    show ?thesis
    proof (cases "lower (str_at body ''action'' []) = ''create''")
      case True
      with act Inr up [OF made] show ?thesis by (simp add: legacy_action_def Let_def)
    next
      case False
      with act have "lower (str_at body ''action'' []) = ''delete''" by simp
      with act Inr up [OF remove] up [of "ret (refuse 400 ''bad_request'' ''uuid is required'')"] show ?thesis
        by (simp add: legacy_action_def Let_def)
    qed
  qed
qed

end

section \<open>The eight writers behind routes\<close>

lemma observe_none: "cw_ha w = None \<Longrightarrow> observer_of w k = maybe_sync None (k_search k)"
  by (simp add: observer_of_def)

lemma create_none:
  "cw_ha w = None \<Longrightarrow> runs (bnd (of_res v) (\<lambda>_. crud_create (observer_of w k) w k q))
     (\<lambda>r es. (\<exists>m. r = Inl (ValueErr m)) \<and> es = [] \<or> created w k [] r es)"
  if "\<And>e. v = Inl e \<Longrightarrow> \<exists>m. e = ValueErr m" for v :: "unit res"
  using that crud.crud_create_runs [of None "k_search k" w k q]
  by (cases v) (auto simp: observe_none maybe_targets_def elim: runs_conseq)

lemma delete_none: "cw_ha w = None \<Longrightarrow> runs (crud_delete (observer_of w k) w k u) (changed w k ''delete'' ''del'' u [])"
  using crud.crud_change_runs [of None "k_search k" w k "''delete''" "''del''" u "[]" "[]" "[]"]
  by (simp add: crud_delete_def observe_none maybe_targets_def)

lemma must_Inl: "must b m = Inl e \<Longrightarrow> \<exists>m. e = ValueErr m"
  by (auto simp: must_def split: if_splits)

lemma rbnd_must_Inl: "rbnd (must b m) f = Inl e \<Longrightarrow> (\<And>e. f () = Inl e \<Longrightarrow> \<exists>m. e = ValueErr m) \<Longrightarrow> \<exists>m. e = ValueErr m"
  by (auto simp: must_def rbnd_def split: if_splits)

lemmas validate_defs = nat_validate_def oto_validate_def wg_validate_def reservation_validate_def
  subnet_validate_def host_override_validate_def dot_validate_def domain_validate_def

interpretation nat_actions: crud_actions nat_kind "''rule''" nat_parse nat_create nat_delete
  by unfold_locales
    (auto simp: nat_create_def nat_delete_def validate_defs intro!: create_none delete_none
      elim!: rbnd_must_Inl must_Inl)

interpretation oto_actions: crud_actions oto_kind "''rule''" oto_parse oto_create oto_delete
  by unfold_locales
    (auto simp: oto_create_def oto_delete_def validate_defs intro!: create_none delete_none
      elim!: rbnd_must_Inl must_Inl)

interpretation wg_actions: crud_actions wg_kind "''peer''" wg_parse wg_create wg_delete
  by unfold_locales
    (auto simp: wg_create_def wg_delete_def validate_defs intro!: create_none delete_none
      elim!: rbnd_must_Inl must_Inl)

interpretation reservation_actions:
  crud_actions reservation_kind "''reservation''" reservation_parse reservation_create reservation_delete
  by unfold_locales
    (auto simp: reservation_create_def reservation_delete_def validate_defs intro!: create_none delete_none
      elim!: rbnd_must_Inl must_Inl)

interpretation subnet_actions: crud_actions subnet_kind "''subnet''" subnet_parse subnet_create subnet_delete
  by unfold_locales
    (auto simp: subnet_create_def subnet_delete_def validate_defs intro!: create_none delete_none
      elim!: rbnd_must_Inl must_Inl)

interpretation host_override_actions:
  crud_actions host_override_kind "''host''" host_override_parse host_override_create host_override_delete
  by unfold_locales
    (auto simp: host_override_create_def host_override_delete_def validate_defs intro!: create_none delete_none
      elim!: rbnd_must_Inl must_Inl)

interpretation domain_actions: crud_actions domain_kind "''domain''" domain_parse domain_create domain_delete
  by unfold_locales
    (auto simp: domain_create_def domain_delete_def validate_defs intro!: create_none delete_none
      elim!: rbnd_must_Inl must_Inl)

interpretation dot_actions: crud_actions dot_kind "''dot''" dot_parse dot_create dot_delete
  by unfold_locales
    (auto simp: dot_create_def dot_delete_def validate_defs intro!: create_none delete_none
      elim!: rbnd_must_Inl must_Inl)

text \<open>The eight action handlers with the kind each writes.\<close>

definition legacy_handlers :: "host \<Rightarrow> string \<Rightarrow> bool \<Rightarrow> obj \<Rightarrow> (kind \<times> reply io) list" where
  "legacy_handlers h actor ro body =
     [(nat_kind, nat_action h actor ro body), (oto_kind, oto_action h actor ro body),
      (wg_kind, wg_action h actor ro body), (reservation_kind, reservation_action h actor ro body),
      (subnet_kind, subnet_action h actor ro body), (host_override_kind, host_override_action h actor ro body),
      (domain_kind, domain_action h actor ro body), (dot_kind, dot_action h actor ro body)]"

lemma handlers_spec:
  "(k, m) \<in> set (legacy_handlers h actor ro body) \<Longrightarrow> runs m (action_spec h actor ro k)"
  unfolding legacy_handlers_def
  by (auto simp: nat_action_def oto_action_def wg_action_def reservation_action_def subnet_action_def
      host_override_action_def domain_action_def dot_action_def
      nat_actions.action_runs oto_actions.action_runs wg_actions.action_runs reservation_actions.action_runs
      subnet_actions.action_runs host_override_actions.action_runs domain_actions.action_runs
      dot_actions.action_runs)

end
