(* ===== verification/Legacy_Props.thy ===== *)
theory Legacy_Props
  imports Legacy_Facts Demo
begin

text \<open>
  The properties of the unverified writers, of the HA observer they may use, and of their routes.
\<close>

section \<open>Witness data\<close>

definition demo_ha :: ha where
  "demo_ha = \<lparr>ha_local = demo_client, ha_peer = Some demo_client\<rparr>"

definition demo_crud :: "ha option \<Rightarrow> crud_writer" where
  "demo_crud h = mk_crud demo_client h ''op'' []"

definition demo_creation :: creation where
  "demo_creation = \<lparr>cr_payload = [], cr_add_label = ''n'', cr_label = ''n'', cr_ok_target = (\<lambda>u. u), cr_ok_detail = (\<lambda>u. [])\<rparr>"

lemmas crud_run = run_simps crud_create_def finish_create_def crud_change_def crud_update_def record_line_def
  entry_now_def observer_of_def maybe_sync_def verify_robust_def ha_sync_def Let_def

lemma demo_crud_simps [simp]: "cw_client (demo_crud h) = demo_client" "cw_ha (demo_crud h) = h"
  by (simp_all add: demo_crud_def mk_crud_def)

lemma saved_uuid [simp]: "saved = JObj [(''result'', JStr ''saved''), (''uuid'', JStr demo_uuid)]" "demo_uuid \<noteq> []"
  by (simp_all add: saved_def demo_uuid_def)

lemma demo_unread:
  "\<exists>e tr'. crud_create (observer_of (demo_crud (Some demo_ha)) alias_kind) (demo_crud (Some demo_ha)) alias_kind demo_creation
     (demo_env (\<lambda>p. answer saved) (\<lambda>p. None) None) [] = (Inl e, tr') \<and> is_opn e"
  by (simp add: crud_run demo_ha_def demo_creation_def dget_or_def)

lemma demo_robust:
  "\<exists>x tr'. verify_robust demo_ha ''/p'' 1 1 (demo_env (\<lambda>p. answer saved) (\<lambda>p. Some JNull) None) [] = (Inr x, tr') \<and> hs_verified x"
  by (simp add: crud_run demo_ha_def hsync0_def)

section \<open>Life cycle\<close>




text \<open>C13: a create of an unverified writer that has an HA observer raises, although the object was added and applied,
  when the firewall answered the add with a UUID, took the apply, and then the observer's read of the local inventory
  fails. The exception of that read is let out; no audit line of the operation exists, and nothing is undone.\<close>

theorem legacy_raise_unlogged:
  assumes "cw_ha w = Some v"
    and "client_post (cw_client w) (verb k ''add'') (cr_payload q) E tr = (Inr (JObj d), tr1)"
    and "map_of d ''uuid'' = Some x" and "py_str x \<noteq> []"
    and "client_post (cw_client w) (k_apply k) [] E tr1 = (Inr y, tr2)"
    and "client_get (ha_local v) (k_search k) [] E tr2 = (Inl e, tr3)"
  shows "crud_create (observer_of w k) w k q E tr = (Inl e, tr3) \<and> is_opn e \<and>
    (\<exists>es. tr3 = tr @ es \<and> audit_lines es = [] \<and> targets es = [hit w (verb k ''add''), hit w (k_apply k)])"
proof -
  have "crud_create (observer_of w k) w k q E tr = (Inl e, tr3)"
    using assms by (simp add: crud_create_def finish_create_def observer_of_def maybe_sync_def verify_robust_def Let_def
        bnd_def try_else_def now_ms_def dget_or_def)
  moreover obtain es1 where "tr1 = tr @ es1" "targets es1 = [hit w (verb k ''add'')]" "audit_lines es1 = []"
    by (rule runsE [OF post_runs assms(2)]) (auto simp: hit_def)
  moreover obtain es2 where "tr2 = tr1 @ es2" "targets es2 = [hit w (k_apply k)]" "audit_lines es2 = []"
    by (rule runsE [OF post_runs assms(5)]) (auto simp: hit_def)
  moreover obtain es3 where "tr3 = tr2 @ es3" "targets es3 = []" "audit_lines es3 = []" "is_opn e"
    by (rule runsE [OF runs_peer_get assms(6)]) auto
  ultimately show ?thesis by simp
qed

theorem legacy_raise_unlogged_witness:
  "\<exists>e es. crud_create (observer_of (demo_crud (Some demo_ha)) alias_kind) (demo_crud (Some demo_ha)) alias_kind demo_creation
     (demo_env (\<lambda>p. answer saved) (\<lambda>p. None) None) [] = (Inl e, es) \<and> audit_lines es = [] \<and> length (targets es) = 2"
proof -
  let ?E = "demo_env (\<lambda>p. answer saved) (\<lambda>p. None) None" and ?w = "demo_crud (Some demo_ha)"
  have post: "client_post (cw_client ?w) p d ?E tr = (Inr saved, tr @ [posted demo_client p d (answer saved)])" for p d tr
    by (simp add: run_simps del: saved_uuid)
  have "\<exists>e tr'. client_get (ha_local demo_ha) p [] ?E tr = (Inl e, tr')" for p tr
    by (simp add: run_simps demo_ha_def)
  then obtain e tr' where get: "client_get (ha_local demo_ha) (k_search alias_kind) [] ?E
      (([] @ [posted demo_client (verb alias_kind ''add'') (cr_payload demo_creation) (answer saved)]) @
       [posted demo_client (k_apply alias_kind) [] (answer saved)]) = (Inl e, tr')"
    by blast
  have ha: "cw_ha ?w = Some demo_ha" by simp
  have id: "map_of [(''result'', JStr ''saved''), (''uuid'', JStr demo_uuid)] ''uuid'' = Some (JStr demo_uuid)"
    "py_str (JStr demo_uuid) \<noteq> []"
    by simp_all
  note add = post [unfolded saved_uuid(1)]
  from legacy_raise_unlogged [OF ha add id add get [unfolded saved_uuid(1)]]
  show ?thesis by auto
qed

text \<open>An update of an unverified writer reports success whatever JSON the firewall answers with a
  success status, and even if the audit log refuses its line.\<close>

theorem legacy_update_unconditional:
  "\<exists>r tr'. alias_update (mk_crud demo_client None actor name) u p (demo_env (\<lambda>p. answer v) doc (Some msg)) [] = (Inr r, tr') \<and>
     lr_ok r \<and> audit_lines tr' = []"
  by (simp add: alias_update_def crud_run mk_crud_def posted_def succeeded_def)

section \<open>The HA observer\<close>

text \<open>C15: a verified synchronization with a peer first read the document from the local node, then triggered exactly
  one push, and the last thing it did was to read the document from the peer: what the peer answered has the same
  digest - the first 16 digits of the SHA-256 of its canonical JSON - as what the local node had answered before the
  push, and that digest is the one in the result. The attempts stay within the allowed number.\<close>

definition print16 :: "json \<Rightarrow> string" where
  "print16 v = take 16 (sha256_hex (dumps '', '' '': '' v))"

lemma fingerprint_print16: "fingerprint v = print16 v"
  by (simp add: fingerprint_def print16_def)

theorem robust_verified_observed:
  assumes "verify_robust h path n d E tr = (Inr x, tr')" and "ha_peer h = Some peer" and "hs_verified x"
  shows "\<exists>xs ys v. tr' = tr @ xs @ ys \<and> targets xs = [] \<and> got (ha_local h) path [] v xs \<and> hs_local_fp x = print16 v \<and>
    targets ys = [(c_host (ha_local h), ''/api/core/hasync/syncTo'')] \<and> hs_attempts x \<le> max 1 n \<and>
    last_read peer path (\<lambda>pv. print16 pv = print16 v) ys"
proof -
  obtain es xs ys v where es: "tr' = tr @ es" "hs_triggered x \<longrightarrow> targets es = sync_targets h" "hs_attempts x \<le> max 1 n"
      "hs_triggered x" "es = xs @ ys" "targets xs = []" "got (ha_local h) path [] v xs" "fingerprint v = hs_local_fp x"
      "last_read peer path (\<lambda>v. fingerprint v = hs_local_fp x) ys"
    by (rule runsE [OF verify_robust_runs assms(1)]) (use assms(2,3) in blast)
  then show ?thesis
    using assms(2) by (intro exI [of _ xs] exI [of _ ys] exI [of _ v])
      (auto simp: sync_targets_def sync_path_def fingerprint_print16)
qed

theorem robust_verified_observed_witness:
  "\<exists>x es. verify_robust demo_ha ''/p'' 1 1 (demo_env (\<lambda>p. answer saved) (\<lambda>p. Some JNull) None) [] = (Inr x, es) \<and>
     hs_verified x \<and> targets es = [(demo_host, ''/api/core/hasync/syncTo'')]"
proof -
  obtain x tr' where run: "verify_robust demo_ha ''/p'' 1 1 (demo_env (\<lambda>p. answer saved) (\<lambda>p. Some JNull) None) [] = (Inr x, tr')"
    "hs_verified x"
    using demo_robust by blast
  have peer: "ha_peer demo_ha = Some demo_client" by (simp add: demo_ha_def)
  from robust_verified_observed [OF run(1) peer run(2)] run show ?thesis
    by (auto simp: demo_ha_def demo_client_def simp del: saved_uuid)
qed

section \<open>Inputs\<close>

text \<open>The WireGuard route cannot create a peer with keepalive 0 from a number: the value that the
  writer documents as disabled becomes the default of 25 seconds.\<close>

theorem wg_keepalive_zero:
  assumes "map_of d ''keepalive'' = Some (JInt 0)" and "wg_parse d = Inr p"
  shows "wg_keepalive p = 25"
  using assms by (auto simp: wg_parse_def dget_or_def to_int_def rbnd_def)

theorem wg_keepalive_zero_witness:
  "\<exists>p. wg_parse [(''keepalive'', JInt 0)] = Inr p \<and> wg_keepalive p = 25"
proof -
  obtain p where p: "wg_parse [(''keepalive'', JInt 0)] = Inr p"
    by (auto simp: wg_parse_def dget_or_def to_int_def rbnd_def)
  from wg_keepalive_zero [OF _ p] p show ?thesis by simp
qed

end
