(* ===== verification/Firewall_Input.thy ===== *)
theory Firewall_Input
  imports Legacy_Kinds Execute
begin

text \<open>
  Strict input of the firewall routes: \<^verbatim>\<open>_bool\<close>, \<^verbatim>\<open>_str\<close>, \<^verbatim>\<open>_enum\<close>, \<^verbatim>\<open>_port\<close>,
  \<^verbatim>\<open>parse_payload\<close> and \<^verbatim>\<open>normalize\<close> of \<^verbatim>\<open>src/routes/firewall.py\<close>, and
  \<^verbatim>\<open>PortForwardInput\<close> of \<^verbatim>\<open>src/writers/port_forward.py\<close>. The handlers are in
  \<^verbatim>\<open>Firewall_Routes\<close>.
\<close>

section \<open>Fields\<close>

definition in_bool :: "obj \<Rightarrow> string \<Rightarrow> bool \<Rightarrow> bool res" where
  "in_bool d key dflt = (case dget_or (JObj d) key (JBool dflt) of JBool b \<Rightarrow> Inr b
     | _ \<Rightarrow> Inl (TypeErr (key @ '' must be a JSON boolean'')))"

definition max_len :: "string \<Rightarrow> nat" where
  "max_len key = (if key = ''content'' then 65536 else 2048)"

definition in_str :: "obj \<Rightarrow> string \<Rightarrow> string \<Rightarrow> bool \<Rightarrow> string res" where
  "in_str d key dflt required = (case dget_or (JObj d) key (JStr dflt) of
      JStr s \<Rightarrow>
        if py_len s > max_len key then Inl (ValueErr (key @ '' must be a string within the supported length''))
        else if CHR 0x00 \<in> set s \<or> required \<and> strip s = [] then Inl (ValueErr (key @ '' is required or invalid''))
        else Inr (strip s)
    | _ \<Rightarrow> Inl (ValueErr (key @ '' must be a string within the supported length'')))"

definition in_enum :: "string \<Rightarrow> string \<Rightarrow> string list \<Rightarrow> string res" where
  "in_enum v name choices = (if v \<in> set choices then Inr v
     else Inl (ValueErr (name @ '' must be one of '' @ join '', '' choices)))"

text \<open>The numbers of a text that matches \<^verbatim>\<open>\d+(?:[:-]\d+)?\<close>, and \<^verbatim>\<open>[A-Za-z_][A-Za-z0-9_-]*\<close>.\<close>

definition port_numbers :: "string \<Rightarrow> int list option" where
  "port_numbers s = (let a = takeWhile is_digit s in
     if a = [] then None
     else (case dropWhile is_digit s of
         [] \<Rightarrow> Some [dec_val 0 a]
       | c # b \<Rightarrow> if c \<in> {CHR '':'', CHR ''-''} \<and> isdigit b then Some [dec_val 0 a, dec_val 0 b] else None))"

definition port_alias :: "string \<Rightarrow> bool" where
  "port_alias s = (s \<noteq> [] \<and> (is_alpha (hd s) \<or> hd s = CHR ''_'') \<and>
     list_all (\<lambda>c. is_alnum c \<or> c \<in> {CHR ''_'', CHR ''-''}) (tl s))"

definition port_ok :: "bool \<Rightarrow> int list \<Rightarrow> bool" where
  "port_ok allow_range ps = (\<not> (list_ex (\<lambda>n. n < 1 \<or> n > 65535) ps \<or>
     length ps > 1 \<and> (\<not> allow_range \<or> ps ! 0 > ps ! 1)))"

definition in_port :: "obj \<Rightarrow> string \<Rightarrow> string \<Rightarrow> bool \<Rightarrow> bool \<Rightarrow> string res" where
  "in_port d key dflt required allow_range =
     rbnd (in_str d key dflt required) (\<lambda>s.
     let v = (if lower s = ''any'' then [] else s) in
     if required \<and> v = [] then Inl (ValueErr (key @ '' is required''))
     else if v = [] then Inr v
     else (case port_numbers v of
         Some ps \<Rightarrow> if port_ok allow_range ps then Inr v
           else Inl (ValueErr (key @ '' must be a valid port or ascending range''))
       | None \<Rightarrow> if port_alias v then Inr v
           else Inl (ValueErr (key @ '' must be a port, alias or range''))))"

definition alias_name :: "string \<Rightarrow> bool" where
  "alias_name s = (s \<noteq> [] \<and> length s \<le> 255 \<and> (is_alpha (hd s) \<or> hd s = CHR ''_'') \<and>
     list_all (\<lambda>c. is_alnum c \<or> c = CHR ''_'') (tl s))"

text \<open>Digits of more than 4300 characters raise in \<^verbatim>\<open>int\<close>, which is a \<^verbatim>\<open>ValueError\<close> too.\<close>

definition in_sequence :: "obj \<Rightarrow> int res" where
  "in_sequence d =
     (let n = (case dget_or (JObj d) ''sequence'' (JInt 1) of
          JStr s \<Rightarrow> if isdigit s \<and> length s \<le> 4300 then Some (dec_val 0 s) else None
        | JInt i \<Rightarrow> Some i
        | _ \<Rightarrow> None) in
      case n of
        Some i \<Rightarrow> if 1 \<le> i \<and> i \<le> 999999 then Inr i
          else Inl (ValueErr ''sequence must be an integer between 1 and 999999'')
      | None \<Rightarrow> Inl (ValueErr ''sequence must be an integer between 1 and 999999''))"

section \<open>Destination NAT\<close>

record pf_input =
  pf_interface :: string
  pf_target :: string
  pf_destination_port :: string
  pf_target_port :: string
  pf_source_net :: string
  pf_source_port :: string
  pf_destination_net :: string
  pf_description :: string
  pf_enabled :: bool
  pf_log :: bool
  pf_ipprotocol :: string
  pf_protocol :: string
  pf_sequence :: int
  pf_filter_association :: string
  pf_natreflection :: string

definition pf_payload :: "pf_input \<Rightarrow> obj" where
  "pf_payload p = [(''rule'', JObj [(''interface'', JStr (pf_interface p)), (''target'', JStr (pf_target p)),
     (''source'', JObj [(''network'', JStr (pf_source_net p)), (''port'', JStr (pf_source_port p))]),
     (''destination'', JObj [(''network'', JStr (pf_destination_net p)), (''port'', JStr (pf_destination_port p))]),
     (''local-port'', JStr (pf_target_port p)), (''descr'', JStr (pf_description p)),
     (''disabled'', flag (\<not> pf_enabled p)), (''log'', flag (pf_log p)),
     (''ipprotocol'', JStr (pf_ipprotocol p)),
     (''protocol'', JStr (if lower (pf_protocol p) = ''tcp/udp'' then ''TCP/UDP'' else pf_protocol p)),
     (''sequence'', JStr (int_str (pf_sequence p))), (''pass'', JStr (pf_filter_association p)),
     (''natreflection'', JStr (pf_natreflection p))])]"

section \<open>Parsing a form\<close>

definition parse_alias :: "obj \<Rightarrow> obj res" where
  "parse_alias d =
     rbnd (in_str d ''name'' [] True) (\<lambda>name.
     if \<not> alias_name name then Inl (ValueErr ''name must be an identifier without spaces'') else
     rbnd (in_str d ''type'' ''host'' False) (\<lambda>t0.
     rbnd (in_enum t0 ''type'' [''host'', ''network'', ''port'', ''url'', ''urltable'', ''geoip'', ''external'']) (\<lambda>typ.
     rbnd (in_str d ''content'' [] (typ \<noteq> ''external'')) (\<lambda>content.
     rbnd (in_str d ''description'' [] False) (\<lambda>descr.
     rbnd (in_bool d ''enabled'' True) (\<lambda>enabled.
     rbnd (in_str d ''proto'' [] False) (\<lambda>proto.
     Inr (alias_payload \<lparr>al_name = name, al_type = typ, al_content = content, al_description = descr,
       al_enabled = enabled, al_proto = proto\<rparr>))))))))"

text \<open>The dictionary \<^verbatim>\<open>common\<close>.\<close>

record common =
  co_interface :: string
  co_ipprotocol :: string
  co_protocol :: string
  co_source_net :: string
  co_source_port :: string
  co_destination_net :: string
  co_destination_port :: string
  co_description :: string
  co_enabled :: bool
  co_sequence :: int

definition protocols :: "string list" where
  "protocols = [''tcp'', ''udp'', ''tcp/udp'', ''any'', ''icmp'', ''icmp6'', ''esp'', ''gre'']"

definition parse_common :: "bool \<Rightarrow> obj \<Rightarrow> common res" where
  "parse_common pf d =
     rbnd (in_sequence d) (\<lambda>sequence.
     rbnd (in_str d ''interface'' [] True) (\<lambda>interface.
     rbnd (in_str d ''ipprotocol'' ''inet'' False) (\<lambda>ip0.
     rbnd (in_enum ip0 ''ipprotocol'' [''inet'', ''inet6'', ''inet46'']) (\<lambda>ipprotocol.
     rbnd (in_str d ''protocol'' (if pf then ''tcp'' else ''any'') False) (\<lambda>proto0.
     rbnd (in_enum (lower proto0) ''protocol'' protocols) (\<lambda>protocol.
     rbnd (in_str d ''source_net'' ''any'' True) (\<lambda>source_net.
     rbnd (in_port d ''source_port'' [] False True) (\<lambda>source_port.
     rbnd (in_str d ''destination_net'' (if pf then ''wanip'' else ''any'') True) (\<lambda>destination_net.
     rbnd (in_port d ''destination_port'' [] pf True) (\<lambda>destination_port.
     rbnd (in_str d ''description'' [] False) (\<lambda>description.
     rbnd (in_bool d ''enabled'' False) (\<lambda>enabled.
     Inr \<lparr>co_interface = interface, co_ipprotocol = ipprotocol, co_protocol = protocol,
       co_source_net = source_net, co_source_port = source_port, co_destination_net = destination_net,
       co_destination_port = destination_port, co_description = description, co_enabled = enabled,
       co_sequence = sequence\<rparr>))))))))))))"

definition parse_port_forward :: "obj \<Rightarrow> obj res" where
  "parse_port_forward d =
     rbnd (parse_common True d) (\<lambda>c.
     rbnd (in_enum (co_protocol c) ''protocol'' [''tcp'', ''udp'', ''tcp/udp'']) (\<lambda>_.
     let d' = (case (map_of d ''target_port'', map_of d ''local_port'') of
         (None, Some v) \<Rightarrow> dput d ''target_port'' v | _ \<Rightarrow> d) in
     rbnd (in_str d' ''target'' [] True) (\<lambda>target.
     rbnd (in_port d' ''target_port'' [] True False) (\<lambda>target_port.
     rbnd (in_bool d' ''log'' False) (\<lambda>lg.
     rbnd (in_str d' ''filter_association'' [] False) (\<lambda>fa0.
     rbnd (in_enum fa0 ''filter_association'' [[], ''pass'', ''rule'']) (\<lambda>fa.
     rbnd (in_str d' ''natreflection'' [] False) (\<lambda>nr0.
     rbnd (in_enum nr0 ''natreflection'' [[], ''purenat'', ''disable'']) (\<lambda>nr.
     Inr (pf_payload \<lparr>pf_interface = co_interface c, pf_target = target,
       pf_destination_port = co_destination_port c, pf_target_port = target_port,
       pf_source_net = co_source_net c, pf_source_port = co_source_port c,
       pf_destination_net = co_destination_net c, pf_description = co_description c,
       pf_enabled = co_enabled c, pf_log = lg, pf_ipprotocol = co_ipprotocol c,
       pf_protocol = co_protocol c, pf_sequence = co_sequence c,
       pf_filter_association = fa, pf_natreflection = nr\<rparr>))))))))))"

text \<open>\<^verbatim>\<open>RuleInput(..).to_payload()\<close> with the fields the route adds to it.\<close>

definition rule_form :: "rule_input \<Rightarrow> bool \<Rightarrow> bool \<Rightarrow> obj" where
  "rule_form p lg quick = (case map_of (rule_payload p) ''rule'' of
      Some (JObj fs) \<Rightarrow> [(''rule'', JObj (dputs fs ([(''log'', flag lg), (''quick'', flag quick)] @
        (if ru_protocol p = ''tcp/udp'' then [(''protocol'', JStr ''TCP/UDP'')] else []))))]
    | _ \<Rightarrow> rule_payload p)"

definition parse_rule :: "obj \<Rightarrow> obj res" where
  "parse_rule d =
     rbnd (parse_common False d) (\<lambda>c.
     rbnd (in_str d ''action'' ''pass'' False) (\<lambda>a0.
     rbnd (in_enum a0 ''action'' [''pass'', ''block'', ''reject'']) (\<lambda>act.
     rbnd (in_str d ''direction'' ''in'' False) (\<lambda>dir0.
     rbnd (in_enum dir0 ''direction'' [''in'', ''out'', ''any'']) (\<lambda>direction.
     rbnd (in_bool d ''log'' False) (\<lambda>lg.
     rbnd (in_bool d ''quick'' True) (\<lambda>quick.
     Inr (rule_form \<lparr>ru_interface = co_interface c, ru_action = act, ru_direction = direction,
       ru_ipprotocol = co_ipprotocol c, ru_protocol = co_protocol c, ru_source_net = co_source_net c,
       ru_source_port = co_source_port c, ru_destination_net = co_destination_net c,
       ru_destination_port = co_destination_port c, ru_description = co_description c,
       ru_enabled = co_enabled c, ru_sequence = co_sequence c\<rparr> lg quick))))))))"

definition parse_payload :: "resource \<Rightarrow> json \<Rightarrow> obj res" where
  "parse_payload rsrc data = (case data of
      JObj d \<Rightarrow> (case rsrc of Aliases \<Rightarrow> parse_alias d | PortForward \<Rightarrow> parse_port_forward d | Rules \<Rightarrow> parse_rule d)
    | _ \<Rightarrow> Inl (TypeErr ''rule/alias must be a JSON object''))"

section \<open>Showing an object\<close>

definition shown_fields :: "resource \<Rightarrow> string list" where
  "shown_fields rsrc = (if rsrc = Aliases
     then [''uuid'', ''name'', ''type'', ''content'', ''description'', ''proto'']
     else [''uuid'', ''interface'', ''ipprotocol'', ''protocol'', ''sequence'', ''source_net'', ''source_port'',
       ''destination_net'', ''destination_port'', ''description'', ''action'', ''direction'', ''target'', ''natreflection''])"

definition pick :: "obj \<Rightarrow> string list \<Rightarrow> obj" where
  "pick row ks = concat (map (\<lambda>k. case map_of row k of Some v \<Rightarrow> [(k, v)] | None \<Rightarrow> []) ks)"

text \<open>One of the four flattened fields of a DNAT row: \<open>side\<close> is source or destination.\<close>

definition endpoint :: "obj \<Rightarrow> string \<Rightarrow> string \<Rightarrow> string \<Rightarrow> string \<times> json" where
  "endpoint row side sfx key =
     (side @ ''_'' @ key,
      case map_of row (side @ ''.'' @ sfx) of Some v \<Rightarrow> v
      | None \<Rightarrow>
        (let old = dget_or (JObj row) (side @ ''_'' @ key) (JStr []) in
         case dget_or (JObj row) side (JObj []) of
           JObj nested \<Rightarrow> dget_or (JObj nested) sfx old
         | _ \<Rightarrow> old))"

definition first_of :: "obj \<Rightarrow> string \<Rightarrow> string \<Rightarrow> json" where
  "first_of row k k' = dget_or (JObj row) k (dget_or (JObj row) k' (JStr []))"

definition is_one :: "obj \<Rightarrow> string \<Rightarrow> string \<Rightarrow> json" where
  "is_one row k dflt = JBool (py_str (dget_or (JObj row) k (JStr dflt)) = ''1'')"

definition pf_fields :: "obj \<Rightarrow> obj" where
  "pf_fields row =
     [endpoint row ''source'' ''network'' ''net'', endpoint row ''source'' ''port'' ''port'',
      endpoint row ''destination'' ''network'' ''net'', endpoint row ''destination'' ''port'' ''port'',
      (''target_port'', first_of row ''local-port'' ''target_port''),
      (''description'', first_of row ''descr'' ''description''),
      (''enabled'', JBool (py_str (dget_or (JObj row) ''disabled'' (JStr ''0'')) \<noteq> ''1'')),
      (''filter_association'', dget_or (JObj row) ''pass'' (JStr []))]"

definition rule_fields :: "obj \<Rightarrow> obj" where
  "rule_fields row =
     [(''log'', is_one row ''log'' ''0''),
      (''protocol'', JStr (lower (py_str (dget_or (JObj row) ''protocol'' (JStr ''any''))))),
      (''quick'', is_one row ''quick'' ''1'')]"

definition lines :: "obj \<Rightarrow> obj" where
  "lines r = (case map_of r ''content'' of
      Some (JStr s) \<Rightarrow> dput r ''content'' (JStr (replace_char (CHR '','') (CHR 0x0A) s)) | _ \<Rightarrow> r)"

text \<open>
  \<^verbatim>\<open>normalize\<close>. A form whose every field is an option dictionary is converted to a text, on which
  \<^verbatim>\<open>row[key]\<close> or \<^verbatim>\<open>row.get\<close> raises.
\<close>

definition normalize :: "resource \<Rightarrow> json \<Rightarrow> obj res" where
  "normalize rsrc row0 = (case selected row0 of
      JObj row \<Rightarrow>
        (let r0 = pick row (shown_fields rsrc);
             r1 = (if rsrc = PortForward then dputs r0 (pf_fields row) else dput r0 ''enabled'' (is_one row ''enabled'' ''1''))
         in Inr (if rsrc \<noteq> Aliases then dputs r1 (rule_fields row) else lines r1))
    | v \<Rightarrow> if list_ex (\<lambda>k. infix_of k (py_str v)) (shown_fields rsrc) then Inl (TypeErr ''string indices must be integers'')
           else Inl (AttrErr ''object has no attribute get''))"

end
