(* ===== verification/Firewall_Facts.thy ===== *)
theory Firewall_Facts
  imports Firewall_Input
begin

text \<open>
  Facts about the firewall forms: what an accepted field satisfies, that an accepted value is accepted
  again, and what an object looks like after it was sent and shown again.
\<close>

section \<open>Texts\<close>

lemma strip_idem [simp]: "strip (strip s) = strip s"
proof -
  let ?t = "dropWhile is_space (rev (dropWhile is_space s))"
  have "dropWhile is_space (rev ?t) = rev ?t"
  proof (cases "dropWhile is_space s")
    case (Cons c cs)
    then have c: "\<not> is_space c" by (metis hd_dropWhile list.distinct(1) list.sel(1))
    then have "\<exists>u. ?t = u @ [c]" using Cons by (auto simp: dropWhile_append)
    with c show ?thesis by auto
  next
    case Nil
    then show ?thesis by (simp only: rev.simps dropWhile.simps)
  qed
  then show ?thesis by (simp add: strip_def)
qed

lemma set_strip: "set (strip s) \<subseteq> set s"
  unfolding strip_def by (metis set_dropWhileD set_rev subsetI)

lemma filter_dropWhile_length: "length (filter p (dropWhile q s)) \<le> length (filter p s)"
  by (induction s) auto

lemma py_len_strip: "py_len (strip s) \<le> py_len s"
proof -
  have "py_len (dropWhile is_space t) \<le> py_len t" for t
    unfolding py_len_def by (rule filter_dropWhile_length)
  moreover have "py_len (rev t) = py_len t" for t
    by (simp add: py_len_def flip: rev_filter)
  ultimately show ?thesis unfolding strip_def by (metis order.trans)
qed

lemma rbnd_Inr_iff [simp]: "(rbnd r f = Inr y) = (\<exists>x. r = Inr x \<and> f x = Inr y)"
  by (cases r) (auto simp: rbnd_def)

lemma rbnd_Inr [simp]: "rbnd (Inr x) f = f x"
  by (simp add: rbnd_def)

section \<open>Accepted fields\<close>

definition text_ok :: "string \<Rightarrow> bool \<Rightarrow> string \<Rightarrow> bool" where
  "text_ok k required s = (strip s = s \<and> CHR 0x00 \<notin> set s \<and> py_len s \<le> max_len k \<and> (required \<longrightarrow> s \<noteq> []))"

definition port_text :: "bool \<Rightarrow> bool \<Rightarrow> string \<Rightarrow> bool" where
  "port_text required rng s = (if s = [] then \<not> required else lower s \<noteq> ''any'' \<and>
     (case port_numbers s of Some ps \<Rightarrow> port_ok rng ps | None \<Rightarrow> port_alias s))"

lemma in_str_Inr: "in_str d k dflt required = Inr s \<Longrightarrow> text_ok k required s"
  using set_strip py_len_strip
  by (fastforce simp: in_str_def text_ok_def split: json.splits if_splits intro: order.trans)

lemma in_str_again: "map_of d k = Some (JStr s) \<Longrightarrow> text_ok k required s \<Longrightarrow> in_str d k dflt required = Inr s"
  by (auto simp: in_str_def dget_or_def text_ok_def)

lemma text_ok_weaken: "text_ok k required s \<Longrightarrow> text_ok k False s"
  by (simp add: text_ok_def)

lemma text_ok_empty: "text_ok k False []"
  by (simp add: text_ok_def strip_def py_len_def)

lemma in_bool_again: "map_of d k = Some (JBool b) \<Longrightarrow> in_bool d k dflt = Inr b"
  by (simp add: in_bool_def dget_or_def)

lemma in_enum_Inr: "in_enum v name cs = Inr s \<Longrightarrow> s = v \<and> v \<in> set cs"
  by (simp add: in_enum_def split: if_splits)

lemma in_enum_again: "v \<in> set cs \<Longrightarrow> in_enum v name cs = Inr v"
  by (simp add: in_enum_def)

lemma in_port_Inr: "in_port d k dflt required rng = Inr s \<Longrightarrow> text_ok k False s \<and> port_text required rng s"
  by (auto simp: in_port_def port_text_def Let_def text_ok_empty split: if_splits option.splits
      dest!: in_str_Inr intro: text_ok_weaken)

lemma in_port_again:
  assumes "map_of d k = Some (JStr s)" "text_ok k False s" "port_text required rng s"
  shows "in_port d k dflt required rng = Inr s"
proof -
  have "required \<longrightarrow> s \<noteq> []" using assms(3) by (auto simp: port_text_def)
  with assms(2) have "text_ok k required s" by (simp add: text_ok_def)
  from in_str_again [OF assms(1) this] assms(3) show ?thesis
    by (auto simp: in_port_def port_text_def lower_def split: option.splits if_splits)
qed

lemma in_sequence_Inr: "in_sequence d = Inr i \<Longrightarrow> 1 \<le> i \<and> i \<le> 999999"
  by (auto simp: in_sequence_def Let_def split: option.splits if_splits)

lemma dec_str_length: "0 \<le> n \<Longrightarrow> n < 10 ^ k \<Longrightarrow> 1 \<le> k \<Longrightarrow> length (dec_str n) \<le> k"
proof (induction n arbitrary: k rule: dec_str.induct)
  case (1 n)
  show ?case
  proof (cases "n < 10")
    case True
    with 1 show ?thesis by (simp add: dec_str.simps [of n])
  next
    case False
    with 1(3) have "k \<noteq> 1" by auto
    with 1(4) obtain m where k: "k = Suc m" "1 \<le> m" by (cases k) auto
    with 1(3) have "n div 10 < 10 ^ m" by auto
    with 1(1) [OF False _ _ k(2)] 1(2) False k show ?thesis by (simp add: dec_str.simps [of n])
  qed
qed

lemma in_sequence_again:
  assumes "map_of d ''sequence'' = Some (JStr (int_str i))" "1 \<le> i" "i \<le> 999999"
  shows "in_sequence d = Inr i"
proof -
  from assms have "isdigit (dec_str i)" "dec_val 0 (dec_str i) = i" "length (dec_str i) \<le> 6"
    using dec_str_digits [of i] dec_str_length [of i 6]
    by (auto simp: isdigit_def nonempty_all_def dec_val_dec_str)
  with assms show ?thesis by (simp add: in_sequence_def dget_or_def int_str_def)
qed

section \<open>Accepted forms\<close>

definition common_ok :: "bool \<Rightarrow> common \<Rightarrow> bool" where
  "common_ok pf c =
     (1 \<le> co_sequence c \<and> co_sequence c \<le> 999999 \<and> text_ok ''interface'' True (co_interface c) \<and>
      co_ipprotocol c \<in> set [''inet'', ''inet6'', ''inet46''] \<and> co_protocol c \<in> set protocols \<and>
      text_ok ''source_net'' True (co_source_net c) \<and>
      text_ok ''source_port'' False (co_source_port c) \<and> port_text False True (co_source_port c) \<and>
      text_ok ''destination_net'' True (co_destination_net c) \<and>
      text_ok ''destination_port'' False (co_destination_port c) \<and> port_text pf True (co_destination_port c) \<and>
      text_ok ''description'' False (co_description c))"

lemma parse_common_Inr: "parse_common pf d = Inr c \<Longrightarrow> common_ok pf c"
  unfolding parse_common_def rbnd_Inr_iff
  by (elim exE conjE, drule in_sequence_Inr, (drule in_str_Inr in_enum_Inr in_port_Inr)+)
    (auto simp: common_ok_def)

definition common_fields :: "common \<Rightarrow> obj \<Rightarrow> bool" where
  "common_fields c d =
     (map_of d ''sequence'' = Some (JStr (int_str (co_sequence c))) \<and>
      map_of d ''interface'' = Some (JStr (co_interface c)) \<and>
      map_of d ''ipprotocol'' = Some (JStr (co_ipprotocol c)) \<and>
      map_of d ''protocol'' = Some (JStr (co_protocol c)) \<and>
      map_of d ''source_net'' = Some (JStr (co_source_net c)) \<and>
      map_of d ''source_port'' = Some (JStr (co_source_port c)) \<and>
      map_of d ''destination_net'' = Some (JStr (co_destination_net c)) \<and>
      map_of d ''destination_port'' = Some (JStr (co_destination_port c)) \<and>
      map_of d ''description'' = Some (JStr (co_description c)) \<and>
      map_of d ''enabled'' = Some (JBool (co_enabled c)))"

lemma choices_text:
  "p \<in> set protocols \<Longrightarrow> text_ok ''protocol'' False p \<and> lower p = p"
  "p \<in> set [''inet'', ''inet6'', ''inet46''] \<Longrightarrow> text_ok ''ipprotocol'' False p"
  by (auto simp: protocols_def text_ok_def max_len_def strip_def is_space_def code_def py_len_def
      lower_def lower_char_def is_upper_def in_range_def Let_def)

lemma parse_common_again:
  assumes "common_ok pf c" "common_fields c d"
  shows "parse_common pf d = Inr c"
proof -
  have p: "co_protocol c \<in> set protocols" "co_ipprotocol c \<in> set [''inet'', ''inet6'', ''inet46'']"
    using assms(1) by (simp_all only: common_ok_def)
  note choices_text(1) [OF p(1)] choices_text(2) [OF p(2)]
  with assms p show ?thesis
    unfolding parse_common_def common_ok_def common_fields_def
    by (simp add: in_sequence_again in_str_again in_port_again in_bool_again in_enum_again del: list.set)
qed

section \<open>Destination NAT forms\<close>

definition common_of_pf :: "pf_input \<Rightarrow> common" where
  "common_of_pf q = \<lparr>co_interface = pf_interface q, co_ipprotocol = pf_ipprotocol q, co_protocol = pf_protocol q,
     co_source_net = pf_source_net q, co_source_port = pf_source_port q,
     co_destination_net = pf_destination_net q, co_destination_port = pf_destination_port q,
     co_description = pf_description q, co_enabled = pf_enabled q, co_sequence = pf_sequence q\<rparr>"

definition pf_ok :: "pf_input \<Rightarrow> bool" where
  "pf_ok q = (common_ok True (common_of_pf q) \<and> pf_protocol q \<in> set [''tcp'', ''udp'', ''tcp/udp''] \<and>
     text_ok ''target'' True (pf_target q) \<and>
     text_ok ''target_port'' False (pf_target_port q) \<and> port_text True False (pf_target_port q) \<and>
     pf_filter_association q \<in> set [[], ''pass'', ''rule''] \<and>
     pf_natreflection q \<in> set [[], ''purenat'', ''disable''])"

lemma parse_port_forward_Inr: "parse_port_forward d = Inr p \<Longrightarrow> \<exists>q. p = pf_payload q \<and> pf_ok q"
  unfolding parse_port_forward_def rbnd_Inr_iff Let_def
  by (elim exE conjE, drule parse_common_Inr, (drule in_str_Inr in_enum_Inr in_port_Inr)+, rule exI, rule conjI,
      rule sym, simp only: sum.inject, simp add: pf_ok_def common_of_pf_def common_ok_def del: list.set)

abbreviation sent :: "resource \<Rightarrow> obj \<Rightarrow> json" where
  "sent rsrc p \<equiv> dget_or (JObj p) (ws_key (specs rsrc)) JNull"

lemma map_of_pick [simp]: "map_of (pick row ks) k = (if k \<in> set ks then map_of row k else None)"
  by (induction ks) (auto simp: pick_def split: option.splits)

lemma endpoint_fst: "fst (endpoint row side sfx key) = side @ ''_'' @ key"
  by (simp add: endpoint_def)

lemma flag_one [simp]: "py_str (flag b) = (if b then ''1'' else ''0'')" "selected (flag b) = flag b"
  by (simp_all add: flag_def)

lemma lower_upper_protocol [simp]: "lower ''TCP/UDP'' = ''tcp/udp''"
  by code_simp

lemma pf_sent: "sent PortForward (pf_payload q) = JObj (case snd (hd (pf_payload q)) of JObj d \<Rightarrow> d | _ \<Rightarrow> [])"
  by (simp add: pf_payload_def dget_or_def)

lemma pf_shown:
  assumes "lower (pf_protocol q) = pf_protocol q"
  shows "\<exists>r. normalize PortForward (sent PortForward (pf_payload q)) = Inr r \<and> common_fields (common_of_pf q) r \<and>
    map_of r ''target'' = Some (JStr (pf_target q)) \<and> map_of r ''target_port'' = Some (JStr (pf_target_port q)) \<and>
    map_of r ''log'' = Some (JBool (pf_log q)) \<and>
    map_of r ''filter_association'' = Some (JStr (pf_filter_association q)) \<and>
    map_of r ''natreflection'' = Some (JStr (pf_natreflection q))"
  using assms
  by (simp add: normalize_def pf_payload_def dget_or_def is_options_def is_option_def shown_fields_def
      pf_fields_def rule_fields_def endpoint_def first_of_def is_one_def common_fields_def common_of_pf_def)

lemma short_text:
  assumes "t \<in> set ([[], ''pass'', ''rule'', ''purenat'', ''disable'', ''block'', ''reject'', ''in'', ''out'', ''any''] ::
    string list)"
  shows "text_ok k False t"
  using assms by (auto simp: text_ok_def max_len_def strip_def is_space_def code_def py_len_def Let_def)

lemma pf_again:
  assumes "pf_ok q"
  shows "\<exists>r. normalize PortForward (sent PortForward (pf_payload q)) = Inr r \<and> parse_port_forward r = Inr (pf_payload q)"
proof -
  from assms have ok: "common_ok True (common_of_pf q)" "pf_protocol q \<in> set [''tcp'', ''udp'', ''tcp/udp'']"
    "text_ok ''target'' True (pf_target q)" "text_ok ''target_port'' False (pf_target_port q)"
    "port_text True False (pf_target_port q)" "pf_filter_association q \<in> set [[], ''pass'', ''rule'']"
    "pf_natreflection q \<in> set [[], ''purenat'', ''disable'']"
    by (simp_all only: pf_ok_def)
  then have "pf_protocol q \<in> set protocols" by (auto simp: common_ok_def common_of_pf_def)
  from choices_text(1) [OF this] obtain r where r: "normalize PortForward (sent PortForward (pf_payload q)) = Inr r"
    "common_fields (common_of_pf q) r" "map_of r ''target'' = Some (JStr (pf_target q))"
    "map_of r ''target_port'' = Some (JStr (pf_target_port q))" "map_of r ''log'' = Some (JBool (pf_log q))"
    "map_of r ''filter_association'' = Some (JStr (pf_filter_association q))"
    "map_of r ''natreflection'' = Some (JStr (pf_natreflection q))"
    using pf_shown by blast
  have enums: "text_ok ''filter_association'' False (pf_filter_association q)"
    "text_ok ''natreflection'' False (pf_natreflection q)"
    by (rule short_text; use ok in auto)+
  have "co_protocol (common_of_pf q) = pf_protocol q" by (simp add: common_of_pf_def)
  with r ok enums parse_common_again [OF ok(1) r(2)] have "parse_port_forward r = Inr (pf_payload q)"
    unfolding parse_port_forward_def
    by (simp add: in_str_again in_port_again in_bool_again in_enum_again del: list.set)
      (cases q, simp add: common_of_pf_def)
  with r show ?thesis by blast
qed

section \<open>Rule forms\<close>

definition common_of_rule :: "rule_input \<Rightarrow> common" where
  "common_of_rule q = \<lparr>co_interface = ru_interface q, co_ipprotocol = ru_ipprotocol q, co_protocol = ru_protocol q,
     co_source_net = ru_source_net q, co_source_port = ru_source_port q,
     co_destination_net = ru_destination_net q, co_destination_port = ru_destination_port q,
     co_description = ru_description q, co_enabled = ru_enabled q, co_sequence = ru_sequence q\<rparr>"

definition rule_ok :: "rule_input \<Rightarrow> bool" where
  "rule_ok q = (common_ok False (common_of_rule q) \<and> ru_action q \<in> set [''pass'', ''block'', ''reject''] \<and>
     ru_direction q \<in> set [''in'', ''out'', ''any''])"

lemma parse_rule_Inr: "parse_rule d = Inr p \<Longrightarrow> \<exists>q lg quick. p = rule_form q lg quick \<and> rule_ok q"
  unfolding parse_rule_def rbnd_Inr_iff
  by (elim exE conjE, drule parse_common_Inr, (drule in_str_Inr in_enum_Inr)+, rule exI, rule exI, rule exI, rule conjI,
      rule sym, simp only: sum.inject, simp add: rule_ok_def common_of_rule_def common_ok_def del: list.set)

lemma rule_form_eq:
  "rule_form q lg quick = [(''rule'', JObj [(''enabled'', flag (ru_enabled q)),
     (''sequence'', JStr (int_str (ru_sequence q))), (''action'', JStr (ru_action q)),
     (''direction'', JStr (ru_direction q)), (''ipprotocol'', JStr (ru_ipprotocol q)),
     (''protocol'', JStr (if ru_protocol q = ''tcp/udp'' then ''TCP/UDP'' else ru_protocol q)),
     (''source_net'', JStr (ru_source_net q)), (''source_port'', JStr (ru_source_port q)),
     (''destination_net'', JStr (ru_destination_net q)), (''destination_port'', JStr (ru_destination_port q)),
     (''interface'', JStr (ru_interface q)), (''description'', JStr (ru_description q)),
     (''log'', flag lg), (''quick'', flag quick)])]"
  by (cases "ru_protocol q = ''tcp/udp''") (simp_all add: rule_form_def rule_payload_def)

lemma lower_sent:
  "lower p = p \<Longrightarrow> lower (if p = ''tcp/udp'' then ''TCP/UDP'' else p) = p"
  by simp

lemma rule_shown:
  assumes "lower (ru_protocol q) = ru_protocol q"
  shows "\<exists>r. normalize Rules (sent Rules (rule_form q lg quick)) = Inr r \<and> common_fields (common_of_rule q) r \<and>
    map_of r ''action'' = Some (JStr (ru_action q)) \<and> map_of r ''direction'' = Some (JStr (ru_direction q)) \<and>
    map_of r ''log'' = Some (JBool lg) \<and> map_of r ''quick'' = Some (JBool quick)"
  using assms
  by (simp add: normalize_def rule_form_eq dget_or_def is_options_def is_option_def shown_fields_def
      rule_fields_def is_one_def common_fields_def common_of_rule_def lower_sent del: if_split)

lemma rule_again:
  assumes "rule_ok q"
  shows "\<exists>r. normalize Rules (sent Rules (rule_form q lg quick)) = Inr r \<and> parse_rule r = Inr (rule_form q lg quick)"
proof -
  from assms have ok: "common_ok False (common_of_rule q)" "ru_action q \<in> set [''pass'', ''block'', ''reject'']"
    "ru_direction q \<in> set [''in'', ''out'', ''any'']"
    by (simp_all only: rule_ok_def)
  then have "ru_protocol q \<in> set protocols" by (auto simp: common_ok_def common_of_rule_def)
  from choices_text(1) [OF this] obtain r where r: "normalize Rules (sent Rules (rule_form q lg quick)) = Inr r"
    "common_fields (common_of_rule q) r" "map_of r ''action'' = Some (JStr (ru_action q))"
    "map_of r ''direction'' = Some (JStr (ru_direction q))"
    "map_of r ''log'' = Some (JBool lg)" "map_of r ''quick'' = Some (JBool quick)"
    using rule_shown by blast
  have enums: "text_ok ''action'' False (ru_action q)" "text_ok ''direction'' False (ru_direction q)"
    by (rule short_text; use ok in auto)+
  from r ok enums parse_common_again [OF ok(1) r(2)] have "parse_rule r = Inr (rule_form q lg quick)"
    unfolding parse_rule_def
    by (simp add: in_str_again in_bool_again in_enum_again del: list.set)
      (cases q, simp add: common_of_rule_def)
  with r show ?thesis by blast
qed

section \<open>Shown objects\<close>

lemma keys_dputs: "fst ` set (dputs d kvs) = fst ` set d \<union> fst ` set kvs"
  by (induction d kvs rule: dputs.induct) auto

lemma keys_pick: "fst ` set (pick row ks) \<subseteq> set ks"
  by (induction ks) (auto simp: pick_def split: option.splits)

lemma keys_lines: "fst ` set (lines r) = fst ` set r"
proof (cases "map_of r ''content''")
  case (Some v)
  then have "''content'' \<in> fst ` set r" by (metis domI dom_map_of_conv_image_fst)
  with Some show ?thesis by (cases v) (auto simp: lines_def)
qed (simp add: lines_def)

text \<open>Of an alias only six fields and the state are shown, whatever the firewall returned.\<close>

lemma alias_shown:
  assumes "normalize Aliases v = Inr r"
  shows "fst ` set r \<subseteq> insert ''enabled'' (set (shown_fields Aliases))"
proof -
  from assms obtain row where "r = lines (dput (pick row (shown_fields Aliases)) ''enabled'' (is_one row ''enabled'' ''1''))"
    by (auto simp: normalize_def Let_def split: json.splits if_splits)
  then show ?thesis using keys_pick [of row "shown_fields Aliases"] by (simp only: keys_lines fst_set_dput) blast
qed

end
