(* ===== verification/Firewall_Routes.thy ===== *)
theory Firewall_Routes
  imports Firewall_Facts Legacy_Routes
begin

text \<open>
  The handlers of \<^verbatim>\<open>src/routes/firewall.py\<close> over the verified writer: the list, the detail and
  the action of port forwards, filter rules and aliases.
\<close>

section \<open>Results as JSON\<close>

definition entry_json :: "audit_entry \<Rightarrow> json" where
  "entry_json a = JObj [(''ts'', JStr (ae_ts a)), (''user'', JStr (ae_user a)), (''action'', JStr (ae_action a)),
     (''target'', JStr (ae_target a)), (''host'', JStr (ae_host a)), (''result'', JStr (ae_result a)),
     (''duration_ms'', JInt (ae_duration_ms a)), (''detail'', JStr (ae_detail a)),
     (''payload_sha256'', JStr (ae_payload_sha256 a))]"

definition sync_json :: "sync_result \<Rightarrow> json" where
  "sync_json s = JObj ([(''triggered'', JBool (sr_triggered s)), (''mode'', JStr (mode_name (sr_mode s))),
     (''verified'', JBool (sr_verified s)), (''attempts'', JInt (int (sr_attempts s))),
     (''detail'', JStr (sr_detail s))] @
     (case sr_cleanup s of None \<Rightarrow> [] | Some c \<Rightarrow> [(''peer_cleanup'', cleanup_json c)]))"

definition opt_json :: "('a \<Rightarrow> json) \<Rightarrow> 'a option \<Rightarrow> json" where
  "opt_json f v = (case v of None \<Rightarrow> JNull | Some x \<Rightarrow> f x)"

definition result_json :: "vresult \<Rightarrow> json" where
  "result_json r = JObj ([(''ok'', JBool (vr_ok r)), (''uuid'', JStr (vr_uuid r)),
     (''action'', JStr (action_name (vr_action r))), (''detail'', JStr (vr_detail r)),
     (''verified'', JBool (vr_verified r)), (''applied'', JBool (vr_applied r)),
     (''sync'', opt_json sync_json (vr_sync r)), (''rollback'', rollback_json (vr_rollback r)),
     (''audit'', opt_json entry_json (vr_audit r))] @
     (case vr_error r of None \<Rightarrow> [] | Some e \<Rightarrow> [(''error'', JStr e)]) @
     (case vr_validations r of None \<Rightarrow> [] | Some v \<Rightarrow> [(''validations'', v)]))"

section \<open>Errors\<close>

fun fw_code :: "exn \<Rightarrow> int \<times> string" where
  "fw_code (AuthErr _) = (401, ''auth'')"
| "fw_code (TimeoutErr _) = (504, ''timeout'')"
| "fw_code _ = (502, ''upstream'')"

definition fw_error :: "exn \<Rightarrow> reply" where
  "fw_error e = (fst (fw_code e), JObj ([(''ok'', JBool False), (''error'', JStr (snd (fw_code e))),
     (''detail'', JStr (exn_str e))] @
     (if infix_of ''HTTP 404'' (exn_str e) then [(''supported'', JBool False)] else [])))"

definition resource_of :: "string \<Rightarrow> resource option" where
  "resource_of s = (if s = ''port_forward'' then Some PortForward else if s = ''rules'' then Some Rules
     else if s = ''aliases'' then Some Aliases else None)"

definition reader :: "host \<Rightarrow> resource \<Rightarrow> writer res" where
  "reader h rsrc = rbnd (mk_client h) (\<lambda>c.
     mk_writer c rsrc ''plugin'' None (JInt 6) (JFloat ''0.5'') (JStr ''automatic''))"

definition capabilities :: "string \<times> json" where
  "capabilities = (''capabilities'', JObj [(''create'', JBool True), (''update'', JBool True), (''delete'', JBool True)])"

section \<open>Reading\<close>

definition item_of :: "resource \<Rightarrow> string \<Rightarrow> json \<Rightarrow> obj res" where
  "item_of rsrc u detail = rbnd (normalize rsrc detail) (\<lambda>r. Inr (dputs r [(''uuid'', JStr u),
     (''editable'', JBool True), (''revision'', JStr (hash_payload detail))]))"

text \<open>One row of the list: a row without a valid UUID cannot be edited.\<close>

definition fw_row :: "writer \<Rightarrow> bool \<Rightarrow> json \<Rightarrow> obj io" where
  "fw_row w summary row = (case validate_uuid (dget_or row ''uuid'' JNull) of
      Inl _ \<Rightarrow> of_res (rbnd (normalize (vw_resource w) row) (\<lambda>r. Inr (dput r ''editable'' (JBool False))))
    | Inr u \<Rightarrow>
        if summary then of_res (rbnd (normalize (vw_resource w) row) (\<lambda>r. Inr (dputs r [(''uuid'', JStr u),
          (''editable'', JBool True), (''detail_required'', JBool True)])))
        else bnd (get w u (vw_client w)) (\<lambda>detail. of_res (item_of (vw_resource w) u detail)))"

fun fw_rows :: "writer \<Rightarrow> bool \<Rightarrow> json list \<Rightarrow> obj list io" where
  "fw_rows w summary [] = ret []"
| "fw_rows w summary (row # rows) =
     bnd (fw_row w summary row) (\<lambda>x. bnd (fw_rows w summary rows) (\<lambda>xs. ret (x # xs)))"

fun is_value_err :: "exn \<Rightarrow> bool" where
  "is_value_err (ValueErr _) = True"
| "is_value_err _ = False"

definition firewall_list :: "host \<Rightarrow> string \<Rightarrow> bool \<Rightarrow> reply io" where
  "firewall_list h res_name summary = (case resource_of res_name of
      None \<Rightarrow> ret (refuse 400 ''bad_request'' ''Unknown resource'')
    | Some rsrc \<Rightarrow>
        try_else (bnd (of_res (reader h rsrc)) (\<lambda>w.
            bnd (search w (vw_client w)) (\<lambda>rows. fw_rows w summary rows)))
          (\<lambda>e. is_opn e \<or> is_value_err e) (\<lambda>e. ret (fw_error e))
          (\<lambda>items. ret (fine (JObj [(if rsrc = Aliases then ''aliases'' else ''rules'', JArr (map JObj items)),
             (''total'', JInt (int (length items))), (''supported'', JBool True), capabilities]))))"

definition firewall_detail :: "host \<Rightarrow> string \<Rightarrow> json \<Rightarrow> reply io" where
  "firewall_detail h res_name uuid = (case resource_of res_name of
      None \<Rightarrow> ret (refuse 400 ''bad_request'' ''Unknown resource'')
    | Some rsrc \<Rightarrow> (case validate_uuid uuid of
        Inl e \<Rightarrow> ret (refuse 400 ''bad_request'' (exn_str e))
      | Inr u \<Rightarrow>
          try_else (bnd (of_res (reader h rsrc)) (\<lambda>w.
              bnd (get w u (vw_client w)) (\<lambda>detail. of_res (item_of rsrc u detail))))
            is_opn (\<lambda>e. ret (fw_error e))
            (\<lambda>item. ret (fine (JObj [(''item'', JObj item), (''supported'', JBool True), capabilities])))))"

section \<open>Writing\<close>

record fw_args =
  fa_host :: host
  fa_actor :: string
  fa_peer :: "host option"
  fa_resource :: string
  fa_attempts :: json
  fa_backoff :: json
  fa_mode :: json

definition action_of :: "json \<Rightarrow> action option" where
  "action_of v = (if v = JStr ''create'' then Some Create else if v = JStr ''update'' then Some Update
     else if v = JStr ''delete'' then Some Delete else None)"

text \<open>What the handler computes before it calls \<^verbatim>\<open>execute\<close>.\<close>

definition fw_request :: "fw_args \<Rightarrow> json \<Rightarrow> (writer \<times> action \<times> obj option \<times> string \<times> string) res" where
  "fw_request a body = (case (resource_of (fa_resource a), body) of
      (Some rsrc, JObj d) \<Rightarrow> (case action_of (dget_or body ''action'' JNull) of
          None \<Rightarrow> Inl (ValueErr ''action must be create|update|delete'')
        | Some act \<Rightarrow>
            rbnd (if act = Create then Inr [] else validate_uuid (dget_or body ''uuid'' JNull)) (\<lambda>u.
            rbnd (if act = Create then Inr [] else validate_revision (dget_or body ''revision'' JNull)) (\<lambda>rv.
            rbnd (if act = Delete then Inr None else rbnd (parse_payload rsrc
                (dget_or body (if rsrc = Aliases then ''alias'' else ''rule'') JNull)) (\<lambda>p. Inr (Some p))) (\<lambda>payload.
            rbnd (mk_client (fa_host a)) (\<lambda>c.
            rbnd (case fa_peer a of None \<Rightarrow> Inr None | Some ph \<Rightarrow> rbnd (mk_client ph) (\<lambda>p. Inr (Some p))) (\<lambda>peer.
            rbnd (mk_writer c rsrc (fa_actor a) peer (fa_attempts a) (fa_backoff a) (fa_mode a)) (\<lambda>w.
            Inr (w, act, payload, u, rv))))))))
    | _ \<Rightarrow> Inl (ValueErr ''Expected a JSON object and valid resource''))"

definition status_of :: "vresult \<Rightarrow> int" where
  "status_of r = (if vr_ok r then 200 else
     (case vr_error r of Some e \<Rightarrow>
        if e = ''validation'' then 422 else if e = ''auth'' then 401 else if e = ''timeout'' then 504
        else if e \<in> {''ha_unverified'', ''ha_unsafe'', ''conflict''} then 409 else 502
      | None \<Rightarrow> 502))"

definition envelope :: "vresult \<Rightarrow> json" where
  "envelope r = JObj ([(''ok'', JBool (vr_ok r)), (''data'', result_json r)] @
     (if vr_ok r then [] else [(''error'', JStr (case vr_error r of Some e \<Rightarrow> e | None \<Rightarrow> ''upstream'')),
        (''detail'', JStr (vr_detail r))]))"

definition firewall_action :: "fw_args \<Rightarrow> bool \<Rightarrow> json \<Rightarrow> reply io" where
  "firewall_action a read_only body =
     (if read_only then ret (refuse 403 ''read_only'' ''Plugin is read-only'')
      else try_else
        (bnd (of_res (fw_request a body)) (\<lambda>(w, act, payload, u, rv). execute w act payload (JStr u) (JStr rv)))
        (\<lambda>e. is_bad_request e \<or> is_opn e \<or> is_os e)
        (\<lambda>e. ret (if is_bad_request e then refuse 400 ''bad_request'' (exn_str e) else fw_error e))
        (\<lambda>r. ret (status_of r, envelope r)))"

end
