(* ===== verification/Firewall_Props.thy ===== *)
theory Firewall_Props
  imports Firewall_Routes Demo
begin

text \<open>
  The properties of the firewall forms and their handlers, \<^verbatim>\<open>src/routes/firewall.py\<close>.
\<close>

section \<open>What a program returns\<close>

definition returns :: "'a io \<Rightarrow> ('a \<Rightarrow> bool) \<Rightarrow> bool" where
  "returns m P = runs m (\<lambda>r es. \<forall>x. r = Inr x \<longrightarrow> P x)"

lemma returns_simps [simp]: "returns (ret x) P = P x" "returns (raise e) P"
  "returns (of_res r) P = (\<forall>x. r = Inr x \<longrightarrow> P x)"
  by (simp_all add: returns_def)

lemma returns_any: "runs m (\<lambda>r es. True) \<Longrightarrow> returns m (\<lambda>x. True)"
  by (simp add: returns_def)

lemma returns_bnd: "returns m Q \<Longrightarrow> (\<And>x. Q x \<Longrightarrow> returns (f x) P) \<Longrightarrow> returns (bnd m f) P"
  unfolding returns_def by (rule runs_bnd, assumption) (auto elim!: runs_conseq)

lemma returns_try_else:
  "returns m Q \<Longrightarrow> (\<And>e. returns (h e) P) \<Longrightarrow> (\<And>x. Q x \<Longrightarrow> returns (f x) P) \<Longrightarrow> returns (try_else m p h f) P"
  unfolding returns_def by (rule runs_try_else, assumption) (auto elim!: runs_conseq)

lemma mk_writer_Inr:
  "mk_writer c rsrc actor peer n b m = Inr w \<Longrightarrow>
   vw_client w = c \<and> vw_resource w = rsrc \<and> vw_actor w = actor \<and> vw_peer w = peer"
  unfolding mk_writer_def Let_def by (auto split: option.splits if_splits json.splits)

section \<open>Reading\<close>

lemma read_only_fw_rows [trace_intros]: "read_only_io (fw_rows w summary rows)"
proof (induction rows)
  case (Cons row rows)
  have "read_only_io (fw_row w summary row)"
    unfolding fw_row_def by (auto split: sum.split intro!: trace_intros)
  with Cons show ?case by (auto intro!: trace_intros)
qed (auto intro: trace_intros)

lemma read_only_firewall_list: "read_only_io (firewall_list h res_name summary)"
  unfolding firewall_list_def by (auto split: option.split intro!: trace_intros)

definition alias_keys :: "string set" where
  "alias_keys = {''uuid'', ''name'', ''type'', ''content'', ''description'', ''proto'', ''enabled'', ''editable'',
     ''revision'', ''detail_required''}"

definition shown_items :: "reply \<Rightarrow> json list" where
  "shown_items rep = (case dget (snd rep) ''data'' of None \<Rightarrow> []
     | Some d \<Rightarrow> (case dget d ''aliases'' of Some (JArr vs) \<Rightarrow> vs | _ \<Rightarrow> []))"

abbreviation hides :: "obj \<Rightarrow> bool" where
  "hides kvs \<equiv> fst ` set kvs \<subseteq> alias_keys"

lemma normalize_hides: "normalize Aliases v = Inr r \<Longrightarrow> hides r"
  by (drule alias_shown) (auto simp: shown_fields_def alias_keys_def)

lemma hides_dput: "hides r \<Longrightarrow> k \<in> alias_keys \<Longrightarrow> hides (dput r k v)"
  by simp

lemma marks: "''uuid'' \<in> alias_keys" "''editable'' \<in> alias_keys" "''revision'' \<in> alias_keys"
  "''detail_required'' \<in> alias_keys"
  by (simp_all add: alias_keys_def)

lemma returns_normalized:
  "(\<And>r. hides r \<Longrightarrow> P (f r)) \<Longrightarrow> returns (of_res (rbnd (normalize Aliases v) (\<lambda>r. Inr (f r)))) P"
  using normalize_hides by (auto simp: rbnd_def split: sum.splits)

lemma fw_row_hides:
  assumes "vw_resource w = Aliases" shows "returns (fw_row w summary row) hides"
proof -
  have "returns (get w u c) (\<lambda>x. True)" for u c
    by (rule returns_any, rule read_only_any, rule read_only_get)
  then have "returns (bnd (get w u (vw_client w)) (\<lambda>d. of_res (item_of Aliases u d))) hides" for u
    unfolding item_of_def dputs.simps
    by (rule returns_bnd) (intro returns_normalized hides_dput marks)
  then show ?thesis
    unfolding fw_row_def assms dputs.simps
    by (cases "validate_uuid (dget_or row ''uuid'' JNull)"; cases summary; simp only: sum.case if_True if_False;
        intro returns_normalized hides_dput marks; assumption?)
qed

lemma fw_rows_hides: "vw_resource w = Aliases \<Longrightarrow> returns (fw_rows w summary rows) (list_all hides)"
proof (induction rows)
  case (Cons row rows)
  show ?case
    unfolding fw_rows.simps
    by (rule returns_bnd [OF fw_row_hides [OF Cons.prems]], rule returns_bnd [OF Cons.IH [OF Cons.prems]]) simp
qed simp

section \<open>Forms\<close>

text \<open>C17: the object that an accepted rule or port-forward form is sent as, when it is read back from
  the firewall unchanged, is shown as a form that is accepted and stands for the same object.\<close>

theorem form_roundtrip:
  assumes "parse_payload rsrc data = Inr p" and "rsrc \<noteq> Aliases"
  shows "\<exists>shown. normalize rsrc (sent rsrc p) = Inr shown \<and> parse_payload rsrc (JObj shown) = Inr p"
proof -
  obtain d where d: "data = JObj d"
    using assms(1) by (auto simp: parse_payload_def split: json.splits)
  show ?thesis
  proof (cases rsrc)
    case PortForward
    with assms(1) d have "parse_port_forward d = Inr p" by (simp add: parse_payload_def)
    then obtain q where "p = pf_payload q" "pf_ok q" using parse_port_forward_Inr by blast
    with pf_again [of q] PortForward show ?thesis by (simp add: parse_payload_def)
  next
    case Rules
    with assms(1) d have "parse_rule d = Inr p" by (simp add: parse_payload_def)
    then obtain q lg quick where "p = rule_form q lg quick" "rule_ok q" using parse_rule_Inr by blast
    with rule_again [of q lg quick] Rules show ?thesis by (simp add: parse_payload_def)
  qed (use assms(2) in simp)
qed

definition demo_form :: json where
  "demo_form = JObj [(''interface'', JStr ''wan''), (''destination_port'', JStr ''443''),
     (''target'', JStr ''10.0.0.2''), (''target_port'', JStr ''8443'')]"

lemma demo_form_accepted: "\<exists>p. parse_payload PortForward demo_form = Inr p"
proof -
  have "case parse_payload PortForward demo_form of Inl e \<Rightarrow> False | Inr p \<Rightarrow> True" by code_simp
  then show ?thesis by (cases "parse_payload PortForward demo_form") auto
qed

theorem form_roundtrip_witness:
  "\<exists>p shown. parse_payload PortForward demo_form = Inr p \<and> parse_payload PortForward (JObj shown) = Inr p"
proof -
  obtain p where p: "parse_payload PortForward demo_form = Inr p" using demo_form_accepted by blast
  have "PortForward \<noteq> Aliases" by simp
  from form_roundtrip [OF p this] p show ?thesis by blast
qed

lemma port_numbers_shape: "port_numbers s = Some ps \<Longrightarrow> (\<exists>a. ps = [a]) \<or> (\<exists>a b. ps = [a, b])"
  by (auto simp: port_numbers_def Let_def split: list.splits if_splits)

lemma port_text_cases:
  assumes "port_text True rng s"
  obtains "port_alias s" | ps where "port_numbers s = Some ps" "port_ok rng ps"
  using assms by (auto simp: port_text_def split: if_splits option.splits)

lemma port_single:
  assumes "port_text True False s"
  shows "port_alias s \<or> (\<exists>n. port_numbers s = Some [n] \<and> 1 \<le> n \<and> n \<le> 65535)"
  using assms
proof (rule port_text_cases)
  fix ps assume ps: "port_numbers s = Some ps" "port_ok False ps"
  with port_numbers_shape [OF ps(1)] show ?thesis by (auto simp: port_ok_def)
qed simp

lemma port_range:
  assumes "port_text True True s"
  shows "port_alias s \<or> (\<exists>a b. 1 \<le> a \<and> a \<le> b \<and> b \<le> 65535 \<and>
    (port_numbers s = Some [a, b] \<or> a = b \<and> port_numbers s = Some [a]))"
  using assms
proof (rule port_text_cases)
  fix ps assume ps: "port_numbers s = Some ps" "port_ok True ps"
  show ?thesis
    using port_numbers_shape [OF ps(1)]
  proof (elim disjE exE)
    fix a assume "ps = [a]"
    with ps show ?thesis by (intro disjI2 exI [of _ a]) (auto simp: port_ok_def)
  next
    fix a b assume "ps = [a, b]"
    with ps show ?thesis by (intro disjI2 exI [of _ a] exI [of _ b]) (auto simp: port_ok_def)
  qed
qed simp

text \<open>C18: an accepted port forward has a sequence between 1 and 999999, a target port that is an alias
  or one number between 1 and 65535, and a destination that is an alias, a port or an ascending range.\<close>

theorem forward_ports:
  assumes "parse_payload PortForward data = Inr p"
  shows "\<exists>q. p = pf_payload q \<and> 1 \<le> pf_sequence q \<and> pf_sequence q \<le> 999999 \<and>
    (port_alias (pf_target_port q) \<or>
      (\<exists>n. port_numbers (pf_target_port q) = Some [n] \<and> 1 \<le> n \<and> n \<le> 65535)) \<and>
    (port_alias (pf_destination_port q) \<or> (\<exists>a b. 1 \<le> a \<and> a \<le> b \<and> b \<le> 65535 \<and>
      (port_numbers (pf_destination_port q) = Some [a, b] \<or> a = b \<and> port_numbers (pf_destination_port q) = Some [a])))"
proof -
  obtain q where q: "p = pf_payload q" "pf_ok q"
    using assms by (auto simp: parse_payload_def split: json.splits dest: parse_port_forward_Inr)
  then have "1 \<le> pf_sequence q" "pf_sequence q \<le> 999999" "port_text True True (pf_destination_port q)"
    "port_text True False (pf_target_port q)"
    by (simp_all add: pf_ok_def common_ok_def common_of_pf_def)
  with q show ?thesis by (intro exI [of _ q] conjI port_single port_range)
qed

theorem forward_ports_witness:
  "\<exists>p q. parse_payload PortForward demo_form = Inr p \<and> p = pf_payload q \<and> pf_sequence q \<le> 999999"
proof -
  obtain p where p: "parse_payload PortForward demo_form = Inr p" using demo_form_accepted by blast
  from forward_ports [OF p] p show ?thesis by blast
qed

text \<open>Listing aliases sends nothing, writes no audit line, and shows of each alias only the fields
  of the form: whatever else the firewall returns (such as the credentials of a URL alias) is left out.\<close>

theorem alias_list_hides:
  "runs (firewall_list h ''aliases'' summary) (\<lambda>r es. targets es = [] \<and> audit_lines es = [] \<and>
     (\<forall>rep item. r = Inr rep \<longrightarrow> item \<in> set (shown_items rep) \<longrightarrow> set (dkeys item) \<subseteq> alias_keys))"
proof -
  have ret: "returns (firewall_list h ''aliases'' summary) (\<lambda>rep. \<forall>item \<in> set (shown_items rep). set (dkeys item) \<subseteq> alias_keys)"
  proof -
    have err: "shown_items (fw_error e) = []" for e
      by (simp add: shown_items_def fw_error_def)
    have res: "resource_of ''aliases'' = Some Aliases" by (simp add: resource_of_def)
    have w: "reader h Aliases = Inr w \<Longrightarrow> vw_resource w = Aliases" for w
      by (auto simp: reader_def dest: mk_writer_Inr)
    have search: "returns (search w c) (\<lambda>rows. True)" for w c
      by (rule returns_any, rule read_only_any, rule read_only_search)
    have rows: "returns (bnd (of_res (reader h Aliases)) (\<lambda>w. bnd (search w (vw_client w)) (\<lambda>rows. fw_rows w summary rows)))
      (list_all hides)"
      by (rule returns_bnd [where Q = "\<lambda>w. vw_resource w = Aliases"], simp add: w,
          rule returns_bnd [OF search], erule fw_rows_hides)
    have items: "shown_items (fine (JObj [(''aliases'', JArr vs), t, s, c])) = vs" for vs t s c
      by (simp add: shown_items_def fine_def)
    show ?thesis
      unfolding firewall_list_def res option.case if_P [OF refl]
      by (rule returns_try_else [OF rows]) (simp_all only: returns_simps err items, auto simp: dkeys_def list_all_iff)
  qed
  show ?thesis
    by (rule runs_both [OF read_only_firewall_list [unfolded read_only_io_def] ret [unfolded returns_def]])
      (auto simp: silent_targets)
qed

definition demo_aliases :: json where
  "demo_aliases = JObj [(''rows'', JArr [JObj [(''uuid'', JStr demo_uuid), (''name'', JStr ''feed''),
     (''password'', JStr ''secret'')]])]"

lemma demo_reader:
  "\<exists>w. reader demo_host rsrc = Inr w \<and> vw_client w = demo_client \<and> vw_resource w = rsrc"
proof -
  have "json_rat (JFloat ''0.5'') = Some (1 / 2)" by code_simp
  then show ?thesis
    by (simp add: reader_def mk_client_def mk_writer_def demo_host_def demo_client_def)
qed

lemma demo_alias_list:
  "\<exists>rep tr'. firewall_list demo_host ''aliases'' True (demo_env (\<lambda>p. answer saved) (\<lambda>p. Some demo_aliases) None) [] = (Inr rep, tr') \<and>
     length (shown_items rep) = 1"
proof -
  obtain w where w: "reader demo_host Aliases = Inr w" "vw_client w = demo_client" "vw_resource w = Aliases"
    using demo_reader by blast
  have rows: "check_search Aliases demo_aliases = Inr [JObj [(''uuid'', JStr demo_uuid), (''name'', JStr ''feed''),
      (''password'', JStr ''secret'')]]"
    by code_simp
  obtain r where r: "normalize Aliases (JObj [(''uuid'', JStr demo_uuid), (''name'', JStr ''feed''),
      (''password'', JStr ''secret'')]) = Inr r"
    by (simp add: normalize_def is_options_def is_option_def)
  from w rows r show ?thesis
    by (simp add: run_simps firewall_list_def resource_of_def search_def fw_row_def dget_or_def shown_items_def fine_def)
qed

theorem alias_list_hides_witness:
  "\<exists>rep. fst (firewall_list demo_host ''aliases'' True (demo_env (\<lambda>p. answer saved) (\<lambda>p. Some demo_aliases) None) []) = Inr rep \<and>
     length (shown_items rep) = 1 \<and> set (dkeys (shown_items rep ! 0)) \<subseteq> alias_keys"
proof -
  obtain rep tr' where run: "firewall_list demo_host ''aliases'' True (demo_env (\<lambda>p. answer saved) (\<lambda>p. Some demo_aliases) None) [] =
      (Inr rep, tr')" "length (shown_items rep) = 1"
    using demo_alias_list by blast
  then have "shown_items rep ! 0 \<in> set (shown_items rep)" by (intro nth_mem) linarith
  with run(1) have "set (dkeys (shown_items rep ! 0)) \<subseteq> alias_keys"
    by (rule_tac runsE [OF alias_list_hides run(1)]) (elim conjE allE impE, rule refl, assumption+)
  with run show ?thesis by simp
qed

section \<open>The action handler\<close>

lemma fw_request_Inr:
  assumes "fw_request a body = Inr (w, act, payload, u, rv)"
  shows "vw_actor w = fa_actor a \<and> given_uuid act (JStr u) = u"
proof -
  from assms obtain rsrc d where r: "resource_of (fa_resource a) = Some rsrc" "body = JObj d"
    by (auto simp: fw_request_def split: option.splits json.splits)
  with assms obtain act' where act: "action_of (dget_or body ''action'' JNull) = Some act'"
    by (auto simp: fw_request_def split: option.splits)
  from assms have "act' = act" "vw_actor w = fa_actor a"
    "(if act' = Create then Inr [] else validate_uuid (dget_or body ''uuid'' JNull)) = Inr u"
    unfolding fw_request_def r(1) r(2) [symmetric] act
    by (auto simp: r(2) act [unfolded r(2)] dest: mk_writer_Inr)
  then show ?thesis by (auto simp: given_uuid_def) (simp add: validate_uuid_again)
qed

text \<open>The writer that the handler builds, and what it is asked for.\<close>

lemma parse_payload_nonempty: "parse_payload rsrc data = Inr p \<Longrightarrow> p \<noteq> []"
  by (auto simp: parse_payload_def parse_port_forward_def parse_rule_def parse_alias_def pf_payload_def rule_form_def rule_payload_def alias_payload_def
      rbnd_def Let_def split: json.splits resource.splits sum.splits if_splits option.splits)

lemma fw_request_writer:
  assumes "fw_request a body = Inr (w, act, payload, u, rv)"
  shows "c_host (vw_client w) = fa_host a" "map_option c_host (vw_peer w) = fa_peer a"
    "resource_name (vw_resource w) = fa_resource a" "requested w payload expected \<Longrightarrow> expected = None \<longleftrightarrow> act = Delete"
proof -
  from assms obtain rsrc d where r: "resource_of (fa_resource a) = Some rsrc" "body = JObj d"
    by (auto simp: fw_request_def split: option.splits json.splits)
  with assms obtain act' where act: "action_of (dget_or body ''action'' JNull) = Some act'"
    by (auto simp: fw_request_def split: option.splits)
  from assms obtain c peer where w: "mk_client (fa_host a) = Inr c" "act' = act"
      "mk_writer c rsrc (fa_actor a) peer (fa_attempts a) (fa_backoff a) (fa_mode a) = Inr w"
      "(case fa_peer a of None \<Rightarrow> Inr None | Some ph \<Rightarrow> rbnd (mk_client ph) (\<lambda>p. Inr (Some p))) = Inr peer"
      "(if act' = Delete then Inr None else rbnd (parse_payload rsrc
                (dget_or body (if rsrc = Aliases then ''alias'' else ''rule'') JNull)) (\<lambda>p. Inr (Some p))) = Inr payload"
    unfolding fw_request_def r(1) r(2) [symmetric] act
    by (auto simp: r(2) act [unfolded r(2)])
  have m: "mk_client h = Inr c \<Longrightarrow> c_host c = h" for h c
    by (auto simp: mk_client_def split: if_splits)
  from mk_writer_Inr [OF w(3)] m [OF w(1)] show "c_host (vw_client w) = fa_host a" by simp
  from mk_writer_Inr [OF w(3)] w(4) m show "map_option c_host (vw_peer w) = fa_peer a"
    by (cases "fa_peer a") (auto simp: rbnd_def split: sum.splits dest!: sym [of "Some _" "vw_peer w"])
  from mk_writer_Inr [OF w(3)] r(1) show "resource_name (vw_resource w) = fa_resource a"
    by (auto simp: resource_of_def split: if_splits)
  assume e: "requested w payload expected"
  show "expected = None \<longleftrightarrow> act = Delete"
  proof (cases "act = Delete")
    case True
    with w(2,5) e show ?thesis by (simp add: requested_def)
  next
    case False
    with w(2,5) obtain p where "payload = Some p" "p \<noteq> []"
      by (auto simp: rbnd_def dest: parse_payload_nonempty split: sum.splits)
    with False e show ?thesis by (auto simp: requested_def neq_Nil_conv)
  qed
qed

lemma audited_mono: "audited P es \<Longrightarrow> (\<And>a. P a \<Longrightarrow> Q a) \<Longrightarrow> audited Q es"
proof (induction es)
  case (Cons e es)
  then show ?case by (cases e rule: is_logged.cases) auto
qed simp

lemma firewall_action_run:
  assumes "fw_request a body = Inr (w, act, payload, u, rv)"
  shows "firewall_action a False body = try_else (execute w act payload (JStr u) (JStr rv))
    (\<lambda>e. is_bad_request e \<or> is_opn e \<or> is_os e)
    (\<lambda>e. ret (if is_bad_request e then refuse 400 ''bad_request'' (exn_str e) else fw_error e))
    (\<lambda>r. ret (status_of r, envelope r))"
  using assms by (simp add: firewall_action_def)

lemma firewall_action_refused:
  assumes "fw_request a body = Inl e"
  shows "runs (firewall_action a False body) (\<lambda>r es. es = [])"
  using assms unfolding firewall_action_def
  by simp (rule runs_try_else [where R = "\<lambda>r es. r = Inl e \<and> es = []"]; simp)

text \<open>C20: an action request that is refused (read-only plugin, or a body or configuration that does not
  parse) causes no event at all; every request that changes the firewall through the handler comes
  after a line in the audit log with which the acting user started the operation.\<close>

theorem firewall_action_guarded:
  "runs (firewall_action a read_only body) (\<lambda>r es.
     (read_only \<or> (\<exists>e. fw_request a body = Inl e) \<longrightarrow> es = []) \<and>
     audited (\<lambda>l. ae_user l = fa_actor a \<and> ae_result l = ''started'') es)"
proof (cases read_only)
  case True
  then show ?thesis by (simp add: firewall_action_def)
next
  case False
  show ?thesis
  proof (cases "fw_request a body")
    case (Inl e)
    show ?thesis
      using False by simp (rule runs_conseq [OF firewall_action_refused [OF Inl]], simp)
  next
    case (Inr req)
    obtain w act payload u rv where req: "req = (w, act, payload, u, rv)" by (cases req) auto
    note Inr = Inr [unfolded req]
    let ?Q = "\<lambda>r es. audited (\<lambda>l. ae_user l = fa_actor a \<and> ae_result l = ''started'') es"
    have run: "runs (execute w act payload (JStr u) (JStr rv)) ?Q"
    proof (rule runs_conseq [OF execute_runs], erule run_shape_split)
      fix r1 es1 es2 expected and r :: "vresult res" and es :: trace
      assume es: "es = es1 @ es2" "silent es2"
        and "stages_ok w act payload expected (given_uuid act (JStr u)) r1 es1"
      then have "audited (started_line w act payload (given_uuid act (JStr u))) es1" by (simp add: stages_ok_def)
      then have "audited (\<lambda>l. ae_user l = fa_actor a \<and> ae_result l = ''started'') es1"
        by (rule audited_mono) (use fw_request_Inr [OF Inr] in \<open>auto simp: started_line_def entry_of_def\<close>)
      with es show "?Q r es" by (simp add: audited_append audited_silent)
    qed simp
    have "runs (firewall_action a False body) ?Q"
      unfolding firewall_action_run [OF Inr]
      by (rule runs_try_else [OF run]) auto
    with False Inr show ?thesis by simp
  qed
qed

definition demo_args :: fw_args where
  "demo_args = \<lparr>fa_host = demo_host, fa_actor = ''op'', fa_peer = None, fa_resource = ''rules'',
     fa_attempts = JInt 6, fa_backoff = JInt 0, fa_mode = JStr ''automatic''\<rparr>"

definition demo_delete :: json where
  "demo_delete = JObj [(''action'', JStr ''delete''), (''uuid'', JStr demo_uuid),
     (''revision'', JStr (hash_payload demo_rule))]"

definition demo_docs :: "string \<Rightarrow> json option" where
  "demo_docs p = (if p = ''/api/firewall/filter/searchRule'' then Some (JObj [(''rows'', JArr [])]) else Some demo_doc)"

theorem firewall_action_guarded_witness:
  "\<exists>es. snd (firewall_action demo_args True demo_delete (demo_env (\<lambda>p. answer saved) demo_docs None) []) = es \<and>
     es = [] \<and> audited (\<lambda>l. ae_user l = ''op'' \<and> ae_result l = ''started'') es"
  using runsD [OF firewall_action_guarded [of demo_args True demo_delete],
      of "demo_env (\<lambda>p. answer saved) demo_docs None" "[]"]
  by (auto simp: demo_args_def)

text \<open>C21: when the handler answers 200 the operation it parsed was carried out on the configured firewall: the change
  and the apply were sent there, then the object was read by its UUID and its answer shows each requested field (for a
  delete, all rows were read and none has the UUID), with a configured peer the same was read from the peer as the last
  request, and the last event is the line of the audit log that says so.\<close>

theorem firewall_action_confirmed:
  assumes "fw_request a body = Inr (w, act, payload, u, rv)"
    and "firewall_action a False body E tr = (Inr (200, v), tr')"
  shows "\<exists>r es l expected. v = envelope r \<and> tr' = tr @ es @ [AuditEv l None] \<and> ae_result l = ''ok'' \<and>
    c_host (vw_client w) = fa_host a \<and> map_option c_host (vw_peer w) = fa_peer a \<and>
    resource_name (vw_resource w) = fa_resource a \<and> (expected = None \<longleftrightarrow> act = Delete) \<and>
    requested w payload expected \<and> confirmed w act u expected r es"
proof -
  have err: "(if is_bad_request e then refuse 400 ''bad_request'' (exn_str e) else fw_error e) \<noteq> (200, v)" for e
    by (cases e) (simp_all add: refuse_def fw_error_def)
  from assms(2) obtain r where r: "execute w act payload (JStr u) (JStr rv) E tr = (Inr r, tr')"
    "status_of r = 200" "v = envelope r"
    unfolding firewall_action_run [OF assms(1)]
    by (auto simp: try_else_def ret_def err split: prod.splits sum.splits if_splits)
  then have "vr_ok r" by (auto simp: status_of_def split: if_splits option.splits)
  from ok_confirmed [OF r(1) this] fw_request_Inr [OF assms(1)] obtain es l expected where
      "tr' = tr @ es @ [AuditEv l None]" "ae_result l = ''ok''" "requested w payload expected"
      "confirmed w act u expected r es"
    by auto
  with r(3) fw_request_writer [OF assms(1)] show ?thesis by blast
qed

lemma demo_request:
  "\<exists>w. fw_request demo_args demo_delete = Inr (w, Delete, None, demo_uuid, hash_payload demo_rule) \<and>
     vw_client w = demo_client \<and> vw_resource w = Rules \<and> vw_peer w = None \<and> vw_mode w = Automatic"
proof -
  have "demo_rule \<noteq> JNull" by (simp add: demo_rule_def)
  note validate_revision_hash [OF this]
  then show ?thesis
    by (simp add: fw_request_def demo_args_def demo_delete_def resource_of_def action_of_def dget_or_def mk_client_def
        demo_host_def mk_writer_def json_rat_def demo_client_def)
qed

lemma demo_delete_ok:
  "\<exists>v tr'. firewall_action demo_args False demo_delete (demo_env (\<lambda>p. answer saved) demo_docs None) [] = (Inr (200, v), tr')"
proof -
  obtain w where w: "fw_request demo_args demo_delete = Inr (w, Delete, None, demo_uuid, hash_payload demo_rule)"
    "vw_client w = demo_client" "vw_resource w = Rules" "vw_peer w = None" "vw_mode w = Automatic"
    using demo_request by blast
  have paths: "demo_docs (url_path (search_path w)) = Some (JObj [(''rows'', JArr [])])"
    "demo_docs (url_path (get_path w u)) = Some demo_doc" for u
    using w(3) by (simp_all add: demo_docs_def search_path_def get_path_def url_path_def)
  have "check_search Rules (JObj [(''rows'', JArr [])]) = Inr []" by code_simp
  with w paths show ?thesis
    unfolding firewall_action_run [OF w(1)]
    by (simp add: writer_run caught_def dget_or_def validate_revision_hash status_of_def)
qed

theorem firewall_action_confirmed_witness:
  "\<exists>w r es v. fw_request demo_args demo_delete = Inr (w, Delete, None, demo_uuid, hash_payload demo_rule) \<and>
     fst (firewall_action demo_args False demo_delete (demo_env (\<lambda>p. answer saved) demo_docs None) []) = Inr (200, v) \<and>
     v = envelope r \<and> confirmed w Delete demo_uuid None r es"
proof -
  obtain w where w: "fw_request demo_args demo_delete = Inr (w, Delete, None, demo_uuid, hash_payload demo_rule)"
    using demo_request by blast
  obtain v tr' where run: "firewall_action demo_args False demo_delete (demo_env (\<lambda>p. answer saved) demo_docs None) [] = (Inr (200, v), tr')"
    using demo_delete_ok by blast
  from firewall_action_confirmed [OF w run] w run show ?thesis by fastforce
qed

end
