(* ===== verification/Engine.thy ===== *)
theory Engine
  imports Legacy_Routes Execute
begin

text \<open>
  Catalog-driven management, \<^verbatim>\<open>src/management/engine.py\<close>: the form values, the checks of an
  acknowledgement, and the service with \<^verbatim>\<open>list\<close>, \<^verbatim>\<open>detail\<close> and \<^verbatim>\<open>mutate\<close>. A resource of the
  catalog is a \<open>spec\<close>; its field names are distinct. The hooks \<^verbatim>\<open>prepare\<close> and \<^verbatim>\<open>verify\<close> of a
  resource (they call the cryptography package) are functions of the spec.
\<close>

section \<open>Resources\<close>

record field =
  fd_name :: string
  fd_label :: string
  fd_kind :: string
  fd_required :: bool
  fd_secret :: bool
  fd_write_only :: bool
  fd_readonly :: bool
  fd_generated :: bool
  fd_volatile :: bool
  fd_multiple :: bool
  fd_default :: "json option"
  fd_create_default :: "json option"
  fd_edit_default :: "json option"
  fd_options :: "(string \<times> string) list"
  fd_min :: "int option"
  fd_max :: "int option"

text \<open>A path of an operation may be missing (\<^verbatim>\<open>None\<close>); \<^verbatim>\<open>apply\<close> is a list of paths.\<close>

record spec =
  sp_id :: string
  sp_label :: string
  sp_group :: string
  sp_base :: string
  sp_search :: "string option"
  sp_get :: "string option"
  sp_add :: "string option"
  sp_set :: "string option"
  sp_delete :: "string option"
  sp_key :: string
  sp_apply :: "string list"
  sp_apply_ack :: "(string \<times> json list) list"
  sp_fields :: "field list"
  sp_columns :: "string list"
  sp_singleton :: bool
  sp_ha_safe :: bool
  sp_persistence_only :: bool
  sp_prepare :: "(json \<Rightarrow> json \<Rightarrow> action \<Rightarrow> json res) option"
  sp_verify :: "(json \<Rightarrow> json \<Rightarrow> action \<Rightarrow> unit res) option"

definition singleton_uuid :: string where
  "singleton_uuid = ''00000000-0000-0000-0000-000000000000''"

definition mgmt :: "string \<Rightarrow> int \<Rightarrow> exn" where
  "mgmt err status = MgmtErr \<lparr>me_error = err, me_status = status, me_partial = False, me_stage = None,
     me_audit_failure = False, me_validations = [], me_uuid = None\<rparr>"

fun is_mgmt :: "exn \<Rightarrow> bool" where
  "is_mgmt (MgmtErr _) = True"
| "is_mgmt _ = False"

abbreviation bad_request :: exn where "bad_request \<equiv> mgmt ''bad_request'' 400"
abbreviation invalid_response :: exn where "invalid_response \<equiv> mgmt ''invalid_response'' 502"

section \<open>Form values\<close>

fun form_value :: "json \<Rightarrow> json" where
  "form_value (JObj []) = JStr []"
| "form_value (JArr []) = JStr []"
| "form_value (JObj (kv # kvs)) =
     (if list_all (\<lambda>(k, v). is_option v) (kv # kvs) then JStr (join '','' (chosen (kv # kvs)))
      else JObj (map (\<lambda>(k, v). (k, form_value v)) (kv # kvs)))"
| "form_value (JArr (v # vs)) =
     (if list_all is_option (v # vs)
      then JStr (join '','' (chosen (zip (map num [0..<length (v # vs)]) (v # vs))))
      else JArr (map form_value (v # vs)))"
| "form_value v = v"

text \<open>Dotted names: a key of the dictionary itself comes first, then the path.\<close>

fun walk :: "json \<Rightarrow> string list \<Rightarrow> json option" where
  "walk v [] = Some v"
| "walk (JObj d) (p # ps) = (case map_of d p of None \<Rightarrow> None | Some v \<Rightarrow> walk v ps)"
| "walk v (p # ps) = None"

definition parts :: "string \<Rightarrow> string list" where
  "parts name = split_on (CHR ''.'') name"

definition oget :: "obj \<Rightarrow> string \<Rightarrow> json option" where
  "oget d name = (case map_of d name of Some v \<Rightarrow> Some v | None \<Rightarrow> walk (JObj d) (parts name))"

text \<open>\<^verbatim>\<open>name in data\<close> on a text is a substring test, and \<^verbatim>\<open>data[name]\<close> then raises.\<close>

definition mget :: "json \<Rightarrow> string \<Rightarrow> json option res" where
  "mget v name = (case v of
      JObj d \<Rightarrow> Inr (oget d name)
    | JStr s \<Rightarrow> if infix_of name s then Inl (TypeErr ''string indices must be integers'') else Inr None
    | JArr vs \<Rightarrow> if JStr name \<in> set vs then Inl (TypeErr ''list indices must be integers'') else Inr None
    | _ \<Rightarrow> Inl (TypeErr ''argument is not iterable''))"

definition or_default :: "json option \<Rightarrow> json \<Rightarrow> json" where
  "or_default v d = (case v of Some x \<Rightarrow> x | None \<Rightarrow> d)"

fun put_path :: "obj \<Rightarrow> string list \<Rightarrow> json \<Rightarrow> obj" where
  "put_path d [] v = d"
| "put_path d [p] v = dput d p v"
| "put_path d (p # q # ps) v =
     dput d p (JObj (put_path (case map_of d p of Some (JObj s) \<Rightarrow> s | _ \<Rightarrow> []) (q # ps) v))"

definition oput :: "obj \<Rightarrow> string \<Rightarrow> json \<Rightarrow> obj" where
  "oput d name v = (if map_of d name \<noteq> None then dput d name v else put_path d (parts name) v)"

definition mput :: "json \<Rightarrow> string \<Rightarrow> json \<Rightarrow> json res" where
  "mput t name v = (case t of JObj d \<Rightarrow> Inr (JObj (oput d name v))
     | _ \<Rightarrow> Inl (TypeErr ''object does not support item assignment''))"

fun drop_path :: "obj \<Rightarrow> string list \<Rightarrow> obj" where
  "drop_path d [] = d"
| "drop_path d [p] = ddel d p"
| "drop_path d (p # q # ps) = (case map_of d p of
      Some (JObj s) \<Rightarrow> dput d p (JObj (drop_path s (q # ps))) | _ \<Rightarrow> d)"

definition odrop :: "obj \<Rightarrow> string \<Rightarrow> obj" where
  "odrop d name = (if map_of d name \<noteq> None then ddel d name else drop_path d (parts name))"

definition mdrop :: "json \<Rightarrow> string \<Rightarrow> json res" where
  "mdrop t name = (case t of JObj d \<Rightarrow> Inr (JObj (odrop d name))
     | _ \<Rightarrow> Inl (AttrErr ''object has no attribute pop''))"

section \<open>Paths and acknowledgements\<close>

fun strip_slashes :: "string \<Rightarrow> string" where
  "strip_slashes s = rev (dropWhile (\<lambda>c. c = CHR ''/'') (rev s))"

definition op_path :: "spec \<Rightarrow> string option \<Rightarrow> string \<Rightarrow> string res" where
  "op_path sp path uuid = (case path of
      Some (c # cs) \<Rightarrow>
        (let p = c # cs;
             full = (if starts_with ''/api/'' p then p else strip_slashes (sp_base sp) @ ''/'' @ p)
         in Inr (strip_slashes full @ (if uuid \<noteq> [] \<and> \<not> sp_singleton sp then ''/'' @ uuid else [])))
    | _ \<Rightarrow> Inl (mgmt ''unsupported'' 405))"

definition rejected_fields :: "spec \<Rightarrow> json \<Rightarrow> (string \<times> string) list" where
  "rejected_fields sp validations = (case validations of
      JObj vs \<Rightarrow> map (\<lambda>f. (fd_name f, ''Valor rechazado por OPNsense''))
        (filter (\<lambda>f. map_of vs (fd_name f) \<noteq> None \<or> map_of vs (sp_key sp @ ''.'' @ fd_name f) \<noteq> None) (sp_fields sp))
    | _ \<Rightarrow> [])"

definition ack_markers :: "obj \<Rightarrow> string list" where
  "ack_markers d = concat (map (\<lambda>k. case map_of d k of Some v \<Rightarrow> [lower (py_str v)] | None \<Rightarrow> []) [''status'', ''result''])"

definition check_ack :: "json \<Rightarrow> spec \<Rightarrow> bool \<Rightarrow> obj res" where
  "check_ack response sp is_apply = (case response of
      JObj d \<Rightarrow>
        if truthy_opt (map_of d ''validations'') then
          Inl (MgmtErr \<lparr>me_error = ''validation'', me_status = 422, me_partial = False, me_stage = None,
            me_audit_failure = False, me_validations = rejected_fields sp (dget_or response ''validations'' JNull),
            me_uuid = None\<rparr>)
        else if is_apply \<and> sp_apply_ack sp \<noteq> [] then
          (if list_all (\<lambda>(k, permitted). list_ex (py_eq (dget_or response k JNull)) permitted) (sp_apply_ack sp)
           then Inr d else Inl (mgmt ''upstream'' 502))
        else if ack_markers d \<noteq> [] \<and> set (ack_markers d) \<subseteq> {''ok'', ''saved'', ''deleted'', ''done'', ''success''}
        then Inr d
        else Inl (mgmt ''upstream'' 502)
    | _ \<Rightarrow> Inl invalid_response)"

section \<open>Calls\<close>

record service =
  sv_client :: client
  sv_actor :: string
  sv_peer :: "client option"

fun call_error :: "exn \<Rightarrow> exn" where
  "call_error (AuthErr s) = mgmt ''auth'' 401"
| "call_error (TimeoutErr s) = mgmt ''timeout'' 504"
| "call_error e = (if infix_of ''HTTP 404'' (exn_str e) then mgmt ''unsupported'' 502 else mgmt ''upstream'' 502)"

definition call :: "'a io \<Rightarrow> 'a io" where
  "call m = try_else m is_opn (\<lambda>e. raise (call_error e)) ret"

definition raw_of :: "spec \<Rightarrow> json \<Rightarrow> json res" where
  "raw_of sp response = (case (case response of JObj d \<Rightarrow> oget d (sp_key sp) | _ \<Rightarrow> None) of
      Some (JObj (kv # kvs)) \<Rightarrow> Inr (JObj (kv # kvs))
    | _ \<Rightarrow> Inl invalid_response)"

definition raw :: "spec \<Rightarrow> client \<Rightarrow> string \<Rightarrow> json io" where
  "raw sp c uuid = bnd (of_res (op_path sp (sp_get sp) uuid)) (\<lambda>p.
     bnd (call (client_get c p [])) (\<lambda>response. of_res (raw_of sp response)))"

section \<open>Reading\<close>

definition is_scalar :: "json \<Rightarrow> bool" where
  "is_scalar v = (case v of JStr _ \<Rightarrow> True | JBool _ \<Rightarrow> True | JInt _ \<Rightarrow> True | JFloat _ \<Rightarrow> True | _ \<Rightarrow> False)"

definition public_field :: "bool \<Rightarrow> obj \<Rightarrow> obj \<Rightarrow> field \<Rightarrow> obj" where
  "public_field listing d it f =
     (if fd_secret f \<or> fd_write_only f then (if listing then it else dput it (fd_name f) (JStr []))
      else case oget d (fd_name f) of
          None \<Rightarrow> it
        | Some v \<Rightarrow> (let v = (if v = JObj [] then JStr [] else v) in
            if is_scalar v then dput it (fd_name f) v else it))"

definition public :: "spec \<Rightarrow> json \<Rightarrow> bool \<Rightarrow> obj res" where
  "public sp v listing = (case v of
      JObj d \<Rightarrow> Inr (foldl (public_field listing d)
        (case map_of d ''uuid'' of Some (JStr u) \<Rightarrow> [(''uuid'', JStr u)] | _ \<Rightarrow> []) (sp_fields sp))
    | _ \<Rightarrow> Inl (AttrErr ''object has no attribute get''))"

record mdetail =
  dt_item :: obj
  dt_fields :: "field list"
  dt_revision :: "string option"

text \<open>The options of a field, from the option dictionary or list the firewall returned.\<close>

definition option_items :: "json \<Rightarrow> (string \<times> json) list" where
  "option_items v = (case v of JObj kvs \<Rightarrow> kvs | JArr vs \<Rightarrow> zip (map num [0..<length vs]) vs | _ \<Rightarrow> [])"

definition shown_options :: "obj \<Rightarrow> field \<Rightarrow> field" where
  "shown_options d f = (case oget d (fd_name f) of
      None \<Rightarrow> f
    | Some v \<Rightarrow>
        (let items = option_items v in
         if \<not> fd_secret f \<and> items \<noteq> [] \<and> list_all (\<lambda>(k, x). is_option x) items then
           f\<lparr>fd_options := map (\<lambda>(k, x). (k, py_str (dget_or x ''value'' (JStr k))))
             (if fd_options f \<noteq> [] then filter (\<lambda>(k, x). k \<in> fst ` set (fd_options f)) items else items)\<rparr>
         else f))"

definition add_defaults :: "string \<Rightarrow> field list \<Rightarrow> obj \<Rightarrow> obj" where
  "add_defaults uuid fs it0 = foldl (\<lambda>it f.
     case (if uuid \<noteq> [] then fd_edit_default f else fd_create_default f) of
       None \<Rightarrow> it | Some v \<Rightarrow> dput it (fd_name f) v) it0 fs"

definition detail_of :: "spec \<Rightarrow> string \<Rightarrow> json \<Rightarrow> mdetail res" where
  "detail_of sp uuid r = (case r of
      JObj d \<Rightarrow>
        (let canonical = form_value r; fields = map (shown_options d) (sp_fields sp) in
         rbnd (public sp canonical False) (\<lambda>item0.
         let it = add_defaults uuid fields item0 in
         Inr (if uuid \<noteq> [] then
             \<lparr>dt_item = dput it ''uuid'' (JStr uuid), dt_fields = fields, dt_revision = Some (hash_payload canonical)\<rparr>
           else \<lparr>dt_item = it, dt_fields = fields, dt_revision = None\<rparr>)))
    | _ \<Rightarrow> Inl invalid_response)"

text \<open>The UUID is \<^verbatim>\<open>None\<close> or a JSON value.\<close>

definition detail_uuid :: "spec \<Rightarrow> json option \<Rightarrow> string res" where
  "detail_uuid sp uuid =
     rbnd (case uuid of None \<Rightarrow> Inr []
           | Some v \<Rightarrow> (case validate_uuid v of Inl _ \<Rightarrow> Inl bad_request | Inr u \<Rightarrow> Inr u)) (\<lambda>u.
     if sp_singleton sp then (if u = [] \<or> u = singleton_uuid then Inr singleton_uuid else Inl bad_request)
     else Inr u)"

definition mdetail_get :: "service \<Rightarrow> spec \<Rightarrow> json option \<Rightarrow> mdetail io" where
  "mdetail_get s sp uuid = bnd (of_res (detail_uuid sp uuid)) (\<lambda>u.
     bnd (raw sp (sv_client s) u) (\<lambda>r. of_res (detail_of sp u r)))"

record listing =
  ls_rows :: "obj list"
  ls_total :: int
  ls_page :: int
  ls_row_count :: int

definition page_args :: "json \<Rightarrow> json \<Rightarrow> json \<Rightarrow> (int \<times> int \<times> string) res" where
  "page_args page row_count phrase = (case (page, row_count, phrase) of
      (JInt p, JInt n, JStr s) \<Rightarrow>
        if 1 \<le> p \<and> p \<le> 100000 \<and> 1 \<le> n \<and> n \<le> 200 \<and> py_len s \<le> 256 \<and> CHR 0x00 \<notin> set s
        then Inr (p, n, s) else Inl bad_request
    | _ \<Rightarrow> Inl bad_request)"

definition list_total :: "obj \<Rightarrow> nat \<Rightarrow> int res" where
  "list_total d n = (case map_of d ''total'' of
      None \<Rightarrow> Inl invalid_response
    | Some v \<Rightarrow> (case to_int v of
        Inl (ArithErr t) \<Rightarrow> Inl (ArithErr t)
      | Inl _ \<Rightarrow> Inl invalid_response
      | Inr t \<Rightarrow> if (case v of JBool _ \<Rightarrow> True | _ \<Rightarrow> False) \<or> t < int n then Inl invalid_response else Inr t))"

fun public_rows :: "spec \<Rightarrow> json list \<Rightarrow> obj list res" where
  "public_rows sp [] = Inr []"
| "public_rows sp (v # vs) = rbnd (public sp (form_value v) True) (\<lambda>x. rbnd (public_rows sp vs) (\<lambda>xs. Inr (x # xs)))"

definition listing_of :: "spec \<Rightarrow> int \<Rightarrow> int \<Rightarrow> json \<Rightarrow> listing res" where
  "listing_of sp p n out = (case out of
      JObj d \<Rightarrow> (case map_of d ''rows'' of
          Some (JArr rows) \<Rightarrow>
            if \<not> list_all is_obj rows then Inl invalid_response
            else rbnd (list_total d (length rows)) (\<lambda>t. rbnd (public_rows sp rows) (\<lambda>xs.
              Inr \<lparr>ls_rows = xs, ls_total = t, ls_page = p, ls_row_count = n\<rparr>))
        | _ \<Rightarrow> Inl invalid_response)
    | _ \<Rightarrow> Inl invalid_response)"

definition mlist :: "service \<Rightarrow> spec \<Rightarrow> json \<Rightarrow> json \<Rightarrow> json \<Rightarrow> listing io" where
  "mlist s sp page row_count phrase = bnd (of_res (page_args page row_count phrase)) (\<lambda>(p, n, txt).
     if sp_singleton sp then
       bnd (mdetail_get s sp (Some (JStr singleton_uuid))) (\<lambda>dt.
       ret \<lparr>ls_rows = [dt_item dt], ls_total = 1, ls_page = p, ls_row_count = n\<rparr>)
     else bnd (of_res (op_path sp (sp_search sp) [])) (\<lambda>path.
       bnd (call (client_get (sv_client s) path
              [(''current'', JInt p), (''rowCount'', JInt n), (''searchPhrase'', JStr txt)])) (\<lambda>out.
       of_res (listing_of sp p n out))))"

end
