(* ===== verification/Engine_Mutate.thy ===== *)
theory Engine_Mutate
  imports Engine
begin

text \<open>
  \<^verbatim>\<open>_values\<close>, \<^verbatim>\<open>mutate\<close> and \<^verbatim>\<open>_mutate\<close> of \<^verbatim>\<open>src/management/engine.py\<close>. The locals
  \<^verbatim>\<open>stage\<close>, \<^verbatim>\<open>partial\<close>, \<^verbatim>\<open>uuid\<close> and \<^verbatim>\<open>confirmed_uuid\<close> that the handler of the \<^verbatim>\<open>try\<close>
  statement reads are the arguments of \<open>on_error\<close>, one stage at a time.
\<close>

section \<open>The submitted values\<close>

fun blank_options :: "json \<Rightarrow> json" where
  "blank_options (JObj kvs) = JObj (map (\<lambda>(k, v). (k, if v = JObj [] then JStr [] else blank_options v)) kvs)"
| "blank_options v = v"

definition blank :: "json \<Rightarrow> bool" where
  "blank v = (v = JStr [] \<or> v = JNull)"

definition plain_text :: "json \<Rightarrow> string res" where
  "plain_text v = (case v of
      JStr s \<Rightarrow> if py_len s > 65536 \<or> CHR 0x00 \<in> set s then Inl bad_request else Inr s
    | _ \<Rightarrow> Inl bad_request)"

definition multi_text :: "json \<Rightarrow> string res" where
  "multi_text v = (case v of
      JArr vs \<Rightarrow> if list_all is_str vs then plain_text (JStr (join '','' (map py_str vs))) else Inl bad_request
    | _ \<Rightarrow> plain_text v)"

text \<open>
  \<^verbatim>\<open>str(value).lstrip('-').isdigit()\<close>, then the bounds: \<^verbatim>\<open>int\<close> raises on more than one sign and
  on more than 4300 digits, but only when there is a bound to compare with.
\<close>

definition number_text :: "field \<Rightarrow> json \<Rightarrow> string res" where
  "number_text f v =
     (let s = py_str v in
      if (case v of JBool _ \<Rightarrow> True | _ \<Rightarrow> False) \<or> \<not> isdigit (dropWhile (\<lambda>c. c = CHR ''-'') s) then Inl bad_request
      else if fd_min f = None \<and> fd_max f = None then Inr s
      else (case (if length (filter is_digit s) > 4300 then None else py_int s) of
          None \<Rightarrow> Inl (ValueErr ''invalid literal for int'')
        | Some n \<Rightarrow>
            if (case fd_min f of Some lo \<Rightarrow> n < lo | None \<Rightarrow> False) \<or> (case fd_max f of Some hi \<Rightarrow> n > hi | None \<Rightarrow> False)
            then Inl bad_request else Inr s))"

definition allowed :: "field \<Rightarrow> string \<Rightarrow> bool" where
  "allowed f s = (fd_options f = [] \<or> s = [] \<or>
     set (if fd_multiple f then split_on (CHR '','') s else [s]) \<subseteq> fst ` set (fd_options f))"

definition is_number :: "field \<Rightarrow> bool" where
  "is_number f = (fd_kind f \<in> {''number'', ''integer''})"

text \<open>One submitted field: skipped (\<open>None\<close>), stored as text, or refused.\<close>

definition submitted :: "field \<Rightarrow> bool \<Rightarrow> json \<Rightarrow> string option res" where
  "submitted f creating v =
     (if fd_generated f \<and> blank v then Inr None
      else if fd_readonly f then Inl bad_request
      else if (fd_secret f \<or> fd_write_only f) \<and> blank v \<and> \<not> creating then Inr None
      else if \<not> fd_multiple f \<and> is_number f \<and> v = JStr [] \<and> \<not> fd_required f then Inr (Some [])
      else rbnd (if fd_multiple f then multi_text v
                 else if fd_kind f \<in> {''boolean'', ''checkbox''} then
                   (case v of JBool b \<Rightarrow> Inr (if b then ''1'' else ''0'') | _ \<Rightarrow> Inl bad_request)
                 else if is_number f then number_text f v
                 else plain_text v) (\<lambda>s.
           if allowed f s then Inr (Some s) else Inl bad_request))"

definition field_of :: "spec \<Rightarrow> string \<Rightarrow> field option" where
  "field_of sp name = find (\<lambda>f. fd_name f = name) (sp_fields sp)"

fun put_values :: "spec \<Rightarrow> bool \<Rightarrow> obj \<Rightarrow> json \<Rightarrow> json res" where
  "put_values sp creating [] merged = Inr merged"
| "put_values sp creating ((name, v) # vs) merged = (case field_of sp name of
      None \<Rightarrow> Inl (KeyErr name)
    | Some f \<Rightarrow> rbnd (submitted f creating v) (\<lambda>s.
        rbnd (case s of None \<Rightarrow> Inr merged | Some t \<Rightarrow> mput merged name (JStr t)) (\<lambda>merged'.
        put_values sp creating vs merged')))"

text \<open>The object to start from: the catalogued fields with their defaults, or the object as read.\<close>

fun new_object :: "json \<Rightarrow> field list \<Rightarrow> obj \<Rightarrow> obj res" where
  "new_object current [] acc = Inr acc"
| "new_object current (f # fs) acc =
     (if fd_readonly f then new_object current fs acc
      else rbnd (mget current (fd_name f)) (\<lambda>v.
        let x = (case v of Some x \<Rightarrow> x | None \<Rightarrow> or_default (fd_default f) JNull) in
        new_object current fs (if x = JNull then acc else oput acc (fd_name f) x)))"

fun drop_fields :: "field list \<Rightarrow> json \<Rightarrow> json res" where
  "drop_fields [] v = Inr v"
| "drop_fields (f # fs) v =
     rbnd (if fd_readonly f \<or> fd_write_only f then mdrop v (fd_name f) else Inr v) (drop_fields fs)"

fun check_required :: "field list \<Rightarrow> bool \<Rightarrow> json \<Rightarrow> unit res" where
  "check_required [] creating v = Inr ()"
| "check_required (f # fs) creating v =
     (if fd_required f \<and> \<not> (fd_write_only f \<and> \<not> creating) then
        rbnd (mget v (fd_name f)) (\<lambda>x.
        if blank (or_default x JNull) then Inl bad_request else check_required fs creating v)
      else check_required fs creating v)"

definition merge_values :: "spec \<Rightarrow> json \<Rightarrow> json \<Rightarrow> bool \<Rightarrow> json res" where
  "merge_values sp values current creating = (case values of
      JObj vs \<Rightarrow>
        if \<not> list_all (\<lambda>(k, v). field_of sp k \<noteq> None) vs then Inl bad_request
        else rbnd (if creating then rbnd (new_object current (sp_fields sp) []) (\<lambda>d. Inr (JObj d)) else Inr current) (\<lambda>m0.
             rbnd (drop_fields (sp_fields sp) (blank_options m0)) (\<lambda>m1.
             rbnd (put_values sp creating vs m1) (\<lambda>m2.
             rbnd (check_required (sp_fields sp) creating m2) (\<lambda>_. Inr m2))))
    | _ \<Rightarrow> Inl bad_request)"

section \<open>Auditing\<close>

definition mgmt_line ::
  "service \<Rightarrow> spec \<Rightarrow> action \<Rightarrow> string \<Rightarrow> string \<Rightarrow> obj \<Rightarrow> int \<Rightarrow> audit_entry io" where
  "mgmt_line s sp act uuid rslt payload t0 =
     bnd now_ms (\<lambda>t. try_else
       (audit_now (sv_actor s) (sp_id sp @ ''.'' @ action_name act) uuid (h_name (c_host (sv_client s)))
          rslt (t - t0) [] (hash_payload (JObj payload)))
       is_os (\<lambda>_. raise (mgmt ''audit'' 503)) ret)"

section \<open>Observing the result\<close>

text \<open>
  A deletion is confirmed by scanning bounded pages until as many rows were seen as the listing says
  there are: this is page \<open>page\<close>, \<open>left\<close> pages may follow it.
\<close>

fun absent ::
  "service \<Rightarrow> spec \<Rightarrow> string \<Rightarrow> exn \<Rightarrow> int \<Rightarrow> int \<Rightarrow> nat \<Rightarrow> unit io" where
  "absent s sp uuid err page seen left =
     bnd (mlist s sp (JInt page) (JInt 200) (JStr [])) (\<lambda>l.
     let seen' = seen + int (length (ls_rows l)) in
     if list_ex (\<lambda>row. lower (py_str (dget_or (JObj row) ''uuid'' (JStr []))) = uuid) (ls_rows l) then raise err
     else if seen' \<ge> ls_total l then ret ()
     else if length (ls_rows l) < 200 then raise err
     else (case left of 0 \<Rightarrow> raise err | Suc n \<Rightarrow> absent s sp uuid err (page + 1) seen' n))"

declare absent.simps [simp del]

definition max_page :: nat where "max_page = 1000"

definition compared :: "field \<Rightarrow> obj \<Rightarrow> bool" where
  "compared f vs = (case map_of vs (fd_name f) of
      None \<Rightarrow> False
    | Some v \<Rightarrow> \<not> fd_volatile f \<and> \<not> fd_readonly f \<and> \<not> fd_write_only f \<and> \<not> (fd_generated f \<and> blank v))"

definition seen_text :: "json option \<Rightarrow> string" where
  "seen_text v = (let x = or_default v (JStr []) in if x = JObj [] then [] else py_str x)"

definition same_text :: "field \<Rightarrow> string \<Rightarrow> string \<Rightarrow> bool" where
  "same_text f a b = (if fd_multiple f then sort (split_on (CHR '','') a) = sort (split_on (CHR '','') b) else a = b)"

fun same_fields :: "field list \<Rightarrow> obj \<Rightarrow> json \<Rightarrow> json \<Rightarrow> unit res" where
  "same_fields [] vs actual expected = Inr ()"
| "same_fields (f # fs) vs actual expected =
     (if \<not> compared f vs then same_fields fs vs actual expected
      else rbnd (mget expected (fd_name f)) (\<lambda>e.
        if or_default e JNull = JNull then same_fields fs vs actual expected
        else rbnd (mget actual (fd_name f)) (\<lambda>a.
          if same_text f (seen_text a) (seen_text e) then same_fields fs vs actual expected
          else Inl (mgmt ''unverified'' 502))))"

section \<open>The mutation\<close>

definition values_of :: "obj \<Rightarrow> json" where
  "values_of body = or_default (map_of body ''values'') (JObj [])"

definition operation_path :: "spec \<Rightarrow> action \<Rightarrow> string option" where
  "operation_path sp act = (case act of Create \<Rightarrow> sp_add sp | Update \<Rightarrow> sp_set sp | Delete \<Rightarrow> sp_delete sp)"

definition on_error ::
  "service \<Rightarrow> spec \<Rightarrow> action \<Rightarrow> obj \<Rightarrow> int \<Rightarrow> string \<Rightarrow> string \<Rightarrow> string option \<Rightarrow> exn \<Rightarrow> 'a io" where
  "on_error s sp act payload t0 stage uuid confirmed e = (case e of
      MgmtErr m \<Rightarrow>
        (let m' = m\<lparr>me_partial := \<not> (me_error m = ''validation'' \<and> stage = ''save''), me_stage := Some stage,
                    me_uuid := confirmed\<rparr>
         in try_else (mgmt_line s sp act uuid ''error'' payload t0) is_mgmt
              (\<lambda>_. raise (MgmtErr (m'\<lparr>me_audit_failure := True\<rparr>)))
              (\<lambda>_. raise (MgmtErr m')))
    | _ \<Rightarrow> raise e)"

definition save :: "service \<Rightarrow> spec \<Rightarrow> action \<Rightarrow> obj \<Rightarrow> string \<Rightarrow> string io" where
  "save s sp act payload uuid =
     bnd (of_res (op_path sp (operation_path sp act) uuid)) (\<lambda>p.
     bnd (call (client_post (sv_client s) p payload)) (\<lambda>response.
     bnd (of_res (check_ack response sp False)) (\<lambda>d.
     if act = Create then
       (case validate_uuid (dget_or (JObj d) ''uuid'' JNull) of
          Inl _ \<Rightarrow> raise invalid_response | Inr u \<Rightarrow> ret u)
     else ret uuid)))"

fun apply_all :: "service \<Rightarrow> spec \<Rightarrow> string list \<Rightarrow> unit io" where
  "apply_all s sp [] = ret ()"
| "apply_all s sp (p # ps) =
     bnd (call (client_post (sv_client s) p [])) (\<lambda>response.
     bnd (of_res (check_ack response sp True)) (\<lambda>_. apply_all s sp ps))"

definition apply_stage :: "service \<Rightarrow> spec \<Rightarrow> unit io" where
  "apply_stage s sp = (if sp_apply sp = [] \<and> \<not> sp_persistence_only sp then raise (mgmt ''unsupported'' 502)
     else apply_all s sp (sp_apply sp))"

definition as_obj :: "json \<Rightarrow> obj" where
  "as_obj v = (case v of JObj d \<Rightarrow> d | _ \<Rightarrow> [])"

text \<open>The readback of the object, and of the peer's.\<close>

definition readback :: "service \<Rightarrow> spec \<Rightarrow> action \<Rightarrow> obj \<Rightarrow> json \<Rightarrow> string \<Rightarrow> json io" where
  "readback s sp act body expected uuid =
     bnd (raw sp (sv_client s) uuid) (\<lambda>r.
     let actual = form_value r in
     bnd (of_res (same_fields (sp_fields sp) (as_obj (values_of body)) actual expected)) (\<lambda>_.
     bnd (of_res (case sp_verify sp of None \<Rightarrow> Inr () | Some f \<Rightarrow> f actual expected act)) (\<lambda>_.
     ret actual)))"

definition peer_same :: "service \<Rightarrow> spec \<Rightarrow> json \<Rightarrow> string \<Rightarrow> unit io" where
  "peer_same s sp actual uuid = (case sv_peer s of
      None \<Rightarrow> ret ()
    | Some peer \<Rightarrow> bnd (raw sp peer uuid) (\<lambda>r.
        if hash_payload (form_value r) \<noteq> hash_payload actual then raise (mgmt ''ha_unverified'' 409) else ret ()))"

definition peer_absent :: "service \<Rightarrow> spec \<Rightarrow> string \<Rightarrow> unit io" where
  "peer_absent s sp uuid = (case sv_peer s of
      None \<Rightarrow> ret ()
    | Some peer \<Rightarrow> absent (s\<lparr>sv_client := peer, sv_peer := None\<rparr>) sp uuid (mgmt ''ha_unverified'' 409) 1 0 (max_page - 1))"

definition verify_stage :: "service \<Rightarrow> spec \<Rightarrow> action \<Rightarrow> obj \<Rightarrow> json option \<Rightarrow> string \<Rightarrow> unit io" where
  "verify_stage s sp act body expected uuid = (case expected of
      None \<Rightarrow> bnd (absent s sp uuid (mgmt ''unverified'' 502) 1 0 (max_page - 1)) (\<lambda>_. peer_absent s sp uuid)
    | Some ex \<Rightarrow> bnd (readback s sp act body ex uuid) (\<lambda>actual. peer_same s sp actual uuid))"

text \<open>
  The result, after the final audit line. \<^verbatim>\<open>body.get('values', {}).get(..)\<close> is evaluated for
  write-only fields only, and raises if the values are no dictionary.
\<close>

definition mutation_result :: "spec \<Rightarrow> action \<Rightarrow> obj \<Rightarrow> string \<Rightarrow> json res" where
  "mutation_result sp act body uuid =
     (let base = [(''ok'', JBool True), (''uuid'', JStr uuid), (''action'', JStr (action_name act)),
            (''applied'', JBool (sp_apply sp \<noteq> [])), (''config_saved'', JBool True), (''verified'', JBool True)];
          wo = filter fd_write_only (sp_fields sp) in
      if wo \<noteq> [] \<and> \<not> is_obj (values_of body) then Inl (AttrErr ''object has no attribute get'')
      else if list_ex (\<lambda>f. \<not> blank (dget_or (values_of body) (fd_name f) JNull)) wo then
        Inr (JObj (base @ [(''secret_change_acknowledged'', JBool True), (''secret_verified'', JBool False)]))
      else Inr (JObj base))"

definition commit ::
  "service \<Rightarrow> spec \<Rightarrow> action \<Rightarrow> obj \<Rightarrow> json option \<Rightarrow> obj \<Rightarrow> int \<Rightarrow> string \<Rightarrow> json io" where
  "commit s sp act body expected payload t0 uuid =
     try_else (save s sp act payload uuid) is_mgmt (on_error s sp act payload t0 ''save'' uuid None) (\<lambda>u.
     try_else (apply_stage s sp) is_mgmt (on_error s sp act payload t0 ''apply'' u (Some u)) (\<lambda>_.
     try_else (bnd (verify_stage s sp act body expected u) (\<lambda>_.
               bnd (mgmt_line s sp act u ''ok'' payload t0) (\<lambda>_.
               of_res (mutation_result sp act body u)))) is_mgmt
       (on_error s sp act payload t0 ''verify'' u (Some u)) ret))"

definition expected_values :: "spec \<Rightarrow> action \<Rightarrow> obj \<Rightarrow> json \<Rightarrow> json option res" where
  "expected_values sp act body current =
     (if act = Delete then Inr None
      else rbnd (merge_values sp (or_default (map_of body ''values'') JNull) current (act = Create)) (\<lambda>ex.
        rbnd (case sp_prepare sp of None \<Rightarrow> Inr ex | Some f \<Rightarrow> f ex current act) (\<lambda>ex'. Inr (Some ex'))))"

definition mutate_locked :: "service \<Rightarrow> spec \<Rightarrow> action \<Rightarrow> obj \<Rightarrow> string \<Rightarrow> string \<Rightarrow> json io" where
  "mutate_locked s sp act body uuid revision =
     bnd now_ms (\<lambda>t0.
     bnd (raw sp (sv_client s) uuid) (\<lambda>r.
     let current = form_value r in
     if act \<noteq> Create \<and> hash_payload current \<noteq> revision then raise (mgmt ''conflict'' 409)
     else bnd (of_res (expected_values sp act body current)) (\<lambda>expected.
     let payload = (case expected of None \<Rightarrow> [] | Some ex \<Rightarrow> oput [] (sp_key sp) ex) in
     bnd (mgmt_line s sp act uuid ''started'' payload t0) (\<lambda>_.
     commit s sp act body expected payload t0 uuid))))"

text \<open>The checks before the lock; the lock is that of the node and the resource.\<close>

definition mgmt_lock :: "service \<Rightarrow> spec \<Rightarrow> string \<times> string" where
  "mgmt_lock s sp = (h_url (c_host (sv_client s)), sp_id sp)"

definition body_action :: "json \<Rightarrow> action option" where
  "body_action body = (case body of JObj d \<Rightarrow>
     (let v = dget_or body ''action'' JNull in
      if v = JStr ''create'' then Some Create else if v = JStr ''update'' then Some Update
      else if v = JStr ''delete'' then Some Delete else None) | _ \<Rightarrow> None)"

definition mutation_ids :: "spec \<Rightarrow> action \<Rightarrow> json \<Rightarrow> (string \<times> string) res" where
  "mutation_ids sp act body =
     (if act = Create then Inr ([], [])
      else (case (validate_uuid (dget_or body ''uuid'' JNull), validate_revision (dget_or body ''revision'' JNull)) of
          (Inr u, Inr rv) \<Rightarrow> if sp_singleton sp \<and> u \<noteq> singleton_uuid then Inl bad_request else Inr (u, rv)
        | _ \<Rightarrow> Inl bad_request))"

definition mutate_request :: "service \<Rightarrow> spec \<Rightarrow> json \<Rightarrow> (action \<times> string \<times> string) res" where
  "mutate_request s sp body =
     (if sv_peer s \<noteq> None \<and> \<not> sp_ha_safe sp then Inl (mgmt ''ha_unqualified'' 409)
      else (case body_action body of
          None \<Rightarrow> Inl bad_request
        | Some act \<Rightarrow>
            if sp_singleton sp \<and> act \<noteq> Update then Inl (mgmt ''unsupported'' 405)
            else rbnd (mutation_ids sp act body) (\<lambda>(u, rv).
              rbnd (op_path sp (operation_path sp act) u) (\<lambda>_.
              if sp_apply sp = [] \<and> \<not> sp_persistence_only sp then Inl (mgmt ''unsupported'' 405)
              else Inr (act, u, rv)))))"

definition mutate :: "service \<Rightarrow> spec \<Rightarrow> json \<Rightarrow> json io" where
  "mutate s sp body = bnd (of_res (mutate_request s sp body)) (\<lambda>(act, u, rv).
     mutate_locked s sp act (as_obj body) u rv)"

end
