(* ===== verification/Monitor.thy ===== *)
theory Monitor
  imports Sending
begin

text \<open>
  The discipline the management operations share, as a state machine over events: nothing is sent
  before the audit line that reserves the operation, and then the requests of a fixed plan go out in
  order, each at most once. A mutation that keeps it is an \<open>audited_mutation\<close>; the engine, the
  device operations and the CRL service are interpretations.
\<close>

section \<open>The machine\<close>

text \<open>\<open>Sent n\<close>: the operation is reserved and the first \<open>n\<close> requests of its plan were sent.\<close>

datatype phase = Idle | Sent nat

inductive step :: "(audit_entry \<Rightarrow> bool) \<Rightarrow> target list \<Rightarrow> phase \<Rightarrow> event \<Rightarrow> phase \<Rightarrow> bool"
  for P :: "audit_entry \<Rightarrow> bool" and plan :: "target list"
where
  other: "\<not> is_post e \<Longrightarrow> \<not> logged P e \<Longrightarrow> step P plan ph e ph"
| reserve: "logged P e \<Longrightarrow> step P plan Idle e (Sent 0)"
| again: "logged P e \<Longrightarrow> step P plan (Sent n) e (Sent n)"
| send: "is_post e \<Longrightarrow> n < length plan \<Longrightarrow> target_of e = [plan ! n] \<Longrightarrow> step P plan (Sent n) e (Sent (Suc n))"

inductive steps :: "(audit_entry \<Rightarrow> bool) \<Rightarrow> target list \<Rightarrow> phase \<Rightarrow> trace \<Rightarrow> phase \<Rightarrow> bool"
  for P :: "audit_entry \<Rightarrow> bool" and plan :: "target list"
where
  none: "steps P plan ph [] ph"
| more: "step P plan ph e ph' \<Longrightarrow> steps P plan ph' es ph'' \<Longrightarrow> steps P plan ph (e # es) ph''"

inductive_cases step_IdleE [elim!]: "step P plan Idle e ph"
inductive_cases step_SentE [elim!]: "step P plan (Sent n) e ph"
inductive_simps steps_Nil [simp]: "steps P plan ph [] ph'"
inductive_simps steps_Cons: "steps P plan ph (e # es) ph'"

lemma is_post_target: "is_post e \<Longrightarrow> \<exists>t. target_of e = [t]"
  by (cases e rule: is_post.cases) (auto simp: target_of_def)

lemma not_post_target: "\<not> is_post e \<Longrightarrow> target_of e = []"
  by (cases e rule: is_post.cases) (auto simp: target_of_def split: meth.splits)

lemma targets_Cons: "targets (e # es) = target_of e @ targets es"
  by (simp add: targets_def)

text \<open>The machine has one successor at most.\<close>

lemma step_deterministic: "step P plan ph e a \<Longrightarrow> step P plan ph e b \<Longrightarrow> a = b"
  by (cases ph) (auto dest: logged_not_post)

lemma steps_sent:
  assumes "n \<le> length plan"
  shows "(\<exists>ph. steps P plan (Sent n) es ph) = prefix (targets es) (drop n plan)"
  using assms
proof (induction es arbitrary: n)
  case (Cons e es)
  show ?case
  proof (cases "is_post e")
    case False
    then have "(\<exists>ph. steps P plan (Sent n) (e # es) ph) = (\<exists>ph. steps P plan (Sent n) es ph)"
      by (cases "logged P e") (auto simp: steps_Cons intro: other again)
    with Cons False show ?thesis by (simp add: targets_Cons not_post_target)
  next
    case True
    then obtain t where t: "target_of e = [t]" using is_post_target by blast
    have nl: "\<not> logged P e" using True logged_not_post by blast
    show ?thesis
    proof (cases "n < length plan \<and> t = plan ! n")
      case True
      then have "(\<exists>ph. steps P plan (Sent n) (e # es) ph) = (\<exists>ph. steps P plan (Sent (Suc n)) es ph)"
        using nl t \<open>is_post e\<close> by (auto simp: steps_Cons intro: send)
      with Cons.IH [of "Suc n"] True t show ?thesis
        by (simp add: targets_Cons Cons_nth_drop_Suc [symmetric])
    next
      case False
      then have "\<not> (\<exists>ph. steps P plan (Sent n) (e # es) ph)"
        using nl t \<open>is_post e\<close> by (auto simp: steps_Cons)
      moreover from False have "\<not> prefix (t # targets es) (drop n plan)"
        by (cases "n < length plan") (auto simp: Cons_nth_drop_Suc [symmetric])
      ultimately show ?thesis using t by (simp add: targets_Cons)
    qed
  qed
qed (auto intro: none)

text \<open>The traces the machine accepts are those that are audited and follow the plan.\<close>

lemma accepts_iff: "(\<exists>ph. steps P plan Idle es ph) = (audited P es \<and> prefix (targets es) plan)"
proof (induction es)
  case (Cons e es)
  show ?case
  proof (cases "is_post e")
    case True
    then have "\<not> logged P e" using logged_not_post by blast
    with True show ?thesis by (auto simp: steps_Cons)
  next
    case False
    show ?thesis
    proof (cases "logged P e")
      case True
      then have "(\<exists>ph. steps P plan Idle (e # es) ph) = (\<exists>ph. steps P plan (Sent 0) es ph)"
        by (auto simp: steps_Cons intro: reserve)
      with True False show ?thesis by (simp add: steps_sent targets_Cons not_post_target)
    next
      case nl: False
      then have "(\<exists>ph. steps P plan Idle (e # es) ph) = (\<exists>ph. steps P plan Idle es ph)"
        using False by (auto simp: steps_Cons intro: other)
      with Cons nl False show ?thesis by (simp add: targets_Cons not_post_target)
    qed
  qed
qed simp

section \<open>Disciplined mutations\<close>

locale audited_mutation =
  fixes m :: "'a io"
    and started :: "audit_entry \<Rightarrow> bool"
    and plan :: "target list"
  assumes disciplined: "runs m (\<lambda>r es. audited started es \<and> prefix (targets es) plan)"
begin

lemma accepted: "runs m (\<lambda>r es. \<exists>ph. steps started plan Idle es ph)"
  by (rule runs_conseq [OF disciplined]) (simp add: accepts_iff)

text \<open>If no reserving line reached the log, nothing was sent.\<close>

lemma unlogged_silent: "runs m (\<lambda>r es. (\<forall>e \<in> set es. \<not> logged started e) \<longrightarrow> targets es = [])"
proof (rule runs_conseq [OF disciplined], intro impI)
  fix r :: "'a res" and es
  assume a: "audited started es \<and> prefix (targets es) plan" and n: "\<forall>e \<in> set es. \<not> logged started e"
  have "\<not> is_post e" if "e \<in> set es" for e
  proof
    assume "is_post e"
    moreover from that obtain xs ys where "es = xs @ e # ys" by (meson split_list)
    ultimately show False using a n unfolding audited_iff by (metis Un_iff set_append)
  qed
  then show "targets es = []" by (simp add: silent_targets [symmetric] silent_def posts_def)
qed

lemma bounded: "runs m (\<lambda>r es. length (targets es) \<le> length plan)"
  by (rule runs_conseq [OF disciplined]) (simp add: prefix_length_le)

end

end
