(* ===== verification/Engine_Facts.thy ===== *)
theory Engine_Facts
  imports Engine_Mutate Monitor
begin

text \<open>
  What one mutation of the management engine does: the requests it sends, in order, the lines it
  writes, and what it has read when it reports success. The properties are in \<^verbatim>\<open>Engine_Props\<close>.
\<close>

section \<open>Reading\<close>

lemma read_only_call [trace_intros]: "read_only_io m \<Longrightarrow> read_only_io (call m)"
  unfolding call_def by (intro trace_intros)

lemma read_only_raw [trace_intros]: "read_only_io (raw sp c u)"
  unfolding raw_def by (intro trace_intros)

lemma read_only_mdetail [trace_intros]: "read_only_io (mdetail_get s sp u)"
  unfolding mdetail_get_def by (intro trace_intros)

lemma read_only_mlist [trace_intros]: "read_only_io (mlist s sp p n t)"
  unfolding mlist_def by (auto split: prod.split intro!: trace_intros)

lemma read_only_absent [trace_intros]: "read_only_io (absent s sp u err page seen left)"
proof (induction left arbitrary: page seen)
  case 0
  show ?case by (subst absent.simps) (auto simp: Let_def intro!: trace_intros)
next
  case (Suc n)
  then show ?case by (subst absent.simps) (auto simp: Let_def intro!: trace_intros)
qed

lemma read_only_readback [trace_intros]: "read_only_io (readback s sp act body ex u)"
  unfolding readback_def Let_def by (intro trace_intros)

lemma read_only_peer [trace_intros]: "read_only_io (peer_same s sp a u)" "read_only_io (peer_absent s sp u)"
  unfolding peer_same_def peer_absent_def by (auto split: option.split intro!: trace_intros)

lemma read_only_verify_stage [trace_intros]: "read_only_io (verify_stage s sp act body ex u)"
  unfolding verify_stage_def by (auto split: option.split intro!: trace_intros)

text \<open>The last event is the GET that gave this object.\<close>

definition raw_read :: "spec \<Rightarrow> client \<Rightarrow> string \<Rightarrow> json \<Rightarrow> trace \<Rightarrow> bool" where
  "raw_read sp c u r es = (\<exists>p v. op_path sp (sp_get sp) u = Inr p \<and> got c p [] v es \<and> raw_of sp v = Inr r)"

lemma call_get:
  "runs (call (client_get c p ps)) (\<lambda>r es. targets es = [] \<and> audit_lines es = [] \<and>
     (\<forall>v. r = Inr v \<longrightarrow> got c p ps v es) \<and> (\<forall>e. r = Inl e \<longrightarrow> is_mgmt e))"
  unfolding call_def
proof (rule runs_try_else [OF runs_client_get [where Q = "\<lambda>r es. targets es = [] \<and> audit_lines es = [] \<and>
    (case r of Inl e \<Rightarrow> is_opn e | Inr v \<Rightarrow> got c p ps v es)"]], goal_cases)
  case (3 e es)
  then show ?case by (cases e) (auto simp: mgmt_def)
qed (auto dest: get_events_silent get_events_no_audit simp: silent_targets)

lemma raw_runs:
  "runs (raw sp c u) (\<lambda>r es. targets es = [] \<and> audit_lines es = [] \<and> (\<forall>x. r = Inr x \<longrightarrow> raw_read sp c u x es))"
proof (cases "op_path sp (sp_get sp) u")
  case (Inr p)
  then show ?thesis
    unfolding raw_def raw_read_def
    by (simp, intro runs_bnd [OF call_get]) auto
qed (simp add: raw_def)

definition page_read :: "service \<Rightarrow> spec \<Rightarrow> int \<Rightarrow> listing \<Rightarrow> trace \<Rightarrow> bool" where
  "page_read s sp page l es = (\<exists>p v. op_path sp (sp_search sp) [] = Inr p \<and>
     got (sv_client s) p [(''current'', JInt page), (''rowCount'', JInt 200), (''searchPhrase'', JStr [])] v es \<and>
     listing_of sp page 200 v = Inr l)"

lemma mlist_runs:
  assumes "\<not> sp_singleton sp"
  shows "runs (mlist s sp (JInt page) (JInt 200) (JStr [])) (\<lambda>r es. targets es = [] \<and> audit_lines es = [] \<and>
    (\<forall>l. r = Inr l \<longrightarrow> page_read s sp page l es))"
proof (cases "page_args (JInt page) (JInt 200) (JStr [])")
  case (Inr a)
  then have a: "page_args (JInt page) (JInt 200) (JStr []) = Inr (page, 200, [])"
    by (auto simp: page_args_def split: if_splits)
  show ?thesis
  proof (cases "op_path sp (sp_search sp) []")
    case (Inl e)
    then show ?thesis by (simp add: mlist_def a assms)
  next
    case (Inr p)
    then show ?thesis
      by (simp add: mlist_def a assms page_read_def) (rule runs_bnd [OF call_get], auto)
  qed
qed (simp add: mlist_def)

text \<open>Successive pages, none of which has the object, covering as many rows as the last one announces.\<close>

fun pages_read :: "service \<Rightarrow> spec \<Rightarrow> int \<Rightarrow> listing list \<Rightarrow> trace \<Rightarrow> bool" where
  "pages_read s sp page [] es = (es = [])"
| "pages_read s sp page (l # ls) es =
     (\<exists>xs ys. es = xs @ ys \<and> page_read s sp page l xs \<and> pages_read s sp (page + 1) ls ys)"

definition row_has :: "string \<Rightarrow> obj \<Rightarrow> bool" where
  "row_has u row = (lower (py_str (dget_or (JObj row) ''uuid'' (JStr []))) = u)"

definition scanned :: "service \<Rightarrow> spec \<Rightarrow> string \<Rightarrow> int \<Rightarrow> int \<Rightarrow> trace \<Rightarrow> bool" where
  "scanned s sp u page seen es = (\<exists>ls. ls \<noteq> [] \<and> pages_read s sp page ls es \<and>
     (\<forall>l \<in> set ls. \<not> list_ex (row_has u) (ls_rows l)) \<and>
     seen + sum_list (map (\<lambda>l. int (length (ls_rows l))) ls) \<ge> ls_total (last ls))"

lemma scanned_last:
  "page_read s sp page l es \<Longrightarrow> \<not> list_ex (row_has u) (ls_rows l) \<Longrightarrow>
   ls_total l \<le> seen + int (length (ls_rows l)) \<Longrightarrow> scanned s sp u page seen es"
  unfolding scanned_def by (intro exI [of _ "[l]"]) auto

lemma scanned_more:
  assumes "page_read s sp page l xs" "\<not> list_ex (row_has u) (ls_rows l)"
    "scanned s sp u (page + 1) (seen + int (length (ls_rows l))) ys"
  shows "scanned s sp u page seen (xs @ ys)"
proof -
  from assms(3) obtain ls where "ls \<noteq> []" "pages_read s sp (page + 1) ls ys"
    "\<forall>l \<in> set ls. \<not> list_ex (row_has u) (ls_rows l)"
    "ls_total (last ls) \<le> seen + int (length (ls_rows l)) + sum_list (map (\<lambda>l. int (length (ls_rows l))) ls)"
    unfolding scanned_def by auto
  with assms(1,2) show ?thesis
    unfolding scanned_def by (intro exI [of _ "l # ls"]) auto
qed

lemma absent_runs:
  assumes "\<not> sp_singleton sp"
  shows "runs (absent s sp u err page seen left) (\<lambda>r es. r = Inr () \<longrightarrow> scanned s sp u page seen es)"
proof (induction left arbitrary: page seen)
  case 0
  show ?case
    by (subst absent.simps, unfold Let_def, rule runs_bnd [OF mlist_runs [OF assms]]) (auto simp: row_has_def [symmetric] intro: scanned_last)
next
  case (Suc n)
  show ?case
  proof (subst absent.simps, unfold Let_def, rule runs_bnd [OF mlist_runs [OF assms]], goal_cases)
    case (2 l es)
    then have l: "page_read s sp page l es" by blast
    show ?case
    proof (intro runs_if, goal_cases)
      case 2
      with l show ?case by (simp add: row_has_def [symmetric] scanned_last)
    next
      case 4
      show ?case
        unfolding nat.case
        by (rule runs_conseq [OF Suc]) (use l 4 in \<open>auto simp: row_has_def [symmetric] intro: scanned_more\<close>)
    qed auto
  qed auto
qed

section \<open>What a confirmed mutation has read\<close>

definition object_confirmed :: "service \<Rightarrow> spec \<Rightarrow> action \<Rightarrow> obj \<Rightarrow> json \<Rightarrow> string \<Rightarrow> trace \<Rightarrow> bool" where
  "object_confirmed s sp act body ex u es = (\<exists>xs ys r. es = xs @ ys \<and> raw_read sp (sv_client s) u r xs \<and>
     same_fields (sp_fields sp) (as_obj (values_of body)) (form_value r) ex = Inr () \<and>
     (\<forall>f. sp_verify sp = Some f \<longrightarrow> f (form_value r) ex act = Inr ()) \<and>
     (case sv_peer s of None \<Rightarrow> ys = []
      | Some peer \<Rightarrow> \<exists>r'. raw_read sp peer u r' ys \<and> hash_payload (form_value r') = hash_payload (form_value r)))"

definition absence_confirmed :: "service \<Rightarrow> spec \<Rightarrow> string \<Rightarrow> trace \<Rightarrow> bool" where
  "absence_confirmed s sp u es = (\<exists>xs ys. es = xs @ ys \<and> scanned s sp u 1 0 xs \<and>
     (case sv_peer s of None \<Rightarrow> ys = []
      | Some peer \<Rightarrow> scanned (s\<lparr>sv_client := peer, sv_peer := None\<rparr>) sp u 1 0 ys))"

definition outcome_read :: "service \<Rightarrow> spec \<Rightarrow> action \<Rightarrow> obj \<Rightarrow> json option \<Rightarrow> string \<Rightarrow> trace \<Rightarrow> bool" where
  "outcome_read s sp act body expected u es = (case expected of
      None \<Rightarrow> absence_confirmed s sp u es | Some ex \<Rightarrow> object_confirmed s sp act body ex u es)"

lemma object_readback_runs:
  "runs (readback s sp act body ex u) (\<lambda>r es. \<forall>x. r = Inr x \<longrightarrow> (\<exists>y. x = form_value y \<and>
     raw_read sp (sv_client s) u y es \<and>
     same_fields (sp_fields sp) (as_obj (values_of body)) x ex = Inr () \<and>
     (\<forall>f. sp_verify sp = Some f \<longrightarrow> f x ex act = Inr ())))"
  unfolding readback_def Let_def
proof (rule runs_bnd [OF raw_runs], goal_cases)
  case (2 y es)
  then have y: "raw_read sp (sv_client s) u y es" by blast
  let ?same = "same_fields (sp_fields sp) (as_obj (values_of body)) (form_value y) ex"
  let ?hook = "case sp_verify sp of None \<Rightarrow> Inr () | Some f \<Rightarrow> f (form_value y) ex act"
  show ?case
  proof (cases ?same)
    case same: (Inr a)
    show ?thesis
    proof (cases ?hook)
      case (Inr b)
      with same y show ?thesis by (auto split: option.splits)
    qed (simp add: same)
  qed simp
qed simp

lemma verify_stage_runs:
  assumes "expected = None \<Longrightarrow> \<not> sp_singleton sp"
  shows "runs (verify_stage s sp act body expected u) (\<lambda>r es. targets es = [] \<and> audit_lines es = [] \<and>
    (r = Inr () \<longrightarrow> outcome_read s sp act body expected u es))"
proof -
  have "runs (verify_stage s sp act body expected u) (\<lambda>r es. r = Inr () \<longrightarrow> outcome_read s sp act body expected u es)"
  proof (cases expected)
    case None
    show ?thesis
      unfolding verify_stage_def None option.case outcome_read_def absence_confirmed_def
    proof (rule runs_bnd [OF absent_runs [OF assms [OF None]]], goal_cases)
      case (2 x es)
      show ?case
      proof (cases "sv_peer s")
        case no_peer: None
        from 2 show ?thesis unfolding peer_absent_def no_peer option.case by simp
      next
        case (Some peer)
        show ?thesis
          unfolding peer_absent_def Some option.case
          by (rule runs_conseq [OF absent_runs [OF assms [OF None]]], intro impI exI [of _ es] exI conjI, rule refl)
            (use 2 Some in auto)
      qed
    qed simp
  next
    case (Some ex)
    show ?thesis
      unfolding verify_stage_def Some option.case outcome_read_def object_confirmed_def
    proof (rule runs_bnd [OF object_readback_runs], goal_cases)
      case (2 x es)
      then obtain y where y: "x = form_value y" "raw_read sp (sv_client s) u y es"
        "same_fields (sp_fields sp) (as_obj (values_of body)) x ex = Inr ()"
        "\<forall>f. sp_verify sp = Some f \<longrightarrow> f x ex act = Inr ()" by blast
      show ?case
      proof (cases "sv_peer s")
        case None
        from y show ?thesis unfolding peer_same_def None option.case runs_ret by simp blast
      next
        case (Some peer)
        have "runs (bnd (raw sp peer u) (\<lambda>r. if hash_payload (form_value r) \<noteq> hash_payload x
                then raise (mgmt ''ha_unverified'' 409) else ret ()))
          (\<lambda>r es'. r = Inr () \<longrightarrow> (\<exists>r'. raw_read sp peer u r' es' \<and> hash_payload (form_value r') = hash_payload x))"
          by (rule runs_bnd [OF raw_runs]) auto
        with Some y show ?thesis
          unfolding peer_same_def Some option.case by (elim runs_conseq) blast
      qed
    qed simp
  qed
  then show ?thesis
    by (rule runs_both [OF _ read_only_verify_stage [unfolded read_only_io_def]]) (auto simp: silent_targets)
qed

section \<open>The stages\<close>

definition sent_to :: "service \<Rightarrow> string \<Rightarrow> target" where
  "sent_to s p = (c_host (sv_client s), url_path p)"

definition save_targets :: "service \<Rightarrow> spec \<Rightarrow> action \<Rightarrow> string \<Rightarrow> target list" where
  "save_targets s sp act u = (case op_path sp (operation_path sp act) u of Inl _ \<Rightarrow> [] | Inr p \<Rightarrow> [sent_to s p])"

definition mutation_targets :: "service \<Rightarrow> spec \<Rightarrow> action \<Rightarrow> string \<Rightarrow> target list" where
  "mutation_targets s sp act u = save_targets s sp act u @ map (sent_to s) (sp_apply sp)"

lemma is_mgmt_simps [simp]: "is_mgmt (mgmt err st)" "is_mgmt invalid_response" "is_mgmt (call_error e)"
  by (simp_all add: mgmt_def) (cases e; simp add: mgmt_def)

lemma call_post:
  "runs (call (client_post c p d)) (\<lambda>r es. targets es = [(c_host c, url_path p)] \<and> audit_lines es = [] \<and>
     (\<forall>e. r = Inl e \<longrightarrow> is_mgmt e))"
  unfolding call_def
  by (rule runs_try_else [OF runs_client_post [where Q = "\<lambda>r es. targets es = [(c_host c, url_path p)] \<and> audit_lines es = [] \<and>
      (\<forall>e. r = Inl e \<longrightarrow> is_opn e)"]])
    (auto simp: posted_def dest: post_result_opn sym)

lemma check_ack_mgmt: "check_ack v sp b = Inl e \<Longrightarrow> is_mgmt e"
  by (auto simp: check_ack_def split: json.splits if_splits)

lemma save_runs:
  "runs (save s sp act payload u0) (\<lambda>r es. targets es = save_targets s sp act u0 \<and> audit_lines es = [] \<and>
     (\<forall>e. r = Inl e \<longrightarrow> is_mgmt e) \<and> (\<forall>u. r = Inr u \<longrightarrow> act \<noteq> Create \<longrightarrow> u = u0))"
proof (cases "op_path sp (operation_path sp act) u0")
  case (Inl e)
  then have "is_mgmt e" by (auto simp: op_path_def Let_def split: option.splits list.splits)
  with Inl show ?thesis by (simp add: save_def save_targets_def)
next
  case (Inr p)
  have rest: "runs (bnd (of_res (check_ack response sp False)) (\<lambda>d. if act = Create
      then (case validate_uuid (dget_or (JObj d) ''uuid'' JNull) of Inl _ \<Rightarrow> raise invalid_response | Inr u \<Rightarrow> ret u)
      else ret u0)) (\<lambda>r es. es = [] \<and> (\<forall>e. r = Inl e \<longrightarrow> is_mgmt e) \<and> (\<forall>u. r = Inr u \<longrightarrow> act \<noteq> Create \<longrightarrow> u = u0))" for response
    by (cases "check_ack response sp False") (auto split: sum.split dest: check_ack_mgmt)
  show ?thesis
    unfolding save_def Inr bnd_of_res save_targets_def sum.case sent_to_def
    by (rule runs_bnd [OF call_post], simp, rule runs_conseq [OF rest]) auto
qed

lemma apply_all_runs:
  "runs (apply_all s sp ps) (\<lambda>r es. prefix (targets es) (map (sent_to s) ps) \<and> audit_lines es = [] \<and>
     (\<forall>e. r = Inl e \<longrightarrow> is_mgmt e) \<and> (\<forall>x. r = Inr x \<longrightarrow> targets es = map (sent_to s) ps))"
proof (induction ps)
  case (Cons p ps)
  have rest: "runs (bnd (of_res (check_ack response sp True)) (\<lambda>_. apply_all s sp ps))
      (\<lambda>r es. prefix (targets es) (map (sent_to s) ps) \<and> audit_lines es = [] \<and>
         (\<forall>e. r = Inl e \<longrightarrow> is_mgmt e) \<and> (\<forall>x. r = Inr x \<longrightarrow> targets es = map (sent_to s) ps))" for response
    by (cases "check_ack response sp True") (simp add: check_ack_mgmt, simp only: bnd_of_res, rule Cons)
  show ?case
    unfolding apply_all.simps list.map sent_to_def [of s p]
    by (rule runs_bnd [OF call_post], simp, rule runs_conseq [OF rest]) auto
qed simp

lemma apply_stage_runs:
  "runs (apply_stage s sp) (\<lambda>r es. prefix (targets es) (map (sent_to s) (sp_apply sp)) \<and> audit_lines es = [] \<and>
     (\<forall>e. r = Inl e \<longrightarrow> is_mgmt e) \<and> (\<forall>x. r = Inr x \<longrightarrow> targets es = map (sent_to s) (sp_apply sp)))"
  unfolding apply_stage_def using apply_all_runs by (auto intro!: runs_if)

section \<open>Lines\<close>

definition mgmt_entry :: "service \<Rightarrow> spec \<Rightarrow> action \<Rightarrow> string \<Rightarrow> string \<Rightarrow> obj \<Rightarrow> audit_entry \<Rightarrow> bool" where
  "mgmt_entry s sp act u rslt payload a = entry_of (sv_actor s) (sp_id sp @ ''.'' @ action_name act) u
     (h_name (c_host (sv_client s))) rslt [] (hash_payload (JObj payload)) a"

definition line_outcome ::
  "service \<Rightarrow> spec \<Rightarrow> action \<Rightarrow> string \<Rightarrow> string \<Rightarrow> obj \<Rightarrow> audit_entry res \<Rightarrow> trace \<Rightarrow> bool" where
  "line_outcome s sp act u rslt payload r es = (\<exists>a lg. es = [AuditEv a lg] \<and> mgmt_entry s sp act u rslt payload a \<and>
     (case lg of None \<Rightarrow> r = Inr a | Some msg \<Rightarrow> r = Inl (mgmt ''audit'' 503)))"

lemma mgmt_line_runs: "runs (mgmt_line s sp act u rslt payload t0) (line_outcome s sp act u rslt payload)"
  unfolding mgmt_line_def
proof (rule runs_bnd [OF runs_now_ms [where Q = "\<lambda>r es. es = [] \<and> (\<exists>t. r = Inr t)"]], goal_cases)
  case (3 t es)
  have "runs (try_else (audit_now (sv_actor s) (sp_id sp @ ''.'' @ action_name act) u (h_name (c_host (sv_client s)))
          rslt (t - t0) [] (hash_payload (JObj payload))) is_os (\<lambda>_. raise (mgmt ''audit'' 503)) ret)
      (line_outcome s sp act u rslt payload)"
    by (rule runs_try_else [OF runs_audit_now [where Q = "\<lambda>r es. \<exists>a lg. es = [AuditEv a lg] \<and>
          mgmt_entry s sp act u rslt payload a \<and> (case lg of None \<Rightarrow> r = Inr a | Some msg \<Rightarrow> r = Inl (OSErr msg))"]])
      (auto simp: mgmt_entry_def line_outcome_def split: option.splits)
  with 3 show ?case by simp
qed simp_all

definition error_line ::
  "service \<Rightarrow> spec \<Rightarrow> action \<Rightarrow> obj \<Rightarrow> string \<Rightarrow> string \<Rightarrow> string option \<Rightarrow> exn \<Rightarrow> 'a res \<Rightarrow> trace \<Rightarrow> bool" where
  "error_line s sp act payload stage u confirmed e r es = (\<exists>a lg m m'. es = [AuditEv a lg] \<and>
     mgmt_entry s sp act u ''error'' payload a \<and> e = MgmtErr m \<and> r = Inl (MgmtErr m') \<and>
     me_error m' = me_error m \<and> me_stage m' = Some stage \<and> me_uuid m' = confirmed \<and>
     me_partial m' = (\<not> (me_error m = ''validation'' \<and> stage = ''save'')) \<and>
     (lg \<noteq> None \<longrightarrow> me_audit_failure m'))"

lemma on_error_runs:
  assumes "is_mgmt e"
  shows "runs (on_error s sp act payload t0 stage u confirmed e) (error_line s sp act payload stage u confirmed e)"
proof -
  obtain m where e: "e = MgmtErr m" using assms by (cases e) auto
  show ?thesis
    unfolding on_error_def e exn.case Let_def
  proof (rule runs_try_else [OF mgmt_line_runs], goal_cases)
    case (1 x es)
    then show ?case by (auto simp: line_outcome_def split: option.splits)
  next
    case (2 x es)
    then show ?case by (force simp: line_outcome_def error_line_def split: option.splits)
  next
    case (3 x es)
    then show ?case by (force simp: line_outcome_def error_line_def split: option.splits)
  qed
qed

section \<open>From the started line to the result\<close>

definition confirmed_run ::
  "service \<Rightarrow> spec \<Rightarrow> action \<Rightarrow> obj \<Rightarrow> json option \<Rightarrow> obj \<Rightarrow> string \<Rightarrow> json \<Rightarrow> trace \<Rightarrow> bool" where
  "confirmed_run s sp act body expected payload u0 v es = (\<exists>u xs ys a. es = xs @ ys @ [AuditEv a None] \<and>
     targets xs = mutation_targets s sp act u0 \<and> targets ys = [] \<and>
     outcome_read s sp act body expected u ys \<and> mgmt_entry s sp act u ''ok'' payload a \<and>
     mutation_result sp act body u = Inr v \<and> (act \<noteq> Create \<longrightarrow> u = u0))"

definition failed_run :: "service \<Rightarrow> spec \<Rightarrow> action \<Rightarrow> obj \<Rightarrow> string \<Rightarrow> mgmt_error \<Rightarrow> trace \<Rightarrow> bool" where
  "failed_run s sp act payload u0 m es = (\<exists>a lg u. (\<exists>xs. es = xs @ [AuditEv a lg]) \<and>
     mgmt_entry s sp act u ''error'' payload a \<and> (lg \<noteq> None \<longrightarrow> me_audit_failure m) \<and>
     (me_stage m = Some ''save'' \<and> targets es = save_targets s sp act u0 \<and> me_uuid m = None \<and>
        me_partial m = (me_error m \<noteq> ''validation'') \<or>
      me_stage m = Some ''apply'' \<and> prefix (save_targets s sp act u0) (targets es) \<and>
        prefix (targets es) (mutation_targets s sp act u0) \<and> me_partial m \<and> me_uuid m = Some u \<or>
      me_stage m = Some ''verify'' \<and> targets es = mutation_targets s sp act u0 \<and> me_partial m \<and> me_uuid m = Some u))"

text \<open>
  Any other exception: the whole plan was sent, and there is no line of an error; the \<open>ok\<close> line is there if the
  exception came after it.
\<close>

definition escaped_run :: "service \<Rightarrow> spec \<Rightarrow> action \<Rightarrow> obj \<Rightarrow> string \<Rightarrow> trace \<Rightarrow> bool" where
  "escaped_run s sp act payload u0 es = (targets es = mutation_targets s sp act u0 \<and>
     (audit_lines es = [] \<or> (\<exists>a u. audit_lines es = [a] \<and> mgmt_entry s sp act u ''ok'' payload a)))"

definition committed ::
  "service \<Rightarrow> spec \<Rightarrow> action \<Rightarrow> obj \<Rightarrow> json option \<Rightarrow> obj \<Rightarrow> string \<Rightarrow> json res \<Rightarrow> trace \<Rightarrow> bool" where
  "committed s sp act body expected payload u0 r es =
     (prefix (targets es) (mutation_targets s sp act u0) \<and>
      (\<forall>v. r = Inr v \<longrightarrow> confirmed_run s sp act body expected payload u0 v es) \<and>
      (\<forall>m. r = Inl (MgmtErr m) \<longrightarrow> failed_run s sp act payload u0 m es) \<and>
      (\<forall>e. r = Inl e \<longrightarrow> \<not> is_mgmt e \<longrightarrow> escaped_run s sp act payload u0 es))"

lemma committed_error:
  assumes "error_line s sp act payload stage u confirmed e r es'"
    and "prefix (targets es) (mutation_targets s sp act u0)"
    and "stage = ''save'' \<and> targets es = save_targets s sp act u0 \<and> confirmed = None \<or>
      stage = ''apply'' \<and> prefix (save_targets s sp act u0) (targets es) \<and> confirmed = Some u \<or>
      stage = ''verify'' \<and> targets es = mutation_targets s sp act u0 \<and> confirmed = Some u"
  shows "committed s sp act body expected payload u0 r (es @ es')"
  using assms unfolding error_line_def committed_def failed_run_def by fastforce

lemma committed_other:
  "\<not> is_mgmt e \<Longrightarrow> escaped_run s sp act payload u0 es \<Longrightarrow>
   committed s sp act body expected payload u0 (Inl e) es"
  by (auto simp: committed_def escaped_run_def)

lemma committed_ok:
  assumes "targets xs = mutation_targets s sp act u0" "targets ys = []" "outcome_read s sp act body expected u ys"
    "mgmt_entry s sp act u ''ok'' payload a" "mutation_result sp act body u = Inr v" "act \<noteq> Create \<longrightarrow> u = u0"
  shows "committed s sp act body expected payload u0 (Inr v) (xs @ ys @ [AuditEv a None])"
  using assms unfolding committed_def confirmed_run_def by auto

text \<open>The last stage: the readback, the line, the result.\<close>

definition last_stage ::
  "service \<Rightarrow> spec \<Rightarrow> action \<Rightarrow> obj \<Rightarrow> json option \<Rightarrow> obj \<Rightarrow> string \<Rightarrow> json res \<Rightarrow> trace \<Rightarrow> bool" where
  "last_stage s sp act body expected payload u r es = (targets es = [] \<and>
     (\<forall>v. r = Inr v \<longrightarrow> (\<exists>ys a. es = ys @ [AuditEv a None] \<and> targets ys = [] \<and>
        outcome_read s sp act body expected u ys \<and> mgmt_entry s sp act u ''ok'' payload a \<and>
        mutation_result sp act body u = Inr v)) \<and>
     (\<forall>e. r = Inl e \<longrightarrow> \<not> is_mgmt e \<longrightarrow> audit_lines es = [] \<or>
        (\<exists>a. audit_lines es = [a] \<and> mgmt_entry s sp act u ''ok'' payload a)))"

lemma last_stage_runs:
  assumes "expected = None \<Longrightarrow> \<not> sp_singleton sp"
  shows "runs (bnd (verify_stage s sp act body expected u) (\<lambda>_. bnd (mgmt_line s sp act u ''ok'' payload t0) (\<lambda>_.
     of_res (mutation_result sp act body u)))) (last_stage s sp act body expected payload u)"
proof (rule runs_bnd [OF verify_stage_runs [OF assms]], goal_cases)
  case (3 x es)
  then have es: "targets es = []" "audit_lines es = []" "outcome_read s sp act body expected u es" by auto
  show ?case
    by (rule runs_bnd [OF mgmt_line_runs])
      (use es in \<open>auto simp: line_outcome_def last_stage_def split: option.splits\<close>)
qed (auto simp: last_stage_def)

lemma commit_runs:
  assumes "expected = None \<Longrightarrow> \<not> sp_singleton sp"
  shows "runs (commit s sp act body expected payload t0 u0) (committed s sp act body expected payload u0)"
proof -
  let ?M = "mutation_targets s sp act u0" and ?S = "save_targets s sp act u0"
  let ?A = "map (sent_to s) (sp_apply sp)" and ?C = "committed s sp act body expected payload u0"
  have M: "?M = ?S @ ?A" by (simp add: mutation_targets_def)
  have checked: "runs (try_else (bnd (verify_stage s sp act body expected u) (\<lambda>_.
               bnd (mgmt_line s sp act u ''ok'' payload t0) (\<lambda>_. of_res (mutation_result sp act body u)))) is_mgmt
       (on_error s sp act payload t0 ''verify'' u (Some u)) ret) (\<lambda>r es'. ?C r (es @ es'))"
    if "targets es = ?M" "audit_lines es = []" "act \<noteq> Create \<longrightarrow> u = u0" for u es
  proof (rule runs_try_else [OF last_stage_runs [OF assms]], goal_cases)
    case (2 e es')
    then show ?case using that by (intro committed_other) (auto simp: last_stage_def escaped_run_def)
  next
    case (3 e es')
    then have "targets (es @ es') = ?M" using that by (simp add: last_stage_def)
    then show ?case
      unfolding append.assoc [symmetric] using 3 by (intro runs_conseq [OF on_error_runs] committed_error) auto
  next
    case (4 v es')
    then show ?case using that by (auto simp: last_stage_def intro!: committed_ok)
  qed (use assms in simp)
  have applied: "runs (try_else (apply_stage s sp) is_mgmt (on_error s sp act payload t0 ''apply'' u (Some u)) (\<lambda>_.
       try_else (bnd (verify_stage s sp act body expected u) (\<lambda>_.
               bnd (mgmt_line s sp act u ''ok'' payload t0) (\<lambda>_. of_res (mutation_result sp act body u)))) is_mgmt
       (on_error s sp act payload t0 ''verify'' u (Some u)) ret)) (\<lambda>r es'. ?C r (es @ es'))"
    if es: "targets es = ?S" "audit_lines es = []" and u: "act \<noteq> Create \<longrightarrow> u = u0" for u es
  proof (rule runs_try_else [OF apply_stage_runs], goal_cases)
    case (1 e es')
    then show ?case by simp
  next
    case (2 e es')
    then have "prefix ?S (targets (es @ es'))" "prefix (targets (es @ es')) ?M" using es M by auto
    then show ?case
      unfolding append.assoc [symmetric] using 2 by (intro runs_conseq [OF on_error_runs] committed_error) auto
  next
    case (3 x es')
    then have "targets (es @ es') = ?M" "audit_lines (es @ es') = []" using es M by auto
    from checked [OF this u] show ?case by simp
  qed
  show ?thesis
    unfolding commit_def
  proof (rule runs_try_else [OF save_runs], goal_cases)
    case (1 e es)
    then show ?case by simp
  next
    case (2 e es)
    then have "targets es = ?S" "prefix (targets es) ?M" using M by auto
    then show ?case using 2 by (intro runs_conseq [OF on_error_runs] committed_error) auto
  next
    case (3 u es)
    then show ?case by (intro applied) auto
  qed
qed

section \<open>The whole mutation\<close>

definition payload_of :: "spec \<Rightarrow> json option \<Rightarrow> obj" where
  "payload_of sp expected = (case expected of None \<Rightarrow> [] | Some ex \<Rightarrow> oput [] (sp_key sp) ex)"

text \<open>A run that got past its reservation: the object was read, then the line was written.\<close>

definition reserved_run :: "service \<Rightarrow> spec \<Rightarrow> action \<Rightarrow> obj \<Rightarrow> string \<Rightarrow> string \<Rightarrow> json res \<Rightarrow> trace \<Rightarrow> bool" where
  "reserved_run s sp act body u rv r es = (\<exists>before after cur expected a. es = before @ AuditEv a None # after \<and>
     silent before \<and> audit_lines before = [] \<and> raw_read sp (sv_client s) u cur before \<and>
     (act \<noteq> Create \<longrightarrow> hash_payload (form_value cur) = rv) \<and>
     expected_values sp act body (form_value cur) = Inr expected \<and>
     mgmt_entry s sp act u ''started'' (payload_of sp expected) a \<and>
     committed s sp act body expected (payload_of sp expected) u r after)"

definition mutation_shape :: "service \<Rightarrow> spec \<Rightarrow> action \<Rightarrow> obj \<Rightarrow> string \<Rightarrow> string \<Rightarrow> json res \<Rightarrow> trace \<Rightarrow> bool" where
  "mutation_shape s sp act body u rv r es =
     (silent es \<and> audit_lines es = [] \<and> (\<exists>e. r = Inl e) \<or>
      reserved_run s sp act body u rv r es)"

lemma expected_None: "expected_values sp act body cur = Inr None \<Longrightarrow> act = Delete"
  by (auto simp: expected_values_def rbnd_def split: if_splits sum.splits)

lemma mutate_locked_runs:
  assumes "act = Delete \<Longrightarrow> \<not> sp_singleton sp"
  shows "runs (mutate_locked s sp act body u rv) (mutation_shape s sp act body u rv)"
  unfolding mutate_locked_def
proof (rule runs_bnd [OF runs_now_ms [where Q = "\<lambda>r es. es = [] \<and> (\<exists>t. r = Inr t)"]], goal_cases)
  case (3 t0 es0)
  then have es0: "es0 = []" by simp
  show ?case
    unfolding es0 append_Nil
  proof (rule runs_bnd [OF raw_runs], goal_cases)
    case (1 e es)
    then show ?case by (simp add: mutation_shape_def silent_targets)
  next
    case (2 cur es)
    then have pre: "silent es" "audit_lines es = []" "raw_read sp (sv_client s) u cur es"
      by (simp_all add: silent_targets)
    let ?ex = "expected_values sp act body (form_value cur)"
    show ?case
      unfolding Let_def
    proof (rule runs_if, goal_cases)
      case 1
      with pre show ?case by (simp add: mutation_shape_def)
    next
      case 2
      show ?case
      proof (cases ?ex)
        case (Inl e)
        with pre show ?thesis by (simp add: mutation_shape_def)
      next
        case (Inr expected)
        have single: "expected = None \<Longrightarrow> \<not> sp_singleton sp"
          using Inr assms expected_None by blast
        show ?thesis
          unfolding Inr bnd_of_res payload_of_def [symmetric]
        proof (rule runs_bnd [OF mgmt_line_runs], goal_cases)
          case (1 e es1)
          then have "silent es1" "audit_lines es1 = []"
            by (auto simp: line_outcome_def silent_Cons split: option.splits)
          with pre show ?case by (simp add: mutation_shape_def)
        next
          case (2 x es1)
          then obtain a where a: "es1 = [AuditEv a None]" "mgmt_entry s sp act u ''started'' (payload_of sp expected) a"
            by (auto simp: line_outcome_def split: option.splits)
          show ?case
          proof (rule runs_conseq [OF commit_runs [OF single]], goal_cases)
            case (2 r after)
            with a pre Inr \<open>\<not> (act \<noteq> Create \<and> hash_payload (form_value cur) \<noteq> rv)\<close>
            have "reserved_run s sp act body u rv r (es @ es1 @ after)"
              unfolding reserved_run_def
              by (intro exI [of _ es] exI [of _ after] exI [of _ cur] exI [of _ expected] exI [of _ a]) auto
            then show ?case by (simp add: mutation_shape_def)
          qed
        qed
      qed
    qed
  qed
qed simp_all

lemma mutate_request_single:
  assumes "mutate_request s sp body = Inr (act, u, rv)" shows "act = Delete \<Longrightarrow> \<not> sp_singleton sp"
  using assms by (auto simp: mutate_request_def rbnd_def split: if_splits option.splits sum.splits prod.splits)

text \<open>The reserving line of a mutation of this object by this user.\<close>

definition reserves :: "service \<Rightarrow> spec \<Rightarrow> action \<Rightarrow> string \<Rightarrow> audit_entry \<Rightarrow> bool" where
  "reserves s sp act u a = (\<exists>payload. mgmt_entry s sp act u ''started'' payload a)"

lemma shape_disciplined:
  assumes "mutation_shape s sp act body u rv r es"
  shows "audited (reserves s sp act u) es \<and> prefix (targets es) (mutation_targets s sp act u)"
  using assms
  by (auto simp: mutation_shape_def reserved_run_def committed_def reserves_def audited_append audited_silent
      silent_targets)

definition mutation_line :: "service \<Rightarrow> spec \<Rightarrow> json \<Rightarrow> audit_entry \<Rightarrow> bool" where
  "mutation_line s sp body a = (case mutate_request s sp body of
      Inl _ \<Rightarrow> False | Inr (act, u, rv) \<Rightarrow> reserves s sp act u a)"

definition mutation_plan :: "service \<Rightarrow> spec \<Rightarrow> json \<Rightarrow> target list" where
  "mutation_plan s sp body = (case mutate_request s sp body of
      Inl _ \<Rightarrow> [] | Inr (act, u, rv) \<Rightarrow> mutation_targets s sp act u)"

lemma mutate_runs:
  assumes "mutate_request s sp body = Inr (act, u, rv)"
  shows "runs (mutate s sp body) (mutation_shape s sp act (as_obj body) u rv)"
  using mutate_locked_runs [OF mutate_request_single [OF assms]] assms by (simp add: mutate_def)

interpretation engine: audited_mutation "mutate s sp body" "mutation_line s sp body" "mutation_plan s sp body" for s sp body
proof
  show "runs (mutate s sp body) (\<lambda>r es. audited (mutation_line s sp body) es \<and> prefix (targets es) (mutation_plan s sp body))"
  proof (cases "mutate_request s sp body")
    case (Inr q)
    obtain act u rv where q: "q = (act, u, rv)" by (cases q) auto
    have line: "mutation_line s sp body = reserves s sp act u" "mutation_plan s sp body = mutation_targets s sp act u"
      by (auto simp: mutation_line_def mutation_plan_def Inr q)
    show ?thesis
      unfolding line by (rule runs_conseq [OF mutate_runs [OF Inr [unfolded q]] shape_disciplined])
  qed (simp add: mutate_def)
qed

end
