(* ===== verification/Catalog.thy ===== *)
theory Catalog
  imports Engine
begin

text \<open>
  The resources of \<^verbatim>\<open>src/management/catalog.py\<close>, first part: WireGuard, traffic shaping,
  interfaces, Monit, IDS and IPsec connections. A field is given by its name, label, kind and whether it
  is required, then by what differs from the plain case.
\<close>

definition fld :: "string \<Rightarrow> string \<Rightarrow> string \<Rightarrow> bool \<Rightarrow> field" where
  "fld name label kind required = \<lparr>fd_name = name, fd_label = label, fd_kind = kind, fd_required = required,
     fd_secret = False, fd_write_only = False, fd_readonly = False, fd_generated = False, fd_volatile = False,
     fd_multiple = False, fd_default = None, fd_create_default = None, fd_edit_default = None, fd_options = [],
     fd_min = None, fd_max = None\<rparr>"

definition res_wireguard_servers :: spec where
  "res_wireguard_servers = \<lparr>sp_id = ''wireguard_servers'', sp_label = ''Instancias WireGuard'', sp_group = ''VPN'', sp_base =
     ''/api/wireguard/server'', sp_search = Some ''searchServer'', sp_get = Some ''getServer'', sp_add =
     Some ''addServer'', sp_set = Some ''setServer'', sp_delete = Some ''delServer'', sp_key = ''server'',
     sp_apply = [''/api/wireguard/service/reconfigure''], sp_apply_ack = [],
     sp_fields = [
     (fld ''enabled'' ''Habilitado'' ''boolean'' True)\<lparr>fd_default := Some (JStr ''1'')\<rparr>,
     fld ''name'' ''Nombre'' ''text'' True,
     (fld ''pubkey'' (''Clave p'' @ [CHR 0xC3, CHR 0xBA] @ ''blica'') ''text'' False)\<lparr>fd_readonly :=
       True, fd_generated := True\<rparr>,
     (fld ''privkey'' ''Clave privada'' ''text'' True)\<lparr>fd_secret := True\<rparr>,
     fld ''port'' ''Puerto'' ''integer'' False,
     (fld ''mtu'' ''Mtu'' ''integer'' False)\<lparr>fd_min := Some 1, fd_max := Some 9300\<rparr>,
     fld ''dns'' ''Dns'' ''text'' False,
     fld ''tunneladdress'' (''Direcciones del t'' @ [CHR 0xC3, CHR 0xBA] @ ''nel'') ''text'' False,
     (fld ''disableroutes'' ''Disableroutes'' ''boolean'' True)\<lparr>fd_default := Some (JStr ''0'')\<rparr>,
     fld ''gateway'' ''Gateway'' ''text'' False,
     fld ''carp_depend_on'' ''Carp depend on'' ''select'' False,
     (fld ''peers'' ''Peers'' ''select'' False)\<lparr>fd_multiple := True\<rparr>,
     (fld ''debug'' ''Debug'' ''boolean'' True)\<lparr>fd_default := Some (JStr ''0'')\<rparr>,
     fld ''endpoint'' ''Endpoint'' ''text'' False,
     fld ''peer_dns'' ''Peer dns'' ''text'' False],
     sp_columns = [''enabled'', ''name'', ''port''], sp_singleton = False, sp_ha_safe = False,
     sp_persistence_only = False, sp_prepare = None, sp_verify = None\<rparr>"

definition res_wireguard_clients :: spec where
  "res_wireguard_clients = \<lparr>sp_id = ''wireguard_clients'', sp_label = ''Peers WireGuard'', sp_group = ''VPN'', sp_base =
     ''/api/wireguard/client'', sp_search = Some ''searchClient'', sp_get = Some ''getClient'', sp_add =
     Some ''addClient'', sp_set = Some ''setClient'', sp_delete = Some ''delClient'', sp_key = ''client'',
     sp_apply = [''/api/wireguard/service/reconfigure''], sp_apply_ack = [],
     sp_fields = [
     (fld ''enabled'' ''Habilitado'' ''boolean'' True)\<lparr>fd_default := Some (JStr ''1'')\<rparr>,
     fld ''name'' ''Nombre'' ''text'' True,
     fld ''pubkey'' (''Clave p'' @ [CHR 0xC3, CHR 0xBA] @ ''blica'') ''text'' True,
     (fld ''psk'' ''Clave precompartida'' ''text'' False)\<lparr>fd_secret := True\<rparr>,
     fld ''tunneladdress'' (''Direcciones del t'' @ [CHR 0xC3, CHR 0xBA] @ ''nel'') ''text'' True,
     fld ''serveraddress'' ''Serveraddress'' ''text'' False,
     fld ''serverport'' ''Serverport'' ''integer'' False,
     (fld ''keepalive'' ''Keepalive'' ''integer'' False)\<lparr>fd_min := Some 1, fd_max := Some 65535\<rparr>],
     sp_columns = [''enabled'', ''name''], sp_singleton = False, sp_ha_safe = False, sp_persistence_only =
     False, sp_prepare = None, sp_verify = None\<rparr>"

definition res_shaper_pipes :: spec where
  "res_shaper_pipes = \<lparr>sp_id = ''shaper_pipes'', sp_label = ''Pipes de ancho de banda'', sp_group = ''Traffic shaping'', sp_base =
     ''/api/trafficshaper/settings'', sp_search = Some ''searchPipes'', sp_get = Some ''getPipe'', sp_add =
     Some ''addPipe'', sp_set = Some ''setPipe'', sp_delete = Some ''delPipe'', sp_key = ''pipe'', sp_apply
     = [''/api/trafficshaper/service/reconfigure''], sp_apply_ack = [],
     sp_fields = [
     (fld ''enabled'' ''Habilitado'' ''boolean'' True)\<lparr>fd_default := Some (JStr ''1'')\<rparr>,
     (fld ''bandwidth'' ''Ancho de banda'' ''integer'' True)\<lparr>fd_min := Some 1\<rparr>,
     (fld ''bandwidthMetric'' ''Bandwidthmetric'' ''select'' True)\<lparr>fd_default := Some (JStr ''Kbit''),
       fd_options := [(''bit'', ''bit/s''), (''Kbit'', ''kbit/s''), (''Mbit'', ''Mbit/s''), (''Gbit'',
       ''Gbit/s'')]\<rparr>,
     (fld ''queue'' ''Queue'' ''integer'' False)\<lparr>fd_min := Some 2, fd_max := Some 100\<rparr>,
     (fld ''mask'' ''Mask'' ''select'' True)\<lparr>fd_default := Some (JStr ''none''), fd_options :=
       [(''none'', ''(none)''), (''src-ip'', ''source''), (''dst-ip'', ''destination''), (''src-ip6'',
       ''source (ip6)''), (''dst-ip6'', ''destination (ip6)'')]\<rparr>,
     (fld ''buckets'' ''Buckets'' ''integer'' False)\<lparr>fd_min := Some 1, fd_max := Some 65535\<rparr>,
     (fld ''scheduler'' ''Scheduler'' ''select'' False)\<lparr>fd_options := [(''fifo'', ''FIFO''), (''rr'',
       ''Deficit Round Robin''), (''qfq'', ''QFQ''), (''fq_codel'', ''FlowQueue-CoDel''), (''fq_pie'',
       ''FlowQueue-PIE'')]\<rparr>,
     (fld ''codel_enable'' ''Codel enable'' ''boolean'' True)\<lparr>fd_default := Some (JStr ''0'')\<rparr>,
     (fld ''codel_target'' ''Codel target'' ''integer'' False)\<lparr>fd_min := Some 1, fd_max := Some
       10000\<rparr>,
     (fld ''codel_interval'' ''Codel interval'' ''integer'' False)\<lparr>fd_min := Some 1, fd_max := Some
       10000\<rparr>,
     (fld ''codel_ecn_enable'' ''Codel ecn enable'' ''boolean'' True)\<lparr>fd_default := Some (JStr
       ''0'')\<rparr>,
     (fld ''pie_enable'' ''Pie enable'' ''boolean'' True)\<lparr>fd_default := Some (JStr ''0'')\<rparr>,
     (fld ''fqcodel_quantum'' ''Fqcodel quantum'' ''integer'' False)\<lparr>fd_min := Some 1, fd_max := Some
       65535\<rparr>,
     (fld ''fqcodel_limit'' ''Fqcodel limit'' ''integer'' False)\<lparr>fd_min := Some 1, fd_max := Some
       65535\<rparr>,
     (fld ''fqcodel_flows'' ''Fqcodel flows'' ''integer'' False)\<lparr>fd_min := Some 1, fd_max := Some
       65535\<rparr>,
     (fld ''delay'' ''Delay'' ''integer'' False)\<lparr>fd_min := Some 1, fd_max := Some 3000\<rparr>,
     fld ''description'' (''Descripci'' @ [CHR 0xC3, CHR 0xB3] @ ''n'') ''text'' True],
     sp_columns = [''enabled'', ''description''], sp_singleton = False, sp_ha_safe = False, sp_persistence_only
     = False, sp_prepare = None, sp_verify = None\<rparr>"

definition res_shaper_queues :: spec where
  "res_shaper_queues = \<lparr>sp_id = ''shaper_queues'', sp_label = (''Colas de tr'' @ [CHR 0xC3, CHR 0xA1] @ ''fico''), sp_group =
     ''Traffic shaping'', sp_base = ''/api/trafficshaper/settings'', sp_search = Some ''searchQueues'',
     sp_get = Some ''getQueue'', sp_add = Some ''addQueue'', sp_set = Some ''setQueue'', sp_delete = Some
     ''delQueue'', sp_key = ''queue'', sp_apply = [''/api/trafficshaper/service/reconfigure''],
     sp_apply_ack = [],
     sp_fields = [
     (fld ''enabled'' ''Habilitado'' ''boolean'' True)\<lparr>fd_default := Some (JStr ''1'')\<rparr>,
     fld ''pipe'' ''Pipe'' ''select'' True,
     (fld ''weight'' ''Peso'' ''integer'' True)\<lparr>fd_default := Some (JStr ''100''), fd_min := Some 1,
       fd_max := Some 100\<rparr>,
     (fld ''mask'' ''Mask'' ''select'' True)\<lparr>fd_default := Some (JStr ''none''), fd_options :=
       [(''none'', ''(none)''), (''src-ip'', ''source''), (''dst-ip'', ''destination''), (''src-ip6'',
       ''source (ip6)''), (''dst-ip6'', ''destination (ip6)'')]\<rparr>,
     (fld ''buckets'' ''Buckets'' ''integer'' False)\<lparr>fd_min := Some 1, fd_max := Some 65535\<rparr>,
     (fld ''codel_enable'' ''Codel enable'' ''boolean'' True)\<lparr>fd_default := Some (JStr ''0'')\<rparr>,
     (fld ''codel_target'' ''Codel target'' ''integer'' False)\<lparr>fd_min := Some 1, fd_max := Some
       10000\<rparr>,
     (fld ''codel_interval'' ''Codel interval'' ''integer'' False)\<lparr>fd_min := Some 1, fd_max := Some
       10000\<rparr>,
     (fld ''codel_ecn_enable'' ''Codel ecn enable'' ''boolean'' True)\<lparr>fd_default := Some (JStr
       ''0'')\<rparr>,
     (fld ''pie_enable'' ''Pie enable'' ''boolean'' True)\<lparr>fd_default := Some (JStr ''0'')\<rparr>,
     fld ''description'' (''Descripci'' @ [CHR 0xC3, CHR 0xB3] @ ''n'') ''text'' True],
     sp_columns = [''enabled'', ''description''], sp_singleton = False, sp_ha_safe = False, sp_persistence_only
     = False, sp_prepare = None, sp_verify = None\<rparr>"

definition res_shaper_rules :: spec where
  "res_shaper_rules = \<lparr>sp_id = ''shaper_rules'', sp_label = (''Reglas de tr'' @ [CHR 0xC3, CHR 0xA1] @ ''fico''), sp_group =
     ''Traffic shaping'', sp_base = ''/api/trafficshaper/settings'', sp_search = Some ''searchRules'',
     sp_get = Some ''getRule'', sp_add = Some ''addRule'', sp_set = Some ''setRule'', sp_delete = Some
     ''delRule'', sp_key = ''rule'', sp_apply = [''/api/trafficshaper/service/reconfigure''], sp_apply_ack
     = [],
     sp_fields = [
     (fld ''enabled'' ''Habilitado'' ''boolean'' True)\<lparr>fd_default := Some (JStr ''1'')\<rparr>,
     (fld ''sequence'' ''Sequence'' ''integer'' True)\<lparr>fd_default := Some (JStr ''1''), fd_min := Some 1,
       fd_max := Some 1000000\<rparr>,
     (fld ''interface'' ''Interfaz'' ''select'' True)\<lparr>fd_default := Some (JStr ''wan'')\<rparr>,
     fld ''interface2'' ''Interface2'' ''select'' False,
     (fld ''proto'' ''Proto'' ''select'' True)\<lparr>fd_default := Some (JStr ''ip''), fd_options := [(''ip'',
       ''ip''), (''ip4'', ''ipv4''), (''ip6'', ''ipv6''), (''udp'', ''udp''), (''tcp'', ''tcp''),
       (''tcp_ack'', ''tcp (ACK packets only)''), (''tcp_ack_not'', ''tcp (non-ACK packets)''), (''icmp'',
       ''icmp''), (''ipv6-icmp'', ''ipv6-icmp''), (''igmp'', ''igmp''), (''esp'', ''esp''), (''ah'',
       ''ah''), (''gre'', ''gre'')]\<rparr>,
     (fld ''iplen'' ''Iplen'' ''integer'' False)\<lparr>fd_min := Some 2, fd_max := Some 65535\<rparr>,
     (fld ''source'' ''Source'' ''text'' True)\<lparr>fd_default := Some (JStr ''any'')\<rparr>,
     (fld ''source_not'' ''Source not'' ''boolean'' True)\<lparr>fd_default := Some (JStr ''0'')\<rparr>,
     (fld ''src_port'' ''Src port'' ''integer'' True)\<lparr>fd_default := Some (JStr ''any'')\<rparr>,
     (fld ''destination'' ''Destination'' ''text'' True)\<lparr>fd_default := Some (JStr ''any'')\<rparr>,
     (fld ''destination_not'' ''Destination not'' ''boolean'' True)\<lparr>fd_default := Some (JStr
       ''0'')\<rparr>,
     (fld ''dst_port'' ''Dst port'' ''integer'' True)\<lparr>fd_default := Some (JStr ''any'')\<rparr>,
     (fld ''dscp'' ''Dscp'' ''select'' False)\<lparr>fd_multiple := True, fd_options := [(''be'',
       ''Best Effort''), (''ef'', ''Expedited Forwarding''), (''af11'', ''AF11''), (''af12'', ''AF12''),
       (''af13'', ''AF13''), (''af21'', ''AF21''), (''af22'', ''AF22''), (''af23'', ''AF23''), (''af31'',
       ''AF31''), (''af32'', ''AF32''), (''af33'', ''AF33''), (''af41'', ''AF41''), (''af42'', ''AF42''),
       (''af43'', ''AF43''), (''cs1'', ''CS1''), (''cs2'', ''CS2''), (''cs3'', ''CS3''), (''cs4'',
       ''CS4''), (''cs5'', ''CS5''), (''cs6'', ''CS6''), (''cs7'', ''CS7'')]\<rparr>,
     (fld ''direction'' ''Direction'' ''select'' False)\<lparr>fd_options := [(''in'', ''in''), (''out'',
       ''out'')]\<rparr>,
     fld ''target'' ''Target'' ''select'' True,
     fld ''description'' (''Descripci'' @ [CHR 0xC3, CHR 0xB3] @ ''n'') ''text'' False],
     sp_columns = [''enabled'', ''description'', ''interface''], sp_singleton = False, sp_ha_safe = False,
     sp_persistence_only = False, sp_prepare = None, sp_verify = None\<rparr>"

definition res_vips :: spec where
  "res_vips = \<lparr>sp_id = ''vips'', sp_label = ''Direcciones IP virtuales'', sp_group = ''Red'', sp_base =
     ''/api/interfaces/vip_settings'', sp_search = Some ''searchItem'', sp_get = Some ''getItem'', sp_add =
     Some ''addItem'', sp_set = Some ''setItem'', sp_delete = Some ''delItem'', sp_key = ''vip'', sp_apply
     = [''/api/interfaces/vip_settings/reconfigure''], sp_apply_ack = [],
     sp_fields = [
     fld ''interface'' ''Interfaz'' ''select'' True,
     (fld ''mode'' ''Mode'' ''select'' True)\<lparr>fd_default := Some (JStr ''ipalias''), fd_options :=
       [(''ipalias'', ''IP Alias''), (''carp'', ''CARP''), (''proxyarp'', ''Proxy ARP'')]\<rparr>,
     fld ''network'' ''Red CIDR'' ''text'' True,
     fld ''gateway'' ''Gateway'' ''text'' False,
     (fld ''noexpand'' ''Noexpand'' ''boolean'' True)\<lparr>fd_default := Some (JStr ''0'')\<rparr>,
     (fld ''nobind'' ''Nobind'' ''boolean'' True)\<lparr>fd_default := Some (JStr ''0'')\<rparr>,
     (fld ''password'' (''Contrase'' @ [CHR 0xC3, CHR 0xB1] @ ''a'') ''text'' False)\<lparr>fd_secret :=
       True\<rparr>,
     (fld ''vhid'' ''Vhid'' ''integer'' False)\<lparr>fd_min := Some 1, fd_max := Some 255\<rparr>,
     (fld ''advbase'' ''Advbase'' ''integer'' True)\<lparr>fd_default := Some (JStr ''1''), fd_min := Some 1,
       fd_max := Some 254\<rparr>,
     (fld ''advskew'' ''Advskew'' ''integer'' True)\<lparr>fd_default := Some (JStr ''0''), fd_min := Some 0,
       fd_max := Some 254\<rparr>,
     fld ''peer'' ''Peer'' ''text'' False,
     fld ''peer6'' ''Peer6'' ''text'' False,
     (fld ''nosync'' ''Nosync'' ''boolean'' True)\<lparr>fd_default := Some (JStr ''0'')\<rparr>,
     fld ''descr'' (''Descripci'' @ [CHR 0xC3, CHR 0xB3] @ ''n'') ''text'' False],
     sp_columns = [''descr'', ''interface'', ''network''], sp_singleton = False, sp_ha_safe = False,
     sp_persistence_only = False, sp_prepare = None, sp_verify = None\<rparr>"

definition res_vlans :: spec where
  "res_vlans = \<lparr>sp_id = ''vlans'', sp_label = ''VLAN'', sp_group = ''Red'', sp_base = ''/api/interfaces/vlan_settings'',
     sp_search = Some ''searchItem'', sp_get = Some ''getItem'', sp_add = Some ''addItem'', sp_set = Some
     ''setItem'', sp_delete = Some ''delItem'', sp_key = ''vlan'', sp_apply =
     [''/api/interfaces/vlan_settings/reconfigure''], sp_apply_ack = [],
     sp_fields = [
     fld ''if'' ''If'' ''select'' True,
     (fld ''tag'' ''Etiqueta VLAN'' ''integer'' True)\<lparr>fd_min := Some 1, fd_max := Some 4094\<rparr>,
     (fld ''pcp'' ''Pcp'' ''select'' True)\<lparr>fd_default := Some (JStr ''0''), fd_options := [(''1'',
       ''Background (1, lowest)''), (''0'', ''Best Effort (0, default)''), (''2'',
       ''Excellent Effort (2)''), (''3'', ''Critical Applications (3)''), (''4'', ''Video (4)''), (''5'',
       ''Voice (5)''), (''6'', ''Internetwork Control (6)''), (''7'',
       ''Network Control (7, highest)'')]\<rparr>,
     (fld ''proto'' ''Proto'' ''select'' False)\<lparr>fd_options := [(''802.1q'', ''802.1Q''), (''802.1ad'',
       ''802.1ad'')]\<rparr>,
     fld ''descr'' (''Descripci'' @ [CHR 0xC3, CHR 0xB3] @ ''n'') ''text'' False],
     sp_columns = [''descr''], sp_singleton = False, sp_ha_safe = False, sp_persistence_only = False, sp_prepare
     = None, sp_verify = None\<rparr>"

definition res_laggs :: spec where
  "res_laggs = \<lparr>sp_id = ''laggs'', sp_label = (''Agregaci'' @ [CHR 0xC3, CHR 0xB3] @ ''n LAGG''), sp_group = ''Red'',
     sp_base = ''/api/interfaces/lagg_settings'', sp_search = Some ''searchItem'', sp_get = Some
     ''getItem'', sp_add = Some ''addItem'', sp_set = Some ''setItem'', sp_delete = Some ''delItem'',
     sp_key = ''lagg'', sp_apply = [''/api/interfaces/lagg_settings/reconfigure''], sp_apply_ack = [],
     sp_fields = [
     (fld ''members'' ''Members'' ''select'' True)\<lparr>fd_multiple := True\<rparr>,
     fld ''primary_member'' ''Primary member'' ''select'' False,
     (fld ''proto'' ''Proto'' ''select'' True)\<lparr>fd_default := Some (JStr ''lacp''), fd_options :=
       [(''none'', ''None''), (''lacp'', ''lacp''), (''failover'', ''failover''), (''fec'', ''fec''),
       (''loadbalance'', ''loadbalance''), (''roundrobin'', ''roundrobin'')]\<rparr>,
     (fld ''lacp_fast_timeout'' ''Lacp fast timeout'' ''boolean'' True)\<lparr>fd_default := Some (JStr
       ''0'')\<rparr>,
     (fld ''use_flowid'' ''Use flowid'' ''select'' False)\<lparr>fd_options := [([], ''Default''), (''1'',
       ''Yes''), (''0'', ''No'')]\<rparr>,
     (fld ''lagghash'' ''Lagghash'' ''select'' False)\<lparr>fd_multiple := True, fd_options := [(''l2'',
       ''L2: src/dst MAC address and optional VLAN number.''), (''l3'',
       ''L3: src/dst address for IPv4 or IPv6.''), (''l4'', ''L4: src/dst port for TCP/UDP/SCTP.'')]\<rparr>,
     (fld ''lacp_strict'' ''Lacp strict'' ''select'' False)\<lparr>fd_options := [([], ''Default''), (''1'',
       ''Yes''), (''0'', ''No'')]\<rparr>,
     (fld ''mtu'' ''Mtu'' ''integer'' False)\<lparr>fd_min := Some 576, fd_max := Some 65535\<rparr>,
     fld ''descr'' (''Descripci'' @ [CHR 0xC3, CHR 0xB3] @ ''n'') ''text'' False],
     sp_columns = [''descr''], sp_singleton = False, sp_ha_safe = False, sp_persistence_only = False, sp_prepare
     = None, sp_verify = None\<rparr>"

definition res_loopbacks :: spec where
  "res_loopbacks = \<lparr>sp_id = ''loopbacks'', sp_label = ''Interfaces loopback'', sp_group = ''Red'', sp_base =
     ''/api/interfaces/loopback_settings'', sp_search = Some ''searchItem'', sp_get = Some ''getItem'',
     sp_add = Some ''addItem'', sp_set = Some ''setItem'', sp_delete = Some ''delItem'', sp_key =
     ''loopback'', sp_apply = [''/api/interfaces/loopback_settings/reconfigure''], sp_apply_ack = [],
     sp_fields = [
     fld ''description'' (''Descripci'' @ [CHR 0xC3, CHR 0xB3] @ ''n'') ''text'' True],
     sp_columns = [''description''], sp_singleton = False, sp_ha_safe = False, sp_persistence_only = False,
     sp_prepare = None, sp_verify = None\<rparr>"

definition res_vxlans :: spec where
  "res_vxlans = \<lparr>sp_id = ''vxlans'', sp_label = ''VXLAN'', sp_group = ''Red'', sp_base = ''/api/interfaces/vxlan_settings'',
     sp_search = Some ''searchItem'', sp_get = Some ''getItem'', sp_add = Some ''addItem'', sp_set = Some
     ''setItem'', sp_delete = Some ''delItem'', sp_key = ''vxlan'', sp_apply =
     [''/api/interfaces/vxlan_settings/reconfigure''], sp_apply_ack = [],
     sp_fields = [
     (fld ''vxlanid'' ''Vxlanid'' ''integer'' True)\<lparr>fd_min := Some 0, fd_max := Some 16777215\<rparr>,
     fld ''vxlanlocal'' ''Vxlanlocal'' ''text'' True,
     fld ''vxlanlocalport'' ''Vxlanlocalport'' ''integer'' False,
     fld ''vxlanremote'' ''Vxlanremote'' ''text'' False,
     fld ''vxlanremoteport'' ''Vxlanremoteport'' ''integer'' False,
     fld ''vxlangroup'' ''Vxlangroup'' ''text'' False,
     fld ''vxlandev'' ''Vxlandev'' ''select'' False],
     sp_columns = [''vxlanid'', ''vxlanlocal'', ''vxlanlocalport'', ''vxlanremote''], sp_singleton = False,
     sp_ha_safe = False, sp_persistence_only = False, sp_prepare = None, sp_verify = None\<rparr>"

definition res_monit_services :: spec where
  "res_monit_services = \<lparr>sp_id = ''monit_services'', sp_label = ''Servicios Monit'', sp_group = (''Monitorizaci'' @ [CHR 0xC3, CHR
     0xB3] @ ''n''), sp_base = ''/api/monit/settings'', sp_search = Some ''searchService'', sp_get = Some
     ''getService'', sp_add = Some ''addService'', sp_set = Some ''setService'', sp_delete = Some
     ''delService'', sp_key = ''service'', sp_apply = [''/api/monit/service/reconfigure''], sp_apply_ack =
     [(''status'', [JStr ''ok'']), (''template'', [JStr ''OK'']), (''result'', [JStr
     ''Control file syntax OK''])],
     sp_fields = [
     (fld ''enabled'' ''Habilitado'' ''boolean'' True)\<lparr>fd_default := Some (JStr ''0'')\<rparr>,
     fld ''name'' ''Nombre'' ''text'' True,
     fld ''description'' (''Descripci'' @ [CHR 0xC3, CHR 0xB3] @ ''n'') ''text'' False,
     (fld ''type'' ''Type'' ''select'' True)\<lparr>fd_options := [(''process'', ''Process''), (''file'',
       ''File''), (''fifo'', ''Fifo''), (''filesystem'', ''Filesystem''), (''directory'', ''Directory''),
       (''host'', ''Remote Host''), (''system'', ''System''), (''custom'', ''Custom''), (''network'',
       ''Network'')]\<rparr>,
     fld ''pidfile'' ''Pidfile'' ''text'' False,
     fld ''match'' ''Match'' ''text'' False,
     fld ''path'' ''Path'' ''text'' False,
     (fld ''timeout'' ''Timeout'' ''integer'' True)\<lparr>fd_default := Some (JStr ''300''), fd_min := Some 1,
       fd_max := Some 86400\<rparr>,
     (fld ''starttimeout'' ''Starttimeout'' ''integer'' True)\<lparr>fd_default := Some (JStr ''30''), fd_min :=
       Some 0, fd_max := Some 86400\<rparr>,
     fld ''address'' ''Address'' ''text'' False,
     fld ''interface'' ''Interfaz'' ''select'' False,
     fld ''start'' ''Start'' ''text'' False,
     fld ''stop'' ''Stop'' ''text'' False,
     (fld ''tests'' ''Tests'' ''select'' False)\<lparr>fd_multiple := True\<rparr>,
     (fld ''depends'' ''Depends'' ''select'' False)\<lparr>fd_multiple := True\<rparr>,
     fld ''polltime'' ''Polltime'' ''text'' False],
     sp_columns = [''enabled'', ''name'', ''description'', ''interface''], sp_singleton = False, sp_ha_safe =
     False, sp_persistence_only = False, sp_prepare = None, sp_verify = None\<rparr>"

definition res_monit_alerts :: spec where
  "res_monit_alerts = \<lparr>sp_id = ''monit_alerts'', sp_label = ''Alertas Monit'', sp_group = (''Monitorizaci'' @ [CHR 0xC3, CHR 0xB3]
     @ ''n''), sp_base = ''/api/monit/settings'', sp_search = Some ''searchAlert'', sp_get = Some
     ''getAlert'', sp_add = Some ''addAlert'', sp_set = Some ''setAlert'', sp_delete = Some ''delAlert'',
     sp_key = ''alert'', sp_apply = [''/api/monit/service/reconfigure''], sp_apply_ack = [(''status'',
     [JStr ''ok'']), (''template'', [JStr ''OK'']), (''result'', [JStr ''Control file syntax OK''])],
     sp_fields = [
     (fld ''enabled'' ''Habilitado'' ''boolean'' True)\<lparr>fd_default := Some (JStr ''0'')\<rparr>,
     (fld ''recipient'' ''Recipient'' ''text'' True)\<lparr>fd_default := Some (JStr
       ''root@localhost.local'')\<rparr>,
     (fld ''noton'' ''Noton'' ''boolean'' True)\<lparr>fd_default := Some (JStr ''0'')\<rparr>,
     (fld ''events'' ''Events'' ''select'' False)\<lparr>fd_multiple := True, fd_options := [(''action'',
       ''Action done''), (''checksum'', ''Checksum failed''), (''bytein'', ''Download bytes exceeded''),
       (''byteout'', ''Upload bytes exceeded''), (''connection'', ''Connection failed''), (''content'',
       ''Content failed''), (''data'', ''Data access error''), (''exec'', ''Execution failed''),
       (''fsflags'', ''Filesystem flags failed''), (''gid'', ''GID failed''), (''icmp'', ''Ping failed''),
       (''instance'', ''Monit instance changed''), (''invalid'', ''Invalid type''), (''link'',
       ''Link down''), (''nonexist'', ''Does not exist''), (''packetin'', ''Download packets exceeded''),
       (''packetout'', ''Upload packets exceeded''), (''permission'', ''Permission failed''), (''pid'',
       ''PID failed''), (''ppid'', ''PPID failed''), (''resource'', ''Resource limit matched''),
       (''saturation'', ''Saturation exceeded''), (''size'', ''Size failed''), (''speed'',
       ''Speed failed''), (''status'', ''Status failed''), (''timeout'', ''Timeout''), (''timestamp'',
       ''Timestamp failed''), (''uid'', ''UID failed''), (''uptime'', ''Uptime failed'')]\<rparr>,
     fld ''format'' ''Format'' ''text'' False,
     (fld ''reminder'' ''Reminder'' ''integer'' False)\<lparr>fd_min := Some 0, fd_max := Some 86400\<rparr>,
     fld ''description'' (''Descripci'' @ [CHR 0xC3, CHR 0xB3] @ ''n'') ''text'' False],
     sp_columns = [''enabled'', ''description''], sp_singleton = False, sp_ha_safe = False, sp_persistence_only
     = False, sp_prepare = None, sp_verify = None\<rparr>"

definition res_monit_tests :: spec where
  "res_monit_tests = \<lparr>sp_id = ''monit_tests'', sp_label = ''Pruebas Monit'', sp_group = (''Monitorizaci'' @ [CHR 0xC3, CHR 0xB3]
     @ ''n''), sp_base = ''/api/monit/settings'', sp_search = Some ''searchTest'', sp_get = Some
     ''getTest'', sp_add = Some ''addTest'', sp_set = Some ''setTest'', sp_delete = Some ''delTest'',
     sp_key = ''test'', sp_apply = [''/api/monit/service/reconfigure''], sp_apply_ack = [(''status'', [JStr
     ''ok'']), (''template'', [JStr ''OK'']), (''result'', [JStr ''Control file syntax OK''])],
     sp_fields = [
     fld ''name'' ''Nombre'' ''text'' True,
     (fld ''type'' ''Type'' ''select'' True)\<lparr>fd_default := Some (JStr ''Custom''), fd_options :=
       [(''Existence'', ''Existence''), (''SystemResource'', ''System Resource''), (''ProcessResource'',
       ''Process Resource''), (''ProcessDiskIO'', ''Process Disk I/O''), (''FileChecksum'',
       ''File Checksum''), (''Timestamp'', ''Timestamp''), (''FileSize'', ''File Size''), (''FileContent'',
       ''File Content''), (''FilesystemMountFlags'', ''Filesystem Mount Flags''), (''SpaceUsage'',
       ''Space Usage''), (''InodeUsage'', ''Inode Usage''), (''DiskIO'', ''Disk I/O''), (''Permisssion'',
       ''Permission''), (''UID'', ''UID''), (''GID'', ''GID''), (''PID'', ''PID''), (''PPID'', ''PPID''),
       (''Uptime'', ''Uptime''), (''ProgramStatus'', ''Program Status''), (''NetworkInterface'',
       ''Network Interface''), (''NetworkPing'', ''Network Ping''), (''Connection'', ''Connection''),
       (''Custom'', ''Custom'')]\<rparr>,
     fld ''condition'' (''Condici'' @ [CHR 0xC3, CHR 0xB3] @ ''n'') ''text'' True,
     (fld ''action'' (''Acci'' @ [CHR 0xC3, CHR 0xB3] @ ''n'') ''select'' True)\<lparr>fd_options :=
       [(''alert'', ''Alert''), (''restart'', ''Restart''), (''start'', ''Start''), (''stop'', ''Stop''),
       (''exec'', ''Execute''), (''unmonitor'', ''Unmonitor'')]\<rparr>,
     fld ''path'' ''Path'' ''text'' False],
     sp_columns = [''name''], sp_singleton = False, sp_ha_safe = False, sp_persistence_only = False, sp_prepare
     = None, sp_verify = None\<rparr>"

definition res_ids_rules :: spec where
  "res_ids_rules = \<lparr>sp_id = ''ids_rules'', sp_label = ''Reglas IDS propias'', sp_group = ''Seguridad'', sp_base =
     ''/api/ids/settings'', sp_search = Some ''searchUserRule'', sp_get = Some ''getUserRule'', sp_add =
     Some ''addUserRule'', sp_set = Some ''setUserRule'', sp_delete = Some ''delUserRule'', sp_key =
     ''rule'', sp_apply = [''/api/ids/service/reconfigure''], sp_apply_ack = [],
     sp_fields = [
     (fld ''enabled'' ''Habilitado'' ''boolean'' True)\<lparr>fd_default := Some (JStr ''1'')\<rparr>,
     fld ''source'' ''Source'' ''text'' False,
     fld ''destination'' ''Destination'' ''text'' False,
     fld ''fingerprint'' ''Fingerprint'' ''text'' False,
     fld ''description'' (''Descripci'' @ [CHR 0xC3, CHR 0xB3] @ ''n'') ''text'' True,
     (fld ''action'' (''Acci'' @ [CHR 0xC3, CHR 0xB3] @ ''n'') ''select'' True)\<lparr>fd_default := Some (JStr
       ''alert''), fd_options := [(''alert'', ''Alert''), (''drop'', ''Drop''), (''pass'',
       ''Pass'')]\<rparr>,
     (fld ''bypass'' ''Bypass'' ''boolean'' True)\<lparr>fd_default := Some (JStr ''0'')\<rparr>],
     sp_columns = [''enabled'', ''description''], sp_singleton = False, sp_ha_safe = False, sp_persistence_only
     = False, sp_prepare = None, sp_verify = None\<rparr>"

definition ipsec_connections_fields_1 :: "field list" where
  "ipsec_connections_fields_1 = [
     (fld ''enabled'' ''Habilitado'' ''boolean'' True)\<lparr>fd_default := Some (JStr ''1'')\<rparr>,
     (fld ''proposals'' ''Proposals'' ''select'' True)\<lparr>fd_multiple := True, fd_default := Some (JStr
       ''default'')\<rparr>,
     (fld ''unique'' ''Unique'' ''select'' True)\<lparr>fd_default := Some (JStr ''no''), fd_options :=
       [(''no'', ''No (default)''), (''never'', ''Never''), (''keep'', ''Keep''), (''replace'',
       ''Replace'')]\<rparr>,
     (fld ''aggressive'' ''Aggressive'' ''boolean'' True)\<lparr>fd_default := Some (JStr ''0'')\<rparr>,
     (fld ''version'' ''Version'' ''select'' True)\<lparr>fd_default := Some (JStr ''0''), fd_options :=
       [(''0'', ''IKEv1+IKEv2''), (''1'', ''IKEv1''), (''2'', ''IKEv2'')]\<rparr>,
     (fld ''mobike'' ''Mobike'' ''boolean'' True)\<lparr>fd_default := Some (JStr ''1'')\<rparr>,
     fld ''local_addrs'' ''Local addrs'' ''text'' False,
     (fld ''local_port'' ''Local port'' ''select'' False)\<lparr>fd_options := [([], ''500 (default)''),
       (''4500'', ''4500 (NAT-T)'')]\<rparr>,
     fld ''remote_addrs'' ''Remote addrs'' ''text'' False,
     (fld ''remote_port'' ''Remote port'' ''select'' False)\<lparr>fd_options := [([], ''500 (default)''),
       (''4500'', ''4500 (NAT-T)'')]\<rparr>,
     (fld ''encap'' ''Encap'' ''boolean'' True)\<lparr>fd_default := Some (JStr ''0'')\<rparr>,
     (fld ''reauth_time'' ''Reauth time'' ''integer'' False)\<lparr>fd_min := Some 0, fd_max := Some
       500000\<rparr>]"

definition ipsec_connections_fields_2 :: "field list" where
  "ipsec_connections_fields_2 = [
     (fld ''rekey_time'' ''Rekey time'' ''integer'' False)\<lparr>fd_min := Some 0, fd_max := Some 500000\<rparr>,
     (fld ''over_time'' ''Over time'' ''integer'' False)\<lparr>fd_min := Some 0, fd_max := Some 500000\<rparr>,
     (fld ''dpd_delay'' ''Dpd delay'' ''integer'' False)\<lparr>fd_min := Some 0, fd_max := Some 500000\<rparr>,
     (fld ''dpd_timeout'' ''Dpd timeout'' ''integer'' False)\<lparr>fd_min := Some 0, fd_max := Some
       500000\<rparr>,
     (fld ''pools'' ''Pools'' ''text'' False)\<lparr>fd_multiple := True\<rparr>,
     (fld ''send_certreq'' ''Send certreq'' ''boolean'' True)\<lparr>fd_default := Some (JStr ''1'')\<rparr>,
     (fld ''send_cert'' ''Send cert'' ''select'' False)\<lparr>fd_options := [(''ifasked'', ''If asked''),
       (''never'', ''Never''), (''always'', ''Always'')]\<rparr>,
     (fld ''keyingtries'' ''Keyingtries'' ''integer'' False)\<lparr>fd_min := Some 0, fd_max := Some 1000\<rparr>,
     fld ''description'' (''Descripci'' @ [CHR 0xC3, CHR 0xB3] @ ''n'') ''text'' True]"

definition res_ipsec_connections :: spec where
  "res_ipsec_connections = \<lparr>sp_id = ''ipsec_connections'', sp_label = ''Conexiones IPsec'', sp_group = ''VPN'', sp_base =
     ''/api/ipsec/connections'', sp_search = Some ''searchConnection'', sp_get = Some ''getConnection'',
     sp_add = Some ''addConnection'', sp_set = Some ''setConnection'', sp_delete = Some ''delConnection'',
     sp_key = ''connection'', sp_apply = [''/api/ipsec/service/reconfigure''], sp_apply_ack = [],
     sp_fields = ipsec_connections_fields_1 @ ipsec_connections_fields_2,
     sp_columns = [''enabled'', ''description''], sp_singleton = False, sp_ha_safe = False, sp_persistence_only
     = False, sp_prepare = None, sp_verify = None\<rparr>"

end
