(* ===== verification/Catalog_Services.thy ===== *)
theory Catalog_Services
  imports Engine Catalog
begin

text \<open>
  The resources of \<^verbatim>\<open>src/management/catalog.py\<close>, second part: IPsec children, routes, syslog, the
  portal, cron, categories and Dnsmasq hosts.
\<close>

definition res_ipsec_children :: spec where
  "res_ipsec_children = \<lparr>sp_id = ''ipsec_children'', sp_label = (''T'' @ [CHR 0xC3, CHR 0xBA] @ ''neles IPsec''), sp_group =
     ''VPN'', sp_base = ''/api/ipsec/connections'', sp_search = Some ''searchChild'', sp_get = Some
     ''getChild'', sp_add = Some ''addChild'', sp_set = Some ''setChild'', sp_delete = Some ''delChild'',
     sp_key = ''child'', sp_apply = [''/api/ipsec/service/reconfigure''], sp_apply_ack = [],
     sp_fields = [
     (fld ''enabled'' ''Habilitado'' ''boolean'' True)\<lparr>fd_default := Some (JStr ''1'')\<rparr>,
     fld ''connection'' (''Conexi'' @ [CHR 0xC3, CHR 0xB3] @ ''n'') ''select'' True,
     (fld ''reqid'' ''Reqid'' ''integer'' False)\<lparr>fd_min := Some 1, fd_max := Some 65535\<rparr>,
     (fld ''esp_proposals'' ''Esp proposals'' ''select'' True)\<lparr>fd_multiple := True, fd_default := Some
       (JStr ''default'')\<rparr>,
     (fld ''sha256_96'' ''Sha256 96'' ''boolean'' True)\<lparr>fd_default := Some (JStr ''0'')\<rparr>,
     (fld ''start_action'' ''Start action'' ''select'' True)\<lparr>fd_default := Some (JStr ''start''),
       fd_options := [(''none'', ''None''), (''trap|start'', ''Trap+start''), (''route'', ''Route''),
       (''start'', ''Start''), (''trap'', ''Trap'')]\<rparr>,
     (fld ''close_action'' ''Close action'' ''select'' True)\<lparr>fd_default := Some (JStr ''none''),
       fd_options := [(''none'', ''None''), (''trap'', ''Trap''), (''start'', ''Start'')]\<rparr>,
     (fld ''dpd_action'' ''Dpd action'' ''select'' True)\<lparr>fd_default := Some (JStr ''clear''), fd_options
       := [(''clear'', ''Clear''), (''trap'', ''Trap''), (''start'', ''Start'')]\<rparr>,
     (fld ''mode'' ''Mode'' ''select'' True)\<lparr>fd_default := Some (JStr ''tunnel''), fd_options :=
       [(''tunnel'', ''Tunnel''), (''transport'', ''Transport''), (''pass'', ''Pass''), (''drop'',
       ''Drop'')]\<rparr>,
     (fld ''policies'' ''Policies'' ''boolean'' True)\<lparr>fd_default := Some (JStr ''1'')\<rparr>,
     fld ''local_ts'' ''Redes locales'' ''text'' False,
     fld ''remote_ts'' ''Redes remotas'' ''text'' False,
     (fld ''rekey_time'' ''Rekey time'' ''integer'' True)\<lparr>fd_default := Some (JStr ''3600''), fd_min :=
       Some 0, fd_max := Some 500000\<rparr>,
     fld ''description'' (''Descripci'' @ [CHR 0xC3, CHR 0xB3] @ ''n'') ''text'' False],
     sp_columns = [''enabled'', ''description''], sp_singleton = False, sp_ha_safe = False, sp_persistence_only
     = False, sp_prepare = None, sp_verify = None\<rparr>"

definition res_static_routes :: spec where
  "res_static_routes = \<lparr>sp_id = ''static_routes'', sp_label = (''Rutas est'' @ [CHR 0xC3, CHR 0xA1] @ ''ticas''), sp_group =
     ''Red'', sp_base = ''/api/routes/routes'', sp_search = Some ''searchroute'', sp_get = Some
     ''getroute'', sp_add = Some ''addroute'', sp_set = Some ''setroute'', sp_delete = Some ''delroute'',
     sp_key = ''route'', sp_apply = [''/api/routes/routes/reconfigure''], sp_apply_ack = [],
     sp_fields = [
     fld ''network'' ''Red CIDR'' ''text'' True,
     fld ''gateway'' ''Gateway'' ''select'' True,
     fld ''descr'' (''Descripci'' @ [CHR 0xC3, CHR 0xB3] @ ''n'') ''text'' False,
     (fld ''disabled'' ''Deshabilitado'' ''boolean'' True)\<lparr>fd_default := Some (JStr ''0'')\<rparr>],
     sp_columns = [''descr'', ''network''], sp_singleton = False, sp_ha_safe = False, sp_persistence_only =
     False, sp_prepare = None, sp_verify = None\<rparr>"

definition res_syslog_destinations :: spec where
  "res_syslog_destinations = \<lparr>sp_id = ''syslog_destinations'', sp_label = ''Destinos Syslog'', sp_group = (''Monitorizaci'' @ [CHR 0xC3,
     CHR 0xB3] @ ''n''), sp_base = ''/api/syslog/settings'', sp_search = Some ''searchDestinations'',
     sp_get = Some ''getDestination'', sp_add = Some ''addDestination'', sp_set = Some ''setDestination'',
     sp_delete = Some ''delDestination'', sp_key = ''destination'', sp_apply =
     [''/api/syslog/service/reconfigure''], sp_apply_ack = [],
     sp_fields = [
     (fld ''enabled'' ''Habilitado'' ''boolean'' True)\<lparr>fd_default := Some (JStr ''1'')\<rparr>,
     (fld ''transport'' ''Transport'' ''select'' True)\<lparr>fd_default := Some (JStr ''udp''), fd_options :=
       [(''udp4'', ''UDP(4)''), (''tcp4'', ''TCP(4)''), (''udp6'', ''UDP(6)''), (''tcp6'', ''TCP(6)''),
       (''tls4'', ''TLS(4)''), (''tls6'', ''TLS(6)'')]\<rparr>,
     (fld ''program'' ''Program'' ''select'' False)\<lparr>fd_multiple := True\<rparr>,
     (fld ''level'' ''Level'' ''select'' False)\<lparr>fd_multiple := True, fd_options := [(''debug'',
       ''debug''), (''info'', ''info''), (''notice'', ''notice''), (''warn'', ''warn''), (''err'',
       ''error''), (''crit'', ''critical''), (''alert'', ''alert''), (''emerg'', ''emergency'')]\<rparr>,
     (fld ''facility'' ''Facility'' ''select'' False)\<lparr>fd_multiple := True, fd_options := [(''kern'',
       ''kernel messages''), (''user'', ''user-level messages''), (''mail'', ''mail system''), (''daemon'',
       ''system daemons''), (''auth'', ''security/authorization messages''), (''syslog'',
       ''messages generated internally by syslogd''), (''lpr'', ''line printer subsystem''), (''news'',
       ''network news subsystem''), (''uucp'', ''UUCP subsystem''), (''cron'', ''clock daemon''),
       (''authpriv'', ''security/authorization messages''), (''ftp'', ''FTP daemon''), (''ntp'',
       ''NTP subsystem''), (''security'', ''log audit''), (''console'', ''log alert''), (''local0'',
       ''locally used (0)''), (''local1'', ''locally used (1)''), (''local2'', ''locally used (2)''),
       (''local3'', ''locally used (3)''), (''local4'', ''locally used (4)''), (''local5'',
       ''locally used (5)''), (''local6'', ''locally used (6)''), (''local7'',
       ''locally used (7)'')]\<rparr>,
     fld ''hostname'' ''Servidor'' ''text'' True,
     fld ''certificate'' ''Certificate'' ''select'' False,
     (fld ''port'' ''Puerto'' ''integer'' True)\<lparr>fd_default := Some (JStr ''514'')\<rparr>,
     (fld ''rfc5424'' ''Rfc5424'' ''boolean'' True)\<lparr>fd_default := Some (JStr ''0'')\<rparr>,
     fld ''description'' (''Descripci'' @ [CHR 0xC3, CHR 0xB3] @ ''n'') ''text'' False],
     sp_columns = [''enabled'', ''description'', ''hostname'', ''port''], sp_singleton = False, sp_ha_safe =
     False, sp_persistence_only = False, sp_prepare = None, sp_verify = None\<rparr>"

definition res_portal_zones :: spec where
  "res_portal_zones = \<lparr>sp_id = ''portal_zones'', sp_label = ''Zonas de portal cautivo'', sp_group = ''Seguridad'', sp_base =
     ''/api/captiveportal/settings'', sp_search = Some ''searchZones'', sp_get = Some ''getZone'', sp_add =
     Some ''addZone'', sp_set = Some ''setZone'', sp_delete = Some ''delZone'', sp_key = ''zone'', sp_apply
     = [''/api/captiveportal/service/reconfigure''], sp_apply_ack = [],
     sp_fields = [
     (fld ''enabled'' ''Habilitado'' ''boolean'' True)\<lparr>fd_default := Some (JStr ''1'')\<rparr>,
     (fld ''interfaces'' ''Interfaces'' ''select'' True)\<lparr>fd_multiple := True, fd_default := Some (JStr
       ''lan'')\<rparr>,
     (fld ''disableRules'' ''Disablerules'' ''boolean'' True)\<lparr>fd_default := Some (JStr ''0'')\<rparr>,
     (fld ''authservers'' ''Authservers'' ''select'' False)\<lparr>fd_multiple := True\<rparr>,
     (fld ''alwaysSendAccountingReqs'' ''Alwayssendaccountingreqs'' ''boolean'' True)\<lparr>fd_default := Some
       (JStr ''0'')\<rparr>,
     fld ''authEnforceGroup'' ''Authenforcegroup'' ''select'' False,
     (fld ''idletimeout'' ''Idletimeout'' ''integer'' True)\<lparr>fd_default := Some (JStr ''0''), fd_min :=
       Some 0, fd_max := Some 10080\<rparr>,
     (fld ''hardtimeout'' ''Hardtimeout'' ''integer'' True)\<lparr>fd_default := Some (JStr ''0''), fd_min :=
       Some 0, fd_max := Some 10080\<rparr>,
     (fld ''concurrentlogins'' ''Concurrentlogins'' ''boolean'' True)\<lparr>fd_default := Some (JStr
       ''1'')\<rparr>,
     fld ''certificate'' ''Certificate'' ''select'' False,
     fld ''servername'' ''Servername'' ''text'' False,
     fld ''allowedAddresses'' ''Allowedaddresses'' ''text'' False,
     fld ''allowedMACAddresses'' ''Allowedmacaddresses'' ''text'' False,
     (fld ''extendedPreAuthData'' ''Extendedpreauthdata'' ''boolean'' True)\<lparr>fd_default := Some (JStr
       ''0'')\<rparr>,
     fld ''template'' ''Template'' ''select'' False,
     fld ''description'' (''Descripci'' @ [CHR 0xC3, CHR 0xB3] @ ''n'') ''text'' True],
     sp_columns = [''enabled'', ''description''], sp_singleton = False, sp_ha_safe = False, sp_persistence_only
     = False, sp_prepare = None, sp_verify = None\<rparr>"

definition res_cron_jobs :: spec where
  "res_cron_jobs = \<lparr>sp_id = ''cron_jobs'', sp_label = ''Tareas programadas'', sp_group = ''Sistema'', sp_base =
     ''/api/cron/settings'', sp_search = Some ''searchJobs'', sp_get = Some ''getJob'', sp_add = Some
     ''addJob'', sp_set = Some ''setJob'', sp_delete = Some ''delJob'', sp_key = ''job'', sp_apply =
     [''/api/cron/service/reconfigure''], sp_apply_ack = [],
     sp_fields = [
     (fld ''enabled'' ''Habilitado'' ''boolean'' True)\<lparr>fd_default := Some (JStr ''1'')\<rparr>,
     (fld ''minutes'' ''Minutes'' ''text'' True)\<lparr>fd_default := Some (JStr ''0'')\<rparr>,
     (fld ''hours'' ''Hours'' ''text'' True)\<lparr>fd_default := Some (JStr ''0'')\<rparr>,
     (fld ''days'' ''Days'' ''text'' True)\<lparr>fd_default := Some (JStr ''*'')\<rparr>,
     (fld ''months'' ''Months'' ''text'' True)\<lparr>fd_default := Some (JStr ''*'')\<rparr>,
     (fld ''weekdays'' ''Weekdays'' ''text'' True)\<lparr>fd_default := Some (JStr ''*'')\<rparr>,
     (fld ''who'' ''Who'' ''text'' True)\<lparr>fd_default := Some (JStr ''root'')\<rparr>,
     fld ''command'' ''Command'' ''select'' True,
     fld ''parameters'' ''Parameters'' ''text'' False,
     fld ''description'' (''Descripci'' @ [CHR 0xC3, CHR 0xB3] @ ''n'') ''text'' True],
     sp_columns = [''enabled'', ''description''], sp_singleton = False, sp_ha_safe = False, sp_persistence_only
     = False, sp_prepare = None, sp_verify = None\<rparr>"

definition res_categories :: spec where
  "res_categories = \<lparr>sp_id = ''categories'', sp_label = (''Categor'' @ [CHR 0xC3, CHR 0xAD] @ ''as firewall''), sp_group =
     ''Firewall'', sp_base = ''/api/firewall/category'', sp_search = Some ''searchItem'', sp_get = Some
     ''getItem'', sp_add = Some ''addItem'', sp_set = Some ''setItem'', sp_delete = Some ''delItem'',
     sp_key = ''category'', sp_apply = [], sp_apply_ack = [],
     sp_fields = [
     fld ''name'' ''Nombre'' ''text'' True,
     fld ''auto'' ''Auto'' ''boolean'' False,
     fld ''color'' ''Color'' ''text'' False],
     sp_columns = [''name''], sp_singleton = False, sp_ha_safe = False, sp_persistence_only = True, sp_prepare =
     None, sp_verify = None\<rparr>"

definition res_dnsmasq_hosts :: spec where
  "res_dnsmasq_hosts = \<lparr>sp_id = ''dnsmasq_hosts'', sp_label = ''Hosts Dnsmasq'', sp_group = ''DNS'', sp_base =
     ''/api/dnsmasq/settings'', sp_search = Some ''searchHost'', sp_get = Some ''getHost'', sp_add = Some
     ''addHost'', sp_set = Some ''setHost'', sp_delete = Some ''delHost'', sp_key = ''host'', sp_apply =
     [''/api/dnsmasq/service/reconfigure''], sp_apply_ack = [],
     sp_fields = [
     fld ''host'' ''Host'' ''text'' False,
     fld ''domain'' ''Domain'' ''text'' False,
     fld ''local'' ''Local'' ''boolean'' False,
     fld ''ip'' ''Ip'' ''text'' False,
     fld ''cnames'' ''Cnames'' ''text'' False,
     fld ''client_id'' ''Client id'' ''text'' False,
     fld ''hwaddr'' ''Hwaddr'' ''text'' False,
     fld ''lease_time'' ''Lease time'' ''integer'' False,
     fld ''ignore'' ''Ignore'' ''boolean'' False,
     fld ''set_tag'' ''Set tag'' ''select'' False,
     fld ''descr'' (''Descripci'' @ [CHR 0xC3, CHR 0xB3] @ ''n'') ''text'' False,
     fld ''comments'' ''Comments'' ''text'' False,
     fld ''aliases'' ''Aliases'' ''text'' False],
     sp_columns = [''descr''], sp_singleton = False, sp_ha_safe = False, sp_persistence_only = False, sp_prepare
     = None, sp_verify = None\<rparr>"

end
