(* ===== verification/Catalog_Settings.thy ===== *)
theory Catalog_Settings
  imports Catalog_Services
begin

text \<open>
  The resources of \<^verbatim>\<open>src/management/catalog.py\<close>, last part: OpenVPN instances and the settings
  that exist once, and the whole catalog.
\<close>

definition openvpn_instances_fields_1 :: "field list" where
  "openvpn_instances_fields_1 = [
     fld ''vpnid'' ''Vpnid'' ''text'' True,
     (fld ''enabled'' ''Habilitado'' ''boolean'' True)\<lparr>fd_default := Some (JStr ''1'')\<rparr>,
     (fld ''dev_type'' ''Dev type'' ''select'' True)\<lparr>fd_default := Some (JStr ''tun''), fd_options :=
       [(''tun'', ''TUN''), (''tap'', ''TAP''), (''ovpn'', ''DCO'')]\<rparr>,
     (fld ''verb'' ''Verb'' ''select'' True)\<lparr>fd_default := Some (JStr ''3''), fd_options := [(''0'',
       ''0 (No output except fatal errors.)''), (''1'', ''1 (Normal)''), (''2'', ''2 (Normal)''), (''3'',
       ''3 (Normal)''), (''4'', ''4 (Normal)''), (''5'', ''5 (log packets)''), (''6'', ''6 (debug)''),
       (''7'', ''7 (debug)''), (''8'', ''8 (debug)''), (''9'', ''9 (debug)''), (''10'', ''10 (debug)''),
       (''11'', ''11 (debug)'')]\<rparr>,
     (fld ''proto'' ''Proto'' ''select'' True)\<lparr>fd_default := Some (JStr ''udp''), fd_options :=
       [(''udp'', ''UDP''), (''udp4'', ''UDP (IPv4)''), (''udp6'', ''UDP (IPv6)''), (''tcp'', ''TCP''),
       (''tcp4'', ''TCP (IPv4)''), (''tcp6'', ''TCP (IPv6)'')]\<rparr>,
     fld ''port'' ''Puerto'' ''integer'' False,
     fld ''port-share'' ''Port-share'' ''text'' False,
     fld ''local'' ''Local'' ''text'' False,
     (fld ''topology'' ''Topology'' ''select'' True)\<lparr>fd_default := Some (JStr ''subnet''), fd_options :=
       [(''net30'', ''net30''), (''p2p'', ''p2p''), (''subnet'', ''subnet'')]\<rparr>,
     fld ''remote'' ''Remote'' ''text'' False,
     (fld ''role'' ''Role'' ''select'' True)\<lparr>fd_default := Some (JStr ''server''), fd_options :=
       [(''client'', ''Client''), (''server'', ''Server'')]\<rparr>,
     fld ''server'' ''Server'' ''text'' False,
     fld ''server_ipv6'' ''Server ipv6'' ''text'' False,
     fld ''nopool'' ''Nopool'' ''boolean'' False,
     fld ''bridge_gateway'' ''Bridge gateway'' ''text'' False,
     fld ''bridge_pool'' ''Bridge pool'' ''text'' False,
     fld ''route'' ''Route'' ''text'' False,
     fld ''push_route'' ''Push route'' ''text'' False,
     fld ''push_excluded_routes'' ''Push excluded routes'' ''text'' False,
     fld ''cert'' ''Cert'' ''select'' False]"

definition openvpn_instances_fields_2 :: "field list" where
  "openvpn_instances_fields_2 = [
     fld ''crl'' ''Crl'' ''select'' False,
     fld ''ca'' ''Ca'' ''select'' False,
     (fld ''cert_depth'' ''Cert depth'' ''select'' False)\<lparr>fd_options := [(''1'',
       ''One (Client+Server)''), (''2'', ''Two (Client+Intermediate+Server)''), (''3'',
       ''Three (Client+2xIntermediate+Server)''), (''4'', ''Four (Client+3xIntermediate+Server)''), (''5'',
       ''Five (Client+4xIntermediate+Server)'')]\<rparr>,
     (fld ''remote_cert_tls'' ''Remote cert tls'' ''boolean'' True)\<lparr>fd_default := Some (JStr
       ''0'')\<rparr>,
     (fld ''verify_client_cert'' ''Verify client cert'' ''select'' True)\<lparr>fd_default := Some (JStr
       ''require''), fd_options := [(''none'', ''none''), (''require'', ''required'')]\<rparr>,
     (fld ''use_ocsp'' ''Use ocsp'' ''boolean'' True)\<lparr>fd_default := Some (JStr ''0'')\<rparr>,
     (fld ''auth'' ''Auth'' ''select'' False)\<lparr>fd_options := [(''BLAKE2b512'', ''BLAKE2b512 (512-bit)''),
       (''BLAKE2s256'', ''BLAKE2s256 (256-bit)''), (''MD4'', ''MD4 (128-bit)''), (''MD5'',
       ''MD5 (128-bit)''), (''MD5-SHA1'', ''MD5-SHA1 (288-bit)''), (''RIPEMD160'',
       ''RIPEMD160 (160-bit)''), (''SHA1'', ''SHA1 (160-bit)''), (''SHA224'', ''SHA224 (224-bit)''),
       (''SHA256'', ''SHA256 (256-bit)''), (''SHA3-224'', ''SHA3-224 (224-bit)''), (''SHA3-256'',
       ''SHA3-256 (256-bit)''), (''SHA3-384'', ''SHA3-384 (384-bit)''), (''SHA3-512'',
       ''SHA3-512 (512-bit)''), (''SHA384'', ''SHA384 (384-bit)''), (''SHA512'', ''SHA512 (512-bit)''),
       (''SHA512-224'', ''SHA512-224 (224-bit)''), (''SHA512-256'', ''SHA512-256 (256-bit)''),
       (''SHAKE128'', ''SHAKE128 (128-bit)''), (''SHAKE256'', ''SHAKE256 (256-bit)''), (''whirlpool'',
       ''whirlpool (512-bit)''), (''none'', ''None (No Authentication)'')]\<rparr>,
     (fld ''data-ciphers'' ''Data-ciphers'' ''select'' False)\<lparr>fd_multiple := True, fd_options :=
       [(''AES-256-CBC'', ''AES-256-CBC''), (''AES-128-GCM'', ''AES-128-GCM''), (''AES-256-GCM'',
       ''AES-256-GCM''), (''CHACHA20-POLY1305'', ''CHACHA20-POLY1305'')]\<rparr>,
     (fld ''data-ciphers-fallback'' ''Data-ciphers-fallback'' ''select'' False)\<lparr>fd_options :=
       [(''AES-256-CBC'', ''AES-256-CBC''), (''AES-128-GCM'', ''AES-128-GCM''), (''AES-256-GCM'',
       ''AES-256-GCM''), (''CHACHA20-POLY1305'', ''CHACHA20-POLY1305'')]\<rparr>,
     fld ''tls_key'' ''Tls key'' ''select'' False,
     (fld ''authmode'' ''Authmode'' ''select'' False)\<lparr>fd_multiple := True\<rparr>,
     fld ''local_group'' ''Local group'' ''select'' False,
     (fld ''various_flags'' ''Various flags'' ''select'' False)\<lparr>fd_multiple := True, fd_options :=
       [(''block-ipv6'', ''block-ipv6''), (''client-to-client'', ''client-to-client''), (''duplicate-cn'',
       ''duplicate-cn''), (''float'', ''float''), (''passtos'', ''passtos''), (''persist-remote-ip'',
       ''persist-remote-ip''), (''remote-random'', ''remote-random''), (''route-noexec'',
       ''route-noexec''), (''route-nopull'', ''route-nopull''), (''explicit-exit-notify'',
       ''explicit-exit-notify''), (''fast-io'', ''fast-io'')]\<rparr>,
     (fld ''various_push_flags'' ''Various push flags'' ''select'' False)\<lparr>fd_multiple := True, fd_options
       := [(''block-ipv6'', ''push block-ipv6''), (''block-outside-dns'', ''push block-outside-dns''),
       (''register-dns'', ''push register-dns''), (''explicit-exit-notify'',
       ''explicit-exit-notify'')]\<rparr>,
     fld ''push_inactive'' ''Push inactive'' ''integer'' False,
     (fld ''username_as_common_name'' ''Username as common name'' ''boolean'' True)\<lparr>fd_default := Some
       (JStr ''0'')\<rparr>,
     (fld ''strictusercn'' ''Strictusercn'' ''select'' True)\<lparr>fd_default := Some (JStr ''0''), fd_options
       := [(''0'', ''No''), (''1'', ''Yes''), (''2'', ''Yes (case insensitive)'')]\<rparr>,
     fld ''username'' ''Username'' ''text'' False,
     (fld ''password'' (''Contrase'' @ [CHR 0xC3, CHR 0xB1] @ ''a'') ''text'' False)\<lparr>fd_secret :=
       True\<rparr>,
     (fld ''maxclients'' ''Maxclients'' ''integer'' False)\<lparr>fd_min := Some 1\<rparr>]"

definition openvpn_instances_fields_3 :: "field list" where
  "openvpn_instances_fields_3 = [
     (fld ''keepalive_interval'' ''Keepalive interval'' ''integer'' False)\<lparr>fd_min := Some 0\<rparr>,
     (fld ''keepalive_timeout'' ''Keepalive timeout'' ''integer'' False)\<lparr>fd_min := Some 0\<rparr>,
     (fld ''reneg-sec'' ''Reneg-sec'' ''integer'' False)\<lparr>fd_min := Some 0\<rparr>,
     (fld ''auth-gen-token'' ''Auth-gen-token'' ''integer'' False)\<lparr>fd_secret := True, fd_min := Some
       0\<rparr>,
     (fld ''auth-gen-token-renewal'' ''Auth-gen-token-renewal'' ''integer'' False)\<lparr>fd_secret := True,
       fd_min := Some 0\<rparr>,
     (fld ''auth-gen-token-secret'' ''Auth-gen-token-secret'' ''text'' False)\<lparr>fd_secret := True\<rparr>,
     (fld ''provision_exclusive'' ''Provision exclusive'' ''boolean'' True)\<lparr>fd_default := Some (JStr
       ''0'')\<rparr>,
     (fld ''redirect_gateway'' ''Redirect gateway'' ''select'' False)\<lparr>fd_multiple := True, fd_options :=
       [(''local'', ''local''), (''autolocal'', ''autolocal''), (''def1'', ''default''), (''bypass-dhcp'',
       ''bypass dhcp''), (''bypass-dns'', ''bypass dns''), (''block-local'', ''block local''), (''ipv6'',
       ''ipv6 (default)''), (''!ipv4'', ''not ipv4 (default)'')]\<rparr>,
     (fld ''route_metric'' ''Route metric'' ''integer'' False)\<lparr>fd_min := Some 0, fd_max := Some
       65535\<rparr>,
     (fld ''register_dns'' ''Register dns'' ''boolean'' True)\<lparr>fd_default := Some (JStr ''0'')\<rparr>,
     fld ''dns_domain'' ''Dns domain'' ''text'' False,
     fld ''dns_domain_search'' ''Dns domain search'' ''text'' False,
     fld ''dns_servers'' ''Dns servers'' ''text'' False,
     fld ''ntp_servers'' ''Ntp servers'' ''text'' False,
     (fld ''tun_mtu'' ''Tun mtu'' ''integer'' False)\<lparr>fd_min := Some 60, fd_max := Some 65535\<rparr>,
     (fld ''fragment'' ''Fragment'' ''integer'' False)\<lparr>fd_min := Some 0, fd_max := Some 65528\<rparr>,
     fld ''mssfix'' ''Mssfix'' ''boolean'' False,
     fld ''carp_depend_on'' ''Carp depend on'' ''select'' False,
     fld ''description'' (''Descripci'' @ [CHR 0xC3, CHR 0xB3] @ ''n'') ''text'' False,
     fld ''compress_migrate'' ''Compress migrate'' ''boolean'' False]"

definition openvpn_instances_fields_4 :: "field list" where
  "openvpn_instances_fields_4 = [
     fld ''ifconfig-pool-persist'' ''Ifconfig-pool-persist'' ''boolean'' False,
     fld ''http-proxy'' ''Http-proxy'' ''text'' False,
     fld ''verify-x509-name'' ''Verify-x509-name'' ''text'' False]"

definition res_openvpn_instances :: spec where
  "res_openvpn_instances = \<lparr>sp_id = ''openvpn_instances'', sp_label = ''Instancias OpenVPN'', sp_group = ''VPN'', sp_base =
     ''/api/openvpn/instances'', sp_search = Some ''search'', sp_get = Some ''get'', sp_add = None, sp_set
     = None, sp_delete = Some ''del'', sp_key = ''instance'', sp_apply =
     [''/api/openvpn/service/reconfigure''], sp_apply_ack = [],
     sp_fields = openvpn_instances_fields_1 @ openvpn_instances_fields_2 @ openvpn_instances_fields_3 @ openvpn_instances_fields_4,
     sp_columns = [''enabled'', ''description'', ''port''], sp_singleton = False, sp_ha_safe = False,
     sp_persistence_only = False, sp_prepare = None, sp_verify = None\<rparr>"

definition res_wireguard_general :: spec where
  "res_wireguard_general = \<lparr>sp_id = ''wireguard_general'', sp_label = (''Configuraci'' @ [CHR 0xC3, CHR 0xB3] @ ''n WireGuard''),
     sp_group = ''VPN'', sp_base = ''/api/wireguard/general'', sp_search = None, sp_get = Some ''get'',
     sp_add = None, sp_set = Some ''set'', sp_delete = None, sp_key = ''general'', sp_apply =
     [''/api/wireguard/service/reconfigure''], sp_apply_ack = [],
     sp_fields = [
     (fld ''enabled'' ''Habilitado'' ''boolean'' True)\<lparr>fd_default := Some (JStr ''0'')\<rparr>],
     sp_columns = [''enabled''], sp_singleton = True, sp_ha_safe = False, sp_persistence_only = False,
     sp_prepare = None, sp_verify = None\<rparr>"

definition res_unbound_general :: spec where
  "res_unbound_general = \<lparr>sp_id = ''unbound_general'', sp_label = (''Configuraci'' @ [CHR 0xC3, CHR 0xB3] @ ''n Unbound''), sp_group
     = ''DNS'', sp_base = ''/api/unbound/settings'', sp_search = None, sp_get = Some ''get'', sp_add =
     None, sp_set = Some ''set'', sp_delete = None, sp_key = ''unbound.general'', sp_apply =
     [''/api/unbound/service/reconfigure''], sp_apply_ack = [],
     sp_fields = [
     (fld ''enabled'' ''Habilitado'' ''boolean'' True)\<lparr>fd_default := Some (JStr ''0'')\<rparr>,
     (fld ''port'' ''Puerto'' ''integer'' True)\<lparr>fd_default := Some (JStr ''53'')\<rparr>,
     fld ''stats'' ''Stats'' ''boolean'' False,
     (fld ''active_interface'' ''Active interface'' ''select'' False)\<lparr>fd_multiple := True\<rparr>,
     fld ''dnssec'' ''Dnssec'' ''boolean'' False,
     fld ''dns64'' ''Dns64'' ''boolean'' False,
     fld ''dns64prefix'' ''Dns64prefix'' ''text'' False,
     fld ''noarecords'' ''Noarecords'' ''boolean'' False,
     fld ''regdhcp'' ''Regdhcp'' ''boolean'' False,
     fld ''regdhcpdomain'' ''Regdhcpdomain'' ''text'' False,
     fld ''regdhcpstatic'' ''Regdhcpstatic'' ''boolean'' False,
     fld ''noreglladdr6'' ''Noreglladdr6'' ''boolean'' False,
     fld ''noregrecords'' ''Noregrecords'' ''boolean'' False,
     fld ''txtsupport'' ''Txtsupport'' ''boolean'' False,
     fld ''cacheflush'' ''Cacheflush'' ''boolean'' False,
     fld ''safesearch'' ''Safesearch'' ''boolean'' False,
     (fld ''local_zone_type'' ''Local zone type'' ''select'' True)\<lparr>fd_default := Some (JStr
       ''transparent''), fd_options := [(''transparent'', ''transparent''), (''always_nxdomain'',
       ''always_nxdomain''), (''always_refuse'', ''always_refuse''), (''always_transparent'',
       ''always_transparent''), (''deny'', ''deny''), (''inform'', ''inform''), (''inform_deny'',
       ''inform_deny''), (''nodefault'', ''nodefault''), (''refuse'', ''refuse''), (''static'',
       ''static''), (''typetransparent'', ''typetransparent'')]\<rparr>,
     (fld ''outgoing_interface'' ''Outgoing interface'' ''select'' False)\<lparr>fd_multiple := True\<rparr>,
     fld ''enable_wpad'' ''Enable wpad'' ''boolean'' False],
     sp_columns = [''enabled'', ''port''], sp_singleton = True, sp_ha_safe = False, sp_persistence_only = False,
     sp_prepare = None, sp_verify = None\<rparr>"

definition res_dnsmasq_general :: spec where
  "res_dnsmasq_general = \<lparr>sp_id = ''dnsmasq_general'', sp_label = (''Configuraci'' @ [CHR 0xC3, CHR 0xB3] @ ''n Dnsmasq''), sp_group
     = ''DNS'', sp_base = ''/api/dnsmasq/settings'', sp_search = None, sp_get = Some ''get'', sp_add =
     None, sp_set = Some ''set'', sp_delete = None, sp_key = ''dnsmasq'', sp_apply =
     [''/api/dnsmasq/service/reconfigure''], sp_apply_ack = [],
     sp_fields = [
     fld ''enable'' ''Enable'' ''boolean'' False,
     fld ''regdhcp'' ''Regdhcp'' ''boolean'' False,
     fld ''regdhcpstatic'' ''Regdhcpstatic'' ''boolean'' False,
     fld ''dhcpfirst'' ''Dhcpfirst'' ''boolean'' False,
     fld ''strict_order'' ''Strict order'' ''boolean'' False,
     fld ''domain_needed'' ''Domain needed'' ''boolean'' False,
     (fld ''no_private_reverse'' ''No private reverse'' ''boolean'' False)\<lparr>fd_secret := True\<rparr>,
     fld ''no_resolv'' ''No resolv'' ''boolean'' False,
     fld ''log_queries'' ''Log queries'' ''boolean'' False,
     fld ''no_hosts'' ''No hosts'' ''boolean'' False,
     fld ''strictbind'' ''Strictbind'' ''boolean'' False,
     fld ''dnssec'' ''Dnssec'' ''boolean'' False,
     fld ''regdhcpdomain'' ''Regdhcpdomain'' ''text'' False,
     (fld ''interface'' ''Interfaz'' ''select'' False)\<lparr>fd_multiple := True\<rparr>,
     (fld ''port'' ''Puerto'' ''integer'' False)\<lparr>fd_min := Some 0, fd_max := Some 65535\<rparr>,
     (fld ''dns_forward_max'' ''Dns forward max'' ''integer'' False)\<lparr>fd_min := Some 0\<rparr>,
     (fld ''cache_size'' ''Cache size'' ''integer'' False)\<lparr>fd_min := Some 0\<rparr>,
     (fld ''local_ttl'' ''Local ttl'' ''integer'' False)\<lparr>fd_min := Some 0\<rparr>,
     (fld ''add_mac'' ''Add mac'' ''select'' False)\<lparr>fd_options := [(''standard'', ''standard''),
       (''base64'', ''base64''), (''text'', ''text'')]\<rparr>,
     fld ''add_subnet'' ''Add subnet'' ''boolean'' False,
     fld ''strip_subnet'' ''Strip subnet'' ''boolean'' False,
     (fld ''no_ident'' ''No ident'' ''boolean'' True)\<lparr>fd_default := Some (JStr ''1'')\<rparr>],
     sp_columns = [''interface'', ''port''], sp_singleton = True, sp_ha_safe = False, sp_persistence_only =
     False, sp_prepare = None, sp_verify = None\<rparr>"

definition res_ids_general :: spec where
  "res_ids_general = \<lparr>sp_id = ''ids_general'', sp_label = (''Configuraci'' @ [CHR 0xC3, CHR 0xB3] @ ''n IDS/IPS''), sp_group =
     ''Seguridad'', sp_base = ''/api/ids/settings'', sp_search = None, sp_get = Some ''get'', sp_add =
     None, sp_set = Some ''set'', sp_delete = None, sp_key = ''ids.general'', sp_apply =
     [''/api/ids/service/reconfigure''], sp_apply_ack = [],
     sp_fields = [
     (fld ''enabled'' ''Habilitado'' ''boolean'' True)\<lparr>fd_default := Some (JStr ''0'')\<rparr>,
     (fld ''mode'' ''Mode'' ''select'' True)\<lparr>fd_default := Some (JStr ''pcap''), fd_options :=
       [(''pcap'', ''PCAP live mode (IDS)''), (''netmap'', ''Netmap (IPS)''), (''divert'',
       ''Divert (IPS)'')]\<rparr>,
     (fld ''divert_listeners'' ''Divert listeners'' ''integer'' True)\<lparr>fd_default := Some (JStr ''1''),
       fd_min := Some 1, fd_max := Some 256\<rparr>,
     (fld ''promisc'' ''Promisc'' ''boolean'' True)\<lparr>fd_default := Some (JStr ''0'')\<rparr>,
     (fld ''interfaces'' ''Interfaces'' ''select'' True)\<lparr>fd_multiple := True, fd_default := Some (JStr
       ''wan'')\<rparr>,
     (fld ''homenet'' ''Homenet'' ''text'' True)\<lparr>fd_default := Some (JStr
       ''192.168.0.0/16,10.0.0.0/8,172.16.0.0/12'')\<rparr>,
     (fld ''defaultPacketSize'' ''Defaultpacketsize'' ''integer'' False)\<lparr>fd_min := Some 82, fd_max :=
       Some 65535\<rparr>,
     fld ''UpdateCron'' ''Updatecron'' ''select'' False,
     (fld ''AlertLogrotate'' ''Alertlogrotate'' ''select'' True)\<lparr>fd_default := Some (JStr ''W0D23''),
       fd_options := [(''W0D23'', ''Weekly''), (''D0'', ''Daily'')]\<rparr>,
     (fld ''AlertSaveLogs'' ''Alertsavelogs'' ''integer'' True)\<lparr>fd_default := Some (JStr ''4''), fd_min
       := Some 1, fd_max := Some 1000\<rparr>,
     (fld ''MPMAlgo'' ''Mpmalgo'' ''select'' False)\<lparr>fd_options := [(''ac'', ''Aho-Corasick''),
       (''ac-ks'', (''Aho-Corasick, '' @ [CHR 0x22] @ ''Ken Steele'' @ [CHR 0x22] @ '' variant'')),
       (''hs'', ''Hyperscan'')]\<rparr>,
     (fld ''syslog'' ''Syslog'' ''boolean'' True)\<lparr>fd_default := Some (JStr ''0'')\<rparr>,
     (fld ''syslog_eve'' ''Syslog eve'' ''boolean'' True)\<lparr>fd_default := Some (JStr ''0'')\<rparr>,
     (fld ''LogPayload'' ''Logpayload'' ''boolean'' True)\<lparr>fd_default := Some (JStr ''0'')\<rparr>,
     (fld ''verbosity'' ''Verbosity'' ''select'' False)\<lparr>fd_options := [(''v'', ''INFO (1)''), (''vv'',
       ''PERF (2)''), (''vvv'', ''CONFIG (3)''), (''vvvv'', ''DEBUG (4)'')]\<rparr>],
     sp_columns = [''enabled''], sp_singleton = True, sp_ha_safe = False, sp_persistence_only = False,
     sp_prepare = None, sp_verify = None\<rparr>"

definition monit_general_fields_1 :: "field list" where
  "monit_general_fields_1 = [
     (fld ''enabled'' ''Habilitado'' ''boolean'' True)\<lparr>fd_default := Some (JStr ''0'')\<rparr>,
     (fld ''interval'' ''Interval'' ''integer'' True)\<lparr>fd_default := Some (JStr ''120''), fd_min := Some
       0, fd_max := Some 86400\<rparr>,
     (fld ''startdelay'' ''Startdelay'' ''integer'' True)\<lparr>fd_default := Some (JStr ''120''), fd_min :=
       Some 0, fd_max := Some 86400\<rparr>,
     (fld ''mailserver'' ''Mailserver'' ''text'' True)\<lparr>fd_default := Some (JStr ''127.0.0.1'')\<rparr>,
     (fld ''port'' ''Puerto'' ''integer'' True)\<lparr>fd_default := Some (JStr ''25''), fd_min := Some 0,
       fd_max := Some 65535\<rparr>,
     fld ''username'' ''Username'' ''text'' False,
     (fld ''password'' (''Contrase'' @ [CHR 0xC3, CHR 0xB1] @ ''a'') ''text'' False)\<lparr>fd_secret :=
       True\<rparr>,
     (fld ''ssl'' ''Ssl'' ''boolean'' True)\<lparr>fd_default := Some (JStr ''0'')\<rparr>,
     (fld ''sslversion'' ''Sslversion'' ''select'' True)\<lparr>fd_default := Some (JStr ''auto''), fd_options
       := [(''auto'', ''AUTO''), (''tlsv1'', ''TLSV1''), (''tlsv11'', ''TLSV11''), (''tlsv12'',
       ''TLSV12''), (''tlsv13'', ''TLSV13'')]\<rparr>,
     (fld ''sslverify'' ''Sslverify'' ''boolean'' True)\<lparr>fd_default := Some (JStr ''1'')\<rparr>,
     fld ''logfile'' ''Logfile'' ''text'' False,
     fld ''statefile'' ''Statefile'' ''text'' False]"

definition monit_general_fields_2 :: "field list" where
  "monit_general_fields_2 = [
     fld ''eventqueuePath'' ''Eventqueuepath'' ''text'' False,
     fld ''eventqueueSlots'' ''Eventqueueslots'' ''integer'' False,
     (fld ''httpdEnabled'' ''Httpdenabled'' ''boolean'' True)\<lparr>fd_default := Some (JStr ''0'')\<rparr>,
     (fld ''httpdUsername'' ''Httpdusername'' ''text'' True)\<lparr>fd_default := Some (JStr ''root'')\<rparr>,
     (fld ''httpdPassword'' ''Httpdpassword'' ''text'' False)\<lparr>fd_secret := True\<rparr>,
     (fld ''httpdPort'' ''Httpdport'' ''integer'' True)\<lparr>fd_default := Some (JStr ''2812''), fd_min :=
       Some 1, fd_max := Some 65535\<rparr>,
     fld ''httpdAllow'' ''Httpdallow'' ''text'' False,
     (fld ''mmonitUrl'' ''Mmoniturl'' ''text'' False)\<lparr>fd_secret := True\<rparr>,
     (fld ''mmonitTimeout'' ''Mmonittimeout'' ''integer'' True)\<lparr>fd_default := Some (JStr ''5''), fd_min
       := Some 0, fd_max := Some 86400\<rparr>,
     (fld ''mmonitRegisterCredentials'' ''Mmonitregistercredentials'' ''boolean'' True)\<lparr>fd_default :=
       Some (JStr ''1'')\<rparr>]"

definition res_monit_general :: spec where
  "res_monit_general = \<lparr>sp_id = ''monit_general'', sp_label = (''Configuraci'' @ [CHR 0xC3, CHR 0xB3] @ ''n Monit''), sp_group =
     (''Monitorizaci'' @ [CHR 0xC3, CHR 0xB3] @ ''n''), sp_base = ''/api/monit/settings'', sp_search =
     None, sp_get = Some ''get'', sp_add = None, sp_set = Some ''set'', sp_delete = None, sp_key =
     ''monit.general'', sp_apply = [''/api/monit/service/reconfigure''], sp_apply_ack = [(''status'', [JStr
     ''ok'']), (''template'', [JStr ''OK'']), (''result'', [JStr ''Control file syntax OK''])],
     sp_fields = monit_general_fields_1 @ monit_general_fields_2,
     sp_columns = [''enabled'', ''port''], sp_singleton = True, sp_ha_safe = False, sp_persistence_only = False,
     sp_prepare = None, sp_verify = None\<rparr>"

definition res_syslog_general :: spec where
  "res_syslog_general = \<lparr>sp_id = ''syslog_general'', sp_label = (''Configuraci'' @ [CHR 0xC3, CHR 0xB3] @ ''n Syslog''), sp_group =
     (''Monitorizaci'' @ [CHR 0xC3, CHR 0xB3] @ ''n''), sp_base = ''/api/syslog/settings'', sp_search =
     None, sp_get = Some ''get'', sp_add = None, sp_set = Some ''set'', sp_delete = None, sp_key =
     ''syslog.general'', sp_apply = [''/api/syslog/service/reconfigure''], sp_apply_ack = [],
     sp_fields = [
     (fld ''enabled'' ''Habilitado'' ''boolean'' True)\<lparr>fd_default := Some (JStr ''1'')\<rparr>,
     (fld ''loglocal'' ''Loglocal'' ''boolean'' True)\<lparr>fd_default := Some (JStr ''1'')\<rparr>,
     (fld ''maxpreserve'' ''Maxpreserve'' ''integer'' True)\<lparr>fd_default := Some (JStr ''31'')\<rparr>,
     fld ''maxfilesize'' ''Maxfilesize'' ''integer'' False],
     sp_columns = [''enabled''], sp_singleton = True, sp_ha_safe = False, sp_persistence_only = False,
     sp_prepare = None, sp_verify = None\<rparr>"

definition res_ha_settings :: spec where
  "res_ha_settings = \<lparr>sp_id = ''ha_settings'', sp_label = (''Sincronizaci'' @ [CHR 0xC3, CHR 0xB3] @ ''n HA''), sp_group =
     ''Sistema'', sp_base = ''/api/core/hasync'', sp_search = None, sp_get = Some ''get'', sp_add = None,
     sp_set = Some ''set'', sp_delete = None, sp_key = ''hasync'', sp_apply =
     [''/api/core/hasync/reconfigure''], sp_apply_ack = [],
     sp_fields = [
     (fld ''disablepreempt'' ''Disablepreempt'' ''boolean'' True)\<lparr>fd_default := Some (JStr ''0'')\<rparr>,
     (fld ''disconnectppps'' ''Disconnectppps'' ''boolean'' True)\<lparr>fd_default := Some (JStr ''0'')\<rparr>,
     fld ''pfsyncinterface'' ''Pfsyncinterface'' ''select'' False,
     fld ''pfsyncpeerip'' ''Pfsyncpeerip'' ''text'' False,
     (fld ''pfsyncversion'' ''Pfsyncversion'' ''select'' True)\<lparr>fd_default := Some (JStr ''1400''),
       fd_options := [(''1301'', ''OPNsense 24.1 or below''), (''1400'',
       ''OPNsense 24.7 or above'')]\<rparr>,
     fld ''pfsyncdefer'' ''Pfsyncdefer'' ''boolean'' False,
     fld ''synchronizetoip'' ''Synchronizetoip'' ''text'' False,
     (fld ''verifypeer'' ''Verifypeer'' ''boolean'' True)\<lparr>fd_default := Some (JStr ''0'')\<rparr>,
     fld ''username'' ''Username'' ''text'' False,
     (fld ''password'' (''Contrase'' @ [CHR 0xC3, CHR 0xB1] @ ''a'') ''text'' False)\<lparr>fd_secret :=
       True\<rparr>,
     (fld ''syncitems'' ''Syncitems'' ''select'' False)\<lparr>fd_multiple := True\<rparr>],
     sp_columns = [''disablepreempt'', ''disconnectppps'', ''pfsyncinterface'', ''pfsyncpeerip''], sp_singleton
     = True, sp_ha_safe = False, sp_persistence_only = False, sp_prepare = None, sp_verify = None\<rparr>"

definition catalog :: "spec list" where
  "catalog = [res_wireguard_servers, res_wireguard_clients, res_shaper_pipes, res_shaper_queues, res_shaper_rules,
     res_vips, res_vlans, res_laggs, res_loopbacks, res_vxlans, res_monit_services, res_monit_alerts,
     res_monit_tests, res_ids_rules, res_ipsec_connections, res_ipsec_children, res_static_routes,
     res_syslog_destinations, res_portal_zones, res_cron_jobs, res_categories, res_dnsmasq_hosts,
     res_openvpn_instances, res_wireguard_general, res_unbound_general, res_dnsmasq_general,
     res_ids_general, res_monit_general, res_syslog_general, res_ha_settings]"

end
