(* ===== verification/Engine_Props.thy ===== *)
theory Engine_Props
  imports Engine_Facts Catalog_Settings Demo
begin

text \<open>
  The properties of the management engine, \<^verbatim>\<open>src/management/engine.py\<close>, and of the catalog it is
  driven by, \<^verbatim>\<open>src/management/catalog.py\<close>.
\<close>

section \<open>Form values\<close>

lemma parts_nonempty [simp]: "parts name \<noteq> []"
  by (simp add: parts_def)

lemma put_path_head: "ps \<noteq> [] \<Longrightarrow> map_of (put_path d ps v) k = (if k = hd ps then map_of (put_path d ps v) (hd ps) else map_of d k)"
  by (cases "(d, ps, v)" rule: put_path.cases) auto

lemma walk_put_path: "ps \<noteq> [] \<Longrightarrow> walk (JObj (put_path d ps v)) ps = Some v"
proof (induction d ps v rule: put_path.induct)
  case (3 d p q ps v)
  then show ?case by (cases "map_of d p") (auto split: json.splits)
qed auto

lemma parts_dotless: "p \<in> set (parts name) \<Longrightarrow> CHR ''.'' \<notin> set p"
proof -
  have "CHR ''.'' \<notin> set p" if "p \<in> set (split_on (CHR ''.'') s)" for s
    using that
  proof (induction "CHR ''.''" s arbitrary: p rule: split_on.induct)
    case (2 x xs)
    then show ?case by (cases "split_on (CHR ''.'') xs") (auto split: if_splits)
  qed simp
  then show "p \<in> set (parts name) \<Longrightarrow> CHR ''.'' \<notin> set p" by (simp add: parts_def)
qed

lemma dotless_parts: "CHR ''.'' \<notin> set p \<Longrightarrow> parts p = [p]"
  by (simp add: parts_def split_on_absent)

text \<open>Writing a field under a dotted name and reading it back gives the value, wherever the name
  leads; a field whose name starts in another place keeps its value.\<close>

theorem form_put_get:
  "oget (oput d name v) name = Some v \<and>
   (hd (parts other) \<noteq> hd (parts name) \<longrightarrow> oget (oput d name v) other = oget d other)"
proof (intro conjI impI)
  show "oget (oput d name v) name = Some v"
  proof (cases "map_of d name")
    case None
    show ?thesis
    proof (cases "hd (parts name) = name")
      case True
      then have "CHR ''.'' \<notin> set name" by (metis hd_in_set parts_dotless parts_nonempty)
      with None show ?thesis by (simp add: oget_def oput_def dotless_parts)
    next
      case False
      with None have "map_of (put_path d (parts name) v) name = None" by (simp add: put_path_head [of "parts name"])
      with None show ?thesis by (simp add: oget_def oput_def walk_put_path)
    qed
  qed (simp add: oget_def oput_def)
next
  assume ne: "hd (parts other) \<noteq> hd (parts name)"
  then have "other \<noteq> name" by auto
  have hd_other: "hd (parts other) \<noteq> name"
  proof
    assume "hd (parts other) = name"
    then have "CHR ''.'' \<notin> set name" by (metis hd_in_set parts_dotless parts_nonempty)
    with ne \<open>hd (parts other) = name\<close> show False by (simp add: dotless_parts)
  qed
  have hd_name: "other \<noteq> hd (parts name)"
  proof
    assume "other = hd (parts name)"
    then have "CHR ''.'' \<notin> set other" using parts_dotless [of "hd (parts name)" name] by simp
    with ne \<open>other = hd (parts name)\<close> show False by (simp add: dotless_parts)
  qed
  let ?d = "oput d name v"
  have keys: "map_of ?d other = map_of d other" "map_of ?d (hd (parts other)) = map_of d (hd (parts other))"
    using \<open>other \<noteq> name\<close> hd_other hd_name ne
    by (auto simp: oput_def put_path_head [of "parts name" d v other] put_path_head [of "parts name" d v "hd (parts other)"])
  obtain p ps where p: "parts other = p # ps" by (cases "parts other") auto
  with keys have "walk (JObj ?d) (parts other) = walk (JObj d) (parts other)" by simp
  with keys show "oget ?d other = oget d other" by (simp add: oget_def split: option.split)
qed

theorem form_put_get_witness:
  "oget (oput [(''general'', JObj [(''port'', JStr ''1'')])] ''general.port'' (JStr ''2'')) ''name'' =
     oget [(''general'', JObj [(''port'', JStr ''1'')])] ''name''"
  using form_put_get [of "[(''general'', JObj [(''port'', JStr ''1'')])]" "''general.port''" "JStr ''2''" "''name''"]
  by (simp add: parts_def)

section \<open>Hidden fields\<close>

definition hidden :: "field \<Rightarrow> bool" where
  "hidden f = (fd_secret f \<or> fd_write_only f)"

definition covers :: "spec \<Rightarrow> bool" where
  "covers sp = (distinct (map fd_name (sp_fields sp)) \<and> list_all (\<lambda>f. hidden f \<longrightarrow> fd_name f \<noteq> ''uuid'' \<and>
     fd_create_default f = None \<and> fd_edit_default f = None) (sp_fields sp))"

definition masked :: "obj \<Rightarrow> string \<Rightarrow> bool" where
  "masked row name = (map_of row name = None \<or> map_of row name = Some (JStr []))"

lemma public_field_masked:
  "masked it n \<Longrightarrow> (fd_name g = n \<Longrightarrow> hidden g) \<Longrightarrow> masked (public_field listing d it g) n"
  by (auto simp: public_field_def masked_def hidden_def Let_def split: option.splits)

lemma foldl_masked:
  "masked it n \<Longrightarrow> \<forall>g \<in> set fs. fd_name g = n \<longrightarrow> hidden g \<Longrightarrow> masked (foldl (public_field listing d) it fs) n"
  by (induction fs arbitrary: it) (auto simp: public_field_masked)

lemma covers_only:
  assumes "covers sp" "f \<in> set (sp_fields sp)" "hidden f" "g \<in> set (sp_fields sp)" "fd_name g = fd_name f"
  shows "hidden g"
  using assms by (auto simp: covers_def distinct_map dest: inj_onD)

lemma public_masked:
  assumes "public sp v listing = Inr it" "covers sp" "f \<in> set (sp_fields sp)" "hidden f"
  shows "masked it (fd_name f)"
proof -
  have "fd_name f \<noteq> ''uuid''" using assms(2-4) by (auto simp: covers_def list_all_iff)
  with assms(1) show ?thesis
    by (auto simp: public_def masked_def [of "[]"] masked_def [of "[_]"] split: json.splits option.splits
        intro!: foldl_masked covers_only [OF assms(2-4)])
qed

lemma add_defaults_masked:
  "masked it n \<Longrightarrow> \<forall>g \<in> set fs. fd_name g = n \<longrightarrow> fd_create_default g = None \<and> fd_edit_default g = None \<Longrightarrow>
   masked (add_defaults u fs it) n"
  unfolding add_defaults_def
  by (induction fs arbitrary: it) (auto simp: masked_def split: option.splits)

lemma shown_options_simps [simp]:
  "fd_name (shown_options d f) = fd_name f" "fd_create_default (shown_options d f) = fd_create_default f"
  "fd_edit_default (shown_options d f) = fd_edit_default f"
  by (auto simp: shown_options_def Let_def split: option.split)

lemma detail_masked:
  assumes "detail_of sp u r = Inr dt" "covers sp" "f \<in> set (sp_fields sp)" "hidden f"
  shows "masked (dt_item dt) (fd_name f)"
proof -
  from assms(1) obtain d it where it: "public sp (form_value r) False = Inr it" and
      dt: "dt_item dt = (if u \<noteq> [] then dput (add_defaults u (map (shown_options d) (sp_fields sp)) it) ''uuid'' (JStr u)
        else add_defaults u (map (shown_options d) (sp_fields sp)) it)"
    by (auto simp: detail_of_def rbnd_def Let_def split: json.splits sum.splits if_splits)
  have "\<forall>g \<in> set (sp_fields sp). fd_name g = fd_name f \<longrightarrow> fd_create_default g = None \<and> fd_edit_default g = None"
    using assms(2) covers_only [OF assms(2-4)] by (auto simp: covers_def list_all_iff)
  then have "masked (add_defaults u (map (shown_options d) (sp_fields sp)) it) (fd_name f)"
    using public_masked [OF it assms(2-4)] by (intro add_defaults_masked) auto
  moreover have "fd_name f \<noteq> ''uuid''" using assms(2-4) by (auto simp: covers_def list_all_iff)
  ultimately show ?thesis by (cases "u = []") (simp_all add: dt masked_def)
qed

section \<open>Demo resource\<close>

definition demo_service :: service where
  "demo_service = \<lparr>sv_client = demo_client, sv_actor = ''op'', sv_peer = None\<rparr>"

definition demo_category :: json where
  "demo_category = JObj [(''name'', JStr ''web''), (''color'', JStr ''red'')]"

definition demo_page :: json where
  "demo_page = JObj [(''rows'', JArr []), (''total'', JInt 0)]"

definition demo_reads :: "string \<Rightarrow> json option" where
  "demo_reads p = (if p = ''/api/firewall/category/searchItem'' then Some demo_page
     else Some (JObj [(''category'', demo_category)]))"

definition demo_removal :: json where
  "demo_removal = JObj [(''action'', JStr ''delete''), (''uuid'', JStr demo_uuid),
     (''revision'', JStr (hash_payload demo_category))]"

lemma demo_forms [simp]:
  "form_value demo_category = demo_category" "raw_of res_categories (JObj [(''category'', demo_category)]) = Inr demo_category"
  "demo_category \<noteq> JNull"
  "op_path res_categories (sp_get res_categories) demo_uuid = Inr (''/api/firewall/category/getItem/'' @ demo_uuid)"
  "op_path res_categories (sp_search res_categories) [] = Inr ''/api/firewall/category/searchItem''"
  "op_path res_categories (operation_path res_categories Delete) demo_uuid = Inr (''/api/firewall/category/delItem/'' @ demo_uuid)"
  "sp_apply res_categories = []" "sp_persistence_only res_categories" "\<not> sp_singleton res_categories"
  "check_ack saved res_categories False = Inr [(''result'', JStr ''saved''), (''uuid'', JStr demo_uuid)]"
  "listing_of res_categories 1 200 demo_page = Inr \<lparr>ls_rows = [], ls_total = 0, ls_page = 1, ls_row_count = 200\<rparr>"
  "page_args (JInt 1) (JInt 200) (JStr []) = Inr (1, 200, [])"
  "filter fd_write_only (sp_fields res_categories) = []"
  by (code_simp, code_simp, code_simp, code_simp, code_simp, code_simp, code_simp, code_simp, code_simp, code_simp,
      code_simp, code_simp, code_simp)

lemma demo_mutation_request:
  "mutate_request demo_service res_categories demo_removal = Inr (Delete, demo_uuid, hash_payload demo_category)"
  by (simp add: mutate_request_def demo_service_def demo_removal_def body_action_def mutation_ids_def dget_or_def
      validate_revision_hash rbnd_def)

lemmas mutation_run = run_simps mutate_def mutate_locked_def raw_def call_def mgmt_line_def audit_now_def entry_now_def
  commit_def save_def apply_stage_def verify_stage_def peer_absent_def mlist_def expected_values_def mutation_result_def
  on_error_def Let_def

lemma demo_removed:
  "\<exists>v tr'. mutate demo_service res_categories demo_removal (demo_env (\<lambda>p. answer saved) demo_reads None) [] = (Inr v, tr')"
proof -
  have reads: "demo_reads (''/api/firewall/category/getItem/'' @ u) = Some (JObj [(''category'', demo_category)])"
    "demo_reads ''/api/firewall/category/searchItem'' = Some demo_page" for u
    by (simp_all add: demo_reads_def)
  have paths: "url_path (''/api/firewall/category/getItem/'' @ u) = ''/api/firewall/category/getItem/'' @ u"
    "url_path ''/api/firewall/category/searchItem'' = ''/api/firewall/category/searchItem''" for u
    by (simp_all add: url_path_def)
  have service: "sv_client demo_service = demo_client" "sv_peer demo_service = None"
    by (simp_all add: demo_service_def)
  show ?thesis
    by (subst (2) absent.simps [abs_def] | simp add: mutation_run demo_mutation_request reads paths service absent.simps
        del: append.simps append_Cons)
qed

section \<open>Mutations\<close>

lemma reserved_runE:
  assumes "reserved_run s sp act body u rv r es"
  obtains before after cur expected a where "es = before @ AuditEv a None # after" "silent before"
    "expected_values sp act body (form_value cur) = Inr expected"
    "committed s sp act body expected (payload_of sp expected) u r after"
  using assms unfolding reserved_run_def by blast

text \<open>C23: every trace of a mutation is accepted by the state machine of a reserved operation: no request
  that changes anything precedes the audit line with which this user starts this operation, and then
  the change and the applies of the resource go out in their order, each at most once.\<close>

theorem engine_accepted:
  "runs (mutate s sp body) (\<lambda>r es. \<exists>ph. steps (mutation_line s sp body) (mutation_plan s sp body) Idle es ph)"
  by (rule engine.accepted)



text \<open>C25: an update or a delete sends nothing unless the object it read before had the revision that the
  caller gave.\<close>

theorem engine_revision:
  assumes "mutate_request s sp body = Inr (act, u, rv)" and "act \<noteq> Create"
  shows "runs (mutate s sp body) (\<lambda>r es. targets es = [] \<or> (\<exists>before after cur. es = before @ after \<and> silent before \<and>
    raw_read sp (sv_client s) u cur before \<and> hash_payload (form_value cur) = rv))"
  by (rule runs_conseq [OF mutate_runs [OF assms(1)]])
    (use assms(2) in \<open>auto simp: mutation_shape_def reserved_run_def silent_targets\<close>)

theorem engine_revision_witness:
  "\<exists>es. snd (mutate demo_service res_categories demo_removal (demo_env (\<lambda>p. answer saved) demo_reads None) []) = es \<and>
     (targets es = [] \<or> (\<exists>before after cur. es = before @ after \<and>
        raw_read res_categories demo_client demo_uuid cur before \<and> hash_payload (form_value cur) = hash_payload demo_category))"
proof -
  have "Delete \<noteq> Create" "sv_client demo_service = demo_client" by (simp_all add: demo_service_def)
  from runsD [OF engine_revision [OF demo_mutation_request this(1)], of "demo_env (\<lambda>p. answer saved) demo_reads None" "[]"] this(2)
  show ?thesis by fastforce
qed


lemma demo_refused:
  "\<exists>m tr'. mutate demo_service res_categories demo_removal (demo_env (\<lambda>p. answer (JObj [])) demo_reads None) [] =
     (Inl (MgmtErr m), tr') \<and> targets tr' \<noteq> []"
proof -
  have reads: "demo_reads (''/api/firewall/category/getItem/'' @ u) = Some (JObj [(''category'', demo_category)])" for u
    by (simp add: demo_reads_def)
  have paths: "url_path (''/api/firewall/category/getItem/'' @ u) = ''/api/firewall/category/getItem/'' @ u" for u
    by (simp add: url_path_def)
  have service: "sv_client demo_service = demo_client" "sv_peer demo_service = None"
    by (simp_all add: demo_service_def)
  have "check_ack (JObj []) res_categories False = Inl (mgmt ''upstream'' 502)" by code_simp
  then show ?thesis
    by (simp add: mutation_run demo_mutation_request reads paths service mgmt_def posted_def del: append.simps append_Cons)
qed

text \<open>A total that is infinite is no \<^verbatim>\<open>ManagementError\<close>.\<close>

lemma total_infinite: "list_total [(''total'', JFloat ''inf'')] n = Inl (ArithErr ''cannot convert float infinity to integer'')"
proof -
  have "to_int (JFloat ''inf'') = Inl (ArithErr ''cannot convert float infinity to integer'')" by code_simp
  then show ?thesis by (simp add: list_total_def)
qed

text \<open>A delete after which the grid says that it holds infinitely many rows.\<close>

definition endless_reads :: "string \<Rightarrow> json option" where
  "endless_reads p = (if p = ''/api/firewall/category/searchItem''
     then Some (JObj [(''rows'', JArr []), (''total'', JFloat ''inf'')])
     else Some (JObj [(''category'', demo_category)]))"

lemma demo_endless:
  "\<exists>tr'. mutate demo_service res_categories demo_removal (demo_env (\<lambda>p. answer saved) endless_reads None) [] =
     (Inl (ArithErr ''cannot convert float infinity to integer''), tr') \<and> targets tr' \<noteq> []"
proof -
  have reads: "endless_reads (''/api/firewall/category/getItem/'' @ u) = Some (JObj [(''category'', demo_category)])"
    "endless_reads ''/api/firewall/category/searchItem'' = Some (JObj [(''rows'', JArr []), (''total'', JFloat ''inf'')])" for u
    by (simp_all add: endless_reads_def)
  have paths: "url_path (''/api/firewall/category/getItem/'' @ u) = ''/api/firewall/category/getItem/'' @ u"
    "url_path ''/api/firewall/category/searchItem'' = ''/api/firewall/category/searchItem''" for u
    by (simp_all add: url_path_def)
  have service: "sv_client demo_service = demo_client" "sv_peer demo_service = None"
    by (simp_all add: demo_service_def)
  have "listing_of res_categories 1 200 (JObj [(''rows'', JArr []), (''total'', JFloat ''inf'')]) =
      Inl (ArithErr ''cannot convert float infinity to integer'')"
    by code_simp
  then show ?thesis
    by (subst (2) absent.simps [abs_def] | simp add: mutation_run demo_mutation_request reads paths service absent.simps posted_def
        del: append.simps append_Cons)
qed


end
