(* ===== verification/Catalog_Props.thy ===== *)
theory Catalog_Props
  imports Engine_Props
begin

text \<open>
  The engine on the resources of \<^verbatim>\<open>src/management/catalog.py\<close>: what it never shows, how many
  requests a mutation may take, which resources it refuses to write to an HA pair, and that the
  catalog is well formed.
\<close>

section \<open>Nothing hidden is shown\<close>

lemma catalog_covers: "list_all covers catalog"
  by code_simp

lemma public_rows_masked:
  assumes "public_rows sp vs = Inr rows" "covers sp" "f \<in> set (sp_fields sp)" "hidden f"
  shows "list_all (\<lambda>row. masked row (fd_name f)) rows"
  using assms(1)
  by (induction vs arbitrary: rows)
    (auto simp: rbnd_def public_masked [OF _ assms(2-4)] split: sum.splits)

lemma mdetail_masked:
  assumes "covers sp" "f \<in> set (sp_fields sp)" "hidden f"
  shows "runs (mdetail_get s sp u) (\<lambda>r es. \<forall>d. r = Inr d \<longrightarrow> masked (dt_item d) (fd_name f))"
proof (cases "detail_uuid sp u")
  case (Inr v)
  show ?thesis
    unfolding mdetail_get_def Inr bnd_of_res
    by (rule runs_bnd [OF raw_runs]) (auto intro: detail_masked [OF _ assms])
qed (simp add: mdetail_get_def)

text \<open>C27: neither the list nor the detail of a resource of the catalog gives the value of a secret or
  write-only field to the caller.\<close>

theorem catalog_hides:
  assumes "sp \<in> set catalog" and "f \<in> set (sp_fields sp)" and "hidden f"
  shows "runs (mlist s sp page n phrase) (\<lambda>r es. \<forall>l. r = Inr l \<longrightarrow> list_all (\<lambda>row. masked row (fd_name f)) (ls_rows l)) \<and>
    runs (mdetail_get s sp u) (\<lambda>r es. \<forall>d. r = Inr d \<longrightarrow> masked (dt_item d) (fd_name f))"
proof
  have c: "covers sp" using assms(1) catalog_covers by (simp add: list_all_iff)
  have listing: "listing_of sp p m out = Inr l \<Longrightarrow> list_all (\<lambda>row. masked row (fd_name f)) (ls_rows l)" for p m out l
    by (auto simp: listing_of_def rbnd_def dest: public_rows_masked [OF _ c assms(2,3)]
        split: json.splits option.splits if_splits sum.splits)
  show "runs (mdetail_get s sp u) (\<lambda>r es. \<forall>d. r = Inr d \<longrightarrow> masked (dt_item d) (fd_name f))"
    by (rule mdetail_masked [OF c assms(2,3)])
  show "runs (mlist s sp page n phrase)
      (\<lambda>r es. \<forall>l. r = Inr l \<longrightarrow> list_all (\<lambda>row. masked row (fd_name f)) (ls_rows l))"
  proof (cases "page_args page n phrase")
    case (Inr a)
    obtain p m t0 where a: "a = (p, m, t0)" by (cases a) auto
    show ?thesis
    proof (cases "sp_singleton sp")
      case True
      then show ?thesis
        unfolding mlist_def Inr a bnd_of_res prod.case
        by simp (rule runs_bnd [OF mdetail_masked [OF c assms(2,3)]], auto)
    next
      case False
      show ?thesis
      proof (cases "op_path sp (sp_search sp) []")
        case (Inr q)
        with False \<open>page_args page n phrase = Inr a\<close> show ?thesis
          unfolding mlist_def a by (simp, intro runs_bnd [OF call_get]) (auto dest: listing)
      qed (use False Inr a in \<open>simp add: mlist_def\<close>)
    qed
  qed (simp add: mlist_def)
qed

definition demo_ha :: json where
  "demo_ha = JObj [(''username'', JStr ''root''), (''password'', JStr ''opnsense'')]"

definition demo_password :: field where
  "demo_password = sp_fields res_ha_settings ! 9"

lemma demo_ha_forms:
  "res_ha_settings \<in> set catalog" "demo_password \<in> set (sp_fields res_ha_settings)" "hidden demo_password"
  "fd_name demo_password = ''password''" "detail_uuid res_ha_settings None = Inr singleton_uuid"
  "op_path res_ha_settings (sp_get res_ha_settings) singleton_uuid = Inr ''/api/core/hasync/get''"
  "raw_of res_ha_settings (JObj [(''hasync'', demo_ha)]) = Inr demo_ha"
  "\<exists>it. public res_ha_settings (form_value demo_ha) False = Inr it"
  by (simp add: catalog_def, simp add: demo_password_def res_ha_settings_def, code_simp, code_simp, code_simp,
      code_simp, code_simp, simp add: public_def demo_ha_def is_option_def)

theorem catalog_hides_witness:
  "\<exists>d tr. mdetail_get demo_service res_ha_settings None
      (demo_env (\<lambda>p. answer saved) (\<lambda>p. Some (JObj [(''hasync'', demo_ha)])) None) [] = (Inr d, tr) \<and>
    masked (dt_item d) ''password''"
proof -
  let ?E = "demo_env (\<lambda>p. answer saved) (\<lambda>p. Some (JObj [(''hasync'', demo_ha)])) None"
  obtain d where d: "detail_of res_ha_settings singleton_uuid demo_ha = Inr d"
    using demo_ha_forms(8) by (auto simp: detail_of_def demo_ha_def Let_def rbnd_def)
  have "sv_client demo_service = demo_client" by (simp add: demo_service_def)
  with d demo_ha_forms have run: "\<exists>tr. mdetail_get demo_service res_ha_settings None ?E [] = (Inr d, tr)"
    by (simp add: mdetail_get_def raw_def call_def run_simps url_path_def)
  from catalog_hides [OF demo_ha_forms(1-3), of demo_service _ _ _ None] demo_ha_forms(4)
  have "runs (mdetail_get demo_service res_ha_settings None) (\<lambda>r es. \<forall>d. r = Inr d \<longrightarrow> masked (dt_item d) ''password'')"
    by auto
  from runsD [OF this, of ?E "[]"] run show ?thesis by auto
qed

section \<open>How many requests a mutation takes\<close>

definition requests_upto :: "'a io \<Rightarrow> nat \<Rightarrow> bool" where
  "requests_upto m n = runs m (\<lambda>r es. length (filter is_http es) \<le> n)"

lemma requests_bnd:
  "requests_upto m a \<Longrightarrow> (\<And>x. requests_upto (f x) b) \<Longrightarrow> requests_upto (bnd m f) (a + b)"
  unfolding requests_upto_def
  by (rule runs_bnd, assumption) (simp, erule meta_allE, erule runs_conseq, simp)

lemma requests_try_else:
  "requests_upto m a \<Longrightarrow> (\<And>e. requests_upto (h e) b) \<Longrightarrow> (\<And>x. requests_upto (f x) b) \<Longrightarrow>
   requests_upto (try_else m p h f) (a + b)"
  unfolding requests_upto_def
  by (rule runs_try_else, assumption) (simp, (erule meta_allE, erule runs_conseq, simp)+)

lemma requests_mono: "requests_upto m a \<Longrightarrow> a \<le> b \<Longrightarrow> requests_upto m b"
  unfolding requests_upto_def by (erule runs_conseq) simp

lemma requests_none [simp]:
  "requests_upto (ret x) n" "requests_upto (raise e) n" "requests_upto (of_res r) n" "requests_upto now_ms n"
  by (auto simp: requests_upto_def intro: runs_now_ms)

lemma requests_line: "requests_upto (mgmt_line s sp act u rslt payload t0) 0"
  unfolding requests_upto_def by (rule runs_conseq [OF mgmt_line_runs]) (auto simp: line_outcome_def)

lemma requests_get: "requests_upto (call (client_get c p ps)) (rp_attempts (c_retry c))"
proof -
  have "requests_upto (client_get c p ps) (rp_attempts (c_retry c))"
    unfolding requests_upto_def by (rule runs_conseq [OF runs_get_requests]) simp
  from requests_try_else [OF this, of "\<lambda>e. raise (call_error e)" 0 ret is_opn] show ?thesis
    by (simp add: call_def)
qed

lemma requests_post: "requests_upto (call (client_post c p d)) 1"
proof -
  have "requests_upto (client_post c p d) 1"
    unfolding requests_upto_def by (rule runs_client_post) (simp add: posted_def)
  from requests_try_else [OF this, of "\<lambda>e. raise (call_error e)" 0 ret is_opn] show ?thesis
    by (simp add: call_def)
qed

definition attempts_upto :: "nat \<Rightarrow> service \<Rightarrow> bool" where
  "attempts_upto k s = (rp_attempts (c_retry (sv_client s)) \<le> k \<and>
     (case sv_peer s of None \<Rightarrow> True | Some peer \<Rightarrow> rp_attempts (c_retry peer) \<le> k))"

lemma requests_raw:
  assumes "rp_attempts (c_retry c) \<le> k" shows "requests_upto (raw sp c u) k"
proof -
  have "requests_upto (raw sp c u) (0 + (rp_attempts (c_retry c) + 0))"
    unfolding raw_def by (intro requests_bnd requests_get requests_none)
  then show ?thesis using assms by (simp add: requests_mono)
qed

lemma requests_mlist:
  assumes "attempts_upto k s" shows "requests_upto (mlist s sp p n t) k"
proof -
  have k: "rp_attempts (c_retry (sv_client s)) \<le> k" using assms by (simp add: attempts_upto_def)
  have one: "requests_upto (mdetail_get s sp u) (0 + (k + 0))" for u
    unfolding mdetail_get_def by (intro requests_bnd requests_raw [OF k] requests_none)
  have page: "requests_upto (bnd (of_res (op_path sp (sp_search sp) [])) (\<lambda>path.
      bnd (call (client_get (sv_client s) path [(''current'', JInt p'), (''rowCount'', JInt n'), (''searchPhrase'', JStr t0)])) (\<lambda>out.
       of_res (listing_of sp p' n' out)))) k" for p' n' t0
    by (rule requests_mono [OF requests_bnd [OF requests_none(3) [of _ 0] requests_bnd [OF requests_get requests_none(3) [of _ 0]]]])
      (use k in simp)
  show ?thesis
  proof (cases "page_args p n t")
    case (Inr a)
    obtain p' n' t0 where a: "a = (p', n', t0)" by (cases a) auto
    have "requests_upto (bnd (mdetail_get s sp u) (\<lambda>dt. ret (g dt))) k" for u and g :: "mdetail \<Rightarrow> listing"
      using requests_bnd [OF one, of "\<lambda>dt. ret (g dt)" 0 u] by simp
    with page show ?thesis by (simp add: mlist_def Inr a)
  qed (simp add: mlist_def)
qed

lemma requests_absent:
  assumes "attempts_upto k s" shows "requests_upto (absent s sp u err page seen left) (Suc left * k)"
proof (induction left arbitrary: page seen)
  case 0
  show ?case
    by (subst absent.simps, unfold Let_def, rule requests_mono [OF requests_bnd [OF requests_mlist [OF assms], where b = 0]])
      auto
next
  case (Suc n)
  have zero: "requests_upto (raise err :: unit io) (Suc n * k)" "requests_upto (ret ()) (Suc n * k)" by simp_all
  show ?case
    by (subst absent.simps, unfold Let_def nat.case, rule requests_mono [OF requests_bnd [OF requests_mlist [OF assms], where b = "Suc n * k"]])
      (use Suc zero in \<open>auto simp del: mult_Suc\<close>, simp)
qed

lemma requests_verify:
  assumes "attempts_upto k s" shows "requests_upto (verify_stage s sp act body expected u) (2000 * k)"
proof -
  have c: "rp_attempts (c_retry (sv_client s)) \<le> k" using assms by (simp add: attempts_upto_def)
  have peer: "sv_peer s = Some p \<Longrightarrow> rp_attempts (c_retry p) \<le> k" for p
    using assms by (simp add: attempts_upto_def)
  have read: "requests_upto (readback s sp act body ex u) k" for ex
  proof -
    have "requests_upto (readback s sp act body ex u) (k + (0 + (0 + 0)))"
      unfolding readback_def Let_def by (intro requests_bnd requests_raw [OF c] requests_none)
    then show ?thesis by simp
  qed
  have same: "requests_upto (peer_same s sp a u) k" for a
  proof (cases "sv_peer s")
    case (Some p)
    have "requests_upto (bnd (raw sp p u) (\<lambda>r. if hash_payload (form_value r) \<noteq> hash_payload a
        then raise (mgmt ''ha_unverified'' 409) else ret ())) (k + 0)"
      by (rule requests_bnd [OF requests_raw [OF peer [OF Some]]]) simp
    then show ?thesis by (simp add: peer_same_def Some)
  qed (simp add: peer_same_def)
  have gone: "requests_upto (peer_absent s sp u) (1000 * k)"
  proof (cases "sv_peer s")
    case (Some p)
    have "attempts_upto k (s\<lparr>sv_client := p, sv_peer := None\<rparr>)" using peer [OF Some] by (simp add: attempts_upto_def)
    from requests_absent [OF this, of sp u "mgmt ''ha_unverified'' 409" 1 0 "max_page - 1"] show ?thesis
      by (simp add: peer_absent_def Some max_page_def)
  qed (simp add: peer_absent_def)
  have scan: "requests_upto (absent s sp u (mgmt ''unverified'' 502) 1 0 (max_page - 1)) (1000 * k)"
    using requests_absent [OF assms, of sp u "mgmt ''unverified'' 502" 1 0 "max_page - 1"] by (simp add: max_page_def)
  show ?thesis
  proof (cases expected)
    case None
    then show ?thesis using requests_bnd [OF scan gone] by (simp add: verify_stage_def)
  next
    case (Some ex)
    have "requests_upto (verify_stage s sp act body expected u) (k + k)"
      unfolding verify_stage_def Some option.case by (rule requests_bnd [OF read same])
    then show ?thesis by (rule requests_mono) simp
  qed
qed

lemma requests_apply: "requests_upto (apply_all s sp ps) (length ps)"
proof (induction ps)
  case (Cons p ps)
  have "requests_upto (apply_all s sp (p # ps)) (1 + (0 + length ps))"
    unfolding apply_all.simps by (intro requests_bnd requests_post requests_none Cons)
  then show ?case by simp
qed simp

lemma requests_on_error: "requests_upto (on_error s sp act payload t0 stage u cf e) 0"
proof (cases e)
  case (MgmtErr m)
  show ?thesis
    unfolding on_error_def MgmtErr exn.case Let_def
    by (rule requests_try_else [OF requests_line, where b = 0, simplified]) simp_all
qed (simp_all add: on_error_def)

lemma requests_save: "requests_upto (save s sp act payload u) 1"
proof -
  have "requests_upto (save s sp act payload u) (0 + (1 + (0 + 0)))"
    unfolding save_def by (intro requests_bnd requests_post requests_none) (auto split: sum.split)
  then show ?thesis by simp
qed

lemma requests_commit:
  assumes "attempts_upto k s"
  shows "requests_upto (commit s sp act body expected payload t0 u) (1 + (length (sp_apply sp) + (2000 * k + (0 + 0) + 0)))"
proof -
  note handler = requests_mono [OF requests_on_error le0]
  have applied: "requests_upto (apply_stage s sp) (length (sp_apply sp))"
    using requests_apply by (auto simp: apply_stage_def)
  show ?thesis
    unfolding commit_def
    by (intro requests_try_else requests_bnd requests_save applied requests_verify [OF assms] requests_line handler requests_none)
qed

text \<open>C28: a mutation ends after a bounded number of requests, whatever the firewall answers: at most k
  tries for the object it reads first, one change, the applies of the resource, and for the readback
  at most 1000 pages of the node and of its peer, each with at most k tries.\<close>

theorem engine_bounded:
  assumes "attempts_upto k s"
  shows "requests_upto (mutate s sp body) (2001 * k + length (sp_apply sp) + 1)"
proof (cases "mutate_request s sp body")
  case (Inr q)
  obtain act u rv where q: "q = (act, u, rv)" by (cases q) auto
  have c: "rp_attempts (c_retry (sv_client s)) \<le> k" using assms by (simp add: attempts_upto_def)
  have guarded: "requests_upto m n \<Longrightarrow> requests_upto (if b then raise e else m) n" for b e n and m :: "json io"
    by simp
  have "requests_upto (mutate_locked s sp act (as_obj body) u rv)
      (0 + (k + (0 + (0 + (1 + (length (sp_apply sp) + (2000 * k + (0 + 0) + 0)))))))"
    unfolding mutate_locked_def Let_def
    by (intro guarded requests_bnd requests_raw [OF c] requests_none requests_line requests_commit [OF assms])
  then show ?thesis by (simp add: mutate_def Inr q algebra_simps)
qed (simp add: mutate_def)

theorem engine_bounded_witness:
  "requests_upto (mutate demo_service res_categories demo_removal) 6004"
proof -
  have "attempts_upto 3 demo_service"
    by (simp add: attempts_upto_def demo_service_def default_retry_def)
  from engine_bounded [OF this, of res_categories demo_removal] show ?thesis by simp
qed

section \<open>The domain of a field\<close>

text \<open>The options: a choice by its value; a multiple field holds several, separated by commas.\<close>

definition a_choice :: "field \<Rightarrow> string \<Rightarrow> bool" where
  "a_choice f s = (if fd_multiple f
     then (\<forall>p \<in> set (split_on (CHR '','') s). \<exists>label. (p, label) \<in> set (fd_options f))
     else (\<exists>label. (s, label) \<in> set (fd_options f)))"

text \<open>A number: digits after any signs; with a bound, one that Python reads as an integer within it.\<close>

definition a_number :: "field \<Rightarrow> string \<Rightarrow> bool" where
  "a_number f s = ((\<exists>signs ds. s = signs @ ds \<and> set signs \<subseteq> {CHR ''-''} \<and> ds \<noteq> [] \<and> list_all is_digit ds) \<and>
     (\<forall>lo. fd_min f = Some lo \<longrightarrow> (\<exists>n. py_int s = Some n \<and> lo \<le> n)) \<and>
     (\<forall>hi. fd_max f = Some hi \<longrightarrow> (\<exists>n. py_int s = Some n \<and> n \<le> hi)))"

definition in_domain :: "field \<Rightarrow> string \<Rightarrow> bool" where
  "in_domain f s = ((fd_options f = [] \<or> s = [] \<or> a_choice f s) \<and>
     (if \<not> fd_multiple f \<and> (fd_kind f = ''boolean'' \<or> fd_kind f = ''checkbox'') then s = ''0'' \<or> s = ''1''
      else if \<not> fd_multiple f \<and> (fd_kind f = ''number'' \<or> fd_kind f = ''integer'')
        then s = [] \<and> \<not> fd_required f \<or> a_number f s
      else py_len s \<le> 65536 \<and> CHR 0x00 \<notin> set s))"

lemma allowed_choice: "allowed f s \<Longrightarrow> fd_options f = [] \<or> s = [] \<or> a_choice f s"
proof -
  assume a: "allowed f s"
  have "\<exists>label. (p, label) \<in> set (fd_options f)" if "p \<in> fst ` set (fd_options f)" for p
    using that by auto
  with a show ?thesis
    unfolding allowed_def a_choice_def by (cases "fd_multiple f") (simp_all, blast+)
qed

lemma number_text_domain: "number_text f v = Inr s \<Longrightarrow> a_number f s"
proof -
  assume n: "number_text f v = Inr s"
  then have "isdigit (dropWhile (\<lambda>c. c = CHR ''-'') s)"
    by (auto simp: number_text_def Let_def split: if_splits option.splits)
  moreover have "s = takeWhile (\<lambda>c. c = CHR ''-'') s @ dropWhile (\<lambda>c. c = CHR ''-'') s" by simp
  moreover have "set (takeWhile (\<lambda>c. c = CHR ''-'') s) \<subseteq> {CHR ''-''}" by (auto dest: set_takeWhileD)
  ultimately have "\<exists>signs ds. s = signs @ ds \<and> set signs \<subseteq> {CHR ''-''} \<and> ds \<noteq> [] \<and> list_all is_digit ds"
    unfolding isdigit_def nonempty_all_def by blast
  with n show ?thesis
    by (auto simp: a_number_def number_text_def Let_def split: if_splits option.splits)
qed

lemma plain_text_domain: "plain_text v = Inr s \<Longrightarrow> py_len s \<le> 65536 \<and> CHR 0x00 \<notin> set s"
  by (auto simp: plain_text_def split: json.splits if_splits)

lemma multi_text_domain: "multi_text v = Inr s \<Longrightarrow> py_len s \<le> 65536 \<and> CHR 0x00 \<notin> set s"
  by (cases v) (auto simp: multi_text_def dest: plain_text_domain split: if_splits)

lemma allowed_empty [simp]: "allowed f []"
  by (simp add: allowed_def)



section \<open>The catalog\<close>

text \<open>A default that the engine would take if it were submitted; a boolean is shown as text.\<close>

definition default_ok :: "field \<Rightarrow> bool" where
  "default_ok f = (case fd_default f of
      None \<Rightarrow> True
    | Some v \<Rightarrow> if fd_kind f = ''boolean'' \<and> \<not> fd_multiple f then v = JStr ''0'' \<or> v = JStr ''1''
        else (case submitted f True v of Inl _ \<Rightarrow> False | Inr _ \<Rightarrow> True))"

definition bad_fields :: "spec \<Rightarrow> string list" where
  "bad_fields sp = map fd_name (filter (\<lambda>f. \<not> default_ok f) (sp_fields sp))"

text \<open>How the check goes for each kind of field; with these the table is evaluated by rewriting.\<close>

lemma no_default: "fd_default f = None \<Longrightarrow> default_ok f"
  by (simp add: default_ok_def)

lemma bool_default: "fd_default f = Some v \<Longrightarrow> fd_kind f = ''boolean'' \<Longrightarrow> \<not> fd_multiple f \<Longrightarrow>
  default_ok f = (v = JStr ''0'' \<or> v = JStr ''1'')"
  by (simp add: default_ok_def)

lemma text_default: "fd_default f = Some (JStr s) \<Longrightarrow> fd_kind f = ''text'' \<or> fd_kind f = ''select'' \<Longrightarrow>
  \<not> fd_readonly f \<Longrightarrow> \<not> fd_generated f \<Longrightarrow>
  default_ok f = (py_len s \<le> 65536 \<and> CHR 0x00 \<notin> set s \<and> allowed f s)"
  by (auto simp: default_ok_def submitted_def blank_def is_number_def multi_text_def plain_text_def rbnd_def)

lemma py_int_digits:
  assumes "s \<noteq> []" "list_all is_digit s" shows "py_int s = Some (dec_val 0 s)"
proof -
  obtain c cs where c: "s = c # cs" "is_digit c" using assms by (cases s) auto
  have "strip s = s" using assms by (intro strip_no_space) (auto simp: list_all_iff digit_not_space)
  moreover have "filter (\<lambda>c. c \<noteq> CHR ''_'') s = s" using assms(2) by (auto simp: list_all_iff intro!: filter_True)
  ultimately show ?thesis using assms c by (auto simp: py_int_def unsigned_val_def digits_us_digits)
qed

lemma number_default: "fd_default f = Some (JStr s) \<Longrightarrow> fd_kind f = ''integer'' \<Longrightarrow> \<not> fd_multiple f \<Longrightarrow>
  \<not> fd_readonly f \<Longrightarrow> \<not> fd_generated f \<Longrightarrow> s \<noteq> [] \<Longrightarrow> list_all is_digit s \<Longrightarrow> length s \<le> 4300 \<Longrightarrow>
  default_ok f = (allowed f s \<and> (case fd_min f of Some lo \<Rightarrow> lo \<le> dec_val 0 s | None \<Rightarrow> True) \<and>
     (case fd_max f of Some hi \<Rightarrow> dec_val 0 s \<le> hi | None \<Rightarrow> True))"
proof -
  assume a: "fd_default f = Some (JStr s)" "fd_kind f = ''integer''" "\<not> fd_multiple f" "\<not> fd_readonly f"
    "\<not> fd_generated f" "s \<noteq> []" "list_all is_digit s" "length s \<le> 4300"
  have "dropWhile (\<lambda>c. c = CHR ''-'') s = s" using a(6,7) by (cases s) auto
  moreover have "length (filter is_digit s) \<le> 4300" using a(8) length_filter_le [of is_digit s] by linarith
  moreover have "isdigit s" using a(6,7) by (simp add: isdigit_def nonempty_all_def)
  ultimately have n: "number_text f (JStr s) = (if (case fd_min f of Some lo \<Rightarrow> lo \<le> dec_val 0 s | None \<Rightarrow> True) \<and>
      (case fd_max f of Some hi \<Rightarrow> dec_val 0 s \<le> hi | None \<Rightarrow> True) then Inr s else Inl bad_request)"
    using py_int_digits [OF a(6,7)] by (cases "fd_min f"; cases "fd_max f") (simp_all add: number_text_def)
  have "submitted f True (JStr s) = rbnd (number_text f (JStr s)) (\<lambda>s. if allowed f s then Inr (Some s) else Inl bad_request)"
    using a(1-6) by (simp add: submitted_def is_number_def blank_def)
  then show ?thesis using a(1-3) n by (simp add: default_ok_def rbnd_def)
qed

lemma digitless_default: "fd_default f = Some (JStr s) \<Longrightarrow> fd_kind f = ''integer'' \<Longrightarrow> \<not> fd_multiple f \<Longrightarrow>
  \<not> fd_readonly f \<Longrightarrow> \<not> fd_generated f \<Longrightarrow> s \<noteq> [] \<Longrightarrow> \<not> isdigit (dropWhile (\<lambda>c. c = CHR ''-'') s) \<Longrightarrow> \<not> default_ok f"
  by (simp add: default_ok_def submitted_def blank_def is_number_def number_text_def rbnd_def)

lemmas default_kinds = no_default bool_default text_default number_default digitless_default fld_def allowed_def
  py_len_def isdigit_def nonempty_all_def is_digit_def in_range_def code_def digit_val_def

text \<open>What the engine relies on in a resource.\<close>

definition paths_ok :: "spec \<Rightarrow> bool" where
  "paths_ok sp = (sp_get sp \<noteq> None \<and> (sp_apply sp \<noteq> [] \<or> sp_persistence_only sp) \<and>
     list_all (starts_with ''/api/'') (sp_base sp # sp_apply sp) \<and>
     (if sp_singleton sp then sp_set sp \<noteq> None \<and> sp_add sp = None \<and> sp_delete sp = None
      else sp_search sp \<noteq> None))"

definition kind_ok :: "field \<Rightarrow> bool" where
  "kind_ok f = ((fd_kind f = ''text'' \<or> fd_kind f = ''boolean'' \<or> fd_kind f = ''integer'' \<or> fd_kind f = ''select'') \<and>
     \<not> (fd_required f \<and> fd_readonly f))"

definition usable :: "spec \<Rightarrow> bool" where
  "usable sp = (covers sp \<and> paths_ok sp \<and> list_all kind_ok (sp_fields sp))"

lemma catalog_paths: "list_all paths_ok catalog"
  by code_simp

lemma catalog_kinds: "list_all (\<lambda>sp. list_all kind_ok (sp_fields sp)) catalog"
  by code_simp

text \<open>The defaults of every resource.\<close>

lemma bad_defaults_1:
  "bad_fields res_wireguard_servers = []"
  "bad_fields res_wireguard_clients = []"
  "bad_fields res_shaper_pipes = []"
  "bad_fields res_shaper_queues = []"
  "bad_fields res_shaper_rules = [''src_port'', ''dst_port'']"
  by (simp_all add: bad_fields_def default_kinds res_wireguard_servers_def res_wireguard_clients_def res_shaper_pipes_def res_shaper_queues_def res_shaper_rules_def)

lemma bad_defaults_2:
  "bad_fields res_vips = []"
  "bad_fields res_vlans = []"
  "bad_fields res_laggs = []"
  "bad_fields res_loopbacks = []"
  "bad_fields res_vxlans = []"
  by (simp_all add: bad_fields_def default_kinds res_vips_def res_vlans_def res_laggs_def res_loopbacks_def res_vxlans_def)

lemma bad_defaults_3:
  "bad_fields res_monit_services = []"
  "bad_fields res_monit_alerts = []"
  "bad_fields res_monit_tests = []"
  "bad_fields res_ids_rules = []"
  "bad_fields res_ipsec_connections = []"
  by (simp_all add: bad_fields_def default_kinds res_monit_services_def res_monit_alerts_def res_monit_tests_def res_ids_rules_def res_ipsec_connections_def ipsec_connections_fields_1_def ipsec_connections_fields_2_def)

lemma bad_defaults_4:
  "bad_fields res_ipsec_children = []"
  "bad_fields res_static_routes = []"
  "bad_fields res_syslog_destinations = [''transport'']"
  "bad_fields res_portal_zones = []"
  "bad_fields res_cron_jobs = []"
  by (simp_all add: bad_fields_def default_kinds res_ipsec_children_def res_static_routes_def res_syslog_destinations_def res_portal_zones_def res_cron_jobs_def)

lemma bad_defaults_5:
  "bad_fields res_categories = []"
  "bad_fields res_dnsmasq_hosts = []"
  "bad_fields res_openvpn_instances = []"
  "bad_fields res_wireguard_general = []"
  "bad_fields res_unbound_general = []"
  by (simp_all add: bad_fields_def default_kinds res_categories_def res_dnsmasq_hosts_def res_openvpn_instances_def res_wireguard_general_def res_unbound_general_def openvpn_instances_fields_1_def openvpn_instances_fields_2_def openvpn_instances_fields_3_def openvpn_instances_fields_4_def)

lemma bad_defaults_6:
  "bad_fields res_dnsmasq_general = []"
  "bad_fields res_ids_general = []"
  "bad_fields res_monit_general = []"
  "bad_fields res_syslog_general = []"
  "bad_fields res_ha_settings = []"
  by (simp_all add: bad_fields_def default_kinds res_dnsmasq_general_def res_ids_general_def res_monit_general_def res_syslog_general_def res_ha_settings_def monit_general_fields_1_def monit_general_fields_2_def)

lemmas bad_defaults = bad_defaults_1 bad_defaults_2 bad_defaults_3 bad_defaults_4 bad_defaults_5 bad_defaults_6

lemma catalog_ids:
  "sp_id res_wireguard_servers = ''wireguard_servers''"
  "sp_id res_wireguard_clients = ''wireguard_clients''"
  "sp_id res_shaper_pipes = ''shaper_pipes''"
  "sp_id res_shaper_queues = ''shaper_queues''"
  "sp_id res_shaper_rules = ''shaper_rules''"
  "sp_id res_vips = ''vips''"
  "sp_id res_vlans = ''vlans''"
  "sp_id res_laggs = ''laggs''"
  "sp_id res_loopbacks = ''loopbacks''"
  "sp_id res_vxlans = ''vxlans''"
  "sp_id res_monit_services = ''monit_services''"
  "sp_id res_monit_alerts = ''monit_alerts''"
  "sp_id res_monit_tests = ''monit_tests''"
  "sp_id res_ids_rules = ''ids_rules''"
  "sp_id res_ipsec_connections = ''ipsec_connections''"
  "sp_id res_ipsec_children = ''ipsec_children''"
  "sp_id res_static_routes = ''static_routes''"
  "sp_id res_syslog_destinations = ''syslog_destinations''"
  "sp_id res_portal_zones = ''portal_zones''"
  "sp_id res_cron_jobs = ''cron_jobs''"
  "sp_id res_categories = ''categories''"
  "sp_id res_dnsmasq_hosts = ''dnsmasq_hosts''"
  "sp_id res_openvpn_instances = ''openvpn_instances''"
  "sp_id res_wireguard_general = ''wireguard_general''"
  "sp_id res_unbound_general = ''unbound_general''"
  "sp_id res_dnsmasq_general = ''dnsmasq_general''"
  "sp_id res_ids_general = ''ids_general''"
  "sp_id res_monit_general = ''monit_general''"
  "sp_id res_syslog_general = ''syslog_general''"
  "sp_id res_ha_settings = ''ha_settings''"
  by (simp_all add: res_wireguard_servers_def res_wireguard_clients_def res_shaper_pipes_def res_shaper_queues_def res_shaper_rules_def res_vips_def res_vlans_def res_laggs_def res_loopbacks_def res_vxlans_def res_monit_services_def res_monit_alerts_def res_monit_tests_def res_ids_rules_def res_ipsec_connections_def res_ipsec_children_def res_static_routes_def res_syslog_destinations_def res_portal_zones_def res_cron_jobs_def res_categories_def res_dnsmasq_hosts_def res_openvpn_instances_def res_wireguard_general_def res_unbound_general_def res_dnsmasq_general_def res_ids_general_def res_monit_general_def res_syslog_general_def res_ha_settings_def)

text \<open>The catalog has no resource twice, every resource is usable by the engine and none may be
  written while a peer is configured; three defaults would be refused by the check of their own field.\<close>

theorem catalog_form:
  "distinct (map sp_id catalog) \<and> list_all usable catalog \<and> list_all (\<lambda>sp. \<not> sp_ha_safe sp) catalog \<and>
   filter (\<lambda>(k, ks). ks \<noteq> []) (map (\<lambda>sp. (sp_id sp, bad_fields sp)) catalog) =
     [(''shaper_rules'', [''src_port'', ''dst_port'']), (''syslog_destinations'', [''transport''])]"
proof (intro conjI)
  show "distinct (map sp_id catalog)" by code_simp
  show "list_all usable catalog"
    using catalog_covers catalog_paths catalog_kinds by (simp add: usable_def list_all_iff)
  show "list_all (\<lambda>sp. \<not> sp_ha_safe sp) catalog" by code_simp
  show "filter (\<lambda>(k, ks). ks \<noteq> []) (map (\<lambda>sp. (sp_id sp, bad_fields sp)) catalog) =
     [(''shaper_rules'', [''src_port'', ''dst_port'']), (''syslog_destinations'', [''transport''])]"
    by (simp add: catalog_def bad_defaults catalog_ids)
qed

end
