(* ===== verification/Operations.thy ===== *)
theory Operations
  imports Engine_Mutate
begin

text \<open>
  The operations on a device that are no configuration objects, \<^verbatim>\<open>src/management/operations.py\<close>:
  the table of the allowed ones, the check of their values, and \<^verbatim>\<open>execute_operation\<close>, which sends
  at most one request that changes anything, with audit lines around it.
\<close>

section \<open>The table\<close>

record op_field =
  of_name :: string
  of_label :: string
  of_kind :: string
  of_required :: bool
  of_default :: "json option"
  of_range :: "(int \<times> int) option"
  of_options :: "(string \<times> string) list"

record operation =
  op_id :: string
  op_label :: string
  op_group :: string
  op_method :: meth
  op_api :: string
  op_fields :: "op_field list"
  op_confirm :: bool
  op_verify :: "(string \<times> string list) option"
  op_ack :: "(string \<times> string list) option"
  op_body_key :: "string option"
  op_segment :: "string option"
  op_mutation :: bool

definition ofld :: "string \<Rightarrow> string \<Rightarrow> string \<Rightarrow> bool \<Rightarrow> op_field" where
  "ofld name label kind required = \<lparr>of_name = name, of_label = label, of_kind = kind, of_required = required,
     of_default = None, of_range = None, of_options = []\<rparr>"

text \<open>\<^verbatim>\<open>_register\<close> with its defaults.\<close>

definition register :: "string \<Rightarrow> string \<Rightarrow> string \<Rightarrow> meth \<Rightarrow> string \<Rightarrow> operation" where
  "register ident label grp m path = \<lparr>op_id = ident, op_label = label, op_group = grp, op_method = m, op_api = path,
     op_fields = [], op_confirm = False, op_verify = None, op_ack = None, op_body_key = None, op_segment = None,
     op_mutation = (m = POST)\<rparr>"

definition service_action :: "string \<Rightarrow> string \<Rightarrow> string \<Rightarrow> string \<Rightarrow> operation" where
  "service_action svc label act caption =
     (let base = ''/api/'' @ svc @ ''/service/'' in
      (register (svc @ ''_'' @ act) (caption @ '': '' @ label) ''Servicios'' POST (base @ act))
        \<lparr>op_confirm := True,
         op_verify := (if act = ''reconfigure'' then None
           else Some (base @ ''status'', if act = ''stop'' then [''stopped'', ''disabled''] else [''running''])),
         op_ack := Some (if svc = ''wireguard'' \<and> act = ''reconfigure'' then ''result''
           else if act = ''reconfigure'' then ''status'' else ''response'', [''ok''])\<rparr>)"

definition service_operations :: "string \<times> string \<Rightarrow> operation list" where
  "service_operations = (\<lambda>(svc, label).
     register (svc @ ''_status'') (''Estado '' @ label) ''Servicios'' GET (''/api/'' @ svc @ ''/service/status'') #
     map (\<lambda>(act, caption). service_action svc label act caption)
       [(''start'', ''Iniciar''), (''stop'', ''Detener''), (''restart'', ''Reiniciar''), (''reconfigure'', (''Aplicar configuraci'' @ [CHR 0xC3, CHR 0xB3] @ ''n''))])"

definition services :: "(string \<times> string) list" where
  "services = [(''wireguard'', ''WireGuard''), (''ids'', ''IDS/IPS''), (''monit'', ''Monit''), (''dnsmasq'', ''Dnsmasq''),
     (''syslog'', ''Syslog''), (''ipsec'', ''IPsec''), (''captiveportal'', ''Portal cautivo'')]"

definition firmware_operations :: "operation list" where
  "firmware_operations =
     map (\<lambda>(act, label). register (''firmware_'' @ act) label ''Sistema'' GET (''/api/core/firmware/'' @ act))
       [(''status'', ''Estado de firmware''), (''info'', (''Paquetes y versi'' @ [CHR 0xC3, CHR 0xB3] @ ''n'')), (''upgradestatus'', (''Progreso de actualizaci'' @ [CHR 0xC3, CHR 0xB3] @ ''n''))] @
     map (\<lambda>(act, label). (register (''firmware_'' @ act) label ''Sistema'' POST (''/api/core/firmware/'' @ act))
         \<lparr>op_confirm := True, op_ack := Some (''status'', [''ok''])\<rparr>)
       [(''check'', ''Buscar actualizaciones''), (''audit'', ''Auditar paquetes''), (''update'', ''Actualizar firmware''),
        (''upgrade'', (''Actualizar versi'' @ [CHR 0xC3, CHR 0xB3] @ ''n mayor'')), (''reboot'', ''Reiniciar firewall''), (''poweroff'', ''Apagar firewall'')]"

definition diagnostic_reads :: "operation list" where
  "diagnostic_reads = map (\<lambda>(ident, label, path). register ident label (''Diagn'' @ [CHR 0xC3, CHR 0xB3] @ ''stico'') GET path)
     [(''activity'', ''Actividad del sistema'', ''/api/diagnostics/activity/getActivity''),
      (''arp'', ''Tabla ARP'', ''/api/diagnostics/interface/searchArp''),
      (''ndp'', ''Tabla NDP'', ''/api/diagnostics/interface/searchNdp''),
      (''routes'', ''Rutas del kernel'', ''/api/diagnostics/interface/getRoutes''),
      (''ipsec_sad'', ''IPsec SAD'', ''/api/ipsec/sad/search''),
      (''ipsec_spd'', ''IPsec SPD'', ''/api/ipsec/spd/search''),
      (''ipsec_leases'', ''Concesiones IPsec'', ''/api/ipsec/leases/search''),
      (''ipsec_sessions'', ''Sesiones IPsec'', ''/api/ipsec/sessions/searchPhase1''),
      (''ping_jobs'', ''Trabajos ping'', ''/api/diagnostics/ping/searchJobs'')]"

definition states_operation :: operation where
  "states_operation = (register ''states'' ''Estados del firewall'' (''Diagn'' @ [CHR 0xC3, CHR 0xB3] @ ''stico'') POST ''/api/diagnostics/firewall/queryStates'')
     \<lparr>op_mutation := False, op_fields :=
       [(ofld ''rowCount'' ''Filas'' ''integer'' False)\<lparr>of_range := Some (1, 200), of_default := Some (JInt 50)\<rparr>,
        (ofld ''current'' (''P'' @ [CHR 0xC3, CHR 0xA1] @ ''gina'') ''integer'' False)\<lparr>of_range := Some (1, 100000), of_default := Some (JInt 1)\<rparr>]\<rparr>"

definition reverse_dns :: operation where
  "reverse_dns = (register ''reverse_dns'' ''DNS inverso'' (''Diagn'' @ [CHR 0xC3, CHR 0xB3] @ ''stico'') GET ''/api/diagnostics/dns/reverseLookup'')
     \<lparr>op_fields := [ofld ''address'' (''Direcci'' @ [CHR 0xC3, CHR 0xB3] @ ''n IP'') ''ip'' True]\<rparr>"

definition host_field :: op_field where
  "host_field = ofld ''hostname'' ''Hostname o IP'' ''hostname'' True"

definition source_field :: op_field where
  "source_field = ofld ''source_address'' (''Direcci'' @ [CHR 0xC3, CHR 0xB3] @ ''n de origen'') ''ip'' False"

definition traceroute :: operation where
  "traceroute = (register ''traceroute'' ''Traceroute'' (''Diagn'' @ [CHR 0xC3, CHR 0xB3] @ ''stico'') POST ''/api/diagnostics/traceroute/set'')
     \<lparr>op_fields := [host_field, source_field,
        (ofld ''ipproto'' ''Familia'' ''select'' False)\<lparr>of_default := Some (JStr ''inet''),
          of_options := [(''inet'', ''IPv4''), (''inet6'', ''IPv6'')]\<rparr>,
        (ofld ''protocol'' ''Protocolo'' ''select'' False)\<lparr>of_default := Some (JStr ''udp''),
          of_options := [(''udp'', ''UDP''), (''icmp'', ''ICMP'')]\<rparr>],
      op_body_key := Some ''traceroute.settings'', op_ack := Some (''result'', [''ok'']), op_confirm := True\<rparr>"

definition ping_create :: operation where
  "ping_create = (register ''ping_create'' ''Preparar trabajo ping'' (''Diagn'' @ [CHR 0xC3, CHR 0xB3] @ ''stico'') POST ''/api/diagnostics/ping/set'')
     \<lparr>op_fields := [host_field, source_field,
        (ofld ''fam'' ''Familia'' ''select'' False)\<lparr>of_default := Some (JStr ''ip''),
          of_options := [(''ip'', ''IPv4''), (''ip6'', ''IPv6'')]\<rparr>,
        (ofld ''packetsize'' (''Tama'' @ [CHR 0xC3, CHR 0xB1] @ ''o'') ''integer'' False)\<lparr>of_range := Some (1, 65535)\<rparr>,
        (ofld ''interval'' ''Intervalo'' ''integer'' False)\<lparr>of_range := Some (1, 120)\<rparr>],
      op_body_key := Some ''ping.settings'', op_ack := Some (''result'', [''ok'']), op_confirm := True\<rparr>"

definition ping_operations :: "operation list" where
  "ping_operations = map (\<lambda>(act, label). (register (''ping_'' @ act) label (''Diagn'' @ [CHR 0xC3, CHR 0xB3] @ ''stico'') POST (''/api/diagnostics/ping/'' @ act))
       \<lparr>op_fields := [ofld ''jobid'' ''UUID del trabajo'' ''uuid'' True], op_segment := Some ''jobid'', op_confirm := True,
        op_ack := Some (''status'', [''ok''])\<rparr>)
     [(''start'', ''Iniciar ping''), (''stop'', ''Detener ping''), (''remove'', ''Eliminar trabajo ping'')]"

definition ipsec_operations :: "operation list" where
  "ipsec_operations = map (\<lambda>(act, label). (register (''ipsec_'' @ act) label ''VPN'' POST (''/api/ipsec/sessions/'' @ act))
       \<lparr>op_fields := [ofld ''id'' (''ID de sesi'' @ [CHR 0xC3, CHR 0xB3] @ ''n'') ''identifier'' True], op_segment := Some ''id'', op_confirm := True,
        op_ack := Some (''result'', [''ok''])\<rparr>)
     [(''connect'', ''Conectar IPsec''), (''disconnect'', ''Desconectar IPsec'')]"

definition operations :: "operation list" where
  "operations = concat (map service_operations services) @ firmware_operations @ diagnostic_reads @
     [states_operation, reverse_dns, traceroute, ping_create] @ ping_operations @ ipsec_operations"

definition operation_of :: "json \<Rightarrow> operation option" where
  "operation_of v = (case v of JStr s \<Rightarrow> find (\<lambda>o'. op_id o' = s) operations | _ \<Rightarrow> None)"

section \<open>What is shown of a response\<close>

text \<open>The alternatives of the pattern \<^verbatim>\<open>_SECRET\<close>, written out.\<close>

definition secret_words :: "string list" where
  "secret_words = [''password'', ''passwd'', ''privkey'', ''priv_key'', ''priv-key'', ''privatekey'', ''private_key'', ''private-key'',
     ''apikey'', ''api_key'', ''api-key'', ''secret'', ''token'', ''credential'', ''authorization'', ''cookie'', ''psk'']"

definition secret_key :: "string \<Rightarrow> bool" where
  "secret_key s = list_ex (\<lambda>w. infix_of w (lower s)) secret_words"

text \<open>A predicate of some suffix of a text.\<close>

fun any_suffix :: "(string \<Rightarrow> bool) \<Rightarrow> string \<Rightarrow> bool" where
  "any_suffix P [] = P []"
| "any_suffix P (c # cs) = (P (c # cs) \<or> any_suffix P cs)"

definition key_block :: "string \<Rightarrow> bool" where
  "key_block s = any_suffix (\<lambda>t. starts_with ''-----begin '' t \<and>
     infix_of ''private key-----'' (takeWhile (\<lambda>c. c \<noteq> CHR 0x0A) (drop (length ''-----begin '') t))) s"

text \<open>\<^verbatim>\<open>[^\s/]+:[^\s/]+@\<close> at the start of a text.\<close>

definition userinfo :: "string \<Rightarrow> bool" where
  "userinfo t = (case takeWhile (\<lambda>c. \<not> is_space c \<and> c \<noteq> CHR ''/'') t of
      [] \<Rightarrow> False
    | c # cs \<Rightarrow> any_suffix (\<lambda>u. case u of d # e # v \<Rightarrow> d = CHR '':'' \<and> CHR ''@'' \<in> set v | _ \<Rightarrow> False) cs)"

definition login_url :: "string \<Rightarrow> bool" where
  "login_url s = any_suffix (\<lambda>t. starts_with ''http://'' t \<and> userinfo (drop (length ''http://'') t) \<or>
     starts_with ''https://'' t \<and> userinfo (drop (length ''https://'') t)) s"

definition leaks :: "string \<Rightarrow> bool" where
  "leaks s = (key_block (lower s) \<or> login_url (lower s))"

fun sanitize :: "nat \<Rightarrow> json \<Rightarrow> json res"
  and sanitize_items :: "nat \<Rightarrow> json list \<Rightarrow> json list res"
  and sanitize_pairs :: "nat \<Rightarrow> obj \<Rightarrow> obj res" where
  "sanitize depth v = (if depth > 16 then Inl invalid_response else (case v of
      JObj d \<Rightarrow> rbnd (sanitize_pairs (Suc depth) d) (\<lambda>d'. Inr (JObj d'))
    | JArr vs \<Rightarrow> rbnd (sanitize_items (Suc depth) vs) (\<lambda>vs'. Inr (JArr vs'))
    | JStr s \<Rightarrow> Inr (JStr (if leaks s then ''[redacted]'' else s))
    | _ \<Rightarrow> Inr v))"
| "sanitize_items depth [] = Inr []"
| "sanitize_items depth (v # vs) =
     rbnd (sanitize depth v) (\<lambda>x. rbnd (sanitize_items depth vs) (\<lambda>xs. Inr (x # xs)))"
| "sanitize_pairs depth [] = Inr []"
| "sanitize_pairs depth ((k, v) # d) = (if secret_key k then sanitize_pairs depth d
     else rbnd (sanitize depth v) (\<lambda>x. rbnd (sanitize_pairs depth d) (\<lambda>xs. Inr ((k, x) # xs))))"

declare sanitize.simps(1) [simp del]

section \<open>The values of a request\<close>

definition hostname_text :: "string \<Rightarrow> bool" where
  "hostname_text s =
     (let t = (if s \<noteq> [] \<and> last s = CHR ''.'' then butlast s else s)
      in t \<noteq> [] \<and> is_alnum (hd t) \<and> is_alnum (last t) \<and> list_all (\<lambda>c. is_alnum c \<or> c \<in> set ''.-'') t)"

definition identifier_text :: "string \<Rightarrow> bool" where
  "identifier_text s = (case s of [] \<Rightarrow> False
     | c # cs \<Rightarrow> is_alnum c \<and> length cs \<le> 127 \<and> list_all (\<lambda>d. is_alnum d \<or> d \<in> set ''_.:-'') cs)"

definition op_number :: "op_field \<Rightarrow> json \<Rightarrow> json res" where
  "op_number f v = (case v of JBool b \<Rightarrow> Inl bad_request
     | _ \<Rightarrow> if \<not> nonempty_all is_digit (py_str v) then Inl bad_request
         else if length (py_str v) > 4300 then Inl (ValueErr ''Exceeds the limit (4300 digits) for integer string conversion'')
         else (let n = dec_val 0 (py_str v) in
           case of_range f of None \<Rightarrow> Inl (KeyErr ''min'')
           | Some (lo, hi) \<Rightarrow> if lo \<le> n \<and> n \<le> hi then Inr (JInt n) else Inl bad_request))"

definition op_text_ok :: "op_field \<Rightarrow> string \<Rightarrow> bool" where
  "op_text_ok f s =
     (if of_kind f = ''uuid'' then canonical_uuid (lower s)
      else if of_kind f = ''ip'' then parse_ip s \<noteq> None
      else if of_kind f = ''hostname'' then parse_ip s \<noteq> None \<or> hostname_text s
      else if of_kind f = ''identifier'' then identifier_text s
      else if of_kind f = ''select'' then s \<in> fst ` set (of_options f)
      else True)"

text \<open>The value of one field: \<^verbatim>\<open>None\<close> if it is left out.\<close>

definition op_value :: "op_field \<Rightarrow> obj \<Rightarrow> json option res" where
  "op_value f vs =
     (let v = or_default (map_of vs (of_name f)) (or_default (of_default f) JNull) in
      if v = JNull \<or> v = JStr [] then (if of_required f then Inl bad_request else Inr None)
      else if of_kind f = ''integer'' then rbnd (op_number f v) (\<lambda>x. Inr (Some x))
      else (case v of
          JStr s \<Rightarrow> if py_len s > 253 \<or> CHR 0x00 \<in> set s \<or> \<not> op_text_ok f s then Inl bad_request else Inr (Some v)
        | _ \<Rightarrow> Inl bad_request))"

fun op_collect :: "op_field list \<Rightarrow> obj \<Rightarrow> obj res" where
  "op_collect [] vs = Inr []"
| "op_collect (f # fs) vs = rbnd (op_value f vs) (\<lambda>x. rbnd (op_collect fs vs) (\<lambda>xs.
     Inr (case x of None \<Rightarrow> xs | Some v \<Rightarrow> (of_name f, v) # xs)))"

definition op_values :: "operation \<Rightarrow> json \<Rightarrow> obj res" where
  "op_values o' values = (case values of
      JObj vs \<Rightarrow> if \<not> list_all (\<lambda>(k, v). k \<in> of_name ` set (op_fields o')) vs then Inl bad_request
        else op_collect (op_fields o') vs
    | _ \<Rightarrow> Inl bad_request)"

section \<open>The request\<close>

text \<open>\<^verbatim>\<open>urllib.parse.quote(s, safe='')\<close> on the bytes of a text.\<close>

definition unreserved :: "char \<Rightarrow> bool" where
  "unreserved c = (is_alnum c \<or> c \<in> set ''_.-~'')"

definition hex_upper :: "nat \<Rightarrow> char" where
  "hex_upper d = (if d < 10 then chr (48 + d) else chr (55 + d))"

definition quote_char :: "char \<Rightarrow> string" where
  "quote_char c = (if unreserved c then [c] else [CHR ''%'', hex_upper (code c div 16), hex_upper (code c mod 16)])"

definition quote_path :: "string \<Rightarrow> string" where
  "quote_path s = concat (map quote_char s)"

definition op_url :: "operation \<Rightarrow> obj \<Rightarrow> string" where
  "op_url o' vs = (case op_segment o' of None \<Rightarrow> op_api o'
     | Some seg \<Rightarrow> op_api o' @ ''/'' @ quote_path (py_str (dget_or (JObj vs) seg JNull)))"

fun wrap :: "string list \<Rightarrow> obj \<Rightarrow> obj" where
  "wrap [] d = d"
| "wrap (p # ps) d = [(p, JObj (wrap ps d))]"

definition op_payload :: "operation \<Rightarrow> obj \<Rightarrow> obj" where
  "op_payload o' vs =
     (let d = (case op_segment o' of None \<Rightarrow> vs | Some seg \<Rightarrow> ddel vs seg)
      in case op_body_key o' of None \<Rightarrow> d | Some k \<Rightarrow> wrap (split_on (CHR ''.'') k) d)"

section \<open>The response\<close>

definition says_failed :: "json \<Rightarrow> bool" where
  "says_failed v = (lower (py_str v) \<in> {''failed'', ''failure'', ''error''})"

definition check_response :: "operation \<Rightarrow> json \<Rightarrow> unit res" where
  "check_response o' response =
     (if \<not> (is_obj response \<or> is_arr response) then Inl invalid_response
      else if is_obj response \<and> truthy_opt (dget response ''validations'') then Inl (mgmt ''validation'' 422)
      else if is_obj response \<and> (truthy_opt (dget response ''error'') \<or> truthy_opt (dget response ''errorMessage'')) then
        Inl (mgmt ''upstream'' 502)
      else if is_obj response \<and> list_ex (\<lambda>k. says_failed (dget_or response k (JStr []))) [''status'', ''result''] then
        Inl (mgmt ''upstream'' 502)
      else (case op_ack o' of
          None \<Rightarrow> Inr ()
        | Some (k, accepted) \<Rightarrow>
            if \<not> is_obj response \<or> lower (py_str (dget_or response k (JStr []))) \<notin> set accepted then Inl (mgmt ''upstream'' 502)
            else if op_id o' = ''monit_reconfigure'' \<and> (dget response ''template'' \<noteq> Some (JStr ''OK'') \<or>
                dget response ''result'' \<noteq> Some (JStr ''Control file syntax OK'')) then Inl (mgmt ''upstream'' 502)
            else Inr ()))"

section \<open>Execution\<close>

definition audit_failed :: "bool \<Rightarrow> exn" where
  "audit_failed sent = MgmtErr \<lparr>me_error = ''audit'', me_status = 503, me_partial = sent, me_stage = Some ''audit'',
     me_audit_failure = True, me_validations = [], me_uuid = None\<rparr>"

definition op_line :: "client \<Rightarrow> string \<Rightarrow> operation \<Rightarrow> string \<Rightarrow> int \<Rightarrow> bool \<Rightarrow> string \<Rightarrow> string \<Rightarrow> unit io" where
  "op_line c actor o' sha t0 sent rslt detail =
     bnd now_ms (\<lambda>t. try_else
       (audit_now actor (''operation.'' @ op_id o') (op_id o') (h_name (c_host c)) rslt (t - t0) detail sha)
       is_os (\<lambda>_. raise (audit_failed sent)) (\<lambda>_. ret ()))"

definition detail_attempt :: string where
  "detail_attempt = (''Solicitud validada; pendiente de env'' @ [CHR 0xC3, CHR 0xAD] @ ''o.'')"

definition detail_verified :: string where
  "detail_verified = ''Estado verificado.''"

definition detail_received :: string where
  "detail_received = (''Respuesta recibida; sin afirmar aplicaci'' @ [CHR 0xC3, CHR 0xB3] @ ''n.'')"

text \<open>The state the operation is in afterwards: read back where the table names an expected one.\<close>

definition op_state :: "client \<Rightarrow> operation \<Rightarrow> (bool \<times> json) io" where
  "op_state c o' = (case op_verify o' of
      None \<Rightarrow> ret (False, JStr (if op_method o' = POST \<and> op_mutation o' then ''accepted'' else ''observed''))
    | Some (path, expected) \<Rightarrow> bnd (call (client_get c path [])) (\<lambda>st.
        case dget st ''status'' of
          Some (JStr s) \<Rightarrow> if s \<in> set expected then ret (True, JStr s)
            else raise (MgmtErr \<lparr>me_error = ''verification'', me_status = 502, me_partial = True, me_stage = Some ''verify'',
              me_audit_failure = False, me_validations = [], me_uuid = None\<rparr>)
        | _ \<Rightarrow> raise (MgmtErr \<lparr>me_error = ''verification'', me_status = 502, me_partial = True, me_stage = Some ''verify'',
              me_audit_failure = False, me_validations = [], me_uuid = None\<rparr>)))"

definition op_result :: "operation \<Rightarrow> bool \<Rightarrow> json \<Rightarrow> json \<Rightarrow> obj" where
  "op_result o' verified state shown = [(''operation'', JStr (op_id o')), (''accepted'', JBool (op_method o' = POST)),
     (''verified'', JBool verified), (''state'', state), (''result'', shown)]"

definition op_send :: "client \<Rightarrow> operation \<Rightarrow> obj \<Rightarrow> json io" where
  "op_send c o' vs = (if op_method o' = POST then call (client_post c (op_url o' vs) (op_payload o' vs))
     else call (client_get c (op_url o' vs) (op_payload o' vs)))"

definition op_body :: "client \<Rightarrow> string \<Rightarrow> operation \<Rightarrow> obj \<Rightarrow> string \<Rightarrow> int \<Rightarrow> obj io" where
  "op_body c actor o' vs sha t0 =
     bnd (op_send c o' vs) (\<lambda>response.
     bnd (of_res (check_response o' response)) (\<lambda>_.
     bnd (op_state c o') (\<lambda>(verified, state).
     bnd (of_res (sanitize 0 response)) (\<lambda>shown.
     bnd (if op_method o' = POST
          then op_line c actor o' sha t0 True ''ok'' (if verified then detail_verified else detail_received)
          else ret ()) (\<lambda>_.
     ret (op_result o' verified state shown))))))"

definition op_on_error :: "client \<Rightarrow> string \<Rightarrow> operation \<Rightarrow> string \<Rightarrow> int \<Rightarrow> exn \<Rightarrow> 'a io" where
  "op_on_error c actor o' sha t0 e = (case e of
      MgmtErr m \<Rightarrow>
        (let sent = (op_method o' = POST);
             m' = m\<lparr>me_partial := me_partial m \<or> sent \<and> me_error m \<notin> {''validation'', ''auth''},
                    me_stage := (case me_stage m of None \<Rightarrow> Some (if sent then ''operation'' else ''read'') | s \<Rightarrow> s)\<rparr>
         in if sent \<and> \<not> me_audit_failure m then
              try_else (op_line c actor o' sha t0 True ''error'' (me_error m)) is_mgmt
                (\<lambda>_. raise (MgmtErr (m'\<lparr>me_audit_failure := True\<rparr>))) (\<lambda>_. raise (MgmtErr m'))
            else raise (MgmtErr m'))
    | _ \<Rightarrow> raise e)"

definition execute_operation :: "client \<Rightarrow> string \<Rightarrow> json \<Rightarrow> json \<Rightarrow> obj io" where
  "execute_operation c actor operation values = (case operation_of operation of
      None \<Rightarrow> raise (mgmt ''unsupported'' 404)
    | Some o' \<Rightarrow>
        bnd (of_res (op_values o' values)) (\<lambda>vs.
        bnd now_ms (\<lambda>t0.
        let sha = hash_payload values in
        bnd (if op_method o' = POST then op_line c actor o' sha t0 False ''attempt'' detail_attempt else ret ()) (\<lambda>_.
        try_else (op_body c actor o' vs sha t0) is_mgmt (op_on_error c actor o' sha t0) ret))))"

end
