(* ===== verification/Reporting.thy ===== *)
theory Reporting
  imports Operations Engine_Facts
begin

text \<open>
  How the device operations and the CRL service keep the audit log: a line before the change, one
  after it, and if the change fails one about the failure. A \<open>reporter\<close> is what writes these lines;
  both programs are interpretations.
\<close>

definition fails_audit :: "exn \<Rightarrow> bool" where
  "fails_audit e = (case e of MgmtErr m \<Rightarrow> me_audit_failure m | _ \<Rightarrow> False)"

lemma fails_audit_simps [simp]: "\<not> fails_audit (mgmt err st)" "fails_audit (audit_failed b)"
  by (simp_all add: fails_audit_def mgmt_def audit_failed_def)

lemma is_mgmt_audit_failed [simp]: "is_mgmt (audit_failed sent)"
  by (simp add: audit_failed_def)

text \<open>A failed call is no failure of the log.\<close>

lemma call_error_plain [simp]: "\<not> fails_audit (call_error e)"
  by (cases e) simp_all

lemma call_plain:
  assumes "runs m (\<lambda>r es. \<forall>e. r = Inl e \<longrightarrow> is_opn e)"
  shows "runs (call m) (\<lambda>r es. \<forall>e. r = Inl e \<longrightarrow> \<not> fails_audit e)"
  unfolding call_def by (rule runs_try_else [OF assms]) auto

lemma get_plain: "runs (call (client_get c p ps)) (\<lambda>r es. \<forall>e. r = Inl e \<longrightarrow> \<not> fails_audit e)"
  by (rule call_plain, rule runs_client_get) auto

lemma post_plain: "runs (call (client_post c p d)) (\<lambda>r es. \<forall>e. r = Inl e \<longrightarrow> \<not> fails_audit e)"
  by (rule call_plain, rule runs_client_post) (auto dest: post_result_opn)

text \<open>The audit line one call of the reporter adds, and its result.\<close>

definition line_added ::
  "(string \<Rightarrow> string \<Rightarrow> audit_entry \<Rightarrow> bool) \<Rightarrow> bool \<Rightarrow> string \<Rightarrow> string \<Rightarrow> unit res \<Rightarrow> trace \<Rightarrow> bool" where
  "line_added entry sent rslt detail r es = (\<exists>a lg. es = [AuditEv a lg] \<and> entry rslt detail a \<and>
     (case lg of None \<Rightarrow> r = Inr () | Some msg \<Rightarrow> r = Inl (audit_failed sent)))"

text \<open>The trace ends with a line of the operation; if it is not in the log, the error says so.\<close>

definition ends_reported :: "(string \<Rightarrow> string \<Rightarrow> audit_entry \<Rightarrow> bool) \<Rightarrow> mgmt_error \<Rightarrow> trace \<Rightarrow> bool" where
  "ends_reported entry m es = (\<exists>xs a lg rslt detail. es = xs @ [AuditEv a lg] \<and> entry rslt detail a \<and>
     (lg \<noteq> None \<longrightarrow> me_audit_failure m))"

locale reporter =
  fixes line :: "bool \<Rightarrow> string \<Rightarrow> string \<Rightarrow> unit io"
    and entry :: "string \<Rightarrow> string \<Rightarrow> audit_entry \<Rightarrow> bool"
  assumes line_runs: "runs (line sent rslt detail) (line_added entry sent rslt detail)"
begin

text \<open>A program behind its reserving line.\<close>

lemma after_line:
  assumes "runs m Q"
  shows "runs (bnd (line False rslt detail) (\<lambda>_. m)) (\<lambda>r es. \<exists>a lg rest. es = AuditEv a lg # rest \<and>
    entry rslt detail a \<and> (case lg of None \<Rightarrow> Q r rest | Some msg \<Rightarrow> rest = [] \<and> r = Inl (audit_failed False)))"
proof (rule runs_bnd [OF line_runs], goal_cases)
  case (1 e es)
  then show ?case by (auto simp: line_added_def split: option.splits)
next
  case (2 x es)
  then obtain a where "es = [AuditEv a None]" "entry rslt detail a"
    by (auto simp: line_added_def split: option.splits)
  then show ?case by (intro runs_conseq [OF assms]) auto
qed

text \<open>The line after a change: the result, or an error that says the line is missing.\<close>

lemma final_line:
  "runs (bnd (line True rslt detail) (\<lambda>_. ret v)) (\<lambda>r es. \<exists>a lg. es = [AuditEv a lg] \<and> entry rslt detail a \<and>
     (case lg of None \<Rightarrow> r = Inr v | Some msg \<Rightarrow> r = Inl (audit_failed True)))"
  by (rule runs_bnd [OF line_runs]) (auto simp: line_added_def split: option.splits)

text \<open>The end of a failed change: its line, unless the failure was that of a line already.\<close>

lemma settled:
  assumes "me_audit_failure m \<Longrightarrow> ends_reported entry m es" and "me_audit_failure m' = me_audit_failure m"
    and "\<And>m'' es'. me_partial m'' = me_partial m' \<Longrightarrow> me_error m'' = me_error m' \<Longrightarrow> me_stage m'' = me_stage m' \<Longrightarrow>
      targets es' = [] \<Longrightarrow> ends_reported entry m'' (es @ es') \<Longrightarrow> Q (Inl (MgmtErr m'')) es'"
  shows "runs (if \<not> me_audit_failure m then try_else (line True rslt detail) is_mgmt
      (\<lambda>_. raise (MgmtErr (m'\<lparr>me_audit_failure := True\<rparr>))) (\<lambda>_. raise (MgmtErr m')) else raise (MgmtErr m')) Q"
proof (cases "me_audit_failure m")
  case True
  then have "ends_reported entry m' (es @ [])" using assms(1,2) by (auto simp: ends_reported_def)
  then show ?thesis using True assms(3) [of m' "[]"] by simp
next
  case False
  show ?thesis
    unfolding if_P [OF False]
  proof (rule runs_try_else [OF line_runs], goal_cases)
    case (1 x es')
    then show ?case by (auto simp: line_added_def split: option.splits)
  next
    case (2 x es')
    then obtain a lg where "es' = [AuditEv a lg]" "entry rslt detail a" by (auto simp: line_added_def)
    then show ?case
      unfolding runs_raise by (intro assms(3)) (auto simp: ends_reported_def)
  next
    case (3 x es')
    then obtain a where "es' = [AuditEv a None]" "entry rslt detail a"
      by (auto simp: line_added_def split: option.splits)
    then show ?case
      unfolding runs_raise by (intro assms(3)) (auto simp: ends_reported_def)
  qed
qed

end

end
