(* ===== verification/Operations_Facts.thy ===== *)
theory Operations_Facts
  imports Reporting
begin

text \<open>
  What one operation does: the line before, the request, the line after. It is another
  \<open>audited_mutation\<close>, whose plan is the one request of the table.
\<close>

section \<open>Lines\<close>

definition op_entry :: "client \<Rightarrow> string \<Rightarrow> operation \<Rightarrow> json \<Rightarrow> string \<Rightarrow> string \<Rightarrow> audit_entry \<Rightarrow> bool" where
  "op_entry c actor o' values rslt detail a = entry_of actor (''operation.'' @ op_id o') (op_id o') (h_name (c_host c))
     rslt detail (hash_payload values) a"

interpretation op_log: reporter "op_line c actor o' (hash_payload body) t0" "op_entry c actor o' body"
  for c actor o' body t0
proof
  fix sent rslt detail
  show "runs (op_line c actor o' (hash_payload body) t0 sent rslt detail)
      (line_added (op_entry c actor o' body) sent rslt detail)"
    unfolding op_line_def
  proof (rule runs_bnd [OF runs_now_ms [where Q = "\<lambda>r es. es = [] \<and> (\<exists>t. r = Inr t)"]], goal_cases)
    case (3 t es)
    have "runs (try_else
         (audit_now actor (''operation.'' @ op_id o') (op_id o') (h_name (c_host c)) rslt (t - t0) detail (hash_payload body))
         is_os (\<lambda>_. raise (audit_failed sent)) (\<lambda>_. ret ())) (line_added (op_entry c actor o' body) sent rslt detail)"
      by (rule runs_try_else [OF runs_audit_now [where Q = "\<lambda>r es. \<exists>a lg. es = [AuditEv a lg] \<and>
            op_entry c actor o' body rslt detail a \<and> (case lg of None \<Rightarrow> r = Inr a | Some msg \<Rightarrow> r = Inl (OSErr msg))"]])
        (auto simp: op_entry_def line_added_def split: option.splits)
    with 3 show ?case by simp
  qed simp_all
qed

section \<open>The request\<close>

definition op_targets :: "client \<Rightarrow> operation \<Rightarrow> obj \<Rightarrow> target list" where
  "op_targets c o' vs = (if op_method o' = POST then [(c_host c, url_path (op_url o' vs))] else [])"

lemma op_send_runs:
  "runs (op_send c o' vs) (\<lambda>r es. targets es = op_targets c o' vs \<and> audit_lines es = [])"
  unfolding op_send_def op_targets_def
  by (auto intro!: runs_conseq [OF call_post] runs_conseq [OF call_get])

text \<open>The state that is reported as verified was the one of the last answer.\<close>

definition state_read :: "client \<Rightarrow> operation \<Rightarrow> bool \<Rightarrow> json \<Rightarrow> trace \<Rightarrow> bool" where
  "state_read c o' verified state es = (verified \<longrightarrow> (\<exists>path expected s v. op_verify o' = Some (path, expected) \<and>
     got c path [] v es \<and> dget v ''status'' = Some (JStr s) \<and> s \<in> set expected \<and> state = JStr s))"

lemma op_state_runs:
  "runs (op_state c o') (\<lambda>r es. targets es = [] \<and> audit_lines es = [] \<and>
     (\<forall>verified state. r = Inr (verified, state) \<longrightarrow> state_read c o' verified state es \<and>
        (verified = (op_verify o' \<noteq> None))))"
proof (cases "op_verify o'")
  case None
  then show ?thesis by (simp add: op_state_def state_read_def)
next
  case (Some pe)
  obtain path expected where pe: "pe = (path, expected)" by (cases pe) auto
  show ?thesis
    unfolding op_state_def Some pe option.case prod.case
    by (rule runs_bnd [OF call_get])
      (auto simp: state_read_def Some pe split: option.split json.split)
qed

section \<open>Errors\<close>

lemma check_response_plain: "check_response o' response = Inl e \<Longrightarrow> \<not> fails_audit e"
  by (auto simp: check_response_def split: if_splits option.splits)

lemma sanitize_json [simp]:
  "sanitize n (JObj d) = (if n > 16 then Inl invalid_response else rbnd (sanitize_pairs (Suc n) d) (\<lambda>d'. Inr (JObj d')))"
  "sanitize n (JArr vs) = (if n > 16 then Inl invalid_response else rbnd (sanitize_items (Suc n) vs) (\<lambda>vs'. Inr (JArr vs')))"
  "sanitize n (JStr s) = (if n > 16 then Inl invalid_response else Inr (JStr (if leaks s then ''[redacted]'' else s)))"
  "sanitize n JNull = (if n > 16 then Inl invalid_response else Inr JNull)"
  "sanitize n (JBool b) = (if n > 16 then Inl invalid_response else Inr (JBool b))"
  "sanitize n (JInt i) = (if n > 16 then Inl invalid_response else Inr (JInt i))"
  "sanitize n (JFloat q) = (if n > 16 then Inl invalid_response else Inr (JFloat q))"
  by (simp_all add: sanitize.simps(1))

definition deep_only :: "'a res \<Rightarrow> bool" where
  "deep_only r = (case r of Inl e \<Rightarrow> e = invalid_response | Inr _ \<Rightarrow> True)"

lemma deep_only_simps [simp]: "deep_only (Inr x)" "deep_only (Inl invalid_response)"
  by (simp_all add: deep_only_def)

lemma deep_only_rbnd: "deep_only r \<Longrightarrow> (\<And>x. r = Inr x \<Longrightarrow> deep_only (f x)) \<Longrightarrow> deep_only (rbnd r f)"
  by (cases r) (simp_all add: deep_only_def rbnd_def)

lemma sanitize_deep: "deep_only (sanitize n v)" "deep_only (sanitize_items n vs)" "deep_only (sanitize_pairs n d)"
proof (induction n v and n vs and n d rule: sanitize_sanitize_items_sanitize_pairs.induct)
  case (1 n v)
  then show ?case by (cases v) (auto intro: deep_only_rbnd)
qed (auto intro!: deep_only_rbnd)

lemma sanitize_plain: "sanitize n v = Inl e \<Longrightarrow> \<not> fails_audit e"
  using sanitize_deep(1) [of n v] by (simp add: deep_only_def)

lemma op_send_plain: "runs (op_send c o' vs) (\<lambda>r es. \<forall>e. r = Inl e \<longrightarrow> \<not> fails_audit e)"
  unfolding op_send_def by (intro runs_if get_plain post_plain)

lemma op_state_plain: "runs (op_state c o') (\<lambda>r es. \<forall>e. r = Inl e \<longrightarrow> \<not> fails_audit e)"
proof (cases "op_verify o'")
  case None
  then show ?thesis by (simp add: op_state_def)
next
  case (Some pe)
  obtain path expected where pe: "pe = (path, expected)" by (cases pe) auto
  show ?thesis
    unfolding op_state_def Some pe option.case prod.case
    by (rule runs_bnd [OF get_plain]) (auto simp: fails_audit_def split: option.split json.split)
qed

section \<open>The whole operation\<close>

text \<open>What a result rests on: the request was answered, the state read back, the line written.\<close>

definition op_succeeded :: "client \<Rightarrow> string \<Rightarrow> operation \<Rightarrow> json \<Rightarrow> obj \<Rightarrow> obj \<Rightarrow> trace \<Rightarrow> bool" where
  "op_succeeded c actor o' values vs v es = (\<exists>xs ys zs response verified state shown. es = xs @ ys @ zs \<and>
     targets xs = op_targets c o' vs \<and> check_response o' response = Inr () \<and>
     state_read c o' verified state ys \<and> (verified = (op_verify o' \<noteq> None)) \<and>
     sanitize 0 response = Inr shown \<and> v = op_result o' verified state shown \<and>
     (if op_method o' = POST then \<exists>a. zs = [AuditEv a None] \<and> op_entry c actor o' values ''ok''
        (if verified then detail_verified else detail_received) a else zs = []))"

text \<open>A failure after a request was sent says so, unless it was refused, and its line was written or it says not.\<close>

definition op_failed :: "client \<Rightarrow> string \<Rightarrow> operation \<Rightarrow> json \<Rightarrow> mgmt_error \<Rightarrow> trace \<Rightarrow> bool" where
  "op_failed c actor o' values m es = (op_method o' = POST \<longrightarrow>
     (me_partial m \<or> me_error m \<in> {''validation'', ''auth''}) \<and> ends_reported (op_entry c actor o' values) m es)"

definition op_ran :: "client \<Rightarrow> string \<Rightarrow> operation \<Rightarrow> json \<Rightarrow> obj \<Rightarrow> obj res \<Rightarrow> trace \<Rightarrow> bool" where
  "op_ran c actor o' values vs r es = (targets es = op_targets c o' vs \<and>
     (\<forall>v. r = Inr v \<longrightarrow> op_succeeded c actor o' values vs v es) \<and>
     (\<forall>m. r = Inl (MgmtErr m) \<longrightarrow> op_failed c actor o' values m es))"

text \<open>Before the failure is reported: an error of the log can only be that of the last line.\<close>

definition op_tried :: "client \<Rightarrow> string \<Rightarrow> operation \<Rightarrow> json \<Rightarrow> obj \<Rightarrow> obj res \<Rightarrow> trace \<Rightarrow> bool" where
  "op_tried c actor o' values vs r es = (targets es = op_targets c o' vs \<and>
     (\<forall>v. r = Inr v \<longrightarrow> op_succeeded c actor o' values vs v es) \<and>
     (\<forall>m. r = Inl (MgmtErr m) \<longrightarrow> me_audit_failure m \<longrightarrow> op_method o' = POST \<and> me_partial m \<and>
        ends_reported (op_entry c actor o' values) m es))"

lemma tried_plain:
  "targets es = op_targets c o' vs \<Longrightarrow> \<not> fails_audit e \<Longrightarrow> op_tried c actor o' values vs (Inl e) es"
  by (auto simp: op_tried_def fails_audit_def)

lemma op_line_done:
  assumes "sanitize 0 response = Inr shown" "check_response o' response = Inr ()"
    and xs: "targets xs = op_targets c o' vs" and ys: "targets ys = []" "state_read c o' verified state ys"
    and v: "verified = (op_verify o' \<noteq> None)"
  shows "runs (bnd (if op_method o' = POST
          then op_line c actor o' (hash_payload values) t0 True ''ok'' (if verified then detail_verified else detail_received)
          else ret ()) (\<lambda>_. ret (op_result o' verified state shown)))
     (\<lambda>r es. op_tried c actor o' values vs r (xs @ ys @ es))"
proof -
  let ?detail = "if verified then detail_verified else detail_received"
  have ok: "op_succeeded c actor o' values vs (op_result o' verified state shown) (xs @ ys @ zs)"
    if "if op_method o' = POST then \<exists>a. zs = [AuditEv a None] \<and> op_entry c actor o' values ''ok'' ?detail a else zs = []" for zs
    unfolding op_succeeded_def
    by (intro exI [of _ xs] exI [of _ ys] exI [of _ zs] exI [of _ response] exI [of _ verified] exI [of _ state]
        exI [of _ shown] conjI refl assms that)
  show ?thesis
  proof (cases "op_method o' = POST")
    case True
    show ?thesis
      unfolding if_P [OF True]
    proof (rule runs_conseq [OF op_log.final_line], elim exE conjE)
      fix r es a lg
      assume a: "es = [AuditEv a lg]" "op_entry c actor o' values ''ok'' ?detail a"
        "case lg of None \<Rightarrow> r = Inr (op_result o' verified state shown) | Some msg \<Rightarrow> r = Inl (audit_failed True)"
      show "op_tried c actor o' values vs r (xs @ ys @ es)"
      proof (cases lg)
        case None
        with a True ok [of es] xs ys show ?thesis by (auto simp: op_tried_def)
      next
        case (Some msg)
        have "ends_reported (op_entry c actor o' values) m (xs @ ys @ es)" if "me_audit_failure m" for m
          unfolding ends_reported_def
          by (intro exI [of _ "xs @ ys"] exI [of _ a] exI [of _ lg] exI conjI) (use a that in auto)
        with a(1,3) Some True xs ys show ?thesis by (auto simp: op_tried_def audit_failed_def)
      qed
    qed
  next
    case False
    with ok [of "[]"] xs ys show ?thesis by (simp add: op_tried_def bnd_def ret_def runs_def)
  qed
qed

lemma op_body_runs: "runs (op_body c actor o' vs (hash_payload values) t0) (op_tried c actor o' values vs)"
  unfolding op_body_def
proof (rule runs_bnd [OF runs_conj [OF op_send_runs op_send_plain]], goal_cases)
  case (1 e es)
  then show ?case by (simp add: tried_plain)
next
  case (2 response xs)
  then have xs: "targets xs = op_targets c o' vs" by simp
  show ?case
  proof (cases "check_response o' response")
    case (Inl e)
    then show ?thesis using xs by (auto intro: tried_plain dest: check_response_plain)
  next
    case checked: (Inr u)
    show ?thesis
      unfolding checked bnd_of_res
    proof (rule runs_bnd [OF runs_conj [OF op_state_runs op_state_plain]], goal_cases)
      case (1 e es)
      then show ?case using xs by (simp add: tried_plain)
    next
      case (2 st ys)
      obtain verified state where st: "st = (verified, state)" by (cases st) auto
      with 2 have ys: "targets ys = []" "state_read c o' verified state ys" "verified = (op_verify o' \<noteq> None)" by auto
      show ?case
      proof (cases "sanitize 0 response")
        case (Inl e)
        then show ?thesis using xs ys st by (auto intro: tried_plain dest: sanitize_plain)
      next
        case (Inr shown)
        from op_line_done [OF Inr _ xs ys(1,2,3)] checked show ?thesis by (simp add: st Inr)
      qed
    qed
  qed
qed

lemma op_on_error_runs:
  assumes "op_tried c actor o' values vs (Inl e) es" "is_mgmt e"
  shows "runs (op_on_error c actor o' (hash_payload values) t0 e) (\<lambda>r es'. op_ran c actor o' values vs r (es @ es'))"
proof -
  obtain m where e: "e = MgmtErr m" using assms(2) by (cases e) auto
  have t: "targets es = op_targets c o' vs" using assms(1) by (simp add: op_tried_def)
  show ?thesis
  proof (cases "op_method o' = POST")
    case True
    have tail: "me_audit_failure m \<Longrightarrow> ends_reported (op_entry c actor o' values) m es"
      using assms(1) e by (simp add: op_tried_def)
    show ?thesis
      unfolding op_on_error_def e exn.case Let_def
      by (simp only: True simp_thms if_True, rule op_log.settled [OF tail])
        (use t True in \<open>auto simp: op_ran_def op_failed_def\<close>)
  next
    case False
    then show ?thesis
      unfolding op_on_error_def e exn.case Let_def using t by (simp add: op_ran_def op_failed_def)
  qed
qed

text \<open>A run of a known operation with accepted values.\<close>

definition op_shape :: "client \<Rightarrow> string \<Rightarrow> operation \<Rightarrow> json \<Rightarrow> obj \<Rightarrow> obj res \<Rightarrow> trace \<Rightarrow> bool" where
  "op_shape c actor o' values vs r es =
     (if op_method o' = POST then \<exists>a lg rest. es = AuditEv a lg # rest \<and>
        op_entry c actor o' values ''attempt'' detail_attempt a \<and>
        (case lg of None \<Rightarrow> op_ran c actor o' values vs r rest | Some msg \<Rightarrow> rest = [] \<and> r = Inl (audit_failed False))
      else op_ran c actor o' values vs r es)"

lemma op_tried_ran:
  "op_tried c actor o' values vs (Inr v) es \<Longrightarrow> op_ran c actor o' values vs (Inr v) es"
  "op_tried c actor o' values vs (Inl e) es \<Longrightarrow> \<not> is_mgmt e \<Longrightarrow> op_ran c actor o' values vs (Inl e) es"
  by (auto simp: op_tried_def op_ran_def)

lemma execute_operation_runs:
  assumes "operation_of operation = Some o'" "op_values o' values = Inr vs"
  shows "runs (execute_operation c actor operation values) (op_shape c actor o' values vs)"
proof -
  let ?body = "\<lambda>t0. try_else (op_body c actor o' vs (hash_payload values) t0) is_mgmt
    (op_on_error c actor o' (hash_payload values) t0) ret"
  have body: "runs (?body t0) (op_ran c actor o' values vs)" for t0
    by (rule runs_try_else [OF op_body_runs]) (auto intro: op_tried_ran op_on_error_runs)
  show ?thesis
    unfolding execute_operation_def assms option.case bnd_of_res Let_def
  proof (rule runs_bnd [OF runs_now_ms [where Q = "\<lambda>r es. es = [] \<and> (\<exists>t. r = Inr t)"]], goal_cases)
    case (3 t0 es0)
    then have es0: "es0 = []" by simp
    show ?case
      unfolding es0 append_Nil
    proof (cases "op_method o' = POST")
      case True
      show "runs (bnd (if op_method o' = POST
            then op_line c actor o' (hash_payload values) t0 False ''attempt'' detail_attempt else ret ()) (\<lambda>_. ?body t0))
          (op_shape c actor o' values vs)"
        unfolding if_P [OF True]
        by (rule runs_conseq [OF op_log.after_line [OF body]]) (simp add: op_shape_def True)
    next
      case False
      have "bnd (ret ()) (\<lambda>_. ?body t0) = ?body t0" by (simp add: bnd_def ret_def)
      with False show "runs (bnd (if op_method o' = POST
            then op_line c actor o' (hash_payload values) t0 False ''attempt'' detail_attempt else ret ()) (\<lambda>_. ?body t0))
          (op_shape c actor o' values vs)"
        by (simp only: if_False simp_thms) (rule runs_conseq [OF body], simp add: op_shape_def False)
    qed
  qed simp_all
qed

section \<open>An audited mutation\<close>

definition operation_line :: "client \<Rightarrow> string \<Rightarrow> json \<Rightarrow> json \<Rightarrow> audit_entry \<Rightarrow> bool" where
  "operation_line c actor operation values a = (case operation_of operation of
      None \<Rightarrow> False | Some o' \<Rightarrow> op_entry c actor o' values ''attempt'' detail_attempt a)"

definition operation_plan :: "client \<Rightarrow> json \<Rightarrow> json \<Rightarrow> target list" where
  "operation_plan c operation values = (case operation_of operation of None \<Rightarrow> [] | Some o' \<Rightarrow>
     (case op_values o' values of Inl _ \<Rightarrow> [] | Inr vs \<Rightarrow> op_targets c o' vs))"

lemma op_shape_disciplined:
  "op_shape c actor o' values vs r es \<Longrightarrow>
   audited (op_entry c actor o' values ''attempt'' detail_attempt) es \<and> prefix (targets es) (op_targets c o' vs)"
  by (auto simp: op_shape_def op_ran_def op_targets_def silent_targets [symmetric] audited_silent split: if_splits option.splits)

interpretation device: audited_mutation "execute_operation c actor operation vs0"
  "operation_line c actor operation vs0" "operation_plan c operation vs0" for c actor operation vs0
proof
  show "runs (execute_operation c actor operation vs0) (\<lambda>r es.
      audited (operation_line c actor operation vs0) es \<and> prefix (targets es) (operation_plan c operation vs0))"
  proof (cases "operation_of operation")
    case None
    then show ?thesis by (simp add: execute_operation_def)
  next
    case (Some o')
    show ?thesis
    proof (cases "op_values o' vs0")
      case (Inl e)
      with Some show ?thesis by (simp add: execute_operation_def)
    next
      case (Inr vs)
      have eqs: "operation_line c actor operation vs0 = op_entry c actor o' vs0 ''attempt'' detail_attempt"
        "operation_plan c operation vs0 = op_targets c o' vs"
        by (auto simp: operation_line_def operation_plan_def Some Inr)
      show ?thesis
        unfolding eqs by (rule runs_conseq [OF execute_operation_runs [OF Some Inr] op_shape_disciplined])
    qed
  qed
qed

end
