(* ===== verification/Operations_Props.thy ===== *)
theory Operations_Props
  imports Operations_Facts Demo
begin

text \<open>
  The properties of the device operations, \<^verbatim>\<open>src/management/operations.py\<close>.
\<close>

section \<open>The protocol\<close>

text \<open>C31: every trace of a device operation is accepted by the state machine of a reserved operation:
  nothing is sent before the line of the attempt, and at most one request that is no GET, to the path of
  the table.\<close>

theorem operation_accepted:
  "runs (execute_operation c actor operation vals)
     (\<lambda>r es. \<exists>ph. steps (operation_line c actor operation vals) (operation_plan c operation vals) Idle es ph)"
  by (rule device.accepted)

lemma succeeded_reported:
  assumes "op_ran c actor o' vals vs (Inr v) rest" and "op_method o' = POST"
  shows "\<exists>es b verified state shown. AuditEv a None # rest = es @ [AuditEv b None] \<and>
    targets es = [(c_host c, url_path (op_url o' vs))] \<and> ae_user b = actor \<and> ae_result b = ''ok'' \<and>
    v = op_result o' verified state shown \<and> (verified \<longrightarrow> (\<exists>before after. es = before @ after \<and> state_read c o' True state after))"
proof -
  from assms have "op_succeeded c actor o' vals vs v rest" by (simp add: op_ran_def)
  then obtain xs ys response verified state shown b where s: "rest = xs @ ys @ [AuditEv b None]"
      "targets xs = op_targets c o' vs" "state_read c o' verified state ys" "v = op_result o' verified state shown"
      "ae_user b = actor" "ae_result b = ''ok''"
    using assms(2) by (auto simp: op_succeeded_def op_entry_def entry_of_def)
  have "targets rest = op_targets c o' vs" using assms(1) by (simp add: op_ran_def)
  with s(1) have "targets (AuditEv a None # xs @ ys) = [(c_host c, url_path (op_url o' vs))]"
    using assms(2) by (simp add: op_targets_def)
  moreover have "verified \<longrightarrow> (\<exists>before after. AuditEv a None # xs @ ys = before @ after \<and> state_read c o' True state after)"
    using s(3) by (intro impI exI [of _ "AuditEv a None # xs"] exI [of _ ys]) simp
  moreover have "AuditEv a None # rest = (AuditEv a None # xs @ ys) @ [AuditEv b None]" using s(1) by simp
  ultimately show ?thesis using s(4-6) by blast
qed

lemma failed_reported:
  assumes "op_ran c actor o' vals vs (Inl (MgmtErr m)) rest" and "op_method o' = POST"
  shows "me_partial m \<or> me_error m \<in> {''validation'', ''auth''}"
    and "\<exists>es b lg. AuditEv a None # rest = es @ [AuditEv b lg] \<and> ae_user b = actor \<and> (lg \<noteq> None \<longrightarrow> me_audit_failure m)"
proof -
  from assms have f: "op_failed c actor o' vals m rest" by (simp add: op_ran_def)
  then show "me_partial m \<or> me_error m \<in> {''validation'', ''auth''}" using assms(2) by (simp add: op_failed_def)
  from f obtain xs b lg where "rest = xs @ [AuditEv b lg]" "ae_user b = actor" "lg \<noteq> None \<longrightarrow> me_audit_failure m"
    using assms(2) by (auto simp: op_failed_def ends_reported_def op_entry_def entry_of_def)
  then show "\<exists>es b lg. AuditEv a None # rest = es @ [AuditEv b lg] \<and> ae_user b = actor \<and> (lg \<noteq> None \<longrightarrow> me_audit_failure m)"
    by (intro exI [of _ "AuditEv a None # xs"] exI [of _ b] exI [of _ lg]) simp
qed


definition stop_tunnel :: operation where
  "stop_tunnel = service_action ''wireguard'' ''WireGuard'' ''stop'' ''Detener''"

definition tunnel_reply :: json where
  "tunnel_reply = JObj [(''response'', JStr ''OK'')]"

definition stopped_env :: env where
  "stopped_env = demo_env (\<lambda>p. answer tunnel_reply) (\<lambda>p. Some (JObj [(''status'', JStr ''stopped'')])) None"

lemma demo_stop:
  "operation_of (JStr ''wireguard_stop'') = Some stop_tunnel" "op_values stop_tunnel (JObj []) = Inr []"
  "op_method stop_tunnel = POST" "op_url stop_tunnel [] = ''/api/wireguard/service/stop''"
  "op_payload stop_tunnel [] = []" "op_id stop_tunnel = ''wireguard_stop''"
  "op_verify stop_tunnel = Some (''/api/wireguard/service/status'', [''stopped'', ''disabled''])"
  "check_response stop_tunnel tunnel_reply = Inr ()" "sanitize 0 tunnel_reply = Inr tunnel_reply"
  by (code_simp, code_simp, code_simp, code_simp, code_simp, code_simp, code_simp, code_simp, code_simp)

lemma demo_stopped: "\<exists>tr. execute_operation demo_client ''op'' (JStr ''wireguard_stop'') (JObj []) stopped_env [] =
  (Inr (op_result stop_tunnel True (JStr ''stopped'') tunnel_reply), tr)"
  by (simp add: run_simps execute_operation_def op_line_def audit_now_def entry_now_def op_body_def op_send_def
      op_state_def call_def url_path_def stopped_env_def demo_stop Let_def)


section \<open>Where requests go\<close>

text \<open>A path of the table, or one followed by a single plain segment.\<close>

definition plain_segment :: "string \<Rightarrow> bool" where
  "plain_segment s = (s \<noteq> [] \<and> is_alnum (hd s) \<and> list_all (\<lambda>c. unreserved c \<or> c = CHR ''%'') s)"

definition op_route :: "operation \<Rightarrow> string \<Rightarrow> bool" where
  "op_route o' p = (p = op_api o' \<or> (\<exists>s. p = op_api o' @ ''/'' @ s \<and> plain_segment s))"

definition op_event :: "client \<Rightarrow> operation \<Rightarrow> event \<Rightarrow> bool" where
  "op_event c o' e = (case e of
      HttpEv h m p ps b out \<Rightarrow> h = c_host c \<and>
        (m = op_method o' \<and> op_route o' p \<or> m = GET \<and> (\<exists>expected. op_verify o' = Some (p, expected)))
    | _ \<Rightarrow> True)"

definition table_ok :: "operation \<Rightarrow> bool" where
  "table_ok o' = (starts_with ''/api/'' (op_api o') \<and>
     (case op_verify o' of None \<Rightarrow> True | Some (p, _) \<Rightarrow> starts_with ''/api/'' p) \<and>
     (case op_segment o' of None \<Rightarrow> True | Some seg \<Rightarrow> (case op_fields o' of
         [f] \<Rightarrow> of_name f = seg \<and> of_required f \<and> (of_kind f = ''uuid'' \<or> of_kind f = ''identifier'')
       | _ \<Rightarrow> False)))"

lemma operations_ok: "list_all table_ok operations"
  by code_simp

lemma hex_upper_alnum: "d < 16 \<Longrightarrow> is_alnum (hex_upper d)"
proof -
  have "code (CHR ''0'') = 48" "code (CHR ''9'') = 57" "code (CHR ''A'') = 65" "code (CHR ''Z'') = 90"
    by (simp_all add: code_def)
  then show "d < 16 \<Longrightarrow> is_alnum (hex_upper d)"
    by (auto simp: hex_upper_def is_alnum_def is_alpha_def is_upper_def is_digit_def in_range_def)
qed

lemma quote_chars: "list_all (\<lambda>c. unreserved c \<or> c = CHR ''%'') (quote_path s)"
proof -
  have "list_all (\<lambda>d. unreserved d \<or> d = CHR ''%'') (quote_char c)" for c
  proof -
    have "code c div 16 < 16" using code_less [of c] by (simp add: div_less_iff_less_mult)
    then show ?thesis by (auto simp: quote_char_def unreserved_def hex_upper_alnum)
  qed
  then show ?thesis by (induction s) (auto simp: quote_path_def)
qed

lemma quote_plain: "s \<noteq> [] \<Longrightarrow> is_alnum (hd s) \<Longrightarrow> plain_segment (quote_path s)"
  using quote_chars [of s]
  by (cases s) (auto simp: plain_segment_def quote_path_def quote_char_def unreserved_def)

lemma alnum_of_hex: "is_hex_lower (lower_char c) \<Longrightarrow> is_alnum c"
  by (auto simp: is_hex_lower_def lower_char_def is_alnum_def is_alpha_def is_digit_def is_upper_def in_range_def
      code_def split: if_splits)

lemma uuid_head:
  assumes "canonical_uuid (lower s)" shows "s \<noteq> [] \<and> is_alnum (hd s)"
proof -
  obtain g gs where g: "split_on (CHR ''-'') (lower s) = g # gs" "length g = 8" "list_all is_hex_lower g"
    using assms by (auto simp: canonical_uuid_def Cons_eq_map_conv map_eq_Cons_conv)
  obtain x xs where x: "g = x # xs" using g(2) by (cases g) auto
  have "join ''-'' (g # gs) = lower s" using join_split_on [of "CHR ''-''" "lower s"] g(1) by simp
  moreover have "\<exists>ys. join ''-'' ((x # xs) # gs) = x # ys" by (cases gs) auto
  ultimately have "lower s \<noteq> []" "hd (lower s) = x" using x by auto
  moreover from g x have "is_hex_lower x" by auto
  ultimately show ?thesis by (cases s) (auto simp: lower_def intro: alnum_of_hex)
qed

lemma identifier_head: "identifier_text s \<Longrightarrow> s \<noteq> [] \<and> is_alnum (hd s)"
  by (cases s) (auto simp: identifier_text_def)

lemma op_url_route:
  assumes "table_ok o'" "op_values o' vals = Inr vs" shows "op_route o' (op_url o' vs)"
proof (cases "op_segment o'")
  case (Some seg)
  with assms(1) obtain f where f: "op_fields o' = [f]" "of_name f = seg" "of_required f"
      "of_kind f = ''uuid'' \<or> of_kind f = ''identifier''"
    by (auto simp: table_ok_def split: list.splits)
  obtain d where "op_collect [f] d = Inr vs"
    using assms(2) f(1) by (auto simp: op_values_def split: json.splits if_splits)
  with f(2-4) obtain s where s: "vs = [(seg, JStr s)]" "op_text_ok f s"
    by (auto simp: op_value_def rbnd_def Let_def split: if_splits sum.splits json.splits)
  then have "s \<noteq> [] \<and> is_alnum (hd s)"
    using f(4) uuid_head [of s] identifier_head [of s] by (auto simp: op_text_ok_def)
  then show ?thesis
    by (auto simp: op_route_def op_url_def Some s(1) dget_or_def intro: quote_plain)
qed (simp add: op_route_def op_url_def)

lemma route_path: "table_ok o' \<Longrightarrow> op_route o' p \<Longrightarrow> url_path p = p"
  by (auto simp: table_ok_def op_route_def url_path_def elim!: starts_with.elims)

section \<open>Events\<close>

definition emits :: "(event \<Rightarrow> bool) \<Rightarrow> 'a io \<Rightarrow> bool" where
  "emits P m = runs m (\<lambda>r es. list_all P es)"

named_theorems emits_intros

lemma emits_bnd [emits_intros]: "emits P m \<Longrightarrow> (\<And>x. emits P (f x)) \<Longrightarrow> emits P (bnd m f)"
  unfolding emits_def by (rule runs_bnd, assumption) (simp, erule meta_allE, erule runs_conseq, simp)

lemma emits_try_else [emits_intros]:
  "emits P m \<Longrightarrow> (\<And>e. emits P (h e)) \<Longrightarrow> (\<And>x. emits P (f x)) \<Longrightarrow> emits P (try_else m p h f)"
  unfolding emits_def by (rule runs_try_else, assumption) (simp, (erule meta_allE, erule runs_conseq, simp)+)

lemma emits_simps [simp, emits_intros]:
  "emits P (ret x)" "emits P (raise e)" "emits P (of_res r)" "emits P now_ms"
  by (auto simp: emits_def intro: runs_now_ms)

lemma emits_if [emits_intros]: "(b \<Longrightarrow> emits P m) \<Longrightarrow> (\<not> b \<Longrightarrow> emits P m') \<Longrightarrow> emits P (if b then m else m')"
  by simp

lemma emits_audit_now:
  "(\<And>a lg. P (AuditEv a lg)) \<Longrightarrow> emits P (audit_now usr act target hst rslt dur detail sha)"
  unfolding emits_def by (rule runs_audit_now) auto

lemma emits_get:
  assumes "\<And>e. get_event c p ps e \<Longrightarrow> P e" shows "emits P (call (client_get c p ps))"
proof -
  have "emits P (client_get c p ps)"
    unfolding emits_def by (rule runs_client_get) (auto simp: list_all_iff intro: assms)
  then show ?thesis unfolding call_def by (intro emits_intros)
qed

lemma emits_post:
  assumes "\<And>out. P (posted c p d out)" shows "emits P (call (client_post c p d))"
proof -
  have "emits P (client_post c p d)" unfolding emits_def by (rule runs_client_post) (simp add: assms)
  then show ?thesis unfolding call_def by (intro emits_intros)
qed

lemma op_event_audit [simp]: "op_event c o' (AuditEv a lg)" "op_event c o' (SleepEv d)"
  by (simp_all add: op_event_def)

lemma emits_op_line: "emits (op_event c o') (op_line c' actor o'' sha t0 b rslt detail)"
  unfolding op_line_def by (intro emits_intros emits_audit_now) simp_all

lemma emits_op_send:
  assumes "table_ok o'" "op_values o' vals = Inr vs" shows "emits (op_event c o') (op_send c o' vs)"
proof -
  note r = op_url_route [OF assms]
  have p: "url_path (op_url o' vs) = op_url o' vs" by (rule route_path [OF assms(1) r])
  have g: "op_method o' = GET \<Longrightarrow> get_event c (op_url o' vs) ps e \<Longrightarrow> op_event c o' e" for e ps
    using r p by (auto simp: get_event_def op_event_def split: event.splits)
  have m: "op_method o' \<noteq> POST \<Longrightarrow> op_method o' = GET" by (cases "op_method o'") auto
  show ?thesis
    unfolding op_send_def
    by (intro emits_if emits_get emits_post) (use r p g m in \<open>auto simp: op_event_def posted_def\<close>)
qed

lemma emits_op_state:
  assumes "table_ok o'" shows "emits (op_event c o') (op_state c o')"
proof (cases "op_verify o'")
  case (Some pe)
  obtain path expected where pe: "pe = (path, expected)" by (cases pe) auto
  have "url_path path = path" using assms Some pe by (auto simp: table_ok_def url_path_def elim!: starts_with.elims)
  with Some pe have "get_event c path [] e \<Longrightarrow> op_event c o' e" for e
    by (auto simp: get_event_def op_event_def split: event.splits)
  then show ?thesis
    unfolding op_state_def Some pe option.case prod.case
    by (intro emits_bnd emits_get) (auto split: option.split json.split)
qed (simp add: op_state_def)

lemma emits_on_error: "emits (op_event c o') (op_on_error c actor o' sha t0 e)"
  by (cases e) (auto simp: op_on_error_def Let_def intro!: emits_intros emits_op_line)

text \<open>C33: whatever the caller asks for, requests go to the node of the client and to a path of the table, by
  its method, followed at most by one plain path segment; or they read the status the table names.\<close>

theorem operation_confined:
  "runs (execute_operation c actor operation vals) (\<lambda>r es. list_all (\<lambda>e. case e of
       HttpEv h m p ps b out \<Rightarrow> h = c_host c \<and> (\<exists>o' \<in> set operations. operation = JStr (op_id o') \<and>
         (m = op_method o' \<and> op_route o' p \<or> m = GET \<and> (\<exists>expected. op_verify o' = Some (p, expected))))
     | _ \<Rightarrow> True) es)"
proof (cases "operation_of operation")
  case None
  then show ?thesis by (simp add: execute_operation_def)
next
  case (Some o')
  then have o': "o' \<in> set operations" "operation = JStr (op_id o')"
    by (auto simp: operation_of_def find_Some_iff split: json.splits)
  then have t: "table_ok o'" using operations_ok by (simp add: list_all_iff)
  show ?thesis
  proof (cases "op_values o' vals")
    case (Inl e)
    then show ?thesis by (simp add: execute_operation_def Some)
  next
    case (Inr vs)
    have "emits (op_event c o') (execute_operation c actor operation vals)"
      unfolding execute_operation_def Some option.case Inr bnd_of_res op_body_def Let_def
      by (intro emits_intros emits_op_line emits_on_error emits_op_send [OF t Inr] emits_op_state [OF t])
        (auto split: prod.split intro!: emits_intros emits_op_line)
    then show ?thesis
      unfolding emits_def by (rule runs_conseq) (use o' in \<open>fastforce simp: list_all_iff op_event_def split: event.splits\<close>)
  qed
qed

section \<open>What is shown\<close>

text \<open>No secret key at any depth, no private key and no login in a URL in any text.\<close>

fun clean :: "json \<Rightarrow> bool" where
  "clean (JObj d) = list_all (\<lambda>(k, v). \<not> secret_key k \<and> clean v) d"
| "clean (JArr vs) = list_all clean vs"
| "clean (JStr s) = (\<not> leaks s)"
| "clean _ = True"

lemma redacted_clean: "\<not> leaks ''[redacted]''"
  by code_simp

lemma sanitize_clean:
  "sanitize n v = Inr w \<Longrightarrow> clean w" "sanitize_items n vs = Inr ws \<Longrightarrow> list_all clean ws"
  "sanitize_pairs n d = Inr d' \<Longrightarrow> list_all (\<lambda>(k, v). \<not> secret_key k \<and> clean v) d'"
proof (induction n v and n vs and n d arbitrary: w and ws and d' rule: sanitize_sanitize_items_sanitize_pairs.induct)
  case (1 n v)
  then show ?case by (cases v) (auto simp: rbnd_def redacted_clean split: if_splits sum.splits)
qed (auto simp: rbnd_def split: if_splits sum.splits)

lemma sanitize_again:
  "sanitize n v = Inr w \<Longrightarrow> sanitize n w = Inr w" "sanitize_items n vs = Inr ws \<Longrightarrow> sanitize_items n ws = Inr ws"
  "sanitize_pairs n d = Inr d' \<Longrightarrow> sanitize_pairs n d' = Inr d'"
proof (induction n v and n vs and n d arbitrary: w and ws and d' rule: sanitize_sanitize_items_sanitize_pairs.induct)
  case (1 n v)
  then show ?case by (cases v) (auto simp: rbnd_def redacted_clean split: if_splits sum.splits)
qed (auto simp: rbnd_def split: if_splits sum.splits)



end
