(* ===== verification/Crl.thy ===== *)
theory Crl
  imports Catalog Operations
begin

text \<open>
  Certificate revocation lists, \<^verbatim>\<open>src/management/crl.py\<close>: the list, the detail and \<^verbatim>\<open>mutate\<close> of the CRL
  of a CA. Parsing an imported CRL (\<^verbatim>\<open>x509.load_pem_x509_crl\<close>) is the parameter \<open>pem\<close>: whether the
  cryptography package accepts the text.
\<close>

section \<open>The resource\<close>

definition reason_names :: "string list" where
  "reason_names = map (\<lambda>i. ''revoked_reason_'' @ int_str (int i)) [0..<7]"

definition reason_labels :: "string list" where
  "reason_labels = [''Sin especificar'', ''Clave comprometida'', ''CA comprometida'', (''Cambio de afiliaci'' @ [CHR 0xC3, CHR 0xB3] @ ''n''),
     ''Sustituido'', ''Cese de operaciones'', ''Certificado suspendido'']"

definition crl_fields :: "field list" where
  "crl_fields = [(fld ''caref'' ''Referencia CA'' ''text'' False)\<lparr>fd_readonly := True\<rparr>,
     fld ''descr'' (''Descripci'' @ [CHR 0xC3, CHR 0xB3] @ ''n'') ''text'' True,
     (fld ''crlmethod'' (''M'' @ [CHR 0xC3, CHR 0xA9] @ ''todo'') ''select'' True)\<lparr>fd_options := [(''internal'', ''Generar internamente''), (''existing'', ''Importar CRL PEM'')]\<rparr>,
     (fld ''serial'' (''N'' @ [CHR 0xC3, CHR 0xBA] @ ''mero de CRL'') ''integer'' False)\<lparr>fd_readonly := True\<rparr>,
     (fld ''lifetime'' (''Vigencia en d'' @ [CHR 0xC3, CHR 0xAD] @ ''as'') ''integer'' True)\<lparr>fd_min := Some 1, fd_max := Some 36500\<rparr>,
     fld ''text'' ''CRL PEM'' ''text'' False] @
     map (\<lambda>(name, label). (fld name label ''select'' False)\<lparr>fd_multiple := True\<rparr>) (zip reason_names reason_labels)"

definition crl_base :: string where
  "crl_base = ''/api/trust/crl/''"

definition refid :: "json \<Rightarrow> string res" where
  "refid v = (case v of JStr s \<Rightarrow> if length s = 13 \<and> list_all is_hex_lower s then Inr s else Inl bad_request
     | _ \<Rightarrow> Inl bad_request)"

text \<open>An error of a check becomes \<^verbatim>\<open>invalid_response\<close> when it concerns what the firewall sent.\<close>

definition received :: "'a res \<Rightarrow> 'a res" where
  "received r = (case r of Inl _ \<Rightarrow> Inl invalid_response | Inr x \<Rightarrow> Inr x)"

definition crl_marked :: "json \<Rightarrow> bool" where
  "crl_marked v = (py_eq v (JStr ''1'') \<or> py_eq v (JInt 1))"

definition crl_selected :: "json \<Rightarrow> string res" where
  "crl_selected v = (case v of
      JArr [] \<Rightarrow> Inr []
    | JObj d \<Rightarrow> Inr (join '','' (map fst (filter (\<lambda>(k, x). is_obj x \<and> crl_marked (dget_or x ''selected'' JNull)) d)))
    | JStr s \<Rightarrow> Inr s
    | _ \<Rightarrow> Inl invalid_response)"

section \<open>Listing\<close>

definition crl_row :: "json \<Rightarrow> obj res" where
  "crl_row row = (case row of
      JObj d \<Rightarrow> rbnd (received (refid (dget_or row ''refid'' JNull))) (\<lambda>u.
        Inr ([(''uuid'', JStr u), (''refid'', JStr u)] @
          concat (map (\<lambda>k. case map_of d k of Some (JStr s) \<Rightarrow> [(k, JStr s)] | _ \<Rightarrow> []) [''descr'', ''crl_descr''])))
    | _ \<Rightarrow> Inl invalid_response)"

fun crl_rows :: "json list \<Rightarrow> obj list res" where
  "crl_rows [] = Inr []"
| "crl_rows (v # vs) = rbnd (crl_row v) (\<lambda>x. rbnd (crl_rows vs) (\<lambda>xs. Inr (x # xs)))"

text \<open>\<^verbatim>\<open>int(v)\<close> after \<^verbatim>\<open>str(v).isdigit()\<close>.\<close>

definition digits_int :: "json \<Rightarrow> int res" where
  "digits_int v = (if \<not> isdigit (py_str v) then Inl invalid_response
     else if length (py_str v) > 4300 then Inl (ValueErr ''Exceeds the limit (4300 digits) for integer string conversion'')
     else Inr (dec_val 0 (py_str v)))"

definition crl_total :: "json \<Rightarrow> nat \<Rightarrow> int res" where
  "crl_total v n = (case v of JBool _ \<Rightarrow> Inl invalid_response
     | _ \<Rightarrow> rbnd (digits_int v) (\<lambda>t. if t < int n then Inl invalid_response else Inr t))"

definition crl_listing :: "int \<Rightarrow> int \<Rightarrow> json \<Rightarrow> listing res" where
  "crl_listing p n out = (case out of
      JObj d \<Rightarrow> (case map_of d ''rows'' of
          Some (JArr rows) \<Rightarrow> rbnd (crl_rows rows) (\<lambda>xs. rbnd (crl_total (dget_or out ''total'' JNull) (length xs)) (\<lambda>t.
            Inr \<lparr>ls_rows = xs, ls_total = t, ls_page = p, ls_row_count = n\<rparr>))
        | _ \<Rightarrow> Inl invalid_response)
    | _ \<Rightarrow> Inl invalid_response)"

definition crl_page_args :: "json \<Rightarrow> json \<Rightarrow> json \<Rightarrow> (int \<times> int \<times> string) res" where
  "crl_page_args page row_count phrase = (case (page, row_count, phrase) of
      (JInt p, JInt n, JStr s) \<Rightarrow>
        if 1 \<le> p \<and> p \<le> 100000 \<and> 1 \<le> n \<and> n \<le> 200 \<and> py_len s \<le> 256 then Inr (p, n, s) else Inl bad_request
    | _ \<Rightarrow> Inl bad_request)"

definition crl_list :: "service \<Rightarrow> json \<Rightarrow> json \<Rightarrow> json \<Rightarrow> listing io" where
  "crl_list s page row_count phrase = bnd (of_res (crl_page_args page row_count phrase)) (\<lambda>(p, n, t).
     bnd (call (client_get (sv_client s) (crl_base @ ''search'')
            [(''current'', JInt p), (''rowCount'', JInt n), (''searchPhrase'', JStr t)])) (\<lambda>out.
     of_res (crl_listing p n out)))"

section \<open>One CRL\<close>

definition text_at :: "obj \<Rightarrow> string \<Rightarrow> string" where
  "text_at d k = (case map_of d k of Some (JStr s) \<Rightarrow> s | _ \<Rightarrow> [])"

definition crl_text :: "json \<Rightarrow> string \<Rightarrow> string res" where
  "crl_text r k = (case dget_or r k (if k \<in> {''descr'', ''text''} then JStr [] else JNull) of
      JStr s \<Rightarrow> Inr s | _ \<Rightarrow> Inl invalid_response)"

fun crl_choices :: "obj \<Rightarrow> json list res" where
  "crl_choices [] = Inr []"
| "crl_choices ((ref, x) # d) = rbnd (received (refid (JStr ref))) (\<lambda>u.
     case dget x ''value'' of
       Some (JStr label) \<Rightarrow> rbnd (crl_choices d) (\<lambda>cs. Inr (JObj [(''value'', JStr u), (''label'', JStr label)] # cs))
     | _ \<Rightarrow> Inl invalid_response)"

fun crl_reasons :: "json \<Rightarrow> string list \<Rightarrow> (obj \<times> obj) res" where
  "crl_reasons r [] = Inr ([], [])"
| "crl_reasons r (k # ks) =
     (case (case dget_or r k JNull of JArr [] \<Rightarrow> JObj [] | v \<Rightarrow> v) of
        JObj d \<Rightarrow> rbnd (crl_choices d) (\<lambda>cs. rbnd (crl_selected (JObj d)) (\<lambda>s. rbnd (crl_reasons r ks) (\<lambda>(item, choices).
          Inr ((k, JStr s) # item, (k, JArr cs) # choices))))
      | _ \<Rightarrow> Inl invalid_response)"

definition crl_of :: "string \<Rightarrow> json \<Rightarrow> (obj \<times> obj) res" where
  "crl_of caref response =
     (let r = dget_or response ''crl'' JNull in
      if \<not> is_obj r \<or> dget r ''caref'' \<noteq> Some (JStr caref) then Inl invalid_response
      else rbnd (crl_text r ''descr'') (\<lambda>descr. rbnd (crl_text r ''serial'') (\<lambda>serial.
        rbnd (crl_text r ''lifetime'') (\<lambda>lifetime. rbnd (crl_text r ''text'') (\<lambda>t.
        if \<not> isdigit serial \<or> \<not> isdigit lifetime \<or> infix_of ''PRIVATE KEY'' t then Inl invalid_response
        else rbnd (crl_selected (dget_or r ''crlmethod'' JNull)) (\<lambda>method.
        if method \<notin> {''internal'', ''existing''} then Inl invalid_response
        else rbnd (crl_reasons r reason_names) (\<lambda>(reasons, choices).
          Inr ([(''caref'', JStr caref), (''descr'', JStr descr), (''serial'', JStr serial), (''lifetime'', JStr lifetime),
             (''text'', JStr t), (''crlmethod'', JStr method)] @ reasons, choices))))))))"

definition crl_raw :: "service \<Rightarrow> json \<Rightarrow> (obj \<times> obj) io" where
  "crl_raw s caref = bnd (of_res (refid caref)) (\<lambda>u.
     bnd (call (client_get (sv_client s) (crl_base @ ''get/'' @ u) [])) (\<lambda>response. of_res (crl_of u response)))"

definition crl_revision :: "obj \<Rightarrow> obj \<Rightarrow> string" where
  "crl_revision current choices = hash_payload (JArr [JObj current, JObj choices])"

record crl_detail =
  cd_item :: obj
  cd_fields :: "field list"
  cd_revision :: string
  cd_exists :: bool

definition choice_pair :: "json \<Rightarrow> string \<times> string" where
  "choice_pair c = (py_str (dget_or c ''value'' JNull), py_str (dget_or c ''label'' JNull))"

definition crl_detail_of :: "json \<Rightarrow> obj \<Rightarrow> obj \<Rightarrow> crl_detail" where
  "crl_detail_of caref current choices = \<lparr>cd_item = dput current ''uuid'' caref,
     cd_fields = map (\<lambda>f. case map_of choices (fd_name f) of
         Some (JArr cs) \<Rightarrow> f\<lparr>fd_options := map choice_pair cs\<rparr> | _ \<Rightarrow> f) crl_fields,
     cd_revision = crl_revision current choices, cd_exists = (text_at current ''descr'' \<noteq> [])\<rparr>"

definition crl_get :: "service \<Rightarrow> json \<Rightarrow> crl_detail io" where
  "crl_get s caref = bnd (crl_raw s caref) (\<lambda>(current, choices). ret (crl_detail_of caref current choices))"

section \<open>Validation\<close>

definition crl_writable :: "string list" where
  "crl_writable = map fd_name (filter (\<lambda>f. \<not> fd_readonly f) crl_fields)"

definition crl_lifetime :: "json \<Rightarrow> string res" where
  "crl_lifetime v = (case v of JBool _ \<Rightarrow> Inl bad_request
     | _ \<Rightarrow> if \<not> isdigit (py_str v) then Inl bad_request
         else rbnd (digits_int v) (\<lambda>n. if 1 \<le> n \<and> n \<le> 36500 then Inr (py_str v) else Inl bad_request))"

definition ref_list :: "json \<Rightarrow> json list res" where
  "ref_list v = (case v of
      JArr vs \<Rightarrow> if length vs > 5000 then Inl bad_request else Inr vs
    | JStr s \<Rightarrow> (let vs = (if s = [] then [] else map JStr (split_on (CHR '','') s)) in
        if length vs > 5000 then Inl bad_request else Inr vs)
    | _ \<Rightarrow> Inl bad_request)"

text \<open>The references of one reason: of the CA, and in no reason before.\<close>

fun check_refs :: "string set \<Rightarrow> json list \<Rightarrow> string set \<Rightarrow> (string list \<times> string set) res" where
  "check_refs permitted [] seen = Inr ([], seen)"
| "check_refs permitted (v # vs) seen = rbnd (refid v) (\<lambda>u.
     if u \<notin> permitted \<or> u \<in> seen then Inl bad_request
     else rbnd (check_refs permitted vs (insert u seen)) (\<lambda>(us, seen'). Inr (u # us, seen')))"

definition permitted_refs :: "obj \<Rightarrow> string \<Rightarrow> string set" where
  "permitted_refs choices k = (case map_of choices k of Some (JArr cs) \<Rightarrow> fst ` choice_pair ` set cs | _ \<Rightarrow> {})"

fun put_reasons :: "obj \<Rightarrow> string list \<Rightarrow> string set \<Rightarrow> obj \<Rightarrow> obj res" where
  "put_reasons choices [] seen payload = Inr payload"
| "put_reasons choices (k # ks) seen payload =
     rbnd (ref_list (dget_or (JObj payload) k JNull)) (\<lambda>vs.
     rbnd (check_refs (permitted_refs choices k) vs seen) (\<lambda>(us, seen').
     put_reasons choices ks seen' (dput payload k (JStr (join '','' us)))))"

definition crl_descr_ok :: "json \<Rightarrow> bool" where
  "crl_descr_ok v = (case v of JStr s \<Rightarrow> 1 \<le> py_len s \<and> py_len s \<le> 255 \<and> list_all (\<lambda>c. 32 \<le> code c) s | _ \<Rightarrow> False)"

definition crl_pem_ok :: "(string \<Rightarrow> bool) \<Rightarrow> json \<Rightarrow> bool" where
  "crl_pem_ok pem v = (case v of JStr s \<Rightarrow> py_len s \<le> 1024 * 1024 \<and> list_all (\<lambda>c. code c < 128) s \<and> pem s | _ \<Rightarrow> False)"

definition crl_validate :: "(string \<Rightarrow> bool) \<Rightarrow> json \<Rightarrow> obj \<Rightarrow> obj \<Rightarrow> obj res" where
  "crl_validate pem values current choices = (case values of
      JObj vs \<Rightarrow>
        if \<not> list_all (\<lambda>(k, v). k \<in> set crl_writable) vs then Inl bad_request
        else (let p = dputs current vs in
          if \<not> crl_descr_ok (dget_or (JObj p) ''descr'' JNull) then Inl bad_request
          else if dget_or (JObj p) ''crlmethod'' JNull \<notin> {JStr ''internal'', JStr ''existing''} then Inl bad_request
          else rbnd (crl_lifetime (dget_or (JObj p) ''lifetime'' JNull)) (\<lambda>lifetime.
            rbnd (put_reasons choices reason_names {} (dput p ''lifetime'' (JStr lifetime))) (\<lambda>p'.
            if dget_or (JObj p') ''crlmethod'' JNull = JStr ''existing'' then
              (if crl_pem_ok pem (dget_or (JObj p') ''text'' JNull) then Inr p' else Inl bad_request)
            else Inr (ddel p' ''text''))))
    | _ \<Rightarrow> Inl bad_request)"

section \<open>The mutation\<close>

datatype crl_action = CrlCreate | CrlUpdate | CrlDelete | CrlRevoke

definition crl_action_name :: "crl_action \<Rightarrow> string" where
  "crl_action_name a = (case a of CrlCreate \<Rightarrow> ''create'' | CrlUpdate \<Rightarrow> ''update'' | CrlDelete \<Rightarrow> ''delete'' | CrlRevoke \<Rightarrow> ''revoke'')"

definition crl_action_of :: "json \<Rightarrow> crl_action option" where
  "crl_action_of v = find (\<lambda>a. v = JStr (crl_action_name a)) [CrlCreate, CrlUpdate, CrlDelete, CrlRevoke]"

definition crl_revision_ok :: "json \<Rightarrow> string res" where
  "crl_revision_ok v = (case v of JStr s \<Rightarrow> if length s = 64 \<and> list_all is_hex_lower s then Inr s else Inl bad_request
     | _ \<Rightarrow> Inl bad_request)"

definition crl_request :: "service \<Rightarrow> json \<Rightarrow> (crl_action \<times> string \<times> string) res" where
  "crl_request s body =
     (if sv_peer s \<noteq> None then Inl (mgmt ''ha_unqualified'' 409)
      else if \<not> is_obj body then Inl bad_request
      else (case crl_action_of (dget_or body ''action'' JNull) of
          None \<Rightarrow> Inl bad_request
        | Some a \<Rightarrow> rbnd (refid (dget_or body ''uuid'' JNull)) (\<lambda>u.
            rbnd (crl_revision_ok (dget_or body ''revision'' JNull)) (\<lambda>rv. Inr (a, u, rv)))))"

text \<open>The values of a revocation: the certificate leaves every reason and joins the given one.\<close>

definition revoke_values :: "json \<Rightarrow> obj \<Rightarrow> json res" where
  "revoke_values values current = (case values of
      JObj vs \<Rightarrow>
        if set (map fst vs) \<noteq> {''certificate'', ''reason''} then Inl bad_request
        else rbnd (refid (dget_or values ''certificate'' JNull)) (\<lambda>cert.
          let reason = py_str (dget_or values ''reason'' JNull) in
          if reason \<notin> set (map (\<lambda>i. int_str (int i)) [0..<7]) \<or> text_at current ''crlmethod'' \<noteq> ''internal'' then Inl bad_request
          else Inr (JObj (map (\<lambda>k. (k, JArr (map JStr
            (filter (\<lambda>r. r \<noteq> [] \<and> r \<noteq> cert) (split_on (CHR '','') (text_at current k)) @
             (if k = ''revoked_reason_'' @ reason then [cert] else []))))) reason_names)))
    | _ \<Rightarrow> Inl bad_request)"

definition crl_payload :: "(string \<Rightarrow> bool) \<Rightarrow> crl_action \<Rightarrow> json \<Rightarrow> obj \<Rightarrow> obj \<Rightarrow> obj res" where
  "crl_payload pem a body current choices =
     (let values = dget_or body ''values'' (JObj []) in
      rbnd (if a = CrlRevoke then revoke_values values current else Inr values) (\<lambda>vs.
      if a = CrlDelete then Inr [] else crl_validate pem vs current choices))"

definition crl_line :: "service \<Rightarrow> crl_action \<Rightarrow> string \<Rightarrow> string \<Rightarrow> int \<Rightarrow> bool \<Rightarrow> string \<Rightarrow> unit io" where
  "crl_line s a caref sha t0 sent rslt =
     bnd now_ms (\<lambda>t. try_else
       (audit_now (sv_actor s) (''crl.'' @ crl_action_name a) caref (h_name (c_host (sv_client s))) rslt (t - t0) [] sha)
       is_os (\<lambda>_. raise (audit_failed sent)) (\<lambda>_. ret ()))"

definition crl_sent :: "crl_action \<Rightarrow> string \<Rightarrow> obj \<Rightarrow> string \<times> obj" where
  "crl_sent a caref payload = (if a = CrlDelete then (crl_base @ ''del/'' @ caref, [])
     else (crl_base @ ''set/'' @ caref, [(''crl'', JObj payload)]))"

definition crl_acknowledged :: "crl_action \<Rightarrow> json \<Rightarrow> unit res" where
  "crl_acknowledged a response =
     (if is_obj response \<and> truthy_opt (dget response ''validations'') then Inl (mgmt ''validation'' 422)
      else if dget response ''status'' \<noteq> Some (JStr (if a = CrlDelete then ''deleted'' else ''saved'')) then
        Inl (mgmt ''upstream'' 502)
      else Inr ())"

definition same_refs :: "string \<Rightarrow> string \<Rightarrow> bool" where
  "same_refs a b = (set (split_on (CHR '','') a) = set (split_on (CHR '','') b))"

text \<open>The readback; the serial has to be the next one.\<close>

definition crl_matches :: "crl_action \<Rightarrow> obj \<Rightarrow> obj \<Rightarrow> obj \<Rightarrow> bool res" where
  "crl_matches a payload current after =
     (if a = CrlDelete then
        Inr (text_at after ''descr'' = [] \<and> text_at after ''text'' = [] \<and> text_at after ''serial'' = ''0'')
      else if list_all (\<lambda>k. text_at after k = text_at payload k) [''descr'', ''lifetime'', ''crlmethod''] \<and>
        (if text_at payload ''crlmethod'' = ''internal''
         then list_all (\<lambda>k. same_refs (text_at after k) (text_at payload k)) reason_names
         else strip (text_at after ''text'') = strip (text_at payload ''text'')) then
        rbnd (digits_int (JStr (text_at after ''serial''))) (\<lambda>n.
        rbnd (digits_int (JStr (text_at current ''serial''))) (\<lambda>m. Inr (n = m + 1)))
      else Inr False)"

definition crl_done :: "string \<Rightarrow> obj" where
  "crl_done caref = [(''uuid'', JStr caref), (''caref'', JStr caref), (''config_saved'', JBool True), (''verified'', JBool True),
     (''applied'', JBool False), (''ha_verified'', JBool False), (''state'', JStr ''config_verified_trust_regeneration_pending'')]"

definition crl_commit ::
  "service \<Rightarrow> crl_action \<Rightarrow> string \<Rightarrow> obj \<Rightarrow> obj \<Rightarrow> string \<Rightarrow> int \<Rightarrow> obj io" where
  "crl_commit s a caref payload current sha t0 =
     bnd (call (client_post (sv_client s) (fst (crl_sent a caref payload)) (snd (crl_sent a caref payload)))) (\<lambda>response.
     bnd (of_res (crl_acknowledged a response)) (\<lambda>_.
     bnd (crl_raw s (JStr caref)) (\<lambda>(after, _).
     bnd (of_res (crl_matches a payload current after)) (\<lambda>same.
     if \<not> same then raise (mgmt ''verification'' 502)
     else bnd (crl_line s a caref sha t0 True ''ok'') (\<lambda>_. ret (crl_done caref))))))"

fun is_value_error :: "exn \<Rightarrow> bool" where
  "is_value_error (ValueErr _) = True"
| "is_value_error _ = False"

definition crl_on_error :: "service \<Rightarrow> crl_action \<Rightarrow> string \<Rightarrow> string \<Rightarrow> int \<Rightarrow> exn \<Rightarrow> 'a io" where
  "crl_on_error s a caref sha t0 e =
     (case (case e of ValueErr _ \<Rightarrow> invalid_response | _ \<Rightarrow> e) of
        MgmtErr m \<Rightarrow>
          (let m' = m\<lparr>me_partial := me_error m \<notin> {''validation'', ''auth''},
                      me_stage := (case me_stage m of None \<Rightarrow> Some ''crl_write'' | st \<Rightarrow> st)\<rparr>
           in if \<not> me_audit_failure m then
                try_else (crl_line s a caref sha t0 True ''error'') is_mgmt
                  (\<lambda>_. raise (MgmtErr (m'\<lparr>me_audit_failure := True\<rparr>))) (\<lambda>_. raise (MgmtErr m'))
              else raise (MgmtErr m'))
      | e' \<Rightarrow> raise e')"

definition crl_locked :: "(string \<Rightarrow> bool) \<Rightarrow> service \<Rightarrow> crl_action \<Rightarrow> json \<Rightarrow> string \<Rightarrow> string \<Rightarrow> int \<Rightarrow> obj io" where
  "crl_locked pem s a body caref revision t0 =
     bnd (crl_raw s (JStr caref)) (\<lambda>(current, choices).
     if crl_revision current choices \<noteq> revision then raise (mgmt ''conflict'' 409)
     else if (a = CrlCreate) = (text_at current ''descr'' \<noteq> []) then raise (mgmt ''conflict'' 409)
     else bnd (of_res (crl_payload pem a body current choices)) (\<lambda>payload.
       let sha = hash_payload (JObj payload) in
       bnd (crl_line s a caref sha t0 False ''attempt'') (\<lambda>_.
       try_else (crl_commit s a caref payload current sha t0) (\<lambda>e. is_mgmt e \<or> is_value_error e)
         (crl_on_error s a caref sha t0) ret)))"

definition crl_mutate :: "(string \<Rightarrow> bool) \<Rightarrow> service \<Rightarrow> json \<Rightarrow> obj io" where
  "crl_mutate pem s body = bnd (of_res (crl_request s body)) (\<lambda>(a, u, rv).
     bnd now_ms (\<lambda>t0. crl_locked pem s a body u rv t0))"

end
