(* ===== verification/Crl_Facts.thy ===== *)
theory Crl_Facts
  imports Crl Reporting
begin

text \<open>
  What one mutation of a CRL does. It is another \<open>audited_mutation\<close>, whose plan is its one request,
  and its lines come from a \<open>reporter\<close>.
\<close>

section \<open>Lines and requests\<close>

definition crl_entry :: "service \<Rightarrow> crl_action \<Rightarrow> string \<Rightarrow> obj \<Rightarrow> string \<Rightarrow> string \<Rightarrow> audit_entry \<Rightarrow> bool" where
  "crl_entry s act u payload rslt detail a = entry_of (sv_actor s) (''crl.'' @ crl_action_name act) u
     (h_name (c_host (sv_client s))) rslt [] (hash_payload (JObj payload)) a"

interpretation crl_log: reporter "\<lambda>sent rslt detail. crl_line s act u (hash_payload (JObj payload)) t0 sent rslt"
  "crl_entry s act u payload" for s act u payload t0
proof
  fix sent rslt detail
  show "runs (crl_line s act u (hash_payload (JObj payload)) t0 sent rslt)
      (line_added (crl_entry s act u payload) sent rslt detail)"
    unfolding crl_line_def
  proof (rule runs_bnd [OF runs_now_ms [where Q = "\<lambda>r es. es = [] \<and> (\<exists>t. r = Inr t)"]], goal_cases)
    case (3 t es)
    have "runs (try_else
         (audit_now (sv_actor s) (''crl.'' @ crl_action_name act) u (h_name (c_host (sv_client s))) rslt (t - t0) []
            (hash_payload (JObj payload)))
         is_os (\<lambda>_. raise (audit_failed sent)) (\<lambda>_. ret ())) (line_added (crl_entry s act u payload) sent rslt detail)"
      by (rule runs_try_else [OF runs_audit_now [where Q = "\<lambda>r es. \<exists>a lg. es = [AuditEv a lg] \<and>
            crl_entry s act u payload rslt detail a \<and> (case lg of None \<Rightarrow> r = Inr a | Some msg \<Rightarrow> r = Inl (OSErr msg))"]])
        (auto simp: crl_entry_def line_added_def split: option.splits)
    with 3 show ?case by simp
  qed simp_all
qed

definition crl_read :: "service \<Rightarrow> string \<Rightarrow> obj \<Rightarrow> obj \<Rightarrow> trace \<Rightarrow> bool" where
  "crl_read s u current choices es = (\<exists>v. got (sv_client s) (crl_base @ ''get/'' @ u) [] v es \<and>
     crl_of u v = Inr (current, choices))"

definition crl_targets :: "service \<Rightarrow> crl_action \<Rightarrow> string \<Rightarrow> target list" where
  "crl_targets s act u = [(c_host (sv_client s), url_path (fst (crl_sent act u [])))]"

definition no_log_error :: "'a res \<Rightarrow> bool" where
  "no_log_error r = (case r of Inl e \<Rightarrow> \<not> fails_audit e | Inr _ \<Rightarrow> True)"

lemma no_log_error_simps [simp]: "no_log_error (Inr x)" "no_log_error (Inl (mgmt a b))" "no_log_error (Inl (ValueErr t))"
  by (simp_all add: no_log_error_def fails_audit_def mgmt_def)

lemma no_log_error_rbnd: "no_log_error r \<Longrightarrow> (\<And>x. r = Inr x \<Longrightarrow> no_log_error (f x)) \<Longrightarrow> no_log_error (rbnd r f)"
  by (cases r) (simp_all add: no_log_error_def rbnd_def)

lemma no_log_refid: "no_log_error (refid v)" "no_log_error (received r)" "no_log_error (crl_selected v)"
  "no_log_error (crl_text v k)" "no_log_error (digits_int v)"
  by (auto simp: refid_def received_def crl_selected_def crl_text_def digits_int_def split: json.split sum.split list.split)

lemma no_log_choices: "no_log_error (crl_choices d)"
  by (induction d rule: crl_choices.induct) (auto intro!: no_log_error_rbnd no_log_refid split: option.split json.split)

lemma no_log_reasons: "no_log_error (crl_reasons v ks)"
  by (induction v ks rule: crl_reasons.induct)
    (auto intro!: no_log_error_rbnd no_log_choices no_log_refid split: json.split)

lemma no_log_crl_of: "no_log_error (crl_of u v)"
  unfolding crl_of_def Let_def by (auto intro!: no_log_error_rbnd no_log_refid no_log_reasons split: prod.split)

lemma crl_raw_runs:
  "runs (crl_raw s (JStr u)) (\<lambda>r es. targets es = [] \<and> audit_lines es = [] \<and> no_log_error r \<and>
     (\<forall>current choices. r = Inr (current, choices) \<longrightarrow> crl_read s u current choices es))"
proof (cases "refid (JStr u)")
  case (Inl e)
  then show ?thesis using no_log_refid(1) [of "JStr u"] by (simp add: crl_raw_def no_log_error_def)
next
  case (Inr u')
  then have "u' = u" by (auto simp: refid_def split: if_splits)
  have parsed: "no_log_error (crl_of u v)" for v by (rule no_log_crl_of)
  show ?thesis
    unfolding crl_raw_def Inr bnd_of_res \<open>u' = u\<close>
    by (rule runs_bnd [OF runs_conj [OF call_get get_plain]]) (auto simp: parsed [unfolded no_log_error_def] crl_read_def no_log_error_def)
qed

section \<open>From the request to the result\<close>

text \<open>What a result rests on: acknowledged, read back with the next serial, written to the log.\<close>

definition crl_confirmed ::
  "service \<Rightarrow> crl_action \<Rightarrow> string \<Rightarrow> obj \<Rightarrow> obj \<Rightarrow> obj \<Rightarrow> trace \<Rightarrow> bool" where
  "crl_confirmed s act u payload current v es = (\<exists>xs ys a after choices. es = xs @ ys @ [AuditEv a None] \<and>
     targets xs = crl_targets s act u \<and> crl_read s u after choices ys \<and>
     crl_matches act payload current after = Inr True \<and> crl_entry s act u payload ''ok'' [] a \<and> v = crl_done u)"

definition crl_tried ::
  "service \<Rightarrow> crl_action \<Rightarrow> string \<Rightarrow> obj \<Rightarrow> obj \<Rightarrow> obj res \<Rightarrow> trace \<Rightarrow> bool" where
  "crl_tried s act u payload current r es = (targets es = crl_targets s act u \<and>
     (\<forall>v. r = Inr v \<longrightarrow> crl_confirmed s act u payload current v es) \<and>
     (\<forall>m. r = Inl (MgmtErr m) \<longrightarrow> me_audit_failure m \<longrightarrow> me_error m = ''audit'' \<and>
        ends_reported (crl_entry s act u payload) m es))"

definition crl_ran ::
  "service \<Rightarrow> crl_action \<Rightarrow> string \<Rightarrow> obj \<Rightarrow> obj \<Rightarrow> obj res \<Rightarrow> trace \<Rightarrow> bool" where
  "crl_ran s act u payload current r es = (targets es = crl_targets s act u \<and>
     (\<forall>v. r = Inr v \<longrightarrow> crl_confirmed s act u payload current v es) \<and>
     (\<forall>m. r = Inl (MgmtErr m) \<longrightarrow> me_partial m = (me_error m \<notin> {''validation'', ''auth''}) \<and>
        ends_reported (crl_entry s act u payload) m es))"

lemma crl_tried_plain:
  "targets es = crl_targets s act u \<Longrightarrow> no_log_error (Inl e :: 'a res) \<Longrightarrow> crl_tried s act u payload current (Inl e) es"
  by (auto simp: crl_tried_def no_log_error_def fails_audit_def)

lemma no_log_acknowledged: "no_log_error (crl_acknowledged act v)"
  by (simp add: crl_acknowledged_def)

lemma no_log_matches: "no_log_error (crl_matches act payload current after)"
  by (auto simp: crl_matches_def intro!: no_log_error_rbnd no_log_refid)

lemma crl_commit_runs:
  "runs (crl_commit s act u payload current (hash_payload (JObj payload)) t0) (crl_tried s act u payload current)"
  unfolding crl_commit_def
proof (rule runs_bnd [OF runs_conj [OF call_post post_plain]], goal_cases)
  case (1 e es)
  then show ?case by (auto intro!: crl_tried_plain simp: crl_targets_def no_log_error_def crl_sent_def)
next
  case (2 response xs)
  then have xs: "targets xs = crl_targets s act u" by (simp add: crl_targets_def crl_sent_def)
  show ?case
  proof (cases "crl_acknowledged act response")
    case (Inl e)
    then have "no_log_error (Inl e :: unit res)" using no_log_acknowledged [of act response] by simp
    with xs show ?thesis unfolding Inl by (simp add: crl_tried_plain)
  next
    case (Inr x)
    show ?thesis
      unfolding Inr bnd_of_res
    proof (rule runs_bnd [OF crl_raw_runs], goal_cases)
      case (1 e ys)
      then show ?case using xs by (auto intro!: crl_tried_plain simp: no_log_error_def)
    next
      case (2 p ys)
      obtain after choices where p: "p = (after, choices)" by (cases p) auto
      with 2 have ys: "targets ys = []" "crl_read s u after choices ys" by auto
      show ?case
      proof (cases "crl_matches act payload current after")
        case (Inl e)
        then have "no_log_error (Inl e :: bool res)" using no_log_matches [of act payload current after] by simp
        with xs ys show ?thesis unfolding p prod.case Inl by (simp add: crl_tried_plain)
      next
        case same: (Inr b)
        show ?thesis
        proof (cases b)
          case False
          with xs ys show ?thesis unfolding p prod.case same by (simp add: crl_tried_plain)
        next
          case True
          show ?thesis
            unfolding p prod.case same bnd_of_res
            using True
          proof (simp, intro runs_conseq [OF crl_log.final_line [where detail = "[]"]], elim exE conjE)
            fix r es a lg
            assume a: "es = [AuditEv a lg]" "crl_entry s act u payload ''ok'' [] a"
              "case lg of None \<Rightarrow> r = Inr (crl_done u) | Some msg \<Rightarrow> r = Inl (audit_failed True)"
            show "crl_tried s act u payload current r (xs @ ys @ es)"
            proof (cases lg)
              case None
              have "crl_confirmed s act u payload current (crl_done u) (xs @ ys @ es)"
                unfolding crl_confirmed_def
                by (intro exI [of _ xs] exI [of _ ys] exI [of _ a] exI [of _ after] exI [of _ choices])
                  (use a None xs ys same True in auto)
              with a None xs ys show ?thesis by (auto simp: crl_tried_def)
            next
              case (Some msg)
              have "ends_reported (crl_entry s act u payload) m (xs @ ys @ es)" if "me_audit_failure m" for m
                unfolding ends_reported_def
                by (intro exI [of _ "xs @ ys"] exI [of _ a] exI [of _ lg] exI conjI) (use a that in auto)
              with a(1,3) Some xs ys show ?thesis by (auto simp: crl_tried_def audit_failed_def)
            qed
          qed
        qed
      qed
    qed
  qed
qed

lemma crl_on_error_runs:
  assumes tried: "crl_tried s act u payload current (Inl e) es" and "is_mgmt e \<or> is_value_error e"
  shows "runs (crl_on_error s act u (hash_payload (JObj payload)) t0 e) (\<lambda>r es'. crl_ran s act u payload current r (es @ es'))"
proof -
  let ?e = "case e of ValueErr _ \<Rightarrow> invalid_response | _ \<Rightarrow> e"
  obtain m where e: "?e = MgmtErr m" using assms(2) by (cases e) (auto simp: mgmt_def)
  have t: "targets es = crl_targets s act u" using tried by (simp add: crl_tried_def)
  have tail: "me_audit_failure m \<Longrightarrow> ends_reported (crl_entry s act u payload) m es"
    using tried e by (cases e) (auto simp: crl_tried_def mgmt_def)
  show ?thesis
    unfolding crl_on_error_def e exn.case Let_def
    by (rule crl_log.settled [OF tail]) (use t in \<open>auto simp: crl_ran_def\<close>)
qed

section \<open>The whole mutation\<close>

definition crl_shape :: "service \<Rightarrow> json \<Rightarrow> (string \<Rightarrow> bool) \<Rightarrow> crl_action \<Rightarrow> string \<Rightarrow> string \<Rightarrow> obj res \<Rightarrow> trace \<Rightarrow> bool" where
  "crl_shape s body pem act u rv r es =
     (silent es \<and> audit_lines es = [] \<and> (\<exists>e. r = Inl e) \<or>
      (\<exists>before a lg rest current choices payload. es = before @ AuditEv a lg # rest \<and> silent before \<and> audit_lines before = [] \<and>
         crl_read s u current choices before \<and> crl_revision current choices = rv \<and>
         (act = CrlCreate) = (text_at current ''descr'' = []) \<and>
         crl_payload pem act body current choices = Inr payload \<and> crl_entry s act u payload ''attempt'' [] a \<and>
         (case lg of None \<Rightarrow> crl_ran s act u payload current r rest
          | Some msg \<Rightarrow> rest = [] \<and> r = Inl (audit_failed False))))"

lemma crl_tried_ran:
  "crl_tried s act u payload current (Inr v) es \<Longrightarrow> crl_ran s act u payload current (Inr v) es"
  "crl_tried s act u payload current (Inl e) es \<Longrightarrow> \<not> is_mgmt e \<Longrightarrow> crl_ran s act u payload current (Inl e) es"
  by (auto simp: crl_tried_def crl_ran_def)

lemma crl_locked_runs: "runs (crl_locked pem s act body u rv t0) (crl_shape s body pem act u rv)"
  unfolding crl_locked_def
proof (rule runs_bnd [OF crl_raw_runs], goal_cases)
  case (1 e es)
  then show ?case by (simp add: crl_shape_def silent_targets)
next
  case (2 p before)
  obtain current choices where p: "p = (current, choices)" by (cases p) auto
  with 2 have b: "silent before" "audit_lines before = []" "crl_read s u current choices before"
    by (simp_all add: silent_targets)
  show ?case
    unfolding p prod.case
  proof (intro runs_if, goal_cases)
    case 3
    show ?case
    proof (cases "crl_payload pem act body current choices")
      case (Inl e)
      with b show ?thesis by (simp add: crl_shape_def)
    next
      case (Inr payload)
      let ?m = "try_else (crl_commit s act u payload current (hash_payload (JObj payload)) t0) (\<lambda>e. is_mgmt e \<or> is_value_error e)
         (crl_on_error s act u (hash_payload (JObj payload)) t0) ret"
      have m: "runs ?m (crl_ran s act u payload current)"
        by (rule runs_try_else [OF crl_commit_runs]) (auto intro: crl_tried_ran crl_on_error_runs)
      show ?thesis
        unfolding Inr bnd_of_res Let_def
      proof (rule runs_conseq [OF crl_log.after_line [where detail = "[]", OF m]], elim exE conjE)
        fix r es a lg rest
        assume a: "es = AuditEv a lg # rest" "crl_entry s act u payload ''attempt'' [] a"
          "case lg of None \<Rightarrow> crl_ran s act u payload current r rest | Some msg \<Rightarrow> rest = [] \<and> r = Inl (audit_failed False)"
        show "crl_shape s body pem act u rv r (before @ es)"
          unfolding crl_shape_def
          by (rule disjI2, intro exI [of _ before] exI [of _ a] exI [of _ lg] exI [of _ rest] exI [of _ current]
              exI [of _ choices] exI [of _ payload]) (use a b Inr 3 in auto)
      qed
    qed
  qed (use b in \<open>simp_all add: crl_shape_def\<close>)
qed

lemma crl_mutate_runs:
  assumes "crl_request s body = Inr (act, u, rv)"
  shows "runs (crl_mutate pem s body) (crl_shape s body pem act u rv)"
  unfolding crl_mutate_def assms bnd_of_res prod.case
proof (rule runs_bnd [OF runs_now_ms [where Q = "\<lambda>r es. es = [] \<and> (\<exists>t. r = Inr t)"]], goal_cases)
  case (3 t0 es)
  then show ?case using crl_locked_runs by simp
qed simp_all

section \<open>An audited mutation\<close>

definition crl_started :: "service \<Rightarrow> json \<Rightarrow> audit_entry \<Rightarrow> bool" where
  "crl_started s body a = (case crl_request s body of
      Inl _ \<Rightarrow> False | Inr (act, u, rv) \<Rightarrow> (\<exists>payload. crl_entry s act u payload ''attempt'' [] a))"

definition crl_plan :: "service \<Rightarrow> json \<Rightarrow> target list" where
  "crl_plan s body = (case crl_request s body of Inl _ \<Rightarrow> [] | Inr (act, u, rv) \<Rightarrow> crl_targets s act u)"

lemma crl_shape_disciplined:
  "crl_shape s body pem act u rv r es \<Longrightarrow>
   audited (\<lambda>a. \<exists>payload. crl_entry s act u payload ''attempt'' [] a) es \<and> prefix (targets es) (crl_targets s act u)"
  by (auto simp: crl_shape_def crl_ran_def audited_append audited_silent silent_targets split: option.splits)

interpretation revocation: audited_mutation "crl_mutate pem s body" "crl_started s body" "crl_plan s body" for pem s body
proof
  show "runs (crl_mutate pem s body) (\<lambda>r es. audited (crl_started s body) es \<and> prefix (targets es) (crl_plan s body))"
  proof (cases "crl_request s body")
    case (Inl e)
    then show ?thesis by (simp add: crl_mutate_def)
  next
    case (Inr q)
    obtain act u rv where q: "q = (act, u, rv)" by (cases q) auto
    have eqs: "crl_started s body = (\<lambda>a. \<exists>payload. crl_entry s act u payload ''attempt'' [] a)"
      "crl_plan s body = crl_targets s act u"
      by (auto simp: crl_started_def crl_plan_def Inr q fun_eq_iff)
    show ?thesis
      unfolding eqs by (rule runs_conseq [OF crl_mutate_runs [OF Inr [unfolded q]] crl_shape_disciplined])
  qed
qed

end
