(* ===== verification/Crl_Props.thy ===== *)
theory Crl_Props
  imports Crl_Facts Demo
begin

text \<open>
  The properties of the CRL service, \<^verbatim>\<open>src/management/crl.py\<close>.
\<close>

section \<open>Revocation reasons\<close>

definition refs_of :: "obj \<Rightarrow> string \<Rightarrow> string list" where
  "refs_of p k = (if text_at p k = [] then [] else split_on (CHR '','') (text_at p k))"

lemma split_on_join:
  "list_all (\<lambda>s. c \<notin> set s) ss \<Longrightarrow> ss \<noteq> [] \<Longrightarrow> split_on c (join [c] ss) = ss"
proof (induction "[c]" ss rule: join.induct)
  case (3 s t ss)
  then show ?case using split_on_append [of c s "join [c] (t # ss)"] by simp
qed (simp_all add: split_on_absent)

lemma join_empty: "list_all (\<lambda>s. s \<noteq> []) ss \<Longrightarrow> (join c ss = []) = (ss = [])"
  by (induction c ss rule: join.induct) auto

lemma refid_plain: "refid v = Inr u \<Longrightarrow> CHR '','' \<notin> set u \<and> u \<noteq> []"
proof -
  have "\<not> is_hex_lower (CHR '','')" by (simp add: is_hex_lower_def is_digit_def in_range_def code_def)
  then show "refid v = Inr u \<Longrightarrow> CHR '','' \<notin> set u \<and> u \<noteq> []"
    by (auto simp: refid_def list_all_iff split: json.splits if_splits)
qed

lemma check_refs_ok:
  assumes "check_refs permitted vs seen = Inr (us, seen')"
  shows "distinct us \<and> set us \<inter> seen = {} \<and> seen' = seen \<union> set us \<and> set us \<subseteq> permitted \<and>
    list_all (\<lambda>u. CHR '','' \<notin> set u \<and> u \<noteq> []) us"
  using assms
proof (induction vs arbitrary: seen us seen')
  case (Cons v vs)
  then obtain u us' where u: "refid v = Inr u" "u \<in> permitted" "u \<notin> seen" "us = u # us'"
      "check_refs permitted vs (insert u seen) = Inr (us', seen')"
    by (auto simp: rbnd_def split: sum.splits if_splits prod.splits)
  from Cons.IH [OF u(5)] u refid_plain [OF u(1)] show ?case by auto
qed simp

lemma refs_of_join:
  assumes "list_all (\<lambda>u. CHR '','' \<notin> set u \<and> u \<noteq> []) us" "text_at p k = join '','' us"
  shows "refs_of p k = us"
proof (cases "us = []")
  case False
  then have "join '','' us \<noteq> []" using assms(1) join_empty [of us "'',''"] by (auto simp: list_all_iff)
  moreover have "split_on (CHR '','') (join '','' us) = us"
    using assms(1) False by (intro split_on_join) (auto simp: list_all_iff)
  ultimately show ?thesis using assms(2) by (simp add: refs_of_def)
qed (use assms(2) in \<open>simp add: refs_of_def\<close>)

lemma put_reasons_ok:
  assumes "put_reasons choices ks seen payload = Inr p" "distinct ks"
  shows "distinct (concat (map (refs_of p) ks)) \<and> set (concat (map (refs_of p) ks)) \<inter> seen = {} \<and>
    list_all (\<lambda>k. set (refs_of p k) \<subseteq> permitted_refs choices k) ks \<and>
    (\<forall>k. k \<notin> set ks \<longrightarrow> map_of p k = map_of payload k)"
  using assms
proof (induction ks arbitrary: seen payload)
  case (Cons k ks)
  then obtain vs us seen' where c: "check_refs (permitted_refs choices k) vs seen = Inr (us, seen')"
      "put_reasons choices ks seen' (dput payload k (JStr (join '','' us))) = Inr p"
    by (auto simp: rbnd_def split: sum.splits prod.splits)
  note us = check_refs_ok [OF c(1)]
  from Cons.IH [OF c(2)] Cons.prems(2) have ih: "distinct (concat (map (refs_of p) ks))"
      "set (concat (map (refs_of p) ks)) \<inter> seen' = {}"
      "list_all (\<lambda>k. set (refs_of p k) \<subseteq> permitted_refs choices k) ks"
      "\<forall>k'. k' \<notin> set ks \<longrightarrow> map_of p k' = map_of (dput payload k (JStr (join '','' us))) k'" by auto
  have "map_of p k = Some (JStr (join '','' us))" using ih(4) Cons.prems(2) by simp
  then have "refs_of p k = us" using us by (intro refs_of_join) (simp_all add: text_at_def)
  with us ih show ?case by auto
qed simp

lemma reason_names_eq:
  "reason_names = [''revoked_reason_0'', ''revoked_reason_1'', ''revoked_reason_2'', ''revoked_reason_3'', ''revoked_reason_4'',
     ''revoked_reason_5'', ''revoked_reason_6'']"
  by code_simp

text \<open>C35: a CRL that is accepted for sending revokes no certificate twice, neither within a reason nor under
  two reasons, and only certificates the firewall offers for that reason.\<close>

theorem crl_no_certificate_twice:
  assumes "crl_validate pem vals current choices = Inr p"
  shows "distinct (concat (map (refs_of p) reason_names)) \<and>
    list_all (\<lambda>k. set (refs_of p k) \<subseteq> permitted_refs choices k) reason_names"
proof -
  obtain payload p' where p': "put_reasons choices reason_names {} payload = Inr p'" "p = p' \<or> p = ddel p' ''text''"
    using assms by (auto simp: crl_validate_def rbnd_def Let_def split: json.splits if_splits sum.splits)
  have "distinct reason_names" by (simp add: reason_names_eq)
  from put_reasons_ok [OF p'(1) this] have ok: "distinct (concat (map (refs_of p') reason_names))"
    "list_all (\<lambda>k. set (refs_of p' k) \<subseteq> permitted_refs choices k) reason_names" by auto
  have "k \<in> set reason_names \<Longrightarrow> k \<noteq> ''text''" for k by (auto simp: reason_names_eq)
  then have "k \<in> set reason_names \<Longrightarrow> refs_of p k = refs_of p' k" for k
    using p'(2) by (auto simp: refs_of_def text_at_def)
  then have same: "map (refs_of p) reason_names = map (refs_of p') reason_names"
    "list_all (\<lambda>k. set (refs_of p k) \<subseteq> permitted_refs choices k) reason_names =
     list_all (\<lambda>k. set (refs_of p' k) \<subseteq> permitted_refs choices k) reason_names"
    by (auto simp: list_all_iff)
  show ?thesis unfolding same using ok by simp
qed

section \<open>A CRL to delete\<close>

definition demo_caref :: string where
  "demo_caref = ''0123456789abc''"

definition crl_doc :: "string \<Rightarrow> string \<Rightarrow> json" where
  "crl_doc descr serial = JObj [(''crl'', JObj ([(''caref'', JStr demo_caref), (''descr'', JStr descr), (''serial'', JStr serial),
     (''lifetime'', JStr ''30''), (''text'', JStr []), (''crlmethod'', JStr ''internal'')] @
     map (\<lambda>k. (k, JObj [(demo_caref, JObj [(''value'', JStr ''web''), (''selected'', JInt 0)])])) reason_names))]"

definition crl_current :: "string \<Rightarrow> string \<Rightarrow> obj \<times> obj" where
  "crl_current descr serial = ([(''caref'', JStr demo_caref), (''descr'', JStr descr), (''serial'', JStr serial),
     (''lifetime'', JStr ''30''), (''text'', JStr []), (''crlmethod'', JStr ''internal'')] @ map (\<lambda>k. (k, JStr [])) reason_names,
     map (\<lambda>k. (k, JArr [JObj [(''value'', JStr demo_caref), (''label'', JStr ''web'')]])) reason_names)"

lemma crl_of_doc:
  "crl_of demo_caref (crl_doc ''Red'' ''4'') = Inr (crl_current ''Red'' ''4'')"
  "crl_of demo_caref (crl_doc [] ''0'') = Inr (crl_current [] ''0'')"
  "refid (JStr demo_caref) = Inr demo_caref"
  by (code_simp, code_simp, code_simp)

theorem crl_no_certificate_twice_witness:
  "\<exists>p. crl_validate (\<lambda>s. False) (JObj [(''revoked_reason_1'', JArr [JStr demo_caref])]) (fst (crl_current ''Red'' ''4''))
      (snd (crl_current ''Red'' ''4'')) = Inr p \<and> refs_of p ''revoked_reason_1'' = [demo_caref] \<and>
    distinct (concat (map (refs_of p) reason_names))"
proof -
  let ?r = "crl_validate (\<lambda>s. False) (JObj [(''revoked_reason_1'', JArr [JStr demo_caref])])
    (fst (crl_current ''Red'' ''4'')) (snd (crl_current ''Red'' ''4''))"
  have "case ?r of Inr p \<Rightarrow> refs_of p ''revoked_reason_1'' = [demo_caref] | Inl _ \<Rightarrow> False" by code_simp
  then obtain p where p: "?r = Inr p" "refs_of p ''revoked_reason_1'' = [demo_caref]" by (auto split: sum.splits)
  with crl_no_certificate_twice [OF p(1)] show ?thesis by auto
qed

section \<open>The mutation\<close>


definition crl_service :: service where
  "crl_service = \<lparr>sv_client = demo_client, sv_actor = ''op'', sv_peer = None\<rparr>"

definition crl_rev :: string where
  "crl_rev = crl_revision (fst (crl_current ''Red'' ''4'')) (snd (crl_current ''Red'' ''4''))"

definition crl_body :: json where
  "crl_body = JObj [(''action'', JStr ''delete''), (''uuid'', JStr demo_caref), (''revision'', JStr crl_rev)]"

text \<open>A firewall whose CRL is there until a request came that is no GET.\<close>

definition crl_env :: env where
  "crl_env = \<lparr>e_http = \<lambda>tr h m p ps b. if m = POST then answer (JObj [(''status'', JStr ''deleted'')])
       else answer (if posts tr = [] then crl_doc ''Red'' ''4'' else crl_doc [] ''0''),
     e_audit = \<lambda>tr a. None, e_ms = \<lambda>tr. 0, e_utc = \<lambda>tr. ''2026'', e_instant = \<lambda>tr. 0\<rparr>"

lemma crl_env_runs:
  "client_get demo_client p ps crl_env tr = (Inr (if posts tr = [] then crl_doc ''Red'' ''4'' else crl_doc [] ''0''),
     tr @ [HttpEv demo_host GET (url_path p) ps None (answer (if posts tr = [] then crl_doc ''Red'' ''4'' else crl_doc [] ''0''))])"
  "client_post demo_client p d crl_env tr = (Inr (JObj [(''status'', JStr ''deleted'')]),
     tr @ [posted demo_client p d (answer (JObj [(''status'', JStr ''deleted'')]))])"
  "e_audit crl_env tr a = None" "e_ms crl_env tr = 0" "e_utc crl_env tr = ''2026''"
  by (simp_all add: client_get_def request_def bnd_def http_def of_res_def client_response_def resp_ok_def answer_def
      Let_def demo_client_def default_retry_def numeral_3_eq_3 client_post_eq post_result_def posted_def crl_env_def)

lemma crl_rev_ok: "crl_revision_ok (JStr crl_rev) = Inr crl_rev"
  using hash_payload_length [of "JArr [JObj (fst (crl_current ''Red'' ''4'')), JObj (snd (crl_current ''Red'' ''4''))]"] hash_payload_lower
  by (simp add: crl_revision_ok_def crl_rev_def crl_revision_def)

lemma crl_demo_request: "crl_request crl_service crl_body = Inr (CrlDelete, demo_caref, crl_rev)"
proof -
  have "crl_action_of (JStr ''delete'') = Some CrlDelete" by code_simp
  then show ?thesis
    by (simp add: crl_request_def crl_service_def crl_body_def dget_or_def rbnd_def crl_of_doc(3) crl_rev_ok)
qed

lemma crl_demo_facts:
  "text_at (fst (crl_current ''Red'' ''4'')) ''descr'' \<noteq> []" "crl_acknowledged CrlDelete (JObj [(''status'', JStr ''deleted'')]) = Inr ()"
  "crl_matches CrlDelete [] (fst (crl_current ''Red'' ''4'')) (fst (crl_current [] ''0'')) = Inr True"
  "crl_payload (\<lambda>s. False) CrlDelete crl_body (fst (crl_current ''Red'' ''4'')) (snd (crl_current ''Red'' ''4'')) = Inr []"
  by (code_simp, code_simp, code_simp, simp add: crl_payload_def rbnd_def)

lemma crl_demo_run: "\<exists>tr. crl_mutate (\<lambda>s. False) crl_service crl_body crl_env [] = (Inr (crl_done demo_caref), tr)"
proof -
  obtain c1 d1 where c1: "crl_current ''Red'' ''4'' = (c1, d1)" by fastforce
  obtain c2 d2 where c2: "crl_current [] ''0'' = (c2, d2)" by fastforce
  note facts = crl_demo_facts [unfolded c1 c2 fst_conv snd_conv] crl_of_doc [unfolded c1 c2]
  have rev: "crl_revision c1 d1 = crl_rev" by (simp add: crl_rev_def c1)
  have svc: "sv_client crl_service = demo_client" "sv_actor crl_service = ''op''" by (simp_all add: crl_service_def)
  show ?thesis
    by (simp add: crl_mutate_def crl_demo_request run_simps crl_locked_def crl_raw_def call_def crl_env_runs facts rev svc
        crl_line_def audit_now_def entry_now_def crl_commit_def crl_sent_def posted_def Let_def)
qed


end
