(* ===== verification/Divergence.thy ===== *)
theory Divergence
  imports Legacy_Routes "HOL-Library.Product_Lexorder"
begin

text \<open>
  The comparison of the two nodes of an HA pair, \<^verbatim>\<open>src/divergence.py\<close>: two snapshots, as the overview
  builds them, give a list of differences. A snapshot is a dictionary; the name of a service, gateway,
  interface or certificate is a text or missing, as the collectors produce it (a name that is a number
  or a container is refused here with a \<^verbatim>\<open>TypeError\<close>).
\<close>

section \<open>Entries\<close>

datatype severity = Info | Warning | Error

record divergence =
  dv_category :: string
  dv_key :: string
  dv_severity :: severity
  dv_a :: json
  dv_b :: json
  dv_detail :: string

definition entry :: "string \<Rightarrow> string \<Rightarrow> severity \<Rightarrow> json \<Rightarrow> json \<Rightarrow> string \<Rightarrow> divergence" where
  "entry cat k sev a b detail = \<lparr>dv_category = cat, dv_key = k, dv_severity = sev, dv_a = a, dv_b = b, dv_detail = detail\<rparr>"

definition eq_or_diff :: "string \<Rightarrow> string \<Rightarrow> json \<Rightarrow> json \<Rightarrow> severity \<Rightarrow> string \<Rightarrow> divergence list" where
  "eq_or_diff cat k a b sev detail = (if py_eq a b then [] else [entry cat k sev a b detail])"

text \<open>\<^verbatim>\<open>d.get(k)\<close>, and \<^verbatim>\<open>snapshot.get(k, {}) or {}\<close> where a dictionary is needed.\<close>

definition slot :: "obj \<Rightarrow> string \<Rightarrow> json" where
  "slot d k = (case map_of d k of Some v \<Rightarrow> v | None \<Rightarrow> JNull)"

definition sect :: "obj \<Rightarrow> string \<Rightarrow> obj res" where
  "sect snap k = (case map_of snap k of
      None \<Rightarrow> Inr []
    | Some v \<Rightarrow> if \<not> truthy v then Inr [] else (case v of JObj d \<Rightarrow> Inr d | _ \<Rightarrow> Inl (AttrErr ''object has no attribute get'')))"

text \<open>Iterating over \<^verbatim>\<open>d.get(k, []) or []\<close>.\<close>

definition iterated :: "obj \<Rightarrow> string \<Rightarrow> json list res" where
  "iterated d k = (let v = slot d k in
     if \<not> truthy v then Inr []
     else (case v of JArr vs \<Rightarrow> Inr vs | JObj kvs \<Rightarrow> Inr (map (JStr \<circ> fst) kvs) | JStr s \<Rightarrow> Inr (map (\<lambda>c. JStr [c]) s)
       | _ \<Rightarrow> Inl (TypeErr ''object is not iterable'')))"

definition hashable :: "json \<Rightarrow> bool" where
  "hashable v = (case v of JArr _ \<Rightarrow> False | JObj _ \<Rightarrow> False | _ \<Rightarrow> True)"

section \<open>System, CARP, synchronisation\<close>

definition system_checks :: "(string \<times> severity \<times> string) list" where
  "system_checks =
    [(''config_revision'', Warning, (''Config revision drift '' @ [CHR 0xE2, CHR 0x80, CHR 0x94] @ '' pfSync may be falling behind.'')),
     (''version'', Info, ''OPNsense version mismatch between peers.''),
     (''product_id'', Info, ''Product/edition mismatch (Business vs Community).'')]"

definition diff_fields :: "string \<Rightarrow> (string \<times> severity \<times> string) list \<Rightarrow> obj \<Rightarrow> obj \<Rightarrow> divergence list" where
  "diff_fields cat checks s t = concat (map (\<lambda>(k, sev, detail). eq_or_diff cat k (slot s k) (slot t k) sev detail) checks)"

definition diff_system :: "obj \<Rightarrow> obj \<Rightarrow> divergence list res" where
  "diff_system a b = rbnd (sect a ''system'') (\<lambda>s. rbnd (sect b ''system'') (\<lambda>t. Inr (diff_fields ''system'' system_checks s t)))"

definition healthy :: "json \<Rightarrow> json \<Rightarrow> bool" where
  "healthy ra rb = ({ra, rb} = {JStr ''master'', JStr ''backup''})"

definition role_entry :: "json \<Rightarrow> json \<Rightarrow> divergence" where
  "role_entry ra rb =
     (if ra = JStr ''master'' \<and> rb = JStr ''master''
      then entry ''carp'' ''role_pair'' Error ra rb ''Split-brain: both nodes report MASTER.''
      else entry ''carp'' ''role_pair'' Warning ra rb
        (''Unexpected CARP roles ('' @ py_str ra @ '' / '' @ py_str rb @ ''); expected master+backup.''))"

definition maintenance_text :: string where
  "maintenance_text = ''Maintenance mode enabled on one node only.''"

definition demotion_text :: string where
  "demotion_text = (''CARP demotion values differ '' @ [CHR 0xE2, CHR 0x80, CHR 0x94] @ '' at least one node has been demoted by a link/service issue.'')"

definition carp_entries :: "obj \<Rightarrow> obj \<Rightarrow> divergence list" where
  "carp_entries s t =
     (let ra = slot s ''role''; rb = slot t ''role'';
          da = dget_or (JObj s) ''demotion'' (JInt 0); db = dget_or (JObj t) ''demotion'' (JInt 0) in
      (if healthy ra rb \<or> ra = JStr ''disabled'' \<and> rb = JStr ''disabled'' then [] else [role_entry ra rb]) @
      eq_or_diff ''carp'' ''maintenance_mode'' (slot s ''maintenance_mode'') (slot t ''maintenance_mode'') Info maintenance_text @
      (if \<not> py_eq da db \<and> (truthy da \<or> truthy db) then
         [entry ''carp'' ''demotion'' Warning da db demotion_text] else []))"

definition diff_carp :: "obj \<Rightarrow> obj \<Rightarrow> divergence list res" where
  "diff_carp a b = rbnd (sect a ''carp'') (\<lambda>s. rbnd (sect b ''carp'') (\<lambda>t.
     let ra = slot s ''role''; rb = slot t ''role'' in
     if \<not> truthy ra \<or> \<not> truthy rb then Inr []
     else if \<not> hashable ra \<or> \<not> hashable rb then Inl (TypeErr ''unhashable type'')
     else Inr (carp_entries s t)))"

definition hasync_checks :: "(string \<times> severity \<times> string) list" where
  "hasync_checks =
    [(''enabled'', Error, (''pfSync enabled on one node only '' @ [CHR 0xE2, CHR 0x80, CHR 0x94] @ '' config drift will accumulate.'')),
     (''pfsync_interface'', Warning, ''pfSync interface differs between peers.''),
     (''pfsync_version'', Info, ''pfSync version mismatch.''),
     (''sync_compatibility'', Info, ''Sync compatibility setting differs.'')]"

definition diff_hasync :: "obj \<Rightarrow> obj \<Rightarrow> divergence list res" where
  "diff_hasync a b = rbnd (sect a ''hasync'') (\<lambda>s. rbnd (sect b ''hasync'') (\<lambda>t. Inr (diff_fields ''hasync'' hasync_checks s t)))"

section \<open>Services, gateways, interfaces\<close>

text \<open>
  A dictionary built from a list: a later element replaces an earlier one of the same name.
  \<open>latest d n k\<close> is \<^verbatim>\<open>d.get(n, {}).get(k)\<close>.
\<close>

definition latest :: "('n \<times> obj) list \<Rightarrow> 'n \<Rightarrow> string \<Rightarrow> json" where
  "latest kvs n k = (case map_of (rev kvs) n of Some d \<Rightarrow> slot d k | None \<Rightarrow> JNull)"

fun service_items :: "json list \<Rightarrow> (string \<times> obj) list res" where
  "service_items [] = Inr []"
| "service_items (v # vs) = (case v of
      JObj d \<Rightarrow> rbnd (service_items vs) (\<lambda>r. case slot d ''name'' of
          JStr n \<Rightarrow> Inr (if n = [] then r else (n, d) # r)
        | w \<Rightarrow> if truthy w then Inl (TypeErr ''unorderable names'') else Inr r)
    | _ \<Rightarrow> Inl (AttrErr ''object has no attribute get''))"

definition names :: "('n \<times> obj) list \<Rightarrow> ('n \<times> obj) list \<Rightarrow> 'n list" where
  "names xs ys = remdups (map fst xs @ map fst ys)"

definition service_text :: "string \<Rightarrow> string" where
  "service_text n = (''Service '' @ [CHR 0x27]) @ n @ ([CHR 0x27] @ '' running state differs.'')"

definition service_entry :: "(string \<times> obj) list \<Rightarrow> (string \<times> obj) list \<Rightarrow> string \<Rightarrow> divergence list" where
  "service_entry xs ys n = eq_or_diff ''services'' n (latest xs n ''running'') (latest ys n ''running'') Warning
     (service_text n)"

definition diff_services :: "obj \<Rightarrow> obj \<Rightarrow> divergence list res" where
  "diff_services a b =
     rbnd (rbnd (sect a ''services'') (\<lambda>s. rbnd (iterated s ''items'') service_items)) (\<lambda>xs.
     rbnd (rbnd (sect b ''services'') (\<lambda>t. rbnd (iterated t ''items'') service_items)) (\<lambda>ys.
     Inr (concat (map (service_entry xs ys) (sort (names xs ys))))))"

text \<open>Names that may be missing; sorting a missing name together with another one raises.\<close>

fun dict_items :: "(obj \<Rightarrow> json) \<Rightarrow> json list \<Rightarrow> (string option \<times> obj) list res" where
  "dict_items key [] = Inr []"
| "dict_items key (v # vs) = (case v of
      JObj d \<Rightarrow> rbnd (dict_items key vs) (\<lambda>r. case key d of
          JStr n \<Rightarrow> Inr ((Some n, d) # r)
        | JNull \<Rightarrow> Inr ((None, d) # r)
        | _ \<Rightarrow> Inl (TypeErr ''unorderable names''))
    | _ \<Rightarrow> dict_items key vs)"

definition ordered :: "string option list \<Rightarrow> string option list res" where
  "ordered ks =
     (if None \<in> set ks then (if list_all (\<lambda>k. k = None) ks then Inr [None] else Inl (TypeErr ([CHR 0x27] @ ''<'' @ [CHR 0x27] @ '' not supported'')))
      else Inr (map Some (sort (map the ks))))"

definition name_str :: "string option \<Rightarrow> string" where
  "name_str k = (case k of None \<Rightarrow> ''None'' | Some s \<Rightarrow> s)"

definition shown_name :: "string option \<Rightarrow> string" where
  "shown_name k = (case k of Some (c # cs) \<Rightarrow> c # cs | _ \<Rightarrow> ''<unnamed>'')"

definition gateway_text :: "string option \<Rightarrow> string" where
  "gateway_text n = (''Gateway '' @ [CHR 0x27]) @ name_str n @ ([CHR 0x27] @ '' reports different status on each node.'')"

definition gateway_entry :: "(string option \<times> obj) list \<Rightarrow> (string option \<times> obj) list \<Rightarrow> string option \<Rightarrow> divergence list" where
  "gateway_entry xs ys n = eq_or_diff ''gateways'' (shown_name n) (latest xs n ''status'') (latest ys n ''status'') Warning
     (gateway_text n)"

definition diff_gateways :: "obj \<Rightarrow> obj \<Rightarrow> divergence list res" where
  "diff_gateways a b =
     rbnd (rbnd (iterated a ''gateways'') (dict_items (\<lambda>d. slot d ''name''))) (\<lambda>xs.
     rbnd (rbnd (iterated b ''gateways'') (dict_items (\<lambda>d. slot d ''name''))) (\<lambda>ys.
     rbnd (ordered (names xs ys)) (\<lambda>ns. Inr (concat (map (gateway_entry xs ys) ns)))))"

definition link_state :: "json \<Rightarrow> bool" where
  "link_state v = (v \<in> {JStr ''up'', JStr ''down'', JNull, JStr []})"

definition link_text :: "string option \<Rightarrow> string" where
  "link_text n = (''Interface '' @ [CHR 0x27]) @ name_str n @ ([CHR 0x27] @ '' link state differs.'')"

definition iface_entry :: "(string option \<times> obj) list \<Rightarrow> (string option \<times> obj) list \<Rightarrow> string option \<Rightarrow> divergence list res" where
  "iface_entry xs ys n =
     (let la = latest xs n ''link''; lb = latest ys n ''link'' in
      if py_eq la lb then Inr []
      else if \<not> hashable la \<or> \<not> hashable lb then Inl (TypeErr ''unhashable type'')
      else Inr (if link_state la \<and> link_state lb
        then [entry ''interfaces'' (shown_name n) Warning la lb (link_text n)] else []))"

fun iface_entries ::
  "(string option \<times> obj) list \<Rightarrow> (string option \<times> obj) list \<Rightarrow> string option list \<Rightarrow> divergence list res" where
  "iface_entries xs ys [] = Inr []"
| "iface_entries xs ys (n # ns) = rbnd (iface_entry xs ys n) (\<lambda>d. rbnd (iface_entries xs ys ns) (\<lambda>ds. Inr (d @ ds)))"

definition diff_interfaces :: "obj \<Rightarrow> obj \<Rightarrow> divergence list res" where
  "diff_interfaces a b =
     rbnd (rbnd (iterated a ''interfaces'') (dict_items (\<lambda>d. slot d ''name''))) (\<lambda>xs.
     rbnd (rbnd (iterated b ''interfaces'') (dict_items (\<lambda>d. slot d ''name''))) (\<lambda>ys.
     rbnd (ordered (names xs ys)) (iface_entries xs ys)))"

section \<open>Certificates\<close>

definition cert_key :: "obj \<Rightarrow> json" where
  "cert_key c = (if truthy (slot c ''fingerprint'') then slot c ''fingerprint'' else slot c ''descr'')"

definition cert_items :: "obj \<Rightarrow> (string option \<times> obj) list res" where
  "cert_items s = rbnd (iterated s ''expiring_soon'') (dict_items cert_key)"

definition only_a :: "string option \<Rightarrow> divergence" where
  "only_a k = entry ''certs'' (name_str k) Info (JStr ''present'') (JStr ''missing'') ''Certificate (expiring soon) present on A only.''"

definition only_b :: "string option \<Rightarrow> divergence" where
  "only_b k = entry ''certs'' (name_str k) Info (JStr ''missing'') (JStr ''present'') ''Certificate (expiring soon) present on B only.''"

definition diff_certs :: "obj \<Rightarrow> obj \<Rightarrow> divergence list res" where
  "diff_certs a b =
     rbnd (sect a ''certs'') (\<lambda>s. rbnd (sect b ''certs'') (\<lambda>t.
     rbnd (cert_items s) (\<lambda>xs. rbnd (cert_items t) (\<lambda>ys.
     rbnd (ordered (remdups (filter (\<lambda>k. k \<notin> fst ` set ys) (map fst xs)))) (\<lambda>as.
     rbnd (ordered (remdups (filter (\<lambda>k. k \<notin> fst ` set xs) (map fst ys)))) (\<lambda>bs.
     Inr (map only_a as @ map only_b bs)))))))"

section \<open>The whole comparison\<close>

definition severity_rank :: "severity \<Rightarrow> int" where
  "severity_rank s = (case s of Error \<Rightarrow> 0 | Warning \<Rightarrow> 1 | Info \<Rightarrow> 2)"

definition sort_rank :: "divergence \<Rightarrow> int \<times> string \<times> string" where
  "sort_rank d = (severity_rank (dv_severity d), dv_category d, dv_key d)"

definition compute_divergence :: "obj \<Rightarrow> obj \<Rightarrow> divergence list res" where
  "compute_divergence a b =
     rbnd (diff_system a b) (\<lambda>d1. rbnd (diff_carp a b) (\<lambda>d2. rbnd (diff_hasync a b) (\<lambda>d3.
     rbnd (diff_services a b) (\<lambda>d4. rbnd (diff_gateways a b) (\<lambda>d5. rbnd (diff_interfaces a b) (\<lambda>d6.
     rbnd (diff_certs a b) (\<lambda>d7. Inr (sort_key sort_rank (d1 @ d2 @ d3 @ d4 @ d5 @ d6 @ d7)))))))))"

end
