(* ===== verification/Divergence_Props.thy ===== *)
theory Divergence_Props
  imports Divergence
begin

text \<open>
  The comparison of \<^verbatim>\<open>src/divergence.py\<close> against what it is to report: the relation \<open>drift\<close> has one
  rule for each kind of difference and no order, no iteration and no failure.
\<close>

section \<open>Reading a snapshot\<close>

definition part :: "obj \<Rightarrow> string \<Rightarrow> obj" where
  "part a k = (case sect a k of Inr d \<Rightarrow> d | Inl _ \<Rightarrow> [])"

definition services_on :: "obj \<Rightarrow> (string \<times> obj) list" where
  "services_on a = (case rbnd (sect a ''services'') (\<lambda>s. rbnd (iterated s ''items'') service_items) of Inr xs \<Rightarrow> xs | Inl _ \<Rightarrow> [])"

definition named_on :: "obj \<Rightarrow> string \<Rightarrow> (string option \<times> obj) list" where
  "named_on a k = (case rbnd (iterated a k) (dict_items (\<lambda>d. slot d ''name'')) of Inr xs \<Rightarrow> xs | Inl _ \<Rightarrow> [])"

definition certs_on :: "obj \<Rightarrow> (string option \<times> obj) list" where
  "certs_on a = (case cert_items (part a ''certs'') of Inr xs \<Rightarrow> xs | Inl _ \<Rightarrow> [])"

section \<open>What differs\<close>

inductive drift :: "obj \<Rightarrow> obj \<Rightarrow> divergence \<Rightarrow> bool" for a b where
  system: "(k, sev, detail) \<in> set system_checks \<Longrightarrow> \<not> py_eq (slot (part a ''system'') k) (slot (part b ''system'') k) \<Longrightarrow>
    drift a b (entry ''system'' k sev (slot (part a ''system'') k) (slot (part b ''system'') k) detail)"
| roles: "truthy ra \<Longrightarrow> truthy rb \<Longrightarrow> ra = slot (part a ''carp'') ''role'' \<Longrightarrow> rb = slot (part b ''carp'') ''role'' \<Longrightarrow>
    \<not> healthy ra rb \<Longrightarrow> ra \<noteq> JStr ''disabled'' \<or> rb \<noteq> JStr ''disabled'' \<Longrightarrow> drift a b (role_entry ra rb)"
| maintenance: "truthy (slot (part a ''carp'') ''role'') \<Longrightarrow> truthy (slot (part b ''carp'') ''role'') \<Longrightarrow>
    ma = slot (part a ''carp'') ''maintenance_mode'' \<Longrightarrow> mb = slot (part b ''carp'') ''maintenance_mode'' \<Longrightarrow> \<not> py_eq ma mb \<Longrightarrow>
    drift a b (entry ''carp'' ''maintenance_mode'' Info ma mb maintenance_text)"
| demotion: "truthy (slot (part a ''carp'') ''role'') \<Longrightarrow> truthy (slot (part b ''carp'') ''role'') \<Longrightarrow>
    da = dget_or (JObj (part a ''carp'')) ''demotion'' (JInt 0) \<Longrightarrow> db = dget_or (JObj (part b ''carp'')) ''demotion'' (JInt 0) \<Longrightarrow>
    \<not> py_eq da db \<Longrightarrow> truthy da \<or> truthy db \<Longrightarrow>
    drift a b (entry ''carp'' ''demotion'' Warning da db demotion_text)"
| hasync: "(k, sev, detail) \<in> set hasync_checks \<Longrightarrow> \<not> py_eq (slot (part a ''hasync'') k) (slot (part b ''hasync'') k) \<Longrightarrow>
    drift a b (entry ''hasync'' k sev (slot (part a ''hasync'') k) (slot (part b ''hasync'') k) detail)"
| running: "ra = latest (services_on a) n ''running'' \<Longrightarrow> rb = latest (services_on b) n ''running'' \<Longrightarrow> \<not> py_eq ra rb \<Longrightarrow>
    drift a b (entry ''services'' n Warning ra rb (service_text n))"
| gateway: "sa = latest (named_on a ''gateways'') n ''status'' \<Longrightarrow> sb = latest (named_on b ''gateways'') n ''status'' \<Longrightarrow> \<not> py_eq sa sb \<Longrightarrow>
    drift a b (entry ''gateways'' (shown_name n) Warning sa sb
      (gateway_text n))"
| link: "la = latest (named_on a ''interfaces'') n ''link'' \<Longrightarrow> lb = latest (named_on b ''interfaces'') n ''link'' \<Longrightarrow> \<not> py_eq la lb \<Longrightarrow>
    link_state la \<Longrightarrow> link_state lb \<Longrightarrow>
    drift a b (entry ''interfaces'' (shown_name n) Warning la lb (link_text n))"
| certificate_a: "k \<in> fst ` set (certs_on a) \<Longrightarrow> k \<notin> fst ` set (certs_on b) \<Longrightarrow> drift a b (only_a k)"
| certificate_b: "k \<in> fst ` set (certs_on b) \<Longrightarrow> k \<notin> fst ` set (certs_on a) \<Longrightarrow> drift a b (only_b k)"

section \<open>Each part of the comparison\<close>

lemma rbnd_okD [simp]: "(rbnd r f = Inr y) = (\<exists>x. r = Inr x \<and> f x = Inr y)"
  by (auto simp: rbnd_def split: sum.splits)

lemma rbnd_simps [simp]: "rbnd (Inr x) f = f x" "rbnd (Inl e) f = Inl e"
  by (simp_all add: rbnd_def)

lemma set_eq_or_diff: "set (eq_or_diff cat k x y sev detail) = (if py_eq x y then {} else {entry cat k sev x y detail})"
  by (simp add: eq_or_diff_def)

lemma set_diff_fields: "(d \<in> set (diff_fields cat checks s t)) =
  (\<exists>(k, sev, detail) \<in> set checks. \<not> py_eq (slot s k) (slot t k) \<and> d = entry cat k sev (slot s k) (slot t k) detail)"
  by (auto simp: diff_fields_def set_eq_or_diff split: if_splits)

lemma diff_fieldsI: "(k, sev, detail) \<in> set checks \<Longrightarrow> \<not> py_eq (slot s k) (slot t k) \<Longrightarrow>
  entry cat k sev (slot s k) (slot t k) detail \<in> set (diff_fields cat checks s t)"
  unfolding set_diff_fields by (rule bexI) simp_all

lemma diff_system_set: "diff_system a b = Inr ds \<Longrightarrow> ds = diff_fields ''system'' system_checks (part a ''system'') (part b ''system'')"
  by (auto simp: diff_system_def part_def)

lemma diff_hasync_set: "diff_hasync a b = Inr ds \<Longrightarrow> ds = diff_fields ''hasync'' hasync_checks (part a ''hasync'') (part b ''hasync'')"
  by (auto simp: diff_hasync_def part_def)

lemma diff_carp_set: "diff_carp a b = Inr ds \<Longrightarrow> ds =
   (if truthy (slot (part a ''carp'') ''role'') \<and> truthy (slot (part b ''carp'') ''role'')
    then carp_entries (part a ''carp'') (part b ''carp'') else [])"
  by (auto simp: diff_carp_def part_def Let_def split: if_splits)

lemma mem_if: "(d \<in> set (if P then [] else [x])) = (\<not> P \<and> d = x)"
  by (cases P) auto

lemma mem_if': "(d \<in> set (if P then [x] else [])) = (P \<and> d = x)"
  by (cases P) auto

lemma set_carp_entries: "(d \<in> set (carp_entries s t)) =
  ((\<not> healthy (slot s ''role'') (slot t ''role'') \<and> (slot s ''role'' \<noteq> JStr ''disabled'' \<or> slot t ''role'' \<noteq> JStr ''disabled'') \<and>
      d = role_entry (slot s ''role'') (slot t ''role'')) \<or>
   (\<not> py_eq (slot s ''maintenance_mode'') (slot t ''maintenance_mode'') \<and>
      d = entry ''carp'' ''maintenance_mode'' Info (slot s ''maintenance_mode'') (slot t ''maintenance_mode'') maintenance_text) \<or>
   (\<not> py_eq (dget_or (JObj s) ''demotion'' (JInt 0)) (dget_or (JObj t) ''demotion'' (JInt 0)) \<and>
      (truthy (dget_or (JObj s) ''demotion'' (JInt 0)) \<or> truthy (dget_or (JObj t) ''demotion'' (JInt 0))) \<and>
      d = entry ''carp'' ''demotion'' Warning (dget_or (JObj s) ''demotion'' (JInt 0)) (dget_or (JObj t) ''demotion'' (JInt 0)) demotion_text))"
  unfolding carp_entries_def Let_def set_append eq_or_diff_def Un_iff mem_if mem_if' de_Morgan_disj de_Morgan_conj conj_assoc disj_assoc by (rule refl)

lemma latest_absent: "n \<notin> fst ` set xs \<Longrightarrow> latest xs n k = JNull"
proof -
  assume "n \<notin> fst ` set xs"
  then have "map_of (rev xs) n = None" by (simp add: map_of_eq_None_iff)
  then show ?thesis by (simp add: latest_def)
qed

lemma unnamed: "n \<notin> set (names xs ys) \<Longrightarrow> latest xs n k = JNull \<and> latest ys n k = JNull"
  by (simp add: names_def latest_absent)

lemma service_entry_unnamed: "service_entry xs ys n \<noteq> [] \<Longrightarrow> n \<in> set (names xs ys)"
  by (cases "n \<in> set (names xs ys)") (simp_all add: unnamed service_entry_def eq_or_diff_def)

lemma gateway_entry_unnamed: "gateway_entry xs ys n \<noteq> [] \<Longrightarrow> n \<in> set (names xs ys)"
  by (cases "n \<in> set (names xs ys)") (simp_all add: unnamed gateway_entry_def eq_or_diff_def)

lemma diff_services_set: "diff_services a b = Inr ds \<Longrightarrow>
  (d \<in> set ds) = (\<exists>n. d \<in> set (service_entry (services_on a) (services_on b) n))"
proof -
  assume "diff_services a b = Inr ds"
  then have "ds = concat (map (service_entry (services_on a) (services_on b)) (sort (names (services_on a) (services_on b))))"
    by (auto simp: diff_services_def services_on_def)
  then have "(d \<in> set ds) = (\<exists>n \<in> set (names (services_on a) (services_on b)). d \<in> set (service_entry (services_on a) (services_on b) n))"
    by simp
  moreover have "d \<in> set (service_entry xs ys n) \<Longrightarrow> n \<in> set (names xs ys)" for xs ys n
    using service_entry_unnamed [of xs ys n] by force
  ultimately show ?thesis by blast
qed

lemma ordered_set: "ordered ks = Inr ns \<Longrightarrow> set ns = set ks"
proof (cases "None \<in> set ks")
  case False
  then have "Some (the k) = k" if "k \<in> set ks" for k using that by (cases k) auto
  then have "Some ` the ` set ks = set ks" by force
  with False show "ordered ks = Inr ns \<Longrightarrow> set ns = set ks" by (auto simp: ordered_def)
next
  case True
  then show "ordered ks = Inr ns \<Longrightarrow> set ns = set ks" by (auto simp: ordered_def list_all_iff split: if_splits)
qed

lemma diff_gateways_set:
  assumes "diff_gateways a b = Inr ds"
  shows "(d \<in> set ds) = (\<exists>n. d \<in> set (gateway_entry (named_on a ''gateways'') (named_on b ''gateways'') n))"
proof -
  obtain ns where ns: "ordered (names (named_on a ''gateways'') (named_on b ''gateways'')) = Inr ns"
      "ds = concat (map (gateway_entry (named_on a ''gateways'') (named_on b ''gateways'')) ns)"
    using assms by (auto simp: diff_gateways_def named_on_def)
  have "(d \<in> set ds) = (\<exists>n \<in> set (names (named_on a ''gateways'') (named_on b ''gateways'')).
      d \<in> set (gateway_entry (named_on a ''gateways'') (named_on b ''gateways'') n))"
    unfolding ns(2) by (simp add: ordered_set [OF ns(1)])
  moreover have "d \<in> set (gateway_entry xs ys n) \<Longrightarrow> n \<in> set (names xs ys)" for xs ys n
    using gateway_entry_unnamed [of xs ys n] by force
  ultimately show ?thesis by blast
qed

definition link_gap :: "(string option \<times> obj) list \<Rightarrow> (string option \<times> obj) list \<Rightarrow> string option \<Rightarrow> bool" where
  "link_gap xs ys n = (\<not> py_eq (latest xs n ''link'') (latest ys n ''link'') \<and>
     link_state (latest xs n ''link'') \<and> link_state (latest ys n ''link''))"

definition link_entry :: "(string option \<times> obj) list \<Rightarrow> (string option \<times> obj) list \<Rightarrow> string option \<Rightarrow> divergence" where
  "link_entry xs ys n = entry ''interfaces'' (shown_name n) Warning (latest xs n ''link'') (latest ys n ''link'') (link_text n)"

lemma iface_entry_eq: "iface_entry xs ys n = Inr ds \<Longrightarrow> ds = (if link_gap xs ys n then [link_entry xs ys n] else [])"
  by (auto simp: iface_entry_def link_gap_def link_entry_def Let_def split: if_splits)

lemma iface_entries_set: "iface_entries xs ys ns = Inr ds \<Longrightarrow>
  (d \<in> set ds) = (\<exists>n \<in> set ns. link_gap xs ys n \<and> d = link_entry xs ys n)"
proof (induction ns arbitrary: ds)
  case (Cons n ns)
  then obtain d' ds' where d: "iface_entry xs ys n = Inr d'" "iface_entries xs ys ns = Inr ds'" "ds = d' @ ds'" by auto
  from Cons.IH [OF d(2)] iface_entry_eq [OF d(1)] d(3) show ?case by auto
qed simp

lemma diff_interfaces_set:
  assumes "diff_interfaces a b = Inr ds"
  shows "(d \<in> set ds) = (\<exists>n. link_gap (named_on a ''interfaces'') (named_on b ''interfaces'') n \<and>
    d = link_entry (named_on a ''interfaces'') (named_on b ''interfaces'') n)"
proof -
  obtain ns where ns: "ordered (names (named_on a ''interfaces'') (named_on b ''interfaces'')) = Inr ns"
      "iface_entries (named_on a ''interfaces'') (named_on b ''interfaces'') ns = Inr ds"
    using assms by (auto simp: diff_interfaces_def named_on_def)
  have "link_gap xs ys n \<Longrightarrow> n \<in> set (names xs ys)" for xs ys n
    by (cases "n \<in> set (names xs ys)") (simp_all add: unnamed link_gap_def)
  with iface_entries_set [OF ns(2)] show ?thesis unfolding ordered_set [OF ns(1)] by blast
qed

lemma diff_certs_set:
  assumes "diff_certs a b = Inr ds"
  shows "set ds = only_a ` (fst ` set (certs_on a) - fst ` set (certs_on b)) \<union>
    only_b ` (fst ` set (certs_on b) - fst ` set (certs_on a))"
proof -
  obtain xs ys as bs where c: "certs_on a = xs" "certs_on b = ys"
      "ordered (remdups (filter (\<lambda>k. k \<notin> fst ` set ys) (map fst xs))) = Inr as"
      "ordered (remdups (filter (\<lambda>k. k \<notin> fst ` set xs) (map fst ys))) = Inr bs" "ds = map only_a as @ map only_b bs"
    using assms by (auto simp: diff_certs_def certs_on_def part_def)
  have "set as = fst ` set xs - fst ` set ys" "set bs = fst ` set ys - fst ` set xs"
    using ordered_set [OF c(3)] ordered_set [OF c(4)] by auto
  then show ?thesis unfolding c by simp
qed

text \<open>The parts of a comparison, and each difference in one of them.\<close>

lemma drift_cases: "drift a b d =
  (d \<in> set (diff_fields ''system'' system_checks (part a ''system'') (part b ''system'')) \<or>
   truthy (slot (part a ''carp'') ''role'') \<and> truthy (slot (part b ''carp'') ''role'') \<and>
     d \<in> set (carp_entries (part a ''carp'') (part b ''carp'')) \<or>
   d \<in> set (diff_fields ''hasync'' hasync_checks (part a ''hasync'') (part b ''hasync'')) \<or>
   (\<exists>n. d \<in> set (service_entry (services_on a) (services_on b) n)) \<or>
   (\<exists>n. d \<in> set (gateway_entry (named_on a ''gateways'') (named_on b ''gateways'') n)) \<or>
   (\<exists>n. link_gap (named_on a ''interfaces'') (named_on b ''interfaces'') n \<and>
      d = link_entry (named_on a ''interfaces'') (named_on b ''interfaces'') n) \<or>
   d \<in> only_a ` (fst ` set (certs_on a) - fst ` set (certs_on b)) \<union>
    only_b ` (fst ` set (certs_on b) - fst ` set (certs_on a)))" (is "_ = ?parts")
proof
  assume "drift a b d"
  then show ?parts
  proof cases
    case system
    show ?thesis unfolding system(1) using diff_fieldsI [OF system(2,3)] by (rule disjI1)
  next
    case hasync
    show ?thesis unfolding hasync(1) using diff_fieldsI [OF hasync(2,3)] by (intro disjI2 disjI1)
  next
    case roles
    show ?thesis by (intro disjI2 disjI1 conjI) (use roles in \<open>simp_all only: set_carp_entries\<close>, blast?)
  next
    case maintenance
    show ?thesis by (intro disjI2 disjI1 conjI) (use maintenance in \<open>simp_all only: set_carp_entries\<close>, blast?)
  next
    case demotion
    show ?thesis by (intro disjI2 disjI1 conjI) (use demotion in \<open>simp_all only: set_carp_entries\<close>, blast?)
  next
    case running
    then show ?thesis unfolding service_entry_def set_eq_or_diff by auto
  next
    case gateway
    then show ?thesis unfolding gateway_entry_def set_eq_or_diff by auto
  next
    case link
    then show ?thesis unfolding link_gap_def link_entry_def by blast
  qed auto
next
  assume ?parts
  then consider "d \<in> set (diff_fields ''system'' system_checks (part a ''system'') (part b ''system''))"
    | "truthy (slot (part a ''carp'') ''role'')" "truthy (slot (part b ''carp'') ''role'')"
      "d \<in> set (carp_entries (part a ''carp'') (part b ''carp''))"
    | "d \<in> set (diff_fields ''hasync'' hasync_checks (part a ''hasync'') (part b ''hasync''))"
    | n where "d \<in> set (service_entry (services_on a) (services_on b) n)"
    | n where "d \<in> set (gateway_entry (named_on a ''gateways'') (named_on b ''gateways'') n)"
    | n where "link_gap (named_on a ''interfaces'') (named_on b ''interfaces'') n"
      "d = link_entry (named_on a ''interfaces'') (named_on b ''interfaces'') n"
    | k where "k \<in> fst ` set (certs_on a)" "k \<notin> fst ` set (certs_on b)" "d = only_a k"
    | k where "k \<in> fst ` set (certs_on b)" "k \<notin> fst ` set (certs_on a)" "d = only_b k" by blast
  then show "drift a b d"
  proof cases
    case 1
    then show ?thesis unfolding set_diff_fields by (auto intro: drift.system)
  next
    case 2
    from 2(3) show ?thesis unfolding set_carp_entries
      by (elim disjE conjE) (use 2 in \<open>auto intro: drift.roles drift.maintenance drift.demotion\<close>)
  next
    case 3
    then show ?thesis unfolding set_diff_fields by (auto intro: drift.hasync)
  next
    case 4
    then show ?thesis unfolding service_entry_def set_eq_or_diff by (auto intro: drift.running split: if_splits)
  next
    case 5
    then show ?thesis unfolding gateway_entry_def set_eq_or_diff by (auto intro: drift.gateway split: if_splits)
  next
    case 6
    then show ?thesis unfolding link_gap_def link_entry_def by (auto intro: drift.link)
  qed (auto intro: drift.certificate_a drift.certificate_b)
qed


definition snapshot_a :: obj where
  "snapshot_a = [(''carp'', JObj [(''role'', JStr ''master''), (''maintenance_mode'', JBool False), (''demotion'', JInt 0)]),
     (''services'', JObj [(''items'', JArr [JObj [(''name'', JStr ''unbound''), (''running'', JBool True)]])]),
     (''gateways'', JArr [JObj [(''name'', JStr ''WAN''), (''status'', JStr ''none'')]])]"

definition snapshot_b :: obj where
  "snapshot_b = [(''carp'', JObj [(''role'', JStr ''master''), (''maintenance_mode'', JBool False), (''demotion'', JInt 240)]),
     (''services'', JObj [(''items'', JArr [])]),
     (''gateways'', JArr [JObj [(''name'', JStr ''WAN''), (''status'', JStr ''none'')]])]"


end
