(* ===== verification/Plugin.thy ===== *)
theory Plugin
  imports Firewall_Routes Operations "HOL-Library.AList"
begin

text \<open>
  The plugin object, \<^verbatim>\<open>src/__init__.py\<close>: its configuration, which node a request goes to, and the
  gate every handler that may change something passes. The permission check of the host application
  and the configuration file are inputs; the cache of the resolved master is state passed along.
\<close>

section \<open>Configuration\<close>

text \<open>What reading \<^verbatim>\<open>config.json\<close> gives: no file, a failure to read or parse it, or a document.\<close>

datatype config_file = Missing | Broken | Document json

definition default_config :: obj where
  "default_config = [(''opnsense_hosts'', JArr []), (''poll_interval'', JInt 30), (''read_only'', JBool True)]"

definition is_read_only :: "obj \<Rightarrow> bool" where
  "is_read_only cfg = (map_of cfg ''read_only'' \<noteq> Some (JBool False))"

definition load_config :: "config_file \<Rightarrow> obj" where
  "load_config f = (case f of
      Document (JObj d) \<Rightarrow> dput d ''read_only'' (JBool (is_read_only d))
    | _ \<Rightarrow> default_config)"

definition host_from_dict :: "json \<Rightarrow> host res" where
  "host_from_dict h = (case h of
      JObj d \<Rightarrow> Inr \<lparr>h_name = py_str (dget_or h ''name'' (JStr ''opnsense'')), h_url = py_str (dget_or h ''url'' (JStr [])),
        h_api_key = py_str (dget_or h ''api_key'' (JStr [])), h_api_secret = py_str (dget_or h ''api_secret'' (JStr [])),
        h_verify_tls = truthy (dget_or h ''verify_tls'' (JBool True)),
        h_ca_bundle_path = (case dget h ''ca_bundle_path'' of Some v \<Rightarrow> if truthy v then Some (py_str v) else None | None \<Rightarrow> None),
        h_connect_timeout = 5, h_read_timeout = 10\<rparr>
    | _ \<Rightarrow> Inl (AttrErr ''object has no attribute get''))"

text \<open>\<^verbatim>\<open>cfg.get('opnsense_hosts') or []\<close>, and one of its members.\<close>

definition hosts_val :: "obj \<Rightarrow> json" where
  "hosts_val cfg = (case map_of cfg ''opnsense_hosts'' of Some v \<Rightarrow> if truthy v then v else JArr [] | None \<Rightarrow> JArr [])"

definition host_at :: "json \<Rightarrow> nat \<Rightarrow> json res" where
  "host_at v i = (case v of
      JArr vs \<Rightarrow> if i < length vs then Inr (vs ! i) else Inl (KeyErr ''list index out of range'')
    | JStr s \<Rightarrow> Inr (JStr (take 1 (drop i s)))
    | JObj d \<Rightarrow> Inl (KeyErr (int_str (int i)))
    | _ \<Rightarrow> Inl (TypeErr ''object is not subscriptable''))"

definition is_cluster_mode :: "obj \<Rightarrow> bool res" where
  "is_cluster_mode cfg = rbnd (py_size (hosts_val cfg)) (\<lambda>n.
     let mode = lower (py_str (dget_or (JObj cfg) ''cluster_mode'' (JStr []))) in
     Inr (if n < 2 then False
          else if mode = ''off'' then False
          else if mode \<in> {''auto'', ''cluster'', ''ha''} then True
          else truthy (dget_or (JObj cfg) ''monitor_both_nodes'' (JBool False))))"

section \<open>Resolving the master\<close>

text \<open>\<^verbatim>\<open>_master_cache\<close>; its lifetime is ten seconds of the monotonic clock.\<close>

record master_cache =
  mc_side :: "side option"
  mc_ts :: int

definition no_cache :: master_cache where
  "no_cache = \<lparr>mc_side = None, mc_ts = 0\<rparr>"

definition resolved_master_side ::
  "master_cache \<Rightarrow> host \<Rightarrow> host \<Rightarrow> string \<Rightarrow> string \<Rightarrow> (side \<times> master_cache) io" where
  "resolved_master_side mc ha hb na nb =
     bnd now_ms (\<lambda>now.
     if mc_side mc \<noteq> None \<and> now - mc_ts mc < 10000 then ret (the (mc_side mc), mc)
     else bnd (of_res (mk_client ha)) (\<lambda>ca. bnd (of_res (mk_client hb)) (\<lambda>cb.
       try_else (master_side (mk_cluster ca cb na nb)) (\<lambda>_. True)
         (\<lambda>_. ret (SideA, \<lparr>mc_side = Some SideA, mc_ts = now\<rparr>))
         (\<lambda>(s, _). ret (s, \<lparr>mc_side = Some s, mc_ts = now\<rparr>)))))"

definition pair_of :: "json \<Rightarrow> (host \<times> host \<times> string \<times> string) res" where
  "pair_of hosts = rbnd (host_at hosts 0) (\<lambda>a. rbnd (host_at hosts 1) (\<lambda>b.
     rbnd (host_from_dict a) (\<lambda>ha. rbnd (host_from_dict b) (\<lambda>hb.
     Inr (ha, hb, py_str (dget_or a ''name'' (JStr ''NODOA'')), py_str (dget_or b ''name'' (JStr ''NODOB'')))))))"

definition first_host_from_config :: "obj \<Rightarrow> master_cache \<Rightarrow> (host option \<times> master_cache) io" where
  "first_host_from_config cfg mc =
     (let hosts = hosts_val cfg in
      if \<not> truthy hosts then ret (None, mc)
      else bnd (of_res (is_cluster_mode cfg)) (\<lambda>cluster.
        if \<not> cluster then bnd (of_res (rbnd (host_at hosts 0) host_from_dict)) (\<lambda>h. ret (Some h, mc))
        else bnd (of_res (pair_of hosts)) (\<lambda>(ha, hb, na, nb).
          bnd (resolved_master_side mc ha hb na nb) (\<lambda>(s, mc'). ret (Some (if s = SideA then ha else hb), mc')))))"

definition cluster_hosts_from_config :: "obj \<Rightarrow> (host \<times> host \<times> string \<times> string) option res" where
  "cluster_hosts_from_config cfg = rbnd (is_cluster_mode cfg) (\<lambda>cluster.
     if \<not> cluster then Inr None
     else (case map_of cfg ''opnsense_hosts'' of
        None \<Rightarrow> Inl (KeyErr ''opnsense_hosts'') | Some hosts \<Rightarrow> rbnd (pair_of hosts) (\<lambda>p. Inr (Some p))))"

section \<open>The target of a request\<close>

text \<open>The dictionary of VIP states: a later row for the same VIP replaces an earlier one.\<close>

definition vip_states :: "carp_status \<Rightarrow> ((string \<times> string) \<times> string) list" where
  "vip_states cs = foldl (\<lambda>d v. AList.update (v_vhid v, v_ipaddr v) (v_status v) d) [] (cs_vhids cs)"

definition all_states :: "((string \<times> string) \<times> string) list \<Rightarrow> string \<Rightarrow> bool" where
  "all_states d s = (d \<noteq> [] \<and> list_all (\<lambda>(k, v). v = s) d)"

definition ha_pair :: "carp_status \<Rightarrow> carp_status \<Rightarrow> side res" where
  "ha_pair l r =
     (let la = vip_states l; rb = vip_states r in
      if \<not> cs_enabled l \<or> \<not> cs_enabled r \<or> la = [] \<or> set (map fst la) \<noteq> set (map fst rb) \<or>
         cs_maintenance l \<or> cs_maintenance r then
        Inl (ValueErr ''No se puede confirmar un par HA disponible con los mismos VIPs.'')
      else if all_states la ''MASTER'' \<and> all_states rb ''BACKUP'' then Inr SideA
      else if all_states la ''BACKUP'' \<and> all_states rb ''MASTER'' then Inr SideB
      else Inl (ValueErr (''Estado CARP ambiguo o mixto: no se realizar'' @ [CHR 0xC3, CHR 0xA1] @ '' ninguna escritura.'')))"

text \<open>The node and its peer. A write needs a fresh, unambiguous pair; a read may use the cached side.\<close>

definition firewall_target ::
  "obj \<Rightarrow> bool \<Rightarrow> master_cache \<Rightarrow> ((host \<times> host option) option \<times> master_cache) io" where
  "firewall_target cfg wr mc =
     (let hosts = hosts_val cfg in
      if \<not> truthy hosts then ret (None, mc)
      else bnd (of_res (is_cluster_mode cfg)) (\<lambda>cluster.
        if \<not> cluster then bnd (of_res (rbnd (host_at hosts 0) host_from_dict)) (\<lambda>h. ret (Some (h, None), mc))
        else bnd (of_res (py_size hosts)) (\<lambda>n.
          if wr \<and> n \<noteq> 2 then raise (ValueErr ''Las escrituras HA requieren exactamente dos nodos configurados.'')
          else bnd (of_res (rbnd (host_at hosts 0) host_from_dict)) (\<lambda>a.
          bnd (of_res (rbnd (host_at hosts 1) host_from_dict)) (\<lambda>b.
          if \<not> wr then bnd (resolved_master_side mc a b (h_name a) (h_name b)) (\<lambda>(s, mc').
              ret (Some (if s = SideA then (a, Some b) else (b, Some a)), mc'))
          else bnd (of_res (mk_client a)) (\<lambda>ca. bnd (collect_carp_status ca) (\<lambda>l.
               bnd (of_res (mk_client b)) (\<lambda>cb. bnd (collect_carp_status cb) (\<lambda>r.
               bnd (of_res (ha_pair l r)) (\<lambda>s.
               ret (Some (if s = SideA then (a, Some b) else (b, Some a)), mc)))))))))))"

section \<open>The gate\<close>

text \<open>
  A request as the handlers see it: its method, its query arguments, what \<^verbatim>\<open>get_json(silent=True)\<close>
  gives, the user of the session. \<open>perm\<close> is what the permission check of the host application does.
\<close>

datatype perm = Granted | Refused | Unavailable | Aborted

record web_request =
  rq_method :: string
  rq_args :: "(string \<times> string) list"
  rq_json :: "json option"
  rq_user :: "string option"

record world =
  wd_config :: config_file
  wd_perm :: perm

definition firewall_can_write :: "perm \<Rightarrow> bool" where
  "firewall_can_write p = (case p of Granted \<Rightarrow> True | _ \<Rightarrow> False)"

definition short_error :: "int \<Rightarrow> string \<Rightarrow> reply" where
  "short_error status err = (status, JObj [(''ok'', JBool False), (''error'', JStr err)])"

definition unconfigured_response :: reply where
  "unconfigured_response = refuse 400 ''unconfigured''
     (''No opnsense_hosts in config.json '' @ [CHR 0xE2, CHR 0x80, CHR 0x94] @ '' edit /opt/PegaProx/plugins/opnsense/config.json'')"

record gate =
  cx_cfg :: obj
  cx_read_only :: bool
  cx_write :: bool
  cx_body :: json
  cx_host :: host
  cx_peer :: "host option"
  cx_actor :: string

fun is_unsafe_target :: "exn \<Rightarrow> bool" where
  "is_unsafe_target (ValueErr _) = True"
| "is_unsafe_target (KeyErr _) = True"
| "is_unsafe_target (TypeErr _) = True"
| "is_unsafe_target _ = False"

text \<open>\<^verbatim>\<open>str(exc)\<close> of a \<^verbatim>\<open>KeyError\<close> is the repr of its key.\<close>

definition exc_text :: "exn \<Rightarrow> string" where
  "exc_text e = (case e of KeyErr k \<Rightarrow> repr_str k | _ \<Rightarrow> exn_str e)"

definition write_request :: "web_request \<Rightarrow> bool option \<Rightarrow> bool" where
  "write_request rq mutation = (case mutation of None \<Rightarrow> rq_method rq = ''POST'' | Some m \<Rightarrow> m)"

definition request_body :: "web_request \<Rightarrow> json" where
  "request_body rq = (case rq_json rq of None \<Rightarrow> JNull | Some v \<Rightarrow> v)"

text \<open>What refuses a request before a target is looked for.\<close>

definition gate_refusal :: "obj \<Rightarrow> perm \<Rightarrow> web_request \<Rightarrow> bool \<Rightarrow> reply option" where
  "gate_refusal cfg p rq wr =
     (if rq_method rq \<notin> {''GET'', ''POST''} then Some (short_error 405 ''method_not_allowed'')
      else if wr \<and> is_read_only cfg then
        Some (refuse 403 ''read_only'' (''El plugin est'' @ [CHR 0xC3, CHR 0xA1] @ '' configurado en modo de solo lectura.''))
      else if wr \<and> \<not> firewall_can_write p then
        Some (refuse 403 ''forbidden'' ''Se requiere el permiso plugins.manage.'')
      else if wr \<and> \<not> is_obj (request_body rq) then
        Some (refuse 400 ''bad_request'' ''Se requiere un objeto JSON.'')
      else None)"

definition management_context ::
  "world \<Rightarrow> web_request \<Rightarrow> bool option \<Rightarrow> master_cache \<Rightarrow> ((reply + gate) \<times> master_cache) io" where
  "management_context wd rq mutation mc =
     (let cfg = load_config (wd_config wd); wr = write_request rq mutation in
      case gate_refusal cfg (wd_perm wd) rq wr of
        Some r \<Rightarrow> ret (Inl r, mc)
      | None \<Rightarrow> try_else (firewall_target cfg wr mc) (\<lambda>e. is_unsafe_target e \<or> is_opn e)
          (\<lambda>e. ret (Inl (if is_opn e then refuse 502 ''ha_unavailable'' (exc_text e)
             else refuse 409 ''ha_unsafe'' (exc_text e)), mc))
          (\<lambda>(target, mc'). case target of
              None \<Rightarrow> ret (Inl unconfigured_response, mc')
            | Some (h, peer) \<Rightarrow> ret (Inr \<lparr>cx_cfg = cfg, cx_read_only = is_read_only cfg, cx_write = wr,
                cx_body = (if wr then request_body rq else JNull), cx_host = h, cx_peer = peer,
                cx_actor = (case rq_user rq of None \<Rightarrow> ''plugin'' | Some u \<Rightarrow> u)\<rparr>, mc')))"

end
