(* ===== verification/Dates.thy ===== *)
theory Dates
  imports Client
begin

text \<open>
  Dates, as \<^verbatim>\<open>_parse_days_to\<close> of \<^verbatim>\<open>src/collectors/certificates.py\<close> uses them: what \<^verbatim>\<open>datetime.strptime\<close> reads under its
  two formats, the number of a day (\<^verbatim>\<open>date.toordinal\<close>), and the whole days up to a date. Months are those of the C
  locale. An instant is a number of milliseconds from the first day of the year 1, as if that were day 0.
\<close>

section \<open>The calendar\<close>

definition leap_year :: "int \<Rightarrow> bool" where
  "leap_year y = (y mod 4 = 0 \<and> (y mod 100 \<noteq> 0 \<or> y mod 400 = 0))"

definition month_days :: "int \<Rightarrow> nat \<Rightarrow> int" where
  "month_days y m = (if m = 2 \<and> leap_year y then 29 else [31, 28, 31, 30, 31, 30, 31, 31, 30, 31, 30, 31] ! (m - 1))"

definition days_before_year :: "int \<Rightarrow> int" where
  "days_before_year y = (let p = y - 1 in p * 365 + p div 4 - p div 100 + p div 400)"

definition days_before_month :: "int \<Rightarrow> nat \<Rightarrow> int" where
  "days_before_month y m = sum_list (map (month_days y) [1..<m])"

definition ordinal :: "int \<Rightarrow> nat \<Rightarrow> int \<Rightarrow> int" where
  "ordinal y m d = days_before_year y + days_before_month y m + d"

record moment =
  mo_year :: int
  mo_month :: nat
  mo_day :: int
  mo_hour :: int
  mo_minute :: int
  mo_second :: int

text \<open>What the constructor of \<^verbatim>\<open>datetime\<close> accepts.\<close>

definition valid_moment :: "moment \<Rightarrow> bool" where
  "valid_moment t = (1 \<le> mo_year t \<and> mo_year t \<le> 9999 \<and> 1 \<le> mo_month t \<and> mo_month t \<le> 12 \<and>
     1 \<le> mo_day t \<and> mo_day t \<le> month_days (mo_year t) (mo_month t) \<and> 0 \<le> mo_hour t \<and> mo_hour t \<le> 23 \<and>
     0 \<le> mo_minute t \<and> mo_minute t \<le> 59 \<and> 0 \<le> mo_second t \<and> mo_second t \<le> 59)"

definition instant :: "moment \<Rightarrow> int" where
  "instant t = 1000 * (86400 * ordinal (mo_year t) (mo_month t) (mo_day t) + 3600 * mo_hour t + 60 * mo_minute t + mo_second t)"

section \<open>Reading a date\<close>

definition month_names :: "string list" where
  "month_names = [''jan'', ''feb'', ''mar'', ''apr'', ''may'', ''jun'', ''jul'', ''aug'', ''sep'', ''oct'', ''nov'', ''dec'']"

text \<open>Every reader gives what it read and what is left; the expression of \<^verbatim>\<open>strptime\<close> never has a choice here, as digits
  are followed by no digit.\<close>

type_synonym 'a text_reader = "string \<Rightarrow> ('a \<times> string) option"

definition read_month :: "nat text_reader" where
  "read_month s = (case find (\<lambda>m. month_names ! m = lower (take 3 s)) [0..<12] of
      Some m \<Rightarrow> Some (Suc m, drop 3 s) | None \<Rightarrow> None)"

definition read_gap :: "unit text_reader" where
  "read_gap s = (if s \<noteq> [] \<and> is_space (hd s) then Some ((), dropWhile is_space s) else None)"

definition read_char :: "char \<Rightarrow> unit text_reader" where
  "read_char c s = (if s \<noteq> [] \<and> hd s = c then Some ((), tl s) else None)"

definition read_number :: "nat \<Rightarrow> nat \<Rightarrow> int \<Rightarrow> int \<Rightarrow> int text_reader" where
  "read_number fewest most lo hi s = (let ds = takeWhile is_digit s; n = dec_val 0 ds in
     if fewest \<le> length ds \<and> length ds \<le> most \<and> lo \<le> n \<and> n \<le> hi then Some (n, drop (length ds) s) else None)"

definition read_bnd :: "'a text_reader \<Rightarrow> ('a \<Rightarrow> 'b text_reader) \<Rightarrow> 'b text_reader" where
  "read_bnd p f s = (case p s of None \<Rightarrow> None | Some (x, r) \<Rightarrow> f x r)"

text \<open>\<^verbatim>\<open>%b %d %H:%M:%S %Y\<close>. The expression allows the seconds 60 and 61; the constructor then refuses them.\<close>

definition read_moment :: "moment text_reader" where
  "read_moment =
     read_bnd read_month (\<lambda>m. read_bnd read_gap (\<lambda>_. read_bnd (read_number 1 2 1 31) (\<lambda>d. read_bnd read_gap (\<lambda>_.
     read_bnd (read_number 1 2 0 23) (\<lambda>hour. read_bnd (read_char (CHR '':'')) (\<lambda>_.
     read_bnd (read_number 1 2 0 59) (\<lambda>minute. read_bnd (read_char (CHR '':'')) (\<lambda>_.
     read_bnd (read_number 1 2 0 61) (\<lambda>second. read_bnd read_gap (\<lambda>_. read_bnd (read_number 4 4 0 9999) (\<lambda>year.
     (\<lambda>r. Some (\<lparr>mo_year = year, mo_month = m, mo_day = d, mo_hour = hour, mo_minute = minute, mo_second = second\<rparr>, r)))))))))))))"

text \<open>The whole text must be a date, with a zone at its end or without one.\<close>

definition accept_moment :: "moment option \<Rightarrow> moment option" where
  "accept_moment t = (case t of Some x \<Rightarrow> if valid_moment x then Some x else None | None \<Rightarrow> None)"

definition strptime_zone :: "string list \<Rightarrow> string \<Rightarrow> moment option" where
  "strptime_zone zones s = accept_moment (case read_bnd read_moment (\<lambda>t. read_bnd read_gap (\<lambda>_ r. Some (t, r))) s of
      Some (t, z) \<Rightarrow> if lower z \<in> set ([''utc'', ''gmt''] @ zones) then Some t else None | None \<Rightarrow> None)"

definition strptime_plain :: "string \<Rightarrow> moment option" where
  "strptime_plain s = accept_moment (case read_moment s of Some (t, []) \<Rightarrow> Some t | _ \<Rightarrow> None)"

text \<open>\<^verbatim>\<open>_parse_days_to\<close>: a date that is not read counts as today.\<close>

definition parse_days_to :: "string list \<Rightarrow> int \<Rightarrow> string \<Rightarrow> int" where
  "parse_days_to zones now s =
     (if s = [] then 0
      else (case (case strptime_zone zones (strip s) of Some t \<Rightarrow> Some t | None \<Rightarrow> strptime_plain (py_take 24 (strip s))) of
          Some t \<Rightarrow> (instant t - now) div 86400000 | None \<Rightarrow> 0))"

end
