(* ===== verification/Collectors.thy ===== *)
theory Collectors
  imports Carp Dates
begin

text \<open>
  The read-only collectors of \<^verbatim>\<open>src/collectors/\<close>: each asks the firewall and projects its answer to
  a dictionary of fixed shape. A result is the dictionary itself, as JSON. The time zone of the machine is an
  argument, \<open>py_lib\<close>.
\<close>

section \<open>Python values\<close>

text \<open>\<open>pl_zones\<close> are the names of the time zone of the machine, in small letters.\<close>

record py_lib =
  pl_zones :: "string list"

text \<open>\<^verbatim>\<open>int(str(value).strip())\<close>, without its \<^verbatim>\<open>ValueError\<close>.\<close>

definition text_int :: "json \<Rightarrow> int option" where
  "text_int v = int_of_text (strip (py_str v))"

definition safe_int :: "json \<Rightarrow> json" where
  "safe_int v = JInt (case text_int v of Some n \<Rightarrow> n | None \<Rightarrow> 0)"

definition one_flag :: "json \<Rightarrow> bool" where
  "one_flag v = (text_int v = Some 1)"

text \<open>The characters of a text: a byte and its continuation bytes.\<close>

function py_chars :: "string \<Rightarrow> string list" where
  "py_chars [] = []"
| "py_chars (c # cs) = (c # takeWhile (\<lambda>d. code d div 64 = 2) cs) # py_chars (dropWhile (\<lambda>d. code d div 64 = 2) cs)"
  by pat_completeness auto
termination
  by (relation "measure length") (auto simp: le_imp_less_Suc length_dropWhile_le)

definition py_iter :: "json \<Rightarrow> json list res" where
  "py_iter v = (case v of JArr vs \<Rightarrow> Inr vs | JObj d \<Rightarrow> Inr (map (JStr \<circ> fst) d) | JStr s \<Rightarrow> Inr (map JStr (py_chars s))
     | _ \<Rightarrow> Inl (TypeErr ''object is not iterable''))"

text \<open>\<^verbatim>\<open>list(v or [])\<close>.\<close>

definition list_or_empty :: "json option \<Rightarrow> json list res" where
  "list_or_empty v = (case v of None \<Rightarrow> Inr [] | Some x \<Rightarrow> if truthy x then py_iter x else Inr [])"

definition as_dict :: "json \<Rightarrow> obj res" where
  "as_dict v = (case v of JObj d \<Rightarrow> Inr d | _ \<Rightarrow> Inl (AttrErr ''object has no attribute get''))"

fun as_dicts :: "json list \<Rightarrow> obj list res" where
  "as_dicts [] = Inr []"
| "as_dicts (v # vs) = rbnd (as_dict v) (\<lambda>d. rbnd (as_dicts vs) (\<lambda>ds. Inr (d # ds)))"

text \<open>\<^verbatim>\<open>payload.get(k, []) if isinstance(payload, dict) else []\<close>, then every row as a dictionary.\<close>

definition rows_at :: "json \<Rightarrow> string \<Rightarrow> obj list res" where
  "rows_at payload k = (case dget payload k of None \<Rightarrow> Inr [] | Some v \<Rightarrow> rbnd (py_iter v) as_dicts)"

definition list_rows :: "json \<Rightarrow> obj list res" where
  "list_rows v = (case v of JArr vs \<Rightarrow> as_dicts vs | _ \<Rightarrow> Inr [])"

definition str_of :: "obj \<Rightarrow> string \<Rightarrow> json" where
  "str_of d k = JStr (py_str (dget_or (JObj d) k (JStr [])))"

definition val_of :: "obj \<Rightarrow> string \<Rightarrow> json" where
  "val_of d k = dget_or (JObj d) k JNull"

section \<open>System\<close>

definition cpu_name :: "json \<Rightarrow> json res" where
  "cpu_name v = (if \<not> truthy v then Inr (JStr []) else (case v of
      JArr (x # xs) \<Rightarrow> Inr x
    | JStr s \<Rightarrow> Inr (JStr (hd (py_chars s)))
    | JObj d \<Rightarrow> Inl (KeyErr ''0'')
    | _ \<Rightarrow> Inl (TypeErr ''object is not subscriptable'')))"

definition parse_loadavg :: "json \<Rightarrow> json res" where
  "parse_loadavg v = (case (if truthy v then v else JStr []) of
      JStr s \<Rightarrow> Inr (JArr (map JFloat (List.map_filter float_text (map strip (split_on (CHR '','') s)))))
    | _ \<Rightarrow> Inl (AttrErr ''object has no attribute split''))"

text \<open>\<^verbatim>\<open>a / b * 100\<close>, rounded, or 0.0 where \<^verbatim>\<open>b\<close> is 0; a quotient that is too large raises \<^verbatim>\<open>OverflowError\<close>.\<close>

definition percent :: "int \<Rightarrow> int \<Rightarrow> nat \<Rightarrow> json res" where
  "percent a b n = (if b = 0 then Inr (JFloat ''0.0'') else (case percent_text a b n of
      None \<Rightarrow> Inl (ArithErr ''integer division result too large for a float'') | Some t \<Rightarrow> Inr (JFloat t)))"

definition int_at :: "obj \<Rightarrow> string \<Rightarrow> int" where
  "int_at d k = (case text_int (val_of d k) of Some n \<Rightarrow> n | None \<Rightarrow> 0)"

definition system_of :: "json \<Rightarrow> json \<Rightarrow> json \<Rightarrow> json \<Rightarrow> json \<Rightarrow> json res" where
  "system_of info rsrc tm pf cpu =
     rbnd (if is_obj rsrc then as_dict (dget_or rsrc ''memory'' (JObj [])) else Inr []) (\<lambda>mem.
     let all_mb = int_at mem ''total_frmt''; used_mb = int_at mem ''used_frmt'' in
     rbnd (percent used_mb all_mb 2) (\<lambda>used_pct. rbnd (as_dict pf) (\<lambda>pf.
     let cur = int_at pf ''current''; most = int_at pf ''limit'' in
     rbnd (percent cur most 4) (\<lambda>pf_pct. rbnd (as_dict info) (\<lambda>info. rbnd (list_or_empty (map_of info ''versions'')) (\<lambda>versions.
     rbnd (cpu_name cpu) (\<lambda>cpu_type. rbnd (as_dict tm) (\<lambda>tm.
     rbnd (parse_loadavg (dget_or (JObj tm) ''loadavg'' (JStr []))) (\<lambda>load.
     Inr (JObj [(''name'', str_of info ''name''), (''versions'', JArr versions), (''cpu_type'', cpu_type),
       (''uptime'', str_of tm ''uptime''), (''boottime'', str_of tm ''boottime''), (''config_change'', str_of tm ''config''),
       (''loadavg'', load), (''memory_total_mb'', JInt all_mb), (''memory_used_mb'', JInt used_mb),
       (''memory_used_pct'', used_pct), (''arc_mb'', JInt (int_at mem ''arc_frmt'')),
       (''pf_states_current'', JInt cur), (''pf_states_limit'', JInt most), (''pf_states_pct'', pf_pct)]))))))))))"

definition collect_system :: "client \<Rightarrow> json io" where
  "collect_system c =
     bnd (client_get c ''/api/diagnostics/system/system_information'' []) (\<lambda>info.
     bnd (client_get c ''/api/diagnostics/system/systemResources'' []) (\<lambda>rsrc.
     bnd (client_get c ''/api/diagnostics/system/systemTime'' []) (\<lambda>tm.
     bnd (client_get c ''/api/diagnostics/firewall/pf_states'' []) (\<lambda>pf.
     bnd (try_catch (client_get c ''/api/diagnostics/cpu_usage/getCPUType'' []) (\<lambda>_. True) (\<lambda>_. ret (JArr []))) (\<lambda>cpu.
     of_res (system_of info rsrc tm pf cpu))))))"

section \<open>Interfaces\<close>

text \<open>\<^verbatim>\<open>[LAN] (vtnet0) / mac\<close> gives the name and the label; any other key is a name.\<close>

definition parse_stat_key :: "string \<Rightarrow> string \<times> string" where
  "parse_stat_key k = (case k of
      [] \<Rightarrow> (k, [])
    | c # cs \<Rightarrow>
        (let label = takeWhile (\<lambda>x. x \<noteq> CHR '']'') cs; cs1 = drop (length label) cs;
             cs2 = dropWhile is_space (drop 1 cs1);
             nm = takeWhile (\<lambda>x. x \<noteq> CHR '')'') (drop 1 cs2); cs3 = drop (length nm) (drop 1 cs2)
         in if c = CHR ''['' \<and> label \<noteq> [] \<and> cs1 \<noteq> [] \<and> cs2 \<noteq> drop 1 cs1 \<and> take 1 cs2 = ''('' \<and> nm \<noteq> [] \<and> cs3 \<noteq> []
            then (nm, label) else (k, [])))"

fun stats_by_name :: "obj \<Rightarrow> (string \<times> obj) list res" where
  "stats_by_name [] = Inr []"
| "stats_by_name ((k, v) # kvs) = (case v of
      JObj d \<Rightarrow> rbnd (stats_by_name kvs) (\<lambda>r. Inr (r @ [(fst (parse_stat_key k), dput d ''_label'' (JStr (snd (parse_stat_key k))))]))
    | _ \<Rightarrow> Inl (TypeErr ''object is not a mapping''))"

definition interface_of :: "(string \<times> obj) list \<Rightarrow> string \<Rightarrow> json \<Rightarrow> json res" where
  "interface_of stats n v =
     (let s = (case map_of stats n of Some d \<Rightarrow> d | None \<Rightarrow> []) in
      rbnd (as_dict v) (\<lambda>c. rbnd (list_or_empty (map_of c ''flags'')) (\<lambda>flags.
      rbnd (list_or_empty (map_of c ''ipv4'')) (\<lambda>ipv4. rbnd (list_or_empty (map_of c ''ipv6'')) (\<lambda>ipv6.
      Inr (JObj ([(''name'', JStr n), (''label'', str_of s ''_label''), (''macaddr'', str_of c ''macaddr''), (''flags'', JArr flags),
        (''ipv4'', JArr ipv4), (''ipv6'', JArr ipv6),
        (''mtu'', safe_int (dget_or (JObj s) ''mtu'' (dget_or (JObj c) ''mtu'' (JInt 0))))] @
        map (\<lambda>(k, src). (k, safe_int (val_of s src)))
          [(''received_bytes'', ''received-bytes''), (''sent_bytes'', ''sent-bytes''), (''received_packets'', ''received-packets''),
           (''sent_packets'', ''sent-packets''), (''received_errors'', ''received-errors''), (''send_errors'', ''send-errors''),
           (''dropped_packets'', ''dropped-packets''), (''collisions'', ''collisions'')] @
        [(''is_up'', JBool (JStr ''up'' \<in> set flags \<and> JStr ''running'' \<in> set flags))])))))))"

fun interfaces_of :: "(string \<times> obj) list \<Rightarrow> obj \<Rightarrow> json list res" where
  "interfaces_of stats [] = Inr []"
| "interfaces_of stats ((n, v) # kvs) = rbnd (interface_of stats n v) (\<lambda>x. rbnd (interfaces_of stats kvs) (\<lambda>xs. Inr (x # xs)))"

definition interface_list :: "json \<Rightarrow> json \<Rightarrow> json res" where
  "interface_list cfg stats =
     rbnd (if is_obj stats then (case dget_or stats ''statistics'' (JObj []) of
               JObj d \<Rightarrow> Inr d | _ \<Rightarrow> Inl (AttrErr ''object has no attribute items'')) else Inr []) (\<lambda>raw_stats.
     rbnd (stats_by_name raw_stats) (\<lambda>by_name.
     rbnd (case cfg of JObj d \<Rightarrow> interfaces_of by_name d | _ \<Rightarrow> Inr []) (\<lambda>xs. Inr (JArr xs))))"

definition collect_interfaces :: "client \<Rightarrow> json io" where
  "collect_interfaces c =
     bnd (client_get c ''/api/diagnostics/interface/getInterfaceConfig'' []) (\<lambda>cfg.
     bnd (client_get c ''/api/diagnostics/interface/getInterfaceStatistics'' []) (\<lambda>stats.
     of_res (interface_list cfg stats)))"

section \<open>Gateways, services\<close>

text \<open>\<^verbatim>\<open>s.replace(p, '')\<close> for a text \<^verbatim>\<open>p\<close> that is not empty.\<close>

function remove_sub :: "string \<Rightarrow> string \<Rightarrow> string" where
  "remove_sub p [] = []"
| "remove_sub p (c # cs) = (if p \<noteq> [] \<and> starts_with p (c # cs) then remove_sub p (drop (length p) (c # cs)) else c # remove_sub p cs)"
  by pat_completeness auto
termination
  by (relation "measure (\<lambda>(p, s). length s)") auto

definition parse_metric :: "string \<Rightarrow> json" where
  "parse_metric s = JFloat (if s = [] \<or> s = ''~'' then ''0.0''
     else (case float_text (strip (remove_sub ''%'' (remove_sub ''ms'' s))) of Some r \<Rightarrow> r | None \<Rightarrow> ''0.0''))"

definition gateway_of :: "obj \<Rightarrow> json" where
  "gateway_of g =
     (let human = py_str (dget_or (JObj g) ''status_translated'' (JStr []));
          metric = (\<lambda>k. parse_metric (py_str (dget_or (JObj g) k (JStr [])))) in
      JObj [(''name'', str_of g ''name''), (''address'', str_of g ''address''), (''monitor'', str_of g ''monitor''),
        (''status'', JStr (py_str (dget_or (JObj g) ''status'' (JStr ''none'')))), (''status_human'', JStr human),
        (''delay_ms'', metric ''delay''), (''loss_pct'', metric ''loss''), (''stddev_ms'', metric ''stddev''),
        (''is_up'', JBool (lower human = ''online''))])"

definition collect_gateways :: "client \<Rightarrow> json io" where
  "collect_gateways c = bnd (client_get c ''/api/routes/gateway/status'' []) (\<lambda>p.
     of_res (rbnd (rows_at p ''items'') (\<lambda>gs. Inr (JArr (map gateway_of gs)))))"

definition service_of :: "obj \<Rightarrow> json" where
  "service_of r = JObj [(''id'', str_of r ''id''), (''name'', str_of r ''name''), (''description'', str_of r ''description''),
     (''running'', JBool (one_flag (val_of r ''running''))), (''locked'', JBool (one_flag (val_of r ''locked'')))]"

definition services_of :: "obj list \<Rightarrow> json" where
  "services_of rows = (let up = length (filter (\<lambda>r. one_flag (val_of r ''running'')) rows) in
     JObj [(''total'', JInt (int (length rows))), (''running'', JInt (int up)), (''stopped'', JInt (int (length rows) - int up)),
       (''items'', JArr (map service_of rows))])"

definition collect_services :: "client \<Rightarrow> json io" where
  "collect_services c = bnd (client_get c ''/api/core/service/search'' []) (\<lambda>p.
     of_res (rbnd (rows_at p ''rows'') (\<lambda>rs. Inr (services_of rs))))"

section \<open>Synchronisation, certificates\<close>

definition selected_value :: "json \<Rightarrow> string" where
  "selected_value v = (case v of
      JObj d \<Rightarrow> (case find (\<lambda>(k, x). is_obj x \<and> truthy_opt (dget x ''selected'')) d of
          Some (k, x) \<Rightarrow> py_str (dget_or x ''value'' (JStr [])) | None \<Rightarrow> [])
    | _ \<Rightarrow> [])"

definition hasync_snapshot :: "obj \<Rightarrow> json" where
  "hasync_snapshot h =
     (let iface = selected_value (val_of h ''pfsyncinterface'') in
      JObj [(''enabled'', JBool (iface \<noteq> [] \<and> lower iface \<noteq> ''disabled'')), (''pfsync_interface'', JStr iface),
        (''pfsync_peer_ip'', str_of h ''pfsyncpeerip''), (''pfsync_version'', JStr (selected_value (val_of h ''pfsyncversion''))),
        (''sync_to_ip'', str_of h ''synchronizetoip''),
        (''sync_compatibility'', JStr (selected_value (val_of h ''synchronizecompatibility''))),
        (''sync_disable_preempt'', JBool (one_flag (val_of h ''disablepreempt''))),
        (''sync_disconnect_ppps'', JBool (one_flag (val_of h ''disconnectppps'')))])"

definition collect_hasync :: "client \<Rightarrow> json io" where
  "collect_hasync c = bnd (client_get c ''/api/core/hasync/get'' []) (\<lambda>p.
     of_res (rbnd (if is_obj p then as_dict (dget_or p ''hasync'' (JObj [])) else Inr []) (\<lambda>h. Inr (hasync_snapshot h))))"

definition cert_flag :: "json \<Rightarrow> bool" where
  "cert_flag v = (case text_int v of Some n \<Rightarrow> n \<noteq> 0 | None \<Rightarrow> v = JBool True)"

definition or_empty :: "json \<Rightarrow> string" where
  "or_empty v = (if truthy v then py_str v else [])"

definition cert_of :: "py_lib \<Rightarrow> int \<Rightarrow> obj \<Rightarrow> json" where
  "cert_of lib now r =
     (let valid_to = or_empty (val_of r ''valid_to'') in
      JObj [(''uuid'', str_of r ''uuid''), (''name'', str_of r ''name''), (''description'', str_of r ''descr''),
        (''commonname'', str_of r ''commonname''), (''valid_from'', str_of r ''valid_from''), (''valid_to'', JStr valid_to),
        (''days_to_expiry'', JInt (parse_days_to (pl_zones lib) now valid_to)),
        (''in_use'', JBool (cert_flag (val_of r ''in_use''))), (''is_user'', JBool (cert_flag (val_of r ''is_user''))),
        (''cert_type'', str_of r ''cert_type''), (''digest'', str_of r ''digest'')])"

definition collect_certificates :: "py_lib \<Rightarrow> client \<Rightarrow> json list io" where
  "collect_certificates lib c = bnd (client_get c ''/api/trust/cert/search'' []) (\<lambda>p.
     bnd instant_now (\<lambda>now. of_res (rbnd (rows_at p ''rows'') (\<lambda>rs. Inr (map (cert_of lib now) rs)))))"

section \<open>VPN\<close>

definition first_true :: "obj \<Rightarrow> string list \<Rightarrow> json" where
  "first_true row ks = JStr (case find (\<lambda>k. truthy_opt (map_of row k)) ks of Some k \<Rightarrow> py_str (val_of row k) | None \<Rightarrow> [])"

definition peer_of :: "string \<Rightarrow> obj \<Rightarrow> string list \<Rightarrow> string list \<Rightarrow> json" where
  "peer_of kind row name_keys remote_keys =
     (let enabled = dget_or (JObj row) ''enabled'' (dget_or (JObj row) ''status'' (JStr [])) in
      JObj [(''type'', JStr kind), (''name'', first_true row name_keys),
        (''enabled'', JBool (one_flag enabled \<or> lower (py_str enabled) \<in> {''true'', ''yes''})),
        (''connected'', JBool (case map_of row ''peer-status'' of
            Some s \<Rightarrow> if kind = ''wireguard'' then lower (py_str s) = ''online''
              else one_flag (dget_or (JObj row) ''connected'' (dget_or (JObj row) ''running'' (JStr [])))
          | None \<Rightarrow> one_flag (dget_or (JObj row) ''connected'' (dget_or (JObj row) ''running'' (JStr []))))),
        (''remote_address'', first_true row remote_keys), (''raw'', JObj row)])"

text \<open>\<^verbatim>\<open>(v or {}).get(..)\<close>.\<close>

definition dict_or_empty :: "json \<Rightarrow> obj res" where
  "dict_or_empty v = (if truthy v then as_dict v else Inr [])"

definition wireguard_enabled :: "json \<Rightarrow> bool res" where
  "wireguard_enabled general = rbnd (dict_or_empty general) (\<lambda>g.
     rbnd (dict_or_empty (dget_or (JObj g) ''general'' (JObj []))) (\<lambda>g'. Inr (one_flag (dget_or (JObj g') ''enabled'' (JInt 0)))))"

definition collect_wireguard :: "client \<Rightarrow> (bool \<times> json list) io" where
  "collect_wireguard c =
     bnd (client_get c ''/api/wireguard/general/get'' []) (\<lambda>general.
     bnd (of_res (wireguard_enabled general)) (\<lambda>enabled.
     bnd (client_get c ''/api/wireguard/service/show'' []) (\<lambda>shown.
     of_res (rbnd (rows_at shown ''rows'') (\<lambda>rs. Inr (enabled,
       map (\<lambda>r. peer_of ''wireguard'' r [''name'', ''instance''] [''endpoint'', ''endpoint_address''])
         (filter (\<lambda>r. val_of r ''type'' \<noteq> JStr ''interface'') rs)))))))"

definition collect_ipsec :: "client \<Rightarrow> json list io" where
  "collect_ipsec c = bnd (client_get c ''/api/ipsec/sessions/searchPhase1'' []) (\<lambda>p.
     of_res (rbnd (rows_at p ''rows'') (\<lambda>rs. Inr (map (\<lambda>r. peer_of ''ipsec'' r [''name'', ''id''] [''remote-host'', ''remote_addr'']) rs))))"

definition collect_openvpn :: "client \<Rightarrow> json list io" where
  "collect_openvpn c = bnd (client_get c ''/api/openvpn/service/searchSessions'' []) (\<lambda>p.
     of_res (rbnd (rows_at p ''rows'') (\<lambda>rs. Inr (map (\<lambda>r.
       peer_of ''openvpn'' r [''description'', ''common_name'', ''id''] [''real_address'', ''virtual_addr'']) rs))))"

definition collect_vpn :: "client \<Rightarrow> json io" where
  "collect_vpn c = bnd (collect_wireguard c) (\<lambda>(enabled, wg). bnd (collect_ipsec c) (\<lambda>p1. bnd (collect_openvpn c) (\<lambda>ov.
     ret (JObj [(''wireguard_enabled'', JBool enabled), (''wireguard_peers'', JArr wg), (''ipsec_phase1'', JArr p1),
       (''openvpn_sessions'', JArr ov)]))))"

section \<open>Routes, neighbours, firewall log\<close>

definition route_of :: "obj \<Rightarrow> json" where
  "route_of r = JObj [(''proto'', str_of r ''proto''), (''destination'', str_of r ''destination''), (''gateway'', str_of r ''gateway''),
     (''flags'', str_of r ''flags''), (''netif'', str_of r ''netif''), (''interface'', str_of r ''intf_description''),
     (''mtu'', safe_int (dget_or (JObj r) ''mtu'' (JInt 0))), (''expire'', str_of r ''expire'')]"

definition collect_routes :: "client \<Rightarrow> json io" where
  "collect_routes c = bnd (client_get c ''/api/diagnostics/interface/getRoutes'' []) (\<lambda>v.
     of_res (rbnd (list_rows v) (\<lambda>rs. Inr (JArr (map route_of rs)))))"

definition neighbor_of :: "string \<Rightarrow> obj \<Rightarrow> json" where
  "neighbor_of family r = JObj [(''ip'', str_of r ''ip''), (''mac'', str_of r ''mac''), (''interface'', str_of r ''intf_description''),
     (''interface_name'', str_of r ''intf''), (''permanent'', JBool (truthy_opt (map_of r ''permanent''))),
     (''expired'', JBool (truthy_opt (map_of r ''expired''))), (''manufacturer'', str_of r ''manufacturer''),
     (''hostname'', str_of r ''hostname''), (''family'', JStr family)]"

definition collect_arp :: "client \<Rightarrow> json io" where
  "collect_arp c = bnd (client_get c ''/api/diagnostics/interface/getArp'' []) (\<lambda>v.
     of_res (rbnd (list_rows v) (\<lambda>rs. Inr (JArr (map (neighbor_of ''ipv4'') rs)))))"

definition collect_ndp :: "client \<Rightarrow> json io" where
  "collect_ndp c = bnd (client_get c ''/api/diagnostics/interface/getNdp'' []) (\<lambda>v.
     of_res (rbnd (list_rows v) (\<lambda>rs. Inr (JArr (map (neighbor_of ''ipv6'') rs)))))"

definition log_entry_of :: "obj \<Rightarrow> json" where
  "log_entry_of r = JObj [(''timestamp'', str_of r ''__timestamp__''), (''interface'', str_of r ''interface''),
     (''action'', str_of r ''action''), (''direction'', str_of r ''dir''), (''rule_label'', str_of r ''label''),
     (''src'', str_of r ''src''), (''dst'', str_of r ''dst''),
     (''protocol'', JStr (py_str (dget_or (JObj r) ''protoname'' (dget_or (JObj r) ''protonum'' (JStr []))))),
     (''ip_version'', str_of r ''ipversion''), (''length'', safe_int (dget_or (JObj r) ''length'' (JInt 0)))]"

definition collect_firewall_log :: "client \<Rightarrow> int \<Rightarrow> json io" where
  "collect_firewall_log c most = bnd (client_get c (''/api/diagnostics/firewall/log?limit='' @ int_str most) []) (\<lambda>v.
     of_res (rbnd (list_rows v) (\<lambda>rs. Inr (JArr (map log_entry_of rs)))))"

section \<open>CARP as JSON\<close>

definition role_name :: "carp_role \<Rightarrow> string" where
  "role_name r = (case r of RMaster \<Rightarrow> ''master'' | RBackup \<Rightarrow> ''backup'' | RDisabled \<Rightarrow> ''disabled'' | RUnknown \<Rightarrow> ''unknown'')"

definition vhid_json :: "carp_vhid \<Rightarrow> json" where
  "vhid_json v = JObj [(''vhid'', JStr (v_vhid v)), (''interface'', JStr (v_interface v)), (''ipaddr'', JStr (v_ipaddr v)),
     (''status'', JStr (v_status v)), (''advbase'', JStr (v_advbase v)), (''advskew'', JStr (v_advskew v))]"

definition carp_json :: "carp_status \<Rightarrow> json" where
  "carp_json cs = JObj [(''role'', JStr (role_name (cs_role cs))), (''enabled'', JBool (cs_enabled cs)),
     (''maintenance_mode'', JBool (cs_maintenance cs)), (''demotion'', JInt (cs_demotion cs)),
     (''status_msg'', JStr (cs_status_msg cs)), (''vhids'', JArr (map vhid_json (cs_vhids cs)))]"

section \<open>Collecting never writes\<close>

lemma read_only_instant [trace_intros]: "read_only_io instant_now"
  by (auto simp: read_only_io_def runs_def instant_now_def)

lemma read_only_collectors [trace_intros]:
  "read_only_io (collect_system c)" "read_only_io (collect_interfaces c)" "read_only_io (collect_gateways c)"
  "read_only_io (collect_services c)" "read_only_io (collect_hasync c)" "read_only_io (collect_certificates lib c)"
  "read_only_io (collect_routes c)" "read_only_io (collect_arp c)" "read_only_io (collect_ndp c)"
  "read_only_io (collect_firewall_log c n)" "read_only_io (collect_ipsec c)" "read_only_io (collect_openvpn c)"
  unfolding collect_system_def collect_interfaces_def collect_gateways_def collect_services_def collect_hasync_def
    collect_certificates_def collect_routes_def collect_arp_def collect_ndp_def collect_firewall_log_def
    collect_ipsec_def collect_openvpn_def
  by (intro trace_intros)+

lemma read_only_vpn [trace_intros]: "read_only_io (collect_wireguard c)" "read_only_io (collect_vpn c)"
proof -
  show wg: "read_only_io (collect_wireguard c)" unfolding collect_wireguard_def by (intro trace_intros)
  show "read_only_io (collect_vpn c)" unfolding collect_vpn_def by (intro trace_intros wg) (auto split: prod.splits intro!: trace_intros)
qed

end
