(* ===== verification/Metrics.thy ===== *)
theory Metrics
  imports Plugin Collectors
begin

text \<open>
  The metrics route: \<^verbatim>\<open>src/metrics/exporter.py\<close>, which renders a snapshot of a firewall as Prometheus text, and its
  handler \<^verbatim>\<open>_h_metrics\<close> of \<^verbatim>\<open>src/__init__.py\<close>.
\<close>

section \<open>Lines\<close>

definition replace_with :: "char \<Rightarrow> string \<Rightarrow> string \<Rightarrow> string" where
  "replace_with c t s = concat (map (\<lambda>x. if x = c then t else [x]) s)"

definition metric_escape :: "string \<Rightarrow> string" where
  "metric_escape s = replace_with (CHR 0x22) [CHR 0x5C, CHR 0x22]
     (replace_with (CHR 0x0A) (CHR 0x5C # ''n'') (replace_with (CHR 0x5C) [CHR 0x5C, CHR 0x5C] s))"

text \<open>The value is formatted as \<^verbatim>\<open>str\<close> does; every label has a text.\<close>

definition metric_label :: "string \<times> string \<Rightarrow> string" where
  "metric_label = (\<lambda>(k, v). k @ ''='' @ CHR 0x22 # metric_escape v @ [CHR 0x22])"

definition metric_line :: "string \<Rightarrow> json \<Rightarrow> (string \<times> string) list \<Rightarrow> string" where
  "metric_line name v labels =
     (if labels = [] then name @ '' '' @ py_str v
      else name @ ''{'' @ join '','' (map metric_label labels) @ ''} '' @ py_str v)"

definition metric_section :: "string \<Rightarrow> string \<Rightarrow> string \<Rightarrow> string list" where
  "metric_section name kind about = [''# HELP '' @ name @ '' '' @ about, ''# TYPE '' @ name @ '' '' @ kind]"

text \<open>The lines, joined and ended by newlines.\<close>

definition exposition :: "string list \<Rightarrow> string" where
  "exposition ls = join [CHR 0x0A] ls @ [CHR 0x0A]"

section \<open>Rendering\<close>

text \<open>Reading what a collector returned: a field, its text, its number, a list of objects.\<close>

definition field_at :: "json \<Rightarrow> string \<Rightarrow> json" where
  "field_at v k = dget_or v k JNull"

definition text_at_key :: "json \<Rightarrow> string \<Rightarrow> string" where
  "text_at_key v k = py_str (field_at v k)"

definition int_times :: "json \<Rightarrow> int \<Rightarrow> json" where
  "int_times v n = (case v of JInt i \<Rightarrow> JInt (i * n) | _ \<Rightarrow> v)"

definition quotient :: "json \<Rightarrow> int \<Rightarrow> json" where
  "quotient v n = (case v of JFloat r \<Rightarrow> JFloat (quotient_text r n) | _ \<Rightarrow> v)"

definition up_flag :: "bool \<Rightarrow> json" where
  "up_flag b = JInt (if b then 1 else 0)"

definition list_at :: "json \<Rightarrow> json list" where
  "list_at v = (case v of JArr vs \<Rightarrow> vs | _ \<Rightarrow> [])"

definition count_at :: "json \<Rightarrow> string \<Rightarrow> json" where
  "count_at v k = JInt (int (length (list_at (field_at v k))))"

text \<open>One section, with a line for every member of a list.\<close>

definition metric_family ::
  "string \<Rightarrow> string \<Rightarrow> string \<Rightarrow> (json \<Rightarrow> json) \<Rightarrow> (json \<Rightarrow> (string \<times> string) list) \<Rightarrow> json list \<Rightarrow> string list" where
  "metric_family name kind about f labels vs = metric_section name kind about @ map (\<lambda>v. metric_line name (f v) (labels v)) vs"

definition up_lines :: "bool \<Rightarrow> (string \<times> string) list \<Rightarrow> string list" where
  "up_lines up common = metric_section ''opnsense_up'' ''gauge'' ''1 if the OPNsense API responded successfully'' @
     [metric_line ''opnsense_up'' (up_flag up) common]"

definition system_lines :: "json \<Rightarrow> (string \<times> string) list \<Rightarrow> string list" where
  "system_lines sys common =
     metric_family ''opnsense_pf_states_current'' ''gauge'' ''Current pf state count'' (\<lambda>v. field_at v ''pf_states_current'') (\<lambda>_. common) [sys] @
     metric_family ''opnsense_pf_states_limit'' ''gauge'' ''pf state table size limit'' (\<lambda>v. field_at v ''pf_states_limit'') (\<lambda>_. common) [sys] @
     metric_family ''opnsense_memory_used_bytes'' ''gauge'' ''Memory used in bytes (approx, derived from MB)''
       (\<lambda>v. int_times (field_at v ''memory_used_mb'') (1024 * 1024)) (\<lambda>_. common) [sys] @
     metric_family ''opnsense_memory_total_bytes'' ''gauge'' ''Memory total in bytes (approx, derived from MB)''
       (\<lambda>v. int_times (field_at v ''memory_total_mb'') (1024 * 1024)) (\<lambda>_. common) [sys]"

definition interface_lines :: "json list \<Rightarrow> (string \<times> string) list \<Rightarrow> string list" where
  "interface_lines ifaces common =
     (let named = (\<lambda>i. common @ [(''iface'', text_at_key i ''name'')]);
          both = (\<lambda>i. named i @ [(''label'', text_at_key i ''label'')]) in
      metric_family ''opnsense_iface_rx_bytes_total'' ''counter'' ''Total bytes received per interface'' (\<lambda>i. field_at i ''received_bytes'') both ifaces @
      metric_family ''opnsense_iface_tx_bytes_total'' ''counter'' ''Total bytes sent per interface'' (\<lambda>i. field_at i ''sent_bytes'') both ifaces @
      metric_family ''opnsense_iface_rx_errors_total'' ''counter'' ''Total receive errors per interface'' (\<lambda>i. field_at i ''received_errors'') named ifaces @
      metric_family ''opnsense_iface_tx_errors_total'' ''counter'' ''Total transmit errors per interface'' (\<lambda>i. field_at i ''send_errors'') named ifaces @
      metric_family ''opnsense_iface_drops_total'' ''counter'' ''Dropped packets per interface'' (\<lambda>i. field_at i ''dropped_packets'') named ifaces @
      metric_family ''opnsense_iface_up'' ''gauge'' ''1 if the interface is up+running'' (\<lambda>i. up_flag (truthy (field_at i ''is_up''))) named ifaces)"

definition gateway_lines :: "json list \<Rightarrow> (string \<times> string) list \<Rightarrow> string list" where
  "gateway_lines gws common =
     (let named = (\<lambda>g. common @ [(''gw'', text_at_key g ''name'')]) in
      metric_family ''opnsense_gateway_rtt_seconds'' ''gauge'' ''Gateway monitor round-trip time in seconds''
        (\<lambda>g. quotient (field_at g ''delay_ms'') 1000) named gws @
      metric_family ''opnsense_gateway_loss_ratio'' ''gauge'' ''Gateway monitor loss ratio (0..1)''
        (\<lambda>g. quotient (field_at g ''loss_pct'') 100) named gws @
      metric_family ''opnsense_gateway_up'' ''gauge'' ''1 if the gateway monitor reports Online'' (\<lambda>g. up_flag (truthy (field_at g ''is_up''))) named gws)"

definition service_lines :: "json \<Rightarrow> (string \<times> string) list \<Rightarrow> string list" where
  "service_lines svc common =
     metric_family ''opnsense_service_running'' ''gauge'' ''1 if the service is running'' (\<lambda>s. up_flag (truthy (field_at s ''running'')))
       (\<lambda>s. common @ [(''service'', text_at_key s ''id'')]) (list_at (field_at svc ''items''))"

definition cert_lines :: "json list \<Rightarrow> (string \<times> string) list \<Rightarrow> string list" where
  "cert_lines certs common =
     metric_family ''opnsense_cert_expiry_seconds'' ''gauge'' ''Seconds until the certificate expires (negative if past)''
       (\<lambda>c. int_times (field_at c ''days_to_expiry'') 86400)
       (\<lambda>c. common @ [(''cert'', if truthy (field_at c ''name'') then text_at_key c ''name'' else text_at_key c ''uuid'')]) certs"

definition vpn_lines :: "json \<Rightarrow> (string \<times> string) list \<Rightarrow> string list" where
  "vpn_lines vpn common =
     metric_section ''opnsense_vpn_peers_total'' ''gauge'' ''Number of VPN peers/sessions per engine'' @
     [metric_line ''opnsense_vpn_peers_total'' (count_at vpn ''wireguard_peers'') (common @ [(''type'', ''wireguard'')]),
      metric_line ''opnsense_vpn_peers_total'' (count_at vpn ''ipsec_phase1'') (common @ [(''type'', ''ipsec'')]),
      metric_line ''opnsense_vpn_peers_total'' (count_at vpn ''openvpn_sessions'') (common @ [(''type'', ''openvpn'')])]"

definition ha_lines :: "json \<Rightarrow> (string \<times> string) list \<Rightarrow> string list" where
  "ha_lines ha common = metric_family ''opnsense_ha_enabled'' ''gauge'' ''1 if pfsync is configured (peer interface selected)''
     (\<lambda>v. up_flag (truthy (field_at v ''enabled''))) (\<lambda>_. common) [ha]"

text \<open>\<^verbatim>\<open>render_metrics\<close>: only a failure of the system snapshot is reported as a firewall that is down; any other one is
  let out.\<close>

definition render_metrics :: "py_lib \<Rightarrow> client \<Rightarrow> string \<Rightarrow> string io" where
  "render_metrics lib c host_label =
     (let common = [(''host'', if host_label \<noteq> [] then host_label else h_name (c_host c))] in
      try_else (collect_system c) (\<lambda>_. True) (\<lambda>_. ret (exposition (up_lines False common))) (\<lambda>sys.
      bnd (collect_interfaces c) (\<lambda>ifaces. bnd (collect_gateways c) (\<lambda>gws. bnd (collect_services c) (\<lambda>svc.
      bnd (collect_certificates lib c) (\<lambda>certs. bnd (collect_vpn c) (\<lambda>vpn. bnd (collect_hasync c) (\<lambda>ha.
      ret (exposition (up_lines True common @ system_lines sys common @ interface_lines (list_at ifaces) common @
        gateway_lines (list_at gws) common @ service_lines svc common @ cert_lines certs common @
        vpn_lines vpn common @ ha_lines ha common))))))))))"

section \<open>The handler\<close>

definition no_hosts_text :: string where
  "no_hosts_text = ''# opnsense plugin: no opnsense_hosts configured'' @ CHR 0x0A # (''opnsense_up{host='' @ [CHR 0x22] @ ''unknown'' @ [CHR 0x22] @ ''} 0'') @ [CHR 0x0A]"

definition failed_text :: "exn \<Rightarrow> host \<Rightarrow> string" where
  "failed_text e h = ''# opnsense plugin: render_metrics failed: '' @ exn_str e @ CHR 0x0A # (''opnsense_up{host='' @ [CHR 0x22]) @ h_name h @
     ([CHR 0x22] @ ''} 0'') @ [CHR 0x0A]"

definition h_metrics :: "py_lib \<Rightarrow> world \<Rightarrow> master_cache \<Rightarrow> (string res \<times> master_cache) io" where
  "h_metrics lib wd mc =
     try_else (first_host_from_config (load_config (wd_config wd)) mc) (\<lambda>_. True) (\<lambda>e. ret (Inl e, mc)) (\<lambda>(h, mc').
     case h of None \<Rightarrow> ret (Inr no_hosts_text, mc')
     | Some h \<Rightarrow> bnd (try_catch (bnd (of_res (mk_client h)) (\<lambda>c. render_metrics lib c (h_name h))) (\<lambda>_. True)
         (\<lambda>e. ret (failed_text e h))) (\<lambda>t. ret (Inr t, mc')))"

end
