(* ===== verification/Views.thy ===== *)
theory Views
  imports Collectors Divergence Firewall_Routes
begin

text \<open>
  The read-only routes: \<^verbatim>\<open>src/routes/overview.py\<close> with its cluster form, \<^verbatim>\<open>network.py\<close>, \<^verbatim>\<open>logs.py\<close> and
  \<^verbatim>\<open>vpn.py\<close>. The collectors of one view run on a thread pool; each is started whatever happens to the
  others and the first failure, in the order of the tasks, is the failure of the view. The model runs
  them one after the other, in that order: they only read, and the environment may answer anything.
\<close>

section \<open>Tasks\<close>

definition attempt :: "'a io \<Rightarrow> 'a res io" where
  "attempt m = try_else m (\<lambda>_. True) (\<lambda>e. ret (Inl e)) (\<lambda>x. ret (Inr x))"

section \<open>The overview of a node\<close>

record overview =
  ov_data :: obj
  ov_carp :: carp_status

definition expires_soon :: "json \<Rightarrow> bool" where
  "expires_soon c = (case dget c ''days_to_expiry'' of Some (JInt n) \<Rightarrow> n \<le> 30 | _ \<Rightarrow> False)"

definition overview_of :: "json \<Rightarrow> json \<Rightarrow> json \<Rightarrow> json \<Rightarrow> json \<Rightarrow> json \<Rightarrow> json list \<Rightarrow> carp_status \<Rightarrow> overview" where
  "overview_of sys ifaces gws svcs vpn hs certs cs =
     (let soon = filter expires_soon certs in
      \<lparr>ov_data = [(''system'', sys), (''interfaces'', ifaces), (''gateways'', gws), (''services'', svcs), (''vpn'', vpn), (''hasync'', hs),
         (''carp'', carp_json cs),
         (''certs'', JObj [(''total'', JInt (int (length certs))), (''expiring_soon_count'', JInt (int (length soon))),
           (''expiring_soon'', JArr soon)])],
       ov_carp = cs\<rparr>)"

definition build_overview :: "py_lib \<Rightarrow> client \<Rightarrow> overview io" where
  "build_overview lib c =
     bnd (attempt (collect_system c)) (\<lambda>r1. bnd (attempt (collect_interfaces c)) (\<lambda>r2.
     bnd (attempt (collect_gateways c)) (\<lambda>r3. bnd (attempt (collect_services c)) (\<lambda>r4.
     bnd (attempt (collect_vpn c)) (\<lambda>r5. bnd (attempt (collect_hasync c)) (\<lambda>r6.
     bnd (attempt (collect_certificates lib c)) (\<lambda>r7. bnd (attempt (collect_carp_status c)) (\<lambda>r8.
     of_res (rbnd r1 (\<lambda>sys. rbnd r2 (\<lambda>ifaces. rbnd r3 (\<lambda>gws. rbnd r4 (\<lambda>svcs. rbnd r5 (\<lambda>vpn. rbnd r6 (\<lambda>hs.
       rbnd r7 (\<lambda>certs. rbnd r8 (\<lambda>cs. Inr (overview_of sys ifaces gws svcs vpn hs certs cs))))))))))))))))))"

definition overview_payload :: "py_lib \<Rightarrow> host \<Rightarrow> reply io" where
  "overview_payload lib h = bnd (of_res (mk_client h)) (\<lambda>c.
     upstream (bnd (build_overview lib c) (\<lambda>ov. ret (fine (JObj (ov_data ov))))))"

section \<open>The overview of a pair\<close>

record node_error =
  ne_error :: string
  ne_detail :: string

fun node_error_of :: "exn \<Rightarrow> node_error" where
  "node_error_of (AuthErr s) = \<lparr>ne_error = ''auth'', ne_detail = s\<rparr>"
| "node_error_of (TimeoutErr s) = \<lparr>ne_error = ''timeout'', ne_detail = s\<rparr>"
| "node_error_of e = \<lparr>ne_error = ''upstream'', ne_detail = exn_str e\<rparr>"

definition safe_build :: "py_lib \<Rightarrow> client \<Rightarrow> (node_error + overview) io" where
  "safe_build lib c = try_else (build_overview lib c) is_opn (\<lambda>e. ret (Inl (node_error_of e))) (\<lambda>ov. ret (Inr ov))"

definition node_json :: "string \<Rightarrow> node_error + overview \<Rightarrow> json" where
  "node_json n r = (case r of
      Inr ov \<Rightarrow> JObj [(''name'', JStr n), (''ok'', JBool True), (''snap'', JObj (ov_data ov))]
    | Inl e \<Rightarrow> JObj [(''name'', JStr n), (''ok'', JBool False), (''error'', JStr (ne_error e)), (''detail'', JStr (ne_detail e)),
        (''snap'', JNull)])"

definition severity_name :: "severity \<Rightarrow> string" where
  "severity_name s = (case s of Error \<Rightarrow> ''error'' | Warning \<Rightarrow> ''warning'' | Info \<Rightarrow> ''info'')"

definition divergence_json :: "divergence \<Rightarrow> json" where
  "divergence_json d = JObj [(''category'', JStr (dv_category d)), (''key'', JStr (dv_key d)),
     (''severity'', JStr (severity_name (dv_severity d))), (''a'', dv_a d), (''b'', dv_b d), (''detail'', JStr (dv_detail d))]"

text \<open>The probes the snapshots hold seed the cache of the pair.\<close>

definition seeded :: "cluster \<Rightarrow> node_error + overview \<Rightarrow> node_error + overview \<Rightarrow> cluster" where
  "seeded cl ra rb =
     (let cl1 = (case ra of Inr ov \<Rightarrow> set_carp_cache (Some (ov_carp ov)) None cl | Inl _ \<Rightarrow> cl)
      in case rb of Inr ov \<Rightarrow> set_carp_cache None (Some (ov_carp ov)) cl1 | Inl _ \<Rightarrow> cl1)"

definition pair_divergence :: "node_error + overview \<Rightarrow> node_error + overview \<Rightarrow> divergence list res" where
  "pair_divergence ra rb = (case (ra, rb) of
      (Inr oa, Inr ob) \<Rightarrow> compute_divergence (ov_data oa) (ov_data ob) | _ \<Rightarrow> Inr [])"

definition pair_master :: "cluster \<Rightarrow> node_error + overview \<Rightarrow> node_error + overview \<Rightarrow> string io" where
  "pair_master cl ra rb = try_catch
     (case (ra, rb) of
        (Inr _, Inr _) \<Rightarrow> bnd (master_name (seeded cl ra rb)) (\<lambda>(n, _). ret n)
      | (Inr _, Inl _) \<Rightarrow> ret (cl_name_a cl)
      | _ \<Rightarrow> ret (cl_name_b cl)) (\<lambda>_. True) (\<lambda>_. ret (cl_name_a cl))"

definition cluster_reply :: "string \<Rightarrow> string \<Rightarrow> node_error + overview \<Rightarrow> node_error + overview \<Rightarrow> divergence list \<Rightarrow> string \<Rightarrow> reply" where
  "cluster_reply na nb ra rb ds m = (200, JObj [(''ok'', JBool True), (''cluster'', JBool True), (''data'', JObj
     [(''nodes'', JObj [(''a'', node_json na ra), (''b'', node_json nb rb)]),
      (''divergence'', JArr (map divergence_json ds)), (''master'', JStr m),
      (''names'', JObj [(''a'', JStr na), (''b'', JStr nb)])])])"

definition both_failed :: "node_error \<Rightarrow> node_error \<Rightarrow> reply" where
  "both_failed ea eb = refuse 502 ''upstream'' (''both nodes failed: A='' @ ne_detail ea @ '' B='' @ ne_detail eb)"

definition cluster_view :: "py_lib \<Rightarrow> cluster \<Rightarrow> reply io" where
  "cluster_view lib cl =
     bnd (attempt (safe_build lib (cl_a cl))) (\<lambda>r1. bnd (attempt (safe_build lib (cl_b cl))) (\<lambda>r2.
     bnd (of_res r1) (\<lambda>ra. bnd (of_res r2) (\<lambda>rb.
     case (ra, rb) of
       (Inl ea, Inl eb) \<Rightarrow> ret (both_failed ea eb)
     | _ \<Rightarrow> bnd (of_res (pair_divergence ra rb)) (\<lambda>ds. bnd (pair_master cl ra rb) (\<lambda>m.
         ret (cluster_reply (cl_name_a cl) (cl_name_b cl) ra rb ds m)))))))"

definition overview_cluster :: "py_lib \<Rightarrow> host \<Rightarrow> host \<Rightarrow> string \<Rightarrow> string \<Rightarrow> reply io" where
  "overview_cluster lib ha hb na nb =
     bnd (of_res (mk_client ha)) (\<lambda>ca. bnd (of_res (mk_client hb)) (\<lambda>cb. cluster_view lib (mk_cluster ca cb na nb)))"

section \<open>Network, log, VPN\<close>

definition build_network :: "host \<Rightarrow> json io" where
  "build_network h =
     (let task = (\<lambda>collect. attempt (bnd (of_res (mk_client h)) collect)) in
      bnd (task collect_interfaces) (\<lambda>r1. bnd (task collect_gateways) (\<lambda>r2. bnd (task collect_routes) (\<lambda>r3.
      bnd (task collect_arp) (\<lambda>r4. bnd (task collect_ndp) (\<lambda>r5.
      of_res (rbnd r1 (\<lambda>i. rbnd r2 (\<lambda>g. rbnd r3 (\<lambda>r. rbnd r4 (\<lambda>a. rbnd r5 (\<lambda>n.
        Inr (JObj [(''interfaces'', i), (''gateways'', g), (''routes'', r), (''arp'', a), (''ndp'', n)])))))))))))))"

definition network_payload :: "host \<Rightarrow> reply io" where
  "network_payload h = upstream (bnd (build_network h) (\<lambda>d. ret (fine d)))"

definition clamp_limit :: "json \<Rightarrow> int" where
  "clamp_limit v = (case text_int v of None \<Rightarrow> 100 | Some n \<Rightarrow> if n \<le> 0 then 100 else min n 500)"

definition logs_payload :: "host \<Rightarrow> json \<Rightarrow> reply io" where
  "logs_payload h v = bnd (of_res (mk_client h)) (\<lambda>c.
     upstream (bnd (collect_firewall_log c (clamp_limit v)) (\<lambda>rows.
       ret (fine (JObj [(''limit'', JInt (clamp_limit v)), (''entries'', rows)])))))"

definition vpn_payload :: "host \<Rightarrow> reply io" where
  "vpn_payload h = try_else (bnd (of_res (mk_client h)) collect_vpn) is_opn (\<lambda>e. ret (fw_error e))
     (\<lambda>v. ret (fine (JObj [(''vpn'', v)])))"

section \<open>Reading never writes\<close>

lemma read_only_attempt [trace_intros]: "read_only_io m \<Longrightarrow> read_only_io (attempt m)"
  unfolding attempt_def by (intro trace_intros)

lemma read_only_overview [trace_intros]: "read_only_io (build_overview lib c)"
  unfolding build_overview_def by (intro trace_intros)

lemma read_only_upstream [trace_intros]: "read_only_io m \<Longrightarrow> read_only_io (upstream m)"
  unfolding upstream_def by (intro trace_intros)

lemma read_only_ensure [trace_intros]: "read_only_io (master_name cl)"
  unfolding master_name_def master_side_def ensure_probes_def
  by (auto intro!: trace_intros split: option.splits)

lemma read_only_cluster [trace_intros]: "read_only_io (cluster_view lib cl)"
proof -
  have "read_only_io (safe_build lib c)" for c unfolding safe_build_def by (intro trace_intros)
  moreover have "read_only_io (pair_master cl ra rb)" for ra rb
    unfolding pair_master_def by (auto intro!: trace_intros split: sum.splits)
  ultimately show ?thesis unfolding cluster_view_def by (auto intro!: trace_intros split: sum.splits)
qed

lemma read_only_views [trace_intros]:
  "read_only_io (overview_payload lib h)" "read_only_io (overview_cluster lib h h' na nb)"
  "read_only_io (network_payload h)" "read_only_io (logs_payload h v)" "read_only_io (vpn_payload h)"
  unfolding overview_payload_def overview_cluster_def network_payload_def build_network_def Let_def logs_payload_def vpn_payload_def
  by (intro trace_intros)+

end
