(* ===== verification/Identity.thy ===== *)
theory Identity
  imports Catalog_Settings
begin

text \<open>
  The identity and trust resources, \<^verbatim>\<open>src/management/identity_catalog.py\<close>: groups, users, certificate
  authorities and certificates, with the hooks that check certificates before a change and after it.
  Reading a PEM is the job of the package \<^verbatim>\<open>cryptography\<close>; what it gives is an argument, \<open>crypto\<close>.
\<close>

section \<open>Fields and resources\<close>

definition idf :: "string \<Rightarrow> string \<Rightarrow> string \<Rightarrow> field" where
  "idf name label kind = fld name label kind False"

definition read_field :: "string \<Rightarrow> string \<Rightarrow> field" where
  "read_field name label = (idf name label ''text'')\<lparr>fd_readonly := True\<rparr>"

definition identity_resource ::
  "string \<Rightarrow> string \<Rightarrow> string \<Rightarrow> string \<Rightarrow> string \<Rightarrow> field list \<Rightarrow> string list \<Rightarrow> bool \<Rightarrow> spec" where
  "identity_resource ident label namespace controller key flds columns writable = \<lparr>sp_id = ident, sp_label = label,
     sp_group = ''Sistema'', sp_base = ''/api/'' @ namespace @ ''/'' @ controller, sp_search = Some ''search'', sp_get = Some ''get'',
     sp_add = (if writable then Some ''add'' else None), sp_set = (if writable then Some ''set'' else None),
     sp_delete = (if writable then Some ''del'' else None), sp_key = key, sp_apply = [], sp_apply_ack = [],
     sp_fields = flds, sp_columns = columns, sp_singleton = False, sp_ha_safe = False, sp_persistence_only = True,
     sp_prepare = None, sp_verify = None\<rparr>"

definition auth_groups :: spec where
  "auth_groups = identity_resource ''auth_groups'' ''Grupos de usuarios'' ''auth'' ''group'' ''group''
     [fld ''name'' ''Nombre'' ''text'' True, idf ''description'' (''Descripci'' @ [CHR 0xC3, CHR 0xB3] @ ''n'') ''text'',
      (idf ''priv'' ''Permisos'' ''select'')\<lparr>fd_multiple := True\<rparr>, (idf ''member'' ''Miembros'' ''select'')\<lparr>fd_multiple := True\<rparr>,
      idf ''source_networks'' ''Redes de origen'' ''text'']
     [''name'', ''description'', ''member''] True"

definition auth_users :: spec where
  "auth_users = identity_resource ''auth_users'' ''Usuarios'' ''auth'' ''user'' ''user''
     [fld ''name'' ''Usuario'' ''text'' True,
      (fld ''password'' (''Contrase'' @ [CHR 0xC3, CHR 0xB1] @ ''a (vac'' @ [CHR 0xC3, CHR 0xAD] @ ''o conserva la actual)'') ''text'' True)\<lparr>fd_secret := True, fd_write_only := True\<rparr>,
      idf ''descr'' ''Nombre completo'' ''text'', idf ''disabled'' ''Deshabilitado'' ''boolean'', idf ''email'' ''Correo'' ''text'',
      idf ''expires'' ''Caducidad'' ''text'', idf ''shell'' ''Shell'' ''select'',
      (idf ''group_memberships'' ''Grupos'' ''select'')\<lparr>fd_multiple := True\<rparr>, (idf ''priv'' ''Permisos'' ''select'')\<lparr>fd_multiple := True\<rparr>]
     [''name'', ''descr'', ''disabled''] True"

section \<open>What a PEM says\<close>

text \<open>
  Of a certificate or a signing request: its public key, the first common name of its subject, the size,
  curve and digest algorithm of the key, whether it is a CA (\<open>None\<close> without the extension), whether
  its signature is valid, its fingerprint and the days from its start to its end. A loader gives \<open>None\<close> when
  it raises. \<open>cy_key\<close> gives the public part of a private key.
\<close>

record x509_object =
  xo_key :: string
  xo_cn :: "string option"
  xo_size :: "int option"
  xo_curve :: "string option"
  xo_digest :: "string option"
  xo_ca :: "bool option"
  xo_valid :: bool
  xo_fingerprint :: string
  xo_days :: rat

record crypto =
  cy_present :: bool
  cy_cert :: "string \<Rightarrow> x509_object option"
  cy_csr :: "string \<Rightarrow> x509_object option"
  cy_key :: "string \<Rightarrow> string option"
  cy_crl :: "string \<Rightarrow> bool"

text \<open>\<^verbatim>\<open>expected.get(k, '').encode()\<close>, which a value that is no text makes fail.\<close>

definition pem_of :: "obj \<Rightarrow> string \<Rightarrow> string option" where
  "pem_of d k = (case dget_or (JObj d) k (JStr []) of JStr s \<Rightarrow> Some s | _ \<Rightarrow> None)"

definition load :: "(string \<Rightarrow> 'a option) \<Rightarrow> obj \<Rightarrow> string \<Rightarrow> 'a option" where
  "load f d k = (case pem_of d k of Some s \<Rightarrow> f s | None \<Rightarrow> None)"

definition has :: "obj \<Rightarrow> string \<Rightarrow> bool" where
  "has d k = truthy_opt (map_of d k)"

definition same_key :: "crypto \<Rightarrow> x509_object \<Rightarrow> obj \<Rightarrow> bool" where
  "same_key cy x d = (load (cy_key cy) d ''prv_payload'' = Some (xo_key x))"

section \<open>Before the change\<close>

definition modes :: "bool \<Rightarrow> string list" where
  "modes ca = (if ca then [''internal'', ''existing'']
     else [''internal'', ''external'', ''import'', ''manual'', ''sign_csr'', ''import_csr'', ''reissue''])"

definition takes_cert :: "string \<Rightarrow> bool" where
  "takes_cert m = (m \<in> {''existing'', ''import'', ''manual'', ''import_csr''})"

definition generates :: "string \<Rightarrow> bool" where
  "generates m = (m \<in> {''internal'', ''external'', ''reissue''})"

definition prepared_ok :: "crypto \<Rightarrow> bool \<Rightarrow> string \<Rightarrow> obj \<Rightarrow> bool" where
  "prepared_ok cy ca m d =
     ((if takes_cert m then
         (case load (cy_cert cy) d ''crt_payload'' of
            None \<Rightarrow> False
          | Some x \<Rightarrow> (ca \<longrightarrow> xo_ca x = Some True) \<and> (has d ''prv_payload'' \<longrightarrow> same_key cy x d))
       else if m = ''sign_csr'' then (case load (cy_csr cy) d ''csr_payload'' of None \<Rightarrow> False | Some x \<Rightarrow> xo_valid x)
       else True) \<and>
      (generates m \<longrightarrow> has d ''commonname''))"

definition trust_prepare :: "crypto \<Rightarrow> bool \<Rightarrow> json \<Rightarrow> json \<Rightarrow> action \<Rightarrow> json res" where
  "trust_prepare cy ca expected current act =
     (if \<not> cy_present cy then Inl (mgmt ''unsupported'' 503)
      else case expected of
        JObj d \<Rightarrow> (case dget_or expected ''action'' (JStr []) of
            JStr m \<Rightarrow>
              if m \<notin> set (modes ca) then Inl bad_request
              else if act = Create \<and> m \<in> {''manual'', ''import_csr'', ''reissue''} then Inl bad_request
              else if \<not> ca \<and> dget_or expected ''private_key_location'' (JStr ''firewall'') \<noteq> JStr ''firewall'' then Inl bad_request
              else (let d' = (if ca then d else dput d ''private_key_location'' (JStr ''firewall'')) in
                if prepared_ok cy ca m d' then Inr (JObj d') else Inl bad_request)
          | JArr _ \<Rightarrow> Inl (TypeErr ''unhashable type'')
          | JObj _ \<Rightarrow> Inl (TypeErr ''unhashable type'')
          | _ \<Rightarrow> Inl bad_request)
      | _ \<Rightarrow> Inl (AttrErr ''object has no attribute get''))"

section \<open>After the change\<close>

definition seen_object :: "crypto \<Rightarrow> bool \<Rightarrow> string \<Rightarrow> obj \<Rightarrow> obj \<Rightarrow> x509_object option" where
  "seen_object cy ca m actual expected =
     (if m = ''external'' then (case load (cy_csr cy) actual ''csr_payload'' of
          Some x \<Rightarrow> if xo_valid x then Some x else None | None \<Rightarrow> None)
      else (case load (cy_cert cy) actual ''crt_payload'' of
          None \<Rightarrow> None
        | Some x \<Rightarrow>
            if (takes_cert m \<longrightarrow> (case map_of expected ''crt_payload'' of
                  Some (JStr s) \<Rightarrow> map_option xo_fingerprint (cy_cert cy s) = Some (xo_fingerprint x) | _ \<Rightarrow> False)) \<and>
               (ca \<longrightarrow> xo_ca x = Some True) \<and>
               (m = ''sign_csr'' \<longrightarrow> (case map_of expected ''csr_payload'' of
                  Some (JStr s) \<Rightarrow> map_option xo_key (cy_csr cy s) = Some (xo_key x) | _ \<Rightarrow> False))
            then Some x else None))"

definition key_kind_ok :: "obj \<Rightarrow> x509_object \<Rightarrow> bool" where
  "key_kind_ok expected x =
     (let kt = py_str (dget_or (JObj expected) ''key_type'' (JStr [])) in
      if isdigit kt then length kt \<le> 4300 \<and> xo_size x = Some (dec_val 0 kt)
      else kt = [] \<or> xo_curve x = Some (if kt = ''prime256v1'' then ''secp256r1'' else kt))"

definition named_as :: "obj \<Rightarrow> x509_object \<Rightarrow> bool" where
  "named_as expected x = (case (xo_cn x, map_of expected ''commonname'') of
     (Some cn, Some v) \<Rightarrow> v = JStr cn | _ \<Rightarrow> False)"

definition digest_ok :: "obj \<Rightarrow> x509_object \<Rightarrow> bool" where
  "digest_ok expected x = (has expected ''digest'' \<longrightarrow>
     (case xo_digest x of Some dg \<Rightarrow> map_of expected ''digest'' = Some (JStr dg) | None \<Rightarrow> False))"

definition lifetime_ok :: "obj \<Rightarrow> x509_object \<Rightarrow> bool" where
  "lifetime_ok expected x = (case map_of expected ''lifetime'' of
      None \<Rightarrow> False
    | Some v \<Rightarrow> (case to_int v of Inl _ \<Rightarrow> False | Inr n \<Rightarrow> \<not> abs (xo_days x - of_int n) > 1))"

definition issuer_ok :: "obj \<Rightarrow> obj \<Rightarrow> bool" where
  "issuer_ok expected actual = (has expected ''caref'' \<longrightarrow>
     py_eq (dget_or (JObj actual) ''caref'' JNull) (dget_or (JObj expected) ''caref'' JNull))"

definition verified_ok :: "crypto \<Rightarrow> bool \<Rightarrow> string \<Rightarrow> obj \<Rightarrow> obj \<Rightarrow> bool" where
  "verified_ok cy ca m actual expected = (case seen_object cy ca m actual expected of
      None \<Rightarrow> False
    | Some x \<Rightarrow>
        (generates m \<longrightarrow> named_as expected x \<and> key_kind_ok expected x \<and> digest_ok expected x) \<and>
        (generates m \<or> has expected ''prv_payload'' \<longrightarrow> same_key cy x actual) \<and>
        (m \<in> {''internal'', ''reissue''} \<longrightarrow> issuer_ok expected actual \<and> lifetime_ok expected x))"

definition trust_verify :: "crypto \<Rightarrow> bool \<Rightarrow> json \<Rightarrow> json \<Rightarrow> action \<Rightarrow> unit res" where
  "trust_verify cy ca actual expected act =
     (if \<not> cy_present cy then Inl (mgmt ''unsupported'' 503)
      else (case expected of
          JObj e \<Rightarrow> (case map_of e ''action'' of
              None \<Rightarrow> Inl (KeyErr ''action'')
            | Some v \<Rightarrow> (case actual of
                JObj a \<Rightarrow> if verified_ok cy ca (case v of JStr m \<Rightarrow> m | _ \<Rightarrow> []) a e then Inr () else Inl (mgmt ''unverified'' 502)
              | _ \<Rightarrow> Inl (mgmt ''unverified'' 502)))
        | _ \<Rightarrow> Inl (TypeErr ''string indices must be integers'')))"

section \<open>Certificate authorities and certificates\<close>

definition vol :: "string \<Rightarrow> string \<Rightarrow> string \<Rightarrow> field" where
  "vol name label kind = (idf name label kind)\<lparr>fd_volatile := True\<rparr>"

definition vol_default :: "string \<Rightarrow> string \<Rightarrow> string \<Rightarrow> string \<Rightarrow> field" where
  "vol_default name label kind v = (vol name label kind)\<lparr>fd_default := Some (JStr v)\<rparr>"

definition trust_actions :: "bool \<Rightarrow> (string \<times> string) list" where
  "trust_actions ca = (if ca then [(''internal'', ''Generar autoridad''), (''existing'', ''Importar autoridad'')]
     else [(''internal'', ''Generar certificado''), (''import'', ''Importar certificado''), (''external'', ''Crear CSR''),
       (''sign_csr'', ''Firmar CSR''), (''import_csr'', ''Importar CSR firmado''), (''manual'', ''Editar certificado''),
       (''reissue'', ''Reemitir'')])"

definition trust_fields :: "bool \<Rightarrow> field list" where
  "trust_fields ca =
     [fld ''descr'' (''Descripci'' @ [CHR 0xC3, CHR 0xB3] @ ''n'') ''text'' True,
      (vol ''action'' (''Operaci'' @ [CHR 0xC3, CHR 0xB3] @ ''n'') ''select'')\<lparr>fd_create_default := Some (JStr ''internal''),
        fd_edit_default := Some (JStr (if ca then ''existing'' else ''manual'')), fd_options := trust_actions ca\<rparr>,
      vol ''caref'' ''Autoridad firmante'' ''select'',
      vol_default ''key_type'' ''Tipo de clave'' ''select'' ''2048'',
      vol_default ''digest'' ''Algoritmo'' ''select'' ''sha256'',
      (vol_default ''lifetime'' (''Validez en d'' @ [CHR 0xC3, CHR 0xAD] @ ''as'') ''integer'' (if ca then ''825'' else ''397''))\<lparr>fd_min := Some 1, fd_max := Some 36500\<rparr>,
      vol_default ''country'' (''Pa'' @ [CHR 0xC3, CHR 0xAD] @ ''s'') ''select'' ''NL'',
      vol ''state'' ''Provincia'' ''text'', vol ''city'' ''Ciudad'' ''text'', vol ''organization'' (''Organizaci'' @ [CHR 0xC3, CHR 0xB3] @ ''n'') ''text'',
      vol ''organizationalunit'' ''Unidad'' ''text'', vol ''email'' ''Correo'' ''text'', vol ''commonname'' (''Nombre com'' @ [CHR 0xC3, CHR 0xBA] @ ''n'') ''text'',
      vol ''crt_payload'' ''Certificado PEM'' ''textarea'',
      (vol ''prv_payload'' (''Clave privada PEM (vac'' @ [CHR 0xC3, CHR 0xAD] @ ''o conserva)'') ''textarea'')\<lparr>fd_secret := True\<rparr>] @
     (if ca then [] else
      [vol_default ''cert_type'' ''Tipo de certificado'' ''select'' ''usr_cert'',
       (vol_default ''private_key_location'' ''Guardar clave en'' ''select'' ''firewall'')\<lparr>fd_options := [(''firewall'', ''Este firewall'')]\<rparr>,
       vol ''csr_payload'' ''Solicitud CSR PEM'' ''textarea'',
       vol ''altnames_dns'' ''Nombres DNS alternativos'' ''text'', vol ''altnames_ip'' ''IP alternativas'' ''text'',
       vol ''altnames_uri'' ''URI alternativas'' ''text'', vol ''altnames_email'' ''Correos alternativos'' ''text''])"

text \<open>The two resources as the loop at the end of the module leaves them.\<close>

definition trust_resource :: "crypto \<Rightarrow> bool \<Rightarrow> spec" where
  "trust_resource cy ca =
     (identity_resource (if ca then ''trust_cas'' else ''trust_certificates'') (if ca then ''Autoridades certificadoras'' else ''Certificados'')
        ''trust'' (if ca then ''ca'' else ''cert'') (if ca then ''ca'' else ''cert'') (trust_fields ca) [''descr'', ''commonname''] True)
       \<lparr>sp_prepare := Some (trust_prepare cy ca), sp_verify := Some (trust_verify cy ca)\<rparr>"

definition identity_resources :: "crypto \<Rightarrow> spec list" where
  "identity_resources cy = [auth_groups, auth_users, trust_resource cy True, trust_resource cy False]"

end
