(* ===== verification/Handlers.thy ===== *)
theory Handlers
  imports Plugin Views Identity Crl Engine_Mutate
begin

text \<open>
  The request handlers of \<^verbatim>\<open>src/__init__.py\<close>. A handler gets what the configuration file holds, what the
  permission check of the host application says, and the request; it returns a reply, or the exception it lets
  out, and the master cache it leaves. The detail text of a \<^verbatim>\<open>ManagementError\<close> is not part of a reply here.
\<close>

section \<open>Serving\<close>

type_synonym 'a served = "('a res \<times> master_cache) io"

text \<open>What a handler lets out ends the request and leaves the cache as it was.\<close>

definition served :: "'a served \<Rightarrow> master_cache \<Rightarrow> 'a served" where
  "served m mc = try_else m (\<lambda>_. True) (\<lambda>e. ret (Inl e, mc)) ret"

definition gated :: "world \<Rightarrow> web_request \<Rightarrow> bool option \<Rightarrow> (reply \<Rightarrow> 'a) \<Rightarrow> (gate \<Rightarrow> 'a io) \<Rightarrow> master_cache \<Rightarrow> 'a served" where
  "gated wd rq mutation refused f mc = served (bnd (management_context wd rq mutation mc) (\<lambda>(g, mc').
     case g of Inl r \<Rightarrow> ret (Inr (refused r), mc') | Inr cx \<Rightarrow> bnd (attempt (f cx)) (\<lambda>r. ret (r, mc')))) mc"

definition with_host :: "world \<Rightarrow> (host \<Rightarrow> reply io) \<Rightarrow> master_cache \<Rightarrow> reply served" where
  "with_host wd f mc = served (bnd (first_host_from_config (load_config (wd_config wd)) mc) (\<lambda>(h, mc').
     case h of None \<Rightarrow> ret (Inr unconfigured_response, mc') | Some h \<Rightarrow> bnd (attempt (f h)) (\<lambda>r. ret (r, mc')))) mc"

text \<open>\<^verbatim>\<open>payload['data']['read_only'] = ..\<close> on a payload that is ok.\<close>

definition shown_read_only :: "world \<Rightarrow> gate \<Rightarrow> bool" where
  "shown_read_only wd cx = (cx_read_only cx \<or> \<not> firewall_can_write (wd_perm wd))"

definition mark_read_only :: "bool \<Rightarrow> reply \<Rightarrow> reply" where
  "mark_read_only ro = (\<lambda>(st, payload). (st, case payload of
      JObj d \<Rightarrow> if truthy_opt (map_of d ''ok'') then
          (case map_of d ''data'' of Some (JObj x) \<Rightarrow> JObj (dput d ''data'' (JObj (dput x ''read_only'' (JBool ro)))) | _ \<Rightarrow> payload)
        else payload
    | _ \<Rightarrow> payload))"

definition arg :: "web_request \<Rightarrow> string \<Rightarrow> string option" where
  "arg rq k = map_of (rq_args rq) k"

definition arg_or :: "web_request \<Rightarrow> string \<Rightarrow> string \<Rightarrow> string" where
  "arg_or rq k dflt = (case arg rq k of Some s \<Rightarrow> s | None \<Rightarrow> dflt)"

section \<open>Health, overview and the other views\<close>

definition h_health :: "string \<Rightarrow> world \<Rightarrow> json res" where
  "h_health version wd =
     (let cfg = load_config (wd_config wd); ro = is_read_only cfg; can = (\<not> ro \<and> firewall_can_write (wd_perm wd)) in
      rbnd (is_cluster_mode cfg) (\<lambda>cluster. rbnd (py_size (hosts_val cfg)) (\<lambda>n.
      Inr (JObj [(''plugin'', JStr ''opnsense''), (''version'', JStr version), (''configured'', JBool (truthy (hosts_val cfg))),
        (''read_only'', JBool ro), (''cluster_mode'', JBool cluster), (''hosts_configured'', JInt n), (''can_write'', JBool can),
        (''write_restriction'', if ro then JStr ''read_only'' else if \<not> can then JStr ''permission'' else JNull)]))))"

definition h_overview :: "py_lib \<Rightarrow> world \<Rightarrow> master_cache \<Rightarrow> reply served" where
  "h_overview lib wd mc = (case cluster_hosts_from_config (load_config (wd_config wd)) of
      Inl e \<Rightarrow> ret (Inl e, mc)
    | Inr (Some (ha, hb, na, nb)) \<Rightarrow> bnd (attempt (overview_cluster lib ha hb na nb)) (\<lambda>r. ret (r, mc))
    | Inr None \<Rightarrow> with_host wd (overview_payload lib) mc)"

definition h_cluster :: "py_lib \<Rightarrow> world \<Rightarrow> master_cache \<Rightarrow> reply served" where
  "h_cluster lib wd mc =
     (let hosts = hosts_val (load_config (wd_config wd)) in
      served (bnd (of_res (py_size hosts)) (\<lambda>n.
        if n < 2 then ret (Inr (400, JObj [(''ok'', JBool False), (''cluster'', JBool False), (''error'', JStr ''single_host''),
          (''detail'', JStr (''Cluster endpoint requires '' @ [CHR 0xE2, CHR 0x89, CHR 0xA5] @ ''2 opnsense_hosts.''))]), mc)
        else bnd (of_res (pair_of hosts)) (\<lambda>(ha, hb, na, nb). bnd (overview_cluster lib ha hb na nb) (\<lambda>r. ret (Inr r, mc))))) mc)"

definition h_network :: "world \<Rightarrow> master_cache \<Rightarrow> reply served" where
  "h_network wd mc = with_host wd network_payload mc"

definition h_logs :: "world \<Rightarrow> web_request \<Rightarrow> master_cache \<Rightarrow> reply served" where
  "h_logs wd rq mc = with_host wd (\<lambda>h. logs_payload h (case arg rq ''limit'' of Some s \<Rightarrow> JStr s | None \<Rightarrow> JInt 100)) mc"

definition h_vpn :: "world \<Rightarrow> master_cache \<Rightarrow> reply served" where
  "h_vpn wd mc = with_host wd vpn_payload mc"

section \<open>Firewall and unverified writers\<close>

definition h_firewall_management :: "string \<Rightarrow> world \<Rightarrow> web_request \<Rightarrow> master_cache \<Rightarrow> reply served" where
  "h_firewall_management rsrc wd rq mc = gated wd rq None (\<lambda>r. r) (\<lambda>cx.
     if \<not> cx_write cx then
       bnd (case arg rq ''uuid'' of
              Some u \<Rightarrow> firewall_detail (cx_host cx) rsrc (JStr u)
            | None \<Rightarrow> firewall_list (cx_host cx) rsrc (arg rq ''view'' = Some ''summary'')) (\<lambda>r.
       ret (mark_read_only (shown_read_only wd cx) r))
     else firewall_action \<lparr>fa_host = cx_host cx, fa_actor = cx_actor cx, fa_peer = cx_peer cx, fa_resource = rsrc,
         fa_attempts = dget_or (JObj (cx_cfg cx)) ''ha_verify_attempts'' (JInt 6),
         fa_backoff = dget_or (JObj (cx_cfg cx)) ''ha_verify_backoff'' (JFloat ''0.5''),
         fa_mode = dget_or (JObj (cx_cfg cx)) ''ha_sync_mode'' (JStr ''automatic'')\<rparr> (cx_read_only cx) (cx_body cx)) mc"

definition h_legacy_management ::
  "(host \<Rightarrow> reply io) \<Rightarrow> (host \<Rightarrow> string \<Rightarrow> bool \<Rightarrow> obj \<Rightarrow> reply io) \<Rightarrow> world \<Rightarrow> web_request \<Rightarrow> master_cache \<Rightarrow> reply served" where
  "h_legacy_management list_builder action_builder wd rq mc = gated wd rq None (\<lambda>r. r) (\<lambda>cx.
     if \<not> cx_write cx then bnd (list_builder (cx_host cx)) (\<lambda>r. ret (mark_read_only (shown_read_only wd cx) r))
     else action_builder (cx_host cx) (cx_actor cx) (cx_read_only cx) (as_obj (cx_body cx))) mc"

definition h_port_forward :: "world \<Rightarrow> web_request \<Rightarrow> master_cache \<Rightarrow> reply served" where
  "h_port_forward = h_firewall_management ''port_forward''"

definition h_rules :: "world \<Rightarrow> web_request \<Rightarrow> master_cache \<Rightarrow> reply served" where
  "h_rules = h_firewall_management ''rules''"

definition h_aliases :: "world \<Rightarrow> web_request \<Rightarrow> master_cache \<Rightarrow> reply served" where
  "h_aliases = h_firewall_management ''aliases''"

definition h_nat :: "world \<Rightarrow> web_request \<Rightarrow> master_cache \<Rightarrow> reply served" where
  "h_nat = h_legacy_management nat_list nat_action"

definition h_unbound :: "world \<Rightarrow> web_request \<Rightarrow> master_cache \<Rightarrow> reply served" where
  "h_unbound = h_legacy_management host_override_list host_override_action"

definition h_dhcp_subnet :: "world \<Rightarrow> web_request \<Rightarrow> master_cache \<Rightarrow> reply served" where
  "h_dhcp_subnet = h_legacy_management subnet_list subnet_action"

definition h_dhcp :: "world \<Rightarrow> web_request \<Rightarrow> master_cache \<Rightarrow> reply served" where
  "h_dhcp = h_legacy_management reservation_list reservation_action"

definition h_one_to_one :: "world \<Rightarrow> web_request \<Rightarrow> master_cache \<Rightarrow> reply served" where
  "h_one_to_one = h_legacy_management oto_list oto_action"

definition h_unbound_domains :: "world \<Rightarrow> web_request \<Rightarrow> master_cache \<Rightarrow> reply served" where
  "h_unbound_domains = h_legacy_management domain_list domain_action"

definition h_unbound_dots :: "world \<Rightarrow> web_request \<Rightarrow> master_cache \<Rightarrow> reply served" where
  "h_unbound_dots = h_legacy_management dot_list dot_action"

definition h_wg :: "world \<Rightarrow> web_request \<Rightarrow> master_cache \<Rightarrow> reply served" where
  "h_wg = h_legacy_management wg_list wg_action"

section \<open>Errors of the management services\<close>

text \<open>\<^verbatim>\<open>ManagementError.as_dict\<close>, without its detail.\<close>

definition as_dict_of :: "mgmt_error \<Rightarrow> json" where
  "as_dict_of e = JObj ([(''ok'', JBool False), (''error'', JStr (me_error e)), (''partial'', JBool (me_partial e)),
     (''stage'', case me_stage e of None \<Rightarrow> JNull | Some s \<Rightarrow> JStr s)] @
     (if me_audit_failure e then [(''audit_failure'', JBool True)] else []) @
     (if me_validations e = [] then [] else [(''validations'', JObj (map (\<lambda>(k, v). (k, JStr v)) (me_validations e)))]) @
     (case me_uuid e of Some (c # cs) \<Rightarrow> [(''uuid'', JStr (c # cs))] | _ \<Rightarrow> []))"

definition service_error :: "exn \<Rightarrow> reply" where
  "service_error e = (case e of MgmtErr m \<Rightarrow> (me_status m, as_dict_of m)
     | _ \<Rightarrow> refuse 500 ''internal'' (''No se pudo completar la operaci'' @ [CHR 0xC3, CHR 0xB3] @ ''n.''))"

section \<open>Device operations\<close>

text \<open>The operation a request names, and the values it gives.\<close>

definition post_body :: "web_request \<Rightarrow> json option" where
  "post_body rq = (if rq_method rq = ''POST'' then rq_json rq else None)"

definition named_value :: "web_request \<Rightarrow> string \<Rightarrow> json" where
  "named_value rq k = (case post_body rq of Some (JObj d) \<Rightarrow> dget_or (JObj d) k JNull
     | _ \<Rightarrow> (case arg rq k of Some s \<Rightarrow> JStr s | None \<Rightarrow> JNull))"

definition operation_values :: "web_request \<Rightarrow> json" where
  "operation_values rq = (case post_body rq of Some (JObj d) \<Rightarrow> dget_or (JObj d) ''values'' (JObj [])
     | _ \<Rightarrow> JObj (map (\<lambda>(k, v). (k, JStr v)) (filter (\<lambda>(k, v). k \<noteq> ''operation'') (rq_args rq))))"

definition h_operate :: "world \<Rightarrow> web_request \<Rightarrow> master_cache \<Rightarrow> reply served" where
  "h_operate wd rq mc = (case operation_of (named_value rq ''operation'') of
      None \<Rightarrow> ret (Inr (refuse 404 ''unknown_operation'' (''Selecciona una operaci'' @ [CHR 0xC3, CHR 0xB3] @ ''n v'' @ [CHR 0xC3, CHR 0xA1] @ ''lida.'')), mc)
    | Some o' \<Rightarrow>
        if rq_method rq \<noteq> meth_str (op_method o') then ret (Inr (short_error 405 ''method_not_allowed''), mc)
        else gated wd rq (Some (op_mutation o')) (\<lambda>r. r) (\<lambda>cx.
          bnd (of_res (mk_client (cx_host cx))) (\<lambda>c.
          try_else (execute_operation c (cx_actor cx) (named_value rq ''operation'') (operation_values rq)) (\<lambda>_. True)
            (\<lambda>e. ret (service_error e))
            (\<lambda>d. ret (fine (JObj (dput d ''target'' (JStr (h_name (cx_host cx))))))))) mc)"

section \<open>The management catalog\<close>

text \<open>A reply of the management route: the data it carries, and for a read whether it may be written.\<close>

datatype shown = Listing listing | Detail mdetail | CrlShown crl_detail | Changed json

datatype manage_reply = Plain reply | Success shown "(bool \<times> string option) option"

definition page_of :: "web_request \<Rightarrow> (int \<times> int) option" where
  "page_of rq = (case (text_int (JStr (arg_or rq ''page'' ''1'')), text_int (JStr (arg_or rq ''row_count'' ''50''))) of
     (Some p, Some n) \<Rightarrow> Some (p, n) | _ \<Rightarrow> None)"

definition read_flags :: "world \<Rightarrow> gate \<Rightarrow> bool \<Rightarrow> (bool \<times> string option) option" where
  "read_flags wd cx ha_safe =
     (let blocked = (cx_peer cx \<noteq> None \<and> \<not> ha_safe); ro = shown_read_only wd cx in
      if cx_write cx then None
      else Some (ro \<or> blocked, if ro then Some ''read_only'' else if blocked then Some ''ha_unqualified'' else None))"

definition bad_page :: reply where
  "bad_page = refuse 400 ''bad_request'' (''P'' @ [CHR 0xC3, CHR 0xA1] @ ''gina o tama'' @ [CHR 0xC3, CHR 0xB1] @ ''o de p'' @ [CHR 0xC3, CHR 0xA1] @ ''gina inv'' @ [CHR 0xC3, CHR 0xA1] @ ''lido.'')"

definition manage_resource :: "world \<Rightarrow> web_request \<Rightarrow> gate \<Rightarrow> spec \<Rightarrow> service \<Rightarrow> manage_reply io" where
  "manage_resource wd rq cx sp s =
     (let flags = read_flags wd cx (sp_ha_safe sp) in
      if cx_write cx then bnd (mutate s sp (request_body rq)) (\<lambda>v. ret (Success (Changed v) flags))
      else if arg rq ''defaults'' = Some ''1'' then bnd (mdetail_get s sp None) (\<lambda>d. ret (Success (Detail d) flags))
      else case arg rq ''uuid'' of
          Some u \<Rightarrow> bnd (mdetail_get s sp (Some (JStr u))) (\<lambda>d. ret (Success (Detail d) flags))
        | None \<Rightarrow> (case page_of rq of
              None \<Rightarrow> ret (Plain bad_page)
            | Some (p, n) \<Rightarrow>
                if p < 1 \<or> n < 1 \<or> n > 200 then ret (Plain bad_page)
                else bnd (mlist s sp (JInt p) (JInt n) (JStr (arg_or rq ''search'' []))) (\<lambda>l. ret (Success (Listing l) flags))))"

text \<open>The detail text of the CRL branch is damaged in the source (its letters are doubly encoded) and kept so.\<close>

definition crl_bad_page :: reply where
  "crl_bad_page = refuse 400 ''bad_request'' (''P'' @ [CHR 0xC3, CHR 0x83, CHR 0xC2, CHR 0xA1] @ ''gina o tama'' @ [CHR 0xC3, CHR 0x83, CHR 0xC2, CHR 0xB1] @ ''o de p'' @ [CHR 0xC3, CHR 0x83, CHR 0xC2, CHR 0xA1] @ ''gina inv'' @ [CHR 0xC3, CHR 0x83, CHR 0xC2, CHR 0xA1] @ ''lido.'')"

definition crl_flags :: "world \<Rightarrow> gate \<Rightarrow> (bool \<times> string option) option" where
  "crl_flags wd cx = (if cx_write cx then None
     else Some (shown_read_only wd cx, if cx_read_only cx then Some ''read_only'' else None))"

definition manage_crl :: "crypto \<Rightarrow> world \<Rightarrow> web_request \<Rightarrow> gate \<Rightarrow> service \<Rightarrow> manage_reply io" where
  "manage_crl cy wd rq cx s =
     (let flags = crl_flags wd cx in
      if cx_write cx then bnd (crl_mutate (cy_crl cy) s (request_body rq)) (\<lambda>v. ret (Success (Changed (JObj v)) flags))
      else if arg rq ''defaults'' = Some ''1'' then
        ret (Plain (refuse 400 ''bad_request'' ''CRL requiere la referencia de la CA.''))
      else case arg rq ''uuid'' of
          Some u \<Rightarrow> bnd (crl_get s (JStr u)) (\<lambda>d. ret (Success (CrlShown d) flags))
        | None \<Rightarrow> (case page_of rq of
              None \<Rightarrow> ret (Plain crl_bad_page)
            | Some (p, n) \<Rightarrow> bnd (crl_list s (JInt p) (JInt n) (JStr (arg_or rq ''search'' []))) (\<lambda>l. ret (Success (Listing l) flags))))"

text \<open>The resources by their names; the CRL service has none of the fields of a \<open>spec\<close>.\<close>

definition resource_spec :: "crypto \<Rightarrow> string \<Rightarrow> spec option" where
  "resource_spec cy n = find (\<lambda>sp. sp_id sp = n) (catalog @ identity_resources cy)"

definition unknown_resource :: reply where
  "unknown_resource = refuse 404 ''unknown_resource'' (''Selecciona un m'' @ [CHR 0xC3, CHR 0xB3] @ ''dulo v'' @ [CHR 0xC3, CHR 0xA1] @ ''lido.'')"

definition h_manage :: "crypto \<Rightarrow> world \<Rightarrow> web_request \<Rightarrow> master_cache \<Rightarrow> manage_reply served" where
  "h_manage cy wd rq mc =
     (case named_value rq ''resource'' of
        JStr n \<Rightarrow>
          if n \<noteq> ''trust_crl'' \<and> resource_spec cy n = None then ret (Inr (Plain unknown_resource), mc)
          else gated wd rq None Plain (\<lambda>cx.
            bnd (of_res (mk_client (cx_host cx))) (\<lambda>c.
            bnd (of_res (case cx_peer cx of None \<Rightarrow> Inr None | Some ph \<Rightarrow> rbnd (mk_client ph) (\<lambda>p. Inr (Some p)))) (\<lambda>peer.
            let s = \<lparr>sv_client = c, sv_actor = cx_actor cx, sv_peer = peer\<rparr> in
            try_else (case (n = ''trust_crl'', resource_spec cy n) of
                (False, Some sp) \<Rightarrow> manage_resource wd rq cx sp s
              | _ \<Rightarrow> manage_crl cy wd rq cx s) (\<lambda>_. True) (\<lambda>e. ret (Plain (service_error e))) ret))) mc
      | _ \<Rightarrow> ret (Inr (Plain unknown_resource), mc))"

section \<open>The catalog as the interface sees it\<close>

record shown_resource =
  sr_id :: string
  sr_label :: string
  sr_group :: string
  sr_fields :: "field list"
  sr_columns :: "string list"
  sr_is_singleton :: bool
  sr_read_only :: bool
  sr_restriction :: "string option"
  sr_operations :: "string list"

definition has_path :: "string option \<Rightarrow> bool" where
  "has_path p = (case p of Some (c # cs) \<Rightarrow> True | _ \<Rightarrow> False)"

definition spec_operations :: "spec \<Rightarrow> string list" where
  "spec_operations sp = map fst (filter (\<lambda>(a, p). has_path p)
     [(''create'', sp_add sp), (''update'', sp_set sp), (''delete'', sp_delete sp)])"

definition shown_spec :: "bool \<Rightarrow> bool \<Rightarrow> spec \<Rightarrow> shown_resource" where
  "shown_spec ro cluster sp =
     (let blocked = (cluster \<and> \<not> sp_ha_safe sp) in
      \<lparr>sr_id = sp_id sp, sr_label = sp_label sp, sr_group = sp_group sp, sr_fields = sp_fields sp,
        sr_columns = sp_columns sp, sr_is_singleton = sp_singleton sp, sr_read_only = ro \<or> blocked,
        sr_restriction = (if ro then Some ''read_only'' else if blocked then Some ''ha_unqualified'' else None),
        sr_operations = spec_operations sp\<rparr>)"

definition shown_crl :: "bool \<Rightarrow> bool \<Rightarrow> shown_resource" where
  "shown_crl ro cluster = \<lparr>sr_id = ''trust_crl'', sr_label = (''Listas de revocaci'' @ [CHR 0xC3, CHR 0xB3] @ ''n CRL''), sr_group = ''Certificados'',
     sr_fields = crl_fields, sr_columns = [''descr'', ''crl_descr''], sr_is_singleton = False, sr_read_only = ro \<or> cluster,
     sr_restriction = (if ro then Some ''read_only'' else if cluster then Some ''ha_unqualified'' else None), sr_operations = []\<rparr>"

record catalog_view =
  cv_resources :: "shown_resource list"
  cv_operations :: "operation list"
  cv_backups :: bool
  cv_read_only :: bool

definition h_catalog :: "crypto \<Rightarrow> world \<Rightarrow> web_request \<Rightarrow> (reply + catalog_view) res" where
  "h_catalog cy wd rq =
     (if rq_method rq \<noteq> ''GET'' then Inr (Inl (short_error 405 ''method_not_allowed''))
      else (let cfg = load_config (wd_config wd); can = firewall_can_write (wd_perm wd); ro = (is_read_only cfg \<or> \<not> can) in
        rbnd (is_cluster_mode cfg) (\<lambda>cluster.
        Inr (Inr \<lparr>cv_resources = map (shown_spec ro cluster) (catalog @ identity_resources cy) @ [shown_crl ro cluster],
          cv_operations = operations, cv_backups = can, cv_read_only = ro\<rparr>))))"

end
