(* ===== verification/Log_File.thy ===== *)
theory Log_File
  imports Audit_Log Collectors
begin

text \<open>
  The audit log as a file, \<^verbatim>\<open>AuditLog\<close> of \<^verbatim>\<open>src/writers/audit.py\<close>: the line an append writes, \<^verbatim>\<open>tail\<close> and
  \<^verbatim>\<open>iter_all\<close>, which read lines back with \<^verbatim>\<open>json.loads\<close>. The file is text (its UTF-8 bytes); a lone
  surrogate, which only an escape in a line can produce, is kept as three bytes.
\<close>

section \<open>Reading JSON\<close>

text \<open>\<^verbatim>\<open>TooLong\<close> is the \<^verbatim>\<open>ValueError\<close> of \<^verbatim>\<open>int\<close> on more than 4300 digits, which is no \<^verbatim>\<open>JSONDecodeError\<close>.\<close>

datatype 'a parsed = Malformed | TooLong | Parsed 'a string

fun pmap :: "('a \<Rightarrow> 'b) \<Rightarrow> 'a parsed \<Rightarrow> 'b parsed" where
  "pmap f (Parsed x s) = Parsed (f x) s"
| "pmap f Malformed = Malformed"
| "pmap f TooLong = TooLong"

fun pbind :: "'a parsed \<Rightarrow> ('a \<Rightarrow> string \<Rightarrow> 'b parsed) \<Rightarrow> 'b parsed" where
  "pbind (Parsed x s) f = f x s"
| "pbind Malformed f = Malformed"
| "pbind TooLong f = TooLong"

definition is_ws :: "char \<Rightarrow> bool" where
  "is_ws c = (c \<in> {CHR '' '', CHR 0x09, CHR 0x0A, CHR 0x0D})"

definition skip_ws :: "string \<Rightarrow> string" where
  "skip_ws s = dropWhile is_ws s"

definition hex_digit :: "char \<Rightarrow> nat option" where
  "hex_digit c = (if is_digit c then Some (code c - 48)
     else if in_range (CHR ''a'') (CHR ''f'') c then Some (code c - 87)
     else if in_range (CHR ''A'') (CHR ''F'') c then Some (code c - 55) else None)"

fun hex4 :: "string \<Rightarrow> (nat \<times> string) option" where
  "hex4 (a # b # c # d # cs) = (case (hex_digit a, hex_digit b, hex_digit c, hex_digit d) of
     (Some w, Some x, Some y, Some z) \<Rightarrow> Some (4096 * w + 256 * x + 16 * y + z, cs) | _ \<Rightarrow> None)"
| "hex4 _ = None"

definition utf8 :: "nat \<Rightarrow> string" where
  "utf8 n = (if n < 128 then [chr n]
     else if n < 2048 then [chr (192 + n div 64), chr (128 + n mod 64)]
     else if n < 65536 then [chr (224 + n div 4096), chr (128 + n div 64 mod 64), chr (128 + n mod 64)]
     else [chr (240 + n div 262144), chr (128 + n div 4096 mod 64), chr (128 + n div 64 mod 64), chr (128 + n mod 64)])"

text \<open>An escape after its backslash: a high surrogate joins a low one that follows.\<close>

definition unicode_escape :: "string \<Rightarrow> (string \<times> string) option" where
  "unicode_escape s = (case hex4 s of
      None \<Rightarrow> None
    | Some (u, r) \<Rightarrow>
        (if 55296 \<le> u \<and> u < 56320 then
           (case r of a # b # r' \<Rightarrow>
              (case hex4 r' of
                 Some (v, r'') \<Rightarrow> if a = CHR 0x5C \<and> b = CHR ''u'' \<and> 56320 \<le> v \<and> v < 57344
                   then Some (utf8 (65536 + 1024 * (u - 55296) + (v - 56320)), r'') else Some (utf8 u, r)
               | None \<Rightarrow> Some (utf8 u, r))
            | _ \<Rightarrow> Some (utf8 u, r))
         else Some (utf8 u, r)))"

fun json_escape :: "string \<Rightarrow> (string \<times> string) option" where
  "json_escape [] = None"
| "json_escape (c # cs) =
     (if c \<in> {CHR 0x22, CHR 0x5C, CHR ''/''} then Some ([c], cs)
      else if c = CHR ''b'' then Some ([CHR 0x08], cs) else if c = CHR ''f'' then Some ([CHR 0x0C], cs)
      else if c = CHR ''n'' then Some ([CHR 0x0A], cs) else if c = CHR ''r'' then Some ([CHR 0x0D], cs)
      else if c = CHR ''t'' then Some ([CHR 0x09], cs) else if c = CHR ''u'' then unicode_escape cs else None)"

lemma hex4_shorter: "hex4 s = Some (u, r) \<Longrightarrow> length r < length s"
  by (cases s rule: hex4.cases) (auto split: option.splits)

lemma unicode_shorter: "unicode_escape s = Some (b, r) \<Longrightarrow> length r < length s"
  by (auto simp: unicode_escape_def dest!: hex4_shorter split: option.splits if_splits list.splits)

lemma escape_shorter: "json_escape s = Some (b, r) \<Longrightarrow> length r < length s"
  by (cases s) (auto dest: unicode_shorter split: if_splits)

text \<open>The rest of a string, after its opening quote.\<close>

function json_string :: "string \<Rightarrow> string parsed" where
  "json_string [] = Malformed"
| "json_string (c # cs) =
     (if c = CHR 0x22 then Parsed [] cs
      else if code c < 32 then Malformed
      else if c = CHR 0x5C then (case json_escape cs of None \<Rightarrow> Malformed | Some (b, r) \<Rightarrow> pmap ((@) b) (json_string r))
      else pmap ((#) c) (json_string cs))"
  by pat_completeness auto
termination
  by (relation "measure length") (auto dest!: escape_shorter)

text \<open>A number: an integer, unless a fraction or an exponent follows.\<close>

definition fraction :: "string \<Rightarrow> string \<times> string" where
  "fraction s = (case s of
      c # cs \<Rightarrow> (let ds = takeWhile is_digit cs in
        if c = CHR ''.'' \<and> ds \<noteq> [] then (c # ds, drop (length ds) cs) else ([], s))
    | [] \<Rightarrow> ([], s))"

definition exponent :: "string \<Rightarrow> string \<times> string" where
  "exponent s = (case s of
      c # cs \<Rightarrow> (let sg = (case cs of d # _ \<Rightarrow> if d \<in> {CHR ''+'', CHR ''-''} then [d] else [] | [] \<Rightarrow> []);
                    ds = takeWhile is_digit (drop (length sg) cs) in
        if c \<in> {CHR ''e'', CHR ''E''} \<and> ds \<noteq> [] then (c # sg @ ds, drop (length sg + length ds) cs) else ([], s))
    | [] \<Rightarrow> ([], s))"

definition int_part :: "string \<Rightarrow> string \<times> string" where
  "int_part s = (case s of
      c # cs \<Rightarrow> if c = CHR ''0'' then ([c], cs) else (takeWhile is_digit s, dropWhile is_digit s)
    | [] \<Rightarrow> ([], []))"

definition json_number :: "string \<Rightarrow> json parsed" where
  "json_number s =
     (let sg = (case s of c # _ \<Rightarrow> if c = CHR ''-'' then [c] else [] | [] \<Rightarrow> []);
          (ds, r) = int_part (drop (length sg) s); (fr, r1) = fraction r; (ex, r2) = exponent r1 in
      if ds = [] then Malformed
      else if fr = [] \<and> ex = [] then
        (if length ds > 4300 then TooLong else Parsed (JInt (if sg = [] then dec_val 0 ds else - dec_val 0 ds)) r)
      else (case float_text (sg @ ds @ fr @ ex) of Some t \<Rightarrow> Parsed (JFloat t) r2 | None \<Rightarrow> Malformed))"

definition json_words :: "(string \<times> json) list" where
  "json_words = [(''null'', JNull), (''true'', JBool True), (''false'', JBool False), (''NaN'', JFloat ''nan''),
     (''Infinity'', JFloat ''inf''), (''-Infinity'', JFloat ''-inf'')]"

definition json_word :: "string \<Rightarrow> (json \<times> string) option" where
  "json_word s = (case find (\<lambda>(w, v). starts_with w s) json_words of
     Some (w, v) \<Rightarrow> Some (v, drop (length w) s) | None \<Rightarrow> None)"

text \<open>
  A value, the members of an object from the quote of a name on, and the elements of an array. The first
  argument bounds the depth and the number of elements read; the length of the text is enough.
\<close>

fun json_value :: "nat \<Rightarrow> string \<Rightarrow> json parsed"
and json_members :: "nat \<Rightarrow> obj \<Rightarrow> string \<Rightarrow> obj parsed"
and json_items :: "nat \<Rightarrow> string \<Rightarrow> json list parsed" where
  "json_value 0 s = Malformed"
| "json_value (Suc n) s = (case s of
      [] \<Rightarrow> Malformed
    | c # cs \<Rightarrow>
        if c = CHR 0x22 then pmap JStr (json_string cs)
        else if c = CHR ''{'' then
          (case skip_ws cs of
             d # ds \<Rightarrow> if d = CHR ''}'' then Parsed (JObj []) ds else pmap JObj (json_members n [] (d # ds))
           | [] \<Rightarrow> Malformed)
        else if c = CHR ''['' then
          (case skip_ws cs of
             d # ds \<Rightarrow> if d = CHR '']'' then Parsed (JArr []) ds else pmap JArr (json_items n (d # ds))
           | [] \<Rightarrow> Malformed)
        else (case json_word s of Some (v, r) \<Rightarrow> Parsed v r | None \<Rightarrow> json_number s))"
| "json_members 0 acc s = Malformed"
| "json_members (Suc n) acc s = (case s of
      [] \<Rightarrow> Malformed
    | c # cs \<Rightarrow>
        if c \<noteq> CHR 0x22 then Malformed
        else pbind (json_string cs) (\<lambda>k r. case skip_ws r of
            [] \<Rightarrow> Malformed
          | d # ds \<Rightarrow>
              if d \<noteq> CHR '':'' then Malformed
              else pbind (json_value n (skip_ws ds)) (\<lambda>v r'. case skip_ws r' of
                  [] \<Rightarrow> Malformed
                | e # es \<Rightarrow>
                    if e = CHR ''}'' then Parsed (dput acc k v) es
                    else if e = CHR '','' then json_members n (dput acc k v) (skip_ws es)
                    else Malformed)))"
| "json_items 0 s = Malformed"
| "json_items (Suc n) s = pbind (json_value n s) (\<lambda>v r. case skip_ws r of
      [] \<Rightarrow> Malformed
    | e # es \<Rightarrow>
        if e = CHR '']'' then Parsed [v] es
        else if e = CHR '','' then pmap ((#) v) (json_items n (skip_ws es))
        else Malformed)"

declare json_value.simps(2) [simp del] json_members.simps(2) [simp del] json_items.simps(2) [simp del]

text \<open>\<^verbatim>\<open>json.loads\<close> on a text: nothing but white space may follow the value.\<close>

definition loads :: "string \<Rightarrow> json parsed" where
  "loads s = pbind (json_value (Suc (length s)) (skip_ws s)) (\<lambda>v r.
     if skip_ws r = [] then Parsed v [] else Malformed)"

section \<open>Lines\<close>

definition entry_obj :: "audit_entry \<Rightarrow> obj" where
  "entry_obj a = [(''ts'', JStr (ae_ts a)), (''user'', JStr (ae_user a)), (''action'', JStr (ae_action a)),
     (''target'', JStr (ae_target a)), (''host'', JStr (ae_host a)), (''result'', JStr (ae_result a)),
     (''duration_ms'', JInt (ae_duration_ms a)), (''detail'', JStr (ae_detail a)), (''payload_sha256'', JStr (ae_payload_sha256 a))]"

text \<open>\<^verbatim>\<open>json.dumps(v, ensure_ascii=False, separators=(",", ":"))\<close> keeps the order of a dictionary.\<close>

fun dumps_raw :: "json \<Rightarrow> string" where
  "dumps_raw JNull = ''null''"
| "dumps_raw (JBool b) = (if b then ''true'' else ''false'')"
| "dumps_raw (JInt i) = int_str i"
| "dumps_raw (JFloat r) = float_json r"
| "dumps_raw (JStr s) = quote_json s"
| "dumps_raw (JArr vs) = ''['' @ join '','' (map dumps_raw vs) @ '']''"
| "dumps_raw (JObj kvs) = ''{'' @ join '','' (map (\<lambda>(k, v). quote_json k @ '':'' @ dumps_raw v) kvs) @ ''}''"

definition log_line :: "audit_entry \<Rightarrow> string" where
  "log_line a = dumps_raw (JObj (entry_obj a))"

definition log_append :: "string \<Rightarrow> audit_entry \<Rightarrow> string" where
  "log_append f a = f @ log_line a @ [CHR 0x0A]"

text \<open>\<^verbatim>\<open>readlines\<close> of a file opened as text: lines end with \<^verbatim>\<open>\n\<close>, \<^verbatim>\<open>\r\<close> or both. The newline is not kept here,
  as every line is stripped.\<close>

fun read_lines :: "string \<Rightarrow> string list" where
  "read_lines [] = []"
| "read_lines (c # cs) =
     (if c = CHR 0x0D \<and> cs \<noteq> [] \<and> hd cs = CHR 0x0A then read_lines cs
      else if c = CHR 0x0A \<or> c = CHR 0x0D then [] # read_lines cs
      else (case read_lines cs of [] \<Rightarrow> [[c]] | l # ls \<Rightarrow> (c # l) # ls))"

text \<open>\<^verbatim>\<open>str.splitlines\<close> ends a line at further characters, among them U+0085, U+2028 and U+2029.\<close>

fun break_at :: "string \<Rightarrow> string option" where
  "break_at [] = None"
| "break_at (c # cs) =
     (if code c \<in> {10, 11, 12, 28, 29, 30} then Some cs
      else if c = CHR 0x0D then Some (case cs of d # ds \<Rightarrow> if d = CHR 0x0A then ds else cs | [] \<Rightarrow> [])
      else (case cs of
          d # ds \<Rightarrow> if c = CHR 0xC2 \<and> d = CHR 0x85 then Some ds
            else (case ds of e # es \<Rightarrow> if c = CHR 0xE2 \<and> d = CHR 0x80 \<and> e \<in> {CHR 0xA8, CHR 0xA9} then Some es else None | [] \<Rightarrow> None)
        | [] \<Rightarrow> None))"

lemma break_shorter: "break_at s = Some r \<Longrightarrow> length r < length s"
  by (cases s) (simp_all split: if_split_asm list.split_asm)

function splitlines :: "string \<Rightarrow> string list" where
  "splitlines s = (case s of
      [] \<Rightarrow> []
    | c # cs \<Rightarrow> (case break_at (c # cs) of
          Some r \<Rightarrow> [] # splitlines r
        | None \<Rightarrow> (case splitlines cs of [] \<Rightarrow> [[c]] | l # ls \<Rightarrow> (c # l) # ls)))"
  by pat_completeness auto
termination
  by (relation "measure length") (auto dest!: break_shorter simp del: break_at.simps)

section \<open>Entries\<close>

definition entry_fields :: "string list" where
  "entry_fields = [''ts'', ''user'', ''action'', ''target'', ''host'', ''result'', ''duration_ms'', ''detail'', ''payload_sha256'']"

text \<open>\<^verbatim>\<open>AuditEntry(**known)\<close>: the first seven fields are needed, the last two may be missing.\<close>

definition entry_from :: "obj \<Rightarrow> obj option" where
  "entry_from d =
     (if list_all (\<lambda>k. map_of d k \<noteq> None) (take 7 entry_fields)
      then Some (map (\<lambda>k. (k, dget_or (JObj d) k (JStr []))) entry_fields) else None)"

text \<open>Lines that are no entry are passed over; a line that holds another value than an object is not.\<close>

fun entries_of :: "string list \<Rightarrow> obj list res" where
  "entries_of [] = Inr []"
| "entries_of (l # ls) =
     (if strip l = [] then entries_of ls
      else (case loads (strip l) of
          Malformed \<Rightarrow> entries_of ls
        | TooLong \<Rightarrow> Inl (ValueErr ''Exceeds the limit (4300 digits) for integer string conversion'')
        | Parsed v r \<Rightarrow> (case v of
              JObj d \<Rightarrow> (case entry_from d of None \<Rightarrow> entries_of ls | Some e \<Rightarrow> rbnd (entries_of ls) (\<lambda>es. Inr (e # es)))
            | _ \<Rightarrow> Inl (AttrErr ''object has no attribute items''))))"

text \<open>\<^verbatim>\<open>lines[-limit:]\<close>: zero takes every line.\<close>

definition last_lines :: "int \<Rightarrow> 'a list \<Rightarrow> 'a list" where
  "last_lines n xs = (if n > 0 then drop (length xs - nat n) xs else drop (nat (- n)) xs)"

definition log_tail :: "string option \<Rightarrow> int \<Rightarrow> obj list res" where
  "log_tail f n = (case f of None \<Rightarrow> Inr [] | Some s \<Rightarrow> entries_of (last_lines n (read_lines s)))"

definition log_iter_all :: "string option \<Rightarrow> obj list res" where
  "log_iter_all f = (case f of None \<Rightarrow> Inr [] | Some s \<Rightarrow> entries_of (splitlines s))"

end
