(* ===== verification/Base64.thy ===== *)
theory Base64
  imports Prelude
begin

text \<open>
  \<^verbatim>\<open>base64.b64encode\<close> and \<^verbatim>\<open>base64.b64decode(.., validate=True)\<close> of the Python standard library, on bytes, with their
  round trip: a text that is not made of whole groups, with the padding only in the last one, is refused.
\<close>

definition b64_alphabet :: string where
  "b64_alphabet = ''ABCDEFGHIJKLMNOPQRSTUVWXYZabcdefghijklmnopqrstuvwxyz0123456789+/''"

definition b64_char :: "nat \<Rightarrow> char" where
  "b64_char n = (b64_alphabet ! n)"

fun index_of :: "char \<Rightarrow> string \<Rightarrow> nat option" where
  "index_of c [] = None"
| "index_of c (d # ds) = (if c = d then Some 0 else map_option Suc (index_of c ds))"

definition b64_val :: "char \<Rightarrow> nat option" where
  "b64_val c = index_of c b64_alphabet"

text \<open>The four sextets of three bytes, and the three bytes of four sextets.\<close>

definition six1 :: "char \<Rightarrow> nat" where
  "six1 a = code a div 4"

definition six2 :: "char \<Rightarrow> nat \<Rightarrow> nat" where
  "six2 a b = code a mod 4 * 16 + b div 16"

definition six3 :: "char \<Rightarrow> nat \<Rightarrow> nat" where
  "six3 b c = code b mod 16 * 4 + c div 64"

definition six4 :: "char \<Rightarrow> nat" where
  "six4 c = code c mod 64"

definition byte1 :: "nat \<Rightarrow> nat \<Rightarrow> char" where
  "byte1 w x = chr (w * 4 + x div 16)"

definition byte2 :: "nat \<Rightarrow> nat \<Rightarrow> char" where
  "byte2 x y = chr (x mod 16 * 16 + y div 4)"

definition byte3 :: "nat \<Rightarrow> nat \<Rightarrow> char" where
  "byte3 y z = chr (y mod 4 * 64 + z)"

fun b64_encode :: "string \<Rightarrow> string" where
  "b64_encode [] = []"
| "b64_encode [a] = [b64_char (six1 a), b64_char (six2 a 0), CHR ''='', CHR ''='']"
| "b64_encode [a, b] = [b64_char (six1 a), b64_char (six2 a (code b)), b64_char (six3 b 0), CHR ''='']"
| "b64_encode (a # b # c # s) =
     b64_char (six1 a) # b64_char (six2 a (code b)) # b64_char (six3 b (code c)) # b64_char (six4 c) # b64_encode s"

fun b64_decode :: "string \<Rightarrow> string option" where
  "b64_decode [] = Some []"
| "b64_decode (a # b # c # d # s) =
     (case (b64_val a, b64_val b) of
        (Some w, Some x) \<Rightarrow>
          if d = CHR ''='' \<and> s = [] then
            (if c = CHR ''='' then Some [byte1 w x]
             else (case b64_val c of Some y \<Rightarrow> Some [byte1 w x, byte2 x y] | None \<Rightarrow> None))
          else (case (b64_val c, b64_val d) of
              (Some y, Some z) \<Rightarrow> map_option (\<lambda>t. byte1 w x # byte2 x y # byte3 y z # t) (b64_decode s)
            | _ \<Rightarrow> None)
      | _ \<Rightarrow> None)"
| "b64_decode _ = None"

lemma b64_table: "list_all (\<lambda>n. b64_val (b64_char n) = Some n \<and> b64_char n \<noteq> CHR ''='') [0..<64]"
  by code_simp

lemma b64_val_char: "n < 64 \<Longrightarrow> b64_val (b64_char n) = Some n" "n < 64 \<Longrightarrow> b64_char n \<noteq> CHR ''=''"
  using b64_table by (simp_all add: list_all_iff)

lemma two_digits: "y < b \<Longrightarrow> (x * b + y) div b = x" "y < b \<Longrightarrow> (x * b + y) mod b = y" "x < a \<Longrightarrow> y < b \<Longrightarrow> x * b + y < a * b"
  for x y a b :: nat
proof -
  assume "x < a" "y < b"
  then have "x * b + y < Suc x * b" by simp
  also have "\<dots> \<le> a * b" using \<open>x < a\<close> by (intro mult_right_mono) simp_all
  finally show "x * b + y < a * b" .
qed simp_all

lemma byte_divs: "code c div 4 < 64" "code c div 16 < 16" "code c div 64 < 4" "code c mod 4 < 4" "code c mod 16 < 16" "code c mod 64 < 64"
  by (rule less_mult_imp_div_less, simp)+ simp_all

lemma six_bits: "six1 a < 64" "six2 a 0 < 64" "six2 a (code b) < 64" "six3 b 0 < 64" "six3 b (code c) < 64" "six4 c < 64"
  using two_digits(3) [of "code a mod 4" 4 0 16] two_digits(3) [of "code a mod 4" 4 "code b div 16" 16]
    two_digits(3) [of "code b mod 16" 16 0 4] two_digits(3) [of "code b mod 16" 16 "code c div 64" 4] byte_divs
  by (simp_all add: six1_def six2_def six3_def six4_def)

lemma byte_parts:
  "byte1 (six1 a) (six2 a 0) = a" "byte1 (six1 a) (six2 a (code b)) = a"
  "byte2 (six2 a (code b)) (six3 b 0) = b" "byte2 (six2 a (code b)) (six3 b (code c)) = b"
  "byte3 (six3 b (code c)) (six4 c) = c"
proof -
  have a: "six2 a 0 div 16 = code a mod 4" "six2 a (code b) div 16 = code a mod 4" "six2 a (code b) mod 16 = code b div 16"
    using two_digits(1,2) [OF byte_divs(2), of "code a mod 4" b] by (simp_all add: six2_def)
  have b: "six3 b 0 div 4 = code b mod 16" "six3 b (code c) div 4 = code b mod 16" "six3 b (code c) mod 4 = code c div 64"
    using two_digits(1,2) [OF byte_divs(3), of "code b mod 16" c] by (simp_all add: six3_def)
  show "byte1 (six1 a) (six2 a 0) = a" "byte1 (six1 a) (six2 a (code b)) = a"
    unfolding byte1_def a six1_def by (simp_all only: div_mult_mod_eq chr_code)
  show "byte2 (six2 a (code b)) (six3 b 0) = b" "byte2 (six2 a (code b)) (six3 b (code c)) = b"
    unfolding byte2_def a b by (simp_all only: div_mult_mod_eq chr_code)
  show "byte3 (six3 b (code c)) (six4 c) = c"
    unfolding byte3_def b six4_def by (simp only: div_mult_mod_eq chr_code)
qed

theorem b64_round_trip: "b64_decode (b64_encode s) = Some s"
  by (induction s rule: b64_encode.induct) (simp_all add: b64_val_char six_bits byte_parts)

lemma b64_length: "length (b64_encode s) = 4 * ((length s + 2) div 3)"
proof (induction s rule: b64_encode.induct)
  case (4 a b c s)
  have "(length (a # b # c # s) + 2) div 3 = Suc ((length s + 2) div 3)"
    using div_add_self2 [of 3 "length s + 2"] by simp
  with 4 show ?case by simp
qed simp_all

end
