(* ===== verification/Backups.thy ===== *)
theory Backups
  imports Handlers Log_File Base64
begin

text \<open>
  The encrypted copies of configuration backups, \<^verbatim>\<open>src/management/backups.py\<close>, and their handler \<^verbatim>\<open>_h_backups\<close> of
  \<^verbatim>\<open>src/__init__.py\<close>. The store is a state: the \<^verbatim>\<open>.enc\<close> files by the stems of their names, the key file and the
  audit log. What the operating system, the random generator and the cryptography and XML packages do are
  functions of an environment, some of the number of the step; the temporary file of a write is not part of the
  state, as it is always removed.
\<close>

section \<open>State and environment\<close>

text \<open>What the streamed download gives: a failure, or a status, the declared length, and chunks up to an end.\<close>

datatype stream_end = Complete | Timed_Out | Broken_Off

datatype download = No_Answer bool | Streamed int "string option" "string list" stream_end

record store_env =
  st_root_link :: bool
  st_pinned :: "nat \<Rightarrow> bool"
  st_fault :: "nat \<Rightarrow> bool"
  st_log_fault :: "nat \<Rightarrow> bool"
  st_key_link :: bool
  st_file_link :: "string \<Rightarrow> bool"
  st_now :: string
  st_iso :: string
  st_uuid :: string
  st_random :: "nat \<Rightarrow> nat \<Rightarrow> string"
  st_download :: "host \<Rightarrow> download"
  st_xml :: "string \<Rightarrow> bool"
  st_word :: "string \<Rightarrow> bool"
  st_encrypt :: "string \<Rightarrow> string \<Rightarrow> string \<Rightarrow> string \<Rightarrow> string"
  st_decrypt :: "string \<Rightarrow> string \<Rightarrow> string \<Rightarrow> string \<Rightarrow> string option"

record vault =
  va_files :: "(string \<times> string) list"
  va_key :: "string option"
  va_log :: "audit_entry list"
  va_step :: nat

type_synonym 'a act = "store_env \<Rightarrow> vault \<Rightarrow> 'a res \<times> vault"

definition act_ret :: "'a \<Rightarrow> 'a act" where
  "act_ret x = (\<lambda>E v. (Inr x, v))"

definition act_raise :: "exn \<Rightarrow> 'a act" where
  "act_raise e = (\<lambda>E v. (Inl e, v))"

definition act_bnd :: "'a act \<Rightarrow> ('a \<Rightarrow> 'b act) \<Rightarrow> 'b act" where
  "act_bnd m f = (\<lambda>E v. case m E v of (Inl e, v') \<Rightarrow> (Inl e, v') | (Inr x, v') \<Rightarrow> f x E v')"

definition act_res :: "(store_env \<Rightarrow> 'a res) \<Rightarrow> 'a act" where
  "act_res f = (\<lambda>E v. (f E, v))"

text \<open>Asking the environment about the next step.\<close>

definition ask :: "(store_env \<Rightarrow> nat \<Rightarrow> 'a) \<Rightarrow> 'a act" where
  "ask f = (\<lambda>E v. (Inr (f E (va_step v)), v\<lparr>va_step := Suc (va_step v)\<rparr>))"

definition get_vault :: "vault act" where
  "get_vault = (\<lambda>E v. (Inr v, v))"

definition put_file :: "string \<Rightarrow> string \<Rightarrow> unit act" where
  "put_file stem content = (\<lambda>E v. (Inr (), v\<lparr>va_files := AList.update stem content (va_files v)\<rparr>))"

definition drop_file :: "string \<Rightarrow> unit act" where
  "drop_file stem = (\<lambda>E v. (Inr (), v\<lparr>va_files := AList.delete stem (va_files v)\<rparr>))"

definition put_key :: "string \<Rightarrow> unit act" where
  "put_key k = (\<lambda>E v. (Inr (), v\<lparr>va_key := Some k\<rparr>))"

abbreviation backup_error :: "int \<Rightarrow> exn" where
  "backup_error status \<equiv> mgmt ''backup'' status"

definition os_error :: exn where
  "os_error = OSErr ''file system''"

section \<open>The helpers of the store\<close>

definition max_xml :: nat where
  "max_xml = 16 * 1024 * 1024"

definition max_envelope :: nat where
  "max_envelope = 23 * 1024 * 1024"

definition xml_ok :: "store_env \<Rightarrow> string \<Rightarrow> bool" where
  "xml_ok E payload = (payload \<noteq> [] \<and> length payload \<le> max_xml \<and> st_xml E payload)"

text \<open>\<^verbatim>\<open>BackupStore.__init__\<close>: making the directory and reading its identity.\<close>

definition open_store :: "unit act" where
  "open_store = act_bnd (act_res (\<lambda>E. Inr (st_root_link E))) (\<lambda>l.
     if l then act_raise (backup_error 400)
     else act_bnd (ask st_fault) (\<lambda>f. if f then act_raise os_error else act_ret ()))"

definition pinned :: "unit act" where
  "pinned = act_bnd (ask st_pinned) (\<lambda>ok. if ok then act_ret () else act_raise (backup_error 409))"

definition backup_path :: "json \<Rightarrow> string act" where
  "backup_path ident = (case ident of
      JStr s \<Rightarrow> if \<not> canonical_uuid s then act_raise (backup_error 400)
        else act_bnd pinned (\<lambda>_. act_bnd (act_res (\<lambda>E. Inr (st_file_link E s))) (\<lambda>l.
          if l then act_raise (backup_error 400) else act_ret s))
    | _ \<Rightarrow> act_raise (backup_error 400))"

definition backup_line :: "string \<Rightarrow> string \<Rightarrow> string \<Rightarrow> string \<Rightarrow> audit_entry" where
  "backup_line now actor action ident = \<lparr>ae_ts = now, ae_user = actor, ae_action = ''backup.'' @ action, ae_target = ident,
     ae_host = ''local-store'', ae_result = ''attempt'', ae_duration_ms = 0, ae_detail = [], ae_payload_sha256 = []\<rparr>"

definition record_access :: "string \<Rightarrow> string \<Rightarrow> string \<Rightarrow> unit act" where
  "record_access actor action ident = act_bnd (ask st_log_fault) (\<lambda>f.
     if f then act_raise (mgmt ''audit'' 503)
     else (\<lambda>E v. (Inr (), v\<lparr>va_log := va_log v @ [backup_line (st_now E) actor action ident]\<rparr>)))"

text \<open>The key file is made only when it is missing, wanted, and there is no backup yet.\<close>

definition make_key :: "unit act" where
  "make_key = act_bnd get_vault (\<lambda>v.
     if va_files v \<noteq> [] then act_raise (backup_error 409)
     else act_bnd (ask st_fault) (\<lambda>f1. if f1 then act_raise os_error
     else act_bnd (put_key []) (\<lambda>_. act_bnd (ask (\<lambda>E n. st_random E n 32)) (\<lambda>k.
       act_bnd (ask st_fault) (\<lambda>f2. if f2 then act_raise os_error
       else act_bnd (put_key k) (\<lambda>_. act_bnd (ask st_fault) (\<lambda>f3. if f3 then act_raise os_error else act_ret ())))))))"

definition ensure_key :: "bool \<Rightarrow> unit act" where
  "ensure_key create = act_bnd get_vault (\<lambda>v. if create \<and> va_key v = None then make_key else act_ret ())"

definition read_key :: "string act" where
  "read_key = act_bnd get_vault (\<lambda>v. act_bnd (ask st_fault) (\<lambda>f. case va_key v of
       Some k \<Rightarrow> if f \<or> length k \<noteq> 32 then act_raise (backup_error 409) else act_ret k
     | None \<Rightarrow> act_raise (backup_error 409)))"

definition store_key :: "bool \<Rightarrow> string act" where
  "store_key create = act_bnd pinned (\<lambda>_. act_bnd (act_res (\<lambda>E. Inr (st_key_link E))) (\<lambda>l.
     if l then act_raise (backup_error 409) else act_bnd (ensure_key create) (\<lambda>_. read_key)))"

section \<open>Downloading\<close>

text \<open>
  The parts of an address after \<^verbatim>\<open>https://\<close> as \<^verbatim>\<open>urlsplit\<close> sees them: the network location ends at a slash, a question
  mark or a number sign; what stands before its last at-sign is the user information. Brackets must be balanced.
\<close>

definition netloc_of :: "string \<Rightarrow> string" where
  "netloc_of s = takeWhile (\<lambda>c. c \<notin> set ''/?#'') s"

definition user_info :: "string \<Rightarrow> string option" where
  "user_info loc = (if CHR ''@'' \<in> set loc then Some (rev (drop 1 (dropWhile (\<lambda>c. c \<noteq> CHR ''@'') (rev loc)))) else None)"

definition host_part :: "string \<Rightarrow> string" where
  "host_part loc = (let h = rev (takeWhile (\<lambda>c. c \<noteq> CHR ''@'') (rev loc)) in
     if CHR ''['' \<in> set h then takeWhile (\<lambda>c. c \<noteq> CHR '']'') (drop 1 (dropWhile (\<lambda>c. c \<noteq> CHR ''['') h))
     else takeWhile (\<lambda>c. c \<noteq> CHR '':'') h)"

definition fragment_of :: "string \<Rightarrow> string" where
  "fragment_of s = drop 1 (dropWhile (\<lambda>c. c \<noteq> CHR ''#'') s)"

definition query_of :: "string \<Rightarrow> string" where
  "query_of s = drop 1 (dropWhile (\<lambda>c. c \<noteq> CHR ''?'') (takeWhile (\<lambda>c. c \<noteq> CHR ''#'') s))"

definition check_address :: "string \<Rightarrow> unit res" where
  "check_address url =
     (if \<not> starts_with ''https://'' url then Inl (backup_error 400)
      else (let s = filter (\<lambda>c. code c \<notin> {9, 10, 13}) (drop 8 url); loc = netloc_of s in
        if (CHR ''['' \<in> set loc) \<noteq> (CHR '']'' \<in> set loc) then Inl (ValueErr ''Invalid IPv6 URL'')
        else if host_part loc = [] \<or> (case user_info loc of Some u \<Rightarrow> u \<noteq> [] \<and> u \<noteq> '':'' | None \<Rightarrow> False) \<or>
          query_of s \<noteq> [] \<or> fragment_of s \<noteq> [] then Inl (backup_error 400)
        else Inr ()))"

text \<open>The chunks are added up as they come, before the end of the stream is known.\<close>

fun too_long :: "nat \<Rightarrow> string list \<Rightarrow> bool" where
  "too_long n [] = False"
| "too_long n (c # cs) = (n + length c > max_xml \<or> too_long (n + length c) cs)"

definition declared_ok :: "string option \<Rightarrow> unit res" where
  "declared_ok d = (case d of None \<Rightarrow> Inr ()
     | Some s \<Rightarrow> if \<not> isdigit s then Inl (backup_error 502)
         else if length s > 4300 then Inl (ValueErr ''Exceeds the limit (4300 digits) for integer string conversion'')
         else if dec_val 0 s > int max_xml then Inl (backup_error 502) else Inr ())"

definition backup_download :: "store_env \<Rightarrow> host \<Rightarrow> string res" where
  "backup_download E h = rbnd (check_address (h_url h)) (\<lambda>_. case st_download E h of
      No_Answer timeout \<Rightarrow> Inl (if timeout then mgmt ''timeout'' 504 else backup_error 502)
    | Streamed status declared chunks ending \<Rightarrow>
        if status = 401 \<or> status = 403 then Inl (mgmt ''auth'' 401)
        else if status \<noteq> 200 then Inl (backup_error 502)
        else rbnd (declared_ok declared) (\<lambda>_.
          if too_long 0 chunks then Inl (backup_error 502)
          else (case ending of
              Timed_Out \<Rightarrow> Inl (mgmt ''timeout'' 504)
            | Broken_Off \<Rightarrow> Inl (backup_error 502)
            | Complete \<Rightarrow> if xml_ok E (concat chunks) then Inr (concat chunks) else Inl (backup_error 502))))"

section \<open>Storing and reading\<close>

text \<open>\<^verbatim>\<open>re.sub(r'[^\w .-]', '', name)[:80]\<close>; which characters beyond ASCII are word characters is up to the environment.\<close>

definition host_name_shown :: "store_env \<Rightarrow> string \<Rightarrow> string" where
  "host_name_shown E s = py_take 80 (concat (filter (\<lambda>ch. case ch of
      [c] \<Rightarrow> is_alnum c \<or> c \<in> set ''_ .-'' | _ \<Rightarrow> st_word E ch) (py_chars s)))"

definition metadata_of :: "store_env \<Rightarrow> host \<Rightarrow> string \<Rightarrow> obj" where
  "metadata_of E h payload = [(''id'', JStr (st_uuid E)), (''date'', JStr (st_iso E)), (''host'', JStr (host_name_shown E (h_name h))),
     (''sha256'', JStr (sha256_hex payload)), (''size'', JInt (int (length payload))),
     (''source'', JStr ''latest_historical_backup''), (''format'', JStr ''opnsense-xml'')]"

definition envelope_of :: "obj \<Rightarrow> string \<Rightarrow> string \<Rightarrow> json" where
  "envelope_of metadata nonce ciphertext = JObj [(''version'', JInt 1), (''metadata'', JObj metadata),
     (''nonce'', JStr (b64_encode nonce)), (''ciphertext'', JStr (b64_encode ciphertext))]"

definition store_failed :: exn where
  "store_failed = backup_error 503"

text \<open>Encrypting under the key of the store, which is made if need be; the metadata is authenticated with it.\<close>

definition seal_backup :: "host \<Rightarrow> string \<Rightarrow> (string \<times> obj \<times> string) act" where
  "seal_backup h payload =
     act_bnd (act_res (\<lambda>E. Inr (metadata_of E h payload))) (\<lambda>metadata.
     act_bnd (store_key True) (\<lambda>key. act_bnd (ask (\<lambda>E n. st_random E n 12)) (\<lambda>nonce.
     act_bnd (act_res (\<lambda>E. Inr (st_encrypt E key nonce payload (canonical_json (JObj metadata))))) (\<lambda>ciphertext.
     act_bnd (act_res (\<lambda>E. Inr (st_uuid E))) (\<lambda>ident. act_bnd (backup_path (JStr ident)) (\<lambda>stem.
     act_ret (stem, metadata, canonical_json (envelope_of metadata nonce ciphertext))))))))"

text \<open>Writing the temporary file, checking the directory again, moving the file into place, and its mode.\<close>

definition write_backup :: "string \<Rightarrow> string \<Rightarrow> unit act" where
  "write_backup stem content =
     act_bnd (ask st_fault) (\<lambda>f1. if f1 then act_raise store_failed
     else act_bnd pinned (\<lambda>_. act_bnd (ask st_fault) (\<lambda>f2. if f2 then act_raise store_failed
     else act_bnd (put_file stem content) (\<lambda>_. act_bnd (ask st_fault) (\<lambda>f3.
       if f3 then act_raise store_failed else act_ret ())))))"

definition create_backup :: "string \<Rightarrow> host \<Rightarrow> obj act" where
  "create_backup actor h =
     act_bnd pinned (\<lambda>_. act_bnd (record_access actor ''create'' []) (\<lambda>_.
     act_bnd (act_res (\<lambda>E. backup_download E h)) (\<lambda>payload. act_bnd (seal_backup h payload) (\<lambda>(stem, metadata, content).
     act_bnd (write_backup stem content) (\<lambda>_. act_ret metadata)))))"

text \<open>What an envelope holds, if it has the parts it needs; any fault in it is the same error.\<close>

definition parse_envelope :: "string \<Rightarrow> string \<Rightarrow> (obj \<times> string \<times> string) option" where
  "parse_envelope ident content = (if length content > max_envelope then None else (case loads content of
      Parsed (JObj d) _ \<Rightarrow>
        (case (map_of d ''metadata'', map_of d ''version'', map_of d ''nonce'', map_of d ''ciphertext'') of
           (Some (JObj m), Some ver, Some (JStr n), Some (JStr c)) \<Rightarrow>
             if \<not> py_eq ver (JInt 1) \<or> map_of m ''id'' \<noteq> Some (JStr ident) then None
             else (case (b64_decode n, b64_decode c) of
                 (Some nonce, Some ciphertext) \<Rightarrow> if length nonce \<noteq> 12 then None else Some (m, nonce, ciphertext)
               | _ \<Rightarrow> None)
         | _ \<Rightarrow> None)
    | _ \<Rightarrow> None))"

definition payload_matches :: "obj \<Rightarrow> string \<Rightarrow> bool" where
  "payload_matches m payload = ((case map_of m ''size'' of Some v \<Rightarrow> py_eq (JInt (int (length payload))) v | None \<Rightarrow> False) \<and>
     map_of m ''sha256'' = Some (JStr (sha256_hex payload)))"

definition load_backup :: "json \<Rightarrow> (obj \<times> string) act" where
  "load_backup ident = act_bnd (backup_path ident) (\<lambda>stem.
     act_bnd get_vault (\<lambda>v. case map_of (va_files v) stem of
         None \<Rightarrow> act_raise (backup_error 404)
       | Some content \<Rightarrow> act_bnd (ask st_fault) (\<lambda>f. if f then act_raise (backup_error 409)
           else (case parse_envelope stem content of
               None \<Rightarrow> act_raise (backup_error 409)
             | Some (m, nonce, ciphertext) \<Rightarrow> act_bnd (store_key False) (\<lambda>key.
                 act_res (\<lambda>E. case st_decrypt E key nonce ciphertext (canonical_json (JObj m)) of
                     Some payload \<Rightarrow> if \<not> payload_matches m payload then Inl (backup_error 409)
                       else if \<not> xml_ok E payload then Inl (backup_error 502) else Inr (m, payload)
                   | None \<Rightarrow> Inl (backup_error 409)))))))"

fun load_all :: "string list \<Rightarrow> obj list act" where
  "load_all [] = act_ret []"
| "load_all (s # ss) = act_bnd (load_backup (JStr s)) (\<lambda>(m, _). act_bnd (load_all ss) (\<lambda>ms. act_ret (m # ms)))"

text \<open>By date, the latest first; equal dates keep the order of the names. Every backup has a date that is text.\<close>

definition date_of :: "obj \<Rightarrow> string res" where
  "date_of m = (case map_of m ''date'' of Some (JStr s) \<Rightarrow> Inr s
      | Some _ \<Rightarrow> Inl (TypeErr ''not supported between instances'') | None \<Rightarrow> Inl (KeyErr ''date''))"

fun dates_of :: "obj list \<Rightarrow> string list res" where
  "dates_of [] = Inr []"
| "dates_of (m # ms) = rbnd (date_of m) (\<lambda>d. rbnd (dates_of ms) (\<lambda>ds. Inr (d # ds)))"

definition latest_first :: "obj list \<Rightarrow> obj list res" where
  "latest_first ms = rbnd (dates_of ms) (\<lambda>ds. Inr (map snd (rev (sort_key fst (rev (zip ds ms))))))"

definition list_backups :: "obj list act" where
  "list_backups = act_bnd pinned (\<lambda>_. act_bnd get_vault (\<lambda>v.
     act_bnd (load_all (sort_key (\<lambda>s. s @ ''.enc'') (map fst (va_files v)))) (\<lambda>ms. act_res (\<lambda>_. latest_first ms))))"

definition read_backup :: "string \<Rightarrow> json \<Rightarrow> string act" where
  "read_backup actor ident = act_bnd (backup_path ident) (\<lambda>stem. act_bnd (record_access actor ''download'' stem) (\<lambda>_.
     act_bnd (load_backup ident) (\<lambda>(m, payload). act_ret payload)))"

definition restore_decrypt :: "string \<Rightarrow> json \<Rightarrow> string act" where
  "restore_decrypt actor ident = read_backup actor ident"

definition delete_backup :: "string \<Rightarrow> json \<Rightarrow> obj act" where
  "delete_backup actor ident = act_bnd (backup_path ident) (\<lambda>stem. act_bnd (record_access actor ''delete'' stem) (\<lambda>_.
     act_bnd (load_backup ident) (\<lambda>_. act_bnd pinned (\<lambda>_. act_bnd (ask st_fault) (\<lambda>f.
     if f then act_raise store_failed
     else act_bnd (drop_file stem) (\<lambda>_. act_ret [(''id'', JStr stem), (''deleted'', JBool True)]))))))"

section \<open>The handler\<close>

datatype backup_reply = Backup_Data reply | Backup_File string

definition backup_failed :: "exn \<Rightarrow> backup_reply" where
  "backup_failed e = Backup_Data (case e of MgmtErr m \<Rightarrow> (me_status m, as_dict_of m)
     | _ \<Rightarrow> refuse 500 ''internal'' ''No se pudo procesar el respaldo.'')"

definition answer_act :: "'a act \<Rightarrow> ('a \<Rightarrow> backup_reply) \<Rightarrow> store_env \<Rightarrow> vault \<Rightarrow> backup_reply \<times> vault" where
  "answer_act m f E v = (case m E v of (Inl e, v') \<Rightarrow> (backup_failed e, v') | (Inr x, v') \<Rightarrow> (f x, v'))"

definition backup_actor :: "web_request \<Rightarrow> string" where
  "backup_actor rq = (case rq_user rq of None \<Rightarrow> ''plugin'' | Some u \<Rightarrow> u)"

definition h_backups ::
  "store_env \<Rightarrow> vault \<Rightarrow> world \<Rightarrow> web_request \<Rightarrow> master_cache \<Rightarrow> (backup_reply \<times> vault \<times> master_cache) io" where
  "h_backups E v wd rq mc =
     (let actor = backup_actor rq; now = (\<lambda>(r, v'). ret (r, v', mc)) in
      if rq_method rq \<notin> {''GET'', ''POST''} then ret (Backup_Data (short_error 405 ''method_not_allowed''), v, mc)
      else if \<not> firewall_can_write (wd_perm wd) then
        ret (Backup_Data (refuse 403 ''forbidden'' ''Se requiere el permiso plugins.manage.''), v, mc)
      else (case open_store E v of
          (Inl e, v1) \<Rightarrow> ret (backup_failed e, v1, mc)
        | (Inr _, v1) \<Rightarrow>
            if rq_method rq = ''GET'' then
              (if arg rq ''download'' = Some ''1'' then
                 now (answer_act (read_backup actor (case arg rq ''id'' of Some s \<Rightarrow> JStr s | None \<Rightarrow> JNull)) Backup_File E v1)
               else now (answer_act list_backups (\<lambda>ms. Backup_Data (fine (JObj [(''items'', JArr (map JObj ms))]))) E v1))
            else (case rq_json rq of
                Some (JObj b) \<Rightarrow>
                  if map_of b ''action'' = Some (JStr ''create'') then
                    try_else (firewall_target (load_config (wd_config wd)) False mc) (\<lambda>_. True)
                      (\<lambda>e. ret (backup_failed e, v1, mc))
                      (\<lambda>(t, mc'). case t of
                          None \<Rightarrow> ret (Backup_Data unconfigured_response, v1, mc')
                        | Some (h, _) \<Rightarrow> (case answer_act (create_backup actor h) (\<lambda>m. Backup_Data (fine (JObj m))) E v1 of
                            (r, v') \<Rightarrow> ret (r, v', mc')))
                  else if map_of b ''action'' = Some (JStr ''delete'') then
                    now (answer_act (delete_backup actor (dget_or (JObj b) ''id'' JNull)) (\<lambda>m. Backup_Data (fine (JObj m))) E v1)
                  else ret (Backup_Data (short_error 400 ''bad_request''), v1, mc)
              | _ \<Rightarrow> ret (Backup_Data (short_error 400 ''bad_request''), v1, mc))))"

end
