(* ===== verification/Register.thy ===== *)
theory Register
  imports Metrics Backups
begin

text \<open>
  The table of routes of \<^verbatim>\<open>src/__init__.py\<close>: the handlers that send a file of the plugin, and all the others, with
  the state the backups keep.
\<close>

section \<open>Files of the user interface\<close>

text \<open>An answer: data, the page of an object, a status, the catalog, a file of the plugin with its type and its further
  headers, the metrics, or the reply of the backup store with the state it leaves.\<close>

datatype answer =
    Reply reply
  | Managed manage_reply
  | Status json
  | Resources catalog_view
  | Asset string string "(string \<times> string) list"
  | Exposition string
  | Stored backup_reply vault

definition h_ui :: answer where
  "h_ui = Asset ''opnsense.html'' ''text/html'' []"

definition workspace_asset :: "web_request \<Rightarrow> string \<Rightarrow> string \<Rightarrow> answer" where
  "workspace_asset rq filename mimetype =
     (if rq_method rq \<noteq> ''GET'' then Reply (short_error 405 ''method_not_allowed'')
      else Asset filename mimetype [(''Cache-Control'', ''private, no-cache''), (''X-Content-Type-Options'', ''nosniff'')])"

definition h_workspace :: "web_request \<Rightarrow> answer" where
  "h_workspace rq = workspace_asset rq ''workspace.html'' ''text/html''"

definition h_workspace_js :: "web_request \<Rightarrow> answer" where
  "h_workspace_js rq = workspace_asset rq ''workspace.js'' ''application/javascript''"

definition h_workspace_css :: "web_request \<Rightarrow> answer" where
  "h_workspace_css rq = workspace_asset rq ''workspace.css'' ''text/css''"

section \<open>The routes\<close>

definition answered :: "('a \<Rightarrow> answer) \<Rightarrow> 'a served \<Rightarrow> answer served" where
  "answered f m = bnd m (\<lambda>(r, mc). ret (map_sum id f r, mc))"

definition answered_now :: "('a \<Rightarrow> answer) \<Rightarrow> 'a res \<Rightarrow> master_cache \<Rightarrow> answer served" where
  "answered_now f r mc = ret (map_sum id f r, mc)"

text \<open>The libraries and the state a request is served with.\<close>

record site =
  si_lib :: py_lib
  si_crypto :: crypto
  si_store :: store_env
  si_vault :: vault
  si_version :: string
  si_world :: world

definition serve_backups :: "site \<Rightarrow> web_request \<Rightarrow> master_cache \<Rightarrow> answer served" where
  "serve_backups si rq mc = bnd (h_backups (si_store si) (si_vault si) (si_world si) rq mc)
     (\<lambda>(r, v, mc'). ret (Inr (Stored r v), mc'))"

text \<open>The table \<^verbatim>\<open>register\<close> hands to the host application, in its order.\<close>

definition routes :: "site \<Rightarrow> web_request \<Rightarrow> (string \<times> (master_cache \<Rightarrow> answer served)) list" where
  "routes si rq =
     (let wd = si_world si; lib = si_lib si; cy = si_crypto si in
      [(''health'', answered_now Status (h_health (si_version si) wd)),
       (''ui'', answered_now id (Inr h_ui)),
       (''workspace'', answered_now id (Inr (h_workspace rq))),
       (''workspace_js'', answered_now id (Inr (h_workspace_js rq))),
       (''workspace_css'', answered_now id (Inr (h_workspace_css rq))),
       (''catalog'', answered_now (\<lambda>r. case r of Inl x \<Rightarrow> Reply x | Inr v \<Rightarrow> Resources v) (h_catalog cy wd rq)),
       (''manage'', \<lambda>mc. answered Managed (h_manage cy wd rq mc)),
       (''operate'', \<lambda>mc. answered Reply (h_operate wd rq mc)),
       (''backups'', \<lambda>mc. serve_backups si rq mc),
       (''overview'', \<lambda>mc. answered Reply (h_overview lib wd mc)),
       (''cluster'', \<lambda>mc. answered Reply (h_cluster lib wd mc)),
       (''network'', \<lambda>mc. answered Reply (h_network wd mc)),
       (''vpn'', \<lambda>mc. answered Reply (h_vpn wd mc)),
       (''logs'', \<lambda>mc. answered Reply (h_logs wd rq mc)),
       (''dhcp'', \<lambda>mc. answered Reply (h_dhcp wd rq mc)),
       (''dhcp_subnet'', \<lambda>mc. answered Reply (h_dhcp_subnet wd rq mc)),
       (''nat'', \<lambda>mc. answered Reply (h_nat wd rq mc)),
       (''port_forward'', \<lambda>mc. answered Reply (h_port_forward wd rq mc)),
       (''rules'', \<lambda>mc. answered Reply (h_rules wd rq mc)),
       (''aliases'', \<lambda>mc. answered Reply (h_aliases wd rq mc)),
       (''one_to_one'', \<lambda>mc. answered Reply (h_one_to_one wd rq mc)),
       (''unbound'', \<lambda>mc. answered Reply (h_unbound wd rq mc)),
       (''unbound_domains'', \<lambda>mc. answered Reply (h_unbound_domains wd rq mc)),
       (''unbound_dots'', \<lambda>mc. answered Reply (h_unbound_dots wd rq mc)),
       (''wg'', \<lambda>mc. answered Reply (h_wg wd rq mc)),
       (''metrics'', \<lambda>mc. answered Exposition (h_metrics lib wd mc))])"

lemma routes_distinct: "distinct (map fst (routes si rq))"
  by (simp add: routes_def Let_def)

end
