(* ===== verification/Views_Props.thy ===== *)
theory Views_Props
  imports Views Divergence_Props Demo
begin

text \<open>
  What the cluster overview of \<^verbatim>\<open>src/routes/overview.py\<close> can and cannot report: the shape of the snapshots
  the collectors build, followed through the comparison.
\<close>

section \<open>What a program returns\<close>

definition yields :: "'a io \<Rightarrow> ('a \<Rightarrow> bool) \<Rightarrow> bool" where
  "yields m P = (\<forall>E tr v tr'. m E tr = (Inr v, tr') \<longrightarrow> P v)"

lemma yields_ret [simp]: "yields (ret v) P = P v"
  by (auto simp: yields_def ret_def)

lemma yields_of_res [simp]: "yields (of_res r) P = (\<forall>v. r = Inr v \<longrightarrow> P v)"
  by (auto simp: yields_def of_res_def)

lemma yields_bnd: "yields m R \<Longrightarrow> (\<And>x. R x \<Longrightarrow> yields (f x) P) \<Longrightarrow> yields (bnd m f) P"
  unfolding yields_def bnd_def by (fastforce split: prod.splits sum.splits)

lemma yields_after: "(\<And>x. yields (f x) P) \<Longrightarrow> yields (bnd m f) P"
  by (rule yields_bnd [where R = "\<lambda>_. True"]) (auto simp: yields_def)

lemma yields_attempt: "yields m P \<Longrightarrow> yields (attempt m) (\<lambda>r. \<forall>v. r = Inr v \<longrightarrow> P v)"
  unfolding yields_def attempt_def try_else_def ret_def by (auto split: prod.splits sum.splits if_splits)

lemma yields_any: "yields m (\<lambda>_. True)"
  by (simp add: yields_def)

section \<open>The shape of a snapshot\<close>

definition plain_system :: "json \<Rightarrow> bool" where
  "plain_system v = (\<exists>d. v = JObj d \<and> list_all (\<lambda>(k, sev, detail). map_of d k = None) system_checks)"

definition plain_named :: "string list \<Rightarrow> json \<Rightarrow> bool" where
  "plain_named absent v = (\<exists>xs. v = JArr xs \<and> list_all (\<lambda>x. \<exists>d n. x = JObj d \<and> map_of d ''name'' = Some (JStr n) \<and>
     list_all (\<lambda>k. map_of d k = None) absent) xs)"

definition plain_services :: "json \<Rightarrow> bool" where
  "plain_services v = (\<exists>d. v = JObj d \<and> (\<exists>w. map_of d ''items'' = Some w \<and> plain_named [] w))"

definition plain_cert :: "json \<Rightarrow> bool" where
  "plain_cert x = (\<exists>d. x = JObj d \<and> map_of d ''fingerprint'' = None \<and> map_of d ''descr'' = None)"

lemma system_shape: "yields (collect_system c) plain_system"
  unfolding collect_system_def
  by (intro yields_after) (auto simp: system_of_def plain_system_def system_checks_def Let_def)

lemma named_map:
  "(\<And>x. \<exists>d n. f x = JObj d \<and> map_of d ''name'' = Some (JStr n) \<and> list_all (\<lambda>k. map_of d k = None) absent) \<Longrightarrow>
   plain_named absent (JArr (map f xs))"
  by (simp add: plain_named_def list_all_iff)

lemma gateways_shape: "yields (collect_gateways c) (plain_named [])"
  unfolding collect_gateways_def
  by (intro yields_after) (auto intro!: named_map simp: gateway_of_def Let_def str_of_def)

lemma services_shape: "yields (collect_services c) plain_services"
  unfolding collect_services_def
  by (intro yields_after) (auto intro!: named_map simp: plain_services_def services_of_def service_of_def Let_def str_of_def)

lemma interface_shape: "interface_of stats n v = Inr x \<Longrightarrow>
  \<exists>d. x = JObj d \<and> map_of d ''name'' = Some (JStr n) \<and> map_of d ''link'' = None"
  by (auto simp: interface_of_def Let_def)

lemma interfaces_list_shape: "interfaces_of stats kvs = Inr xs \<Longrightarrow> plain_named [''link''] (JArr xs)"
proof (induction kvs arbitrary: xs)
  case (Cons kv kvs)
  obtain n v where kv: "kv = (n, v)" by fastforce
  with Cons.prems obtain y ys where y: "interface_of stats n v = Inr y" "interfaces_of stats kvs = Inr ys" "xs = y # ys" by auto
  from Cons.IH [OF y(2)] interface_shape [OF y(1)] show ?case by (auto simp: plain_named_def y(3))
qed (simp add: plain_named_def)

lemma interfaces_shape: "yields (collect_interfaces c) (plain_named [''link''])"
  unfolding collect_interfaces_def
  by (intro yields_after)
    (auto simp: interface_list_def plain_named_def [of _ "JArr []"] interfaces_list_shape split: json.splits)

lemma hasync_shape: "yields (collect_hasync c) is_obj"
  unfolding collect_hasync_def by (intro yields_after) (auto simp: hasync_snapshot_def Let_def)

lemma certs_shape: "yields (collect_certificates lib c) (list_all plain_cert)"
  unfolding collect_certificates_def
  by (intro yields_after) (auto simp: list_all_iff plain_cert_def cert_of_def Let_def)

definition collected :: "overview \<Rightarrow> bool" where
  "collected ov = (\<exists>sys ifaces gws svcs vpn hs certs cs. ov = overview_of sys ifaces gws svcs vpn hs certs cs \<and>
     plain_system sys \<and> plain_named [''link''] ifaces \<and> plain_named [] gws \<and> plain_services svcs \<and> is_obj hs \<and>
     list_all plain_cert certs)"

lemma collectedI: "plain_system sys \<Longrightarrow> plain_named [''link''] ifaces \<Longrightarrow> plain_named [] gws \<Longrightarrow> plain_services svcs \<Longrightarrow> is_obj hs \<Longrightarrow>
  list_all plain_cert certs \<Longrightarrow> collected (overview_of sys ifaces gws svcs vpn hs certs cs)"
  unfolding collected_def by ((rule exI)+, intro conjI, rule refl, assumption+)

lemma overview_collected: "yields (build_overview lib c) collected"
proof -
  have sum: "yields (of_res (rbnd r1 (\<lambda>sys. rbnd r2 (\<lambda>ifaces. rbnd r3 (\<lambda>gws. rbnd r4 (\<lambda>svcs. rbnd r5 (\<lambda>vpn. rbnd r6 (\<lambda>hs.
       rbnd r7 (\<lambda>certs. rbnd r8 (\<lambda>cs. Inr (overview_of sys ifaces gws svcs vpn hs certs cs))))))))))) collected"
    if "\<forall>v. r1 = Inr v \<longrightarrow> plain_system v" "\<forall>v. r2 = Inr v \<longrightarrow> plain_named [''link''] v" "\<forall>v. r3 = Inr v \<longrightarrow> plain_named [] v"
      "\<forall>v. r4 = Inr v \<longrightarrow> plain_services v" "\<forall>v. r6 = Inr v \<longrightarrow> is_obj v" "\<forall>v. r7 = Inr v \<longrightarrow> list_all plain_cert v"
    for r1 r2 r3 r4 r6 r7 and r5 :: "json res" and r8 :: "carp_status res"
    using that unfolding yields_of_res by (auto intro!: collectedI)
  show ?thesis
    unfolding build_overview_def
    by (rule yields_bnd [OF yields_attempt [OF system_shape]], rule yields_bnd [OF yields_attempt [OF interfaces_shape]],
        rule yields_bnd [OF yields_attempt [OF gateways_shape]], rule yields_bnd [OF yields_attempt [OF services_shape]],
        rule yields_after, rule yields_bnd [OF yields_attempt [OF hasync_shape]],
        rule yields_bnd [OF yields_attempt [OF certs_shape]], rule yields_after, rule sum)
qed

section \<open>Comparing two such snapshots\<close>

lemma collected_parts:
  assumes "collected ov"
  obtains sys ifaces gws svcs hs soon where
    "sect (ov_data ov) ''system'' = Inr sys" "list_all (\<lambda>(k, sev, detail). map_of sys k = None) system_checks"
    "iterated (ov_data ov) ''interfaces'' = Inr ifaces" "plain_named [''link''] (JArr ifaces)"
    "iterated (ov_data ov) ''gateways'' = Inr gws" "plain_named [] (JArr gws)"
    "rbnd (sect (ov_data ov) ''services'') (\<lambda>s. iterated s ''items'') = Inr svcs" "plain_named [] (JArr svcs)"
    "sect (ov_data ov) ''hasync'' = Inr hs"
    "rbnd (sect (ov_data ov) ''certs'') (\<lambda>s. iterated s ''expiring_soon'') = Inr soon" "list_all plain_cert soon"
    "\<exists>cs. map_of (ov_data ov) ''carp'' = Some (carp_json cs)"
proof -
  from assms obtain sys ifaces gws sd svcs vpn hd certs cs where o: "ov = overview_of (JObj sys) (JArr ifaces) (JArr gws) (JObj sd) vpn (JObj hd) certs cs"
      "list_all (\<lambda>(k, sev, detail). map_of sys k = None) system_checks" "plain_named [''link''] (JArr ifaces)"
      "plain_named [] (JArr gws)" "map_of sd ''items'' = Some (JArr svcs)" "plain_named [] (JArr svcs)" "list_all plain_cert certs"
    by (auto simp: collected_def plain_system_def plain_services_def plain_named_def)
  have "list_all plain_cert (filter expires_soon certs)" using o(7) by (auto simp: list_all_iff)
  moreover have "sd \<noteq> []" using o(5) by auto
  ultimately show ?thesis using o
    by (intro that [of sys ifaces gws svcs hd "filter expires_soon certs"])
      (auto simp: overview_of_def Let_def sect_def iterated_def slot_def)
qed

lemma named_items: "plain_named absent (JArr xs) \<Longrightarrow>
  \<exists>r. dict_items (\<lambda>d. slot d ''name'') xs = Inr r \<and> None \<notin> fst ` set r \<and>
    (\<forall>(k, d) \<in> set r. list_all (\<lambda>k. map_of d k = None) absent)"
proof (induction xs)
  case (Cons x xs)
  then obtain d n r where "x = JObj d" "map_of d ''name'' = Some (JStr n)" "list_all (\<lambda>k. map_of d k = None) absent"
      "dict_items (\<lambda>d. slot d ''name'') xs = Inr r" "None \<notin> fst ` set r" "\<forall>(k, d) \<in> set r. list_all (\<lambda>k. map_of d k = None) absent"
    by (auto simp: plain_named_def)
  then show ?case by (auto simp: slot_def)
qed simp

lemma service_items_ok: "plain_named absent (JArr xs) \<Longrightarrow> \<exists>r. service_items xs = Inr r"
proof (induction xs)
  case (Cons x xs)
  then obtain d n r where "x = JObj d" "map_of d ''name'' = Some (JStr n)" "service_items xs = Inr r"
    by (auto simp: plain_named_def)
  then show ?case by (simp add: slot_def)
qed simp

lemma cert_items_none: "list_all plain_cert xs \<Longrightarrow> \<exists>r. dict_items cert_key xs = Inr r \<and> fst ` set r \<subseteq> {None}"
proof (induction xs)
  case (Cons x xs)
  then obtain d r where "x = JObj d" "map_of d ''fingerprint'' = None" "map_of d ''descr'' = None"
      "dict_items cert_key xs = Inr r" "fst ` set r \<subseteq> {None}"
    by (auto simp: plain_cert_def)
  moreover from this have "cert_key d = JNull" by (simp add: cert_key_def slot_def)
  ultimately show ?case by auto
qed simp

lemma ordered_some: "None \<notin> set ks \<Longrightarrow> \<exists>ns. ordered ks = Inr ns"
  by (simp add: ordered_def)

lemma ordered_none: "set ks \<subseteq> {None} \<Longrightarrow> \<exists>ns. ordered ks = Inr ns \<and> set ns \<subseteq> {None}"
  by (cases ks) (auto simp: ordered_def list_all_iff)

lemma certs_none:
  assumes "rbnd (sect a ''certs'') (\<lambda>s. iterated s ''expiring_soon'') = Inr ca" "list_all plain_cert ca"
    "rbnd (sect b ''certs'') (\<lambda>s. iterated s ''expiring_soon'') = Inr cb" "list_all plain_cert cb"
  shows "\<exists>ds. diff_certs a b = Inr ds \<and> set ds \<subseteq> {only_a None, only_b None}"
proof -
  obtain s t xs ys where c: "sect a ''certs'' = Inr s" "sect b ''certs'' = Inr t" "cert_items s = Inr xs" "cert_items t = Inr ys"
      "fst ` set xs \<subseteq> {None}" "fst ` set ys \<subseteq> {None}"
    using assms cert_items_none [OF assms(2)] cert_items_none [OF assms(4)] by (auto simp: cert_items_def)
  obtain as bs where o: "ordered (remdups (filter (\<lambda>k. k \<notin> fst ` set ys) (map fst xs))) = Inr as" "set as \<subseteq> {None}"
      "ordered (remdups (filter (\<lambda>k. k \<notin> fst ` set xs) (map fst ys))) = Inr bs" "set bs \<subseteq> {None}"
    using ordered_none [of "remdups (filter (\<lambda>k. k \<notin> fst ` set ys) (map fst xs))"]
      ordered_none [of "remdups (filter (\<lambda>k. k \<notin> fst ` set xs) (map fst ys))"] c by fastforce
  then have "diff_certs a b = Inr (map only_a as @ map only_b bs)" by (simp add: diff_certs_def c)
  with o(2,4) show ?thesis by auto
qed

lemma latest_missing: "\<forall>(k, d) \<in> set xs. map_of d f = None \<Longrightarrow> latest xs n f = JNull"
proof -
  assume a: "\<forall>(k, d) \<in> set xs. map_of d f = None"
  have "map_of d f = None" if "map_of (rev xs) n = Some d" for d
    using a map_of_SomeD [OF that] by auto
  then show ?thesis by (auto simp: latest_def slot_def split: option.splits)
qed

lemma quiet_interfaces:
  assumes "\<forall>(k, d) \<in> set xs. map_of d ''link'' = None" "\<forall>(k, d) \<in> set ys. map_of d ''link'' = None"
  shows "iface_entries xs ys ns = Inr []"
  by (induction ns) (simp_all add: iface_entry_def latest_missing [OF assms(1)] latest_missing [OF assms(2)] Let_def)

lemma quiet_system:
  assumes "list_all (\<lambda>(k, sev, detail). map_of s k = None) checks" "list_all (\<lambda>(k, sev, detail). map_of t k = None) checks"
  shows "diff_fields cat checks s t = []"
  using assms by (induction checks) (auto simp: diff_fields_def eq_or_diff_def slot_def)

lemma carp_total: "diff_carp a b = Inr ds \<Longrightarrow> d \<in> set ds \<Longrightarrow> dv_category d = ''carp''"
  using diff_carp_set [of a b ds] by (auto simp: set_carp_entries role_entry_def entry_def split: if_splits)

lemma carp_comparable:
  assumes "\<exists>cs. map_of a ''carp'' = Some (carp_json cs)" "\<exists>cs. map_of b ''carp'' = Some (carp_json cs)"
  shows "\<exists>ds. diff_carp a b = Inr ds"
proof -
  have role: "\<exists>s r. sect a ''carp'' = Inr s \<and> slot s ''role'' = JStr r" if c: "\<exists>cs. map_of a ''carp'' = Some (carp_json cs)" for a
    using c by (auto simp: sect_def carp_json_def slot_def)
  obtain s r t q where "sect a ''carp'' = Inr s" "slot s ''role'' = JStr r" "sect b ''carp'' = Inr t" "slot t ''role'' = JStr q"
    using role [OF assms(1)] role [OF assms(2)] by auto
  then show ?thesis by (simp add: diff_carp_def Let_def hashable_def)
qed

lemma collected_diffs:
  assumes "collected oa" "collected ob"
  shows "\<exists>d2 d3 d4 d5 d7. diff_system (ov_data oa) (ov_data ob) = Inr [] \<and> diff_carp (ov_data oa) (ov_data ob) = Inr d2 \<and>
    diff_hasync (ov_data oa) (ov_data ob) = Inr d3 \<and> diff_services (ov_data oa) (ov_data ob) = Inr d4 \<and>
    diff_gateways (ov_data oa) (ov_data ob) = Inr d5 \<and> diff_interfaces (ov_data oa) (ov_data ob) = Inr [] \<and>
    diff_certs (ov_data oa) (ov_data ob) = Inr d7 \<and> set d7 \<subseteq> {only_a None, only_b None}"
proof -
  obtain sa ia ga va ha ca where a: "sect (ov_data oa) ''system'' = Inr sa"
      "list_all (\<lambda>(k, sev, detail). map_of sa k = None) system_checks"
      "iterated (ov_data oa) ''interfaces'' = Inr ia" "plain_named [''link''] (JArr ia)"
      "iterated (ov_data oa) ''gateways'' = Inr ga" "plain_named [] (JArr ga)"
      "rbnd (sect (ov_data oa) ''services'') (\<lambda>s. iterated s ''items'') = Inr va" "plain_named [] (JArr va)"
      "sect (ov_data oa) ''hasync'' = Inr ha"
      "rbnd (sect (ov_data oa) ''certs'') (\<lambda>s. iterated s ''expiring_soon'') = Inr ca" "list_all plain_cert ca"
      "\<exists>cs. map_of (ov_data oa) ''carp'' = Some (carp_json cs)" by (rule collected_parts [OF assms(1)])
  obtain sb ib gb vb hb cb where b: "sect (ov_data ob) ''system'' = Inr sb"
      "list_all (\<lambda>(k, sev, detail). map_of sb k = None) system_checks"
      "iterated (ov_data ob) ''interfaces'' = Inr ib" "plain_named [''link''] (JArr ib)"
      "iterated (ov_data ob) ''gateways'' = Inr gb" "plain_named [] (JArr gb)"
      "rbnd (sect (ov_data ob) ''services'') (\<lambda>s. iterated s ''items'') = Inr vb" "plain_named [] (JArr vb)"
      "sect (ov_data ob) ''hasync'' = Inr hb"
      "rbnd (sect (ov_data ob) ''certs'') (\<lambda>s. iterated s ''expiring_soon'') = Inr cb" "list_all plain_cert cb"
      "\<exists>cs. map_of (ov_data ob) ''carp'' = Some (carp_json cs)" by (rule collected_parts [OF assms(2)])
  have d1: "diff_system (ov_data oa) (ov_data ob) = Inr []"
    by (simp add: diff_system_def a(1) b(1) quiet_system [OF a(2) b(2)])
  obtain d2 where d2: "diff_carp (ov_data oa) (ov_data ob) = Inr d2" using carp_comparable [OF a(12) b(12)] by blast
  obtain d3 where d3: "diff_hasync (ov_data oa) (ov_data ob) = Inr d3" by (simp add: diff_hasync_def a(9) b(9))
  obtain xa xb where x: "service_items va = Inr xa" "service_items vb = Inr xb"
    using service_items_ok [OF a(8)] service_items_ok [OF b(8)] by blast
  obtain d4 where d4: "diff_services (ov_data oa) (ov_data ob) = Inr d4"
    using a(7) b(7) x by (auto simp: diff_services_def)
  obtain ra rb where g: "dict_items (\<lambda>d. slot d ''name'') ga = Inr ra" "None \<notin> fst ` set ra"
      "dict_items (\<lambda>d. slot d ''name'') gb = Inr rb" "None \<notin> fst ` set rb"
    using named_items [OF a(6)] named_items [OF b(6)] by blast
  obtain ns where "ordered (names ra rb) = Inr ns" using ordered_some [of "names ra rb"] g by (auto simp: names_def)
  then obtain d5 where d5: "diff_gateways (ov_data oa) (ov_data ob) = Inr d5" by (simp add: diff_gateways_def a(5) b(5) g)
  obtain ja jb where i: "dict_items (\<lambda>d. slot d ''name'') ia = Inr ja" "None \<notin> fst ` set ja" "\<forall>(k, d) \<in> set ja. map_of d ''link'' = None"
      "dict_items (\<lambda>d. slot d ''name'') ib = Inr jb" "None \<notin> fst ` set jb" "\<forall>(k, d) \<in> set jb. map_of d ''link'' = None"
    using named_items [OF a(4)] named_items [OF b(4)] by auto
  obtain ms where "ordered (names ja jb) = Inr ms" using ordered_some [of "names ja jb"] i by (auto simp: names_def)
  then have d6: "diff_interfaces (ov_data oa) (ov_data ob) = Inr []"
    by (simp add: diff_interfaces_def a(3) b(3) i quiet_interfaces [OF i(3,6)])
  obtain d7 where d7: "diff_certs (ov_data oa) (ov_data ob) = Inr d7" "set d7 \<subseteq> {only_a None, only_b None}"
    using certs_none [OF a(10,11) b(10,11)] by blast
  show ?thesis using d1 d2 d3 d4 d5 d6 d7 by blast
qed

lemma diff_categories:
  "diff_hasync a b = Inr ds \<Longrightarrow> d \<in> set ds \<Longrightarrow> dv_category d = ''hasync''"
  "diff_services a b = Inr ds \<Longrightarrow> d \<in> set ds \<Longrightarrow> dv_category d = ''services''"
  "diff_gateways a b = Inr ds \<Longrightarrow> d \<in> set ds \<Longrightarrow> dv_category d = ''gateways''"
  using diff_hasync_set [of a b ds] diff_services_set [of a b ds] diff_gateways_set [of a b ds]
  by (auto simp: set_diff_fields service_entry_def gateway_entry_def set_eq_or_diff entry_def split: if_splits)

text \<open>C38: the comparison of two collected snapshots never fails, and it is blind: it reports no difference of the
  system and none of an interface, and tells certificates apart only by whether a node has an expiring one.\<close>

theorem collected_drift:
  assumes "build_overview lib c E tr = (Inr oa, tr1)" and "build_overview lib' c' E' tr' = (Inr ob, tr2)"
  shows "\<exists>ds. compute_divergence (ov_data oa) (ov_data ob) = Inr ds \<and>
    list_all (\<lambda>d. dv_category d \<notin> {''system'', ''interfaces''} \<and> (dv_category d = ''certs'' \<longrightarrow> d = only_a None \<or> d = only_b None)) ds"
proof -
  have "collected oa" "collected ob" using overview_collected assms by (simp_all add: yields_def) blast+
  from collected_diffs [OF this] obtain d2 d3 d4 d5 d7 where d: "diff_system (ov_data oa) (ov_data ob) = Inr []"
      "diff_carp (ov_data oa) (ov_data ob) = Inr d2" "diff_hasync (ov_data oa) (ov_data ob) = Inr d3"
      "diff_services (ov_data oa) (ov_data ob) = Inr d4" "diff_gateways (ov_data oa) (ov_data ob) = Inr d5"
      "diff_interfaces (ov_data oa) (ov_data ob) = Inr []" "diff_certs (ov_data oa) (ov_data ob) = Inr d7"
      "set d7 \<subseteq> {only_a None, only_b None}" by blast
  have "dv_category d = ''certs''" if "d \<in> set d7" for d
    using that d(8) by (auto simp: only_a_def only_b_def entry_def)
  then show ?thesis
    using carp_total [OF d(2)] diff_categories(1) [OF d(3)] diff_categories(2) [OF d(4)] diff_categories(3) [OF d(5)] d(8)
    unfolding compute_divergence_def d(1-7) rbnd_simps
    by (auto simp: list_all_iff)
qed

text \<open>A firewall that answers every request with an empty object.\<close>

definition empty_env :: env where
  "empty_env = \<lparr>e_http = \<lambda>tr h m p ps b. answer (JObj []), e_audit = \<lambda>tr a. None, e_ms = \<lambda>tr. 0, e_utc = \<lambda>tr. ''2026'', e_instant = \<lambda>tr. 0\<rparr>"

definition demo_lib :: py_lib where
  "demo_lib = \<lparr>pl_zones = []\<rparr>"

lemma empty_env_get: "client_get demo_client p ps empty_env tr =
  (Inr (JObj []), tr @ [HttpEv demo_host GET (url_path p) ps None (answer (JObj []))])"
  by (simp add: client_get_def request_def bnd_def http_def of_res_def client_response_def resp_ok_def answer_def
      Let_def demo_client_def default_retry_def numeral_3_eq_3 empty_env_def)

lemma demo_rows: "rows_at (JObj []) k = Inr []"
  by (simp add: rows_at_def)

lemma demo_zero: "int_at [] k = 0"
proof -
  have "text_int JNull = None" by code_simp
  then show ?thesis by (simp add: int_at_def val_of_def dget_or_def)
qed

lemma demo_system: "\<exists>v. system_of (JObj []) (JObj []) (JObj []) (JObj []) (JObj []) = Inr v"
  by (simp add: demo_zero percent_def system_of_def rbnd_def parse_loadavg_def dget_or_def list_or_empty_def cpu_name_def as_dict_def Let_def)

lemma demo_interfaces: "interface_list (JObj []) (JObj []) = Inr (JArr [])"
  by (simp add: interface_list_def dget_or_def)

lemma demo_carp: "\<exists>v. carp_of [] = Inr v"
  by (simp add: carp_of_def classify_role_def demotion_of_def dget_or_def Let_def rbnd_def map_filter_simps)

lemma demo_build: "\<exists>ov tr. build_overview demo_lib demo_client empty_env [] = (Inr ov, tr)"
proof -
  obtain sys where sys: "system_of (JObj []) (JObj []) (JObj []) (JObj []) (JObj []) = Inr sys" using demo_system by blast
  obtain cs where cs: "carp_of [] = Inr cs" using demo_carp by blast
  show ?thesis
    by (simp add: build_overview_def attempt_def collect_system_def collect_interfaces_def collect_gateways_def collect_services_def
        collect_vpn_def collect_wireguard_def collect_ipsec_def collect_openvpn_def collect_hasync_def collect_certificates_def
        collect_carp_status_def safe_get_def bnd_def try_else_def try_catch_def ret_def of_res_def instant_now_def empty_env_get
        sys cs demo_rows demo_interfaces wireguard_enabled_def dict_or_empty_def as_dict_def dget_or_def)
qed

theorem collected_drift_witness:
  "\<exists>ov tr ds. build_overview demo_lib demo_client empty_env [] = (Inr ov, tr) \<and>
     compute_divergence (ov_data ov) (ov_data ov) = Inr ds"
proof -
  obtain ov tr where ov: "build_overview demo_lib demo_client empty_env [] = (Inr ov, tr)" using demo_build by blast
  from collected_drift [OF ov ov] ov show ?thesis by blast
qed

end
