(* ===== verification/Handlers_Props.thy ===== *)
theory Handlers_Props
  imports Register Views_Props Engine_Facts Operations_Props Crl_Facts Firewall_Props
begin

text \<open>
  What the gate of \<^verbatim>\<open>src/__init__.py\<close> guarantees for every route: nothing that may change a firewall is
  sent without a configuration that allows it and the permission, and in an HA pair only to the node that
  leads it.
\<close>

section \<open>Programs that only read\<close>

lemma read_only_resolved [trace_intros]: "read_only_io (resolved_master_side mc a b na nb)"
proof -
  have now: "read_only_io now_ms" by (auto simp: read_only_io_def runs_def now_ms_def)
  show ?thesis unfolding resolved_master_side_def by (auto intro!: trace_intros now split: prod.splits)
qed

lemma read_only_first_host [trace_intros]: "read_only_io (first_host_from_config cfg mc)"
  unfolding first_host_from_config_def Let_def by (auto intro!: trace_intros split: prod.splits)

lemma read_only_target [trace_intros]: "read_only_io (firewall_target cfg wr mc)"
  unfolding firewall_target_def Let_def by (auto intro!: trace_intros split: prod.splits)

lemma read_only_context [trace_intros]: "read_only_io (management_context wd rq mutation mc)"
  unfolding management_context_def Let_def by (auto intro!: trace_intros split: option.splits prod.splits)

lemma read_only_firewall_detail: "read_only_io (firewall_detail h rsrc u)"
  unfolding firewall_detail_def by (auto intro!: trace_intros split: option.splits sum.splits)

lemma read_only_lists:
  "read_only_io (nat_list h)" "read_only_io (oto_list h)" "read_only_io (reservation_list h)"
  "read_only_io (subnet_list h)" "read_only_io (host_override_list h)" "read_only_io (domain_list h)" "read_only_io (dot_list h)"
  unfolding nat_list_def oto_list_def reservation_list_def subnet_list_def host_override_list_def domain_list_def
    dot_list_def legacy_list_def forward_list_def list_reply_def
  by (auto intro!: trace_intros split: sum.splits)

lemma read_only_operation: "op_method o' = GET \<Longrightarrow> operation_of v = Some o' \<Longrightarrow> read_only_io (execute_operation c actor v values)"
proof -
  assume o: "op_method o' = GET" "operation_of v = Some o'"
  have now: "read_only_io now_ms" by (auto simp: read_only_io_def runs_def now_ms_def)
  have state: "read_only_io (op_state c o')"
    unfolding op_state_def by (auto intro!: trace_intros split: option.splits json.splits)
  have body: "read_only_io (op_body c actor o' vs sha t0)" for vs sha t0
    unfolding op_body_def op_send_def using o by (auto intro!: trace_intros state split: prod.splits)
  have err: "read_only_io (op_on_error c actor o' sha t0 e)" for sha t0 e
    unfolding op_on_error_def using o by (auto intro!: trace_intros simp: Let_def split: exn.splits)
  show ?thesis unfolding execute_operation_def using o by (auto intro!: trace_intros now body err simp: Let_def)
qed

lemma read_only_crl: "read_only_io (crl_get s v)" "read_only_io (crl_list s p n t)"
  unfolding crl_get_def crl_list_def crl_raw_def by (auto intro!: trace_intros split: prod.splits)

lemma read_only_manage:
  assumes "\<not> cx_write cx"
  shows "read_only_io (manage_resource wd rq cx sp s)" "read_only_io (manage_crl cy wd rq cx s)"
  using assms unfolding manage_resource_def manage_crl_def Let_def
  by (auto intro!: trace_intros read_only_crl split: option.splits prod.splits)

section \<open>Programs whose POSTs only ask\<close>

text \<open>The list of WireGuard peers is asked for with a POST.\<close>

definition peer_search :: string where
  "peer_search = ''/api/wireguard/client/searchClient''"

definition harmless :: "trace \<Rightarrow> bool" where
  "harmless es = list_all (\<lambda>t. snd t = peer_search) (targets es)"

lemma harmless_append [simp]: "harmless (es @ es') = (harmless es \<and> harmless es')"
  by (simp add: harmless_def)

definition asking :: "'a io \<Rightarrow> bool" where
  "asking m = runs m (\<lambda>r es. harmless es)"

lemma asking_read_only: "read_only_io m \<Longrightarrow> asking m"
  unfolding read_only_io_def asking_def by (rule runs_conseq, assumption) (simp add: silent_targets harmless_def)

lemma ret_bnd: "bnd (ret x) f = f x"
  by (simp add: bnd_def ret_def)

lemma asking_runs: "asking m \<Longrightarrow> harmless es \<Longrightarrow> runs m (\<lambda>r es'. harmless (es @ es'))"
  unfolding asking_def by (rule runs_conseq, assumption) simp

lemma asking_bnd:
  assumes "asking m" "yields m R" "\<And>x. R x \<Longrightarrow> asking (f x)"
  shows "asking (bnd m f)"
  unfolding asking_def
proof (rule runs_bnd)
  show "runs m (\<lambda>r es. harmless es \<and> (\<forall>x. r = Inr x \<longrightarrow> R x))"
  proof (rule runsI)
    fix E tr
    obtain r es where r: "m E tr = (r, tr @ es)" "harmless es"
      using runsD [OF assms(1) [unfolded asking_def], of E tr] by blast
    moreover have "\<forall>x. r = Inr x \<longrightarrow> R x" using assms(2) r(1) by (auto simp: yields_def)
    ultimately show "\<exists>r es. m E tr = (r, tr @ es) \<and> harmless es \<and> (\<forall>x. r = Inr x \<longrightarrow> R x)" by blast
  qed
  fix x es assume "harmless es \<and> (\<forall>x'. Inr x = Inr x' \<longrightarrow> R x')"
  then show "runs (f x) (\<lambda>r es'. harmless (es @ es'))"
    by (intro asking_runs assms(3)) simp_all
qed simp

lemma asking_try_else: "asking m \<Longrightarrow> (\<And>e. asking (h e)) \<Longrightarrow> (\<And>x. asking (f x)) \<Longrightarrow> asking (try_else m p h f)"
  unfolding asking_def [of m] asking_def [of "try_else m p h f"]
  by (rule runs_try_else, assumption) (simp_all add: asking_def)

lemma asking_after: "read_only_io m \<Longrightarrow> (\<And>x. asking (f x)) \<Longrightarrow> asking (bnd m f)"
  by (rule asking_bnd [OF asking_read_only yields_any])

lemma asking_then: "asking m \<Longrightarrow> (\<And>x. read_only_io (f x)) \<Longrightarrow> asking (bnd m f)"
  by (rule asking_bnd [OF _ yields_any]) (auto intro: asking_read_only)

lemma asking_attempt: "asking m \<Longrightarrow> asking (attempt m)"
  unfolding attempt_def by (rule asking_try_else, assumption) (simp_all add: asking_read_only read_only_ret)

lemma asking_served: "asking m \<Longrightarrow> asking (served m mc)"
  unfolding served_def by (rule asking_try_else, assumption) (simp_all add: asking_read_only read_only_ret)

lemma asking_answered: "asking m \<Longrightarrow> asking (answered f m)"
  unfolding answered_def by (rule asking_then, assumption) (simp add: split_beta read_only_ret)

lemma read_only_served: "read_only_io m \<Longrightarrow> read_only_io (served m mc)"
  unfolding served_def by (intro read_only_try_else read_only_ret)

lemma read_only_with_host: "(\<And>h. read_only_io (f h)) \<Longrightarrow> read_only_io (with_host wd f mc)"
  unfolding with_host_def
  by (rule read_only_served, rule read_only_bnd [OF read_only_first_host])
    (auto intro!: read_only_ret read_only_bnd read_only_attempt split: option.splits prod.splits)

lemma asking_views:
  "asking (h_network wd mc)" "asking (h_vpn wd mc)" "asking (h_logs wd rq mc)" "asking (h_overview lib wd mc)" "asking (h_cluster lib wd mc)"
proof -
  show "asking (h_network wd mc)" "asking (h_vpn wd mc)" "asking (h_logs wd rq mc)"
    unfolding h_network_def h_vpn_def h_logs_def
    by (intro asking_read_only read_only_with_host read_only_views)+
  show "asking (h_overview lib wd mc)" unfolding h_overview_def
    by (intro asking_read_only)
      (auto intro!: read_only_with_host read_only_views read_only_bnd read_only_attempt read_only_ret split: sum.splits option.splits prod.splits)
  show "asking (h_cluster lib wd mc)" unfolding h_cluster_def Let_def
    by (intro asking_read_only read_only_served)
      (auto intro!: read_only_views read_only_bnd read_only_ret trace_intros split: prod.splits)
qed

lemma asking_if: "asking m \<Longrightarrow> asking m' \<Longrightarrow> asking (if c then m else m')"
  by simp

lemma asking_wg_list: "asking (wg_list h)"
proof -
  have post: "asking (client_post c ''/api/wireguard/client/searchClient'' [])" for c
    unfolding asking_def by (rule runs_client_post) (simp add: harmless_def posted_def peer_search_def url_path_def)
  have "asking (bnd (try_else (client_get c ''/api/wireguard/client/searchClient'' []) is_opn
      (\<lambda>_. client_post c ''/api/wireguard/client/searchClient'' []) ret) (\<lambda>out. list_reply ''peers'' (rows_of out)))" for c
    by (rule asking_then, rule asking_try_else [OF asking_read_only post asking_read_only])
      (auto simp: list_reply_def intro!: trace_intros)
  then show ?thesis unfolding wg_list_def upstream_def
    by (intro asking_after [OF read_only_ret(3)] asking_try_else asking_read_only [OF read_only_ret(1)])
qed

section \<open>The gate\<close>

text \<open>The configuration and the host application let this request change something.\<close>

definition may_write :: "world \<Rightarrow> bool" where
  "may_write wd = (\<not> is_read_only (load_config (wd_config wd)) \<and> wd_perm wd = Granted)"

lemma may_write_perm: "may_write wd = (\<not> is_read_only (load_config (wd_config wd)) \<and> firewall_can_write (wd_perm wd))"
  by (auto simp: may_write_def firewall_can_write_def split: perm.splits)

lemma context_write: "yields (management_context wd rq mutation mc)
  (\<lambda>(g, mc'). \<forall>cx. g = Inr cx \<longrightarrow> cx_write cx = write_request rq mutation \<and> (cx_write cx \<longrightarrow> may_write wd))"
  unfolding yields_def management_context_def may_write_perm gate_refusal_def Let_def
  by (auto simp: try_else_def ret_def split: option.splits sum.splits if_splits prod.splits)

lemma gated_asking:
  assumes "\<And>cx. (cx_write cx \<longrightarrow> write_request rq mutation \<and> may_write wd) \<Longrightarrow> asking (f cx)"
  shows "asking (gated wd rq mutation g f mc)"
  unfolding gated_def
  by (intro asking_served asking_bnd [OF asking_read_only [OF read_only_context] context_write])
    (use assms in \<open>auto intro!: asking_read_only [OF read_only_ret(1)] asking_then [OF asking_attempt] trace_intros split: sum.splits\<close>)

section \<open>The handlers\<close>

lemma firewall_gated: "\<not> (rq_method rq = ''POST'' \<and> may_write wd) \<Longrightarrow> asking (h_firewall_management rsrc wd rq mc)"
  unfolding h_firewall_management_def
  by (rule gated_asking, rule asking_read_only)
    (auto simp: write_request_def intro!: trace_intros read_only_firewall_detail read_only_firewall_list split: option.splits)

lemma legacy_gated:
  assumes "\<not> (rq_method rq = ''POST'' \<and> may_write wd)" "\<And>h. asking (lst h)"
  shows "asking (h_legacy_management lst act wd rq mc)"
  unfolding h_legacy_management_def
  by (rule gated_asking) (use assms in \<open>auto simp: write_request_def intro!: asking_then trace_intros\<close>)

lemma manage_gated:
  assumes "\<not> (rq_method rq = ''POST'' \<and> may_write wd)"
  shows "asking (h_manage cy wd rq mc)"
proof (cases "\<exists>n. named_value rq ''resource'' = JStr n")
  case False
  then show ?thesis unfolding h_manage_def by (cases "named_value rq ''resource''") (simp_all add: asking_read_only read_only_ret)
next
  case True
  then obtain n where n: "named_value rq ''resource'' = JStr n" by blast
  have run: "read_only_io (case (n = ''trust_crl'', resource_spec cy n) of
      (False, Some sp) \<Rightarrow> manage_resource wd rq cx sp s | _ \<Rightarrow> manage_crl cy wd rq cx s)" if "\<not> cx_write cx" for cx :: gate and s
    using read_only_manage [OF that] by (auto split: bool.splits option.splits)
  show ?thesis unfolding h_manage_def n json.case
  proof (intro asking_if asking_read_only [OF read_only_ret(1)] gated_asking asking_read_only)
    fix cx :: gate assume "cx_write cx \<longrightarrow> write_request rq None \<and> may_write wd"
    with assms have "\<not> cx_write cx" by (auto simp: write_request_def)
    then show "read_only_io (bnd (of_res (mk_client (cx_host cx))) (\<lambda>c.
        bnd (of_res (case cx_peer cx of None \<Rightarrow> Inr None | Some ph \<Rightarrow> rbnd (mk_client ph) (\<lambda>p. Inr (Some p)))) (\<lambda>peer.
        let s = \<lparr>sv_client = c, sv_actor = cx_actor cx, sv_peer = peer\<rparr> in
        try_else (case (n = ''trust_crl'', resource_spec cy n) of
            (False, Some sp) \<Rightarrow> manage_resource wd rq cx sp s | _ \<Rightarrow> manage_crl cy wd rq cx s)
          (\<lambda>_. True) (\<lambda>e. ret (Plain (service_error e))) ret)))"
      unfolding Let_def by (intro read_only_bnd read_only_ret read_only_try_else run)
  qed
qed

text \<open>The device operation a request names changes nothing, although it may be sent as a POST.\<close>

definition asks_only :: "web_request \<Rightarrow> bool" where
  "asks_only rq = (case operation_of (named_value rq ''operation'') of Some o' \<Rightarrow> \<not> op_mutation o' | None \<Rightarrow> False)"

lemma operate_gated:
  assumes "\<not> (rq_method rq = ''POST'' \<and> (may_write wd \<or> asks_only rq))"
  shows "asking (h_operate wd rq mc)"
proof (cases "operation_of (named_value rq ''operation'') = None \<or> (\<exists>o'. operation_of (named_value rq ''operation'') = Some o' \<and>
    rq_method rq \<noteq> meth_str (op_method o'))")
  case True
  then show ?thesis by (auto simp: h_operate_def asking_read_only read_only_ret)
next
  case False
  then obtain o' where o: "operation_of (named_value rq ''operation'') = Some o'" "rq_method rq = meth_str (op_method o')" by auto
  have "read_only_io (execute_operation c (cx_actor cx) (named_value rq ''operation'') (operation_values rq))"
    if "cx_write cx \<longrightarrow> write_request rq (Some (op_mutation o')) \<and> may_write wd" "op_method o' = GET" for cx c
    by (rule read_only_operation [OF that(2) o(1)])
  show ?thesis
  proof (cases "op_method o'")
    case GET
    then show ?thesis unfolding h_operate_def using o
      by (simp add: read_only_operation gated_asking asking_read_only read_only_bnd read_only_ret read_only_try_else)
  next
    case POST
    with assms o have "\<not> may_write wd" "op_mutation o'" by (auto simp: asks_only_def meth_str_def)
    then have "gate_refusal (load_config (wd_config wd)) (wd_perm wd) rq (write_request rq (Some (op_mutation o'))) \<noteq> None"
      unfolding gate_refusal_def using POST o(2) by (auto simp: write_request_def may_write_perm meth_str_def)
    then obtain r where "management_context wd rq (Some (op_mutation o')) mc = ret (Inl r, mc)"
      by (auto simp: management_context_def)
    then show ?thesis unfolding h_operate_def using o
      by (simp add: gated_def asking_served asking_read_only read_only_ret ret_bnd)
  qed
qed

lemma backups_ask: "asking (serve_backups si rq mc)"
proof -
  have "read_only_io (h_backups E v wd rq mc)" for E v and wd :: world
    unfolding h_backups_def Let_def
    by (auto intro!: trace_intros split: prod.splits sum.splits option.splits json.splits)
  then show ?thesis unfolding serve_backups_def by (intro asking_read_only read_only_bnd) (auto intro!: trace_intros)
qed

lemma metrics_ask: "asking (h_metrics lib wd mc)"
proof -
  have "read_only_io (render_metrics lib c n)" for c n
    unfolding render_metrics_def Let_def by (intro trace_intros)
  then show ?thesis unfolding h_metrics_def
    by (intro asking_read_only read_only_try_else) (auto intro!: trace_intros split: option.splits)
qed

text \<open>C39: whatever route a request reaches, a request that may change a firewall (a POST other than the search of the
  WireGuard peers) is sent only for a POST, and only when the configuration is not read-only and the host application
  grants the permission; the one exception is a device operation that only asks.\<close>

theorem no_write_without_permission:
  assumes "(path, handler) \<in> set (routes si rq)" and "handler mc E tr = (r, tr @ es)"
    and "(h, p) \<in> set (targets es)" and "p \<noteq> peer_search"
  shows "rq_method rq = ''POST'' \<and> (may_write (si_world si) \<or> path = ''operate'' \<and> asks_only rq)"
proof (rule ccontr)
  assume no: "\<not> ?thesis"
  let ?wd = "si_world si"
  from no have gate: "\<not> (rq_method rq = ''POST'' \<and> may_write ?wd)" by blast
  have "asking (handler mc)"
  proof (cases "path = ''operate''")
    case True
    with no have "\<not> (rq_method rq = ''POST'' \<and> (may_write ?wd \<or> asks_only rq))" by blast
    with True assms(1) show ?thesis by (auto simp: routes_def Let_def intro!: asking_answered operate_gated)
  next
    case False
    have now: "asking (answered_now f x mc)" for f and x :: "'b res"
      unfolding answered_now_def by (intro asking_read_only trace_intros)
    have legacy: "asking (h_dhcp ?wd rq mc)" "asking (h_dhcp_subnet ?wd rq mc)" "asking (h_nat ?wd rq mc)" "asking (h_one_to_one ?wd rq mc)"
        "asking (h_unbound ?wd rq mc)" "asking (h_unbound_domains ?wd rq mc)" "asking (h_unbound_dots ?wd rq mc)" "asking (h_wg ?wd rq mc)"
      unfolding h_dhcp_def h_dhcp_subnet_def h_nat_def h_one_to_one_def h_unbound_def h_unbound_domains_def h_unbound_dots_def h_wg_def
      by (intro legacy_gated [OF gate] asking_wg_list asking_read_only read_only_lists)+
    have fw: "asking (h_port_forward ?wd rq mc)" "asking (h_rules ?wd rq mc)" "asking (h_aliases ?wd rq mc)"
      unfolding h_port_forward_def h_rules_def h_aliases_def by (rule firewall_gated [OF gate])+
    from False assms(1) show ?thesis unfolding routes_def Let_def
      by (auto intro: asking_answered now asking_views legacy fw manage_gated [OF gate] backups_ask metrics_ask)
  qed
  from runsE [OF this [unfolded asking_def] assms(2)] have "harmless es" by auto
  with assms(3,4) show False by (auto simp: harmless_def list_all_iff)
qed

section \<open>The node a write goes to\<close>

text \<open>What a status says of a VIP: the dictionary keeps the last row of a VIP.\<close>

definition says :: "carp_status \<Rightarrow> string \<times> string \<Rightarrow> string option" where
  "says s = map_of (rev (map (\<lambda>v. ((v_vhid v, v_ipaddr v), v_status v)) (cs_vhids s)))"

lemma vip_states_says: "map_of (vip_states s) = says s"
proof -
  have "map_of (foldl (\<lambda>d v. AList.update (v_vhid v, v_ipaddr v) (v_status v) d) d vs) =
      map_of d ++ map_of (rev (map (\<lambda>v. ((v_vhid v, v_ipaddr v), v_status v)) vs))" for d vs
    by (induction vs arbitrary: d) (simp_all add: update_conv' map_add_upd_left)
  from this [of "[]"] show ?thesis by (simp add: vip_states_def says_def)
qed

text \<open>One node leads every VIP of the pair: the other one holds the same VIPs as backup.\<close>

definition leads :: "carp_status \<Rightarrow> carp_status \<Rightarrow> bool" where
  "leads s t = (cs_enabled s \<and> cs_enabled t \<and> \<not> cs_maintenance s \<and> \<not> cs_maintenance t \<and> cs_vhids s \<noteq> [] \<and>
     dom (says s) = dom (says t) \<and> ran (says s) = {''MASTER''} \<and> ran (says t) = {''BACKUP''})"

lemma all_states_ran:
  assumes "distinct (map fst d)" "all_states d x"
  shows "ran (map_of d) = {x}"
  unfolding ran_distinct [OF assms(1)] using assms(2) by (cases d) (force simp: all_states_def list_all_iff)+

lemma distinct_vip_states: "distinct (map fst (vip_states s))"
proof -
  have "distinct (map fst d) \<Longrightarrow> distinct (map fst (foldl (\<lambda>d v. AList.update (v_vhid v, v_ipaddr v) (v_status v) d) d vs))" for d vs
    by (induction vs arbitrary: d) (simp_all add: distinct_update)
  from this [of "[]"] show ?thesis by (simp add: vip_states_def)
qed

lemma all_states_says: "all_states (vip_states s) x \<Longrightarrow> ran (says s) = {x}"
  using all_states_ran [OF distinct_vip_states] by (simp add: vip_states_says)

lemma vip_states_dom: "set (map fst (vip_states s)) = dom (says s)"
  by (simp add: dom_map_of_conv_image_fst flip: vip_states_says)

lemma ha_pair_leads:
  assumes "ha_pair l r = Inr d"
  shows "(if d = SideA then leads l r else leads r l)"
proof -
  have [simp]: "vip_states s \<noteq> [] \<Longrightarrow> cs_vhids s \<noteq> []" for s by (auto simp: vip_states_def)
  have "vip_states r \<noteq> []" if "set (map fst (vip_states l)) = set (map fst (vip_states r))" "vip_states l \<noteq> []"
    using that by auto
  with assms show ?thesis
    by (auto simp: ha_pair_def Let_def leads_def all_states_says vip_states_dom simp del: set_map split: if_splits)
qed

text \<open>\<open>observed_in c s E tr tr'\<close>: the status \<open>s\<close> was read through \<open>c\<close> between two moments of a run.\<close>

definition observed_in :: "client \<Rightarrow> carp_status \<Rightarrow> env \<Rightarrow> trace \<Rightarrow> trace \<Rightarrow> bool" where
  "observed_in c s E tr tr' = (\<exists>t u. collect_carp_status c E t = (Inr s, u) \<and> prefix tr t \<and> prefix u tr')"

lemma bndE:
  assumes "bnd m f E tr = (Inr y, tr')"
  obtains x u where "m E tr = (Inr x, u)" "f x E u = (Inr y, tr')"
  using assms by (auto simp: bnd_def split: prod.splits sum.splits)

lemma of_resE:
  assumes "bnd (of_res r) f E tr = (Inr y, tr')"
  obtains x where "r = Inr x" "f x E tr = (Inr y, tr')"
  using assms by (cases r) (auto simp: of_res_def bnd_def)

lemma collect_grows: "collect_carp_status c E tr = (r, u) \<Longrightarrow> prefix tr u"
  using runsD [OF read_only_carp [unfolded read_only_io_def], of c E tr] by auto

lemma write_target:
  assumes "firewall_target cfg True mc E tr = (Inr (Some (h, peer), mc'), tr')" "is_cluster_mode cfg = Inr True"
  shows "\<exists>ph c p s t. peer = Some ph \<and> mk_client h = Inr c \<and> mk_client ph = Inr p \<and>
    observed_in c s E tr tr' \<and> observed_in p t E tr tr' \<and> leads s t"
proof -
  from assms obtain a b ca cb l r d u where ab: "mk_client a = Inr ca" "mk_client b = Inr cb"
      "collect_carp_status ca E tr = (Inr l, u)" "collect_carp_status cb E u = (Inr r, tr')" "ha_pair l r = Inr d"
      "(h, peer) = (if d = SideA then (a, Some b) else (b, Some a))"
    by (auto simp: firewall_target_def Let_def raise_def ret_def elim!: bndE of_resE split: if_splits)
  have "observed_in ca l E tr tr'" "observed_in cb r E tr tr'"
    using ab(3,4) collect_grows [OF ab(3)] collect_grows [OF ab(4)] by (auto simp: observed_in_def)
  with ab ha_pair_leads [OF ab(5)] show ?thesis by (auto split: if_splits)
qed

text \<open>C16: in an HA pair, a request that may change something goes to the node that led every VIP, and the other one
  held the same VIPs as backup, in statuses of both nodes read while this request was served; the cached master is
  not used.\<close>

theorem ha_write_target:
  assumes "management_context wd rq mutation mc E tr = (Inr (Inr cx, mc'), tr')" and "cx_write cx"
    and "is_cluster_mode (load_config (wd_config wd)) = Inr True"
  shows "\<exists>ph c p s t. cx_peer cx = Some ph \<and> mk_client (cx_host cx) = Inr c \<and> mk_client ph = Inr p \<and>
    observed_in c s E tr tr' \<and> observed_in p t E tr tr' \<and> leads s t"
proof -
  from assms(1,2) have "\<exists>h peer m. firewall_target (load_config (wd_config wd)) True mc E tr = (Inr (Some (h, peer), m), tr') \<and>
      cx_host cx = h \<and> cx_peer cx = peer"
    by (auto simp: management_context_def Let_def try_else_def ret_def split: option.splits prod.splits sum.splits if_splits)
  with write_target assms(3) show ?thesis by blast
qed

section \<open>Two concrete requests\<close>

definition demo_hosts :: "string \<Rightarrow> json" where
  "demo_hosts n = JObj [(''name'', JStr n), (''url'', JStr (''https://'' @ n)), (''api_key'', JStr ''k''), (''api_secret'', JStr ''s'')]"

definition demo_world :: "json list \<Rightarrow> world" where
  "demo_world hosts = \<lparr>wd_config = Document (JObj [(''opnsense_hosts'', JArr hosts), (''read_only'', JBool False), (''cluster_mode'', JStr ''ha'')]),
     wd_perm = Granted\<rparr>"

definition demo_stop_request :: web_request where
  "demo_stop_request = \<lparr>rq_method = ''POST'', rq_args = [], rq_json = Some (JObj [(''operation'', JStr ''wireguard_stop'')]), rq_user = Some ''op''\<rparr>"

lemma demo_stop_sent: "\<exists>v tr. execute_operation demo_client ''op'' (JStr ''wireguard_stop'') (JObj []) stopped_env [] = (Inr v, tr) \<and>
  (demo_host, ''/api/wireguard/service/stop'') \<in> set (targets tr)"
  by (simp add: run_simps execute_operation_def op_line_def audit_now_def entry_now_def op_body_def op_send_def
      op_state_def call_def url_path_def stopped_env_def demo_stop posted_def demo_client_def Let_def)

lemma demo_stop_context:
  "management_context (demo_world [demo_hosts ''fw'']) demo_stop_request (Some (op_mutation stop_tunnel)) no_cache =
     ret (Inr \<lparr>cx_cfg = load_config (wd_config (demo_world [demo_hosts ''fw''])), cx_read_only = False, cx_write = True,
       cx_body = request_body demo_stop_request, cx_host = demo_host, cx_peer = None, cx_actor = ''op''\<rparr>, no_cache)"
proof -
  have "gate_refusal (load_config (wd_config (demo_world [demo_hosts ''fw'']))) Granted demo_stop_request True = None"
    "hosts_val (load_config (wd_config (demo_world [demo_hosts ''fw'']))) = JArr [demo_hosts ''fw'']"
    "is_cluster_mode (load_config (wd_config (demo_world [demo_hosts ''fw'']))) = Inr False"
    "host_at (JArr [demo_hosts ''fw'']) 0 = Inr (demo_hosts ''fw'')" "host_from_dict (demo_hosts ''fw'') = Inr demo_host"
    "write_request demo_stop_request (Some (op_mutation stop_tunnel))"
    "wd_perm (demo_world [demo_hosts ''fw'']) = Granted" "rq_user demo_stop_request = Some ''op''"
    "\<not> is_read_only (load_config (wd_config (demo_world [demo_hosts ''fw''])))"
    by (code_simp, code_simp, code_simp, code_simp, code_simp, code_simp, code_simp, code_simp, code_simp)
  then show ?thesis
    by (intro ext) (simp add: management_context_def firewall_target_def Let_def run_simps)
qed

definition demo_crypto :: crypto where
  "demo_crypto = \<lparr>cy_present = False, cy_cert = (\<lambda>s. None), cy_csr = (\<lambda>s. None), cy_key = (\<lambda>s. None), cy_crl = (\<lambda>s. False)\<rparr>"

theorem no_write_without_permission_witness:
  "rq_method demo_stop_request = ''POST'' \<and> may_write (demo_world [demo_hosts ''fw''])"
proof -
  let ?wd = "demo_world [demo_hosts ''fw'']"
  obtain v tr where run: "execute_operation demo_client ''op'' (JStr ''wireguard_stop'') (JObj []) stopped_env [] = (Inr v, tr)"
      "(demo_host, ''/api/wireguard/service/stop'') \<in> set (targets tr)"
    using demo_stop_sent by blast
  have named: "named_value demo_stop_request ''operation'' = JStr ''wireguard_stop''" "operation_values demo_stop_request = JObj []"
    "mk_client demo_host = Inr demo_client" "rq_method demo_stop_request = meth_str POST" "\<not> asks_only demo_stop_request"
    by (code_simp, code_simp, code_simp, code_simp, code_simp)
  obtain a where a: "answered Reply (h_operate ?wd demo_stop_request no_cache) stopped_env [] = (a, [] @ tr)"
    using run(1) by (simp add: h_operate_def answered_def gated_def served_def attempt_def named demo_stop demo_stop_context run_simps)
  have route: "(''operate'', \<lambda>mc. answered Reply (h_operate ?wd demo_stop_request mc)) \<in>
      set (routes \<lparr>si_lib = demo_lib, si_crypto = demo_crypto, si_store = E, si_vault = v,
        si_version = ''1.0'', si_world = ?wd\<rparr> demo_stop_request)" for E v
    by (simp add: routes_def Let_def)
  have "''/api/wireguard/service/stop'' \<noteq> peer_search" by (simp add: peer_search_def)
  from no_write_without_permission [OF route a run(2) this] named(5) show ?thesis by simp
qed

text \<open>A pair of nodes: \<open>a\<close> is master of its only VIP, \<open>b\<close> its backup.\<close>

definition vip_document :: "string \<Rightarrow> json" where
  "vip_document status = JObj [(''rows'', JArr [JObj [(''vhid'', JStr ''1''), (''ipaddr'', JStr ''10.0.0.1''), (''status'', JStr status), (''advskew'', JStr ''0'')]])]"

definition pair_env :: env where
  "pair_env = (demo_env (\<lambda>p. answer saved) (\<lambda>p. None) None)
     \<lparr>e_http := (\<lambda>tr h m p ps b. answer (vip_document (if h_name h = ''a'' then ''MASTER'' else ''BACKUP'')))\<rparr>"

definition pair_world :: world where
  "pair_world = demo_world [demo_hosts ''a'', demo_hosts ''b'']"

definition pair_status :: "string \<Rightarrow> carp_role \<Rightarrow> carp_status" where
  "pair_status st role = \<lparr>cs_role = role, cs_enabled = True, cs_maintenance = False, cs_demotion = 0, cs_status_msg = [],
     cs_vhids = [\<lparr>v_vhid = ''1'', v_interface = [], v_ipaddr = ''10.0.0.1'', v_status = st, v_advbase = [], v_advskew = ''0''\<rparr>]\<rparr>"

definition pair_client :: "string \<Rightarrow> client" where
  "pair_client n = \<lparr>c_host = demo_host\<lparr>h_name := n, h_url := ''https://'' @ n\<rparr>, c_retry = default_retry\<rparr>"

lemma pair_get: "client_get (pair_client n) p [] pair_env tr =
  (Inr (vip_document (if n = ''a'' then ''MASTER'' else ''BACKUP'')),
   tr @ [HttpEv (c_host (pair_client n)) GET (url_path p) [] None (answer (vip_document (if n = ''a'' then ''MASTER'' else ''BACKUP'')))])"
  by (simp add: client_get_def request_def bnd_def http_def of_res_def client_response_def resp_ok_def answer_def
      pair_client_def pair_env_def default_retry_def numeral_3_eq_3 Let_def)

lemma pair_docs:
  "(case vip_document ''MASTER'' of JObj d \<Rightarrow> carp_of d | _ \<Rightarrow> carp_of []) = Inr (pair_status ''MASTER'' RMaster)"
  "(case vip_document ''BACKUP'' of JObj d \<Rightarrow> carp_of d | _ \<Rightarrow> carp_of []) = Inr (pair_status ''BACKUP'' RBackup)"
  by (code_simp, code_simp)

lemma pair_collect:
  "\<exists>u. collect_carp_status (pair_client ''a'') pair_env tr = (Inr (pair_status ''MASTER'' RMaster), u)"
  "\<exists>u. collect_carp_status (pair_client ''b'') pair_env tr = (Inr (pair_status ''BACKUP'' RBackup), u)"
  using pair_docs by (simp_all add: collect_carp_status_def safe_get_def run_simps pair_get vip_document_def)

lemma pair_context: "\<exists>cx mc' tr'. management_context pair_world demo_stop_request None no_cache pair_env [] = (Inr (Inr cx, mc'), tr') \<and>
  cx_write cx \<and> cx_host cx = c_host (pair_client ''a'')"
proof -
  let ?cfg = "load_config (wd_config pair_world)"
  obtain u where u: "collect_carp_status (pair_client ''a'') pair_env [] = (Inr (pair_status ''MASTER'' RMaster), u)"
    using pair_collect(1) by blast
  obtain w where w: "collect_carp_status (pair_client ''b'') pair_env u = (Inr (pair_status ''BACKUP'' RBackup), w)"
    using pair_collect(2) by blast
  have "gate_refusal ?cfg (wd_perm pair_world) demo_stop_request True = None" "hosts_val ?cfg = JArr [demo_hosts ''a'', demo_hosts ''b'']"
    "is_cluster_mode ?cfg = Inr True" "host_from_dict (demo_hosts ''a'') = Inr (c_host (pair_client ''a''))"
    "host_at (JArr [demo_hosts ''a'', demo_hosts ''b'']) 0 = Inr (demo_hosts ''a'')"
    "host_at (JArr [demo_hosts ''a'', demo_hosts ''b'']) 1 = Inr (demo_hosts ''b'')"
    "host_from_dict (demo_hosts ''b'') = Inr (c_host (pair_client ''b''))"
    "mk_client (c_host (pair_client ''a'')) = Inr (pair_client ''a'')" "mk_client (c_host (pair_client ''b'')) = Inr (pair_client ''b'')"
    "ha_pair (pair_status ''MASTER'' RMaster) (pair_status ''BACKUP'' RBackup) = Inr SideA"
    "write_request demo_stop_request None" "py_size (JArr [demo_hosts ''a'', demo_hosts ''b'']) = Inr 2"
    by (code_simp, code_simp, code_simp, code_simp, code_simp, code_simp, code_simp, code_simp, code_simp, code_simp, code_simp, code_simp)
  then show ?thesis by (simp add: management_context_def firewall_target_def Let_def run_simps u w)
qed

theorem ha_write_target_witness:
  "\<exists>cx mc' tr' ph p t. management_context pair_world demo_stop_request None no_cache pair_env [] = (Inr (Inr cx, mc'), tr') \<and>
     h_name (cx_host cx) = ''a'' \<and> cx_peer cx = Some ph \<and> mk_client ph = Inr p \<and> observed_in p t pair_env [] tr'"
proof -
  obtain cx mc' tr' where cx: "management_context pair_world demo_stop_request None no_cache pair_env [] = (Inr (Inr cx, mc'), tr')"
      "cx_write cx" "cx_host cx = c_host (pair_client ''a'')"
    using pair_context by blast
  have "is_cluster_mode (load_config (wd_config pair_world)) = Inr True" by code_simp
  from ha_write_target [OF cx(1,2) this] cx(1,3) show ?thesis by (auto simp: pair_client_def)
qed

end
