(* ===== verification/Json_Text.thy ===== *)
theory Json_Text
  imports Log_File
begin

text \<open>
  What \<^verbatim>\<open>json.dumps\<close> writes, \<^verbatim>\<open>json.loads\<close> reads back: the round trip of every value without floating-point numbers
  and without integers of more than 4300 digits.
\<close>

section \<open>Texts\<close>

lemma hex_digit_hex: "d < 16 \<Longrightarrow> hex_digit (if d < 10 then chr (48 + d) else chr (87 + d)) = Some d"
  by (auto simp: hex_digit_def is_digit_def in_range_def code_def [of "CHR ''0''"] code_def [of "CHR ''9''"]
      code_def [of "CHR ''a''"] code_def [of "CHR ''f''"])

lemma hex4_hex2: "hex4 (''00'' @ hex2 c @ s) = Some (code c, s)"
proof -
  have "hex_digit (CHR ''0'') = Some 0" by code_simp
  moreover have "code c div 16 < 16" by (rule less_mult_imp_div_less) simp
  ultimately show ?thesis
    using hex_digit_hex [of "code c div 16"] hex_digit_hex [of "code c mod 16"] by (simp add: hex2_def Let_def)
qed

definition short_escaped :: "char list" where
  "short_escaped = [CHR 0x22, CHR 0x5C, CHR 0x0A, CHR 0x0D, CHR 0x09, CHR 0x0C, CHR 0x08]"

lemma esc_json_long: "c \<notin> set short_escaped \<Longrightarrow> esc_json c = (if code c < 32 then CHR 0x5C # ''u00'' @ hex2 c else [c])"
  by (simp add: short_escaped_def esc_json_def)

lemma code_escape: "code (CHR 0x5C) = 92"
  by code_simp

lemma pmap_one: "pmap ((@) [c]) p = pmap ((#) c) p"
  by (cases p) simp_all

lemma json_string_short: "list_all (\<lambda>c. \<forall>s. json_string (esc_json c @ s) = pmap ((#) c) (json_string s)) short_escaped"
  by (simp add: short_escaped_def esc_json_def code_escape pmap_one)

lemma json_string_esc: "json_string (esc_json c @ s) = pmap ((#) c) (json_string s)"
proof (cases "c \<in> set short_escaped")
  case True
  with json_string_short show ?thesis by (simp add: list_all_iff)
next
  case False
  then have c: "c \<noteq> CHR 0x22" "c \<noteq> CHR 0x5C" by (auto simp: short_escaped_def)
  show ?thesis
  proof (cases "code c < 32")
    case True
    then have "unicode_escape (''00'' @ hex2 c @ s) = Some ([c], s)"
      by (simp add: unicode_escape_def hex4_hex2 utf8_def del: append.simps)
    with True False show ?thesis by (simp add: esc_json_long code_escape pmap_one)
  qed (use False c in \<open>simp add: esc_json_long\<close>)
qed

lemma json_string_quote: "json_string (concat (map esc_json t) @ CHR 0x22 # s) = Parsed t s"
  by (induction t) (simp_all add: json_string_esc)

section \<open>Numbers\<close>

text \<open>What follows a value: nothing, or a character that ends it.\<close>

definition ends :: "string \<Rightarrow> bool" where
  "ends r = (r = [] \<or> hd r \<in> {CHR '','', CHR ''}'', CHR '']''})"

lemma ends_char: "ends (e # r) \<Longrightarrow> \<not> is_digit e \<and> e \<noteq> CHR ''.'' \<and> e \<notin> {CHR ''e'', CHR ''E''} \<and> \<not> is_ws e"
  by (auto simp: ends_def is_digit_def in_range_def code_def is_ws_def)

lemma dec_str_hd: "0 < n \<Longrightarrow> hd (dec_str n) \<noteq> CHR ''0''"
proof (induction n rule: dec_str.induct)
  case (1 n)
  show ?case
  proof (cases "n < 10")
    case True
    have "char_of (48 + n) \<noteq> CHR ''0''"
    proof
      assume eq: "char_of (48 + n) = CHR ''0''"
      have "nat (48 + n) = code (char_of (48 + n))" using True 1(2) by simp
      also have "\<dots> = 48" unfolding eq by (simp add: code_def)
      finally show False using 1(2) by simp
    qed
    with True show ?thesis by (simp add: dec_str.simps [of n])
  next
    case False
    with 1 have "hd (dec_str (n div 10)) \<noteq> CHR ''0''" by (simp add: pos_imp_zdiv_pos_iff)
    moreover have "dec_str (n div 10) \<noteq> []" using dec_str_digits [of "n div 10"] 1(2) by simp
    ultimately show ?thesis using False by (simp add: dec_str.simps [of n])
  qed
qed

lemma int_part_dec: "0 \<le> n \<Longrightarrow> ends r \<Longrightarrow> int_part (dec_str n @ r) = (dec_str n, r)"
proof -
  assume n: "0 \<le> n" and r: "ends r"
  show ?thesis
  proof (cases "n = 0")
    case True
    then show ?thesis by (simp add: dec_str.simps [of 0] int_part_def char_of_def)
  next
    case False
    with n have "hd (dec_str n) \<noteq> CHR ''0''" by (intro dec_str_hd) simp
    with dec_str_digits [OF n] r show ?thesis
      by (cases "dec_str n"; cases r)
        (auto simp: int_part_def list_all_iff takeWhile_append dropWhile_append dest: ends_char)
  qed
qed

definition short_number :: "int \<Rightarrow> bool" where
  "short_number i = (length (dec_str \<bar>i\<bar>) \<le> 4300)"

lemma not_digits: "list_all (\<lambda>c. \<not> is_digit c) (CHR 0x22 # ''ntfNI-{['')"
  by code_simp

lemma digit_chars: "is_digit c \<Longrightarrow> c \<notin> set (CHR 0x22 # ''ntfNI-{['')"
  using not_digits unfolding list_all_iff by blast

lemma dec_strE:
  assumes "0 \<le> n"
  obtains d ds where "dec_str n = d # ds" "is_digit d"
  using dec_str_digits [OF assms] by (cases "dec_str n") auto

lemma json_number_int:
  assumes "short_number i" "ends r"
  shows "json_number (int_str i @ r) = Parsed (JInt i) r"
proof -
  have rest: "fraction r = ([], r)" "exponent r = ([], r)"
    using ends_char assms(2) by (cases r; simp add: fraction_def exponent_def Let_def)+
  show ?thesis
  proof (cases "i < 0")
    case True
    with assms int_part_dec [of "- i" r] dec_str_digits [of "- i"] show ?thesis
      by (simp add: json_number_def int_str_def rest dec_val_dec_str short_number_def)
  next
    case False
    obtain d ds where d: "dec_str i = d # ds" "is_digit d" using dec_strE [of i] False by auto
    then have "d \<noteq> CHR ''-''" using digit_chars [of d] by simp
    moreover have "dec_val 0 (d # ds) = i" using dec_val_dec_str [of i] False d by simp
    ultimately show ?thesis
      using False assms int_part_dec [of i r] d by (simp add: json_number_def int_str_def rest short_number_def)
  qed
qed

lemma json_word_digit:
  assumes "is_digit c"
  shows "json_word (c # s) = None" "json_word (CHR ''-'' # c # s) = None"
  using digit_chars [OF assms] by (auto simp: json_word_def json_words_def)

lemma int_str_start:
  obtains c cs where "int_str i = c # cs" "json_word (c # cs @ s) = None" "c \<notin> {CHR 0x22, CHR ''{'', CHR ''[''}" "\<not> is_ws c"
proof -
  have ws: "is_digit c \<Longrightarrow> \<not> is_ws c" for c by (auto simp: is_digit_def in_range_def code_def is_ws_def)
  obtain d ds where d: "dec_str \<bar>i\<bar> = d # ds" "is_digit d" using dec_strE [of "\<bar>i\<bar>"] by auto
  have minus: "\<not> is_ws (CHR ''-'')" by (simp add: is_ws_def)
  show ?thesis
  proof (cases "i < 0")
    case True
    with d that [of "CHR ''-''" "d # ds"] minus show ?thesis by (simp add: int_str_def json_word_digit)
  next
    case False
    with d that [of d ds] digit_chars [OF d(2)] ws [OF d(2)] show ?thesis by (simp add: int_str_def json_word_digit)
  qed
qed

section \<open>Values\<close>

fun text_json :: "json \<Rightarrow> bool" where
  "text_json (JFloat r) = False"
| "text_json (JInt i) = short_number i"
| "text_json (JArr vs) = list_all text_json vs"
| "text_json (JObj kvs) = (distinct (map fst kvs) \<and> list_all (\<lambda>(k, v). text_json v) kvs)"
| "text_json _ = True"

lemma dumps_start: "text_json v \<Longrightarrow> \<exists>c cs. dumps_raw v = c # cs \<and> \<not> is_ws c"
proof (cases v)
  case (JInt i)
  then show ?thesis using int_str_start [of i "[]"] by (metis dumps_raw.simps(3))
qed (auto simp: quote_json_def is_ws_def)

lemma dumps_first: "text_json v \<Longrightarrow> \<exists>c cs. dumps_raw v = c # cs \<and> c \<noteq> CHR '']''"
proof (cases v)
  case (JInt i)
  obtain d ds where d: "dec_str \<bar>i\<bar> = d # ds" "is_digit d" using dec_strE [of "\<bar>i\<bar>"] by auto
  then have "d \<noteq> CHR '']''" by (auto simp: is_digit_def in_range_def code_def)
  with JInt d show ?thesis by (cases "i < 0") (simp_all add: int_str_def)
qed (auto simp: quote_json_def)

lemma dumps_skip: "text_json v \<Longrightarrow> skip_ws (dumps_raw v @ s) = dumps_raw v @ s"
  using dumps_start [of v] by (auto simp: skip_ws_def)

text \<open>\<^verbatim>\<open>reads v\<close>: the text of the value is read back as the value, whatever follows.\<close>

definition reads :: "json \<Rightarrow> bool" where
  "reads v = (\<forall>n r. length (dumps_raw v) \<le> n \<longrightarrow> ends r \<longrightarrow> json_value n (dumps_raw v @ r) = Parsed v r)"

lemma reads_word: "v \<in> {JNull, JBool True, JBool False} \<Longrightarrow> reads v"
  unfolding reads_def
proof (intro allI impI)
  fix n r assume v: "v \<in> {JNull, JBool True, JBool False}" "length (dumps_raw v) \<le> n"
  then obtain m where "n = Suc m" by (cases n) auto
  with v show "json_value n (dumps_raw v @ r) = Parsed v r"
    by (auto simp: json_value.simps(2) json_word_def json_words_def)
qed

lemma reads_string: "reads (JStr s)"
  unfolding reads_def
proof (intro allI impI)
  fix n r assume "length (dumps_raw (JStr s)) \<le> n"
  then obtain m where "n = Suc m" by (cases n) (auto simp: quote_json_def)
  then show "json_value n (dumps_raw (JStr s) @ r) = Parsed (JStr s) r"
    by (simp add: json_value.simps(2) quote_json_def json_string_quote)
qed

lemma reads_int: "short_number i \<Longrightarrow> reads (JInt i)"
  unfolding reads_def
proof (intro allI impI)
  fix n r assume i: "short_number i" "length (dumps_raw (JInt i)) \<le> n" "ends r"
  obtain c cs where c: "int_str i = c # cs" "json_word (c # cs @ r) = None" "c \<notin> {CHR 0x22, CHR ''{'', CHR ''[''}"
    using int_str_start [of i r] by metis
  with i(2) obtain m where "n = Suc m" by (cases n) auto
  with c json_number_int [OF i(1,3)] show "json_value n (dumps_raw (JInt i) @ r) = Parsed (JInt i) r"
    by (simp add: json_value.simps(2))
qed

lemma ends_comma: "ends (CHR '','' # r)" "ends (CHR ''}'' # r)" "ends (CHR '']'' # r)"
  by (simp_all add: ends_def)

lemma skip_closing: "skip_ws (CHR '','' # r) = CHR '','' # r" "skip_ws (CHR ''}'' # r) = CHR ''}'' # r"
    "skip_ws (CHR '']'' # r) = CHR '']'' # r" "skip_ws (CHR '':'' # r) = CHR '':'' # r"
  by (simp_all add: skip_ws_def is_ws_def)

lemma join_cons: "xs \<noteq> [] \<Longrightarrow> join '','' (x # xs) = x @ CHR '','' # join '','' xs"
  by (cases xs) simp_all

lemma join_skip:
  assumes "vs \<noteq> []" "list_all text_json vs"
  shows "skip_ws (join '','' (map dumps_raw vs) @ s) = join '','' (map dumps_raw vs) @ s"
  using assms dumps_skip [of "hd vs"] by (cases vs; cases "tl vs") (simp_all add: join_cons)

lemma items_read:
  assumes "vs \<noteq> []" "\<forall>v \<in> set vs. reads v" "list_all text_json vs" "length (join '','' (map dumps_raw vs)) < n"
  shows "json_items n (join '','' (map dumps_raw vs) @ CHR '']'' # r) = Parsed vs r"
  using assms
proof (induction vs arbitrary: n rule: list_nonempty_induct)
  case (single v)
  obtain m where m: "n = Suc m" using single(3) by (cases n) auto
  with single have "json_value m (dumps_raw v @ CHR '']'' # r) = Parsed v (CHR '']'' # r)"
    by (simp add: reads_def ends_comma)
  with m show ?case by (simp add: json_items.simps(2) skip_closing)
next
  case (cons v vs)
  obtain m where m: "n = Suc m" using cons(5) by (cases n) auto
  have len: "length (dumps_raw v) \<le> m" "length (join '','' (map dumps_raw vs)) < m"
    using cons(1,5) m by (simp_all add: join_cons)
  let ?rest = "join '','' (map dumps_raw vs) @ CHR '']'' # r"
  have "json_value m (dumps_raw v @ CHR '','' # ?rest) = Parsed v (CHR '','' # ?rest)"
    using cons(3) len by (simp add: reads_def ends_comma)
  moreover have "json_items m ?rest = Parsed vs r"
    by (rule cons(2)) (use cons(3,4) len in simp_all)
  moreover have "skip_ws ?rest = ?rest" using cons(1,4) by (intro join_skip) simp_all
  ultimately show ?case using m cons(1) by (simp add: json_items.simps(2) skip_closing join_cons)
qed

definition member_text :: "string \<times> json \<Rightarrow> string" where
  "member_text = (\<lambda>(k, v). quote_json k @ '':'' @ dumps_raw v)"

lemma member_text: "member_text (k, v) @ s = CHR 0x22 # concat (map esc_json k) @ CHR 0x22 # CHR '':'' # dumps_raw v @ s"
  by (simp add: member_text_def quote_json_def)

lemma member_first: "d \<noteq> [] \<Longrightarrow> \<exists>cs. join '','' (map member_text d) = CHR 0x22 # cs"
proof (cases d)
  case (Cons x xs)
  obtain k v where x: "x = (k, v)" by (cases x)
  show ?thesis by (cases xs) (simp_all add: Cons x member_text_def quote_json_def)
qed simp

lemma member_skip: "d \<noteq> [] \<Longrightarrow> skip_ws (join '','' (map member_text d) @ s) = join '','' (map member_text d) @ s"
  using member_first [of d] by (auto simp: skip_ws_def is_ws_def)

lemma put_new: "k \<notin> fst ` set d \<Longrightarrow> dput d k v = d @ [(k, v)]"
  by (induction d k v rule: dput.induct) auto

lemma member_read:
  assumes "reads v" "text_json v" "length (dumps_raw v) \<le> n" "e = CHR '','' \<or> e = CHR ''}''"
  shows "json_members (Suc n) acc (member_text (k, v) @ e # r) =
    (if e = CHR ''}'' then Parsed (dput acc k v) r else json_members n (dput acc k v) (skip_ws r))"
proof -
  have "json_value n (dumps_raw v @ e # r) = Parsed v (e # r)" "skip_ws (e # r) = e # r"
    using assms by (auto simp: reads_def ends_comma skip_closing)
  with assms(2,4) show ?thesis
    by (auto simp: member_text json_members.simps(2) json_string_quote skip_closing dumps_skip)
qed

lemma members_read:
  assumes "d \<noteq> []" "\<forall>(k, v) \<in> set d. reads v \<and> text_json v" "length (join '','' (map member_text d)) < n"
    "distinct (map fst (acc @ d))"
  shows "json_members n acc (join '','' (map member_text d) @ CHR ''}'' # r) = Parsed (acc @ d) r"
  using assms
proof (induction d arbitrary: n acc rule: list_nonempty_induct)
  case (single x)
  obtain k v where x: "x = (k, v)" by (cases x)
  obtain m where m: "n = Suc m" using single(2) by (cases n) auto
  have "length (dumps_raw v) \<le> m" using single(2) m x by (simp add: member_text_def)
  with single(1,3) m x member_read [of v m "CHR ''}''"] show ?case by (simp add: put_new)
next
  case (cons x xs)
  obtain k v where x: "x = (k, v)" by (cases x)
  obtain m where m: "n = Suc m" using cons(4) by (cases n) auto
  have len: "length (dumps_raw v) \<le> m" "length (join '','' (map member_text xs)) < m"
    using cons(1,4) m x by (simp_all add: join_cons member_text_def)
  let ?rest = "join '','' (map member_text xs) @ CHR ''}'' # r"
  have "json_members n acc (join '','' (map member_text (x # xs)) @ CHR ''}'' # r) =
      json_members m (acc @ [(k, v)]) ?rest"
    using cons(1,3,5) m x len member_read [of v m "CHR '',''" acc k ?rest] member_skip [OF cons(1)]
    by (simp add: join_cons put_new)
  also have "\<dots> = Parsed ((acc @ [(k, v)]) @ xs) r"
    by (rule cons(2)) (use cons(3,5) x len in simp_all)
  finally show ?case by (simp add: x)
qed

lemma reads_array: "\<forall>v \<in> set vs. reads v \<Longrightarrow> text_json (JArr vs) \<Longrightarrow> reads (JArr vs)"
  unfolding reads_def [of "JArr vs"]
proof (intro allI impI)
  fix n r assume vs: "\<forall>v \<in> set vs. reads v" "text_json (JArr vs)" "length (dumps_raw (JArr vs)) \<le> n"
  then obtain m where m: "n = Suc m" by (cases n) auto
  show "json_value n (dumps_raw (JArr vs) @ r) = Parsed (JArr vs) r"
  proof (cases "vs = []")
    case True
    with m show ?thesis by (simp add: json_value.simps(2) skip_closing)
  next
    case False
    have items: "json_items m (join '','' (map dumps_raw vs) @ CHR '']'' # r) = Parsed vs r"
      by (rule items_read [OF False]) (use vs m in simp_all)
    obtain c cs where c: "join '','' (map dumps_raw vs) @ CHR '']'' # r = c # cs" by (cases "join '','' (map dumps_raw vs)") auto
    obtain v vs' where v: "vs = v # vs'" using False by (cases vs) auto
    have "c \<noteq> CHR '']''" using dumps_first [of v] vs(2) c v by (cases vs') auto
    with c items m join_skip [OF False, of "CHR '']'' # r"] vs(2) show ?thesis by (simp add: json_value.simps(2))
  qed
qed

lemma reads_object: "\<forall>(k, v) \<in> set d. reads v \<Longrightarrow> text_json (JObj d) \<Longrightarrow> reads (JObj d)"
  unfolding reads_def [of "JObj d"]
proof (intro allI impI)
  fix n r assume d: "\<forall>(k, v) \<in> set d. reads v" "text_json (JObj d)" "length (dumps_raw (JObj d)) \<le> n"
  then obtain m where m: "n = Suc m" by (cases n) auto
  have shape: "dumps_raw (JObj d) @ r = CHR ''{'' # join '','' (map member_text d) @ CHR ''}'' # r"
    by (simp add: member_text_def)
  show "json_value n (dumps_raw (JObj d) @ r) = Parsed (JObj d) r"
  proof (cases "d = []")
    case True
    with m show ?thesis by (simp add: json_value.simps(2) skip_closing)
  next
    case False
    have "json_members m [] (join '','' (map member_text d) @ CHR ''}'' # r) = Parsed ([] @ d) r"
      by (rule members_read [OF False]) (use d m in \<open>auto simp: list_all_iff member_text_def\<close>)
    moreover obtain cs where "join '','' (map member_text d) = CHR 0x22 # cs" using member_first [OF False] by blast
    ultimately show ?thesis using m member_skip [OF False, of "CHR ''}'' # r"] unfolding shape by (simp add: json_value.simps(2))
  qed
qed

theorem reads_text: "text_json v \<Longrightarrow> reads v"
proof (induction v)
  case (JArr vs)
  then show ?case by (intro reads_array) (auto simp: list_all_iff)
next
  case (JObj d)
  then show ?case by (intro reads_object) (force simp: list_all_iff)+
next
  case (JBool b)
  then show ?case by (cases b) (simp_all add: reads_word)
qed (simp_all add: reads_word reads_string reads_int)

text \<open>Nothing but the value is in the text.\<close>

theorem loads_dumps: "text_json v \<Longrightarrow> loads (dumps_raw v) = Parsed v []"
proof -
  assume v: "text_json v"
  have "json_value (Suc (length (dumps_raw v))) (dumps_raw v @ []) = Parsed v []"
    using reads_text [OF v] unfolding reads_def by (auto simp: ends_def simp del: append_Nil2)
  with dumps_skip [OF v, of "[]"] show ?thesis by (simp add: loads_def skip_ws_def)
qed

end
