(* ===== verification/Log_File_Props.thy ===== *)
theory Log_File_Props
  imports Json_Text
begin

text \<open>
  What is appended to the audit log is read back: every line of an entry parses to that entry.
\<close>

section \<open>Lines\<close>

lemma text_entry: "short_number (ae_duration_ms a) \<Longrightarrow> text_json (JObj (entry_obj a))"
  by (simp add: entry_obj_def)

lemma loads_line: "short_number (ae_duration_ms a) \<Longrightarrow> loads (log_line a) = Parsed (JObj (entry_obj a)) []"
  unfolding log_line_def by (rule loads_dumps [OF text_entry])

lemma esc_json_codes: "list_all (\<lambda>d. 32 \<le> code d) (esc_json c)"
proof (cases "c \<in> set short_escaped")
  case True
  have "list_all (\<lambda>c. list_all (\<lambda>d. 32 \<le> code d) (esc_json c)) short_escaped" by code_simp
  with True show ?thesis by (simp add: list_all_iff)
next
  case False
  have "code c mod 16 < 16" "code c div 16 < 16" by (simp, rule less_mult_imp_div_less) simp
  moreover have "list_all (\<lambda>d. 32 \<le> code d) (CHR 0x5C # ''u00'')" by code_simp
  ultimately show ?thesis
    using esc_json_long [OF False] by (auto simp: hex2_def Let_def)
qed

lemma quote_json_codes: "list_all (\<lambda>d. 32 \<le> code d) (quote_json s)"
  using esc_json_codes by (auto simp: quote_json_def list_all_iff code_def [of "CHR 0x22"])

lemma digits_codes: "list_all is_digit s \<Longrightarrow> list_all (\<lambda>d. 32 \<le> code d) s"
  by (induction s) (auto simp: is_digit_def in_range_def code_def [of "CHR ''0''"])

lemma join_codes: "list_all (list_all (\<lambda>d. 32 \<le> code d)) ss \<Longrightarrow> list_all (\<lambda>d. 32 \<le> code d) (join '','' ss)"
  by (induction "'',''" ss rule: join.induct) (auto simp: code_def [of "CHR '',''"])

lemma text_codes: "text_json v \<Longrightarrow> list_all (\<lambda>d. 32 \<le> code d) (dumps_raw v)"
proof (induction v)
  case (JInt i)
  then show ?case
    using dec_str_digits [of "\<bar>i\<bar>"] digits_codes [of "dec_str \<bar>i\<bar>"] by (cases "i < 0") (auto simp: int_str_def code_def [of "CHR ''-''"])
next
  case (JArr vs)
  then have "list_all (list_all (\<lambda>d. 32 \<le> code d)) (map dumps_raw vs)" by (auto simp: list_all_iff)
  from join_codes [OF this] show ?case by (simp add: code_def [of "CHR ''[''"] code_def [of "CHR '']''"])
next
  case (JObj d)
  have "list_all (\<lambda>d. 32 \<le> code d) (member_text (k, v))" if "(k, v) \<in> set d" for k v
    using JObj that quote_json_codes [of k] by (force simp: member_text_def list_all_iff code_def [of "CHR '':''"])
  then have "list_all (list_all (\<lambda>d. 32 \<le> code d)) (map member_text d)" by (auto simp: list_all_iff)
  from join_codes [OF this] show ?case by (simp add: member_text_def code_def [of "CHR ''{''"] code_def [of "CHR ''}''"])
next
  case (JBool b)
  have "list_all (\<lambda>d. 32 \<le> code d) ''true''" "list_all (\<lambda>d. 32 \<le> code d) ''false''" by (code_simp, code_simp)
  then show ?case by simp
next
  case JNull
  show ?case by code_simp
qed (simp_all add: quote_json_codes)

lemma line_codes: "short_number (ae_duration_ms a) \<Longrightarrow> list_all (\<lambda>d. 32 \<le> code d) (log_line a)"
  unfolding log_line_def by (rule text_codes [OF text_entry])

section \<open>The lines of a file\<close>

lemma read_lines_nonempty: "read_lines (s @ [CHR 0x0A]) \<noteq> []"
  by (induction s) (auto split: list.splits)

lemma read_lines_append: "read_lines (s @ CHR 0x0A # t) = read_lines (s @ [CHR 0x0A]) @ read_lines t"
proof (induction s)
  case (Cons c cs)
  have "hd (cs @ CHR 0x0A # t) = hd (cs @ [CHR 0x0A])" by (cases cs) simp_all
  with Cons read_lines_nonempty [of cs] show ?case by (auto split: list.splits)
qed simp

lemma read_lines_one: "list_all (\<lambda>d. 32 \<le> code d) l \<Longrightarrow> read_lines (l @ CHR 0x0A # t) = l # read_lines t"
proof (induction l)
  case (Cons c cs)
  then have "c \<noteq> CHR 0x0A" "c \<noteq> CHR 0x0D" by (auto simp: code_def)
  with Cons show ?case by simp
qed simp

text \<open>The file is empty or ends with a newline.\<close>

definition complete :: "string \<Rightarrow> bool" where
  "complete f = (f = [] \<or> last f = CHR 0x0A)"

lemma complete_append: "complete (log_append f a)"
  by (simp add: complete_def log_append_def)

lemma read_lines_log:
  assumes "complete f" "short_number (ae_duration_ms a)"
  shows "read_lines (log_append f a) = read_lines f @ [log_line a]"
proof (cases f rule: rev_cases)
  case Nil
  with read_lines_one [OF line_codes [OF assms(2)], of "[]"] show ?thesis by (simp add: log_append_def)
next
  case (snoc g c)
  with assms(1) have "f = g @ [CHR 0x0A]" by (simp add: complete_def)
  with read_lines_one [OF line_codes [OF assms(2)], of "[]"] read_lines_append [of g "log_line a @ [CHR 0x0A]"]
  show ?thesis by (simp add: log_append_def)
qed

lemma read_lines_logs:
  assumes "complete f" "list_all (\<lambda>a. short_number (ae_duration_ms a)) es"
  shows "read_lines (foldl log_append f es) = read_lines f @ map log_line es"
  using assms
proof (induction es arbitrary: f)
  case (Cons a es)
  then have "read_lines (foldl log_append (log_append f a) es) = read_lines (log_append f a) @ map log_line es"
    by (intro Cons(1) complete_append) simp
  with Cons show ?case by (simp add: read_lines_log)
qed simp

section \<open>Reading entries back\<close>

lemma strip_line: "strip (log_line a) = log_line a" "log_line a \<noteq> []"
  by (auto intro!: strip_no_space simp: log_line_def is_space_def code_def)

lemma entry_from_obj: "entry_from (entry_obj a) = Some (entry_obj a)"
  by (simp add: entry_from_def entry_fields_def entry_obj_def dget_or_def dget_def numeral_nat)

lemma entries_of_lines:
  "list_all (\<lambda>a. short_number (ae_duration_ms a)) es \<Longrightarrow> entries_of (map log_line es) = Inr (map entry_obj es)"
  by (induction es) (simp_all add: strip_line loads_line entry_from_obj rbnd_def)

lemma last_lines_append: "0 < n \<Longrightarrow> n \<le> int (length ys) \<Longrightarrow> last_lines n (xs @ ys) = last_lines n ys"
  by (simp add: last_lines_def)


definition demo_entry :: "string \<Rightarrow> audit_entry" where
  "demo_entry detail = \<lparr>ae_ts = ''2026'', ae_user = ''op'', ae_action = ''rule.create'', ae_target = [], ae_host = ''fw'',
     ae_result = ''ok'', ae_duration_ms = 12, ae_detail = detail, ae_payload_sha256 = []\<rparr>"

definition demo_file :: string where
  "demo_file = ''garbage'' @ [CHR 0x0A]"


text \<open>\<^verbatim>\<open>iter_all\<close> splits the file at further characters than \<^verbatim>\<open>readlines\<close>: an entry whose detail has a line separator
  U+2028, which \<^verbatim>\<open>tail\<close> reads back, is passed over by \<^verbatim>\<open>iter_all\<close>; and a detail with a number between two such
  characters makes it fail. \<^verbatim>\<open>tail(0)\<close> gives every entry.\<close>

definition line_separator :: string where
  "line_separator = [CHR 0xE2, CHR 0x80, CHR 0xA8]"

lemma iter_all_drops: "log_iter_all (Some (log_append [] (demo_entry line_separator))) = Inr []"
  by code_simp

lemma iter_all_fails:
  "log_iter_all (Some (log_append [] (demo_entry (line_separator @ ''5'' @ line_separator)))) =
     Inl (AttrErr ''object has no attribute items'')"
  by code_simp

lemma tail_zero: "log_tail (Some (log_append (log_append [] (demo_entry [])) (demo_entry []))) 0 =
  Inr [entry_obj (demo_entry []), entry_obj (demo_entry [])]"
  by code_simp

end
