(* ===== verification/Metrics_Props.thy ===== *)
theory Metrics_Props
  imports Metrics Handlers_Props
begin

text \<open>
  The text of the metrics route can be read back: a reader of the Prometheus text format gets every sample with
  its labels, whatever characters the names of the firewall hold.
\<close>

section \<open>Reading the text format\<close>

type_synonym sample = "string \<times> (string \<times> string) list \<times> string"

definition name_char :: "char \<Rightarrow> bool" where
  "name_char c = (is_alnum c \<or> c = CHR ''_'')"

fun put_char :: "char \<Rightarrow> (string \<times> string) option \<Rightarrow> (string \<times> string) option" where
  "put_char c (Some (t, r)) = Some (c # t, r)"
| "put_char c None = None"

text \<open>A label value after its opening quote, and what follows its closing one.\<close>

fun read_text :: "string \<Rightarrow> (string \<times> string) option" where
  "read_text [] = None"
| "read_text (c # cs) =
     (if c = CHR 0x22 then Some ([], cs)
      else if c = CHR 0x0A then None
      else if c = CHR 0x5C then
        (case cs of [] \<Rightarrow> None
         | d # ds \<Rightarrow> if d = CHR 0x5C \<or> d = CHR 0x22 then put_char d (read_text ds)
             else if d = CHR ''n'' then put_char (CHR 0x0A) (read_text ds) else None)
      else put_char c (read_text cs))"

fun read_labels :: "nat \<Rightarrow> string \<Rightarrow> ((string \<times> string) list \<times> string) option" where
  "read_labels 0 s = None"
| "read_labels (Suc n) s =
     (let k = takeWhile name_char s in
      if k = [] then None
      else (case dropWhile name_char s of
          a # b # cs \<Rightarrow> if a = CHR ''='' \<and> b = CHR 0x22 then
              (case read_text cs of
                 Some (v, e # r) \<Rightarrow>
                   if e = CHR ''}'' then Some ([(k, v)], r)
                   else if e = CHR '','' then map_option (\<lambda>(ls, r'). ((k, v) # ls, r')) (read_labels n r)
                   else None
               | _ \<Rightarrow> None)
            else None
        | _ \<Rightarrow> None))"

definition plain_value :: "string \<Rightarrow> bool" where
  "plain_value v = (v \<noteq> [] \<and> list_all (\<lambda>c. \<not> is_space c) v)"

definition read_sample :: "string \<Rightarrow> sample option" where
  "read_sample s =
     (let n = takeWhile name_char s in
      if n = [] then None
      else (case dropWhile name_char s of
          c # cs \<Rightarrow>
            if c = CHR ''{'' then
              (case read_labels (length cs) cs of
                 Some (ls, d # v) \<Rightarrow> if d = CHR '' '' \<and> plain_value v then Some (n, ls, v) else None
               | _ \<Rightarrow> None)
            else if c = CHR '' '' \<and> plain_value cs then Some (n, [], cs) else None
        | [] \<Rightarrow> None))"

text \<open>The samples of some lines; a comment has none.\<close>

fun read_samples :: "string list \<Rightarrow> sample list option" where
  "read_samples [] = Some []"
| "read_samples (l # ls) =
     (if starts_with ''# '' l then read_samples ls
      else (case (read_sample l, read_samples ls) of (Some x, Some xs) \<Rightarrow> Some (x # xs) | _ \<Rightarrow> None))"

definition read_exposition :: "string \<Rightarrow> sample list option" where
  "read_exposition t = (if t = [] \<or> last t \<noteq> CHR 0x0A then None else read_samples (split_on (CHR 0x0A) (butlast t)))"

section \<open>Labels\<close>

definition escape_char :: "char \<Rightarrow> string" where
  "escape_char c = (if c = CHR 0x5C then [CHR 0x5C, CHR 0x5C] else if c = CHR 0x0A then CHR 0x5C # ''n''
     else if c = CHR 0x22 then [CHR 0x5C, CHR 0x22] else [c])"

lemma metric_escape_chars: "metric_escape s = concat (map escape_char s)"
  by (induction s) (simp_all add: metric_escape_def replace_with_def escape_char_def)

lemma read_text_char: "read_text (escape_char c @ s) = put_char c (read_text s)"
  by (auto simp: escape_char_def)

lemma read_text_escape: "read_text (metric_escape s @ CHR 0x22 # r) = Some (s, r)"
  unfolding metric_escape_chars by (induction s) (simp_all add: read_text_char)

lemma escape_no_newline: "CHR 0x0A \<notin> set (metric_escape s)"
  unfolding metric_escape_chars by (auto simp: escape_char_def split: if_splits)

definition plain_name :: "string \<Rightarrow> bool" where
  "plain_name s = (s \<noteq> [] \<and> list_all name_char s)"

lemma not_name_chars: "\<not> name_char (CHR ''='')" "\<not> name_char (CHR ''{'')" "\<not> name_char (CHR '' '')" "\<not> name_char (CHR 0x0A)"
    "\<not> name_char (CHR ''#'')"
  by (code_simp, code_simp, code_simp, code_simp, code_simp)

lemma plain_name_split:
  assumes "plain_name s" "\<not> name_char c"
  shows "takeWhile name_char (s @ c # r) = s" "dropWhile name_char (s @ c # r) = c # r"
  using assms by (auto simp: plain_name_def list_all_iff takeWhile_append dropWhile_append)

lemma plain_name_no_newline: "plain_name s \<Longrightarrow> CHR 0x0A \<notin> set s"
  using not_name_chars(4) by (auto simp: plain_name_def list_all_iff)

lemma read_labels_join:
  assumes "labels \<noteq> []" "list_all (\<lambda>(k, v). plain_name k) labels" "length labels \<le> n"
  shows "read_labels n (join '','' (map metric_label labels) @ CHR ''}'' # r) = Some (labels, r)"
  using assms
proof (induction labels arbitrary: n rule: list_nonempty_induct)
  case (single x)
  obtain k v where x: "x = (k, v)" by (cases x)
  obtain m where m: "n = Suc m" using single(2) by (cases n) auto
  have "plain_name k" "k \<noteq> []" using single(1) x by (simp_all add: plain_name_def)
  with x m show ?case by (simp add: metric_label_def plain_name_split not_name_chars read_text_escape)
next
  case (cons x xs)
  obtain k v where x: "x = (k, v)" by (cases x)
  obtain m where m: "n = Suc m" using cons(4) by (cases n) auto
  have k: "plain_name k" "k \<noteq> []" using cons(3) x by (simp_all add: plain_name_def)
  have j: "join '','' (map metric_label (x # xs)) @ CHR ''}'' # r =
      k @ CHR ''='' # CHR 0x22 # metric_escape v @ CHR 0x22 # CHR '','' # join '','' (map metric_label xs) @ CHR ''}'' # r"
    using cons(1) by (cases xs) (simp_all add: x metric_label_def)
  have "read_labels m (join '','' (map metric_label xs) @ CHR ''}'' # r) = Some (xs, r)"
    by (rule cons(2)) (use cons(3,4) m in simp_all)
  then show ?case unfolding j m using k by (simp add: plain_name_split not_name_chars read_text_escape x)
qed

section \<open>Lines\<close>

lemma length_labels: "length xs \<le> length (join '','' (map metric_label xs))"
proof (induction xs rule: induct_list012)
  case (2 x)
  show ?case by (cases x) (simp add: metric_label_def)
next
  case (3 x y zs)
  then show ?case by simp
qed simp

lemma read_metric_line:
  assumes "plain_name name" "list_all (\<lambda>(k, v). plain_name k) labels" "plain_value (py_str v)"
  shows "read_sample (metric_line name v labels) = Some (name, labels, py_str v)"
proof -
  have n: "name \<noteq> []" using assms(1) by (simp add: plain_name_def)
  show ?thesis
  proof (cases "labels = []")
    case True
    with n assms show ?thesis
      by (simp add: read_sample_def metric_line_def plain_name_split [of name "CHR '' ''"] not_name_chars)
  next
    case False
    have "read_labels (length (join '','' (map metric_label labels) @ CHR ''}'' # CHR '' '' # py_str v))
        (join '','' (map metric_label labels) @ CHR ''}'' # CHR '' '' # py_str v) = Some (labels, CHR '' '' # py_str v)"
      by (rule read_labels_join [OF False assms(2)]) (use length_labels [of labels] in simp)
    with False n assms show ?thesis
      by (simp add: read_sample_def metric_line_def plain_name_split [of name "CHR ''{''"] not_name_chars)
  qed
qed

lemma metric_line_no_newline:
  assumes "plain_name name" "list_all (\<lambda>(k, v). plain_name k) labels" "plain_value (py_str v)"
  shows "CHR 0x0A \<notin> set (metric_line name v labels)"
proof -
  have j: "CHR 0x0A \<notin> set (join '','' (map metric_label xs))" if "list_all (\<lambda>(k, v). plain_name k) xs" for xs
    using that
  proof (induction xs rule: induct_list012)
    case (2 x)
    then show ?case using escape_no_newline by (cases x) (simp add: metric_label_def plain_name_no_newline)
  next
    case (3 x y zs)
    then show ?case using escape_no_newline by (cases x) (simp add: metric_label_def plain_name_no_newline)
  qed simp
  have "CHR 0x0A \<notin> set (py_str v)"
    using assms(3) by (auto simp: plain_value_def list_all_iff is_space_def code_def)
  with j [OF assms(2)] plain_name_no_newline [OF assms(1)] show ?thesis by (simp add: metric_line_def)
qed

text \<open>Lines that are samples or comments and have no newline in them, and the samples they hold.\<close>

definition holds_samples :: "string list \<Rightarrow> sample list \<Rightarrow> bool" where
  "holds_samples ls ss = (read_samples ls = Some ss \<and> list_all (\<lambda>l. CHR 0x0A \<notin> set l) ls)"

lemma read_samples_append:
  "read_samples ls = Some ss \<Longrightarrow> read_samples ms = Some ts \<Longrightarrow> read_samples (ls @ ms) = Some (ss @ ts)"
  by (induction ls arbitrary: ss) (auto split: option.splits if_splits)

lemma holds_append: "holds_samples ls ss \<Longrightarrow> holds_samples ms ts \<Longrightarrow> holds_samples (ls @ ms) (ss @ ts)"
  by (auto simp: holds_samples_def intro: read_samples_append)

lemma holds_line:
  assumes "plain_name name" "list_all (\<lambda>(k, v). plain_name k) labels" "plain_value (py_str v)"
  shows "holds_samples [metric_line name v labels] [(name, labels, py_str v)]"
proof -
  have "\<not> starts_with ''# '' (metric_line name v labels)"
    using assms(1) not_name_chars(5) by (cases name) (auto simp: metric_line_def plain_name_def)
  with assms show ?thesis by (simp add: holds_samples_def read_metric_line metric_line_no_newline)
qed

lemma holds_section: "CHR 0x0A \<notin> set (name @ kind @ about) \<Longrightarrow> holds_samples (metric_section name kind about) []"
  by (simp add: holds_samples_def metric_section_def)

lemma holds_family:
  assumes "CHR 0x0A \<notin> set (kind @ about)" "plain_name name"
    and "list_all (\<lambda>v. list_all (\<lambda>(k, v). plain_name k) (labels v) \<and> plain_value (py_str (f v))) vs"
  shows "holds_samples (metric_family name kind about f labels vs) (map (\<lambda>v. (name, labels v, py_str (f v))) vs)"
proof -
  have "holds_samples (map (\<lambda>v. metric_line name (f v) (labels v)) vs) (map (\<lambda>v. (name, labels v, py_str (f v))) vs)"
    using assms(3)
  proof (induction vs)
    case (Cons v vs)
    then show ?case using holds_append [OF holds_line [OF assms(2), of "labels v" "f v"]] by simp
  qed (simp add: holds_samples_def)
  with holds_append [OF holds_section [of name kind about]] assms(1) plain_name_no_newline [OF assms(2)] show ?thesis
    by (simp add: metric_family_def)
qed

lemma split_on_line: "c \<notin> set l \<Longrightarrow> split_on c l = [l]" "c \<notin> set l \<Longrightarrow> split_on c (l @ c # s) = l # split_on c s"
  by (induction l) auto

lemma split_on_lines: "ls \<noteq> [] \<Longrightarrow> list_all (\<lambda>l. c \<notin> set l) ls \<Longrightarrow> split_on c (join [c] ls) = ls"
  by (induction ls rule: induct_list012) (simp_all add: split_on_line)

lemma read_exposition: "holds_samples ls ss \<Longrightarrow> ls \<noteq> [] \<Longrightarrow> read_exposition (exposition ls) = Some ss"
  by (simp add: read_exposition_def exposition_def holds_samples_def split_on_lines)

section \<open>What the collectors return\<close>

lemma plain_int: "plain_value (int_str i)"
proof -
  have *: "0 \<le> n \<Longrightarrow> plain_value (dec_str n)" for n
    using dec_str_digits [of n] digit_not_space by (auto simp: plain_value_def list_all_iff)
  have "\<not> is_space (CHR ''-'')" by code_simp
  with * [of "- i"] * [of i] show ?thesis by (auto simp: int_str_def plain_value_def)
qed

lemma plain_flag: "plain_value (py_str (up_flag b))"
  by (simp add: up_flag_def plain_int)

lemma plain_times: "plain_value (py_str v) \<Longrightarrow> plain_value (py_str (int_times v n))"
  by (cases v) (simp_all add: int_times_def plain_int)

text \<open>An object whose listed fields are integers.\<close>

definition counts :: "string list \<Rightarrow> json \<Rightarrow> bool" where
  "counts ks v = list_all (\<lambda>k. \<exists>i. field_at v k = JInt i) ks"

lemma counts_plain: "counts ks v \<Longrightarrow> k \<in> set ks \<Longrightarrow> plain_value (py_str (field_at v k))"
  by (auto simp: counts_def list_all_iff plain_int dest!: bspec)

definition system_keys :: "string list" where
  "system_keys = [''pf_states_current'', ''pf_states_limit'', ''memory_used_mb'', ''memory_total_mb'']"

definition interface_keys :: "string list" where
  "interface_keys = [''received_bytes'', ''sent_bytes'', ''received_errors'', ''send_errors'', ''dropped_packets'']"

definition measured :: "json \<Rightarrow> bool" where
  "measured g = ((\<exists>r. field_at g ''delay_ms'' = JFloat r) \<and> (\<exists>r. field_at g ''loss_pct'' = JFloat r))"

lemma system_counts: "yields (collect_system c) (counts system_keys)"
  unfolding collect_system_def
  by (intro yields_after) (auto simp: system_of_def counts_def system_keys_def field_at_def dget_or_def Let_def)

lemma interface_counts: "interface_of stats n v = Inr x \<Longrightarrow> counts interface_keys x"
  by (auto simp: interface_of_def counts_def interface_keys_def field_at_def dget_or_def safe_int_def Let_def)

lemma interfaces_of_counts: "interfaces_of stats kvs = Inr xs \<Longrightarrow> list_all (counts interface_keys) xs"
  by (induction stats kvs arbitrary: xs rule: interfaces_of.induct) (auto dest: interface_counts)

lemma interfaces_counts: "yields (collect_interfaces c) (\<lambda>v. list_all (counts interface_keys) (list_at v))"
  unfolding collect_interfaces_def
  by (intro yields_after) (auto simp: interface_list_def list_at_def interfaces_of_counts split: json.splits)

lemma gateways_measured: "yields (collect_gateways c) (\<lambda>v. list_all measured (list_at v))"
  unfolding collect_gateways_def
  by (intro yields_after)
    (auto simp: gateway_of_def measured_def field_at_def dget_or_def list_at_def list_all_iff parse_metric_def Let_def)

lemma certs_counts: "yields (collect_certificates lib c) (list_all (counts [''days_to_expiry'']))"
  unfolding collect_certificates_def
  by (intro yields_after) (auto simp: list_all_iff cert_of_def counts_def field_at_def dget_or_def Let_def)

section \<open>The whole text\<close>

text \<open>Lines whose samples all start with the labels of the firewall.\<close>

definition fine_lines :: "(string \<times> string) list \<Rightarrow> string list \<Rightarrow> bool" where
  "fine_lines common ls = (\<exists>ss. holds_samples ls ss \<and> list_all (\<lambda>(n, labels, v). prefix common labels) ss)"

lemma fine_append: "fine_lines common ls \<Longrightarrow> fine_lines common ms \<Longrightarrow> fine_lines common (ls @ ms)"
proof -
  assume "fine_lines common ls" "fine_lines common ms"
  then obtain ss ts where "holds_samples ls ss" "holds_samples ms ts" "list_all (\<lambda>(n, labels, v). prefix common labels) ss"
      "list_all (\<lambda>(n, labels, v). prefix common labels) ts" by (auto simp: fine_lines_def)
  then show ?thesis unfolding fine_lines_def by (intro exI [of _ "ss @ ts"]) (simp add: holds_append)
qed

lemma fine_family:
  assumes "CHR 0x0A \<notin> set (kind @ about)" "plain_name name"
    and "list_all (\<lambda>v. list_all (\<lambda>(k, v). plain_name k) (labels v) \<and> prefix common (labels v) \<and> plain_value (py_str (f v))) vs"
  shows "fine_lines common (metric_family name kind about f labels vs)"
proof -
  have "holds_samples (metric_family name kind about f labels vs) (map (\<lambda>v. (name, labels v, py_str (f v))) vs)"
    by (rule holds_family [OF assms(1,2)]) (use assms(3) in \<open>auto simp: list_all_iff\<close>)
  moreover have "list_all (\<lambda>(n, ls, v). prefix common ls) (map (\<lambda>v. (name, labels v, py_str (f v))) vs)"
    using assms(3) by (auto simp: list_all_iff)
  ultimately show ?thesis unfolding fine_lines_def by blast
qed

lemma fine_line:
  "plain_name name \<Longrightarrow> list_all (\<lambda>(k, v). plain_name k) labels \<Longrightarrow> prefix common labels \<Longrightarrow> plain_value (py_str v) \<Longrightarrow>
   fine_lines common [metric_line name v labels]"
  using holds_line [of name labels v] by (auto simp: fine_lines_def)

lemma fine_section: "CHR 0x0A \<notin> set (name @ kind @ about) \<Longrightarrow> fine_lines common (metric_section name kind about)"
  using holds_section [of name kind about] by (auto simp: fine_lines_def)

text \<open>A name is checked by evaluation.\<close>

lemma plain_names: "list_all plain_name [''host'', ''iface'', ''label'', ''gw'', ''service'', ''cert'', ''type'', ''opnsense_up'',
    ''opnsense_pf_states_current'', ''opnsense_pf_states_limit'', ''opnsense_memory_used_bytes'', ''opnsense_memory_total_bytes'',
    ''opnsense_iface_rx_bytes_total'', ''opnsense_iface_tx_bytes_total'', ''opnsense_iface_rx_errors_total'', ''opnsense_iface_tx_errors_total'',
    ''opnsense_iface_drops_total'', ''opnsense_iface_up'', ''opnsense_gateway_rtt_seconds'', ''opnsense_gateway_loss_ratio'', ''opnsense_gateway_up'',
    ''opnsense_service_running'', ''opnsense_cert_expiry_seconds'', ''opnsense_vpn_peers_total'', ''opnsense_ha_enabled'']"
  by code_simp

lemmas plain_named_labels = plain_names [simplified]

lemma quotient_plain: "0 < n \<Longrightarrow> \<exists>r. v = JFloat r \<Longrightarrow> plain_value (py_str (quotient v n))"
  using quotient_spaceless [of n] by (auto simp: quotient_def plain_value_def spaceless_def)

lemma fine_system: "counts system_keys sys \<Longrightarrow> fine_lines [(''host'', h)] (system_lines sys [(''host'', h)])"
  unfolding system_lines_def
  by (intro fine_append fine_family)
    (simp_all add: plain_named_labels plain_times counts_plain [of system_keys] system_keys_def)

lemma fine_interfaces: "list_all (counts interface_keys) ifaces \<Longrightarrow> fine_lines [(''host'', h)] (interface_lines ifaces [(''host'', h)])"
  unfolding interface_lines_def Let_def
  by (intro fine_append fine_family)
    (auto simp: plain_named_labels plain_flag list_all_iff interface_keys_def intro!: counts_plain [of interface_keys])

lemma fine_gateways:
  "list_all measured gws \<Longrightarrow> fine_lines [(''host'', h)] (gateway_lines gws [(''host'', h)])"
  unfolding gateway_lines_def Let_def
  by (intro fine_append fine_family) (auto simp: plain_named_labels plain_flag list_all_iff measured_def quotient_plain)

lemma fine_rest:
  "fine_lines [(''host'', h)] (service_lines svc [(''host'', h)])" "fine_lines [(''host'', h)] (ha_lines ha [(''host'', h)])"
  "list_all (counts [''days_to_expiry'']) certs \<Longrightarrow> fine_lines [(''host'', h)] (cert_lines certs [(''host'', h)])"
  unfolding service_lines_def ha_lines_def cert_lines_def
  by (rule fine_family; auto simp: plain_named_labels plain_flag list_all_iff intro!: plain_times counts_plain [of "[''days_to_expiry'']"])+

lemma fine_vpn: "fine_lines [(''host'', h)] (vpn_lines vpn [(''host'', h)])"
proof -
  have three: "[a, b, c] = [a] @ [b] @ [c]" for a b c :: string by simp
  show ?thesis unfolding vpn_lines_def three
    by (intro fine_append fine_section fine_line) (simp_all add: plain_named_labels count_at_def plain_int)
qed

text \<open>A page that can be read: first whether the firewall is up, then, if it is, samples that all carry its name.\<close>

definition metrics_page :: "string \<Rightarrow> string \<Rightarrow> bool" where
  "metrics_page h t = (\<exists>ss up. read_exposition t = Some ((''opnsense_up'', [(''host'', h)], if up then ''1'' else ''0'') # ss) \<and>
     list_all (\<lambda>(n, labels, v). prefix [(''host'', h)] labels) ss \<and> (\<not> up \<longrightarrow> ss = []))"

lemma up_holds: "holds_samples (up_lines up [(''host'', h)]) [(''opnsense_up'', [(''host'', h)], if up then ''1'' else ''0'')]"
proof -
  have one: "int_str 1 = ''1''" "int_str 0 = ''0''" by (code_simp, code_simp)
  have "holds_samples (metric_section ''opnsense_up'' ''gauge'' ''1 if the OPNsense API responded successfully'') []"
    by (rule holds_section) simp
  moreover have "holds_samples [metric_line ''opnsense_up'' (up_flag up) [(''host'', h)]] [(''opnsense_up'', [(''host'', h)], py_str (up_flag up))]"
    by (rule holds_line) (simp_all add: plain_named_labels plain_flag)
  ultimately show ?thesis
    using holds_append [of "metric_section ''opnsense_up'' ''gauge'' ''1 if the OPNsense API responded successfully''" "[]"]
    by (simp add: up_lines_def up_flag_def one split: if_splits)
qed

lemma down_page: "metrics_page h (exposition (up_lines False [(''host'', h)]))"
proof -
  have "read_exposition (exposition (up_lines False [(''host'', h)])) = Some [(''opnsense_up'', [(''host'', h)], ''0'')]"
    by (rule read_exposition) (use up_holds [of False h] in \<open>simp_all add: up_lines_def\<close>)
  then show ?thesis unfolding metrics_page_def by (intro exI [of _ "[]"] exI [of _ False]) simp
qed

lemma up_page: "fine_lines [(''host'', h)] ls \<Longrightarrow> metrics_page h (exposition (up_lines True [(''host'', h)] @ ls))"
proof -
  assume "fine_lines [(''host'', h)] ls"
  then obtain ss where ss: "holds_samples ls ss" "list_all (\<lambda>(n, labels, v). prefix [(''host'', h)] labels) ss"
    by (auto simp: fine_lines_def)
  have "read_exposition (exposition (up_lines True [(''host'', h)] @ ls)) = Some ((''opnsense_up'', [(''host'', h)], ''1'') # ss)"
    by (rule read_exposition) (use holds_append [OF up_holds [of True h] ss(1)] in \<open>simp_all add: up_lines_def\<close>)
  with ss(2) show ?thesis unfolding metrics_page_def by (intro exI [of _ ss] exI [of _ True]) simp
qed

lemma yields_try_else: "yields m R \<Longrightarrow> (\<And>e. yields (f e) P) \<Longrightarrow> (\<And>x. R x \<Longrightarrow> yields (g x) P) \<Longrightarrow> yields (try_else m p f g) P"
  unfolding yields_def try_else_def by (fastforce split: prod.splits sum.splits if_splits)

lemma render_page: "yields (render_metrics lib c (h_name (c_host c))) (metrics_page (h_name (c_host c)))"
proof -
  let ?h = "h_name (c_host c)"
  have last: "metrics_page ?h (exposition (up_lines True [(''host'', ?h)] @ system_lines sys [(''host'', ?h)] @
      interface_lines (list_at ifaces) [(''host'', ?h)] @ gateway_lines (list_at gws) [(''host'', ?h)] @
      service_lines svc [(''host'', ?h)] @ cert_lines certs [(''host'', ?h)] @ vpn_lines vpn [(''host'', ?h)] @ ha_lines ha [(''host'', ?h)]))"
    if "counts system_keys sys" "list_all (counts interface_keys) (list_at ifaces)" "list_all measured (list_at gws)"
      "list_all (counts [''days_to_expiry'']) certs"
    for sys ifaces gws svc certs vpn ha
    by (rule up_page) (simp add: fine_append fine_system fine_interfaces fine_gateways fine_rest fine_vpn that)
  show ?thesis unfolding render_metrics_def Let_def if_cancel
    by (rule yields_try_else [OF system_counts], simp add: down_page,
        rule yields_bnd [OF interfaces_counts], rule yields_bnd [OF gateways_measured], rule yields_after,
        rule yields_bnd [OF certs_counts], rule yields_after, rule yields_after)
      (unfold yields_ret, rule last)
qed



text \<open>The text of a failure is not always a page: the message of the exception is written as it is, and the error of
  the client quotes the body of the response, newlines included.\<close>

lemma failed_unreadable:
  "read_exposition (failed_text (OPNErr (''GET /x: HTTP 500: <html>'' @ CHR 0x0A # ''<body>'')) demo_host) = None"
  by code_simp

end
