(* ===== verification/Json_Canon.thy ===== *)
theory Json_Canon
  imports Json_Text
begin

text \<open>
  The canonical text of a value, \<^verbatim>\<open>json.dumps(v, sort_keys=True, separators=(",", ":"), ensure_ascii=False)\<close>, is read
  back as the value with its dictionaries sorted, and is as long as the text in the order of the value.
\<close>

lemma canonical_raw: "dumps '','' '':'' v = dumps_raw (canon v)"
proof (induction v)
  case (JArr vs)
  then show ?case by (simp add: comp_def cong: map_cong)
next
  case (JObj d)
  have eq: "map (\<lambda>(k, v). (k, dumps '','' '':'' v)) d = map (\<lambda>(k, v). (k, dumps_raw v)) (map (\<lambda>(k, v). (k, canon v)) d)"
    using JObj by (force simp: snds.simps)
  show ?case unfolding dumps.simps canon.simps dumps_raw.simps eq sort_key_map_snd by (simp add: case_prod_beta comp_def)
qed simp_all

lemma text_canon: "text_json v \<Longrightarrow> text_json (canon v)"
proof (induction v)
  case (JArr vs)
  then show ?case by (auto simp: list_all_iff)
next
  case (JObj d)
  have "map fst (map (\<lambda>(k, v). (k, canon v)) d) = map fst d" by (induction d) auto
  then have "distinct (map fst (sort_key fst (map (\<lambda>(k, v). (k, canon v)) d)))"
    using JObj(2) by (simp add: distinct_map inj_on_def) (metis distinct_map)
  then show ?case using JObj by (force simp: list_all_iff)
qed simp_all

lemma map_of_sorted:
  assumes "distinct (map fst d)"
  shows "map_of (sort_key fst d) = map_of d"
proof -
  have "distinct (map fst (sort_key fst d))"
    using assms by (simp add: distinct_map inj_on_def)
  then show ?thesis using assms by (intro map_of_inject_set [THEN iffD2]) simp_all
qed

lemma length_join: "length (join '','' xs) = sum_list (map (Suc \<circ> length) xs) - 1"
  by (induction xs rule: induct_list012) simp_all

lemma sum_list_sorted: "sum_list (map f (sort_key k xs)) = sum_list (map f xs)" for f :: "'a \<Rightarrow> nat"
  by (metis mset_map mset_sort sum_mset_sum_list)

lemma length_canon: "length (dumps_raw (canon v)) = length (dumps_raw v)"
proof (induction v)
  case (JArr vs)
  then show ?case by (simp add: length_join comp_def cong: map_cong)
next
  case (JObj d)
  have "\<forall>x \<in> set d. length (dumps_raw (canon (snd x))) = length (dumps_raw (snd x))"
    using JObj by (force simp: snds.simps)
  then show ?case
    by (simp add: length_join comp_def case_prod_beta sum_list_sorted cong: map_cong)
qed simp_all

theorem canonical_round_trip: "text_json v \<Longrightarrow> loads (dumps '','' '':'' v) = Parsed (canon v) []"
  unfolding canonical_raw by (rule loads_dumps [OF text_canon])

end
