(* ===== verification/Backups_Props.thy ===== *)
theory Backups_Props
  imports Backups Json_Canon Demo
begin

text \<open>
  What the backup store guarantees: a backup that was created is read back as it was downloaded; every access that
  changes the store or gives a backup away has its audit line; the key of a store in use never changes.
\<close>

section \<open>Steps that touch neither the files nor the log\<close>

text \<open>A key that exists, or that existing backups need, is kept.\<close>

definition key_kept :: "vault \<Rightarrow> vault \<Rightarrow> bool" where
  "key_kept v v' = (va_key v \<noteq> None \<or> va_files v \<noteq> [] \<longrightarrow> va_key v' = va_key v)"

definition quiet_step :: "vault \<Rightarrow> vault \<Rightarrow> bool" where
  "quiet_step v v' = (va_files v' = va_files v \<and> va_log v' = va_log v \<and> key_kept v v')"

lemma quiet_refl: "quiet_step v v"
  by (simp add: quiet_step_def key_kept_def)

lemma quiet_trans: "quiet_step v w \<Longrightarrow> quiet_step w x \<Longrightarrow> quiet_step v x"
  by (auto simp: quiet_step_def key_kept_def)

definition quiet :: "'a act \<Rightarrow> bool" where
  "quiet m = (\<forall>E v r v'. m E v = (r, v') \<longrightarrow> quiet_step v v')"

named_theorems quiet_intros

lemma quiet_basic [quiet_intros]: "quiet (act_ret x)" "quiet (act_raise e)" "quiet (act_res f)" "quiet (ask g)" "quiet get_vault"
  by (auto simp: quiet_def quiet_refl act_ret_def act_raise_def act_res_def ask_def get_vault_def) (simp add: quiet_step_def key_kept_def)

lemma quiet_bnd [quiet_intros]: "quiet m \<Longrightarrow> (\<And>x. quiet (f x)) \<Longrightarrow> quiet (act_bnd m f)"
  unfolding quiet_def act_bnd_def by (auto split: prod.splits sum.splits) (blast intro: quiet_trans)+

lemma quiet_if [quiet_intros]: "quiet m \<Longrightarrow> quiet n \<Longrightarrow> quiet (if c then m else n)"
  by simp

lemma quiet_pinned [quiet_intros]: "quiet pinned"
  unfolding pinned_def by (intro quiet_intros)

lemma quiet_path [quiet_intros]: "quiet (backup_path i)"
  unfolding backup_path_def by (auto intro!: quiet_intros split: json.splits)

lemma act_bndE:
  assumes "act_bnd m f E v = (Inr y, v')"
  obtains x w where "m E v = (Inr x, w)" "f x E w = (Inr y, v')"
  using assms by (auto simp: act_bnd_def split: prod.splits sum.splits)

text \<open>The key file is only made when there is none and there are no backups.\<close>

lemma make_key_quiet: "va_key v = None \<Longrightarrow> make_key E v = (r, v') \<Longrightarrow> quiet_step v v'"
  by (auto simp: make_key_def act_bnd_def get_vault_def act_raise_def act_ret_def ask_def put_key_def quiet_step_def key_kept_def
      split: prod.splits sum.splits if_splits)

lemma quiet_ensure [quiet_intros]: "quiet (ensure_key c)"
  using make_key_quiet
  by (auto simp: quiet_def ensure_key_def act_bnd_def get_vault_def act_ret_def quiet_refl split: if_splits)

lemma quiet_read_key [quiet_intros]: "quiet read_key"
  unfolding read_key_def by (auto intro!: quiet_intros split: option.splits)

lemma quiet_key [quiet_intros]: "quiet (store_key c)"
  unfolding store_key_def by (intro quiet_intros)

lemma quiet_load [quiet_intros]: "quiet (load_backup i)"
  unfolding load_backup_def by (auto intro!: quiet_intros split: option.splits prod.splits)

lemma quiet_load_all [quiet_intros]: "quiet (load_all ss)"
  by (induction ss) (auto intro!: quiet_intros)

lemma quiet_list: "quiet list_backups"
  unfolding list_backups_def by (intro quiet_intros)

section \<open>What the operations change\<close>

text \<open>
  Programs by what they do to the store: \<^verbatim>\<open>acts m R\<close> relates the environment and the store before to the result and
  the store after.
\<close>

definition acts :: "'a act \<Rightarrow> (store_env \<Rightarrow> vault \<Rightarrow> 'a res \<Rightarrow> vault \<Rightarrow> bool) \<Rightarrow> bool" where
  "acts m R = (\<forall>E v r v'. m E v = (r, v') \<longrightarrow> R E v r v')"

text \<open>The log has one more line, of this access.\<close>

definition logged :: "string \<Rightarrow> string \<Rightarrow> string \<Rightarrow> store_env \<Rightarrow> vault \<Rightarrow> vault \<Rightarrow> bool" where
  "logged actor action ident E v v' = (va_log v' = va_log v @ [backup_line (st_now E) actor action ident])"

text \<open>
  The steps of an access: quiet ones, its line, and quiet ones again until the store may change. \<^verbatim>\<open>accounted R\<close> is what
  holds of the stores before and after it: without the line nothing changed and nothing was given.
\<close>

definition accounted :: "string \<Rightarrow> string \<Rightarrow> string \<Rightarrow> (store_env \<Rightarrow> vault \<Rightarrow> 'a res \<Rightarrow> vault \<Rightarrow> bool) \<Rightarrow> store_env \<Rightarrow> vault \<Rightarrow> 'a res \<Rightarrow> vault \<Rightarrow> bool" where
  "accounted actor action ident R E v r v' =
     (key_kept v v' \<and> (quiet_step v v' \<and> (\<exists>e. r = Inl e) \<or> logged actor action ident E v v' \<and> R E v r v'))"

lemma record_runs:
  "record_access actor action ident E v = (r, v') \<Longrightarrow>
   v' = v\<lparr>va_step := Suc (va_step v)\<rparr> \<and> (\<exists>e. r = Inl e) \<or>
   v' = v\<lparr>va_step := Suc (va_step v), va_log := va_log v @ [backup_line (st_now E) actor action ident]\<rparr> \<and> r = Inr ()"
  by (auto simp: record_access_def act_bnd_def ask_def act_raise_def split: if_splits)

lemma quiet_stepD: "quiet m \<Longrightarrow> m E v = (r, v') \<Longrightarrow> quiet_step v v'"
  by (auto simp: quiet_def)

text \<open>A quiet prefix, the line, and the rest of an access.\<close>

lemma access_accounted:
  assumes pre: "quiet m" and path: "\<And>E v x v'. m E v = (Inr x, v') \<Longrightarrow> target x = ident"
    and rest: "\<And>E v w x r v'. quiet_step v w \<Longrightarrow> m E v = (Inr x, w) \<Longrightarrow>
      f x E (w\<lparr>va_step := Suc (va_step w), va_log := va_log w @ [backup_line (st_now E) actor action ident]\<rparr>) = (r, v') \<Longrightarrow>
      key_kept w v' \<and> va_log v' = va_log w @ [backup_line (st_now E) actor action ident] \<and> R E v r v'"
  shows "acts (act_bnd m (\<lambda>x. act_bnd (record_access actor action (target x)) (\<lambda>_. f x))) (accounted actor action ident R)"
  unfolding acts_def
proof (intro allI impI)
  fix E v r v' assume run: "act_bnd m (\<lambda>x. act_bnd (record_access actor action (target x)) (\<lambda>_. f x)) E v = (r, v')"
  obtain r1 w where m: "m E v = (r1, w)" by fastforce
  then have q: "quiet_step v w" by (rule quiet_stepD [OF pre])
  show "accounted actor action ident R E v r v'"
  proof (cases r1)
    case (Inl e)
    with run m q show ?thesis by (auto simp: act_bnd_def accounted_def quiet_step_def)
  next
    case (Inr x)
    have x: "target x = ident" using path m Inr by blast
    obtain r2 w2 where l: "record_access actor action ident E w = (r2, w2)" by fastforce
    from record_runs [OF l] show ?thesis
    proof (elim disjE conjE exE)
      fix e assume "w2 = w\<lparr>va_step := Suc (va_step w)\<rparr>" "r2 = Inl e"
      with run m Inr l x q show ?thesis by (auto simp: act_bnd_def accounted_def quiet_step_def key_kept_def)
    next
      assume w2: "w2 = w\<lparr>va_step := Suc (va_step w), va_log := va_log w @ [backup_line (st_now E) actor action ident]\<rparr>" "r2 = Inr ()"
      with run m Inr l x have "f x E w2 = (r, v')" by (simp add: act_bnd_def)
      from rest [OF q m [unfolded Inr] this [unfolded w2(1)]] q show ?thesis
        by (auto simp: accounted_def logged_def quiet_step_def key_kept_def)
    qed
  qed
qed

section \<open>Reading and deleting\<close>

text \<open>A stored envelope that names the backup, decrypts under the key of the store and matches its own metadata.\<close>

definition authentic :: "store_env \<Rightarrow> vault \<Rightarrow> string \<Rightarrow> obj \<Rightarrow> string \<Rightarrow> bool" where
  "authentic E v stem m payload = (\<exists>content nonce c key. map_of (va_files v) stem = Some content \<and>
     parse_envelope stem content = Some (m, nonce, c) \<and> va_key v = Some key \<and>
     st_decrypt E key nonce c (canonical_json (JObj m)) = Some payload \<and> payload_matches m payload \<and> xml_ok E payload)"

definition ident_text :: "json \<Rightarrow> string" where
  "ident_text i = (case i of JStr s \<Rightarrow> s | _ \<Rightarrow> [])"

lemma path_text: "backup_path i E v = (Inr x, v') \<Longrightarrow> i = JStr x"
  by (auto simp: backup_path_def act_raise_def act_ret_def act_res_def elim!: act_bndE split: json.splits if_splits)

lemma path_target: "backup_path i E v = (Inr x, v') \<Longrightarrow> x = ident_text i"
  using path_text by (fastforce simp: ident_text_def)

lemma read_key_value: "read_key E v = (Inr k, v') \<Longrightarrow> va_key v = Some k"
  by (auto simp: read_key_def get_vault_def act_raise_def act_ret_def ask_def elim!: act_bndE split: option.splits if_splits)

lemma store_key_value: "store_key False E v = (Inr k, v') \<Longrightarrow> va_key v = Some k"
proof -
  assume "store_key False E v = (Inr k, v')"
  then obtain w where w: "pinned E v = (Inr (), w)" "read_key E w = (Inr k, v')"
    by (auto simp: store_key_def ensure_key_def get_vault_def act_res_def act_raise_def act_ret_def elim!: act_bndE split: if_splits)
  from w(1) have "va_key w = va_key v"
    by (auto simp: pinned_def ask_def act_ret_def act_raise_def elim!: act_bndE split: if_splits)
  with read_key_value [OF w(2)] show ?thesis by simp
qed

lemma load_authentic: "load_backup i E v = (Inr (m, p), v') \<Longrightarrow> authentic E v (ident_text i) m p"
proof -
  assume "load_backup i E v = (Inr (m, p), v')"
  then obtain stem w content nonce c key y z where l: "backup_path i E v = (Inr stem, w)" "map_of (va_files w) stem = Some content"
      "parse_envelope stem content = Some (m, nonce, c)" "store_key False E y = (Inr key, z)"
      "st_decrypt E key nonce c (canonical_json (JObj m)) = Some p" "payload_matches m p" "xml_ok E p" "va_key y = va_key w"
    unfolding load_backup_def
    by (auto simp: get_vault_def act_raise_def act_res_def ask_def elim!: act_bndE split: option.splits if_splits prod.splits)
  have "quiet_step v w" using l(1) quiet_path quiet_stepD by blast
  then have "va_files w = va_files v" "va_files v \<noteq> [] \<Longrightarrow> va_key w = va_key v" by (auto simp: quiet_step_def key_kept_def)
  moreover from this l(2) have "va_files v \<noteq> []" by auto
  ultimately have "va_files w = va_files v" "va_key v = Some key" using store_key_value [OF l(4)] l(8) by auto
  with l path_target [OF l(1)] show ?thesis unfolding authentic_def by auto
qed

lemma authentic_later: "va_files w = va_files v \<Longrightarrow> key_kept v w \<Longrightarrow> authentic E w s m p \<Longrightarrow> authentic E v s m p"
  by (force simp: authentic_def key_kept_def)

lemma read_accounted: "acts (read_backup actor i) (accounted actor ''download'' (ident_text i)
  (\<lambda>E v r v'. va_files v' = va_files v \<and> (\<forall>p. r = Inr p \<longrightarrow> (\<exists>m. authentic E v (ident_text i) m p))))"
  unfolding read_backup_def
proof (rule access_accounted [where target = "\<lambda>x. x", OF quiet_path])
  show "backup_path i E v = (Inr x, v') \<Longrightarrow> x = ident_text i" for E v x v' by (rule path_target)
  fix E :: store_env and v x r v' and w :: vault
  let ?w = "w\<lparr>va_step := Suc (va_step w), va_log := va_log w @ [backup_line (st_now E) actor ''download'' (ident_text i)]\<rparr>"
  assume q: "quiet_step v w" and run: "act_bnd (load_backup i) (\<lambda>(m, payload). act_ret payload) E ?w = (r, v')"
  have "quiet (act_bnd (load_backup i) (\<lambda>(m, payload). act_ret payload))" by (auto intro!: quiet_intros)
  from quiet_stepD [OF this run] have q': "quiet_step ?w v'" .
  have "\<exists>m. authentic E v (ident_text i) m p" if "r = Inr p" for p
  proof -
    from run that obtain m u where "load_backup i E ?w = (Inr (m, p), u)" by (auto simp: act_ret_def elim!: act_bndE)
    from authentic_later [OF _ _ load_authentic [OF this]] q have "authentic E v (ident_text i) m p"
      by (auto simp: quiet_step_def key_kept_def)
    then show ?thesis ..
  qed
  moreover have "key_kept w v'" "va_log v' = va_log w @ [backup_line (st_now E) actor ''download'' (ident_text i)]" "va_files v' = va_files v"
    using q q' by (auto simp: quiet_step_def key_kept_def)
  ultimately show "key_kept w v' \<and> va_log v' = va_log w @ [backup_line (st_now E) actor ''download'' (ident_text i)] \<and>
      va_files v' = va_files v \<and> (\<forall>p. r = Inr p \<longrightarrow> (\<exists>m. authentic E v (ident_text i) m p))"
    by (intro conjI allI impI)
qed

lemma delete_accounted: "acts (delete_backup actor i) (accounted actor ''delete'' (ident_text i)
  (\<lambda>E v r v'. va_files v' = (case r of Inl _ \<Rightarrow> va_files v | Inr _ \<Rightarrow> AList.delete (ident_text i) (va_files v)) \<and>
     (\<forall>x. r = Inr x \<longrightarrow> (\<exists>m p. authentic E v (ident_text i) m p))))"
  unfolding delete_backup_def
proof (rule access_accounted [where target = "\<lambda>x. x", OF quiet_path])
  show "backup_path i E v = (Inr x, v') \<Longrightarrow> x = ident_text i" for E v x v' by (rule path_target)
  fix E :: store_env and v x r v' and w :: vault
  let ?w = "w\<lparr>va_step := Suc (va_step w), va_log := va_log w @ [backup_line (st_now E) actor ''delete'' (ident_text i)]\<rparr>"
  let ?drop = "\<lambda>f. if f then act_raise store_failed
     else act_bnd (drop_file x) (\<lambda>_. act_ret [(''id'', JStr x), (''deleted'', JBool True)])"
  let ?load = "act_bnd (load_backup i) (\<lambda>_. act_bnd pinned (\<lambda>_. ask st_fault))"
  assume q: "quiet_step v w" and path: "backup_path i E v = (Inr x, w)"
    and run: "act_bnd (load_backup i) (\<lambda>_. act_bnd pinned (\<lambda>_. act_bnd (ask st_fault) ?drop)) E ?w = (r, v')"
  have x: "x = ident_text i" by (rule path_target [OF path])
  obtain r1 u where l: "?load E ?w = (r1, u)" by fastforce
  have "quiet ?load" by (intro quiet_intros)
  from quiet_stepD [OF this l] have q': "quiet_step ?w u" .
  show "key_kept w v' \<and> va_log v' = va_log w @ [backup_line (st_now E) actor ''delete'' (ident_text i)] \<and>
      va_files v' = (case r of Inl _ \<Rightarrow> va_files v | Inr _ \<Rightarrow> AList.delete (ident_text i) (va_files v)) \<and>
      (\<forall>x. r = Inr x \<longrightarrow> (\<exists>m p. authentic E v (ident_text i) m p))"
  proof (cases r1)
    case (Inl e)
    then have "r = Inl e" "v' = u" using l run by (auto simp: act_bnd_def split: prod.splits sum.splits)
    with q q' show ?thesis by (auto simp: quiet_step_def key_kept_def)
  next
    case (Inr f)
    then have run': "?drop f E u = (r, v')" using l run by (auto simp: act_bnd_def split: prod.splits sum.splits)
    from l Inr obtain m p y where "load_backup i E ?w = (Inr (m, p), y)" by (auto elim!: act_bndE)
    from authentic_later [OF _ _ load_authentic [OF this]] q have "authentic E v (ident_text i) m p"
      by (auto simp: quiet_step_def key_kept_def)
    moreover have "key_kept w v'" "va_log v' = va_log w @ [backup_line (st_now E) actor ''delete'' (ident_text i)]"
        "va_files v' = (case r of Inl _ \<Rightarrow> va_files v | Inr _ \<Rightarrow> AList.delete (ident_text i) (va_files v))"
      using run' x q q' by (auto simp: quiet_step_def key_kept_def act_raise_def act_ret_def act_bnd_def drop_file_def split: if_splits)
    ultimately show ?thesis by blast
  qed
qed

section \<open>Creating\<close>

lemma quiet_seal: "quiet (seal_backup h p)"
  unfolding seal_backup_def by (intro quiet_intros)

lemma seal_value: "seal_backup h p E v = (Inr (stem, m, content), v') \<Longrightarrow> stem = st_uuid E \<and> m = metadata_of E h p"
  by (auto simp: seal_backup_def act_res_def act_ret_def dest: path_text elim!: act_bndE)

lemma write_runs: "write_backup stem content E v = (r, v') \<Longrightarrow>
  va_key v' = va_key v \<and> va_log v' = va_log v \<and>
  (va_files v' = va_files v \<and> (\<exists>e. r = Inl e) \<or> va_files v' = AList.update stem content (va_files v))"
  by (auto simp: write_backup_def act_bnd_def ask_def pinned_def put_file_def act_raise_def act_ret_def
      split: prod.splits sum.splits if_splits)

definition created :: "host \<Rightarrow> store_env \<Rightarrow> vault \<Rightarrow> obj res \<Rightarrow> vault \<Rightarrow> bool" where
  "created h E v r v' = (va_files v' = va_files v \<and> (\<exists>e. r = Inl e) \<or>
     (\<exists>content p. va_files v' = AList.update (st_uuid E) content (va_files v) \<and> backup_download E h = Inr p \<and>
       (\<forall>m. r = Inr m \<longrightarrow> m = metadata_of E h p)))"

lemma create_accounted: "acts (create_backup actor h) (accounted actor ''create'' [] (created h))"
  unfolding create_backup_def
proof (rule access_accounted [where target = "\<lambda>_. []", OF quiet_pinned refl])
  fix E :: store_env and v x r v' and w :: vault
  let ?w = "w\<lparr>va_step := Suc (va_step w), va_log := va_log w @ [backup_line (st_now E) actor ''create'' []]\<rparr>"
  assume q: "quiet_step v w" and run: "act_bnd (act_res (\<lambda>E. backup_download E h)) (\<lambda>payload.
     act_bnd (seal_backup h payload) (\<lambda>(stem, metadata, content).
     act_bnd (write_backup stem content) (\<lambda>_. act_ret metadata))) E ?w = (r, v')"
  show "key_kept w v' \<and> va_log v' = va_log w @ [backup_line (st_now E) actor ''create'' []] \<and> created h E v r v'"
  proof (cases "backup_download E h")
    case (Inl e)
    with run have "r = Inl e" "v' = ?w" by (auto simp: act_bnd_def act_res_def)
    with q show ?thesis by (auto simp: created_def quiet_step_def key_kept_def)
  next
    case (Inr p)
    obtain r1 u where l: "seal_backup h p E ?w = (r1, u)" by fastforce
    from quiet_stepD [OF quiet_seal l] have q': "quiet_step ?w u" .
    show ?thesis
    proof (cases r1)
      case (Inl e)
      with run l \<open>backup_download E h = Inr p\<close> have "r = Inl e" "v' = u" by (auto simp: act_bnd_def act_res_def)
      with q q' show ?thesis by (auto simp: created_def quiet_step_def key_kept_def)
    next
      case (Inr y)
      obtain stem m content where y: "y = (stem, m, content)" by (cases y)
      with seal_value l Inr have stem: "stem = st_uuid E" "m = metadata_of E h p" by blast+
      obtain r2 z where z: "write_backup stem content E u = (r2, z)" by fastforce
      have "v' = z" "r = (case r2 of Inl e \<Rightarrow> Inl e | Inr _ \<Rightarrow> Inr m)"
        using run l Inr y z \<open>backup_download E h = Inr p\<close> by (auto simp: act_bnd_def act_res_def act_ret_def split: sum.splits)
      with write_runs [OF z] q q' stem \<open>backup_download E h = Inr p\<close> show ?thesis
        unfolding created_def by (cases r2) (auto simp: quiet_step_def key_kept_def)
    qed
  qed
qed


section \<open>The round trip\<close>

definition sorted_meta :: "obj \<Rightarrow> obj" where
  "sorted_meta m = sort_key fst (map (\<lambda>(k, v). (k, canon v)) m)"

lemma map_of_canon: "distinct (map fst d) \<Longrightarrow> map_of (sort_key fst (map (\<lambda>(k, v). (k, canon v)) d)) = map_option canon \<circ> map_of d"
proof -
  assume "distinct (map fst d)"
  then have "distinct (map fst (map (\<lambda>(k, v). (k, canon v)) d))" by (simp add: case_prod_beta comp_def)
  then have "map_of (sort_key fst (map (\<lambda>(k, v). (k, canon v)) d)) = map_of (map (\<lambda>(k, v). (k, canon v)) d)"
    by (rule map_of_sorted)
  then show ?thesis by (simp add: map_of_map)
qed

lemma sorted_meta_canonical: "canonical_json (JObj (sorted_meta m)) = canonical_json (JObj m)"
  using dumps_canon [of "'',''" "'':''" "JObj m"] by (simp add: canonical_json_def sorted_meta_def)

lemma text_metadata: "text_json (JObj (metadata_of E h p)) = short_number (int (length p))"
  by (simp add: metadata_of_def)

lemma text_envelope: "text_json (JObj m) \<Longrightarrow> text_json (envelope_of m n c)"
proof -
  have "short_number 1" by code_simp
  then show "text_json (JObj m) \<Longrightarrow> text_json (envelope_of m n c)" by (simp add: envelope_of_def)
qed

lemma parse_sealed:
  assumes "text_json (JObj m)" "map_of m ''id'' = Some (JStr s)" "length n = 12" "length (canonical_json (envelope_of m n c)) \<le> max_envelope"
  shows "parse_envelope s (canonical_json (envelope_of m n c)) = Some (sorted_meta m, n, c)"
proof -
  let ?d = "[(''version'', JInt 1), (''metadata'', JObj m), (''nonce'', JStr (b64_encode n)), (''ciphertext'', JStr (b64_encode c))]"
  have l: "loads (canonical_json (envelope_of m n c)) = Parsed (JObj (sort_key fst (map (\<lambda>(k, v). (k, canon v)) ?d))) []"
    using canonical_round_trip [OF text_envelope [OF assms(1)], of n c]
    by (simp add: canonical_json_def envelope_of_def)
  have d: "map_of (sort_key fst (map (\<lambda>(k, v). (k, canon v)) ?d)) = map_option canon \<circ> map_of ?d"
    by (rule map_of_canon) simp
  have m: "map_of (sorted_meta m) ''id'' = Some (JStr s)"
    using map_of_canon [of m] assms(1,2) by (simp add: sorted_meta_def)
  have one: "py_eq (JInt 1) (JInt 1)" by code_simp
  show ?thesis
    using assms(3,4) m one unfolding parse_envelope_def l parsed.case json.case d
    by (simp add: sorted_meta_def b64_round_trip)
qed

lemma payload_sealed:
  assumes "short_number (int (length p))"
  shows "payload_matches (sorted_meta (metadata_of E h p)) p"
proof -
  have "map_of (sorted_meta (metadata_of E h p)) = map_option canon \<circ> map_of (metadata_of E h p)"
    unfolding sorted_meta_def by (rule map_of_canon) (simp add: metadata_of_def)
  moreover have "py_eq (JInt k) (JInt k)" for k by (simp add: num_val_def)
  ultimately show ?thesis by (simp add: payload_matches_def metadata_of_def)
qed

lemma store_key_made: "store_key True E v = (Inr k, v') \<Longrightarrow> va_key v' = Some k \<and> length k = 32"
proof -
  assume "store_key True E v = (Inr k, v')"
  then obtain w where "read_key E w = (Inr k, v')"
    by (auto simp: store_key_def act_res_def act_raise_def elim!: act_bndE split: if_splits)
  then show ?thesis
    by (auto simp: read_key_def get_vault_def act_raise_def act_ret_def ask_def elim!: act_bndE split: option.splits if_splits)
qed

lemma path_keeps: "backup_path i E v = (r, v') \<Longrightarrow> va_key v' = va_key v"
  by (auto simp: backup_path_def pinned_def act_bnd_def ask_def act_raise_def act_ret_def act_res_def
      split: json.splits if_splits prod.splits sum.splits)

text \<open>What a creation that succeeds has stored.\<close>

definition sealed :: "store_env \<Rightarrow> host \<Rightarrow> vault \<Rightarrow> string \<Rightarrow> string \<Rightarrow> string \<Rightarrow> bool" where
  "sealed E h v key nonce p = (canonical_uuid (st_uuid E) \<and> va_key v = Some key \<and> length key = 32 \<and>
     (\<exists>i. nonce = st_random E i 12) \<and> map_of (va_files v) (st_uuid E) = Some (canonical_json (envelope_of (metadata_of E h p) nonce
       (st_encrypt E key nonce p (canonical_json (JObj (metadata_of E h p)))))))"

lemma create_sealed:
  assumes "create_backup actor h E v = (Inr m, v1)"
  shows "\<exists>key nonce p. backup_download E h = Inr p \<and> m = metadata_of E h p \<and> sealed E h v1 key nonce p"
proof -
  from assms obtain p w stem content u where p: "backup_download E h = Inr p" and seal: "seal_backup h p E w = (Inr (stem, m, content), u)"
      and wr: "write_backup stem content E u = (Inr (), v1)"
    by (auto simp: create_backup_def act_res_def act_ret_def elim!: act_bndE)
  from seal obtain key x y i z where s: "store_key True E x = (Inr key, y)" "m = metadata_of E h p"
      "backup_path (JStr (st_uuid E)) E z = (Inr stem, u)" "va_key z = va_key y"
      "content = canonical_json (envelope_of m (st_random E i 12) (st_encrypt E key (st_random E i 12) p (canonical_json (JObj m))))"
    by (fastforce simp: seal_backup_def act_res_def act_ret_def ask_def elim!: act_bndE)
  have stem: "stem = st_uuid E" "canonical_uuid (st_uuid E)"
    using s(3) path_text [OF s(3)] by (auto simp: backup_path_def act_raise_def split: if_splits)
  have "va_key v1 = Some key" "length key = 32"
    using store_key_made [OF s(1)] s(4) path_keeps [OF s(3)] write_runs [OF wr] by auto
  moreover have "va_files v1 = AList.update stem content (va_files u)" using write_runs [OF wr] by auto
  ultimately have "sealed E h v1 key (st_random E i 12) p"
    unfolding sealed_def using stem s(2,5) by (auto simp: update_conv')
  with p s(2) show ?thesis by blast
qed

section \<open>The envelope is never too long\<close>

lemma esc_length: "length (esc_json c) \<le> 6"
  by (simp add: esc_json_def hex2_def Let_def)

lemma quote_length: "length (quote_json s) \<le> 6 * length s + 2"
proof -
  have "length (concat (map esc_json s)) \<le> 6 * length s"
    by (induction s) (use esc_length in \<open>auto intro: add_mono\<close>)
  then show ?thesis by (simp add: quote_json_def)
qed

lemma b64_plain: "list_all (\<lambda>c. esc_json c = [c]) (CHR ''='' # b64_alphabet)"
  by code_simp

lemma b64_chars: "c \<in> set (b64_encode s) \<Longrightarrow> c \<in> set (CHR ''='' # b64_alphabet)"
proof -
  have "n < 64 \<Longrightarrow> b64_char n \<in> set b64_alphabet" for n
    using nth_mem [of n b64_alphabet] by (simp add: b64_char_def b64_alphabet_def)
  then show "c \<in> set (b64_encode s) \<Longrightarrow> c \<in> set (CHR ''='' # b64_alphabet)"
    by (induction s rule: b64_encode.induct) (auto simp: six_bits)
qed

lemma b64_quote_length: "length (quote_json (b64_encode s)) = 4 * ((length s + 2) div 3) + 2"
proof -
  have "concat (map esc_json xs) = xs" if "\<forall>c \<in> set xs. esc_json c = [c]" for xs
    using that by (induction xs) simp_all
  moreover have "\<forall>c \<in> set (b64_encode s). esc_json c = [c]"
    using b64_plain b64_chars [of _ s] unfolding list_all_iff by blast
  ultimately show ?thesis by (simp add: quote_json_def b64_length)
qed

lemma dec_str_bound: "0 \<le> n \<Longrightarrow> n < 10 ^ Suc k \<Longrightarrow> length (dec_str n) \<le> Suc k"
proof (induction k arbitrary: n)
  case 0
  then show ?case by (simp add: dec_str.simps [of n])
next
  case (Suc k)
  show ?case
  proof (cases "n < 10")
    case True
    then show ?thesis by (simp add: dec_str.simps [of n])
  next
    case False
    have "n div 10 < 10 ^ Suc k" using Suc(2,3) by (simp add: div_less_iff_less_mult mult.commute)
    with Suc(1) [of "n div 10"] Suc(2) have "length (dec_str (n div 10)) \<le> Suc k" by simp
    with False show ?thesis by (simp add: dec_str.simps [of n])
  qed
qed

lemma size_length: "n \<le> max_xml \<Longrightarrow> length (int_str (int n)) \<le> 8" "n \<le> max_xml \<Longrightarrow> short_number (int n)"
  using dec_str_bound [of "int n" 7] by (simp_all add: max_xml_def int_str_def short_number_def)

lemma concat_chars: "concat (py_chars s) = s"
  by (induction s rule: py_chars.induct) (simp_all add: takeWhile_dropWhile_id)

lemma length_filter_concat: "length (concat (filter P xs)) \<le> length (concat xs)"
  by (induction xs) auto

lemma length_py_take: "length (py_take n s) \<le> length s"
  by (induction n s rule: py_take.induct) (auto split: nat.splits)

lemma host_name_shown_length: "length (host_name_shown E s) \<le> length s"
  unfolding host_name_shown_def by (rule le_trans [OF length_py_take le_trans [OF length_filter_concat]]) (simp add: concat_chars)

lemma uuid_length: "canonical_uuid s \<Longrightarrow> length s = 36"
proof -
  assume u: "canonical_uuid s"
  then have "length (split_on (CHR ''-'') s) = length [8, 4, 4, 4, 12 :: nat]"
    unfolding canonical_uuid_def by (metis length_map)
  then obtain a b c d e where p: "split_on (CHR ''-'') s = [a, b, c, d, e]"
    by (auto simp: length_Suc_conv)
  with u have "length a = 8" "length b = 4" "length c = 4" "length d = 4" "length e = 12" by (simp_all add: canonical_uuid_def)
  moreover have "length s = length (join ''-'' [a, b, c, d, e])" using join_split_on [of "CHR ''-''" s] p by simp
  ultimately show ?thesis by simp
qed

lemma metadata_length:
  assumes "canonical_uuid (st_uuid E)" "length (st_iso E) \<le> 64" "length (h_name h) \<le> 65536" "length p \<le> max_xml"
  shows "length (dumps_raw (JObj (metadata_of E h p))) \<le> 400000"
proof -
  have "length (quote_json (st_uuid E)) \<le> 218" using quote_length [of "st_uuid E"] uuid_length [OF assms(1)] by simp
  moreover have "length (quote_json (st_iso E)) \<le> 386" using quote_length [of "st_iso E"] assms(2) by simp
  moreover have "length (quote_json (host_name_shown E (h_name h))) \<le> 393218"
    using quote_length [of "host_name_shown E (h_name h)"] host_name_shown_length [of E "h_name h"] assms(3) by linarith
  moreover have "length (quote_json (sha256_hex p)) \<le> 386" using quote_length [of "sha256_hex p"] by simp
  moreover have "length (int_str (int (length p))) \<le> 8" by (rule size_length(1) [OF assms(4)])
  moreover have "list_all (\<lambda>s. length (quote_json s) \<le> 30) [''id'', ''date'', ''host'', ''sha256'', ''size'', ''source'', ''format'',
      ''latest_historical_backup'', ''opnsense-xml'']" by code_simp
  ultimately show ?thesis by (simp add: metadata_of_def)
qed

lemma envelope_length:
  assumes "length (dumps_raw (JObj m)) \<le> 400000" "length n = 12" "length c \<le> max_xml + 16"
  shows "length (canonical_json (envelope_of m n c)) \<le> max_envelope"
proof -
  have "length (canonical_json (envelope_of m n c)) = length (dumps_raw (envelope_of m n c))"
    by (simp add: canonical_json_def canonical_raw length_canon)
  moreover have "length (quote_json (b64_encode n)) = 18" by (simp add: b64_quote_length assms(2))
  moreover have "length (quote_json (b64_encode c)) \<le> 22369646"
    using assms(3) unfolding b64_quote_length by (simp add: max_xml_def)
  moreover have "length (quote_json ''version'') = 9" "length (quote_json ''metadata'') = 10" "length (quote_json ''nonce'') = 7"
      "length (quote_json ''ciphertext'') = 12" "length (int_str 1) = 1" by (code_simp, code_simp, code_simp, code_simp, code_simp)
  ultimately show ?thesis using assms(1) by (simp add: envelope_of_def max_envelope_def)
qed

section \<open>What is created is read\<close>

text \<open>What the code relies on of the cryptography package and the random generator.\<close>

definition sound_crypto :: "store_env \<Rightarrow> bool" where
  "sound_crypto E = ((\<forall>k n p a. st_decrypt E k n (st_encrypt E k n p a) a = Some p) \<and>
     (\<forall>k n p a. length (st_encrypt E k n p a) = length p + 16) \<and> (\<forall>i n. length (st_random E i n) = n))"

text \<open>A later moment: the same packages, and no failure of the file system or the log, no link in the way.\<close>

definition undisturbed :: "store_env \<Rightarrow> store_env \<Rightarrow> string \<Rightarrow> bool" where
  "undisturbed E E' s = (st_decrypt E' = st_decrypt E \<and> st_xml E' = st_xml E \<and> (\<forall>i. st_pinned E' i) \<and> (\<forall>i. \<not> st_fault E' i) \<and>
     (\<forall>i. \<not> st_log_fault E' i) \<and> \<not> st_key_link E' \<and> \<not> st_file_link E' s)"

lemma load_runs:
  assumes "undisturbed E E' s" "canonical_uuid s" "map_of (va_files v) s = Some content" "va_key v = Some key" "length key = 32"
    "parse_envelope s content = Some (m, n, c)" "st_decrypt E' key n c (canonical_json (JObj m)) = Some p"
    "payload_matches m p" "xml_ok E' p"
  shows "\<exists>v'. load_backup (JStr s) E' v = (Inr (m, p), v')"
  using assms
  by (simp add: load_backup_def backup_path_def pinned_def store_key_def ensure_key_def read_key_def act_bnd_def act_res_def
      act_ret_def ask_def get_vault_def undisturbed_def)

lemma read_runs:
  assumes "undisturbed E E' s" "canonical_uuid s" "\<And>v. va_files v = va_files w \<Longrightarrow> va_key v = va_key w \<Longrightarrow> \<exists>v'. load_backup (JStr s) E' v = (Inr (m, p), v')"
  shows "\<exists>w'. read_backup actor (JStr s) E' w = (Inr p, w')"
proof -
  let ?w = "w\<lparr>va_step := Suc (Suc (va_step w)), va_log := va_log w @ [backup_line (st_now E') actor ''download'' s]\<rparr>"
  obtain v' where "load_backup (JStr s) E' ?w = (Inr (m, p), v')" using assms(3) [of ?w] by auto
  with assms(1,2) show ?thesis
    by (simp add: read_backup_def backup_path_def pinned_def record_access_def act_bnd_def act_res_def act_ret_def ask_def undisturbed_def)
qed

text \<open>C19: a backup that was created is read back, byte for byte as it was downloaded, from any later state of the store
  that still has its file and its key, under the identifier the creation returned.\<close>

theorem backup_roundtrip:
  assumes "create_backup actor h E v = (Inr m, v1)" and "sound_crypto E"
    and "length (h_name h) \<le> 65536" and "length (st_iso E) \<le> 64"
    and "map_of (va_files w) (st_uuid E) = map_of (va_files v1) (st_uuid E)" and "va_key w = va_key v1"
    and "undisturbed E E' (st_uuid E)"
  shows "map_of m ''id'' = Some (JStr (st_uuid E)) \<and>
    (\<exists>p w'. backup_download E h = Inr p \<and> read_backup actor' (JStr (st_uuid E)) E' w = (Inr p, w'))"
proof -
  obtain key nonce p where p: "backup_download E h = Inr p" "m = metadata_of E h p" "sealed E h v1 key nonce p"
    using create_sealed [OF assms(1)] by blast
  let ?c = "st_encrypt E key nonce p (canonical_json (JObj m))"
  have s: "canonical_uuid (st_uuid E)" "va_key w = Some key" "length key = 32" "length nonce = 12"
      "map_of (va_files w) (st_uuid E) = Some (canonical_json (envelope_of m nonce ?c))"
    using p(2,3) assms(2,5,6) by (auto simp: sealed_def sound_crypto_def)
  have xml: "xml_ok E p" using p(1) by (auto simp: backup_download_def rbnd_def split: sum.splits download.splits if_splits stream_end.splits)
  then have size: "length p \<le> max_xml" "short_number (int (length p))" using size_length(2) by (simp_all add: xml_ok_def)
  have id: "map_of m ''id'' = Some (JStr (st_uuid E))" by (simp add: p(2) metadata_of_def)
  have tm: "text_json (JObj m)" unfolding p(2) text_metadata by (rule size(2))
  have "length (canonical_json (envelope_of m nonce ?c)) \<le> max_envelope"
    unfolding p(2) using metadata_length [OF s(1) assms(4,3) size(1)] s(4) assms(2) size(1)
    by (intro envelope_length) (simp_all add: sound_crypto_def)
  then have parse: "parse_envelope (st_uuid E) (canonical_json (envelope_of m nonce ?c)) = Some (sorted_meta m, nonce, ?c)"
    by (intro parse_sealed [OF tm id s(4)])
  have dec: "st_decrypt E' key nonce ?c (canonical_json (JObj (sorted_meta m))) = Some p" "xml_ok E' p"
    using assms(2,7) xml by (simp_all add: sorted_meta_canonical sound_crypto_def undisturbed_def xml_ok_def)
  have "\<exists>v'. load_backup (JStr (st_uuid E)) E' v = (Inr (sorted_meta m, p), v')" if "va_files v = va_files w" "va_key v = va_key w" for v
    by (rule load_runs [OF assms(7) s(1) _ _ s(3) parse dec(1) _ dec(2)])
      (use that s(2,5) payload_sealed [OF size(2)] p(2) in simp_all)
  from read_runs [OF assms(7) s(1) this, where actor = actor'] p(1) id show ?thesis by blast
qed

section \<open>A concrete store\<close>

definition demo_store :: store_env where
  "demo_store = \<lparr>st_root_link = False, st_pinned = (\<lambda>i. True), st_fault = (\<lambda>i. False), st_log_fault = (\<lambda>i. False),
     st_key_link = False, st_file_link = (\<lambda>s. False), st_now = ''2026'', st_iso = ''2026-01-01'', st_uuid = demo_uuid,
     st_random = (\<lambda>i n. replicate n (CHR ''x'')), st_download = (\<lambda>h. Streamed 200 None [''<opnsense'', ''/>''] Complete),
     st_xml = (\<lambda>p. p = ''<opnsense/>''), st_word = (\<lambda>ch. False), st_encrypt = (\<lambda>k n p a. p @ replicate 16 (CHR ''y'')),
     st_decrypt = (\<lambda>k n c a. Some (take (length c - 16) c))\<rparr>"

definition new_vault :: vault where
  "new_vault = \<lparr>va_files = [], va_key = None, va_log = [], va_step = 0\<rparr>"

lemma demo_store_simps [simp]:
  "st_pinned demo_store i" "\<not> st_fault demo_store i" "\<not> st_log_fault demo_store i" "\<not> st_key_link demo_store"
  "\<not> st_file_link demo_store s" "st_uuid demo_store = demo_uuid" "length (st_random demo_store i n) = n" "st_now demo_store = ''2026''"
  "st_iso demo_store = ''2026-01-01''" "st_download demo_store h = Streamed 200 None [''<opnsense'', ''/>''] Complete"
  "st_xml demo_store ''<opnsense/>''"
  by (simp_all add: demo_store_def)

lemma demo_download: "backup_download demo_store demo_host = Inr ''<opnsense/>''"
proof -
  have "check_address (h_url demo_host) = Inr ()" "declared_ok None = Inr ()" "\<not> too_long 0 [''<opnsense'', ''/>'']"
    by (code_simp, simp add: declared_ok_def, simp add: max_xml_def)
  then show ?thesis by (simp add: backup_download_def xml_ok_def max_xml_def)
qed

lemma new_vault_simps [simp]: "va_files new_vault = []" "va_key new_vault = None" "va_log new_vault = []"
  by (simp_all add: new_vault_def)

lemma demo_seal: "va_files v = [] \<Longrightarrow> va_key v = None \<Longrightarrow> \<exists>content w. seal_backup h p demo_store v = (Inr (demo_uuid, metadata_of demo_store h p, content), w)"
proof -
  assume v: "va_files v = []" "va_key v = None"
  have "canonical_uuid demo_uuid" by code_simp
  with v show ?thesis
    by (simp add: seal_backup_def backup_path_def pinned_def store_key_def ensure_key_def make_key_def read_key_def put_key_def
        get_vault_def act_bnd_def act_res_def act_ret_def ask_def)
qed

lemma demo_create_runs: "\<exists>m v1. create_backup ''op'' demo_host demo_store new_vault = (Inr m, v1)"
proof -
  let ?v = "new_vault\<lparr>va_step := Suc (Suc (va_step new_vault)), va_log := [backup_line ''2026'' ''op'' ''create'' []]\<rparr>"
  obtain content w where "seal_backup demo_host ''<opnsense/>'' demo_store ?v =
      (Inr (demo_uuid, metadata_of demo_store demo_host ''<opnsense/>'', content), w)"
    using demo_seal [of ?v demo_host "''<opnsense/>''"] by auto
  then show ?thesis
    by (simp add: create_backup_def demo_download write_backup_def pinned_def record_access_def put_file_def act_bnd_def act_res_def
        act_ret_def ask_def)
qed

lemma demo_sound: "sound_crypto demo_store" "undisturbed demo_store demo_store demo_uuid"
  by (simp_all add: sound_crypto_def undisturbed_def) (simp_all add: demo_store_def)

theorem backup_roundtrip_witness:
  "\<exists>m v1 w. create_backup ''op'' demo_host demo_store new_vault = (Inr m, v1) \<and> map_of m ''id'' = Some (JStr demo_uuid) \<and>
     read_backup ''op'' (JStr demo_uuid) demo_store v1 = (Inr ''<opnsense/>'', w)"
proof -
  obtain m v1 where c: "create_backup ''op'' demo_host demo_store new_vault = (Inr m, v1)" using demo_create_runs by blast
  have u: "st_uuid demo_store = demo_uuid" by (simp add: demo_store_def)
  have "length (h_name demo_host) \<le> 65536" "length (st_iso demo_store) \<le> 64" by (simp_all add: demo_host_def demo_store_def)
  from backup_roundtrip [OF c demo_sound(1) this refl refl, unfolded u, OF demo_sound(2), of "''op''"] c demo_download
  show ?thesis by auto
qed


end
