(* ===== verification/Locks.thy ===== *)
theory Locks
  imports Execute Engine_Mutate Crl
begin

text \<open>
  The locks of the writers: \<^verbatim>\<open>ManagementService.mutate\<close> of \<^verbatim>\<open>src/management/engine.py\<close>, \<^verbatim>\<open>VerifiedFirewallWriter.execute\<close>
  of \<^verbatim>\<open>src/writers/verified.py\<close> and \<^verbatim>\<open>CrlService.mutate\<close> of \<^verbatim>\<open>src/management/crl.py\<close> run their whole section, from the
  read of the object to the last line of the log, under a lock of this process. The first two look their lock up in
  a dictionary, under a guard; the third has one lock. Threads are numbered, each carries out one job, and what the
  threads do is interleaved step by step.
\<close>

section \<open>Jobs\<close>

datatype table = Engine_Locks | Writer_Locks

datatype job =
    Managed service spec json
  | Written writer action "obj option" json json
  | Revoked "string \<Rightarrow> bool" service json

text \<open>The dictionary and the key under which a job looks its lock up; a revocation list has no key.\<close>

type_synonym lock_id = "table \<times> string \<times> string"

definition lock_name :: "job \<Rightarrow> lock_id option" where
  "lock_name j = (case j of
      Managed s sp body \<Rightarrow> Some (Engine_Locks, mgmt_lock s sp)
    | Written w act payload uuid revision \<Rightarrow> Some (Writer_Locks, lock_key w)
    | Revoked pem s body \<Rightarrow> None)"

text \<open>A job whose request is refused never comes to its lock.\<close>

definition is_refused :: "job \<Rightarrow> bool" where
  "is_refused j = (case j of
      Managed s sp body \<Rightarrow> (case mutate_request s sp body of Inl _ \<Rightarrow> True | Inr _ \<Rightarrow> False)
    | Written w act payload uuid revision \<Rightarrow> act \<noteq> Create \<and>
        (case (validate_uuid uuid, validate_revision revision) of (Inr _, Inr _) \<Rightarrow> False | _ \<Rightarrow> True)
    | Revoked pem s body \<Rightarrow> (case crl_request s body of Inl _ \<Rightarrow> True | Inr _ \<Rightarrow> False))"

definition job_run :: "job \<Rightarrow> env \<Rightarrow> trace \<Rightarrow> trace" where
  "job_run j E tr = (case j of
      Managed s sp body \<Rightarrow> snd (mutate s sp body E tr)
    | Written w act payload uuid revision \<Rightarrow> snd (execute w act payload uuid revision E tr)
    | Revoked pem s body \<Rightarrow> snd (crl_mutate pem s body E tr))"

text \<open>
  The events of a job so far, and in the end. A job sees the others only through the answers it gets, and the
  environment may give any answers.
\<close>

definition possible :: "job \<Rightarrow> trace \<Rightarrow> bool" where
  "possible j es = (\<exists>E tr es'. job_run j E tr = tr @ es @ es')"

definition finished :: "job \<Rightarrow> trace \<Rightarrow> bool" where
  "finished j es = (\<exists>E tr. job_run j E tr = tr @ es)"

section \<open>The process\<close>

text \<open>
  Where a thread is: before its lock, inside the guard, with a lock found there, waiting for the lock, inside its
  section, or gone.
\<close>

datatype place = Ready | Guarding | Found nat | Waiting nat | Inside nat | Gone

record process =
  pr_table :: "(lock_id \<times> nat) list"
  pr_made :: nat
  pr_guard :: "table \<Rightarrow> nat option"
  pr_held :: "nat \<Rightarrow> nat option"
  pr_place :: "nat \<Rightarrow> place"
  pr_log :: "(nat \<times> event) list"

text \<open>Lock 0 is that of the revocation lists; every \<^verbatim>\<open>threading.Lock()\<close> is a new one.\<close>

definition start :: process where
  "start = \<lparr>pr_table = [], pr_made = 1, pr_guard = (\<lambda>_. None), pr_held = (\<lambda>_. None), pr_place = (\<lambda>_. Ready), pr_log = []\<rparr>"

definition setdefault :: "('k \<times> 'v) list \<Rightarrow> 'k \<Rightarrow> 'v \<Rightarrow> ('k \<times> 'v) list \<times> 'v" where
  "setdefault d k v = (case map_of d k of Some w \<Rightarrow> (d, w) | None \<Rightarrow> (d @ [(k, v)], v))"

definition move :: "nat \<Rightarrow> place \<Rightarrow> process \<Rightarrow> process" where
  "move t pl p = p\<lparr>pr_place := (pr_place p)(t := pl)\<rparr>"

definition own :: "nat \<Rightarrow> (nat \<times> event) list \<Rightarrow> trace" where
  "own t ls = map snd (filter (\<lambda>(u, e). u = t) ls)"

inductive turn :: "(nat \<Rightarrow> job) \<Rightarrow> nat \<Rightarrow> process \<Rightarrow> process \<Rightarrow> bool" for jobs :: "nat \<Rightarrow> job" and t :: nat where
  refuse: "pr_place p t = Ready \<Longrightarrow> is_refused (jobs t) \<Longrightarrow> turn jobs t p (move t Gone p)"
| direct: "pr_place p t = Ready \<Longrightarrow> \<not> is_refused (jobs t) \<Longrightarrow> lock_name (jobs t) = None \<Longrightarrow> turn jobs t p (move t (Waiting 0) p)"
| enter: "pr_place p t = Ready \<Longrightarrow> \<not> is_refused (jobs t) \<Longrightarrow> lock_name (jobs t) = Some (tb, k) \<Longrightarrow> pr_guard p tb = None \<Longrightarrow>
    turn jobs t p (move t Guarding p\<lparr>pr_guard := (pr_guard p)(tb := Some t)\<rparr>)"
| look: "pr_place p t = Guarding \<Longrightarrow> lock_name (jobs t) = Some k \<Longrightarrow> setdefault (pr_table p) k (pr_made p) = (d, l) \<Longrightarrow>
    turn jobs t p (move t (Found l) p\<lparr>pr_table := d, pr_made := Suc (pr_made p)\<rparr>)"
| leave: "pr_place p t = Found l \<Longrightarrow> lock_name (jobs t) = Some (tb, k) \<Longrightarrow>
    turn jobs t p (move t (Waiting l) p\<lparr>pr_guard := (pr_guard p)(tb := None)\<rparr>)"
| acquire: "pr_place p t = Waiting l \<Longrightarrow> pr_held p l = None \<Longrightarrow>
    turn jobs t p (move t (Inside l) p\<lparr>pr_held := (pr_held p)(l := Some t)\<rparr>)"
| work: "pr_place p t = Inside l \<Longrightarrow> possible (jobs t) (own t (pr_log p) @ [e]) \<Longrightarrow>
    turn jobs t p (p\<lparr>pr_log := pr_log p @ [(t, e)]\<rparr>)"
| release: "pr_place p t = Inside l \<Longrightarrow> finished (jobs t) (own t (pr_log p)) \<Longrightarrow>
    turn jobs t p (move t Gone p\<lparr>pr_held := (pr_held p)(l := None)\<rparr>)"

inductive reaches :: "(nat \<Rightarrow> job) \<Rightarrow> process \<Rightarrow> bool" for jobs :: "nat \<Rightarrow> job" where
  begin_: "reaches jobs start"
| next_: "reaches jobs p \<Longrightarrow> turn jobs t p p' \<Longrightarrow> reaches jobs p'"

section \<open>The invariant of the locks\<close>

text \<open>The lock a thread looks for, in the dictionary of the process.\<close>

definition lock_of :: "(nat \<Rightarrow> job) \<Rightarrow> process \<Rightarrow> nat \<Rightarrow> nat option" where
  "lock_of jobs p t = (case lock_name (jobs t) of None \<Rightarrow> Some 0 | Some k \<Rightarrow> map_of (pr_table p) k)"

definition in_guard :: "place \<Rightarrow> bool" where
  "in_guard pl = (case pl of Guarding \<Rightarrow> True | Found l \<Rightarrow> True | _ \<Rightarrow> False)"

definition place_lock :: "place \<Rightarrow> nat option" where
  "place_lock pl = (case pl of Found l \<Rightarrow> Some l | Waiting l \<Rightarrow> Some l | Inside l \<Rightarrow> Some l | _ \<Rightarrow> None)"

lemma place_simps [simp]:
  "in_guard Guarding" "in_guard (Found l)" "\<not> in_guard Ready" "\<not> in_guard (Waiting l)" "\<not> in_guard (Inside l)" "\<not> in_guard Gone"
  "place_lock Ready = None" "place_lock Guarding = None" "place_lock (Found l) = Some l" "place_lock (Waiting l) = Some l"
  "place_lock (Inside l) = Some l" "place_lock Gone = None"
  by (simp_all add: in_guard_def place_lock_def)

text \<open>A dictionary of locks: what it holds was made before, and every key has a lock of its own.\<close>

definition sound_table :: "('k \<times> nat) list \<Rightarrow> nat \<Rightarrow> bool" where
  "sound_table d n = (0 < n \<and> (\<forall>k l. map_of d k = Some l \<longrightarrow> 0 < l \<and> l < n) \<and>
     (\<forall>k k' l. map_of d k = Some l \<longrightarrow> map_of d k' = Some l \<longrightarrow> k = k'))"

definition locks_agree :: "(nat \<Rightarrow> job) \<Rightarrow> process \<Rightarrow> bool" where
  "locks_agree jobs p =
     ((\<forall>t l. pr_held p l = Some t \<longleftrightarrow> pr_place p t = Inside l) \<and>
      (\<forall>t l. place_lock (pr_place p t) = Some l \<longrightarrow> lock_of jobs p t = Some l) \<and>
      sound_table (pr_table p) (pr_made p) \<and>
      (\<forall>t tb. pr_guard p tb = Some t \<longleftrightarrow> (\<exists>k. lock_name (jobs t) = Some (tb, k)) \<and> in_guard (pr_place p t)) \<and>
      (\<forall>t. in_guard (pr_place p t) \<longrightarrow> lock_name (jobs t) \<noteq> None))"

end
