(* ===== verification/Locks_Props.thy ===== *)
theory Locks_Props
  imports Locks Engine_Props Verified_Facts Crl_Facts
begin

text \<open>
  What the locks give, whatever the order in which the threads move: two jobs with the same lock are never inside
  their sections at once, so the section of one is not interrupted by the other, and no thread is stuck for good.
\<close>

section \<open>The invariant holds\<close>

lemma lock_names: "lock_name j = Some (tb, k) \<Longrightarrow> lock_name j = Some (tb', k') \<Longrightarrow> tb = tb' \<and> k = k'"
  by simp

lemma locks_start: "locks_agree jobs start"
  by (simp add: locks_agree_def start_def sound_table_def)

lemma setdefault_sound:
  assumes "sound_table d n" "setdefault d k n = (d', l)"
  shows "sound_table d' (Suc n)" "map_of d' k = Some l" "map_of d k' = Some l' \<Longrightarrow> map_of d' k' = Some l'"
proof -
  have other: "map_of d' k' = Some l' \<Longrightarrow> map_of d k' = Some l' \<or> k' = k \<and> l' = n \<and> map_of d k = None" for k' l'
    using assms(2) by (auto simp: setdefault_def map_add_def split: option.splits if_splits)
  have old: "0 < l' \<and> l' < n" if "map_of d k' = Some l'" for k' l' using assms(1) that by (simp add: sound_table_def)
  have inj: "map_of d k' = Some l' \<Longrightarrow> map_of d k'' = Some l' \<Longrightarrow> k' = k''" for k' k'' l'
    using assms(1) unfolding sound_table_def by blast
  have "0 < n" using assms(1) by (simp add: sound_table_def)
  show "sound_table d' (Suc n)"
    unfolding sound_table_def
  proof (intro conjI allI impI)
    fix k' l' assume "map_of d' k' = Some l'"
    from other [OF this] old show "0 < l'" "l' < Suc n" using \<open>0 < n\<close> by (auto intro: less_SucI)
  next
    fix k' k'' l' assume "map_of d' k' = Some l'" "map_of d' k'' = Some l'"
    from other [OF this(1)] other [OF this(2)] old inj show "k' = k''" by (metis less_irrefl)
  qed simp
  show "map_of d' k = Some l" "map_of d k' = Some l' \<Longrightarrow> map_of d' k' = Some l'"
    using assms(2) by (auto simp: setdefault_def map_add_def split: option.splits)
qed

lemma lock_of_same [simp]:
  "lock_of jobs (p\<lparr>pr_place := a\<rparr>) = lock_of jobs p" "lock_of jobs (p\<lparr>pr_guard := b\<rparr>) = lock_of jobs p"
  "lock_of jobs (p\<lparr>pr_held := c\<rparr>) = lock_of jobs p" "lock_of jobs (p\<lparr>pr_log := d\<rparr>) = lock_of jobs p"
  by (rule ext, simp add: lock_of_def split: option.split)+

lemma lock_of_None: "lock_name (jobs t) = None \<Longrightarrow> lock_of jobs p t = Some 0"
  by (simp add: lock_of_def)

lemma inside_unique: "locks_agree jobs p \<Longrightarrow> pr_place p t = Inside l \<Longrightarrow> pr_place p u = Inside l \<Longrightarrow> u = t"
  unfolding locks_agree_def by (metis option.inject)

lemma guard_unique:
  assumes "locks_agree jobs p" "lock_name (jobs t) = Some (tb, k)" "lock_name (jobs u) = Some (tb, k')"
    and "in_guard (pr_place p t)" "in_guard (pr_place p u)"
  shows "u = t"
proof -
  have "pr_guard p tb = Some t" "pr_guard p tb = Some u" using assms unfolding locks_agree_def by blast+
  then show ?thesis by simp
qed

lemma turn_locks: "turn jobs t p p' \<Longrightarrow> locks_agree jobs p \<Longrightarrow> locks_agree jobs p'"
proof (induction rule: turn.induct)
  case (look p k d l)
  have tab: "sound_table (pr_table p) (pr_made p)" using look(4) by (simp add: locks_agree_def)
  note r = setdefault_sound [OF tab look(3)]
  have "lock_of jobs (move t (Found l) p\<lparr>pr_table := d, pr_made := Suc (pr_made p)\<rparr>) u = Some l'"
    if "lock_of jobs p u = Some l'" for u l'
    using that r(3) by (cases "lock_name (jobs u)") (simp_all add: lock_of_def move_def)
  moreover have "lock_of jobs (move t (Found l) p\<lparr>pr_table := d, pr_made := Suc (pr_made p)\<rparr>) t = Some l"
    using look(2) r(2) by (simp add: lock_of_def move_def)
  moreover obtain tb key where "k = (tb, key)" by (cases k)
  ultimately show ?case
    using look r(1) by (auto simp: locks_agree_def move_def)
next
  case (enter p tb k)
  then have "\<not> in_guard (pr_place p u)" if "lock_name (jobs u) = Some (tb, k')" for u k'
    using that unfolding locks_agree_def by (metis option.discI)
  with enter show ?case by (auto simp: locks_agree_def move_def)
next
  case (leave p l tb k)
  have "lock_name (jobs u) \<noteq> Some (tb, k')" if "u \<noteq> t" "in_guard (pr_place p u)" for u k'
  proof
    assume "lock_name (jobs u) = Some (tb, k')"
    from guard_unique [OF leave(3,2) this _ that(2)] leave(1) that(1) show False by simp
  qed
  with leave show ?case by (auto simp: locks_agree_def move_def)
next
  case (release p l)
  then have "pr_place p u \<noteq> Inside l" if "u \<noteq> t" for u using inside_unique that by blast
  with release show ?case by (auto simp: locks_agree_def move_def)
next
  case (acquire p l)
  then have "pr_place p u \<noteq> Inside l" for u unfolding locks_agree_def by (metis option.discI)
  with acquire show ?case by (auto simp: locks_agree_def move_def)
qed (auto simp: locks_agree_def move_def lock_of_None)

lemma reaches_locks: "reaches jobs p \<Longrightarrow> locks_agree jobs p"
  by (induction rule: reaches.induct) (auto intro: locks_start turn_locks)


text \<open>Two threads inside their sections have different locks.\<close>

lemma locks_differ:
  assumes "locks_agree jobs p" "lock_name (jobs t) = lock_name (jobs u)"
    and "pr_place p t = Inside l" "pr_place p u = Inside l'"
  shows "t = u"
proof -
  have "lock_of jobs p t = Some l" "lock_of jobs p u = Some l'"
    using assms unfolding locks_agree_def by (metis place_simps(11))+
  with assms(2) have "l = l'" by (simp add: lock_of_def split: option.splits)
  then show ?thesis using assms unfolding locks_agree_def by (metis option.inject)
qed

text \<open>And different names have different locks.\<close>

lemma locks_same:
  assumes "locks_agree jobs p" "place_lock (pr_place p t) = Some l" "place_lock (pr_place p u) = Some l"
  shows "lock_name (jobs t) = lock_name (jobs u)"
proof -
  have l: "lock_of jobs p t = Some l" "lock_of jobs p u = Some l" using assms unfolding locks_agree_def by blast+
  have tab: "sound_table (pr_table p) (pr_made p)" using assms(1) by (simp add: locks_agree_def)
  then have pos: "map_of (pr_table p) k \<noteq> Some 0" for k unfolding sound_table_def by blast
  show ?thesis
  proof (cases "lock_name (jobs t)"; cases "lock_name (jobs u)")
    fix k k' assume "lock_name (jobs t) = Some k" "lock_name (jobs u) = Some k'"
    moreover from this l tab have "k = k'" unfolding sound_table_def lock_of_def by (metis option.simps(5))
    ultimately show ?thesis by simp
  qed (use l pos in \<open>auto simp: lock_of_def\<close>)
qed

section \<open>What the threads did\<close>

lemma own_simps [simp]:
  "own t [] = []" "own t (ls @ ls') = own t ls @ own t ls'"
  "own t ((u, e) # ls) = (if u = t then e # own t ls else own t ls)"
  by (simp_all add: own_def)

lemma own_in: "(t, e) \<in> set ls \<Longrightarrow> own t ls \<noteq> []"
  by (auto simp: own_def filter_empty_conv)

text \<open>After an event of the thread there is one of another with the same lock.\<close>

definition followed :: "(nat \<Rightarrow> job) \<Rightarrow> (nat \<times> event) list \<Rightarrow> nat \<Rightarrow> bool" where
  "followed jobs ls t = (\<exists>u e f xs ys zs. ls = xs @ (t, e) # ys @ (u, f) # zs \<and> t \<noteq> u \<and>
     lock_name (jobs t) = lock_name (jobs u))"

lemma followed_own: "followed jobs ls t \<Longrightarrow> own t ls \<noteq> []"
  by (auto simp: followed_def)

lemma followed_more:
  assumes "followed jobs (ls @ [(u, f)]) t"
  shows "followed jobs ls t \<or> t \<noteq> u \<and> own t ls \<noteq> [] \<and> lock_name (jobs t) = lock_name (jobs u)"
proof -
  from assms obtain v e g xs ys zs where s: "ls @ [(u, f)] = xs @ (t, e) # ys @ (v, g) # zs" "t \<noteq> v"
    "lock_name (jobs t) = lock_name (jobs v)" unfolding followed_def by blast
  show ?thesis
  proof (cases zs rule: rev_cases)
    case Nil
    with s show ?thesis by auto
  next
    case (snoc zs' x)
    with s have "ls = xs @ (t, e) # ys @ (v, g) # zs'" by simp
    with s show ?thesis unfolding followed_def by blast
  qed
qed

text \<open>Between two events of a thread there is one of another with the same lock.\<close>

definition interrupted :: "(nat \<Rightarrow> job) \<Rightarrow> (nat \<times> event) list \<Rightarrow> nat \<Rightarrow> bool" where
  "interrupted jobs ls t = (\<exists>xs g zs. ls = xs @ (t, g) # zs \<and> followed jobs xs t)"

lemma interrupted_more: "interrupted jobs (ls @ [(u, f)]) t \<Longrightarrow> interrupted jobs ls t \<or> t = u \<and> followed jobs ls t"
  unfolding interrupted_def by (auto simp: append_eq_append_conv2 append_eq_Cons_conv Cons_eq_append_conv)

text \<open>
  A thread that has not come to its section has done nothing, what it did is the start of a run of its job, and once
  a thread with the same lock did something after it, it is gone, and does nothing any more.
\<close>

definition behaves :: "(nat \<Rightarrow> job) \<Rightarrow> process \<Rightarrow> bool" where
  "behaves jobs p =
     ((\<forall>t. own t (pr_log p) \<noteq> [] \<longrightarrow> pr_place p t = Gone \<or> (\<exists>l. pr_place p t = Inside l)) \<and>
      (\<forall>t. possible (jobs t) (own t (pr_log p))) \<and>
      (\<forall>t. followed jobs (pr_log p) t \<longrightarrow> pr_place p t = Gone) \<and> (\<forall>t. \<not> interrupted jobs (pr_log p) t))"

lemma behaves_move:
  assumes "behaves jobs p" "pr_place p t \<noteq> Gone" "own t (pr_log p) \<noteq> [] \<Longrightarrow> pl = Gone"
    and "pr_log p' = pr_log p" "pr_place p' = (pr_place p)(t := pl)"
  shows "behaves jobs p'"
  using assms unfolding behaves_def by auto

lemma early: "behaves jobs p \<Longrightarrow> pr_place p t \<in> {Ready, Guarding, Found l, Waiting l} \<Longrightarrow> own t (pr_log p) = []"
  unfolding behaves_def by fastforce

lemma behaves_enter:
  assumes "behaves jobs p" "pr_place p t = Waiting l" "pr_log p' = pr_log p" "pr_place p' = (pr_place p)(t := Inside l)"
  shows "behaves jobs p'"
proof -
  have "own t (pr_log p) = []" using early [OF assms(1)] assms(2) by blast
  with assms show ?thesis unfolding behaves_def by (auto dest: followed_own)
qed

lemma possible_Nil: "possible j []"
proof -
  have "\<exists>es. job_run j E tr = tr @ es" for E tr
  proof (cases j)
    case (Managed s sp body)
    show ?thesis
    proof (cases "mutate_request s sp body")
      case (Inr q)
      obtain act u rv where "q = (act, u, rv)" by (cases q) auto
      from runsD [OF mutate_runs [OF Inr [unfolded this]], of E tr] show ?thesis by (auto simp: Managed job_run_def)
    qed (simp add: Managed job_run_def mutate_def of_res_def bnd_def)
  next
    case (Written w act payload uuid revision)
    from runsD [OF execute_runs, of w act payload uuid revision E tr] show ?thesis by (auto simp: Written job_run_def)
  next
    case (Revoked pem s body)
    show ?thesis
    proof (cases "crl_request s body")
      case (Inr q)
      obtain act u rv where "q = (act, u, rv)" by (cases q) auto
      from runsD [OF crl_mutate_runs [OF Inr [unfolded this]], of pem E tr] show ?thesis by (auto simp: Revoked job_run_def)
    qed (simp add: Revoked job_run_def crl_mutate_def of_res_def bnd_def)
  qed
  then show ?thesis unfolding possible_def by (metis append_Nil)
qed

lemma behaves_start: "behaves jobs start"
  by (auto simp: behaves_def start_def possible_Nil interrupted_def dest: followed_own)

lemma turn_behaves: "turn jobs t p p' \<Longrightarrow> locks_agree jobs p \<Longrightarrow> behaves jobs p \<Longrightarrow> behaves jobs p'"
proof (induction rule: turn.induct)
  case (work p l e)
  have "pr_place p u = Gone" if "followed jobs (pr_log p @ [(t, e)]) u" for u
    using followed_more [OF that]
  proof
    assume "followed jobs (pr_log p) u"
    with work(4) show ?thesis by (simp add: behaves_def)
  next
    assume u: "u \<noteq> t \<and> own u (pr_log p) \<noteq> [] \<and> lock_name (jobs u) = lock_name (jobs t)"
    then have "pr_place p u \<noteq> Inside l'" for l' using locks_differ [OF work(3) _ _ work(1), of u] by blast
    with u work(4) show ?thesis unfolding behaves_def by blast
  qed
  moreover have "own u (pr_log p @ [(t, e)]) \<noteq> [] \<longrightarrow> pr_place p u = Gone \<or> (\<exists>l. pr_place p u = Inside l)" for u
    using work(1,4) by (auto simp: behaves_def)
  moreover have "possible (jobs u) (own u (pr_log p @ [(t, e)]))" for u
    using work(2,4) by (auto simp: behaves_def)
  moreover have "\<not> interrupted jobs (pr_log p @ [(t, e)]) u" for u
  proof
    assume "interrupted jobs (pr_log p @ [(t, e)]) u"
    from interrupted_more [OF this] work(1,4) show False by (auto simp: behaves_def)
  qed
  ultimately show ?case unfolding behaves_def by simp
next
  case (acquire p l)
  from behaves_enter [OF acquire(4,1)] show ?case by (simp add: move_def)
next
  case (release p l)
  from behaves_move [OF release(4), of t Gone] release(1) show ?case by (simp add: move_def)
next
  case (refuse p)
  from behaves_move [OF refuse(4), of t Gone] refuse(1) show ?case by (simp add: move_def)
qed (rule behaves_move [where t = t], assumption; simp add: move_def early)+

lemma reaches_behaves: "reaches jobs p \<Longrightarrow> behaves jobs p"
  by (induction rule: reaches.induct) (auto intro: behaves_start turn_behaves reaches_locks)


section \<open>Nothing comes between the check and the change\<close>

definition needs_check :: "job \<Rightarrow> bool" where
  "needs_check j = (case j of
      Managed s sp body \<Rightarrow> (case mutate_request s sp body of Inr (act, u, rv) \<Rightarrow> act \<noteq> Create | Inl _ \<Rightarrow> True)
    | Written w act payload uuid revision \<Rightarrow> act \<noteq> Create
    | Revoked pem s body \<Rightarrow> True)"

text \<open>The event of a job that read the object with the revision the caller gave.\<close>

definition checked :: "job \<Rightarrow> event \<Rightarrow> bool" where
  "checked j e = (case j of
      Managed s sp body \<Rightarrow> (case mutate_request s sp body of
        Inr (act, u, rv) \<Rightarrow> \<exists>cur. raw_read sp (sv_client s) u cur [e] \<and> hash_payload (form_value cur) = rv | Inl _ \<Rightarrow> False)
    | Written w act payload uuid revision \<Rightarrow> revision_read w (given_uuid act uuid) (given_revision revision) e
    | Revoked pem s body \<Rightarrow> (case crl_request s body of
        Inr (act, u, rv) \<Rightarrow> \<exists>current choices. crl_read s u current choices [e] \<and> crl_revision current choices = rv | Inl _ \<Rightarrow> False))"

definition checks_first :: "job \<Rightarrow> trace \<Rightarrow> bool" where
  "checks_first j es = (silent es \<or> (\<exists>xs e ys. es = xs @ e # ys \<and> silent (xs @ [e]) \<and> checked j e))"

lemma checks_firstI: "es = xs @ ys \<Longrightarrow> silent xs \<Longrightarrow> xs \<noteq> [] \<Longrightarrow> checked j (last xs) \<Longrightarrow> checks_first j es"
  unfolding checks_first_def by (metis append.assoc append_Cons append_Nil append_butlast_last_id)

lemma got_last: "got c p ps v es = (es \<noteq> [] \<and> got c p ps v [last es])"
  by (auto simp: got_def)

lemma read_last: "raw_read sp c u r es = (es \<noteq> [] \<and> raw_read sp c u r [last es])"
  "crl_read s u cur choices es = (es \<noteq> [] \<and> crl_read s u cur choices [last es])"
  unfolding raw_read_def crl_read_def by (subst got_last, blast)+

lemma managed_checks:
  assumes "needs_check (Managed s sp body)" "mutate_request s sp body = Inr (act, u, rv)"
    and "mutation_shape s sp act (as_obj body) u rv r es"
  shows "checks_first (Managed s sp body) es"
proof (cases "silent es")
  case False
  with assms(3) obtain before after cur a where r: "es = before @ AuditEv a None # after" "silent before"
      "raw_read sp (sv_client s) u cur before" "act \<noteq> Create \<longrightarrow> hash_payload (form_value cur) = rv"
    by (auto simp: mutation_shape_def reserved_run_def)
  moreover have "act \<noteq> Create" using assms(1,2) by (simp add: needs_check_def)
  ultimately have "before \<noteq> []" "checked (Managed s sp body) (last before)"
    using assms(2) read_last(1) [of sp "sv_client s" u cur before] by (auto simp: checked_def)
  then show ?thesis using checks_firstI [OF r(1,2)] by blast
qed (simp add: checks_first_def)

lemma written_checks:
  assumes "act \<noteq> Create" "run_shape w act payload uuid revision r1 es1 r es"
  shows "checks_first (Written w act payload uuid revision) es"
proof -
  have "(\<exists>e. r = Inl e \<and> \<not> caught e \<and> es = []) \<or> (\<exists>r1 es1. run_shape w act payload uuid revision r1 es1 r es)"
    using assms(2) by blast
  then have "fresh w (given_uuid act uuid) (given_revision revision) es \<or> silent es"
    by (rule run_shape_split) (use assms(1) in \<open>auto intro: fresh_append\<close>)
  then show ?thesis
  proof
    assume "fresh w (given_uuid act uuid) (given_revision revision) es"
    then obtain xs e ys where "es = xs @ e # ys" "silent xs" "revision_read w (given_uuid act uuid) (given_revision revision) e"
      unfolding fresh_def by blast
    moreover from this(3) have "\<not> is_post e" by (auto simp: revision_read_def)
    ultimately show ?thesis by (auto simp: checks_first_def checked_def silent_Cons)
  qed (simp add: checks_first_def)
qed

lemma revoked_checks:
  assumes "crl_request s body = Inr (act, u, rv)" "crl_shape s body pem act u rv r es"
  shows "checks_first (Revoked pem s body) es"
proof (cases "silent es")
  case False
  with assms(2) obtain before a lg rest current choices where r: "es = before @ AuditEv a lg # rest" "silent before"
      "crl_read s u current choices before" "crl_revision current choices = rv"
    by (auto simp: crl_shape_def)
  then have "before \<noteq> []" "checked (Revoked pem s body) (last before)"
    using assms(1) read_last(2) [of s u current choices before] by (auto simp: checked_def)
  then show ?thesis using checks_firstI [OF r(1,2)] by blast
qed (simp add: checks_first_def)

lemma job_checks:
  assumes "needs_check j" "job_run j E tr = tr @ es"
  shows "checks_first j es"
proof (cases j)
  case (Managed s sp body)
  show ?thesis
  proof (cases "mutate_request s sp body")
    case (Inr q)
    obtain act u rv where q: "q = (act, u, rv)" by (cases q) auto
    obtain r es' where es: "mutate s sp body E tr = (r, tr @ es')" "mutation_shape s sp act (as_obj body) u rv r es'"
      using runsD [OF mutate_runs [OF Inr [unfolded q]]] by blast
    with assms(2) have "es' = es" by (simp add: Managed job_run_def)
    with managed_checks [OF assms(1) [unfolded Managed] Inr [unfolded q]] es show ?thesis by (simp add: Managed)
  qed (use assms in \<open>auto simp: Managed job_run_def mutate_def of_res_def bnd_def checks_first_def\<close>)
next
  case (Written w act payload uuid revision)
  obtain r es' where es: "execute w act payload uuid revision E tr = (r, tr @ es')"
      "(\<exists>e. r = Inl e \<and> \<not> caught e \<and> es' = []) \<or> (\<exists>r1 es1. run_shape w act payload uuid revision r1 es1 r es')"
    using runsD [OF execute_runs, of w act payload uuid revision E tr] by blast
  from es(1) assms have eq: "es' = es" "act \<noteq> Create" by (simp_all add: Written job_run_def needs_check_def)
  from es(2) show ?thesis
  proof
    assume "\<exists>r1 es1. run_shape w act payload uuid revision r1 es1 r es'"
    then obtain r1 es1 where "run_shape w act payload uuid revision r1 es1 r es" unfolding eq(1) by blast
    from written_checks [OF eq(2) this] show ?thesis by (simp add: Written)
  qed (auto simp: eq(1) checks_first_def)
next
  case (Revoked pem s body)
  show ?thesis
  proof (cases "crl_request s body")
    case (Inr q)
    obtain act u rv where q: "q = (act, u, rv)" by (cases q) auto
    obtain r es' where es: "crl_mutate pem s body E tr = (r, tr @ es')" "crl_shape s body pem act u rv r es'"
      using runsD [OF crl_mutate_runs [OF Inr [unfolded q]]] by blast
    with assms(2) have "es' = es" by (simp add: Revoked job_run_def)
    with revoked_checks [OF Inr [unfolded q]] es show ?thesis by (simp add: Revoked)
  qed (use assms in \<open>auto simp: Revoked job_run_def crl_mutate_def of_res_def bnd_def checks_first_def\<close>)
qed


text \<open>What a thread did up to a request that may change something holds the check.\<close>

lemma post_checked:
  assumes "possible j (es @ [e] @ es')" "needs_check j" "is_post e"
  shows "\<exists>xs g ys. es = xs @ g # ys \<and> checked j g"
proof -
  from assms(1) obtain E tr rest where "job_run j E tr = tr @ (es @ [e] @ es') @ rest" unfolding possible_def by blast
  from job_checks [OF assms(2) this] obtain xs g ys
    where g: "es @ e # es' @ rest = xs @ g # ys" "silent (xs @ [g])" "checked j g"
    using assms(3) by (auto simp: checks_first_def silent_Cons)
  from g(1) obtain us where "es = xs @ us \<and> us @ e # es' @ rest = g # ys \<or> es @ us = xs \<and> e # es' @ rest = us @ g # ys"
    unfolding append_eq_append_conv2 by blast
  then show ?thesis
  proof
    assume us: "es = xs @ us \<and> us @ e # es' @ rest = g # ys"
    with g(2) assms(3) show ?thesis by (cases us) (auto simp: silent_Cons intro: g(3))
  next
    assume us: "es @ us = xs \<and> e # es' @ rest = us @ g # ys"
    with g(2) assms(3) show ?thesis by (cases us) (auto simp: silent_Cons)
  qed
qed

lemma own_split:
  "own t ls = xs @ g # ys \<Longrightarrow> \<exists>as bs. ls = as @ (t, g) # bs \<and> own t as = xs \<and> own t bs = ys"
proof (induction ls arbitrary: xs)
  case (Cons a ls)
  obtain u e where a: "a = (u, e)" by (cases a)
  show ?case
  proof (cases "u = t \<and> xs = []")
    case True
    with Cons.prems a have "a # ls = [] @ (t, g) # ls \<and> own t [] = xs \<and> own t ls = ys" by simp
    then show ?thesis by blast
  next
    case False
    with Cons.prems a obtain xs' where "own t ls = xs' @ g # ys" "xs = (if u = t then e # xs' else xs')"
      by (cases xs) (auto split: if_splits)
    moreover from Cons.IH [OF this(1)] obtain as bs where "ls = as @ (t, g) # bs" "own t as = xs'" "own t bs = ys" by blast
    ultimately have "a # ls = (a # as) @ (t, g) # bs \<and> own t (a # as) = xs \<and> own t bs = ys" using a by simp
    then show ?thesis by blast
  qed
qed simp

text \<open>C7: whatever the order in which the threads of the process move, when a mutation sends a request that may change
  the firewall, it read the object before with the revision the caller gave, and since then no other mutation under the
  same lock did anything: a change that one of them made cannot be overwritten unseen.\<close>

theorem no_lost_update:
  assumes "reaches jobs p" and "pr_log p = xs @ (t, e) # zs" and "is_post e" and "needs_check (jobs t)"
  shows "\<exists>as g bs. xs = as @ (t, g) # bs \<and> checked (jobs t) g \<and>
    (\<forall>(u, f) \<in> set bs. u \<noteq> t \<longrightarrow> lock_name (jobs u) \<noteq> lock_name (jobs t))"
proof -
  have b: "behaves jobs p" by (rule reaches_behaves [OF assms(1)])
  then have "possible (jobs t) (own t (pr_log p))" by (simp only: behaves_def)
  then have "possible (jobs t) (own t xs @ [e] @ own t zs)" using assms(2) by simp
  from post_checked [OF this assms(4,3)] own_split [of t xs] obtain as g bs
    where g: "xs = as @ (t, g) # bs" "checked (jobs t) g" by metis
  have "lock_name (jobs u) \<noteq> lock_name (jobs t)" if "(u, f) \<in> set bs" "u \<noteq> t" for u f
  proof
    assume same: "lock_name (jobs u) = lock_name (jobs t)"
    from that(1) obtain bs1 bs2 where "bs = bs1 @ (u, f) # bs2" by (meson split_list)
    with g(1) that(2) same have "followed jobs xs t" unfolding followed_def by fastforce
    with assms(2) have "interrupted jobs (pr_log p) t" unfolding interrupted_def by blast
    with b show False by (simp add: behaves_def)
  qed
  with g show ?thesis by blast
qed


section \<open>A thread on its own\<close>

lemma enters:
  assumes "\<not> is_refused (jobs t)" "lock_name (jobs t) = Some (tb, k)"
  shows "\<exists>p. reaches jobs p \<and> pr_place p t = Inside 1 \<and> pr_log p = []"
proof -
  define p1 where "p1 = move t Guarding start\<lparr>pr_guard := (pr_guard start)(tb := Some t)\<rparr>"
  define p2 where "p2 = move t (Found 1) p1\<lparr>pr_table := [((tb, k), 1)], pr_made := 2\<rparr>"
  define p3 where "p3 = move t (Waiting 1) p2\<lparr>pr_guard := (pr_guard p2)(tb := None)\<rparr>"
  define p4 where "p4 = move t (Inside 1) p3\<lparr>pr_held := (pr_held p3)(1 := Some t)\<rparr>"
  note defs = p1_def p2_def p3_def p4_def move_def start_def
  have "turn jobs t start p1" unfolding p1_def by (rule enter) (use assms in \<open>simp_all add: start_def\<close>)
  moreover have "turn jobs t p1 p2"
    unfolding p2_def using look [of p1 t jobs "(tb, k)" "[((tb, k), 1)]" 1] assms
    by (simp add: p1_def move_def start_def setdefault_def numeral_2_eq_2)
  moreover have "turn jobs t p2 p3" unfolding p3_def by (rule leave) (use assms in \<open>simp_all add: p2_def move_def\<close>)
  moreover have "turn jobs t p3 p4" unfolding p4_def by (rule acquire) (simp_all add: defs)
  ultimately have "reaches jobs p4" by (metis begin_ next_)
  then show ?thesis by (intro exI [of _ p4]) (simp add: defs)
qed

lemma possible_prefix: "possible j (es @ es') \<Longrightarrow> possible j es"
  unfolding possible_def by (metis append.assoc)

lemma works:
  assumes "\<not> is_refused (jobs t)" "lock_name (jobs t) = Some (tb, k)" "possible (jobs t) es"
  shows "\<exists>p. reaches jobs p \<and> pr_place p t = Inside 1 \<and> pr_log p = map (Pair t) es"
  using assms(3)
proof (induction es rule: rev_induct)
  case (snoc e es)
  from snoc.IH [OF possible_prefix [OF snoc.prems]] obtain p
    where p: "reaches jobs p" "pr_place p t = Inside 1" "pr_log p = map (Pair t) es" by blast
  then have "own t (pr_log p) = es" by (simp add: own_def comp_def)
  with snoc.prems have "turn jobs t p (p\<lparr>pr_log := pr_log p @ [(t, e)]\<rparr>)" by (intro work [OF p(2)]) simp
  with p show ?case by (intro exI [of _ "p\<lparr>pr_log := pr_log p @ [(t, e)]\<rparr>"]) (auto intro: next_)
qed (use enters [of jobs t tb k] assms in simp)

lemma demo_job: "\<not> is_refused (Managed demo_service res_categories demo_removal)" "needs_check (Managed demo_service res_categories demo_removal)"
  by (simp_all add: is_refused_def needs_check_def demo_mutation_request)

theorem no_lost_update_witness:
  "\<exists>p t e xs as g bs. reaches (\<lambda>_. Managed demo_service res_categories demo_removal) p \<and> is_post e \<and>
     pr_log p = xs @ [(t, e)] \<and> xs = as @ (t, g) # bs \<and> checked (Managed demo_service res_categories demo_removal) g"
proof -
  let ?j = "Managed demo_service res_categories demo_removal"
  obtain tr' where run: "job_run ?j (demo_env (\<lambda>p. answer (JObj [])) demo_reads None) [] = tr'" "targets tr' \<noteq> []"
    using demo_refused by (fastforce simp: job_run_def)
  then obtain es e es' where e: "tr' = es @ e # es'" "is_post e"
    unfolding silent_targets [symmetric] silent_def posts_def by (metis filter_False split_list)
  with run(1) have "possible ?j (es @ [e])" unfolding possible_def by (metis append.assoc append_Cons append_Nil)
  from works [of "\<lambda>_. ?j" 0, OF demo_job(1) _ this] obtain p
    where p: "reaches (\<lambda>_. ?j) p" "pr_log p = map (Pair 0) es @ [(0, e)]" by (auto simp: lock_name_def)
  from no_lost_update [OF p e(2)] demo_job(2) p e(2) show ?thesis by metis
qed

section \<open>No thread is stuck\<close>

text \<open>As long as a thread is not gone, some thread can move: a lock or a guard that is taken is held by a thread that can.\<close>

lemma inside_moves: "possible j es \<Longrightarrow> finished j es \<or> (\<exists>e. possible j (es @ [e]))"
  unfolding possible_def finished_def by (metis append.assoc append.right_neutral append_Cons append_Nil list.exhaust)

lemma guard_moves:
  assumes "locks_agree jobs p" "in_guard (pr_place p u)"
  shows "\<exists>p'. turn jobs u p p'"
proof -
  obtain tb k where k: "lock_name (jobs u) = Some (tb, k)" using assms unfolding locks_agree_def by fastforce
  show ?thesis
  proof (cases "pr_place p u")
    case Guarding
    then show ?thesis using look [where jobs = jobs and p = p and t = u, OF _ k] by (metis surj_pair)
  next
    case (Found l)
    then show ?thesis using leave [where jobs = jobs and p = p and t = u, OF _ k] by blast
  qed (use assms(2) in simp_all)
qed

lemma never_stuck:
  assumes "reaches jobs p" "pr_place p t \<noteq> Gone"
  shows "\<exists>u p'. turn jobs u p p'"
proof -
  have a: "locks_agree jobs p" and b: "behaves jobs p" using assms(1) by (rule reaches_locks, rule reaches_behaves)
  have inside: "\<exists>p'. turn jobs u p p'" if "pr_place p u = Inside l" for u l
    using inside_moves [of "jobs u" "own u (pr_log p)"] b that unfolding behaves_def by (metis work release)
  show ?thesis
  proof (cases "pr_place p t")
    case Ready
    show ?thesis
    proof (cases "is_refused (jobs t)")
      case False
      show ?thesis
      proof (cases "lock_name (jobs t)")
        case None
        then show ?thesis using direct [where jobs = jobs, OF Ready False] by blast
      next
        case (Some n)
        obtain tb k where n: "n = (tb, k)" by (cases n)
        show ?thesis
        proof (cases "pr_guard p tb")
          case None
          then show ?thesis using enter [where jobs = jobs, OF Ready False] Some n by blast
        next
          case (Some u)
          then have "in_guard (pr_place p u)" using a unfolding locks_agree_def by blast
          then show ?thesis using guard_moves [OF a] by blast
        qed
      qed
    qed (use refuse [OF Ready] in blast)
  next
    case (Waiting l)
    show ?thesis
    proof (cases "pr_held p l")
      case None
      then show ?thesis using acquire [where jobs = jobs, OF Waiting] by blast
    next
      case (Some u)
      then have "pr_place p u = Inside l" using a unfolding locks_agree_def by blast
      then show ?thesis using inside by blast
    qed
  next
    case (Inside l)
    from inside [OF this] show ?thesis by blast
  qed (use assms(2) guard_moves [OF a, of t] in auto)
qed

text \<open>The lock of a pair of nodes does not depend on which of them leads it.\<close>

lemma lock_key_pair:
  assumes "vw_client w = a" "vw_peer w = Some b" "vw_client w' = b" "vw_peer w' = Some a"
  shows "lock_key w = lock_key w'"
  using assms by (simp add: lock_key_def Let_def min.commute max.commute)

end
