(* ===== verification/Dates_Props.thy ===== *)
theory Dates_Props
  imports Dates Collectors
begin

text \<open>
  The calendar numbers the days one after the other, and the days to the expiry of a certificate are exact for every
  date as OpenSSL prints it.
\<close>

section \<open>The days are numbered one by one\<close>

definition next_day :: "int \<times> nat \<times> int \<Rightarrow> int \<times> nat \<times> int" where
  "next_day = (\<lambda>(y, m, d). if d < month_days y m then (y, m, d + 1) else if m < 12 then (y, Suc m, 1) else (y + 1, 1, 1))"

lemma div_step: "0 < k \<Longrightarrow> (y::int) div k = (y - 1) div k + (if y mod k = 0 then 1 else 0)"
proof -
  assume k: "0 < k"
  let ?q = "(y - 1) div k" and ?r = "(y - 1) mod k"
  have y: "y = ?r + 1 + ?q * k" using div_mult_mod_eq [of "y - 1" k] by simp
  have r: "0 \<le> ?r" "?r < k" using k by simp_all
  show ?thesis
  proof (cases "?r + 1 = k")
    case True
    then have "y = (?q + 1) * k" using y by (simp add: algebra_simps)
    then have "y div k = ?q + 1" "y mod k = 0" using k by (metis nonzero_mult_div_cancel_right less_irrefl, metis mod_mult_self2_is_0)
    then show ?thesis by simp
  next
    case False
    then have "(?r + 1) div k = 0" "(?r + 1) mod k = ?r + 1" using r by (simp_all add: div_pos_pos_trivial)
    then have "y div k = ?q" "y mod k = ?r + 1" using y k
      by (metis add.commute add_0 div_mult_self1 less_irrefl, metis mod_mult_self1)
    then show ?thesis using r by simp
  qed
qed

lemma mod_zero_trans: "(y::int) mod (k * n) = 0 \<Longrightarrow> y mod n = 0"
  by (metis mod_mod_trivial mod_mult_left_eq mod_0_imp_dvd dvd_mult_right dvd_imp_mod_0)

lemma year_step: "days_before_year (y + 1) = days_before_year y + (if leap_year y then 366 else 365)"
proof -
  have m: "y mod 400 = 0 \<Longrightarrow> y mod 100 = 0" "y mod 100 = 0 \<Longrightarrow> y mod 4 = 0"
    using mod_zero_trans [of y 4 100] mod_zero_trans [of y 25 4] by simp_all
  have q: "y div 4 = (y - 1) div 4 + (if y mod 4 = 0 then 1 else 0)"
    "y div 100 = (y - 1) div 100 + (if y mod 100 = 0 then 1 else 0)"
    "y div 400 = (y - 1) div 400 + (if y mod 400 = 0 then 1 else 0)"
    by (rule div_step, simp)+
  have "days_before_year (y + 1) = y * 365 + y div 4 - y div 100 + y div 400" by (simp add: days_before_year_def)
  also have "\<dots> = days_before_year y + 365 + (if y mod 4 = 0 then 1 else 0) - (if y mod 100 = 0 then 1 else 0) +
      (if y mod 400 = 0 then 1 else 0)"
    unfolding q days_before_year_def Let_def by (simp only: algebra_simps)
  also have "\<dots> = days_before_year y + (if leap_year y then 366 else 365)"
    unfolding leap_year_def using m by (cases "y mod 4 = 0"; cases "y mod 100 = 0"; cases "y mod 400 = 0") simp_all
  finally show ?thesis .
qed

lemma month_step: "1 \<le> m \<Longrightarrow> days_before_month y (Suc m) = days_before_month y m + month_days y m"
  by (simp add: days_before_month_def)

lemma year_length: "days_before_month y 12 + month_days y 12 = (if leap_year y then 366 else 365)"
proof -
  have "[1..<12] = [1, 2, 3, 4, 5, 6, 7, 8, 9, 10, Suc 10]" by (simp add: upt_rec)
  then show ?thesis by (simp add: days_before_month_def month_days_def)
qed

lemma ordinal_next:
  assumes "1 \<le> m" "m \<le> 12" "d \<le> month_days y m" "next_day (y, m, d) = (y', m', d')"
  shows "ordinal y' m' d' = ordinal y m d + 1"
proof -
  consider "d < month_days y m" | "d = month_days y m" "m < 12" | "d = month_days y m" "m = 12" using assms by linarith
  then show ?thesis
    using assms(1,4) year_step [of y] year_length [of y] month_step [of m y]
    by cases (auto simp: next_day_def ordinal_def days_before_month_def)
qed


section \<open>What OpenSSL prints is read\<close>

definition digits2 :: "nat \<Rightarrow> string" where
  "digits2 n = [chr (48 + n div 10), chr (48 + n mod 10)]"

definition month_text :: "nat \<Rightarrow> string" where
  "month_text m = [''Jan'', ''Feb'', ''Mar'', ''Apr'', ''May'', ''Jun'', ''Jul'', ''Aug'', ''Sep'', ''Oct'', ''Nov'', ''Dec''] ! (m - 1)"

definition day_text :: "nat \<Rightarrow> string" where
  "day_text d = (if d < 10 then [CHR '' '', chr (48 + d)] else digits2 d)"

definition moment_text :: "moment \<Rightarrow> string" where
  "moment_text t = month_text (mo_month t) @ '' '' @ day_text (nat (mo_day t)) @ '' '' @ digits2 (nat (mo_hour t)) @ '':'' @
     digits2 (nat (mo_minute t)) @ '':'' @ digits2 (nat (mo_second t)) @ '' '' @
     digits2 (nat (mo_year t) div 100) @ digits2 (nat (mo_year t) mod 100)"

text \<open>\<^verbatim>\<open>May  9 12:34:56 2027 GMT\<close>.\<close>

definition openssl_date :: "moment \<Rightarrow> string" where
  "openssl_date t = moment_text t @ '' GMT''"

lemma digit_chr:
  assumes "k < 10"
  shows "is_digit (chr (48 + k))" "\<not> is_space (chr (48 + k))" "digit_val (chr (48 + k)) = int k"
proof -
  have "list_all (\<lambda>k. is_digit (chr (48 + k)) \<and> \<not> is_space (chr (48 + k)) \<and> digit_val (chr (48 + k)) = int k) [0..<10]"
    by code_simp
  with assms show "is_digit (chr (48 + k))" "\<not> is_space (chr (48 + k))" "digit_val (chr (48 + k)) = int k"
    by (simp_all add: list_all_iff)
qed

lemma space_blank: "is_space (CHR '' '')" "\<not> is_digit (CHR '' '')" "\<not> is_digit (CHR '':'')"
  by code_simp+

lemma digits2_reads: "n < 100 \<Longrightarrow> list_all is_digit (digits2 n) \<and> dec_val 0 (digits2 n) = int n \<and> length (digits2 n) = 2"
  using digit_chr [of "n div 10"] digit_chr [of "n mod 10"] by (simp add: digits2_def less_mult_imp_div_less zdiv_int zmod_int)

lemma dec_val_digits2: "n < 100 \<Longrightarrow> dec_val acc (digits2 n) = 100 * acc + int n"
  using digits2_reads [of n] by (simp add: digits2_def)

lemma read_number_digits:
  assumes "list_all is_digit ds" "r = [] \<or> \<not> is_digit (hd r)" "fewest \<le> length ds" "length ds \<le> most"
    and "lo \<le> dec_val 0 ds" "dec_val 0 ds \<le> hi"
  shows "read_number fewest most lo hi (ds @ r) = Some (dec_val 0 ds, r)"
proof -
  have "takeWhile is_digit r = []" using assms(2) by (cases r) auto
  then have "takeWhile is_digit (ds @ r) = ds" using assms(1) by (simp add: takeWhile_append2 list_all_iff)
  with assms(3-6) show ?thesis by (simp add: read_number_def Let_def)
qed

lemma read_two:
  assumes "n < 100" "lo \<le> int n" "int n \<le> hi" "\<not> is_digit c"
  shows "read_number 1 2 lo hi (digits2 n @ c # r) = Some (int n, c # r)"
  using read_number_digits [of "digits2 n" "c # r" 1 2 lo hi] digits2_reads [OF assms(1)] assms(2-4) by simp

lemma read_year:
  assumes "n < 10000" "r = [] \<or> \<not> is_digit (hd r)"
  shows "read_number 4 4 0 9999 (digits2 (n div 100) @ digits2 (n mod 100) @ r) = Some (int n, r)"
proof -
  have d: "n div 100 < 100" "n mod 100 < 100" using assms(1) by (simp_all add: less_mult_imp_div_less)
  have v: "dec_val 0 (digits2 (n div 100) @ digits2 (n mod 100)) = int n"
    using d by (simp add: dec_val_append dec_val_digits2 zdiv_int zmod_int)
  show ?thesis
    using read_number_digits [of "digits2 (n div 100) @ digits2 (n mod 100)" r 4 4 0 9999]
      digits2_reads [OF d(1)] digits2_reads [OF d(2)] v assms by simp
qed

lemma read_day:
  assumes "1 \<le> d" "d \<le> 31" "\<not> is_digit c"
  shows "read_number 1 2 1 31 (dropWhile is_space (day_text d @ c # r)) = Some (int d, c # r)"
proof (cases "d < 10")
  case True
  with read_number_digits [of "[chr (48 + d)]" "c # r" 1 2 1 31] digit_chr [OF True] assms show ?thesis
    by (simp add: day_text_def space_blank)
next
  case False
  have "\<not> is_space (chr (48 + d div 10))" using assms(2) by (intro digit_chr) simp
  then have "dropWhile is_space (day_text d @ c # r) = digits2 d @ c # r" using False by (simp add: day_text_def digits2_def)
  with read_two [of d 1 31 c r] assms show ?thesis by simp
qed

lemma read_month_text:
  assumes "1 \<le> m" "m \<le> 12"
  shows "read_month (month_text m @ r) = Some (m, r)" "length (month_text m) = 3"
proof -
  have "list_all (\<lambda>m. length (month_text m) = 3 \<and> find (\<lambda>k. month_names ! k = lower (month_text m)) [0..<12] = Some (m - 1)) [1..<13]"
    by code_simp
  with assms have l: "length (month_text m) = 3" "find (\<lambda>k. month_names ! k = lower (month_text m)) [0..<12] = Some (m - 1)"
    by (simp_all add: list_all_iff)
  then show "length (month_text m) = 3" by simp
  from l assms(1) show "read_month (month_text m @ r) = Some (m, r)" by (simp add: read_month_def)
qed

lemma read_blank: "read_gap (CHR '' '' # s) = Some ((), dropWhile is_space s)"
  by (simp add: read_gap_def space_blank)

lemma digits2_solid: "n < 100 \<Longrightarrow> dropWhile is_space (digits2 n @ r) = digits2 n @ r"
  using digit_chr(2) [of "n div 10"] by (simp add: digits2_def less_mult_imp_div_less)

text \<open>Years before 1000 are printed with less than four digits, and not read.\<close>

definition printable :: "moment \<Rightarrow> bool" where
  "printable t = (valid_moment t \<and> 1000 \<le> mo_year t)"

lemma printable_parts:
  assumes "printable t"
  shows "1 \<le> mo_month t" "mo_month t \<le> 12" "1 \<le> nat (mo_day t)" "nat (mo_day t) \<le> 31" "nat (mo_hour t) \<le> 23"
    "nat (mo_minute t) \<le> 59" "nat (mo_second t) \<le> 59" "nat (mo_year t) < 10000"
    "int (nat (mo_day t)) = mo_day t" "int (nat (mo_hour t)) = mo_hour t" "int (nat (mo_minute t)) = mo_minute t"
    "int (nat (mo_second t)) = mo_second t" "int (nat (mo_year t)) = mo_year t"
proof -
  have "month_days y m \<le> 31" if "1 \<le> m" "m \<le> 12" for y m
  proof -
    have "m - 1 < 12" using that by linarith
    moreover have "list_all (\<lambda>k. [31, 28, 31, 30, 31, 30, 31, 31, 30, 31, 30, 31 :: int] ! k \<le> 31) [0..<12]" by code_simp
    ultimately show ?thesis by (simp add: month_days_def list_all_iff)
  qed
  then have "mo_day t \<le> 31" using assms unfolding printable_def valid_moment_def by (meson order_trans)
  with assms show "1 \<le> mo_month t" "mo_month t \<le> 12" "1 \<le> nat (mo_day t)" "nat (mo_day t) \<le> 31" "nat (mo_hour t) \<le> 23"
    "nat (mo_minute t) \<le> 59" "nat (mo_second t) \<le> 59" "nat (mo_year t) < 10000"
    "int (nat (mo_day t)) = mo_day t" "int (nat (mo_hour t)) = mo_hour t" "int (nat (mo_minute t)) = mo_minute t"
    "int (nat (mo_second t)) = mo_second t" "int (nat (mo_year t)) = mo_year t"
    unfolding printable_def valid_moment_def by linarith+
qed

lemma read_moment_text:
  assumes "printable t" "r = [] \<or> \<not> is_digit (hd r)"
  shows "read_moment (moment_text t @ r) = Some (t, r)"
proof -
  note p = printable_parts [OF assms(1)]
  have two: "read_number 1 2 0 hi (digits2 (nat v) @ c # x) = Some (v, c # x)" if "0 \<le> v" "v \<le> 59" "v \<le> hi" "\<not> is_digit c"
    for v hi c x
    using read_two [of "nat v" 0 hi c x] that by simp
  have solid: "dropWhile is_space (digits2 n @ x) = digits2 n @ x" if "n \<le> 99" for n x
    using digits2_solid [of n x] that by simp
  have v: "0 \<le> mo_hour t" "mo_hour t \<le> 23" "mo_hour t \<le> 59" "0 \<le> mo_minute t" "mo_minute t \<le> 59" "0 \<le> mo_second t"
      "mo_second t \<le> 59" "mo_second t \<le> 61" "nat (mo_hour t) \<le> 99"
    using assms(1) by (auto simp: printable_def valid_moment_def)
  have y: "nat (mo_year t) div 100 \<le> 99" using p(8) by simp
  have day: "read_number 1 2 1 31 (dropWhile is_space (day_text (nat (mo_day t)) @ CHR '' '' # x)) = Some (mo_day t, CHR '' '' # x)" for x
    using read_day [OF p(3,4) space_blank(2), of x] p(9) by simp
  show ?thesis
    unfolding read_moment_def moment_text_def read_bnd_def
    using read_month_text(1) [OF p(1,2)] day y v read_year [OF p(8) assms(2)] p(13)
    by (simp add: read_blank read_char_def two solid space_blank del: One_nat_def)
qed

lemma openssl_read:
  assumes "printable t"
  shows "strptime_zone zones (openssl_date t) = Some t"
proof -
  have z: "lower ''GMT'' = ''gmt''" "\<not> is_space (CHR ''G'')" by code_simp+
  have "read_moment (openssl_date t) = Some (t, '' GMT'')"
    unfolding openssl_date_def by (rule read_moment_text [OF assms]) (simp add: space_blank)
  then show ?thesis
    using assms by (simp add: strptime_zone_def accept_moment_def read_bnd_def read_blank z printable_def)
qed

lemma openssl_strip:
  assumes "printable t"
  shows "strip (openssl_date t) = openssl_date t"
proof -
  have m: "list_all (\<lambda>m. \<not> is_space (hd (month_text m)) \<and> month_text m \<noteq> []) [1..<13]" by code_simp
  have "\<not> is_space (CHR ''T'')" by code_simp
  then have last: "dropWhile is_space (rev (openssl_date t)) = rev (openssl_date t)" by (simp add: openssl_date_def)
  have "mo_month t \<in> set [1..<13]" using printable_parts(1,2) [OF assms] by simp
  with m have "\<not> is_space (hd (month_text (mo_month t))) \<and> month_text (mo_month t) \<noteq> []" unfolding list_all_iff by blast
  then obtain c cs where "month_text (mo_month t) = c # cs" "\<not> is_space c" by (cases "month_text (mo_month t)") simp_all
  then have "dropWhile is_space (openssl_date t) = openssl_date t" by (simp add: openssl_date_def moment_text_def)
  with last show ?thesis by (simp add: strip_def)
qed

text \<open>C22: the days to expiry that are shown for a certificate are the whole days up to the date OpenSSL prints, rounded down:
  they are negative if and only if the certificate has expired.\<close>

theorem expiry_days:
  assumes "printable t" and "map_of r ''valid_to'' = Some (JStr (openssl_date t))"
  shows "\<exists>n. dget (cert_of lib now r) ''days_to_expiry'' = Some (JInt n) \<and> n * 86400000 \<le> instant t - now \<and>
    instant t - now < (n + 1) * 86400000 \<and> (n < 0) = (instant t < now)"
proof -
  let ?n = "(instant t - now) div 86400000"
  have ne: "openssl_date t \<noteq> []" by (simp add: openssl_date_def)
  then have "or_empty (val_of r ''valid_to'') = openssl_date t"
    using assms(2) by (simp add: or_empty_def val_of_def dget_or_def)
  then have "dget (cert_of lib now r) ''days_to_expiry'' = Some (JInt ?n)"
    using openssl_read [OF assms(1)] openssl_strip [OF assms(1)] ne by (simp add: cert_of_def parse_days_to_def Let_def)
  moreover have "?n * 86400000 \<le> instant t - now" "instant t - now < (?n + 1) * 86400000"
    using div_mult_mod_eq [of "instant t - now" 86400000] pos_mod_bound [of 86400000 "instant t - now"]
      pos_mod_sign [of 86400000 "instant t - now"] by (simp, simp add: algebra_simps)
  moreover have "(?n < 0) = (instant t < now)" by (simp add: pos_imp_zdiv_neg_iff)
  ultimately show ?thesis by blast
qed

definition demo_expiry :: moment where
  "demo_expiry = \<lparr>mo_year = 2027, mo_month = 5, mo_day = 9, mo_hour = 12, mo_minute = 34, mo_second = 56\<rparr>"

theorem expiry_days_witness:
  "dget (cert_of \<lparr>pl_zones = []\<rparr> (instant demo_expiry + 1)
     [(''valid_to'', JStr ''May  9 12:34:56 2027 GMT'')]) ''days_to_expiry'' = Some (JInt (-1))"
proof -
  have "printable demo_expiry" "openssl_date demo_expiry = ''May  9 12:34:56 2027 GMT''" by code_simp+
  then have "map_of [(''valid_to'', JStr ''May  9 12:34:56 2027 GMT'')] ''valid_to'' = Some (JStr (openssl_date demo_expiry))" by simp
  from expiry_days [OF \<open>printable demo_expiry\<close> this, of "\<lparr>pl_zones = []\<rparr>"
      "instant demo_expiry + 1"]
  obtain n where n: "dget (cert_of \<lparr>pl_zones = []\<rparr> (instant demo_expiry + 1)
     [(''valid_to'', JStr ''May  9 12:34:56 2027 GMT'')]) ''days_to_expiry'' = Some (JInt n)"
    "-1 < (n + 1) * 86400000" "n < 0" by auto
  have "n = -1"
  proof (rule ccontr)
    assume "n \<noteq> -1"
    with n(3) have "n + 1 \<le> -1" by linarith
    from mult_right_mono [OF this, of 86400000] n(2) show False by simp
  qed
  with n(1) show ?thesis by simp
qed

section \<open>Later dates are later instants\<close>

text \<open>The days before a month, and those of the months up to it.\<close>

lemma month_positive: "1 \<le> m \<Longrightarrow> m \<le> 12 \<Longrightarrow> 0 < month_days y m"
proof -
  assume m: "1 \<le> m" "m \<le> 12"
  have "list_all (\<lambda>k. 0 < ([31, 28, 31, 30, 31, 30, 31, 31, 30, 31, 30, 31 :: int] ! k)) [0..<12]" by code_simp
  moreover from m have "m - 1 < 12" by linarith
  ultimately show ?thesis by (simp add: month_days_def list_all_iff)
qed

lemma months_mono: "1 \<le> m \<Longrightarrow> m < m' \<Longrightarrow> m' \<le> 12 \<Longrightarrow> days_before_month y m + month_days y m \<le> days_before_month y m'"
proof (induction m')
  case (Suc m')
  then have step: "days_before_month y (Suc m') = days_before_month y m' + month_days y m'" by (intro month_step) simp
  show ?case
  proof (cases "m = m'")
    case False
    with Suc have "days_before_month y m + month_days y m \<le> days_before_month y m'" by simp
    moreover have "0 < month_days y m'" using Suc.prems by (intro month_positive) auto
    ultimately show ?thesis using step by simp
  qed (use step in simp)
qed simp

lemma day_in_year:
  assumes "1 \<le> m" "m \<le> 12" "1 \<le> d" "d \<le> month_days y m"
  shows "days_before_year y < ordinal y m d" "ordinal y m d \<le> days_before_year (y + 1)"
proof -
  have "0 \<le> days_before_month y m"
    unfolding days_before_month_def using assms(2) by (intro sum_list_nonneg) (auto intro!: less_imp_le [OF month_positive])
  with assms(3) show "days_before_year y < ordinal y m d" by (simp add: ordinal_def)
  have "days_before_month y m + month_days y m \<le> (if leap_year y then 366 else 365)"
  proof (cases "m = 12")
    case False
    with assms have "days_before_month y m + month_days y m \<le> days_before_month y 12" by (intro months_mono) simp_all
    then show ?thesis using year_length [of y] month_positive [of 12 y] by simp
  qed (use year_length [of y] in simp)
  with assms(4) year_step [of y] show "ordinal y m d \<le> days_before_year (y + 1)" by (simp add: ordinal_def)
qed

lemma years_mono: "y \<le> y' \<Longrightarrow> days_before_year y \<le> days_before_year y'"
proof (induction y' rule: int_ge_induct)
  case (step y')
  then show ?case using year_step [of y'] by (simp split: if_splits)
qed simp

definition day_before :: "moment \<Rightarrow> moment \<Rightarrow> bool" where
  "day_before t u = (mo_year t < mo_year u \<or> mo_year t = mo_year u \<and>
     (mo_month t < mo_month u \<or> mo_month t = mo_month u \<and> mo_day t < mo_day u))"

definition seconds :: "moment \<Rightarrow> int" where
  "seconds t = 3600 * mo_hour t + 60 * mo_minute t + mo_second t"

lemma ordinal_mono:
  assumes "valid_moment t" "valid_moment u" "day_before t u"
  shows "ordinal (mo_year t) (mo_month t) (mo_day t) < ordinal (mo_year u) (mo_month u) (mo_day u)"
proof -
  note v = assms(1,2) [unfolded valid_moment_def]
  from assms(3) consider "mo_year t < mo_year u"
    | "mo_year t = mo_year u" "mo_month t < mo_month u" | "mo_year t = mo_year u" "mo_month t = mo_month u" "mo_day t < mo_day u"
    unfolding day_before_def by blast
  then show ?thesis
  proof cases
    case 1
    have "ordinal (mo_year t) (mo_month t) (mo_day t) \<le> days_before_year (mo_year t + 1)" using v by (intro day_in_year) auto
    also have "\<dots> \<le> days_before_year (mo_year u)" using 1 by (intro years_mono) simp
    also have "\<dots> < ordinal (mo_year u) (mo_month u) (mo_day u)" using v by (intro day_in_year) auto
    finally show ?thesis .
  next
    case 2
    have "days_before_month (mo_year t) (mo_month t) + month_days (mo_year t) (mo_month t) \<le> days_before_month (mo_year t) (mo_month u)"
      using v 2 by (intro months_mono) auto
    then show ?thesis using v 2 by (simp add: ordinal_def)
  qed (simp add: ordinal_def)
qed

text \<open>An instant is earlier than another exactly if its day is, or its time on the same day.\<close>

lemma instant_less:
  assumes "valid_moment t" "valid_moment u"
  shows "instant t < instant u \<longleftrightarrow> day_before t u \<or> \<not> day_before u t \<and> seconds t < seconds u"
proof -
  have s: "0 \<le> seconds x \<and> seconds x < 86400" if "valid_moment x" for x
    using that unfolding valid_moment_def seconds_def by linarith
  have i: "instant x = 1000 * (86400 * ordinal (mo_year x) (mo_month x) (mo_day x) + seconds x)" for x
    by (simp add: instant_def seconds_def)
  have "\<not> day_before t u \<Longrightarrow> \<not> day_before u t \<Longrightarrow> mo_year t = mo_year u \<and> mo_month t = mo_month u \<and> mo_day t = mo_day u"
    unfolding day_before_def by linarith
  then show ?thesis
    using ordinal_mono [OF assms] ordinal_mono [OF assms(2,1)] s [OF assms(1)] s [OF assms(2)] unfolding i
    by (cases "day_before t u"; cases "day_before u t") auto
qed

end
