(* ===== verification/Spec2Isabelle.thy ===== *)
theory Spec2Isabelle
  imports Verified_Props Legacy_Props Firewall_Props Catalog_Props Operations_Props Crl_Props Divergence_Props Handlers_Props Log_File_Props Metrics_Props Backups_Props Locks_Props Dates_Props
begin

text \<open>
  A verification development for the OPNsense plugin of PegaProx.

  THE PROGRAM. The plugin (Python, \<^verbatim>\<open>src/__init__.py\<close> and the packages under \<^verbatim>\<open>src/src/\<close>) runs inside the host
  application PegaProx, which calls one handler for each route. A handler reads the configuration, asks the host
  application for the permission, chooses the firewall of the pair that leads it (CARP), and then collects data
  from that firewall or changes it through its HTTP API. What changes a firewall leaves lines in an audit log.

  PROGRAMS AS DEFINITIONS. \<^verbatim>\<open>Prelude\<close> has JSON values (dictionaries are association lists in insertion order) and
  text, \<^verbatim>\<open>Pylib\<close> and \<^verbatim>\<open>Netlib\<close> what the code uses of the Python library (integers, \<^verbatim>\<open>json.dumps\<close>, equality, UUIDs,
  addresses), \<^verbatim>\<open>Floats\<close> its floating-point numbers, \<^verbatim>\<open>Sha256\<close> the digest on 32-bit words. \<^verbatim>\<open>Effects\<close> has the programs: a program takes an environment and the
  trace of what happened so far, and gives a value or an exception and the longer trace. An event is an HTTP request
  with its outcome, an audit line with what the log said, or a pause. The environment answers as a function of the
  whole trace, so a firewall may answer differently each time. \<^verbatim>\<open>runs m Q\<close> says that whatever the environment and the
  past, the result and the new events satisfy Q; \<^verbatim>\<open>targets\<close> are the requests of a trace that are no GET.
  \<^verbatim>\<open>Monitor\<close> is the state machine of a mutation that is reserved in the log first (steps, reachable phases, the locale
  \<^verbatim>\<open>audited_mutation\<close>), \<^verbatim>\<open>Sending\<close> and \<^verbatim>\<open>Reporting\<close> hold the shared facts on plans of requests and on lines (locale
  \<^verbatim>\<open>reporter\<close>).

  THE PARTS, with the files under \<^verbatim>\<open>src/src/\<close> they model:
  - \<^verbatim>\<open>Client\<close>, client/opnsense_client.py: a request with its retries, waits and errors.
  - \<^verbatim>\<open>Carp\<close>, collectors/carp.py and client/cluster.py: role of a node, the pair, its master.
  - \<^verbatim>\<open>Audit_Log\<close>, \<^verbatim>\<open>Log_File\<close>, writers/audit.py: digests and entries; the log as a file, appending and reading it back
    with a JSON parser. \<^verbatim>\<open>Json_Text\<close>, \<^verbatim>\<open>Json_Canon\<close>: what is written as JSON is read back.
  - \<^verbatim>\<open>Forms\<close>, \<^verbatim>\<open>Verified\<close>, \<^verbatim>\<open>Execute\<close>, writers/verified.py: the verified writer (search, get, create, update, delete, with
    revision check, readback, synchronisation of the peer and rollback). \<^verbatim>\<open>Verified_Facts\<close>, \<^verbatim>\<open>Verified_Props\<close>: C1 to C6,
    C8, C9.
  - \<^verbatim>\<open>HaVerify\<close>, writers/hasync_writer.py: pushing to the peer and comparing with it; the locale \<^verbatim>\<open>observer\<close> is what the
    unverified writers use of it.
  - \<^verbatim>\<open>Legacy\<close>, \<^verbatim>\<open>Legacy_Kinds\<close>, the other writers (alias, rule, nat, one_to_one, wireguard_peer, dhcp, dhcp_subnet,
    unbound): one life cycle, taken over a record of paths, names and checks for each kind of object, because the
    classes repeat the same methods; \<^verbatim>\<open>Legacy_Routes\<close>, routes/nat.py, one_to_one.py, wg.py, dhcp.py, dhcp_subnet.py,
    unbound.py. \<^verbatim>\<open>Legacy_Facts\<close> (locale \<^verbatim>\<open>crud_actions\<close> with eight interpretations), \<^verbatim>\<open>Legacy_Props\<close>: C10 to C13, C15.
  - \<^verbatim>\<open>Firewall_Input\<close>, \<^verbatim>\<open>Firewall_Routes\<close>, routes/firewall.py and writers/port_forward.py: parsing and showing rules,
    aliases and port forwards. \<^verbatim>\<open>Firewall_Facts\<close>, \<^verbatim>\<open>Firewall_Props\<close>: C17, C18, C20, C21.
  - \<^verbatim>\<open>Engine\<close>, \<^verbatim>\<open>Engine_Mutate\<close>, management/engine.py: the engine that manages any resource of a catalog; \<^verbatim>\<open>Catalog\<close>,
    \<^verbatim>\<open>Catalog_Settings\<close>, \<^verbatim>\<open>Catalog_Services\<close>, management/catalog.py: the catalog itself, every field of it.
    \<^verbatim>\<open>Engine_Facts\<close>, \<^verbatim>\<open>Engine_Props\<close>, \<^verbatim>\<open>Catalog_Props\<close>: C23 to C29.
  - \<^verbatim>\<open>Operations\<close>, management/operations.py: device operations. \<^verbatim>\<open>Operations_Facts\<close>, \<^verbatim>\<open>Operations_Props\<close>: C31 to C34.
  - \<^verbatim>\<open>Crl\<close>, management/crl.py: certificate revocation lists. \<^verbatim>\<open>Crl_Facts\<close>, \<^verbatim>\<open>Crl_Props\<close>: C35, C36.
  - \<^verbatim>\<open>Locks\<close>, the locks of writers/verified.py, management/engine.py and management/crl.py: the dictionaries in which a
    mutation looks its lock up, their guards, and the sections under the locks, as a relation of single steps of the
    threads of the process, where a thread carries out one of the mutations above. \<^verbatim>\<open>Locks_Props\<close>: C7.
  - \<^verbatim>\<open>Identity\<close>, management/identity_catalog.py: groups, users, certificate authorities and certificates.
  - \<^verbatim>\<open>Dates\<close>, the dates of collectors/certificates.py: the calendar and the two formats of \<^verbatim>\<open>strptime\<close>. \<^verbatim>\<open>Dates_Props\<close>: C22.
  - \<^verbatim>\<open>Collectors\<close>, the other files of collectors/; \<^verbatim>\<open>Views\<close>, routes/overview.py, network.py, logs.py, vpn.py;
    \<^verbatim>\<open>Divergence\<close>, divergence.py: the differences between two nodes. \<^verbatim>\<open>Divergence_Props\<close>, \<^verbatim>\<open>Views_Props\<close>: C37, C38.
  - \<^verbatim>\<open>Metrics\<close>, metrics/exporter.py: the Prometheus text, with a reader of the format in \<^verbatim>\<open>Metrics_Props\<close>: C14.
  - \<^verbatim>\<open>Base64\<close>, \<^verbatim>\<open>Backups\<close>, management/backups.py: the encrypted backups, a store that is state of its own.
    \<^verbatim>\<open>Backups_Props\<close>: C19, C30.
  - \<^verbatim>\<open>Plugin\<close>, \<^verbatim>\<open>Handlers\<close>, \<^verbatim>\<open>Register\<close>, \<^verbatim>\<open>src/__init__.py\<close>: configuration, master cache, the gate, every handler and the
    table of the routes. \<^verbatim>\<open>Handlers_Props\<close>: C16, C39. \<^verbatim>\<open>Log_File_Props\<close>: C40.

  WHAT THE PROPERTIES SAY. Writing: no request that may change a firewall leaves before its line in the log (C1, C23,
  C31), requests follow the protocol and nothing else is sent (C2, C6, C7, C10, C11, C33), nothing comes between the check of a revision and the change (C7), success is reported only for
  what was read back (C3, C21, C24, C32, C36), revisions are checked (C4, C25), refusals send nothing (C5, C12, C20),
  outcomes are logged (C8, C26), every mutation ends (C28). The gate: a write needs the configuration and the
  permission (C39) and goes to the node that leads every VIP (C16). Data: forms and values round trip and stay in their
  domains (C17, C18, C29, C35), secrets are not shown (C27, C34). Reading: the comparison of the nodes is exact (C37)
  but blind to fields no collector gives (C38); the days to the expiry of a certificate are exact (C22); the metrics route always answers (C14); log and backups are read back
  as written (C19, C40) and the backup store keeps account of every access (C30). Errors that are turned into results,
  and those that are let out, are C9, C13, C15.

  CONVENTIONS. A text is the list of its UTF-8 bytes; case, white space and digits are those of ASCII, lengths count
  characters. A floating-point number in a value is the text Python prints for it; \<^verbatim>\<open>Floats\<close> reads it, computes on IEEE
  doubles (every result is the nearest number, \<^verbatim>\<open>to_double_facts\<close>) and prints the shortest text that is read back.
  The text of a \<^verbatim>\<open>ManagementError\<close>, which is for
  people only, is left out; all other fields of replies are kept. The clock is a function of the trace, in
  milliseconds, also where a date is compared with it; month names are those of the C locale. A dictionary that a schema fixes has distinct keys. \<^verbatim>\<open>try/except\<close> with code after it is \<^verbatim>\<open>try_else\<close>, so
  that only what is inside is caught. One request is one program; that its section is not
  interrupted by another under the same lock is C7. The tasks of a thread pool run one after the other. \<^verbatim>\<open>urljoin\<close> joins an absolute path. The configuration
  and the permission do not change during a request. An integer text of more than 4300 digits raises \<^verbatim>\<open>ValueError\<close>, as in
  Python 3.11. Nesting that exceeds the recursion limit of the interpreter is not modelled.

  BOUNDS. A retry loop recurs on the attempts left. The scan of the engine for an object that must be gone stops after
  1000 pages, as in the code (\<^verbatim>\<open>max_page\<close>), and C28 counts the requests. The JSON parser takes the length of its text
  as fuel: every step consumes a character, and \<^verbatim>\<open>loads_dumps\<close> proves that it is enough for every text that was
  written. \<^verbatim>\<open>sanitize\<close> stops at depth 16, as in the code. A double has at most 323
  zeros after the point (the fuel of \<^verbatim>\<open>leading_zeros\<close> is 400) and is told from the others by 17 digits.

  PARAMETERS. The cryptography and XML packages, reading of certificates (\<^verbatim>\<open>crypto\<close>), the random generator, the file
  system of the backup store, the HTTP download of a backup, and the host application (permission, session,
  configuration file) are arguments or environments. What a proof needs of them is a named hypothesis:
  \<^verbatim>\<open>sound_crypto\<close> (decryption inverts encryption, a tag of 16 bytes, random texts of the length asked for).

  NOT MODELLED. The HTML, JavaScript and CSS of the user interface, of which the routes send the files; logging to the
  console; registration with the host application beyond the table of routes; making the directory of the audit log;
  the tests. \<^verbatim>\<open>OPNsenseClusterClient\<close> keeps a probe of the first node when that of the second fails; the model of
  \<^verbatim>\<open>ensure_probes\<close> passes no state out of an exception, and each request makes its own client.
\<close>

end
